(* ===== verification/Prelude.thy ===== *)
theory Prelude
  imports Complex_Main "HOL-Library.Multiset"
begin

text \<open>
  Shared vocabulary of the development.

  A raised exception is a value of \<open>exc\<close>; a function that may raise returns
  \<open>exc + 'a\<close>, with \<open>Inl\<close> for the exception (umlauts of its message are written as two letters). A table of the database is the list
  of its rows. SQL \<open>UPDATE ... WHERE\<close> and \<open>DELETE ... WHERE\<close> are
  \<open>update_where\<close> and \<open>delete_where\<close>; \<open>Query.first()\<close> is \<open>List.find\<close>.
  Python's \<open>list.sort(key=..., reverse=True)\<close> (stable) is \<open>sort_desc\<close>, and a page
  of a query (\<open>offset((page - 1) * size).limit(size)\<close>) is \<open>page_of\<close>.
  Identifiers (UUID columns) are natural numbers, instants (TIMESTAMPTZ columns) are
  integers counting microseconds, and \<open>Decimal\<close> amounts are rationals.
\<close>

named_theorems eval_simps \<open>definitions a concrete evaluation unfolds\<close>
named_theorems frame_simps \<open>what an operation leaves unchanged\<close>
named_theorems inv_intros \<open>preservation of the invariants of a component\<close>

type_synonym uuid = nat
type_synonym instant = int
type_synonym decimal = rat

section \<open>Exceptions and results\<close>

datatype exc =
    HTTPException nat string
  | HTTPExceptionList nat "string list"
  | RequestValidationError
  | ValueError
  | KeyError
  | OverflowError
  | IntegrityError
  | DataError
  | InvalidOperation
  | RecursionError
  | RuntimeError
  | ClientError
  | ArchiveMaintenanceError string

definition bind_res :: "'e + 'a \<Rightarrow> ('a \<Rightarrow> 'e + 'b) \<Rightarrow> 'e + 'b" where
  "bind_res m f = (case m of Inl e \<Rightarrow> Inl e | Inr x \<Rightarrow> f x)"

lemma bind_res_simps [simp]:
  "bind_res (Inl e) f = Inl e"
  "bind_res (Inr x) f = f x"
  by (simp_all add: bind_res_def)

lemma bind_res_eq_Inr: "bind_res m f = Inr y \<longleftrightarrow> (\<exists>x. m = Inr x \<and> f x = Inr y)"
  by (cases m) auto

lemma bind_res_eq_Inl: "bind_res m f = Inl e \<longleftrightarrow> m = Inl e \<or> (\<exists>x. m = Inr x \<and> f x = Inl e)"
  by (cases m) auto

fun map_res :: "('a \<Rightarrow> 'e + 'b) \<Rightarrow> 'a list \<Rightarrow> 'e + 'b list" where
  "map_res f [] = Inr []"
| "map_res f (x # xs) = bind_res (f x) (\<lambda>y. bind_res (map_res f xs) (\<lambda>ys. Inr (y # ys)))"

lemma map_res_Inr_map: "(\<And>x. x \<in> set xs \<Longrightarrow> f x = Inr (g x)) \<Longrightarrow> map_res f xs = Inr (map g xs)"
  by (induction xs) auto

lemma map_res_length: "map_res f xs = Inr ys \<Longrightarrow> length ys = length xs"
  by (induction xs arbitrary: ys) (auto simp: bind_res_eq_Inr)

lemma map_res_append:
  "map_res f (xs @ ys) = bind_res (map_res f xs) (\<lambda>as. bind_res (map_res f ys) (\<lambda>bs. Inr (as @ bs)))"
proof (induction xs)
  case Nil
  then show ?case by (cases "map_res f ys") auto
next
  case (Cons x xs)
  then show ?case
    by (cases "f x"; cases "map_res f xs"; cases "map_res f ys") auto
qed

fun fold_res :: "('a \<Rightarrow> 's \<Rightarrow> 'e + 's) \<Rightarrow> 'a list \<Rightarrow> 's \<Rightarrow> 'e + 's" where
  "fold_res f [] s = Inr s"
| "fold_res f (x # xs) s = bind_res (f x s) (fold_res f xs)"

lemma fold_res_invariant:
  assumes "fold_res f xs s = Inr t" and "P s"
    and "\<And>x u v. x \<in> set xs \<Longrightarrow> P u \<Longrightarrow> f x u = Inr v \<Longrightarrow> P v"
  shows "P t"
  using assms
proof (induction xs arbitrary: s)
  case Nil
  then show ?case by simp
next
  case (Cons x xs)
  from Cons.prems(1) obtain u where u: "f x s = Inr u" and rest: "fold_res f xs u = Inr t"
    by (auto simp: bind_res_eq_Inr)
  have "P u" using Cons.prems(2,3) u by auto
  with rest show ?case by (rule Cons.IH) (use Cons.prems(3) in auto)
qed

lemma fold_invariant':
  assumes "P s" and "\<And>x u. x \<in> set xs \<Longrightarrow> P u \<Longrightarrow> P (f x u)"
  shows "P (fold f xs s)"
  using assms by (induction xs arbitrary: s) auto

section \<open>Tables as lists of rows\<close>

definition update_where :: "('r \<Rightarrow> bool) \<Rightarrow> ('r \<Rightarrow> 'r) \<Rightarrow> 'r list \<Rightarrow> 'r list" where
  "update_where P f rows = map (\<lambda>r. if P r then f r else r) rows"

definition delete_where :: "('r \<Rightarrow> bool) \<Rightarrow> 'r list \<Rightarrow> 'r list" where
  "delete_where P rows = filter (\<lambda>r. \<not> P r) rows"

lemma set_update_where: "set (update_where P f rows) = (\<lambda>r. if P r then f r else r) ` set rows"
  by (simp add: update_where_def)

lemma set_delete_where [simp]: "set (delete_where P rows) = {r \<in> set rows. \<not> P r}"
  by (simp add: delete_where_def)

lemma length_update_where [simp]: "length (update_where P f rows) = length rows"
  by (simp add: update_where_def)

lemma update_where_Nil [simp]: "update_where P f [] = []"
  by (simp add: update_where_def)

lemma update_where_Cons [simp]:
  "update_where P f (r # rows) = (if P r then f r else r) # update_where P f rows"
  by (simp add: update_where_def)

lemma delete_where_Nil [simp]: "delete_where P [] = []"
  by (simp add: delete_where_def)

lemma delete_where_Cons [simp]:
  "delete_where P (r # rows) = (if P r then delete_where P rows else r # delete_where P rows)"
  by (simp add: delete_where_def)

lemma map_update_where_same:
  "(\<And>r. P r \<Longrightarrow> g (f r) = g r) \<Longrightarrow> map g (update_where P f rows) = map g rows"
  by (simp add: update_where_def)

lemma update_where_id: "(\<And>r. r \<in> set rows \<Longrightarrow> P r \<Longrightarrow> f r = r) \<Longrightarrow> update_where P f rows = rows"
  by (induction rows) auto

lemma filter_update_where_same:
  "(\<And>r. P r \<Longrightarrow> Q (f r) = Q r) \<Longrightarrow> filter Q (update_where P f rows) = update_where P f (filter Q rows)"
  by (induction rows) auto

lemma delete_where_id: "(\<And>r. r \<in> set rows \<Longrightarrow> \<not> P r) \<Longrightarrow> delete_where P rows = rows"
  by (induction rows) auto

lemma distinct_map_delete_where: "distinct (map g rows) \<Longrightarrow> distinct (map g (delete_where P rows))"
  by (simp add: delete_where_def distinct_map_filter)

definition get_by :: "('r \<Rightarrow> 'k) \<Rightarrow> 'r list \<Rightarrow> 'k \<Rightarrow> 'r option" where
  "get_by key rows k = List.find (\<lambda>r. key r = k) rows"

lemma get_by_simps [simp]:
  "get_by key [] k = None"
  "get_by key (r # rows) k = (if key r = k then Some r else get_by key rows k)"
  by (simp_all add: get_by_def)

lemma get_by_SomeD: "get_by key rows k = Some r \<Longrightarrow> r \<in> set rows \<and> key r = k"
  by (induction rows) (auto split: if_splits)

lemma get_by_None_iff: "get_by key rows k = None \<longleftrightarrow> k \<notin> key ` set rows"
  by (induction rows) auto

lemma get_by_distinct:
  "distinct (map key rows) \<Longrightarrow> r \<in> set rows \<Longrightarrow> get_by key rows (key r) = Some r"
  by (induction rows) (auto simp: rev_image_eqI)

lemma get_by_update_where_same_key:
  "(\<And>r. key (f r) = key r) \<Longrightarrow>
   get_by key (update_where P f rows) k =
     map_option (\<lambda>r. if P r then f r else r) (get_by key rows k)"
  by (induction rows) auto

lemma get_by_append:
  "get_by key (xs @ ys) k = (case get_by key xs k of Some r \<Rightarrow> Some r | None \<Rightarrow> get_by key ys k)"
  by (induction xs) auto

lemma find_None_filter: "List.find P xs = None \<longleftrightarrow> filter P xs = []"
  by (induction xs) auto

lemma find_SomeD: "List.find P xs = Some x \<Longrightarrow> x \<in> set xs \<and> P x"
  by (induction xs) (auto split: if_splits)

lemma find_append: "List.find P (xs @ ys) = (case List.find P xs of Some x \<Rightarrow> Some x | None \<Rightarrow> List.find P ys)"
  by (induction xs) auto

lemma find_exists_iff: "(\<exists>x. List.find P xs = Some x) \<longleftrightarrow> (\<exists>x \<in> set xs. P x)"
  by (induction xs) auto

section \<open>Sums\<close>

lemma sum_list_filter_split:
  fixes f :: "'a \<Rightarrow> 'b::comm_monoid_add"
  shows "sum_list (map f xs) = sum_list (map f (filter P xs)) + sum_list (map f (filter (\<lambda>x. \<not> P x) xs))"
  by (induction xs) (auto simp: ac_simps)

lemma sum_list_filter_disj:
  fixes f :: "'a \<Rightarrow> 'b::comm_monoid_add"
  assumes "\<And>x. x \<in> set xs \<Longrightarrow> \<not> (P x \<and> Q x)"
  shows "sum_list (map f (filter (\<lambda>x. P x \<or> Q x) xs)) =
         sum_list (map f (filter P xs)) + sum_list (map f (filter Q xs))"
  using assms by (induction xs) (auto simp: ac_simps)

lemma sum_list_mset_cong: "mset xs = mset ys \<Longrightarrow> sum_list xs = (sum_list ys :: 'b::comm_monoid_add)"
  by (metis sum_mset_sum_list)

lemma sum_list_map_sort_key [simp]:
  fixes g :: "'a \<Rightarrow> 'b::comm_monoid_add"
  shows "sum_list (map g (sort_key k xs)) = sum_list (map g xs)"
  by (rule sum_list_mset_cong) simp

section \<open>Stable descending sort and pages\<close>

definition sort_desc :: "('a \<Rightarrow> 'k::linorder) \<Rightarrow> 'a list \<Rightarrow> 'a list" where
  "sort_desc key xs = rev (sort_key key (rev xs))"

lemma set_sort_desc [simp]: "set (sort_desc key xs) = set xs"
  by (simp add: sort_desc_def)

lemma mset_sort_desc [simp]: "mset (sort_desc key xs) = mset xs"
  by (simp add: sort_desc_def)

lemma length_sort_desc [simp]: "length (sort_desc key xs) = length xs"
  by (simp add: sort_desc_def)

lemma sort_desc_sorted: "sorted_wrt (\<lambda>a b. key b \<le> key a) (sort_desc key xs)"
proof -
  have "sorted_wrt (\<lambda>a b. key a \<le> key b) (sort_key key (rev xs))"
    using sorted_sort_key [of key "rev xs"] by (simp add: sorted_map)
  then show ?thesis by (simp add: sort_desc_def sorted_wrt_rev)
qed

definition page_of :: "nat \<Rightarrow> nat \<Rightarrow> 'a list \<Rightarrow> 'a list" where
  "page_of n page xs = take n (drop ((page - 1) * n) xs)"

lemma length_page_of: "length (page_of n page xs) \<le> n"
  by (simp add: page_of_def)

lemma set_page_of: "set (page_of n page xs) \<subseteq> set xs"
  by (auto simp: page_of_def dest: in_set_takeD in_set_dropD)

text \<open>The pages \<open>1 \<dots> n\<close> of a list, put together, are its first \<open>n * k\<close> entries.\<close>

lemma concat_pages: "concat (map (\<lambda>p. page_of k p xs) [1..<Suc n]) = take (n * k) xs"
proof (induction n)
  case 0
  then show ?case by simp
next
  case (Suc n)
  have "concat (map (\<lambda>p. page_of k p xs) [1..<Suc (Suc n)]) =
        take (n * k) xs @ take k (drop (n * k) xs)"
    using Suc.IH by (simp add: page_of_def)
  then show ?case by (simp add: take_add [symmetric] add.commute)
qed

end
