(* ===== verification/Calendar.thy ===== *)
theory Calendar
  imports Prelude "HOL-Library.Char_ord" "HOL-Library.List_Lexorder" "HOL-Library.Product_Lexorder"
begin

text \<open>
  Python's \<open>datetime.date\<close>: the proleptic Gregorian calendar of the years 1 to 9999, as far
  as the services use it. Construction raises \<open>ValueError\<close>, leaving the range by adding or
  subtracting a day raises \<open>OverflowError\<close>. \<open>isoformat\<close> and \<open>fromisoformat\<close> are the text
  forms that keys and request parameters use; month arithmetic follows the fee service.
\<close>

section \<open>Dates\<close>

datatype date = Date (year: int) (month: int) (day: int)

definition date_key :: "date \<Rightarrow> int \<times> int \<times> int" where
  "date_key d = (year d, month d, day d)"

lemma date_key_inject [simp]: "date_key a = date_key b \<longleftrightarrow> a = b"
  by (cases a; cases b) (simp add: date_key_def)

instantiation date :: linorder
begin

definition less_eq_date :: "date \<Rightarrow> date \<Rightarrow> bool" where
  "less_eq_date a b \<longleftrightarrow> date_key a \<le> date_key b"

definition less_date :: "date \<Rightarrow> date \<Rightarrow> bool" where
  "less_date a b \<longleftrightarrow> date_key a < date_key b"

instance
proof
  fix x y z :: date
  show "(x < y) = (x \<le> y \<and> \<not> y \<le> x)" by (simp only: less_eq_date_def less_date_def less_le_not_le)
  show "x \<le> x" by (simp add: less_eq_date_def)
  show "x \<le> y \<Longrightarrow> y \<le> z \<Longrightarrow> x \<le> z" by (simp add: less_eq_date_def)
  show "x \<le> y \<Longrightarrow> y \<le> x \<Longrightarrow> x = y"
    by (metis less_eq_date_def order_antisym date_key_inject)
  show "x \<le> y \<or> y \<le> x" by (auto simp: less_eq_date_def)
qed

end

lemma date_le_iff [simp, code]:
  "Date y m d \<le> Date y' m' d' \<longleftrightarrow> y < y' \<or> (y = y' \<and> (m < m' \<or> (m = m' \<and> d \<le> d')))"
  by (auto simp: less_eq_date_def date_key_def)

lemma date_less_iff [simp, code]:
  "Date y m d < Date y' m' d' \<longleftrightarrow> y < y' \<or> (y = y' \<and> (m < m' \<or> (m = m' \<and> d < d')))"
  by (auto simp: less_date_def date_key_def)

definition is_leap :: "int \<Rightarrow> bool" where
  "is_leap y \<longleftrightarrow> y mod 4 = 0 \<and> (y mod 100 \<noteq> 0 \<or> y mod 400 = 0)"

definition days_in_month :: "int \<Rightarrow> int \<Rightarrow> int" where
  "days_in_month y m =
     (if m = 2 then (if is_leap y then 29 else 28)
      else if m = 4 \<or> m = 6 \<or> m = 9 \<or> m = 11 then 30 else 31)"

lemma days_in_month_bounds: "28 \<le> days_in_month y m" "days_in_month y m \<le> 31"
  by (auto simp: days_in_month_def)

fun valid_date :: "date \<Rightarrow> bool" where
  "valid_date (Date y m d) \<longleftrightarrow>
     1 \<le> y \<and> y \<le> 9999 \<and> 1 \<le> m \<and> m \<le> 12 \<and> 1 \<le> d \<and> d \<le> days_in_month y m"

definition mk_date :: "int \<Rightarrow> int \<Rightarrow> int \<Rightarrow> exc + date" where
  "mk_date y m d = (if valid_date (Date y m d) then Inr (Date y m d) else Inl ValueError)"

lemma mk_date_InrD: "mk_date y m d = Inr x \<Longrightarrow> x = Date y m d \<and> valid_date x"
  by (auto simp: mk_date_def split: if_splits)

lemma mk_date_first [simp]:
  "1 \<le> y \<Longrightarrow> y \<le> 9999 \<Longrightarrow> 1 \<le> m \<Longrightarrow> m \<le> 12 \<Longrightarrow> mk_date y m 1 = Inr (Date y m 1)"
  using days_in_month_bounds(1) [of y m] by (simp add: mk_date_def)

text \<open>\<open>d.replace(day=1)\<close>: always a date.\<close>

definition first_of_month :: "date \<Rightarrow> date" where
  "first_of_month d = Date (year d) (month d) 1"

lemma first_of_month_Date [simp]: "first_of_month (Date y m d) = Date y m 1"
  by (simp add: first_of_month_def)

lemma first_of_month_idem [simp]: "first_of_month (first_of_month d) = first_of_month d"
  by (simp add: first_of_month_def)

lemma first_of_month_sel [simp]:
  "year (first_of_month d) = year d" "month (first_of_month d) = month d" "day (first_of_month d) = 1"
  by (simp_all add: first_of_month_def)

lemma valid_first_of_month: "valid_date d \<Longrightarrow> valid_date (first_of_month d)"
  by (cases d) (use days_in_month_bounds(1) in auto)

lemma first_of_month_le: "valid_date d \<Longrightarrow> first_of_month d \<le> d"
  by (cases d) auto

text \<open>\<open>d - timedelta(days=1)\<close>.\<close>

definition prev_day :: "date \<Rightarrow> exc + date" where
  "prev_day d =
     (if 1 < day d then Inr (Date (year d) (month d) (day d - 1))
      else if 1 < month d
        then Inr (Date (year d) (month d - 1) (days_in_month (year d) (month d - 1)))
      else if 1 < year d then Inr (Date (year d - 1) 12 31)
      else Inl OverflowError)"

lemma prev_day_valid: "valid_date d \<Longrightarrow> prev_day d = Inr p \<Longrightarrow> valid_date p"
  by (cases d) (auto simp: prev_day_def days_in_month_def split: if_splits)

lemma prev_day_less: "valid_date d \<Longrightarrow> prev_day d = Inr p \<Longrightarrow> p < d"
  by (cases d; cases p) (auto simp: prev_day_def split: if_splits)

text \<open>Nothing lies strictly between a day and the day before it.\<close>

lemma prev_day_adjacent:
  assumes "valid_date d" "prev_day d = Inr p" "valid_date x"
  shows "x \<le> p \<longleftrightarrow> x < d"
proof (cases d)
  case (Date y m dd)
  obtain xy xm xd where x: "x = Date xy xm xd" by (cases x)
  have bnd: "1 \<le> xm" "xm \<le> 12" "1 \<le> xd" "xd \<le> days_in_month xy xm" "xd \<le> 31"
    using assms(3) days_in_month_bounds(2) [of xy xm] by (auto simp: x)
  have "1 < dd \<or> dd = 1 \<and> 1 < m \<or> dd = 1 \<and> m = 1 \<and> 1 < y \<or> dd = 1 \<and> m = 1 \<and> y = 1"
    using assms(1) by (auto simp: Date)
  then consider "1 < dd" | "dd = 1" "1 < m" | "dd = 1" "m = 1" "1 < y" | "dd = 1" "m = 1" "y = 1"
    by blast
  then show ?thesis
  proof cases
    case 1
    then have "p = Date y m (dd - 1)" using assms(2) by (simp add: prev_day_def Date)
    then show ?thesis using 1 by (auto simp: x Date)
  next
    case 2
    then have "p = Date y (m - 1) (days_in_month y (m - 1))"
      using assms(2) by (simp add: prev_day_def Date)
    then show ?thesis using 2 bnd by (cases "xy = y \<and> xm = m - 1") (auto simp: x Date)
  next
    case 3
    then have "p = Date (y - 1) 12 31" using assms(2) by (simp add: prev_day_def Date)
    then show ?thesis using 3 bnd by (auto simp: x Date)
  next
    case 4
    then show ?thesis using assms(2) by (simp add: prev_day_def Date)
  qed
qed

text \<open>The last day of a month, written as the code does: the day before the next first.\<close>

definition end_of_month :: "date \<Rightarrow> exc + date" where
  "end_of_month t =
     (if month t = 12 then bind_res (mk_date (year t + 1) 1 1) prev_day
      else bind_res (mk_date (year t) (month t + 1) 1) prev_day)"

lemma end_of_month_eq:
  assumes "valid_date t" and "(year t, month t) \<noteq> (9999, 12)"
  shows "end_of_month t = Inr (Date (year t) (month t) (days_in_month (year t) (month t)))"
proof (cases t)
  case (Date y m d)
  show ?thesis
  proof (cases "m = 12")
    case True
    with assms Date have "1 \<le> y + 1" "y + 1 \<le> 9999" by auto
    with True assms Date show ?thesis
      by (simp add: end_of_month_def prev_day_def days_in_month_def)
  next
    case False
    with assms Date show ?thesis by (simp add: end_of_month_def prev_day_def)
  qed
qed

lemma end_of_month_overflow: "end_of_month (Date 9999 12 d) = Inl ValueError"
  by (simp add: end_of_month_def mk_date_def)

section \<open>Text form\<close>

definition digit :: "int \<Rightarrow> char" where
  "digit n = char_of (48 + nat n)"

definition digit_val :: "char \<Rightarrow> int option" where
  "digit_val c = (let n = of_char c in if 48 \<le> n \<and> n \<le> (57 :: nat) then Some (int n - 48) else None)"

lemma digit_val_digit [simp]: "0 \<le> n \<Longrightarrow> n \<le> 9 \<Longrightarrow> digit_val (digit n) = Some n"
  by (simp add: digit_val_def digit_def)

lemma of_char_digit: "0 \<le> n \<Longrightarrow> n \<le> 9 \<Longrightarrow> of_char (digit n) = 48 + nat n"
  by (simp add: digit_def)

lemma digit_less_iff [simp]:
  "0 \<le> a \<Longrightarrow> a \<le> 9 \<Longrightarrow> 0 \<le> b \<Longrightarrow> b \<le> 9 \<Longrightarrow> digit a < digit b \<longleftrightarrow> a < b"
  by (auto simp: less_char_def of_char_digit)

lemma digit_eq_iff [simp]:
  "0 \<le> a \<Longrightarrow> a \<le> 9 \<Longrightarrow> 0 \<le> b \<Longrightarrow> b \<le> 9 \<Longrightarrow> digit a = digit b \<longleftrightarrow> a = b"
  by (metis digit_val_digit option.inject)

lemma digit_neq_of_char:
  assumes "0 \<le> a" "a \<le> 9" and "of_char c < (48 :: nat) \<or> (57 :: nat) < of_char c"
  shows "digit a \<noteq> c"
proof
  assume "digit a = c"
  then have "of_char c = (48 + nat a :: nat)" using of_char_digit [OF assms(1,2)] by simp
  with assms show False by auto
qed

lemma digit_neq_chars [simp]:
  "0 \<le> a \<Longrightarrow> a \<le> 9 \<Longrightarrow> digit a \<noteq> CHR ''-''"
  "0 \<le> a \<Longrightarrow> a \<le> 9 \<Longrightarrow> digit a \<noteq> CHR ''W''"
  by (rule digit_neq_of_char; simp)+

definition isoformat :: "date \<Rightarrow> string" where
  "isoformat d =
     (let y = year d; m = month d; t = day d in
      [digit (y div 1000), digit (y div 100 mod 10), digit (y div 10 mod 10), digit (y mod 10),
       CHR ''-'', digit (m div 10), digit (m mod 10),
       CHR ''-'', digit (t div 10), digit (t mod 10)])"

text \<open>A number of exactly \<open>n\<close> ASCII digits at the front of a text, and what follows it.\<close>

fun parse_digits :: "nat \<Rightarrow> int \<Rightarrow> string \<Rightarrow> (int \<times> string) option" where
  "parse_digits 0 acc s = Some (acc, s)"
| "parse_digits (Suc n) acc [] = None"
| "parse_digits (Suc n) acc (c # s) =
     (case digit_val c of None \<Rightarrow> None | Some v \<Rightarrow> parse_digits n (10 * acc + v) s)"

definition year_length :: "int \<Rightarrow> int" where
  "year_length y = (if is_leap y then 366 else 365)"

definition days_before_year :: "int \<Rightarrow> int" where
  "days_before_year y = (let p = y - 1 in p * 365 + p div 4 - p div 100 + p div 400)"

fun month_and_day :: "int \<Rightarrow> int list \<Rightarrow> int \<Rightarrow> int \<times> int" where
  "month_and_day y [] k = (13, k + 1)"
| "month_and_day y (m # ms) k =
     (if k < days_in_month y m then (m, k + 1) else month_and_day y ms (k - days_in_month y m))"

text \<open>The date of the \<open>k\<close>-th day (from 0) of year \<open>y\<close>, reaching into the neighbouring years.\<close>

definition date_in_year :: "int \<Rightarrow> int \<Rightarrow> exc + date" where
  "date_in_year y k =
     (let (y', k') = (if k < 0 then (y - 1, k + year_length (y - 1))
                      else if year_length y \<le> k then (y + 1, k - year_length y) else (y, k));
          (m, d) = month_and_day y' [1 .. 12] k'
      in mk_date y' m d)"

definition iso_week_date :: "int \<Rightarrow> int \<Rightarrow> int \<Rightarrow> exc + date" where
  "iso_week_date y w d =
     (let first_weekday = days_before_year y mod 7;
          weeks = (if first_weekday = 3 \<or> (first_weekday = 2 \<and> is_leap y) then 53 else 52);
          monday = (if 3 < first_weekday then 7 - first_weekday else - first_weekday)
      in if y < 1 \<or> w < 1 \<or> weeks < w \<or> d < 1 \<or> 7 < d then Inl ValueError
         else date_in_year y (monday + (w - 1) * 7 + (d - 1)))"

text \<open>A separator is skipped; where the text uses separators it has to be there.\<close>

definition skip_separator :: "bool \<Rightarrow> string \<Rightarrow> string option" where
  "skip_separator sep s =
     (if \<not> sep then Some s
      else case s of [] \<Rightarrow> None | c # s' \<Rightarrow> if c = CHR ''-'' then Some s' else None)"

definition parse_week_date :: "int \<Rightarrow> bool \<Rightarrow> string \<Rightarrow> exc + date" where
  "parse_week_date y sep s =
     (case parse_digits 2 0 s of
        None \<Rightarrow> Inl ValueError
      | Some (w, s1) \<Rightarrow>
          (if s1 = [] then iso_week_date y w 1
           else case skip_separator sep s1 of
             None \<Rightarrow> Inl ValueError
           | Some s2 \<Rightarrow>
               (case parse_digits 1 0 s2 of
                  None \<Rightarrow> Inl ValueError
                | Some (d, _) \<Rightarrow> iso_week_date y w d)))"

definition parse_month_day :: "int \<Rightarrow> bool \<Rightarrow> string \<Rightarrow> exc + date" where
  "parse_month_day y sep s =
     (case parse_digits 2 0 s of
        None \<Rightarrow> Inl ValueError
      | Some (m, s1) \<Rightarrow>
          (case skip_separator sep s1 of
             None \<Rightarrow> Inl ValueError
           | Some s2 \<Rightarrow>
               (case parse_digits 2 0 s2 of
                  None \<Rightarrow> Inl ValueError
                | Some (d, _) \<Rightarrow> mk_date y m d)))"

definition fromisoformat :: "string \<Rightarrow> exc + date" where
  "fromisoformat s =
     (if length s \<noteq> 7 \<and> length s \<noteq> 8 \<and> length s \<noteq> 10 then Inl ValueError
      else case parse_digits 4 0 s of
        None \<Rightarrow> Inl ValueError
      | Some (y, s1) \<Rightarrow>
          (let sep = (take 1 s1 = [CHR ''-'']); s2 = (if sep then drop 1 s1 else s1)
           in if take 1 s2 = [CHR ''W''] then parse_week_date y sep (drop 1 s2)
              else parse_month_day y sep s2))"

lemma length_isoformat [simp]: "length (isoformat d) = 10"
  by (simp add: isoformat_def Let_def)

lemma date_digits:
  assumes "valid_date (Date y m t)"
  shows "0 \<le> y div 1000" "y div 1000 \<le> 9" "0 \<le> m div 10" "m div 10 \<le> 9" "0 \<le> t div 10" "t div 10 \<le> 9"
proof -
  have "t \<le> 31" using assms days_in_month_bounds(2) [of y m] by simp
  then show "0 \<le> y div 1000" "y div 1000 \<le> 9" "0 \<le> m div 10" "m div 10 \<le> 9"
      "0 \<le> t div 10" "t div 10 \<le> 9"
    using assms by auto
qed

lemma mod10 [simp]: "0 \<le> x mod (10 :: int)" "x mod (10 :: int) \<le> 9"
  by presburger+

lemma div_chain: "x div 10 div 10 = x div (100 :: int)" "x div 100 div 10 = x div (1000 :: int)"
  by (simp_all add: zdiv_zmult2_eq [symmetric])

lemma year_digits_eq:
  "(y::int) = 1000 * (y div 1000) + 100 * (y div 100 mod 10) + 10 * (y div 10 mod 10) + y mod 10"
proof -
  define a b c where "a = y div 10" and "b = a div 10" and "c = b div 10"
  have c: "b = y div 100" "c = y div 1000" by (simp_all add: a_def b_def c_def div_chain)
  have "y = 10 * a + y mod 10" "a = 10 * b + a mod 10" "b = 10 * c + b mod 10"
    by (simp_all add: a_def b_def c_def)
  then have "y = 1000 * c + 100 * (b mod 10) + 10 * (a mod 10) + y mod 10" by linarith
  then show ?thesis by (simp only: c a_def)
qed

lemma digits_less_iff:
  fixes a0 a1 a2 a3 b0 b1 b2 b3 :: int
  assumes "0 \<le> a0" "a0 \<le> 9" "0 \<le> a1" "a1 \<le> 9" "0 \<le> a2" "a2 \<le> 9"
    and "0 \<le> b0" "b0 \<le> 9" "0 \<le> b1" "b1 \<le> 9" "0 \<le> b2" "b2 \<le> 9"
  shows "1000 * a3 + 100 * a2 + 10 * a1 + a0 < 1000 * b3 + 100 * b2 + 10 * b1 + b0 \<longleftrightarrow>
    a3 < b3 \<or> (a3 = b3 \<and> (a2 < b2 \<or> (a2 = b2 \<and> (a1 < b1 \<or> (a1 = b1 \<and> a0 < b0)))))"
  using assms by (cases a3 b3 rule: linorder_cases; cases a2 b2 rule: linorder_cases;
      cases a1 b1 rule: linorder_cases; simp)

lemma parse_two:
  assumes "0 \<le> x div 10" "x div 10 \<le> 9"
  shows "parse_digits 2 0 (digit (x div 10) # digit (x mod 10) # r) = Some (x, r)"
  using assms by (simp add: eval_nat_numeral)

lemma fromisoformat_isoformat:
  assumes "valid_date d"
  shows "fromisoformat (isoformat d) = Inr d"
proof (cases d)
  case (Date y m t)
  note dg = date_digits [OF assms [unfolded Date]]
  have horner: "10 * (10 * (10 * p + q) + r) + s = 1000 * p + 100 * q + 10 * r + s" for p q r s :: int
    by simp
  have y: "10 * (10 * (10 * (y div 1000) + y div 100 mod 10) + y div 10 mod 10) + y mod 10 = y"
    using year_digits_eq [of y] by (simp only: horner)
  have p4: "parse_digits 4 0 (isoformat d) =
      Some (y, [CHR ''-'', digit (m div 10), digit (m mod 10), CHR ''-'', digit (t div 10), digit (t mod 10)])"
    using dg y by (simp add: isoformat_def Date eval_nat_numeral)
  have mk: "mk_date y m t = Inr d" using assms by (simp add: mk_date_def Date)
  show ?thesis
    using dg mk by (simp add: fromisoformat_def p4 parse_month_day_def skip_separator_def parse_two)
qed

lemma lex2: "(a div 10 < b div 10 \<or> (a div 10 = b div 10 \<and> a mod 10 < b mod 10)) = (a < (b::int))"
  using digits_less_iff [of "a mod 10" 0 0 "b mod 10" 0 0 0 0]
    div_mult_mod_eq [of a 10] div_mult_mod_eq [of b 10] mod10 [of a] mod10 [of b] by linarith

lemma lex4:
  "(a div 1000 < b div 1000 \<or> (a div 1000 = b div 1000 \<and> (a div 100 mod 10 < b div 100 mod 10 \<or>
     (a div 100 mod 10 = b div 100 mod 10 \<and> (a div 10 mod 10 < b div 10 mod 10 \<or>
       (a div 10 mod 10 = b div 10 mod 10 \<and> a mod 10 < b mod 10)))))) = (a < (b::int))"
  using digits_less_iff [of "a mod 10" "a div 10 mod 10" "a div 100 mod 10" "b mod 10"
      "b div 10 mod 10" "b div 100 mod 10" "a div 1000" "b div 1000"]
  by (simp only: year_digits_eq [symmetric] mod10 simp_thms)

lemma digit_list_less_iff:
  assumes "list_all (\<lambda>x. 0 \<le> x \<and> x \<le> 9) [p1, p2, p3, p4, p5, p6, p7, p8]"
    and "list_all (\<lambda>x. 0 \<le> x \<and> x \<le> 9) [q1, q2, q3, q4, q5, q6, q7, q8]"
  shows "[digit p1, digit p2, digit p3, digit p4, c, digit p5, digit p6, c, digit p7, digit p8] <
      [digit q1, digit q2, digit q3, digit q4, c, digit q5, digit q6, c, digit q7, digit q8] \<longleftrightarrow>
    (p1 < q1 \<or> (p1 = q1 \<and> (p2 < q2 \<or> (p2 = q2 \<and> (p3 < q3 \<or> (p3 = q3 \<and> p4 < q4)))))) \<or>
    ((p1 = q1 \<and> p2 = q2 \<and> p3 = q3 \<and> p4 = q4) \<and>
     ((p5 < q5 \<or> (p5 = q5 \<and> p6 < q6)) \<or>
      ((p5 = q5 \<and> p6 = q6) \<and> (p7 < q7 \<or> (p7 = q7 \<and> p8 < q8)))))"
  using assms by (simp, argo)

text \<open>Sorting by the text form is sorting by date.\<close>

lemma isoformat_less_iff:
  assumes "valid_date a" "valid_date b"
  shows "isoformat a < isoformat b \<longleftrightarrow> a < b"
proof (cases a, cases b)
  fix y m t y' m' t'
  assume a: "a = Date y m t" and b: "b = Date y' m' t'"
  note da = date_digits [OF assms(1) [unfolded a]]
  note db = date_digits [OF assms(2) [unfolded b]]
  have ye: "(y div 1000 = y' div 1000 \<and> y div 100 mod 10 = y' div 100 mod 10 \<and>
      y div 10 mod 10 = y' div 10 mod 10 \<and> y mod 10 = y' mod 10) = (y = y')"
  proof
    assume "y div 1000 = y' div 1000 \<and> y div 100 mod 10 = y' div 100 mod 10 \<and>
      y div 10 mod 10 = y' div 10 mod 10 \<and> y mod 10 = y' mod 10"
    then show "y = y'" by (subst year_digits_eq [of y], subst year_digits_eq [of y']) simp
  qed simp
  have me: "(m div 10 = m' div 10 \<and> m mod 10 = m' mod 10) = (m = m')"
    by (metis div_mult_mod_eq)
  have "isoformat a < isoformat b \<longleftrightarrow> y < y' \<or> (y = y' \<and> (m < m' \<or> (m = m' \<and> t < t')))"
    unfolding isoformat_def a b Let_def date.sel
    by (subst digit_list_less_iff) (simp_all only: list.pred_inject da db mod10 simp_thms lex4 lex2 ye me)
  then show ?thesis by (simp add: a b)
qed

lemma isoformat_le_iff:
  "valid_date a \<Longrightarrow> valid_date b \<Longrightarrow> isoformat a \<le> isoformat b \<longleftrightarrow> a \<le> b"
  by (metis isoformat_less_iff linorder_not_le)

lemma isoformat_inject: "valid_date a \<Longrightarrow> valid_date b \<Longrightarrow> isoformat a = isoformat b \<longleftrightarrow> a = b"
  by (metis fromisoformat_isoformat sum.inject(2))

lemma mk_date_valid: "mk_date y m k = Inr d \<Longrightarrow> valid_date d"
  using mk_date_InrD by blast

lemma date_in_year_valid: "date_in_year y k = Inr d \<Longrightarrow> valid_date d"
  by (auto simp: date_in_year_def Let_def split: prod.splits intro: mk_date_valid)

lemma iso_week_date_valid: "iso_week_date y w k = Inr d \<Longrightarrow> valid_date d"
  by (auto simp: iso_week_date_def Let_def split: if_splits intro: date_in_year_valid)

lemma parse_week_date_valid: "parse_week_date y sep s = Inr d \<Longrightarrow> valid_date d"
  unfolding parse_week_date_def
  by (auto split: if_splits option.splits elim: iso_week_date_valid)

lemma parse_month_day_valid: "parse_month_day y sep s = Inr d \<Longrightarrow> valid_date d"
  unfolding parse_month_day_def
  by (auto split: if_splits option.splits elim: mk_date_valid)

lemma fromisoformat_valid: "fromisoformat s = Inr d \<Longrightarrow> valid_date d"
  unfolding fromisoformat_def Let_def
  by (auto split: if_splits option.splits elim: parse_week_date_valid parse_month_day_valid)

lemma end_of_month_valid: "end_of_month t = Inr d \<Longrightarrow> valid_date d"
  by (auto simp: end_of_month_def bind_res_eq_Inr split: if_splits
      intro: prev_day_valid mk_date_valid)

text \<open>\<open>d + timedelta(days=1)\<close>.\<close>

definition next_day :: "date \<Rightarrow> exc + date" where
  "next_day t =
     (if day t < days_in_month (year t) (month t) then Inr (Date (year t) (month t) (day t + 1))
      else if month t < 12 then Inr (Date (year t) (month t + 1) 1)
      else if year t = 9999 then Inl OverflowError
      else Inr (Date (year t + 1) 1 1))"

lemma next_day_valid: "valid_date d \<Longrightarrow> next_day d = Inr e \<Longrightarrow> valid_date e"
  by (cases d) (auto simp: next_day_def days_in_month_def split: if_splits)

end
