(* ===== verification/Members.thy ===== *)
theory Members
  imports Calendar
begin

text \<open>
  The member row (\<open>app/models/member.py\<close>) with its roles, badges and keys, the derived names,
  and the text helpers these use. The services read and write member columns by name
  (\<open>getattr\<close>, \<open>setattr\<close>, the dictionaries of the save requests), so a row is a map from
  column names to Python values; typed readers give the columns the services compute with.
\<close>

section \<open>Text helpers\<close>

definition is_space :: "char \<Rightarrow> bool" where
  "is_space c = (let n = of_char c in
     (9 \<le> n \<and> n \<le> 13) \<or> (28 \<le> n \<and> n \<le> 32) \<or> n = 133 \<or> n = (160 :: nat))"

text \<open>\<open>str.split()\<close>: the maximal runs of characters that are not white space.\<close>

fun split_ws_acc :: "string \<Rightarrow> string \<Rightarrow> string list" where
  "split_ws_acc acc [] = (if acc = [] then [] else [rev acc])"
| "split_ws_acc acc (c # s) =
     (if is_space c then (if acc = [] then split_ws_acc [] s else rev acc # split_ws_acc [] s)
      else split_ws_acc (c # acc) s)"

definition split_ws :: "string \<Rightarrow> string list" where
  "split_ws s = split_ws_acc [] s"

fun join :: "string \<Rightarrow> string list \<Rightarrow> string" where
  "join sep [] = []"
| "join sep [s] = s"
| "join sep (s # t # ss) = s @ sep @ join sep (t # ss)"

definition lstrip :: "string \<Rightarrow> string" where
  "lstrip s = dropWhile is_space s"

definition strip :: "string \<Rightarrow> string" where
  "strip s = rev (lstrip (rev (lstrip s)))"

text \<open>
  The trimming of a request (\<open>TrimmedInputModel\<close>) is that of pydantic-core, Rust's \<open>str::trim\<close>: it
  knows fewer characters as white space than Python does.
\<close>

definition is_white :: "char \<Rightarrow> bool" where
  "is_white c = (let n = of_char c in (9 \<le> n \<and> n \<le> 13) \<or> n = 32 \<or> n = 133 \<or> n = (160 :: nat))"

definition trim :: "string \<Rightarrow> string" where
  "trim s = rev (dropWhile is_white (rev (dropWhile is_white s)))"

lemma trim_ends: "trim s = [] \<or> \<not> is_white (hd (trim s)) \<and> \<not> is_white (last (trim s))"
proof (cases "trim s")
  case (Cons c w)
  let ?u = "dropWhile is_white s"
  obtain v where "rev ?u = v @ rev (trim s)"
    unfolding trim_def rev_rev_ident by (metis takeWhile_dropWhile_id)
  then have u: "?u = trim s @ rev v" by (metis rev_append rev_rev_ident)
  then have "hd ?u = hd (trim s)" "?u \<noteq> []" using Cons by auto
  then have "\<not> is_white (hd (trim s))" using hd_dropWhile [of is_white s] by simp
  moreover have rt: "dropWhile is_white (rev ?u) = rev (trim s)" by (simp add: trim_def)
  have "\<not> is_white (hd (rev (trim s)))"
    using Cons hd_dropWhile [of is_white "rev ?u"] unfolding rt by simp
  then have "\<not> is_white (last (trim s))" by (simp add: hd_rev)
  ultimately show ?thesis by blast
qed simp

lemma trim_id: "s = [] \<or> \<not> is_white (hd s) \<and> \<not> is_white (last s) \<Longrightarrow> trim s = s"
proof -
  assume ends: "s = [] \<or> \<not> is_white (hd s) \<and> \<not> is_white (last s)"
  have id: "dropWhile is_white u = u" if "u = [] \<or> \<not> is_white (hd u)" for u
    using that by (cases u) auto
  have l: "dropWhile is_white s = s" by (rule id) (use ends in blast)
  have "dropWhile is_white (rev s) = rev s" by (rule id) (use ends in \<open>auto simp: hd_rev\<close>)
  then show "trim s = s" by (simp add: trim_def l)
qed

lemma trim_trim [simp]: "trim (trim s) = trim s"
  by (rule trim_id) (rule trim_ends)

lemma trim_Nil [simp]: "trim [] = []"
  by (simp add: trim_def)

text \<open>
  Case. Characters are the first 256 code points: their lower case is exact, and the upper case
  is the one of ASCII letters (IBANs and organisation ids hold no others).
\<close>

definition to_lower_char :: "char \<Rightarrow> char" where
  "to_lower_char c = (let n = of_char c in
     if (65 \<le> n \<and> n \<le> 90) \<or> (192 \<le> n \<and> n \<le> 222 \<and> n \<noteq> (215 :: nat)) then char_of (n + 32) else c)"

definition to_upper_char :: "char \<Rightarrow> char" where
  "to_upper_char c = (let n = of_char c in if 97 \<le> n \<and> n \<le> (122 :: nat) then char_of (n - 32) else c)"

definition lower :: "string \<Rightarrow> string" where
  "lower s = map to_lower_char s"

definition upper :: "string \<Rightarrow> string" where
  "upper s = map to_upper_char s"

definition capitalize :: "string \<Rightarrow> string" where
  "capitalize s = (case s of [] \<Rightarrow> [] | c # cs \<Rightarrow> to_upper_char c # lower cs)"

text \<open>Decimal and hexadecimal digits.\<close>

fun digits_of_nat :: "nat \<Rightarrow> string" where
  "digits_of_nat n = (if n < 10 then [char_of (48 + n)] else digits_of_nat (n div 10) @ [char_of (48 + n mod 10)])"

declare digits_of_nat.simps [simp del]

definition text_of_int :: "int \<Rightarrow> string" where
  "text_of_int i = (if i < 0 then CHR ''-'' # digits_of_nat (nat (- i)) else digits_of_nat (nat i))"

definition hex_digit :: "nat \<Rightarrow> char" where
  "hex_digit n = (if n < 10 then char_of (48 + n) else char_of (87 + n))"

definition words_ok :: "string list \<Rightarrow> bool" where
  "words_ok ws \<longleftrightarrow> (\<forall>w \<in> set ws. w \<noteq> [] \<and> (\<forall>c \<in> set w. \<not> is_space c))"

lemma is_space_blank [simp]: "is_space CHR '' ''"
  by (simp add: is_space_def)

lemma words_ok_Cons: "words_ok (w # ws) \<longleftrightarrow> w \<noteq> [] \<and> (\<forall>c \<in> set w. \<not> is_space c) \<and> words_ok ws"
  by (auto simp: words_ok_def)

lemma words_ok_Nil [simp]: "words_ok []"
  by (simp add: words_ok_def)

lemma words_ok_split_acc: "\<forall>c \<in> set acc. \<not> is_space c \<Longrightarrow> words_ok (split_ws_acc acc s)"
proof (induction s arbitrary: acc)
  case Nil
  then show ?case by (simp add: words_ok_Cons)
next
  case (Cons c s)
  show ?case
  proof (cases "is_space c")
    case True
    then show ?thesis using Cons.IH [of "[]"] Cons.prems by (simp add: words_ok_Cons)
  next
    case False
    then show ?thesis using Cons.IH [of "c # acc"] Cons.prems by simp
  qed
qed

lemma words_ok_split [simp]: "words_ok (split_ws s)"
  by (simp add: split_ws_def words_ok_split_acc)

lemma split_acc_word:
  "\<forall>c \<in> set w. \<not> is_space c \<Longrightarrow> split_ws_acc acc (w @ s) = split_ws_acc (rev w @ acc) s"
  by (induction w arbitrary: acc) auto

lemma split_join_words: "words_ok ws \<Longrightarrow> split_ws (join '' '' ws) = ws"
proof (induction ws rule: induct_list012)
  case 1
  then show ?case by (simp add: split_ws_def)
next
  case (2 w)
  then show ?case
    using split_acc_word [of w "[]" "[]"] by (simp add: split_ws_def words_ok_def)
next
  case (3 w v ws)
  then have "\<forall>c \<in> set w. \<not> is_space c" "w \<noteq> []" "words_ok (v # ws)" by (auto simp: words_ok_def)
  then show ?case
    using "3.IH"(2) split_acc_word [of w "[]" "'' '' @ join '' '' (v # ws)"]
    by (simp add: split_ws_def)
qed

section \<open>The member row\<close>

datatype pyval =
    PNone
  | PBool bool
  | PInt int
  | PStr string
  | PDate date
  | PUuid uuid
  | PDec decimal
  | PTime instant

datatype member_field =
    F_vortitel | F_vorname | F_nachname | F_nachname_geburt | F_nachtitel | F_couleurname
  | F_org_id | F_state_id | F_gruender | F_entlassen | F_verstorben | F_parent_id
  | F_geburtsdatum | F_geburtsdatum_accuracy | F_aufnahmedatum | F_aufnahmedatum_accuracy
  | F_branderdatum | F_branderdatum_accuracy | F_burschungsdatum | F_burschungsdatum_accuracy
  | F_philistrierungsdatum | F_philistrierungsdatum_accuracy
  | F_entlassungsdatum | F_entlassungsdatum_accuracy | F_sterbedatum | F_sterbedatum_accuracy
  | F_email | F_email_verified_at | F_url | F_mkv_ogv_url
  | F_rufnummer_mobil | F_rufnummer_privat | F_rufnummer_beruf | F_zustellungen
  | F_adresse_privat_anschrift | F_adresse_privat_plz | F_adresse_privat_ort | F_adresse_privat_land
  | F_adresse_beruf_anschrift | F_adresse_beruf_plz | F_adresse_beruf_ort | F_adresse_beruf_land
  | F_arbeitgeber | F_taetigkeit | F_mitgliedschaften | F_verbandchargen | F_anmerkungen
  | F_grabadresse | F_chroniclemail
  | F_p4x_init_date | F_p4x_init_balance | F_p4x_freed | F_p4x_comment
  | F_auth_password | F_auth_lastlogin | F_auth_lastsignal | F_auth_lastlogout | F_auth_locked
  | F_modified_at | F_modified_by

record role =
  role_id :: string
  role_label :: "string option"
  role_group :: "string option"
  role_sort_order :: "int option"

text \<open>The reference tables of organisations and member states.\<close>

record lookup_row =
  lr_id :: string
  lr_label :: "string option"
  lr_sort_order :: "int option"

record member_role =
  mr_role_id :: string
  mr_startdate :: date
  mr_enddate :: "date option"
  mr_role :: "role option"

record presented_item =
  item_id :: uuid
  presentationdate :: "date option"
  presentationdate_accuracy :: int

record member =
  member_id :: uuid
  columns :: "member_field \<Rightarrow> pyval"
  member_roles :: "member_role list"
  member_badges :: "presented_item list"
  member_keys :: "presented_item list"

definition text_col :: "member \<Rightarrow> member_field \<Rightarrow> string option" where
  "text_col m f = (case columns m f of PStr s \<Rightarrow> Some s | _ \<Rightarrow> None)"

definition flag_col :: "member \<Rightarrow> member_field \<Rightarrow> bool" where
  "flag_col m f = (columns m f = PBool True)"

definition date_col :: "member \<Rightarrow> member_field \<Rightarrow> date option" where
  "date_col m f = (case columns m f of PDate d \<Rightarrow> Some d | _ \<Rightarrow> None)"

definition uuid_col :: "member \<Rightarrow> member_field \<Rightarrow> uuid option" where
  "uuid_col m f = (case columns m f of PUuid u \<Rightarrow> Some u | _ \<Rightarrow> None)"

definition dec_col :: "member \<Rightarrow> member_field \<Rightarrow> decimal option" where
  "dec_col m f = (case columns m f of PDec d \<Rightarrow> Some d | _ \<Rightarrow> None)"

definition time_col :: "member \<Rightarrow> member_field \<Rightarrow> instant option" where
  "time_col m f = (case columns m f of PTime t \<Rightarrow> Some t | _ \<Rightarrow> None)"

definition set_col :: "member_field \<Rightarrow> pyval \<Rightarrow> member \<Rightarrow> member" where
  "set_col f v m = m\<lparr>columns := (columns m)(f := v)\<rparr>"

lemmas col_defs = text_col_def flag_col_def date_col_def uuid_col_def dec_col_def time_col_def

lemma columns_set_col [simp]: "columns (set_col f v m) = (columns m)(f := v)"
  by (simp add: set_col_def)

lemma set_col_frame [simp]:
  "member_id (set_col f v m) = member_id m"
  "member_roles (set_col f v m) = member_roles m"
  "member_badges (set_col f v m) = member_badges m"
  "member_keys (set_col f v m) = member_keys m"
  by (simp_all add: set_col_def)

text \<open>\<open>column or ""\<close> of a text column.\<close>

definition text_or_empty :: "member \<Rightarrow> member_field \<Rightarrow> string" where
  "text_or_empty m f = (case text_col m f of None \<Rightarrow> [] | Some s \<Rightarrow> s)"

section \<open>Derived names\<close>

definition departed :: "member \<Rightarrow> bool" where
  "departed m \<longleftrightarrow> flag_col m F_verstorben \<or> flag_col m F_entlassen"

definition with_couleurname :: "member \<Rightarrow> string \<Rightarrow> string" where
  "with_couleurname m name =
     (let c = text_or_empty m F_couleurname in
      if name \<noteq> [] \<and> c \<noteq> []
      then name @ '' '' @ (if departed m then ''wl.'' else ''v/o'') @ '' '' @ c
      else if c \<noteq> [] then c else name)"

definition cn :: "member \<Rightarrow> string" where
  "cn m = (let name = strip (text_or_empty m F_vorname @ '' '' @ text_or_empty m F_nachname)
           in join '' '' (split_ws (with_couleurname m name)))"

definition titled_name :: "member \<Rightarrow> string" where
  "titled_name m = strip (join '' '' (filter (\<lambda>p. p \<noteq> [])
     [text_or_empty m F_vortitel, text_or_empty m F_vorname,
      text_or_empty m F_nachname, text_or_empty m F_nachtitel]))"

definition postal_name :: "member \<Rightarrow> string" where
  "postal_name m =
     (let n = titled_name m in
      join '' '' (split_ws (if n \<noteq> [] then n else text_or_empty m F_couleurname)))"

definition cn_full :: "member \<Rightarrow> string" where
  "cn_full m = join '' '' (split_ws (with_couleurname m (titled_name m)))"

text \<open>
  The three names are normalised: splitting and joining them again changes nothing, so there are
  no blanks at the ends and no double blanks between words.
\<close>

lemma normalised_names:
  "join '' '' (split_ws (cn m)) = cn m"
  "join '' '' (split_ws (postal_name m)) = postal_name m"
  "join '' '' (split_ws (cn_full m)) = cn_full m"
  by (simp_all add: cn_def postal_name_def cn_full_def Let_def split_join_words)

end
