(* ===== verification/P4x_Model.thy ===== *)
theory P4x_Model
  imports Members "HOL-Library.AList"
begin

text \<open>
  The tables of the bookkeeping subsystem "p4x" (\<open>app/models/p4x_*.py\<close>): accounts, bank
  transactions, partners (who owns a counter account), categories, category filters and their
  stored hits, direct category assignments, membership fees. \<open>p4x_ok\<close> collects the
  constraints the schema states (unique keys, the exclusive arcs, the checks on fees).
\<close>

section \<open>Rows\<close>

record p4x_account =
  acc_id :: uuid
  acc_iban :: string
  acc_bic :: "string option"
  acc_label :: "string option"
  acc_init_date :: "date option"
  acc_init_balance :: decimal
  acc_deleted_at :: "instant option"

record p4x_transaction =
  tx_id :: uuid
  sha256_hash :: string
  booking :: date
  valuation :: date
  tx_iban :: string
  amount :: decimal
  subject :: string
  tx_account_id :: uuid
  delegating_member_id :: "uuid option"
  delegating_contact_id :: "uuid option"
  delegating_p4x_account_id :: "uuid option"
  delegating_p4x_special_contact_id :: "uuid option"
  tx_comment :: "string option"
  tx_raw :: "string option"
  attachment :: "string option"
  tx_deleted_at :: "instant option"

record p4x_partner =
  partner_pk :: uuid
  partner_iban :: "string option"
  partner_member_id :: "uuid option"
  partner_contact_id :: "uuid option"
  partner_account_id :: "uuid option"
  partner_special_id :: "uuid option"
  partner_deleted_at :: "instant option"

record p4x_category =
  cat_id :: uuid
  cat_name :: string
  cat_label :: string
  background_color :: string
  text_color :: string
  cat_protected :: bool

datatype subject_mode = CONTAINS | EQUALS | STARTS

record p4x_category_filter =
  cf_id :: uuid
  cf_name :: string
  cf_account_id :: uuid
  cf_iban :: "string option"
  min_amount :: "decimal option"
  max_amount :: "decimal option"
  cf_subject_mode :: subject_mode
  cf_subject :: "string option"
  cf_category_id :: uuid

record p4x_category_direct =
  cd_tx_id :: uuid
  cd_category_id :: uuid
  cd_amount :: decimal
  cd_deleted_at :: "instant option"

record p4x_filter_hit =
  hit_tx_id :: uuid
  hit_filter_id :: uuid

record p4x_fee =
  fee_start :: date
  fee_amount :: decimal
  fee_protected :: bool

record p4x_special =
  special_id :: uuid
  special_cn :: string

record p4x_contact =
  contact_id :: uuid
  contact_name :: string
  contact_couleurname :: "string option"
  contact_deleted_at :: "instant option"

record p4x_db =
  members :: "member list"
  contacts :: "p4x_contact list"
  special_contacts :: "p4x_special list"
  accounts :: "p4x_account list"
  transactions :: "p4x_transaction list"
  partners :: "p4x_partner list"
  categories :: "p4x_category list"
  category_filters :: "p4x_category_filter list"
  category_directs :: "p4x_category_direct list"
  filter_hits :: "p4x_filter_hit list"
  fees :: "p4x_fee list"
  next_id :: uuid

text \<open>The server default \<open>uuidv7()\<close>: an identifier that was never handed out before.\<close>

definition fresh_id :: "p4x_db \<Rightarrow> uuid \<times> p4x_db" where
  "fresh_id db = (next_id db, db\<lparr>next_id := Suc (next_id db)\<rparr>)"

section \<open>Properties of the models\<close>

definition account_cn :: "p4x_account \<Rightarrow> string" where
  "account_cn a = strip (case acc_label a of None \<Rightarrow> [] | Some l \<Rightarrow> l)"

definition contact_cn :: "p4x_contact \<Rightarrow> string" where
  "contact_cn c =
     (let name = contact_name c;
          couleurname = (case contact_couleurname c of None \<Rightarrow> [] | Some s \<Rightarrow> s);
          name = (if name \<noteq> [] \<and> couleurname \<noteq> [] then name @ '' v/o '' @ couleurname
                  else if couleurname \<noteq> [] then couleurname else name)
      in join '' '' (split_ws name))"

definition has_attachment :: "p4x_transaction \<Rightarrow> bool" where
  "has_attachment tx \<longleftrightarrow> attachment tx \<noteq> None \<and> attachment tx \<noteq> Some []"

datatype partner_type = PT_member | PT_contact | PT_account | PT_special

definition delegating_partner_type :: "p4x_transaction \<Rightarrow> partner_type option" where
  "delegating_partner_type tx =
     (if delegating_member_id tx \<noteq> None then Some PT_member
      else if delegating_contact_id tx \<noteq> None then Some PT_contact
      else if delegating_p4x_account_id tx \<noteq> None then Some PT_account
      else if delegating_p4x_special_contact_id tx \<noteq> None then Some PT_special
      else None)"

fun first_some :: "'a option list \<Rightarrow> 'a option" where
  "first_some [] = None"
| "first_some (None # xs) = first_some xs"
| "first_some (Some x # xs) = Some x"

definition delegating_partner_id :: "p4x_transaction \<Rightarrow> uuid option" where
  "delegating_partner_id tx = first_some
     [delegating_member_id tx, delegating_contact_id tx, delegating_p4x_account_id tx,
      delegating_p4x_special_contact_id tx]"

definition partner_type_of :: "p4x_partner \<Rightarrow> exc + partner_type" where
  "partner_type_of p =
     (if partner_member_id p \<noteq> None then Inr PT_member
      else if partner_contact_id p \<noteq> None then Inr PT_contact
      else if partner_account_id p \<noteq> None then Inr PT_account
      else if partner_special_id p \<noteq> None then Inr PT_special
      else Inl ValueError)"

definition partner_id_of :: "p4x_partner \<Rightarrow> exc + uuid" where
  "partner_id_of p =
     (case first_some [partner_member_id p, partner_contact_id p, partner_account_id p, partner_special_id p]
      of None \<Rightarrow> Inl ValueError | Some i \<Rightarrow> Inr i)"

definition num_nonnulls :: "'a option list \<Rightarrow> nat" where
  "num_nonnulls xs = length (filter (\<lambda>x. x \<noteq> None) xs)"

definition partner_arc_ok :: "p4x_partner \<Rightarrow> bool" where
  "partner_arc_ok p \<longleftrightarrow> num_nonnulls
     [partner_member_id p, partner_contact_id p, partner_account_id p, partner_special_id p] = 1"

definition delegating_arc_ok :: "p4x_transaction \<Rightarrow> bool" where
  "delegating_arc_ok tx \<longleftrightarrow> num_nonnulls
     [delegating_member_id tx, delegating_contact_id tx, delegating_p4x_account_id tx,
      delegating_p4x_special_contact_id tx] \<le> 1"

definition fee_row_ok :: "p4x_fee \<Rightarrow> bool" where
  "fee_row_ok f \<longleftrightarrow> 0 \<le> fee_amount f \<and> day (fee_start f) = 1 \<and> valid_date (fee_start f)"

definition partner_active :: "p4x_partner \<Rightarrow> bool" where
  "partner_active p \<longleftrightarrow> partner_deleted_at p = None"

definition tx_active :: "p4x_transaction \<Rightarrow> bool" where
  "tx_active tx \<longleftrightarrow> tx_deleted_at tx = None"

definition direct_active :: "p4x_category_direct \<Rightarrow> bool" where
  "direct_active d \<longleftrightarrow> cd_deleted_at d = None"

definition p4x_ok :: "p4x_db \<Rightarrow> bool" where
  "p4x_ok db \<longleftrightarrow>
     distinct (map member_id (members db)) \<and>
     distinct (map acc_id (accounts db)) \<and>
     distinct (map tx_id (transactions db)) \<and>
     distinct (map sha256_hash (transactions db)) \<and>
     distinct (map partner_pk (partners db)) \<and>
     distinct (map partner_iban (filter (\<lambda>p. partner_iban p \<noteq> None) (partners db))) \<and>
     distinct (map cat_id (categories db)) \<and>
     distinct (map cat_name (categories db)) \<and>
     distinct (map cf_id (category_filters db)) \<and>
     distinct (map cf_name (category_filters db)) \<and>
     distinct (map fee_start (fees db)) \<and>
     distinct (filter_hits db) \<and>
     list_all fee_row_ok (fees db) \<and>
     list_all partner_arc_ok (partners db) \<and>
     list_all delegating_arc_ok (transactions db) \<and>
     list_all (\<lambda>tx. valid_date (booking tx)) (transactions db)"

section \<open>Filters shared by the queries\<close>

text \<open>\<open>no_delegation_filter()\<close>.\<close>

definition no_delegation :: "p4x_transaction \<Rightarrow> bool" where
  "no_delegation tx \<longleftrightarrow>
     delegating_member_id tx = None \<and> delegating_contact_id tx = None \<and>
     delegating_p4x_account_id tx = None \<and> delegating_p4x_special_contact_id tx = None"

definition tx_with_directs :: "p4x_db \<Rightarrow> uuid set" where
  "tx_with_directs db = cd_tx_id ` set (filter direct_active (category_directs db))"

text \<open>
  The transactions of a category: those assigned to it directly, and the hits of its filters
  among the transactions that have no direct assignment at all.
\<close>

definition direct_tx_ids :: "p4x_db \<Rightarrow> uuid option \<Rightarrow> uuid set" where
  "direct_tx_ids db cat =
     cd_tx_id ` set (filter (\<lambda>d. Some (cd_category_id d) = cat \<and> direct_active d) (category_directs db))"

definition filter_tx_ids :: "p4x_db \<Rightarrow> uuid option \<Rightarrow> uuid set" where
  "filter_tx_ids db cat =
     (let filter_ids = map cf_id (filter (\<lambda>f. Some (cf_category_id f) = cat) (category_filters db))
      in if filter_ids = [] then {}
         else hit_tx_id ` set (filter (\<lambda>h. hit_filter_id h \<in> set filter_ids) (filter_hits db)))"

definition category_tx_ids :: "p4x_db \<Rightarrow> uuid option \<Rightarrow> uuid set" where
  "category_tx_ids db cat = direct_tx_ids db cat \<union> (filter_tx_ids db cat - tx_with_directs db)"

lemma no_delegation_arc: "no_delegation tx \<longleftrightarrow> delegating_partner_type tx = None"
  by (auto simp: no_delegation_def delegating_partner_type_def)

lemma delegating_type_id: "delegating_partner_type tx = None \<longleftrightarrow> delegating_partner_id tx = None"
  by (auto simp: delegating_partner_type_def delegating_partner_id_def split: option.splits)

end
