(* ===== verification/P4x_Fees.thy ===== *)
theory P4x_Fees
  imports P4x_Model
begin

text \<open>
  \<open>app/services/p4x_fee_balance_service.py\<close>: the fee step function and its configuration, the
  balance of one member between two dates (\<open>calculate_fee_balance\<close>) and the bulk list of the
  balances of all members (\<open>get_fee_balances\<close>), which the code states to be the same numbers
  with a constant number of queries.
\<close>

section \<open>Fee configuration\<close>

definition FEE_CATEGORY_NAME :: string where
  "FEE_CATEGORY_NAME = ''eingang.mitgliedsbeitrag''"

definition fee_category_id :: "p4x_db \<Rightarrow> uuid option" where
  "fee_category_id db =
     map_option cat_id (List.find (\<lambda>c. cat_name c = FEE_CATEGORY_NAME) (categories db))"

definition get_all_fees :: "p4x_db \<Rightarrow> p4x_fee list" where
  "get_all_fees db = sort_key fee_start (fees db)"

definition fee_step_function :: "p4x_db \<Rightarrow> date list \<times> decimal list" where
  "fee_step_function db =
     (let fs = get_all_fees db in (map fee_start fs, map fee_amount fs))"

text \<open>\<open>bisect.bisect_right\<close>: the binary search of the standard library.\<close>

function bisect_loop :: "'a::linorder list \<Rightarrow> 'a \<Rightarrow> nat \<Rightarrow> nat \<Rightarrow> nat" where
  "bisect_loop a x lo hi =
     (if lo < hi
      then (let mid = (lo + hi) div 2
            in if x < a ! mid then bisect_loop a x lo mid else bisect_loop a x (Suc mid) hi)
      else lo)"
  by pat_completeness auto
termination
  by (relation "measure (\<lambda>(a, x, lo, hi). hi - lo)") auto

declare bisect_loop.simps [simp del]

definition bisect_right :: "'a::linorder list \<Rightarrow> 'a \<Rightarrow> nat" where
  "bisect_right a x = bisect_loop a x 0 (length a)"

definition fee_at :: "date list \<Rightarrow> decimal list \<Rightarrow> date \<Rightarrow> decimal" where
  "fee_at month_starts month_fees m =
     (let index = int (bisect_right month_starts (first_of_month m)) - 1
      in if 0 \<le> index then month_fees ! nat index else 0)"

definition fee_for_month :: "p4x_db \<Rightarrow> date \<Rightarrow> decimal" where
  "fee_for_month db target =
     (let first = first_of_month target
      in case sort_desc fee_start (filter (\<lambda>f. fee_start f \<le> first) (fees db)) of
           [] \<Rightarrow> 0 | f # _ \<Rightarrow> fee_amount f)"

text \<open>The result is the database and the message for the caller, if any.\<close>

definition create_fee :: "p4x_db \<Rightarrow> date \<Rightarrow> int \<Rightarrow> int \<Rightarrow> decimal \<Rightarrow> exc + p4x_db \<times> string option" where
  "create_fee db today y m fee =
     bind_res (mk_date y m 1) (\<lambda>start.
       if start < first_of_month today
       then Inr (db, Some ''Startmonat muss aktueller Monat sein oder in der Zukunft liegen.'')
       else if \<exists>f \<in> set (fees db). fee_start f = start
       then Inr (db, Some ''Startmonat muss eindeutig sein.'')
       else Inr (db\<lparr>fees := fees db @ [\<lparr>fee_start = start, fee_amount = fee, fee_protected = False\<rparr>]\<rparr>, None))"

definition delete_fee :: "p4x_db \<Rightarrow> string \<Rightarrow> exc + p4x_db \<times> string option" where
  "delete_fee db start_str =
     bind_res (fromisoformat (take 10 start_str)) (\<lambda>start.
       if \<exists>f \<in> set (fees db). fee_start f = start \<and> \<not> fee_protected f
       then Inr (db\<lparr>fees := delete_where (\<lambda>f. fee_start f = start) (fees db)\<rparr>, None)
       else Inr (db, Some ''Eintrag nicht gefunden oder geschuetzt.''))"

section \<open>Fee members\<close>

definition FEE_MEMBER_FILTER :: "(member_field \<times> pyval) list" where
  "FEE_MEMBER_FILTER =
     [(F_org_id, PStr ''vbw''), (F_state_id, PStr ''up''),
      (F_entlassen, PBool False), (F_verstorben, PBool False)]"

definition is_fee_member :: "member \<Rightarrow> bool" where
  "is_fee_member m = list_all (\<lambda>(attr, v). columns m attr = v) FEE_MEMBER_FILTER"

definition get_fee_members :: "p4x_db \<Rightarrow> member list" where
  "get_fee_members db =
     filter (\<lambda>m. columns m F_org_id = PStr ''vbw'' \<and> columns m F_state_id = PStr ''up'' \<and>
       columns m F_entlassen = PBool False \<and> columns m F_verstorben = PBool False) (members db)"

lemma get_fee_members_eq: "get_fee_members db = filter is_fee_member (members db)"
  by (simp add: get_fee_members_def is_fee_member_def [abs_def] FEE_MEMBER_FILTER_def)

record fee_member_update =
  upd_init_date :: pyval
  upd_init_balance :: "decimal option"
  upd_freed :: "bool option"
  upd_comment :: "string option"

text \<open>\<open>update_fee_member\<close>: a date is stored as it is, a text is parsed, anything else clears it.\<close>

definition update_fee_member :: "p4x_db \<Rightarrow> uuid \<Rightarrow> fee_member_update \<Rightarrow> exc + p4x_db" where
  "update_fee_member db mid data =
     bind_res (case upd_init_date data of
         PDate d \<Rightarrow> Inr (PDate d)
       | PStr s \<Rightarrow> bind_res (fromisoformat (take 10 s)) (\<lambda>d. Inr (PDate d))
       | _ \<Rightarrow> Inr PNone) (\<lambda>init_date.
     let write = (\<lambda>m. set_col F_p4x_comment (case upd_comment data of None \<Rightarrow> PNone | Some c \<Rightarrow> PStr c)
                  (set_col F_p4x_freed (case upd_freed data of None \<Rightarrow> PNone | Some b \<Rightarrow> PBool b)
                  (set_col F_p4x_init_balance (case upd_init_balance data of None \<Rightarrow> PNone | Some d \<Rightarrow> PDec d)
                  (set_col F_p4x_init_date init_date m))))
     in Inr (db\<lparr>members := update_where (\<lambda>m. member_id m = mid) write (members db)\<rparr>))"

section \<open>Months\<close>

definition count_months :: "date \<Rightarrow> date \<Rightarrow> int" where
  "count_months s e = (year e - year s) * 12 + month e - month s + 1"

definition months_from :: "date \<Rightarrow> int \<Rightarrow> exc + date list" where
  "months_from first n =
     map_res (\<lambda>i. mk_date (year first + (month first - 1 + i) div 12) ((month first - 1 + i) mod 12 + 1) 1)
       [0 .. n - 1]"

definition sum_fees_for_period :: "date list \<Rightarrow> decimal list \<Rightarrow> date \<Rightarrow> int \<Rightarrow> exc + decimal" where
  "sum_fees_for_period month_starts month_fees first n =
     bind_res (months_from first n) (\<lambda>ms.
       Inr (sum_list (map (fee_at month_starts month_fees) ms)))"

section \<open>Payments\<close>

definition fee_category_tx_ids :: "p4x_db \<Rightarrow> uuid set" where
  "fee_category_tx_ids db = category_tx_ids db (fee_category_id db)"

definition partner_ibans_of :: "p4x_db \<Rightarrow> uuid \<Rightarrow> string option list" where
  "partner_ibans_of db mid =
     map partner_iban (filter (\<lambda>p. partner_member_id p = Some mid \<and> partner_active p) (partners db))"

text \<open>The filter both payment queries share, without the bounds on the booking date.\<close>

definition is_fee_payment :: "p4x_db \<Rightarrow> uuid \<Rightarrow> string option list \<Rightarrow> p4x_transaction \<Rightarrow> bool" where
  "is_fee_payment db mid ibans tx \<longleftrightarrow>
     tx_active tx \<and> 0 < amount tx \<and> tx_id tx \<in> fee_category_tx_ids db \<and>
     ((Some (tx_iban tx) \<in> set ibans \<and> no_delegation tx) \<or> delegating_member_id tx = Some mid)"

definition get_fee_payments_sum :: "p4x_db \<Rightarrow> member \<Rightarrow> date \<Rightarrow> date \<Rightarrow> decimal" where
  "get_fee_payments_sum db m from_date to_date =
     (let ibans = partner_ibans_of db (member_id m) in
      if ibans = [] then 0
      else if fee_category_tx_ids db = {} then 0
      else sum_list (map amount (filter
        (\<lambda>tx. is_fee_payment db (member_id m) ibans tx \<and> from_date \<le> booking tx \<and> booking tx < to_date)
        (transactions db))))"

datatype entry_kind = FeeEntry | PaymentEntry

record progress_entry =
  e_type :: entry_kind
  e_booking :: string
  e_amount :: decimal
  e_balance :: "decimal option"

definition get_fee_payments_list :: "p4x_db \<Rightarrow> member \<Rightarrow> date \<Rightarrow> date \<Rightarrow> progress_entry list" where
  "get_fee_payments_list db m from_date to_date =
     (let ibans = partner_ibans_of db (member_id m) in
      if ibans = [] then []
      else if fee_category_tx_ids db = {} then []
      else map (\<lambda>tx. \<lparr>e_type = PaymentEntry, e_booking = isoformat (booking tx),
                     e_amount = amount tx, e_balance = None\<rparr>)
        (filter (\<lambda>tx. is_fee_payment db (member_id m) ibans tx \<and> from_date \<le> booking tx \<and> booking tx \<le> to_date)
          (transactions db)))"

section \<open>The balance of one member\<close>

record fee_balance_result =
  r_start_date :: string
  r_start_balance :: decimal
  r_count_fees :: nat
  r_count_payments :: nat
  r_sum_fees :: decimal
  r_sum_payments :: decimal
  r_end_date :: string
  r_end_balance :: decimal
  r_progress :: "progress_entry list"

fun running_balances :: "decimal \<Rightarrow> progress_entry list \<Rightarrow> progress_entry list" where
  "running_balances b [] = []"
| "running_balances b (e # es) =
     (let b' = b + e_amount e in e\<lparr>e_balance := Some b'\<rparr> # running_balances b' es)"

definition init_date_of :: "member \<Rightarrow> date option" where
  "init_date_of m =
     (case date_col m F_p4x_init_date of Some d \<Rightarrow> Some d | None \<Rightarrow> date_col m F_philistrierungsdatum)"

definition init_balance_of :: "member \<Rightarrow> decimal" where
  "init_balance_of m = (case dec_col m F_p4x_init_balance of None \<Rightarrow> 0 | Some d \<Rightarrow> d)"

text \<open>\<open>member.p4x_freed\<close> as a condition.\<close>

definition freed :: "member \<Rightarrow> bool" where
  "freed m = flag_col m F_p4x_freed"

definition chosen_start :: "date \<Rightarrow> string option \<Rightarrow> date" where
  "chosen_start init start_str =
     max (case start_str of None \<Rightarrow> init
          | Some s \<Rightarrow> if s = [] then init
                     else (case fromisoformat (take 10 s) of Inl _ \<Rightarrow> init | Inr d \<Rightarrow> first_of_month d))
         init"

definition last_of_prev_month :: "date \<Rightarrow> exc + date" where
  "last_of_prev_month today = prev_day (first_of_month today)"

text \<open>A \<open>ValueError\<close> while the end is parsed or rounded up falls back to the previous month.\<close>

definition chosen_end :: "date \<Rightarrow> string option \<Rightarrow> exc + date" where
  "chosen_end today end_str =
     (case end_str of None \<Rightarrow> last_of_prev_month today
      | Some s \<Rightarrow> if s = [] then last_of_prev_month today
          else (case bind_res (fromisoformat (take 10 s)) end_of_month of
                  Inl ValueError \<Rightarrow> last_of_prev_month today
                | r \<Rightarrow> r))"

definition fee_entries :: "date list \<Rightarrow> decimal list \<Rightarrow> date list \<Rightarrow> progress_entry list" where
  "fee_entries month_starts month_fees ms =
     map (\<lambda>m. \<lparr>e_type = FeeEntry, e_booking = isoformat (Date (year m) (month m) 10),
              e_amount = - fee_at month_starts month_fees m, e_balance = None\<rparr>) ms"

definition balance_between ::
  "p4x_db \<Rightarrow> member \<Rightarrow> date \<Rightarrow> date \<Rightarrow> date \<Rightarrow> exc + fee_balance_result" where
  "balance_between db m init start end_date =
     (case fee_step_function db of (month_starts, month_fees) \<Rightarrow>
     bind_res (if freed m then Inr 0
               else bind_res (prev_day (first_of_month start)) (\<lambda>prev.
                    sum_fees_for_period month_starts month_fees init (count_months init prev))) (\<lambda>earlier.
     bind_res (if freed m then Inr []
               else bind_res (months_from start (count_months start end_date)) (\<lambda>ms.
                    Inr (fee_entries month_starts month_fees ms))) (\<lambda>fee_part.
     let start_balance = init_balance_of m - earlier + get_fee_payments_sum db m init start;
         progress = fee_part @ get_fee_payments_list db m start end_date;
         end_balance = start_balance + sum_list (map e_amount progress);
         ordered = running_balances start_balance (sort_key e_booking progress);
         fee_rows = filter (\<lambda>e. e_type e = FeeEntry) ordered;
         payment_rows = filter (\<lambda>e. e_type e = PaymentEntry) ordered
     in Inr \<lparr>r_start_date = isoformat start, r_start_balance = start_balance,
             r_count_fees = length fee_rows, r_count_payments = length payment_rows,
             r_sum_fees = sum_list (map e_amount fee_rows),
             r_sum_payments = sum_list (map e_amount payment_rows),
             r_end_date = isoformat end_date, r_end_balance = end_balance,
             r_progress = ordered\<rparr>)))"

definition calculate_fee_balance ::
  "p4x_db \<Rightarrow> date \<Rightarrow> member \<Rightarrow> string option \<Rightarrow> string option \<Rightarrow> exc + fee_balance_result option" where
  "calculate_fee_balance db today m start_str end_str =
     (if \<not> is_fee_member m then Inr None
      else case init_date_of m of None \<Rightarrow> Inr None
      | Some d \<Rightarrow>
         let init = first_of_month d; start = chosen_start init start_str
         in bind_res (chosen_end today end_str) (\<lambda>e.
            bind_res (if e < start then end_of_month start else Inr e) (\<lambda>end_date.
            bind_res (balance_between db m init start end_date) (\<lambda>r. Inr (Some r)))))"

section \<open>The bulk list\<close>

record member_fee_state =
  s_init_date :: date
  s_end_date :: date
  s_fee_sum :: decimal
  s_payment_sum :: decimal

record fee_category_tx_row =
  row_iban :: "string option"
  row_booking :: date
  row_amount :: decimal
  row_delegating_member_id :: "uuid option"
  row_no_delegation :: bool

fun build_member_states ::
  "date list \<Rightarrow> decimal list \<Rightarrow> date \<Rightarrow> member list \<Rightarrow> (uuid \<times> member_fee_state) list \<Rightarrow>
   exc + (uuid \<times> member_fee_state) list" where
  "build_member_states month_starts month_fees default_end [] states = Inr states"
| "build_member_states month_starts month_fees default_end (m # ms) states =
     (case init_date_of m of
        None \<Rightarrow> build_member_states month_starts month_fees default_end ms states
      | Some d \<Rightarrow>
          let init = first_of_month d in
          bind_res (if init \<le> default_end then Inr default_end else end_of_month init) (\<lambda>end_date.
          bind_res (if freed m then Inr 0
                    else sum_fees_for_period month_starts month_fees init (count_months init end_date)) (\<lambda>fee_sum.
          build_member_states month_starts month_fees default_end ms
            (AList.update (member_id m)
              \<lparr>s_init_date = init, s_end_date = end_date, s_fee_sum = fee_sum, s_payment_sum = 0\<rparr>
              states))))"

definition iban_to_member_id_map :: "p4x_db \<Rightarrow> uuid set \<Rightarrow> (string \<times> uuid) list" where
  "iban_to_member_id_map db member_ids =
     fold (\<lambda>p d. case (partner_iban p, partner_member_id p) of
                   (Some i, Some k) \<Rightarrow> AList.update i k d | _ \<Rightarrow> d)
       (filter (\<lambda>p. partner_member_id p \<in> Some ` member_ids \<and> partner_active p) (partners db)) []"

definition fetch_fee_category_transactions ::
  "p4x_db \<Rightarrow> uuid set \<Rightarrow> date \<Rightarrow> date \<Rightarrow> fee_category_tx_row list" where
  "fetch_fee_category_transactions db tx_ids booking_from booking_to =
     (if tx_ids = {} then []
      else map (\<lambda>tx. \<lparr>row_iban = Some (tx_iban tx), row_booking = booking tx, row_amount = amount tx,
                     row_delegating_member_id = delegating_member_id tx,
                     row_no_delegation = no_delegation tx\<rparr>)
        (filter (\<lambda>tx. tx_active tx \<and> 0 < amount tx \<and> tx_id tx \<in> tx_ids \<and>
                      booking_from \<le> booking tx \<and> booking tx \<le> booking_to) (transactions db)))"

definition payment_target ::
  "(string \<times> uuid) list \<Rightarrow> uuid set \<Rightarrow> fee_category_tx_row \<Rightarrow> uuid option" where
  "payment_target iban_map members_with_own_iban row =
     (let t = row_delegating_member_id row;
          t = (case t of None \<Rightarrow> None | Some k \<Rightarrow> if k \<in> members_with_own_iban then Some k else None)
      in case t of Some k \<Rightarrow> Some k
         | None \<Rightarrow> if row_no_delegation row
                  then (case row_iban row of None \<Rightarrow> None | Some i \<Rightarrow> map_of iban_map i)
                  else None)"

definition attribute_payment ::
  "(string \<times> uuid) list \<Rightarrow> uuid set \<Rightarrow> fee_category_tx_row \<Rightarrow>
   (uuid \<times> member_fee_state) list \<Rightarrow> (uuid \<times> member_fee_state) list" where
  "attribute_payment iban_map members_with_own_iban row states =
     (case payment_target iban_map members_with_own_iban row of
        None \<Rightarrow> states
      | Some k \<Rightarrow>
         (case map_of states k of
            None \<Rightarrow> states
          | Some s \<Rightarrow>
              if s_init_date s \<le> row_booking row \<and> row_booking row \<le> s_end_date s
              then AList.update k (s\<lparr>s_payment_sum := s_payment_sum s + row_amount row\<rparr>) states
              else states))"

record fee_balance_list_entry =
  l_id :: uuid
  l_cn :: string
  l_p4x_freed :: bool
  l_end_balance :: decimal

definition list_entry :: "(uuid \<times> member_fee_state) list \<Rightarrow> member \<Rightarrow> fee_balance_list_entry list" where
  "list_entry states m =
     (case map_of states (member_id m) of
        None \<Rightarrow> []
      | Some s \<Rightarrow> [\<lparr>l_id = member_id m, l_cn = cn m, l_p4x_freed = freed m,
                   l_end_balance = init_balance_of m - s_fee_sum s + s_payment_sum s\<rparr>])"

definition get_fee_balances :: "p4x_db \<Rightarrow> date \<Rightarrow> exc + fee_balance_list_entry list" where
  "get_fee_balances db today =
     (let fee_members = get_fee_members db;
          fs = get_all_fees db;
          month_starts = map (\<lambda>f. first_of_month (fee_start f)) fs;
          month_fees = map fee_amount fs
      in bind_res (last_of_prev_month today) (\<lambda>default_end.
         bind_res (build_member_states month_starts month_fees default_end fee_members []) (\<lambda>states.
         if states = [] then Inr []
         else
           let member_ids = member_id ` {m \<in> set fee_members. map_of states (member_id m) \<noteq> None};
               iban_map = iban_to_member_id_map db member_ids;
               own = snd ` set iban_map;
               booking_from = Min ((s_init_date \<circ> snd) ` set states);
               booking_to = Max ((s_end_date \<circ> snd) ` set states);
               rows = fetch_fee_category_transactions db (fee_category_tx_ids db) booking_from booking_to;
               states' = fold (attribute_payment iban_map own) rows states
           in Inr (sort_key l_end_balance (concat (map (list_entry states') fee_members))))))"

end
