(* ===== verification/Fee_Step.thy ===== *)
theory Fee_Step
  imports P4x_Fees
begin

text \<open>
  The fee step function: the binary search over the start dates finds the fee that the SQL query
  of \<open>fee_for_month\<close> finds, months split additively, and changing the configuration leaves past
  months alone.
\<close>

section \<open>The binary search\<close>

lemma bisect_loop_spec:
  assumes "lo \<le> hi" "hi \<le> length a" "sorted a"
    and "\<And>i. i < lo \<Longrightarrow> a ! i \<le> x" and "\<And>i. hi \<le> i \<Longrightarrow> i < length a \<Longrightarrow> x < a ! i"
  shows "bisect_loop a x lo hi \<le> length a \<and>
    (\<forall>i < bisect_loop a x lo hi. a ! i \<le> x) \<and>
    (\<forall>i. bisect_loop a x lo hi \<le> i \<longrightarrow> i < length a \<longrightarrow> x < a ! i)"
  using assms
proof (induction a x lo hi rule: bisect_loop.induct)
  case (1 a x lo hi)
  show ?case
  proof (cases "lo < hi")
    case False
    then have "bisect_loop a x lo hi = lo" by (simp add: bisect_loop.simps [of a x lo hi])
    then show ?thesis using "1.prems" False by simp
  next
    case True
    define mid where "mid = (lo + hi) div 2"
    have mid: "lo \<le> mid" "mid < hi" using True by (auto simp: mid_def)
    show ?thesis
    proof (cases "x < a ! mid")
      case True
      have *: "x < a ! i" if "mid \<le> i" "i < length a" for i
        using that True sorted_nth_mono [OF "1.prems"(3), of mid i] by simp
      have "bisect_loop a x lo hi = bisect_loop a x lo mid"
        by (subst bisect_loop.simps) (use \<open>lo < hi\<close> True in \<open>simp add: mid_def Let_def\<close>)
      then show ?thesis
        using "1.IH"(1) [OF \<open>lo < hi\<close> mid_def True] "1.prems" mid * by simp
    next
      case False
      have *: "a ! i \<le> x" if "i < Suc mid" for i
      proof -
        have "a ! i \<le> a ! mid" using that mid "1.prems"(2,3) by (intro sorted_nth_mono) auto
        with False show ?thesis by simp
      qed
      have "bisect_loop a x lo hi = bisect_loop a x (Suc mid) hi"
        by (subst bisect_loop.simps) (use \<open>lo < hi\<close> False in \<open>simp add: mid_def Let_def\<close>)
      then show ?thesis
        using "1.IH"(2) [OF \<open>lo < hi\<close> mid_def False] "1.prems" mid * by simp
    qed
  qed
qed

lemma bisect_right_spec:
  assumes "sorted a"
  shows "bisect_right a x \<le> length a"
    and "i < bisect_right a x \<Longrightarrow> a ! i \<le> x"
    and "bisect_right a x \<le> i \<Longrightarrow> i < length a \<Longrightarrow> x < a ! i"
  using bisect_loop_spec [of 0 "length a" a x] assms by (auto simp: bisect_right_def)

section \<open>The fee in force\<close>

definition latest_fee :: "p4x_fee list \<Rightarrow> date \<Rightarrow> decimal" where
  "latest_fee fs d =
     (case sort_desc fee_start (filter (\<lambda>f. fee_start f \<le> d) fs) of [] \<Rightarrow> 0 | f # _ \<Rightarrow> fee_amount f)"

lemma fee_for_month_latest: "fee_for_month db t = latest_fee (fees db) (first_of_month t)"
  by (simp add: fee_for_month_def latest_fee_def)

text \<open>The latest fee is the row with the greatest start that is not later.\<close>

lemma latest_fee_eqI:
  assumes "distinct (map fee_start fs)" "f \<in> set fs" "fee_start f \<le> d"
    and "\<And>g. g \<in> set fs \<Longrightarrow> fee_start g \<le> d \<Longrightarrow> fee_start g \<le> fee_start f"
  shows "latest_fee fs d = fee_amount f"
proof -
  let ?s = "sort_desc fee_start (filter (\<lambda>f. fee_start f \<le> d) fs)"
  have "f \<in> set ?s" using assms(2,3) by simp
  then obtain g gs where s: "?s = g # gs" by (cases ?s) auto
  have "g \<in> set ?s" by (simp add: s)
  then have g: "g \<in> set fs" "fee_start g \<le> d" by auto
  have "fee_start f \<le> fee_start g"
    using sort_desc_sorted [of fee_start "filter (\<lambda>f. fee_start f \<le> d) fs"] \<open>f \<in> set ?s\<close>
    unfolding s by auto
  then have "fee_start f = fee_start g" using assms(4) [OF g] by simp
  then have "f = g" using assms(1,2) g(1) by (auto simp: distinct_map inj_on_def)
  then show ?thesis by (simp add: latest_fee_def s)
qed

lemma latest_fee_none:
  assumes "\<And>g. g \<in> set fs \<Longrightarrow> \<not> fee_start g \<le> d"
  shows "latest_fee fs d = 0"
proof -
  have "filter (\<lambda>f. fee_start f \<le> d) fs = []" using assms by (simp add: filter_empty_conv)
  then show ?thesis unfolding latest_fee_def by (simp add: sort_desc_def)
qed

lemma latest_fee_cong:
  assumes "mset (filter (\<lambda>f. fee_start f \<le> d) fs) = mset (filter (\<lambda>f. fee_start f \<le> d) gs)"
    and "distinct (map fee_start fs)"
  shows "latest_fee fs d = latest_fee gs d"
proof (cases "sort_desc fee_start (filter (\<lambda>f. fee_start f \<le> d) gs)")
  case Nil
  then have "filter (\<lambda>f. fee_start f \<le> d) gs = []"
    by (metis mset_sort_desc mset_zero_iff)
  with assms(1) have "filter (\<lambda>f. fee_start f \<le> d) fs = []" by (metis mset_zero_iff)
  then have "sort_desc fee_start (filter (\<lambda>f. fee_start f \<le> d) fs) = []" by (simp add: sort_desc_def)
  then show ?thesis using Nil by (simp add: latest_fee_def)
next
  case (Cons g rest)
  let ?G = "sort_desc fee_start (filter (\<lambda>f. fee_start f \<le> d) gs)"
  have sets: "{f \<in> set fs. fee_start f \<le> d} = {f \<in> set gs. fee_start f \<le> d}"
    using arg_cong [OF assms(1), of set_mset] by simp
  have "g \<in> set ?G" by (simp add: Cons)
  then have g: "g \<in> set gs" "fee_start g \<le> d" by auto
  have max: "fee_start h \<le> fee_start g" if "h \<in> set gs" "fee_start h \<le> d" for h
  proof -
    have "h \<in> set ?G" using that by simp
    then show ?thesis
      using sort_desc_sorted [of fee_start "filter (\<lambda>f. fee_start f \<le> d) gs"] unfolding Cons by auto
  qed
  have "latest_fee fs d = fee_amount g"
    by (rule latest_fee_eqI [OF assms(2)]) (use sets g max in blast)+
  then show ?thesis by (simp add: latest_fee_def Cons)
qed

lemma fee_at_latest:
  assumes "distinct (map fee_start fs)"
  shows "fee_at (map fee_start (sort_key fee_start fs)) (map fee_amount (sort_key fee_start fs)) m =
    latest_fee fs (first_of_month m)"
proof -
  let ?ss = "sort_key fee_start fs"
  let ?d = "first_of_month m"
  let ?r = "bisect_right (map fee_start ?ss) ?d"
  have sorted: "sorted (map fee_start ?ss)" by simp
  note spec = bisect_right_spec [OF sorted, where x = ?d]
  show ?thesis
  proof (cases "?r = 0")
    case True
    have "\<not> fee_start g \<le> ?d" if "g \<in> set fs" for g
    proof -
      from that obtain i where i: "i < length ?ss" "?ss ! i = g"
        by (metis in_set_conv_nth set_sort)
      with spec(3) [of i] True have "?d < fee_start g" by simp
      then show ?thesis by simp
    qed
    then show ?thesis using True by (simp add: fee_at_def latest_fee_none)
  next
    case False
    define i where "i = ?r - 1"
    have i: "i < ?r" "i < length ?ss" using False spec(1) by (auto simp: i_def)
    have "latest_fee fs ?d = fee_amount (?ss ! i)"
    proof (rule latest_fee_eqI [OF assms])
      show "?ss ! i \<in> set fs" using i(2) by (metis nth_mem set_sort)
      show "fee_start (?ss ! i) \<le> ?d" using spec(2) [OF i(1)] i(2) by simp
    next
      fix g assume "g \<in> set fs" "fee_start g \<le> ?d"
      then obtain j where j: "j < length ?ss" "?ss ! j = g" by (metis in_set_conv_nth set_sort)
      have "j < ?r" using spec(3) [of j] j \<open>fee_start g \<le> ?d\<close> by (metis leI length_map linorder_not_le nth_map)
      then have "j \<le> i" by (simp add: i_def)
      then show "fee_start g \<le> fee_start (?ss ! i)"
        using sorted_nth_mono [OF sorted \<open>j \<le> i\<close>] i(2) j by simp
    qed
    moreover have "nat (int ?r - 1) = i" using False by (simp add: i_def)
    ultimately show ?thesis using False i(2) by (simp add: fee_at_def)
  qed
qed

lemma fee_at_eq_fee_for_month:
  assumes "p4x_ok db" and "fee_step_function db = (starts, amounts)"
  shows "fee_at starts amounts m = fee_for_month db m"
  using assms
  by (auto simp: fee_step_function_def get_all_fees_def fee_for_month_latest fee_at_latest p4x_ok_def Let_def)

section \<open>Months\<close>

definition month_no :: "date \<Rightarrow> int" where
  "month_no d = 12 * year d + month d - 1"

definition month_date :: "int \<Rightarrow> date" where
  "month_date k = Date (k div 12) (k mod 12 + 1) 1"

lemma count_months_no: "count_months s e = month_no e - month_no s + 1"
  by (simp add: count_months_def month_no_def)

lemma month_no_first [simp]: "month_no (first_of_month d) = month_no d"
  by (simp add: month_no_def)

lemma month_arith:
  "1 \<le> m \<Longrightarrow> m \<le> 12 \<Longrightarrow> (12 * y + m - 1) div 12 = y \<and> (12 * y + m - 1) mod 12 + 1 = (m :: int)"
  by presburger

lemma month_date_no: "valid_date d \<Longrightarrow> month_date (month_no d) = first_of_month d"
  using month_arith [of "month d" "year d"]
  by (cases d) (auto simp: month_date_def month_no_def first_of_month_def)

lemma month_no_date [simp]: "month_no (month_date k) = k"
  by (simp add: month_no_def month_date_def)

lemma month_no_prev_day:
  "valid_date d \<Longrightarrow> prev_day (first_of_month d) = Inr p \<Longrightarrow> month_no p = month_no d - 1"
  by (cases d) (auto simp: prev_day_def month_no_def split: if_splits)

lemma month_no_mono: "valid_date a \<Longrightarrow> valid_date b \<Longrightarrow> a \<le> b \<Longrightarrow> month_no a \<le> month_no b"
  by (cases a; cases b) (auto simp: month_no_def)

text \<open>All the months of a span within the calendar exist.\<close>

lemma months_from_eq:
  assumes "valid_date first" and "\<And>i. 0 \<le> i \<Longrightarrow> i < n \<Longrightarrow> month_no first + i < 12 * 10000"
  shows "months_from first n = Inr (map (\<lambda>i. month_date (month_no first + i)) [0 .. n - 1])"
  unfolding months_from_def
proof (rule map_res_Inr_map)
  fix i assume i: "i \<in> set [0 .. n - 1]"
  obtain y m d where f: "first = Date y m d" by (cases first)
  have b: "1 \<le> y" "1 \<le> m" "m \<le> 12" using assms(1) by (auto simp: f)
  have div: "(12 * y + m - 1 + i) div 12 = y + (m - 1 + i) div 12"
    using div_mult_self2 [of 12 "m - 1 + i" y] by (simp add: algebra_simps)
  have "12 * y + m - 1 + i < 12 * 10000" using assms(2) [of i] i by (auto simp: month_no_def f)
  then have "y + (m - 1 + i) div 12 \<le> 9999" unfolding div [symmetric] by simp
  moreover have "0 \<le> (m - 1 + i) div 12" using b i by (simp add: pos_imp_zdiv_nonneg_iff)
  moreover have mod: "(12 * y + m - 1 + i) mod 12 = (m - 1 + i) mod 12"
    using mod_mult_self2 [of "m - 1 + i" 12 y] by (simp add: algebra_simps)
  ultimately show "mk_date (year first + (month first - 1 + i) div 12) ((month first - 1 + i) mod 12 + 1) 1 =
      Inr (month_date (month_no first + i))"
    using b by (simp add: f month_date_def month_no_def div mod)
qed

lemma map_plus_upto: "map ((+) a) [0 .. n] = [a .. a + n]"
  by (rule nth_equalityI) simp_all

lemma months_from_to:
  assumes "valid_date first" "valid_date fin"
  shows "months_from first (count_months first fin) =
    Inr (map month_date [month_no first .. month_no fin])"
proof -
  have "month_no fin < 12 * 10000" using assms(2) by (cases fin) (auto simp: month_no_def)
  then have "months_from first (count_months first fin) =
      Inr (map (\<lambda>i. month_date (month_no first + i)) [0 .. count_months first fin - 1])"
    by (intro months_from_eq assms(1)) (simp add: count_months_no)
  also have "map (\<lambda>i. month_date (month_no first + i)) [0 .. count_months first fin - 1] =
      map month_date (map ((+) (month_no first)) [0 .. month_no fin - month_no first])"
    by (simp add: count_months_no)
  also have "\<dots> = map month_date [month_no first .. month_no fin]"
    by (simp only: map_plus_upto) simp
  finally show ?thesis .
qed

text \<open>The fees of a span of months, as one sum; spans that meet add up.\<close>

definition span_fees :: "date list \<Rightarrow> decimal list \<Rightarrow> int \<Rightarrow> int \<Rightarrow> decimal" where
  "span_fees starts amounts a b = sum_list (map (\<lambda>k. fee_at starts amounts (month_date k)) [a .. b])"

lemma sum_fees_for_period_eq:
  "valid_date first \<Longrightarrow> valid_date fin \<Longrightarrow>
   sum_fees_for_period starts amounts first (count_months first fin) =
     Inr (span_fees starts amounts (month_no first) (month_no fin))"
  by (simp add: sum_fees_for_period_def months_from_to span_fees_def comp_def)

lemma span_fees_empty [simp]: "b < a \<Longrightarrow> span_fees starts amounts a b = 0"
  by (simp add: span_fees_def)

lemma span_fees_split:
  assumes "a \<le> c" "c \<le> b + 1"
  shows "span_fees starts amounts a (c - 1) + span_fees starts amounts c b = span_fees starts amounts a b"
proof -
  have "[a .. b] = [a .. c - 1] @ [c .. b]"
  proof (cases "c \<le> b")
    case True
    then show ?thesis using assms upto_split1 [of a c b] by simp
  next
    case False
    then have "c = b + 1" using assms(2) by simp
    then show ?thesis by simp
  qed
  then show ?thesis by (simp add: span_fees_def)
qed

section \<open>Changing the configuration\<close>

lemma create_fee_cases:
  assumes "create_fee db today y m fee = Inr (db', msg)"
  shows "(msg \<noteq> None \<and> db' = db) \<or>
    (msg = None \<and> mk_date y m 1 = Inr (Date y m 1) \<and> first_of_month today \<le> Date y m 1 \<and>
     (\<forall>f \<in> set (fees db). fee_start f \<noteq> Date y m 1) \<and>
     db' = db\<lparr>fees := fees db @ [\<lparr>fee_start = Date y m 1, fee_amount = fee, fee_protected = False\<rparr>]\<rparr>)"
  using assms mk_date_InrD [of y m 1]
  by (fastforce simp: create_fee_def bind_res_eq_Inr split: if_splits)

lemma create_fee_keeps_ok:
  assumes "p4x_ok db" "0 \<le> fee" "create_fee db today y m fee = Inr (db', msg)"
  shows "p4x_ok db'"
proof -
  have "mk_date y m 1 = Inr (Date y m 1) \<Longrightarrow> valid_date (Date y m 1)"
    using mk_date_InrD by blast
  then show ?thesis
    using create_fee_cases [OF assms(3)] assms(1,2)
    by (auto simp: p4x_ok_def fee_row_ok_def) blast
qed

lemma delete_fee_keeps_ok:
  assumes "p4x_ok db" "delete_fee db s = Inr (db', msg)"
  shows "p4x_ok db'"
  using assms
  by (auto simp: delete_fee_def bind_res_eq_Inr p4x_ok_def list_all_iff distinct_map_delete_where
      split: if_splits)

end
