(* ===== verification/Fee_Bulk.thy ===== *)
theory Fee_Bulk
  imports Fee_Balance
begin

text \<open>
  The bulk list of fee balances, step by step: the per-member states, the attribution of each
  payment to at most one member, and the equality with the single computation.
\<close>

section \<open>The states before the payments\<close>

definition bulk_end :: "date \<Rightarrow> date \<Rightarrow> date" where
  "bulk_end de init =
     (if init \<le> de then de else Date (year init) (month init) (days_in_month (year init) (month init)))"

definition bulk_state :: "date list \<Rightarrow> decimal list \<Rightarrow> date \<Rightarrow> member \<Rightarrow> member_fee_state option" where
  "bulk_state starts amounts de m =
     map_option (\<lambda>d. let init = first_of_month d in
       \<lparr>s_init_date = init, s_end_date = bulk_end de init,
        s_fee_sum = (if freed m then 0 else span_fees starts amounts (month_no init) (month_no (bulk_end de init))),
        s_payment_sum = 0\<rparr>) (init_date_of m)"

definition init_dates_ok :: "member list \<Rightarrow> bool" where
  "init_dates_ok ms \<longleftrightarrow>
     (\<forall>m \<in> set ms. \<forall>d. init_date_of m = Some d \<longrightarrow> valid_date d \<and> 1 < year d \<and> year d < 9999)"

fun add_states :: "(member \<Rightarrow> member_fee_state option) \<Rightarrow> member list \<Rightarrow>
    (uuid \<times> member_fee_state) list \<Rightarrow> (uuid \<times> member_fee_state) list" where
  "add_states f [] st = st"
| "add_states f (m # ms) st =
     add_states f ms (case f m of None \<Rightarrow> st | Some s \<Rightarrow> AList.update (member_id m) s st)"

lemma bulk_end_valid:
  assumes "valid_date init" "valid_date de"
  shows "valid_date (bulk_end de init)"
  using assms days_in_month_bounds(1) [of "year init" "month init"]
  by (cases init) (auto simp: bulk_end_def)

lemma bulk_end_code:
  assumes "valid_date init" "year init < 9999"
  shows "(if init \<le> de then Inr de else end_of_month init) = Inr (bulk_end de init)"
  using end_of_month_eq [of init] assms by (simp add: bulk_end_def)

lemma bulk_end_ge:
  assumes "valid_date init" "first_of_month init = init"
  shows "init \<le> bulk_end de init"
  using assms days_in_month_bounds(1) [of "year init" "month init"]
  by (cases init) (auto simp: bulk_end_def)

lemma build_member_states_eq:
  assumes "init_dates_ok ms" "valid_date de"
  shows "build_member_states starts amounts de ms st = Inr (add_states (bulk_state starts amounts de) ms st)"
  using assms(1)
proof (induction ms arbitrary: st)
  case Nil
  then show ?case by simp
next
  case (Cons m ms)
  then have IH: "build_member_states starts amounts de ms st =
      Inr (add_states (bulk_state starts amounts de) ms st)" for st
    by (simp add: init_dates_ok_def)
  show ?case
  proof (cases "init_date_of m")
    case None
    then show ?thesis by (simp add: IH bulk_state_def [of starts amounts de m])
  next
    case (Some d)
    define init where "init = first_of_month d"
    have v: "valid_date init" "year init < 9999"
      using Cons.prems Some valid_first_of_month by (auto simp: init_dates_ok_def init_def)
    note e = bulk_end_code [OF v, of de]
    note s = sum_fees_for_period_eq [OF v(1) bulk_end_valid [OF v(1) assms(2)], of starts amounts]
    show ?thesis
      unfolding build_member_states.simps Some option.case Let_def init_def [symmetric] e
      by (simp add: s IH bulk_state_def [of starts amounts de m] Some init_def [symmetric] Let_def)
  qed
qed

lemma map_of_add_states_other:
  "k \<notin> member_id ` set ms \<Longrightarrow> map_of (add_states f ms st) k = map_of st k"
  by (induction ms arbitrary: st) (auto split: option.splits simp: update_conv')

lemma map_of_add_states:
  "distinct (map member_id ms) \<Longrightarrow> m \<in> set ms \<Longrightarrow>
   map_of (add_states f ms st) (member_id m) =
     (case f m of None \<Rightarrow> map_of st (member_id m) | Some s \<Rightarrow> Some s)"
proof (induction ms arbitrary: st)
  case Nil
  then show ?case by simp
next
  case (Cons a ms)
  show ?case
  proof (cases "a = m")
    case True
    then show ?thesis
      using Cons.prems map_of_add_states_other [of "member_id m" ms f]
      by (auto split: option.splits simp: update_conv')
  next
    case False
    then have "m \<in> set ms" "member_id a \<noteq> member_id m" using Cons.prems by auto
    then show ?thesis using Cons by (auto split: option.splits simp: update_conv')
  qed
qed

lemma map_of_add_states_cases:
  assumes "distinct (map member_id ms)" "map_of (add_states f ms []) k = Some s"
  shows "\<exists>m \<in> set ms. member_id m = k \<and> f m = Some s"
proof (cases "k \<in> member_id ` set ms")
  case True
  then obtain m where "m \<in> set ms" "k = member_id m" by auto
  then show ?thesis using map_of_add_states [OF assms(1), of m f "[]"] assms(2)
    by (auto split: option.splits)
next
  case False
  then show ?thesis using map_of_add_states_other [of k ms f "[]"] assms(2) by simp
qed

lemma distinct_add_states: "distinct (map fst st) \<Longrightarrow> distinct (map fst (add_states f ms st))"
  by (induction ms arbitrary: st) (auto split: option.splits simp: distinct_update)

section \<open>Attribution of the payments\<close>

definition credited :: "(string \<times> uuid) list \<Rightarrow> uuid set \<Rightarrow> uuid \<Rightarrow> member_fee_state \<Rightarrow>
    fee_category_tx_row \<Rightarrow> bool" where
  "credited im own k s r \<longleftrightarrow>
     payment_target im own r = Some k \<and> s_init_date s \<le> row_booking r \<and> row_booking r \<le> s_end_date s"

lemma attribute_payment_step:
  "map_of (attribute_payment im own r st) k =
     map_option (\<lambda>s. if credited im own k s r
       then s\<lparr>s_payment_sum := s_payment_sum s + row_amount r\<rparr> else s) (map_of st k)"
  by (cases "map_of st k") (auto simp: attribute_payment_def credited_def update_conv' split: option.splits)

lemma attribute_payments:
  "map_of (fold (attribute_payment im own) rows st) k =
     map_option (\<lambda>s. s\<lparr>s_payment_sum := s_payment_sum s +
       sum_list (map row_amount (filter (credited im own k s) rows))\<rparr>) (map_of st k)"
proof (induction rows arbitrary: st)
  case Nil
  then show ?case by (cases "map_of st k") auto
next
  case (Cons r rows)
  have c: "credited im own k (s\<lparr>s_payment_sum := x\<rparr>) = credited im own k s" for s x
    by (simp add: credited_def fun_eq_iff)
  show ?case
    by (cases "map_of st k") (auto simp: Cons.IH attribute_payment_step c add.assoc)
qed

section \<open>Who owns an IBAN\<close>

definition partners_have_iban :: "p4x_db \<Rightarrow> bool" where
  "partners_have_iban db \<longleftrightarrow> (\<forall>p \<in> set (partners db). partner_iban p \<noteq> None)"

definition iban_step :: "p4x_partner \<Rightarrow> (string \<times> uuid) list \<Rightarrow> (string \<times> uuid) list" where
  "iban_step p d = (case (partner_iban p, partner_member_id p) of
     (Some i, Some k) \<Rightarrow> AList.update i k d | _ \<Rightarrow> d)"

lemma fold_iban_step:
  "distinct (map partner_iban (filter (\<lambda>p. partner_iban p \<noteq> None) ps)) \<Longrightarrow>
   map_of (fold iban_step ps d) i = Some k \<longleftrightarrow>
     (\<exists>p \<in> set ps. partner_iban p = Some i \<and> partner_member_id p = Some k) \<or>
     (\<not> (\<exists>p \<in> set ps. partner_iban p = Some i \<and> partner_member_id p \<noteq> None) \<and> map_of d i = Some k)"
proof (induction ps arbitrary: d)
  case Nil
  then show ?case by simp
next
  case (Cons p ps)
  show ?case
  proof (cases "partner_iban p = Some i \<and> partner_member_id p \<noteq> None")
    case True
    then obtain j where j: "partner_member_id p = Some j" by auto
    have none: "\<not> (\<exists>q \<in> set ps. partner_iban q = Some i)"
      using Cons.prems True by (force simp: image_iff)
    have "fold iban_step (p # ps) d = fold iban_step ps (AList.update i j d)"
      using True j by (simp add: iban_step_def)
    then show ?thesis using Cons True j none by (auto simp: update_conv' split: if_splits)
  next
    case False
    have "map_of (iban_step p d) i = map_of d i"
      using False by (auto simp: iban_step_def update_conv' split: option.splits)
    then show ?thesis using Cons False by (auto split: if_splits)
  qed
qed

lemma distinct_fold_iban_step: "distinct (map fst d) \<Longrightarrow> distinct (map fst (fold iban_step ps d))"
  by (induction ps arbitrary: d) (auto simp: iban_step_def distinct_update split: option.splits)

lemma iban_map_eq:
  "iban_to_member_id_map db ids = fold iban_step
     (filter (\<lambda>p. partner_member_id p \<in> Some ` ids \<and> partner_active p) (partners db)) []"
  by (simp add: iban_to_member_id_map_def iban_step_def [abs_def])

lemma distinct_iban_filter:
  "distinct (map partner_iban (filter (\<lambda>p. partner_iban p \<noteq> None) ps)) \<Longrightarrow>
   distinct (map partner_iban (filter (\<lambda>p. partner_iban p \<noteq> None) (filter Q ps)))"
proof -
  have "filter (\<lambda>p. partner_iban p \<noteq> None) (filter Q ps) =
      filter Q (filter (\<lambda>p. partner_iban p \<noteq> None) ps)"
    by (simp only: filter_filter conj_commute)
  then show "distinct (map partner_iban (filter (\<lambda>p. partner_iban p \<noteq> None) ps)) \<Longrightarrow> ?thesis"
    by (simp only: distinct_map_filter)
qed

lemma iban_map_lookup:
  assumes "p4x_ok db" "k \<in> ids"
  shows "map_of (iban_to_member_id_map db ids) i = Some k \<longleftrightarrow> Some i \<in> set (partner_ibans_of db k)"
proof -
  have d: "distinct (map partner_iban (filter (\<lambda>p. partner_iban p \<noteq> None)
      (filter (\<lambda>p. partner_member_id p \<in> Some ` ids \<and> partner_active p) (partners db))))"
    using assms(1) by (intro distinct_iban_filter) (simp add: p4x_ok_def)
  show ?thesis
    unfolding iban_map_eq fold_iban_step [OF d]
    using assms(2) by (auto simp: partner_ibans_of_def image_iff intro: rev_bexI)
qed

lemma own_iban:
  assumes "p4x_ok db" "partners_have_iban db" "k \<in> ids"
  shows "k \<in> snd ` set (iban_to_member_id_map db ids) \<longleftrightarrow> partner_ibans_of db k \<noteq> []"
proof -
  let ?im = "iban_to_member_id_map db ids"
  have "distinct (map fst ?im)" unfolding iban_map_eq by (rule distinct_fold_iban_step) simp
  then have "snd ` set ?im = ran (map_of ?im)" by (simp add: ran_distinct)
  then have "k \<in> snd ` set ?im \<longleftrightarrow> (\<exists>i. Some i \<in> set (partner_ibans_of db k))"
    using iban_map_lookup [OF assms(1,3)] by (auto simp: ran_def)
  also have "\<dots> \<longleftrightarrow> partner_ibans_of db k \<noteq> []"
  proof
    assume "partner_ibans_of db k \<noteq> []"
    then obtain p where "p \<in> set (partners db)" "partner_member_id p = Some k" "partner_active p"
      by (auto simp: partner_ibans_of_def filter_empty_conv)
    moreover from this obtain i where "partner_iban p = Some i"
      using assms(2) by (auto simp: partners_have_iban_def)
    ultimately have "Some i \<in> set (partner_ibans_of db k)"
      unfolding partner_ibans_of_def set_map set_filter by (metis (mono_tags, lifting) image_eqI mem_Collect_eq)
    then show "\<exists>i. Some i \<in> set (partner_ibans_of db k)" ..
  next
    assume "\<exists>i. Some i \<in> set (partner_ibans_of db k)"
    then show "partner_ibans_of db k \<noteq> []" by (metis empty_iff list.set(1))
  qed
  finally show ?thesis .
qed

definition tx_row :: "p4x_transaction \<Rightarrow> fee_category_tx_row" where
  "tx_row tx = \<lparr>row_iban = Some (tx_iban tx), row_booking = booking tx, row_amount = amount tx,
     row_delegating_member_id = delegating_member_id tx, row_no_delegation = no_delegation tx\<rparr>"

text \<open>The attribution rule is the rule of the single computation.\<close>

lemma payment_target_iff:
  assumes "p4x_ok db" "partners_have_iban db" "k \<in> ids"
  shows "payment_target (iban_to_member_id_map db ids) (snd ` set (iban_to_member_id_map db ids)) (tx_row tx) = Some k
    \<longleftrightarrow> partner_ibans_of db k \<noteq> [] \<and>
      ((Some (tx_iban tx) \<in> set (partner_ibans_of db k) \<and> no_delegation tx) \<or> delegating_member_id tx = Some k)"
proof (cases "delegating_member_id tx")
  case None
  then show ?thesis
    using iban_map_lookup [OF assms(1,3), of "tx_iban tx"]
    by (auto simp: payment_target_def tx_row_def)
next
  case (Some j)
  then show ?thesis
    using own_iban [OF assms] by (auto simp: payment_target_def tx_row_def no_delegation_def)
qed

lemma fetch_eq:
  "fetch_fee_category_transactions db ids a b =
     map tx_row (filter (\<lambda>tx. tx_active tx \<and> 0 < amount tx \<and> tx_id tx \<in> ids \<and>
       a \<le> booking tx \<and> booking tx \<le> b) (transactions db))"
  by (auto simp: fetch_fee_category_transactions_def tx_row_def [abs_def])

lemma credited_sum:
  assumes "p4x_ok db" "partners_have_iban db" "member_id m \<in> ids"
    and "a \<le> s_init_date s" "s_end_date s \<le> b"
  shows "sum_list (map row_amount (filter
      (credited (iban_to_member_id_map db ids) (snd ` set (iban_to_member_id_map db ids)) (member_id m) s)
      (fetch_fee_category_transactions db (fee_category_tx_ids db) a b))) =
    payments_between db m (\<lambda>d. s_init_date s \<le> d \<and> d \<le> s_end_date s)"
proof -
  let ?k = "member_id m"
  let ?c = "credited (iban_to_member_id_map db ids) (snd ` set (iban_to_member_id_map db ids)) ?k s"
  have row: "?c (tx_row tx) \<longleftrightarrow> partner_ibans_of db ?k \<noteq> [] \<and>
      ((Some (tx_iban tx) \<in> set (partner_ibans_of db ?k) \<and> no_delegation tx) \<or> delegating_member_id tx = Some ?k) \<and>
      s_init_date s \<le> booking tx \<and> booking tx \<le> s_end_date s" for tx
    unfolding credited_def payment_target_iff [OF assms(1-3)] by (auto simp: tx_row_def)
  have filter_eq: "filter (\<lambda>tx. ?c (tx_row tx)) (filter (\<lambda>tx. tx_active tx \<and> 0 < amount tx \<and>
        tx_id tx \<in> fee_category_tx_ids db \<and> a \<le> booking tx \<and> booking tx \<le> b) (transactions db)) =
      (if partner_ibans_of db ?k = [] then [] else filter
        (\<lambda>tx. is_fee_payment db ?k (partner_ibans_of db ?k) tx \<and>
          (s_init_date s \<le> booking tx \<and> booking tx \<le> s_end_date s)) (transactions db))"
    unfolding row filter_filter using assms(4,5)
    by (auto simp: is_fee_payment_def intro!: filter_cong)
  have "row_amount \<circ> tx_row = amount" by (auto simp: tx_row_def)
  then show ?thesis
    unfolding fetch_eq filter_map map_map comp_def [of ?c] filter_eq payments_between_def by simp
qed

section \<open>The list and the single balance\<close>

lemma filter_concat_singletons:
  assumes "distinct (map member_id ms)" "m \<in> set ms"
    and "\<And>a e. e \<in> set (f a) \<Longrightarrow> l_id e = member_id a"
  shows "filter (\<lambda>e. l_id e = member_id m) (concat (map f ms)) = f m"
  using assms(1,2)
proof (induction ms)
  case Nil
  then show ?case by simp
next
  case (Cons a ms)
  have own: "filter (\<lambda>e. l_id e = member_id a) (f a) = f a"
    using assms(3) by (simp add: filter_id_conv)
  show ?case
  proof (cases "a = m")
    case True
    have "l_id e \<noteq> member_id m" if "e \<in> set (concat (map f ms))" for e
    proof -
      from that obtain x where "x \<in> set ms" "e \<in> set (f x)" by auto
      then have "l_id e = member_id x" "member_id x \<noteq> member_id a"
        using assms(3) Cons.prems(1) by (auto intro: rev_image_eqI)
      then show ?thesis using True by simp
    qed
    then have "filter (\<lambda>e. l_id e = member_id m) (concat (map f ms)) = []"
      by (simp only: filter_empty_conv) blast
    then show ?thesis using own True by simp
  next
    case False
    then have "filter (\<lambda>e. l_id e = member_id m) (f a) = []"
      using Cons.prems assms(3) by (force simp: filter_empty_conv)
    then show ?thesis using Cons False by simp
  qed
qed

lemma default_end_Inr:
  assumes "valid_date today" "1 < year today"
  shows "\<exists>de. last_of_prev_month today = Inr de \<and> valid_date de"
proof -
  have v: "valid_date (first_of_month today)" using assms(1) by (rule valid_first_of_month)
  have "\<exists>de. prev_day (first_of_month today) = Inr de"
    using assms(2) by (cases today) (auto simp: prev_day_def)
  then show ?thesis using prev_day_valid [OF v] by (auto simp: last_of_prev_month_def)
qed

lemma month_starts_eq:
  "p4x_ok db \<Longrightarrow> map (\<lambda>f. first_of_month (fee_start f)) (get_all_fees db) = map fee_start (get_all_fees db)"
proof (rule map_cong [OF refl])
  fix f assume "p4x_ok db" "f \<in> set (get_all_fees db)"
  then have "day (fee_start f) = 1" by (simp add: p4x_ok_def list_all_iff get_all_fees_def fee_row_ok_def)
  then show "first_of_month (fee_start f) = fee_start f" by (cases "fee_start f") simp
qed

lemma list_entry_ids: "e \<in> set (list_entry st a) \<Longrightarrow> l_id e = member_id a"
  by (auto simp: list_entry_def split: option.splits)

text \<open>The single balance with the default dates.\<close>

lemma calculate_default:
  assumes m: "is_fee_member m" and d: "init_date_of m = Some d" "valid_date d" "1 < year d" "year d < 9999"
    and de: "last_of_prev_month today = Inr de" "valid_date de"
  defines "init \<equiv> first_of_month d"
  shows "\<exists>r. calculate_fee_balance db today m None None = Inr (Some r) \<and>
    r_end_balance r = init_balance_of m - fees_of_span db m init (bulk_end de init)
      + payments_between db m (\<lambda>x. init \<le> x \<and> x \<le> bulk_end de init)"
proof -
  have v: "valid_date init" "year init < 9999" "1 < year init" "first_of_month init = init"
    using d by (auto simp: init_def valid_first_of_month)
  have e: "(if de < init then end_of_month init else Inr de) = Inr (bulk_end de init)"
    using bulk_end_code [OF v(1,2), of de] by (simp add: not_le [symmetric] split: if_splits)
  have "span_fees starts amounts (month_no init) (month_no init - 1) = 0" for starts amounts
    by simp
  then obtain r where r: "balance_between db m init init (bulk_end de init) = Inr r"
      "r_end_balance r = init_balance_of m - fees_of_span db m init (bulk_end de init)
      + payments_between db m (\<lambda>x. init \<le> x \<and> x \<le> bulk_end de init)"
    using balance_between_Inr [OF v(1) v(1) v(4) bulk_end_valid [OF v(1) de(2)] v(3), of db m]
    by (auto split: prod.splits)
  have "calculate_fee_balance db today m None None = Inr (Some r)"
    using m d(1) de(1) e r(1)
    by (simp add: calculate_fee_balance_def chosen_start_def chosen_end_def init_def [symmetric] Let_def)
  with r(2) show ?thesis by blast
qed

lemma bulk_entry:
  assumes ok: "p4x_ok db" "partners_have_iban db" and dates: "init_dates_ok (get_fee_members db)"
    and today: "valid_date today" "1 < year today"
  shows "\<exists>es. get_fee_balances db today = Inr es \<and> sorted (map l_end_balance es) \<and>
    l_id ` set es \<subseteq> member_id ` set (get_fee_members db) \<and>
    (\<forall>m \<in> set (get_fee_members db). \<exists>r. calculate_fee_balance db today m None None = Inr r \<and>
      map l_end_balance (filter (\<lambda>e. l_id e = member_id m) es) =
        (case r of None \<Rightarrow> [] | Some b \<Rightarrow> [r_end_balance b]))"
proof -
  let ?ms = "get_fee_members db"
  obtain de where de: "last_of_prev_month today = Inr de" "valid_date de"
    using default_end_Inr [OF today] by blast
  define starts amounts where "starts = map fee_start (get_all_fees db)"
    and "amounts = map fee_amount (get_all_fees db)"
  define st where "st = add_states (bulk_state starts amounts de) ?ms []"
  have fs: "fee_step_function db = (starts, amounts)"
    by (simp add: fee_step_function_def starts_def amounts_def Let_def)
  have build: "build_member_states starts amounts de ?ms [] = Inr st"
    unfolding st_def by (rule build_member_states_eq [OF dates de(2)])
  have dist: "distinct (map member_id ?ms)"
    using ok(1) by (simp add: get_fee_members_eq p4x_ok_def distinct_map_filter)
  define ids where "ids = member_id ` {m \<in> set ?ms. map_of st (member_id m) \<noteq> None}"
  define im where "im = iban_to_member_id_map db ids"
  define a b where "a = Min ((s_init_date \<circ> snd) ` set st)" and "b = Max ((s_end_date \<circ> snd) ` set st)"
  define st' where "st' = (if st = [] then [] else fold (attribute_payment im (snd ` set im))
    (fetch_fee_category_transactions db (fee_category_tx_ids db) a b) st)"
  define es where "es = sort_key l_end_balance (concat (map (list_entry st') ?ms))"
  have result: "get_fee_balances db today = Inr es"
  proof (cases "st = []")
    case True
    have none: "concat (map (list_entry []) ms) = []" for ms
      by (induction ms) (auto simp: list_entry_def)
    have "es = []" unfolding es_def st'_def if_P [OF True] none by simp
    then show ?thesis
      using build de(1) True
      by (simp add: get_fee_balances_def month_starts_eq [OF ok(1)] starts_def [symmetric]
          amounts_def [symmetric] Let_def)
  next
    case False
    then show ?thesis
      using build de(1)
      by (simp add: get_fee_balances_def month_starts_eq [OF ok(1)] starts_def
          amounts_def es_def st'_def ids_def im_def a_def b_def Let_def)
  qed
  have entry: "\<exists>r. calculate_fee_balance db today m None None = Inr r \<and>
      map l_end_balance (filter (\<lambda>e. l_id e = member_id m) es) =
        (case r of None \<Rightarrow> [] | Some b \<Rightarrow> [r_end_balance b])" if m: "m \<in> set ?ms" for m
  proof -
    have fm: "is_fee_member m" using m by (simp add: get_fee_members_eq)
    have "filter (\<lambda>e. l_id e = member_id m) es =
        sort_key l_end_balance (list_entry st' m)"
      unfolding es_def filter_sort by (simp add: filter_concat_singletons [OF dist m list_entry_ids])
    also have "\<dots> = list_entry st' m"
      by (auto simp: list_entry_def split: option.splits)
    finally have es_m: "filter (\<lambda>e. l_id e = member_id m) es = list_entry st' m" .
    note lookup = map_of_add_states [OF dist m, of "bulk_state starts amounts de" "[]", folded st_def]
    show ?thesis
    proof (cases "init_date_of m")
      case None
      have "map_of st (member_id m) = None" using lookup None by (simp add: bulk_state_def)
      then have "map_of st' (member_id m) = None"
        by (simp add: st'_def attribute_payments)
      then show ?thesis
        using fm None by (auto simp: es_m list_entry_def calculate_fee_balance_def)
    next
      case (Some d)
      then have d: "valid_date d" "1 < year d" "year d < 9999"
        using dates m by (auto simp: init_dates_ok_def)
      obtain s where s: "map_of st (member_id m) = Some s" "bulk_state starts amounts de m = Some s"
        using lookup Some by (auto simp: bulk_state_def)
      have s_fields: "s_init_date s = first_of_month d" "s_end_date s = bulk_end de (first_of_month d)"
          "s_fee_sum s = fees_of_span db m (first_of_month d) (bulk_end de (first_of_month d))"
          "s_payment_sum s = 0"
        using s(2) Some by (auto simp: bulk_state_def fees_of_span_def fs Let_def)
      have mem: "(member_id m, s) \<in> set st" using s(1) by (rule map_of_SomeD)
      then have ne: "st \<noteq> []" by auto
      have "s_init_date s \<in> (s_init_date \<circ> snd) ` set st" "s_end_date s \<in> (s_end_date \<circ> snd) ` set st"
        using mem by force+
      then have bounds: "a \<le> s_init_date s" "s_end_date s \<le> b"
        unfolding a_def b_def by (auto intro: Min_le Max_ge)
      have "member_id m \<in> ids" using m s(1) by (auto simp: ids_def)
      note sum = credited_sum [OF ok this bounds, folded im_def]
      have st'_m: "map_of st' (member_id m) = Some (s\<lparr>s_payment_sum := s_payment_sum s +
          payments_between db m (\<lambda>d. s_init_date s \<le> d \<and> d \<le> s_end_date s)\<rparr>)"
        using ne by (simp add: st'_def attribute_payments s(1) sum)
      obtain r where r: "calculate_fee_balance db today m None None = Inr (Some r)"
        "r_end_balance r = init_balance_of m - s_fee_sum s +
          payments_between db m (\<lambda>x. s_init_date s \<le> x \<and> x \<le> s_end_date s)"
        using calculate_default [OF fm Some d de, of db] by (auto simp: s_fields)
      then show ?thesis by (simp add: es_m list_entry_def st'_m s_fields(4))
    qed
  qed
  have "l_id ` set es \<subseteq> member_id ` set ?ms"
    by (auto simp: es_def dest: list_entry_ids)
  moreover have "sorted (map l_end_balance es)" by (simp add: es_def)
  ultimately show ?thesis using result entry by blast
qed

end
