(* ===== verification/Fee_Properties.thy ===== *)
theory Fee_Properties
  imports Fee_Bulk
begin

text \<open>
  What the fee service promises: the bulk list agrees with the single balance, the start of a
  report does not matter for its end, the two lookups of a fee agree, configuring a fee leaves
  the past alone and can be undone, and a report is an account statement that adds up.
\<close>

section \<open>A small association to evaluate on\<close>

definition sample_columns :: "member_field \<Rightarrow> pyval" where
  "sample_columns = (\<lambda>_. PNone)(F_vorname := PStr ''Max'', F_nachname := PStr ''Muster'',
     F_org_id := PStr ''vbw'', F_state_id := PStr ''up'', F_entlassen := PBool False,
     F_verstorben := PBool False, F_p4x_init_date := PDate (Date 2024 1 15),
     F_p4x_init_balance := PDec 5, F_p4x_freed := PBool False)"

definition sample_member :: member where
  "sample_member = \<lparr>member_id = 1, columns = sample_columns, member_roles = [], member_badges = [],
     member_keys = []\<rparr>"

definition sample_tx :: p4x_transaction where
  "sample_tx = \<lparr>tx_id = 7, sha256_hash = ''h'', booking = Date 2024 2 3, valuation = Date 2024 2 3,
     tx_iban = ''AT1'', amount = 30, subject = ''Beitrag'', tx_account_id = 2,
     delegating_member_id = None, delegating_contact_id = None, delegating_p4x_account_id = None,
     delegating_p4x_special_contact_id = None, tx_comment = None, tx_raw = None, attachment = None,
     tx_deleted_at = None\<rparr>"

definition sample_db :: p4x_db where
  "sample_db = \<lparr>members = [sample_member], contacts = [], special_contacts = [], accounts = [],
     transactions = [sample_tx],
     partners = [\<lparr>partner_pk = 3, partner_iban = Some ''AT1'', partner_member_id = Some 1,
       partner_contact_id = None, partner_account_id = None, partner_special_id = None,
       partner_deleted_at = None\<rparr>],
     categories = [\<lparr>cat_id = 4, cat_name = FEE_CATEGORY_NAME, cat_label = ''Beitrag'',
       background_color = ''#fff'', text_color = ''#000'', cat_protected = True\<rparr>],
     category_filters = [],
     category_directs = [\<lparr>cd_tx_id = 7, cd_category_id = 4, cd_amount = 30, cd_deleted_at = None\<rparr>],
     filter_hits = [],
     fees = [\<lparr>fee_start = Date 2020 1 1, fee_amount = 10, fee_protected = True\<rparr>],
     next_id = 100\<rparr>"

lemma sample_ok: "p4x_ok sample_db"
  by (simp add: p4x_ok_def sample_db_def sample_tx_def fee_row_ok_def partner_arc_ok_def
      delegating_arc_ok_def num_nonnulls_def days_in_month_def)

lemma sample_ibans: "partners_have_iban sample_db"
  by (simp add: partners_have_iban_def sample_db_def)

lemma sample_fee_members: "get_fee_members sample_db = [sample_member]"
  by (simp add: get_fee_members_def sample_db_def sample_member_def sample_columns_def)

lemma sample_init: "init_date_of sample_member = Some (Date 2024 1 15)"
  by (simp add: init_date_of_def date_col_def sample_member_def sample_columns_def)

lemma sample_dates: "init_dates_ok (get_fee_members sample_db)"
  by (simp add: sample_fee_members init_dates_ok_def sample_init days_in_month_def)

section \<open>The two computations\<close>

text \<open>C9: for every fee member, \<open>get_fee_balances\<close> has exactly one row with the final balance
  that \<open>calculate_fee_balance\<close> computes with the default dates, and none for a member for whom
  that function returns \<open>None\<close>; both return without an exception, and the list is sorted by
  balance. The hypotheses are the schema constraints, that every partner row has an IBAN, and
  dates inside the calendar.\<close>
theorem bulk_list_matches_single_balance:
  assumes "p4x_ok db" and "partners_have_iban db" and "init_dates_ok (get_fee_members db)"
    and "valid_date today" and "1 < year today"
  shows "\<exists>es. get_fee_balances db today = Inr es \<and> sorted (map l_end_balance es) \<and>
    l_id ` set es \<subseteq> member_id ` set (get_fee_members db) \<and>
    (\<forall>m \<in> set (get_fee_members db). \<exists>r. calculate_fee_balance db today m None None = Inr r \<and>
      map l_end_balance (filter (\<lambda>e. l_id e = member_id m) es) =
        (case r of None \<Rightarrow> [] | Some b \<Rightarrow> [r_end_balance b]))"
  using assms by (rule bulk_entry)

lemma bulk_list_matches_single_balance_witness:
  "\<exists>es r. get_fee_balances sample_db (Date 2024 4 10) = Inr es \<and>
     calculate_fee_balance sample_db (Date 2024 4 10) sample_member None None = Inr r \<and>
     map l_end_balance (filter (\<lambda>e. l_id e = 1) es) =
       (case r of None \<Rightarrow> [] | Some b \<Rightarrow> [r_end_balance b])"
  using bulk_list_matches_single_balance
    [OF sample_ok sample_ibans sample_dates, of "Date 2024 4 10"]
  by (auto simp: sample_fee_members days_in_month_def) (simp add: sample_member_def)

lemma calculate_SomeD:
  assumes "calculate_fee_balance db today m start_str end_str = Inr (Some r)"
  shows "\<exists>d e fin. init_date_of m = Some d \<and> chosen_end today end_str = Inr e \<and>
    (if e < chosen_start (first_of_month d) start_str
     then end_of_month (chosen_start (first_of_month d) start_str) else Inr e) = Inr fin \<and>
    balance_between db m (first_of_month d) (chosen_start (first_of_month d) start_str) fin = Inr r"
proof (cases "init_date_of m")
  case None
  then show ?thesis using assms by (simp add: calculate_fee_balance_def split: if_splits)
next
  case (Some d)
  then show ?thesis
    using assms by (simp only: calculate_fee_balance_def Let_def bind_res_eq_Inr option.case
        split: if_split_asm) auto
qed

lemma end_of_month_ge:
  assumes "valid_date t" "end_of_month t = Inr x"
  shows "t \<le> x"
proof (cases "(year t, month t) = (9999, 12)")
  case True
  then show ?thesis using assms end_of_month_overflow [of "day t"] by (cases t) auto
next
  case False
  then show ?thesis using end_of_month_eq [OF assms(1) False] assms by (cases t) auto
qed

lemma chosen_start_valid:
  assumes "valid_date init" "first_of_month init = init"
  shows "valid_date (chosen_start init s)" "first_of_month (chosen_start init s) = chosen_start init s"
    "init \<le> chosen_start init s"
proof -
  define x where "x = (case s of None \<Rightarrow> init
          | Some s \<Rightarrow> if s = [] then init
                     else (case fromisoformat (take 10 s) of Inl _ \<Rightarrow> init | Inr d \<Rightarrow> first_of_month d))"
  have x: "valid_date x" "first_of_month x = x"
    using assms by (auto simp: x_def valid_first_of_month fromisoformat_valid split: option.splits sum.splits)
  have c: "chosen_start init s = max x init" by (simp add: chosen_start_def x_def)
  show "valid_date (chosen_start init s)" "first_of_month (chosen_start init s) = chosen_start init s"
    "init \<le> chosen_start init s"
    using x assms by (auto simp: c max_def)
qed

lemma last_of_prev_month_valid: "valid_date today \<Longrightarrow> last_of_prev_month today = Inr e \<Longrightarrow> valid_date e"
  unfolding last_of_prev_month_def by (rule prev_day_valid [OF valid_first_of_month])

lemma chosen_end_valid:
  assumes "valid_date today" "chosen_end today s = Inr e"
  shows "valid_date e"
proof (cases "s = None \<or> s = Some []")
  case True
  then show ?thesis using assms last_of_prev_month_valid by (auto simp: chosen_end_def)
next
  case False
  then obtain t where t: "s = Some t" "t \<noteq> []" by auto
  show ?thesis
  proof (cases "bind_res (fromisoformat (take 10 t)) end_of_month")
    case (Inl x)
    then show ?thesis
      using assms t last_of_prev_month_valid by (cases x) (auto simp: chosen_end_def)
  next
    case (Inr x)
    then show ?thesis
      using assms t end_of_month_valid by (auto simp: chosen_end_def bind_res_eq_Inr)
  qed
qed

lemma chosen_start_None [simp]: "chosen_start init None = init"
  by (simp add: chosen_start_def)

text \<open>The start of the report does not change its final balance: with the same end date, the
  balance reported from a later start (whose opening balance carries the earlier months and
  payments) is the balance reported from the member's first month.\<close>
theorem balance_independent_of_start:
  assumes "init_dates_ok [m]" and "valid_date today"
    and "calculate_fee_balance db today m (Some s) end_str = Inr (Some r)"
    and "calculate_fee_balance db today m None end_str = Inr (Some r0)"
    and "r_end_date r = r_end_date r0"
  shows "r_end_balance r = r_end_balance r0"
proof -
  obtain d e fin where d: "init_date_of m = Some d" and e: "chosen_end today end_str = Inr e"
      "(if e < chosen_start (first_of_month d) (Some s)
        then end_of_month (chosen_start (first_of_month d) (Some s)) else Inr e) = Inr fin"
      "balance_between db m (first_of_month d) (chosen_start (first_of_month d) (Some s)) fin = Inr r"
    using calculate_SomeD [OF assms(3)] by blast
  define init start where "init = first_of_month d" and "start = chosen_start init (Some s)"
  obtain fin0 where e0: "(if e < init then end_of_month init else Inr e) = Inr fin0"
      "balance_between db m init init fin0 = Inr r0"
    unfolding init_def using calculate_SomeD [OF assms(4), unfolded chosen_start_None] d e(1) by auto
  have v: "valid_date init" "1 < year init" "first_of_month init = init"
    using assms(1) d by (auto simp: init_dates_ok_def init_def valid_first_of_month)
  have vs: "valid_date start" "first_of_month start = start" "init \<le> start"
    using chosen_start_valid [OF v(1,3)] by (auto simp: start_def)
  have ve: "valid_date e" using chosen_end_valid [OF assms(2) e(1)] .
  have fin: "(if e < start then end_of_month start else Inr e) = Inr fin"
    using e(2) by (simp only: start_def init_def)
  have vf: "valid_date fin" "valid_date fin0"
    using fin e0(1) ve end_of_month_valid by (auto split: if_splits)
  have le: "start \<le> fin" using fin end_of_month_ge [OF vs(1)] by (auto split: if_splits)
  have ys: "1 < year start" using v(2) vs(3) by (cases init; cases start) auto
  have b: "balance_between db m init start fin = Inr r" using e(3) by (simp only: start_def init_def)
  have "isoformat fin = isoformat fin0"
    using assms(5) balance_between_Inr [OF v(1) vs(1,2) vf(1) ys, of db m]
      balance_between_Inr [OF v(1) v(1) v(3) vf(2) v(2), of db m] b e0(2) by auto
  then have "fin = fin0" using vf by (simp add: isoformat_inject)
  then show ?thesis
    using balance_start_irrelevant [OF v(1) vs(1) vf(1) v(3) vs(2) v(2) vs(3) le b] e0(2) by simp
qed

lemma balance_independent_of_start_witness:
  "\<exists>r r0. calculate_fee_balance sample_db (Date 2024 4 10) sample_member (Some ''2024-02-01'')
       (Some ''2024-03-05'') = Inr (Some r) \<and>
     calculate_fee_balance sample_db (Date 2024 4 10) sample_member None (Some ''2024-03-05'') = Inr (Some r0) \<and>
     r_end_balance r = r_end_balance r0"
proof -
  let ?c = "\<lambda>s. calculate_fee_balance sample_db (Date 2024 4 10) sample_member s (Some ''2024-03-05'')"
  let ?e = "\<lambda>r. case r of Inr (Some r) \<Rightarrow> Some (r_end_date r) | _ \<Rightarrow> None"
  have "?e (?c (Some ''2024-02-01'')) = Some ''2024-03-31''" "?e (?c None) = Some ''2024-03-31''"
    by code_simp+
  then obtain r r0 where r: "?c (Some ''2024-02-01'') = Inr (Some r)" "?c None = Inr (Some r0)"
      "r_end_date r = r_end_date r0"
    by (auto split: sum.splits option.splits)
  have "init_dates_ok [sample_member]" "valid_date (Date 2024 4 10)"
    by (simp_all add: init_dates_ok_def sample_init days_in_month_def)
  from balance_independent_of_start [OF this r] r show ?thesis by blast
qed

section \<open>The fee in force and its configuration\<close>

text \<open>The binary search over the loaded step function and the query for a single month find
  the same fee, for every month and every configuration.\<close>
theorem step_function_agrees_with_query:
  assumes "p4x_ok db"
  shows "(case fee_step_function db of (starts, amounts) \<Rightarrow> fee_at starts amounts m) = fee_for_month db m"
  using fee_at_eq_fee_for_month [OF assms] by (cases "fee_step_function db") simp

lemma step_function_agrees_with_query_witness:
  "(case fee_step_function sample_db of (starts, amounts) \<Rightarrow> fee_at starts amounts (Date 2024 3 7)) = 10"
  unfolding step_function_agrees_with_query [OF sample_ok] by code_simp

lemma latest_fee_create:
  assumes "distinct (map fee_start fs)" "\<forall>f \<in> set fs. fee_start f \<noteq> s"
  shows "d < s \<Longrightarrow> latest_fee (fs @ [\<lparr>fee_start = s, fee_amount = x, fee_protected = p\<rparr>]) d = latest_fee fs d"
    and "s \<le> d \<Longrightarrow> \<forall>f \<in> set fs. fee_start f \<le> d \<longrightarrow> fee_start f < s \<Longrightarrow>
      latest_fee (fs @ [\<lparr>fee_start = s, fee_amount = x, fee_protected = p\<rparr>]) d = x"
    and "\<exists>f \<in> set fs. s < fee_start f \<and> fee_start f \<le> d \<Longrightarrow>
      latest_fee (fs @ [\<lparr>fee_start = s, fee_amount = x, fee_protected = p\<rparr>]) d = latest_fee fs d"
proof -
  let ?r = "\<lparr>fee_start = s, fee_amount = x, fee_protected = p\<rparr>"
  have d: "distinct (map fee_start (fs @ [?r]))" using assms by auto
  show "d < s \<Longrightarrow> latest_fee (fs @ [?r]) d = latest_fee fs d"
    by (rule latest_fee_cong [OF _ d]) auto
  have "s \<le> d \<Longrightarrow> \<forall>f \<in> set fs. fee_start f \<le> d \<longrightarrow> fee_start f < s \<Longrightarrow> latest_fee (fs @ [?r]) d = fee_amount ?r"
    by (rule latest_fee_eqI [OF d]) (auto intro: less_imp_le)
  then show "s \<le> d \<Longrightarrow> \<forall>f \<in> set fs. fee_start f \<le> d \<longrightarrow> fee_start f < s \<Longrightarrow> latest_fee (fs @ [?r]) d = x"
    by simp
  assume "\<exists>f \<in> set fs. s < fee_start f \<and> fee_start f \<le> d"
  then obtain f where f: "f \<in> set fs" "s < fee_start f" "fee_start f \<le> d" by blast
  let ?F = "{f \<in> set fs. fee_start f \<le> d}"
  have fin: "finite (fee_start ` ?F)" "fee_start ` ?F \<noteq> {}" using f by auto
  obtain g where g: "g \<in> ?F" "fee_start g = Max (fee_start ` ?F)"
    using Max_in [OF fin] by (metis (no_types, lifting) imageE)
  have top: "fee_start h \<le> fee_start g" if "h \<in> set fs" "fee_start h \<le> d" for h
    using that Max_ge [OF fin(1), of "fee_start h"] g(2) by auto
  have "s \<le> fee_start g" using f top [OF f(1,3)] by order
  then have "latest_fee (fs @ [?r]) d = fee_amount g"
    using g(1) by (intro latest_fee_eqI [OF d]) (auto intro: top)
  moreover have "latest_fee fs d = fee_amount g"
    using g(1) by (intro latest_fee_eqI [OF assms(1)]) (auto intro: top)
  ultimately show "latest_fee (fs @ [?r]) d = latest_fee fs d" by simp
qed

lemma created_row:
  assumes "create_fee db today y m fee = Inr (db', None)"
  shows "db' = db\<lparr>fees := fees db @ [\<lparr>fee_start = Date y m 1, fee_amount = fee, fee_protected = False\<rparr>]\<rparr>"
    and "mk_date y m 1 = Inr (Date y m 1)" and "first_of_month today \<le> Date y m 1"
    and "\<forall>f \<in> set (fees db). fee_start f \<noteq> Date y m 1"
  using create_fee_cases [OF assms] by auto

text \<open>A fee that \<open>create_fee\<close> accepts is what \<open>fee_for_month\<close> returns from its month on until
  the next configured start; all other months, and so every month before the current one, keep
  the fee they had.\<close>
theorem created_fee_takes_force:
  assumes "p4x_ok db" and "create_fee db today y m fee = Inr (db', None)"
  shows "fee_for_month db' t =
    (if Date y m 1 \<le> first_of_month t \<and>
        \<not> (\<exists>f \<in> set (fees db). Date y m 1 < fee_start f \<and> fee_start f \<le> first_of_month t)
     then fee else fee_for_month db t) \<and>
    (first_of_month t < first_of_month today \<longrightarrow> fee_for_month db' t = fee_for_month db t)"
proof -
  have d: "distinct (map fee_start (fees db))" using assms(1) by (simp add: p4x_ok_def)
  note row = created_row [OF assms(2)] and latest = latest_fee_create [OF d created_row(4) [OF assms(2)]]
  have new: "fee_for_month db' t = latest_fee
      (fees db @ [\<lparr>fee_start = Date y m 1, fee_amount = fee, fee_protected = False\<rparr>]) (first_of_month t)"
    by (simp add: fee_for_month_latest row(1))
  have "fee_for_month db' t = (if Date y m 1 \<le> first_of_month t \<and>
        \<not> (\<exists>f \<in> set (fees db). Date y m 1 < fee_start f \<and> fee_start f \<le> first_of_month t)
     then fee else fee_for_month db t)"
  proof (cases "Date y m 1 \<le> first_of_month t \<and>
      \<not> (\<exists>f \<in> set (fees db). Date y m 1 < fee_start f \<and> fee_start f \<le> first_of_month t)")
    case True
    then have "\<forall>f \<in> set (fees db). fee_start f \<le> first_of_month t \<longrightarrow> fee_start f < Date y m 1"
      using row(4) by (metis not_less_iff_gr_or_eq)
    then show ?thesis using True latest(2) unfolding new by simp
  next
    case False
    then have "fee_for_month db' t = fee_for_month db t"
      unfolding new unfolding fee_for_month_latest
      using latest(1) [of "first_of_month t"] latest(3) [of "first_of_month t"]
      by (meson linorder_not_le)
    then show ?thesis unfolding if_not_P [OF False] .
  qed
  moreover have "first_of_month t < first_of_month today \<Longrightarrow> \<not> Date y m 1 \<le> first_of_month t"
    using row(3) by order
  ultimately show ?thesis by auto
qed

lemma created_fee_takes_force_witness:
  "\<exists>db'. create_fee sample_db (Date 2024 4 10) 2024 6 12 = Inr (db', None) \<and>
     fee_for_month db' (Date 2024 7 1) = 12 \<and> fee_for_month db' (Date 2024 3 1) = 10"
proof -
  have c: "create_fee sample_db (Date 2024 4 10) 2024 6 12 = Inr (sample_db\<lparr>fees := fees sample_db @
      [\<lparr>fee_start = Date 2024 6 1, fee_amount = 12, fee_protected = False\<rparr>]\<rparr>, None)"
    by (simp add: create_fee_def sample_db_def days_in_month_def)
  have "fee_for_month sample_db (Date 2024 3 1) = 10" by code_simp
  then show ?thesis
    using created_fee_takes_force [OF sample_ok c, of "Date 2024 7 1"]
      created_fee_takes_force [OF sample_ok c, of "Date 2024 3 1"] c
    by (simp add: sample_db_def)
qed

text \<open>Deleting the fee that was just created, under the text of its month, succeeds and leaves
  the configuration exactly as it was.\<close>
theorem delete_undoes_create_fee:
  assumes "create_fee db today y m fee = Inr (db', None)"
  shows "delete_fee db' (isoformat (Date y m 1)) = Inr (db, None)"
proof -
  note row = created_row [OF assms]
  have "valid_date (Date y m 1)" using mk_date_InrD [OF row(2)] by simp
  moreover have "delete_where (\<lambda>f. fee_start f = Date y m 1) (fees db) = fees db"
    using row(4) by (intro delete_where_id) auto
  ultimately show ?thesis
    by (simp add: delete_fee_def fromisoformat_isoformat row(1) delete_where_def)
qed

lemma delete_undoes_create_fee_witness:
  "\<exists>db'. create_fee sample_db (Date 2024 4 10) 2024 6 12 = Inr (db', None) \<and>
     delete_fee db' ''2024-06-01'' = Inr (sample_db, None)"
proof -
  have c: "create_fee sample_db (Date 2024 4 10) 2024 6 12 = Inr (sample_db\<lparr>fees := fees sample_db @
      [\<lparr>fee_start = Date 2024 6 1, fee_amount = 12, fee_protected = False\<rparr>]\<rparr>, None)"
    by (simp add: create_fee_def sample_db_def days_in_month_def)
  have "isoformat (Date 2024 6 1) = ''2024-06-01''" by code_simp
  then show ?thesis using delete_undoes_create_fee [OF c] c by simp
qed

section \<open>A report is an account statement\<close>

lemma running_balances_nth:
  "i < length es \<Longrightarrow> e_balance (running_balances b es ! i) = Some (b + sum_list (map e_amount (take (Suc i) es)))"
  by (induction es arbitrary: b i) (auto simp: Let_def nth_Cons add.assoc split: nat.splits)

lemma running_balances_booking: "map e_booking (running_balances b es) = map e_booking es"
  by (induction es arbitrary: b) (auto simp: Let_def)

lemma length_running_balances [simp]: "length (running_balances b es) = length es"
  by (induction es arbitrary: b) (auto simp: Let_def)

text \<open>The report of a member is an account statement: its rows are sorted by booking date, the
  balance in row \<open>i\<close> is the opening balance plus the amounts of the rows up to \<open>i\<close>, every row is a
  fee or a payment, and the closing balance is the opening balance plus the two totals shown.\<close>
theorem report_adds_up:
  assumes "calculate_fee_balance db today m start_str end_str = Inr (Some r)"
  shows "sorted (map e_booking (r_progress r)) \<and>
    (\<forall>i < length (r_progress r). e_balance (r_progress r ! i) =
       Some (r_start_balance r + sum_list (map e_amount (take (Suc i) (r_progress r))))) \<and>
    r_count_fees r + r_count_payments r = length (r_progress r) \<and>
    r_end_balance r = r_start_balance r + r_sum_fees r + r_sum_payments r \<and>
    r_end_balance r = r_start_balance r + sum_list (map e_amount (r_progress r))"
proof -
  obtain init start fin where "balance_between db m init start fin = Inr r"
    using calculate_SomeD [OF assms] by blast
  then obtain b es where r: "r_progress r = running_balances b (sort_key e_booking es)"
      "r_start_balance r = b" "r_end_balance r = b + sum_list (map e_amount es)"
      "r_count_fees r = length (filter (\<lambda>e. e_type e = FeeEntry) (r_progress r))"
      "r_count_payments r = length (filter (\<lambda>e. e_type e = PaymentEntry) (r_progress r))"
      "r_sum_fees r = sum_list (map e_amount (filter (\<lambda>e. e_type e = FeeEntry) (r_progress r)))"
      "r_sum_payments r = sum_list (map e_amount (filter (\<lambda>e. e_type e = PaymentEntry) (r_progress r)))"
    by (auto simp: balance_between_def Let_def bind_res_eq_Inr split: prod.splits)
  have kind: "e_type e = PaymentEntry \<longleftrightarrow> e_type e \<noteq> FeeEntry" for e :: progress_entry
    by (cases "e_type e") auto
  have "sum_list (map e_amount (r_progress r)) = r_sum_fees r + r_sum_payments r"
    unfolding r(6,7) kind by (rule sum_list_filter_split)
  moreover have "r_count_fees r + r_count_payments r = length (r_progress r)"
    unfolding r(4,5) kind by (rule sum_length_filter_compl)
  moreover have amounts: "map e_amount (r_progress r) = map e_amount (sort_key e_booking es)"
    by (simp add: r(1) sum_running_balances)
  then have "sum_list (map e_amount (r_progress r)) = sum_list (map e_amount es)" by simp
  moreover have "sorted (map e_booking (r_progress r))" by (simp add: r(1) running_balances_booking)
  moreover have "e_balance (r_progress r ! i) =
      Some (r_start_balance r + sum_list (map e_amount (take (Suc i) (r_progress r))))"
    if "i < length (r_progress r)" for i
    using that amounts by (simp add: r(1,2) running_balances_nth take_map [symmetric])
  ultimately show ?thesis using r(2,3) by (auto simp: add.assoc)
qed

lemma report_adds_up_witness:
  "\<exists>r. calculate_fee_balance sample_db (Date 2024 4 10) sample_member None (Some ''2024-03-05'') =
      Inr (Some r) \<and> r_end_balance r = r_start_balance r + r_sum_fees r + r_sum_payments r"
proof -
  let ?c = "calculate_fee_balance sample_db (Date 2024 4 10) sample_member None (Some ''2024-03-05'')"
  have "(case ?c of Inr (Some r) \<Rightarrow> r_end_balance r | _ \<Rightarrow> 0) = 5" by code_simp
  then obtain r where "?c = Inr (Some r)" by (auto split: sum.splits option.splits)
  then show ?thesis using report_adds_up by blast
qed

end
