(* ===== verification/Permissions.thy ===== *)
theory Permissions
  imports Members
begin

text \<open>
  \<open>app/services/permission_service.py\<close>: a member's permissions are derived from the roles that
  are active today, the organisation and, for the break-glass rule, a verified address. The
  settings the module reads once (\<open>DEV_SUPERUSER_ID\<close>, \<open>SYSTEM_ADMIN_EMAILS\<close>) are a record;
  \<open>local_today()\<close> is an argument.
\<close>

record settings =
  dev_superuser_id :: "uuid option"
  app_environment :: string
  system_admin_email_set :: "string set"

text \<open>\<open>DEV_SUPERUSER_ID\<close>: only active in development.\<close>

definition effective_dev_superuser :: "settings \<Rightarrow> uuid option" where
  "effective_dev_superuser cfg =
     (if app_environment cfg = ''development'' then dev_superuser_id cfg else None)"

type_synonym rule_condition =
  "settings \<Rightarrow> string set \<Rightarrow> string set \<Rightarrow> string option \<Rightarrow> string option \<Rightarrow> bool"

record permission_rule =
  permission :: string
  condition :: rule_condition

definition PERMISSION_RULES :: "permission_rule list" where
  "PERMISSION_RULES =
   [\<lparr>permission = ''archiveAdmin'',
     condition = \<lambda>cfg rids rgrps org email.
       org = Some ''vbw'' \<and> (''internetreferent'' \<in> rids \<or> ''archivar2'' \<in> rids)\<rparr>,
    \<lparr>permission = ''systemAdmin'',
     condition = \<lambda>cfg rids rgrps org email.
       (''internetreferent'' \<in> rids \<and> org = Some ''vbw'') \<or>
       (case email of None \<Rightarrow> False | Some e \<Rightarrow> e \<in> system_admin_email_set cfg)\<rparr>,
    \<lparr>permission = ''standesdbContactAdmin'',
     condition = \<lambda>cfg rids rgrps org email. ''standesfuehrer'' \<in> rids\<rparr>,
    \<lparr>permission = ''standesdbVbwAdmin'',
     condition = \<lambda>cfg rids rgrps org email.
       org = Some ''vbw'' \<and> (''standesfuehrer'' \<in> rids \<or> ''internetreferent'' \<in> rids)\<rparr>,
    \<lparr>permission = ''standesdbVbnAdmin'',
     condition = \<lambda>cfg rids rgrps org email. ''standesfuehrer'' \<in> rids \<and> org = Some ''vbn''\<rparr>,
    \<lparr>permission = ''standesdbExport'',
     condition = \<lambda>cfg rids rgrps org email.
       ''chc'' \<in> rgrps \<or> ''philchc'' \<in> rgrps \<or> ''standesfuehrer'' \<in> rids\<rparr>,
    \<lparr>permission = ''keylist'',
     condition = \<lambda>cfg rids rgrps org email. ''chc'' \<in> rgrps \<or> ''philchc'' \<in> rgrps\<rparr>,
    \<lparr>permission = ''p4xView'',
     condition = \<lambda>cfg rids rgrps org email. ''philchc'' \<in> rgrps \<and> org = Some ''vbw''\<rparr>,
    \<lparr>permission = ''p4xAdmin'',
     condition = \<lambda>cfg rids rgrps org email. ''phil-xxxx'' \<in> rids \<and> org = Some ''vbw''\<rparr>,
    \<lparr>permission = ''publicContentEditor'',
     condition = \<lambda>cfg rids rgrps org email.
       (''internetreferent'' \<in> rids \<or> ''socialmediareferent'' \<in> rids) \<and> org = Some ''vbw''\<rparr>]"

definition ALL_PERMISSIONS :: "string list" where
  "ALL_PERMISSIONS = sorted_list_of_set (set (map permission PERMISSION_RULES))"

definition verified_email :: "member \<Rightarrow> string option" where
  "verified_email m =
     (case time_col m F_email_verified_at of None \<Rightarrow> None | Some _ \<Rightarrow> text_col m F_email)"

definition role_active :: "date \<Rightarrow> member_role \<Rightarrow> bool" where
  "role_active today mr \<longleftrightarrow>
     mr_startdate mr \<le> today \<and>
     (case mr_enddate mr of None \<Rightarrow> True | Some e \<Rightarrow> today < e)"

text \<open>The group of an assignment's role; an absent or empty group counts for nothing.\<close>

definition mr_group :: "member_role \<Rightarrow> string option" where
  "mr_group mr =
     (case mr_role mr of None \<Rightarrow> None
      | Some r \<Rightarrow> (case role_group r of None \<Rightarrow> None | Some g \<Rightarrow> if g = [] then None else Some g))"

fun active_roles_loop :: "date \<Rightarrow> member_role list \<Rightarrow> string set \<times> string set \<Rightarrow> string set \<times> string set" where
  "active_roles_loop today [] acc = acc"
| "active_roles_loop today (mr # mrs) (ids, groups) =
     active_roles_loop today mrs
       (if role_active today mr
        then (insert (mr_role_id mr) ids,
              (case mr_group mr of None \<Rightarrow> groups | Some g \<Rightarrow> insert g groups))
        else (ids, groups))"

definition active_roles :: "date \<Rightarrow> member \<Rightarrow> string set \<times> string set" where
  "active_roles today m = active_roles_loop today (member_roles m) ({}, {})"

definition permissions_conferred_by_role :: "settings \<Rightarrow> role \<Rightarrow> string option \<Rightarrow> string set" where
  "permissions_conferred_by_role cfg r org =
     (let groups = (case role_group r of None \<Rightarrow> {} | Some g \<Rightarrow> if g = [] then {} else {g})
      in set (map permission
           (filter (\<lambda>rule. condition rule cfg {role_id r} groups org None) PERMISSION_RULES)))"

definition rules_met :: "settings \<Rightarrow> date \<Rightarrow> member \<Rightarrow> permission_rule list" where
  "rules_met cfg today m =
     (case active_roles today m of (ids, groups) \<Rightarrow>
        filter (\<lambda>rule. condition rule cfg ids groups (text_col m F_org_id) (verified_email m))
          PERMISSION_RULES)"

definition calculate_permissions :: "settings \<Rightarrow> date \<Rightarrow> member \<Rightarrow> string list" where
  "calculate_permissions cfg today m =
     (if effective_dev_superuser cfg = Some (member_id m) then ALL_PERMISSIONS
      else map permission (rules_met cfg today m))"

fun group_members_by_rule :: "settings \<Rightarrow> date \<Rightarrow> member list \<Rightarrow> (string \<Rightarrow> member list) \<Rightarrow> (string \<Rightarrow> member list)" where
  "group_members_by_rule cfg today [] holders = holders"
| "group_members_by_rule cfg today (m # ms) holders =
     group_members_by_rule cfg today ms
       (fold (\<lambda>rule h. h(permission rule := h (permission rule) @ [m])) (rules_met cfg today m) holders)"

definition group_members_by_rule_condition :: "settings \<Rightarrow> date \<Rightarrow> member list \<Rightarrow> string \<Rightarrow> member list" where
  "group_members_by_rule_condition cfg today ms = group_members_by_rule cfg today ms (\<lambda>_. [])"

definition get_permission_rules_display :: "settings \<Rightarrow> date \<Rightarrow> member list \<Rightarrow> (string \<times> string list) list" where
  "get_permission_rules_display cfg today ms =
     (let holders = group_members_by_rule_condition cfg today ms
      in map (\<lambda>rule. (permission rule, sort (map cn (holders (permission rule))))) PERMISSION_RULES)"

definition get_dev_superuser_cn :: "settings \<Rightarrow> member list \<Rightarrow> string option" where
  "get_dev_superuser_cn cfg ms =
     (case effective_dev_superuser cfg of None \<Rightarrow> None
      | Some u \<Rightarrow> map_option cn (get_by member_id ms u))"

definition get_emails_with_permission :: "settings \<Rightarrow> date \<Rightarrow> member list \<Rightarrow> string \<Rightarrow> string list" where
  "get_emails_with_permission cfg today ms p =
     map (\<lambda>m. text_or_empty m F_email)
       (filter (\<lambda>m. text_or_empty m F_email \<noteq> [] \<and> p \<in> set (calculate_permissions cfg today m)) ms)"

section \<open>Facts about the rules\<close>

lemma active_roles_loop_eq:
  "active_roles_loop today mrs (ids, groups) =
     (ids \<union> mr_role_id ` {mr \<in> set mrs. role_active today mr},
      groups \<union> {g. \<exists>mr \<in> set mrs. role_active today mr \<and> mr_group mr = Some g})"
proof (induction mrs arbitrary: ids groups)
  case Nil
  then show ?case by simp
next
  case (Cons mr mrs)
  show ?case
    by (cases "role_active today mr"; cases "mr_group mr") (auto simp: Cons.IH)
qed

lemma active_roles_eq:
  "active_roles today m =
     (mr_role_id ` {mr \<in> set (member_roles m). role_active today mr},
      {g. \<exists>mr \<in> set (member_roles m). role_active today mr \<and> mr_group mr = Some g})"
  by (simp add: active_roles_def active_roles_loop_eq)

text \<open>Every rule is monotone in the roles, the groups and the address.\<close>

lemma rules_monotone:
  assumes "rule \<in> set PERMISSION_RULES"
    and "condition rule cfg ids groups org None"
    and "ids \<subseteq> ids'" and "groups \<subseteq> groups'"
  shows "condition rule cfg ids' groups' org email"
  using assms by (auto simp: PERMISSION_RULES_def)

lemma rules_without_roles:
  assumes "rule \<in> set PERMISSION_RULES" and "condition rule cfg {} {} org email"
  shows "permission rule = ''systemAdmin'' \<and> (\<exists>e. email = Some e \<and> e \<in> system_admin_email_set cfg)"
  using assms by (auto simp: PERMISSION_RULES_def split: option.splits)

lemma permission_names:
  "map permission PERMISSION_RULES =
     [''archiveAdmin'', ''systemAdmin'', ''standesdbContactAdmin'', ''standesdbVbwAdmin'',
      ''standesdbVbnAdmin'', ''standesdbExport'', ''keylist'', ''p4xView'', ''p4xAdmin'',
      ''publicContentEditor'']"
  by (simp add: PERMISSION_RULES_def)

lemma distinct_permissions: "distinct (map permission PERMISSION_RULES)"
  by (simp add: permission_names)

lemma set_ALL_PERMISSIONS: "set ALL_PERMISSIONS = set (map permission PERMISSION_RULES)"
  by (simp add: ALL_PERMISSIONS_def)

lemma rules_met_subset: "set (rules_met cfg today m) \<subseteq> set PERMISSION_RULES"
  by (auto simp: rules_met_def split: prod.splits)

lemma distinct_rules_met: "distinct (map permission (rules_met cfg today m))"
  by (auto simp: rules_met_def distinct_map_filter distinct_permissions split: prod.splits)

lemma mem_calculate_permissions:
  "p \<in> set (calculate_permissions cfg today m) \<longleftrightarrow>
     (if effective_dev_superuser cfg = Some (member_id m) then p \<in> permission ` set PERMISSION_RULES
      else p \<in> permission ` set (rules_met cfg today m))"
  by (simp add: calculate_permissions_def set_ALL_PERMISSIONS)

text \<open>What a role confers alone, the holder of an active assignment of it has.\<close>

lemma conferred_by_active_role:
  assumes mr: "mr \<in> set (member_roles m)" "role_active today mr"
    and r: "mr_role mr = Some r" "role_id r = mr_role_id mr"
    and p: "p \<in> permissions_conferred_by_role cfg r (text_col m F_org_id)"
  shows "p \<in> set (calculate_permissions cfg today m)"
proof -
  define groups where "groups = (case role_group r of None \<Rightarrow> {} | Some g \<Rightarrow> if g = [] then {} else {g})"
  obtain rule where rule: "rule \<in> set PERMISSION_RULES" "permission rule = p"
    and c: "condition rule cfg {role_id r} groups (text_col m F_org_id) None"
    using p by (auto simp: permissions_conferred_by_role_def groups_def)
  have ids: "{role_id r} \<subseteq> fst (active_roles today m)"
    using mr r by (auto simp: active_roles_eq)
  have "mr_group mr = Some g" if "g \<in> groups" for g
    using that r by (auto simp: groups_def mr_group_def split: option.splits if_splits)
  then have grp: "groups \<subseteq> snd (active_roles today m)"
    using mr by (auto simp: active_roles_eq)
  have "rule \<in> set (rules_met cfg today m)"
    using rules_monotone [OF rule(1) c ids grp] rule(1)
    by (simp add: rules_met_def case_prod_beta)
  then show ?thesis using rule by (auto simp: mem_calculate_permissions)
qed

text \<open>Without an active role only the break-glass rule can apply, and only to a verified address.\<close>

lemma permissions_without_roles:
  assumes "effective_dev_superuser cfg \<noteq> Some (member_id m)"
    and "\<forall>mr \<in> set (member_roles m). \<not> role_active today mr"
    and "p \<in> set (calculate_permissions cfg today m)"
  shows "p = ''systemAdmin'' \<and> time_col m F_email_verified_at \<noteq> None \<and>
    (\<exists>e. text_col m F_email = Some e \<and> e \<in> system_admin_email_set cfg)"
proof -
  have none: "active_roles today m = ({}, {})" using assms(2) by (auto simp: active_roles_eq)
  obtain rule where "rule \<in> set (rules_met cfg today m)" "permission rule = p"
    using assms(1,3) by (auto simp: mem_calculate_permissions)
  then have "p = ''systemAdmin'' \<and> (\<exists>e. verified_email m = Some e \<and> e \<in> system_admin_email_set cfg)"
    using rules_without_roles [of rule cfg "text_col m F_org_id" "verified_email m"]
    by (auto simp: rules_met_def none)
  then show ?thesis by (auto simp: verified_email_def split: option.splits)
qed

section \<open>The display of the rules\<close>

lemma fold_append_holder:
  "distinct (map permission rs) \<Longrightarrow>
   fold (\<lambda>rule h. h(permission rule := h (permission rule) @ [m])) rs h p =
     h p @ (if p \<in> permission ` set rs then [m] else [])"
  by (induction rs arbitrary: h) auto

lemma group_members_by_rule_eq:
  "group_members_by_rule cfg today ms h p =
     h p @ filter (\<lambda>m. p \<in> permission ` set (rules_met cfg today m)) ms"
  by (induction ms arbitrary: h) (auto simp: fold_append_holder distinct_rules_met)

lemma holders_eq:
  "group_members_by_rule_condition cfg today ms p =
     filter (\<lambda>m. p \<in> permission ` set (rules_met cfg today m)) ms"
  by (simp add: group_members_by_rule_condition_def group_members_by_rule_eq)

text \<open>Outside development the display lists exactly the members that have the permission.\<close>

lemma display_lists_holders:
  assumes "app_environment cfg \<noteq> ''development''"
    and "(p, names) \<in> set (get_permission_rules_display cfg today ms)"
  shows "mset names = image_mset cn (mset (filter (\<lambda>m. p \<in> set (calculate_permissions cfg today m)) ms))"
proof -
  have sup: "effective_dev_superuser cfg = None"
    using assms(1) by (simp add: effective_dev_superuser_def)
  have "names = sort (map cn (group_members_by_rule_condition cfg today ms p))"
    using assms(2) by (auto simp: get_permission_rules_display_def)
  then show ?thesis by (simp add: holders_eq mem_calculate_permissions sup)
qed

end
