(* ===== verification/Permission_Properties.thy ===== *)
theory Permission_Properties
  imports Permissions
begin

text \<open>
  What the permission service promises: a role confers what its active holders have, without a
  role only the break-glass address counts, and the set-up page lists the holders.
\<close>

section \<open>Two members to evaluate on\<close>

definition demo_settings :: settings where
  "demo_settings = \<lparr>dev_superuser_id = Some 1, app_environment = ''production'',
     system_admin_email_set = {''a@b.at''}\<rparr>"

definition treasurer_role :: role where
  "treasurer_role = \<lparr>role_id = ''phil-xxxx'', role_label = Some ''Philisterkassier'',
     role_group = Some ''philchc'', role_sort_order = None\<rparr>"

definition treasurer :: member where
  "treasurer = \<lparr>member_id = 1, columns = (\<lambda>_. PNone)(F_org_id := PStr ''vbw'', F_vorname := PStr ''Max''),
     member_roles = [\<lparr>mr_role_id = ''phil-xxxx'', mr_startdate = Date 2023 1 1,
       mr_enddate = None, mr_role = Some treasurer_role\<rparr>],
     member_badges = [], member_keys = []\<rparr>"

definition outsider :: member where
  "outsider = \<lparr>member_id = 2, columns = (\<lambda>_. PNone)(F_email := PStr ''a@b.at'',
       F_email_verified_at := PTime 5),
     member_roles = [], member_badges = [], member_keys = []\<rparr>"

section \<open>The promises\<close>

lemma rules_of_nobody:
  "map permission (filter (\<lambda>rule. condition rule cfg {} {} org email) PERMISSION_RULES) =
     (case email of None \<Rightarrow> [] | Some e \<Rightarrow> if e \<in> system_admin_email_set cfg then [''systemAdmin''] else [])"
  by (simp add: PERMISSION_RULES_def split: option.splits)

text \<open>Whatever \<open>permissions_conferred_by_role\<close> says a role gives a member of an organisation, a
  member of that organisation with an assignment of the role that is active today has.\<close>
theorem conferred_permissions_are_held:
  assumes "mr \<in> set (member_roles m)" and "role_active today mr"
    and "mr_role mr = Some r" and "role_id r = mr_role_id mr"
    and "p \<in> permissions_conferred_by_role cfg r (text_col m F_org_id)"
  shows "p \<in> set (calculate_permissions cfg today m)"
  using assms by (rule conferred_by_active_role)

lemma conferred_permissions_are_held_witness:
  "''p4xAdmin'' \<in> set (calculate_permissions demo_settings (Date 2024 4 1) treasurer)"
  by (rule conferred_permissions_are_held [where mr = "hd (member_roles treasurer)" and r = treasurer_role])
    (simp_all add: treasurer_def treasurer_role_def role_active_def text_col_def
      permissions_conferred_by_role_def PERMISSION_RULES_def)

text \<open>C28: a member without an assignment that is active today, who is not the development
  superuser, has at most the permission \<open>systemAdmin\<close>, and that one exactly when the address on
  record is verified and configured as a break-glass address.\<close>
theorem without_active_role_only_break_glass:
  assumes "effective_dev_superuser cfg \<noteq> Some (member_id m)"
    and "\<forall>mr \<in> set (member_roles m). \<not> role_active today mr"
  shows "p \<in> set (calculate_permissions cfg today m) \<longleftrightarrow>
    p = ''systemAdmin'' \<and> time_col m F_email_verified_at \<noteq> None \<and>
    (\<exists>e. text_col m F_email = Some e \<and> e \<in> system_admin_email_set cfg)"
proof -
  have none: "active_roles today m = ({}, {})" using assms(2) by (auto simp: active_roles_eq)
  have "calculate_permissions cfg today m = (case verified_email m of None \<Rightarrow> []
      | Some e \<Rightarrow> if e \<in> system_admin_email_set cfg then [''systemAdmin''] else [])"
    using assms(1) by (simp add: calculate_permissions_def rules_met_def none rules_of_nobody)
  then show ?thesis by (auto simp: verified_email_def split: option.splits)
qed

lemma without_active_role_only_break_glass_witness:
  "calculate_permissions demo_settings (Date 2024 4 1) outsider = [''systemAdmin''] \<and>
   ''p4xView'' \<notin> set (calculate_permissions demo_settings (Date 2024 4 1) outsider) \<and>
   ''systemAdmin'' \<in> set (calculate_permissions demo_settings (Date 2024 4 1) outsider)"
proof -
  have none: "effective_dev_superuser demo_settings \<noteq> Some (member_id outsider)"
      "\<forall>mr \<in> set (member_roles outsider). \<not> role_active (Date 2024 4 1) mr"
    by (simp_all add: effective_dev_superuser_def demo_settings_def outsider_def)
  have "calculate_permissions demo_settings (Date 2024 4 1) outsider = [''systemAdmin'']"
    by code_simp
  then show ?thesis
    using without_active_role_only_break_glass [OF none, of "''p4xView''"]
      without_active_role_only_break_glass [OF none, of "''systemAdmin''"] by simp
qed

text \<open>Outside development the set-up page has one row per permission rule, and the row's names
  are the common names of exactly the members who have the permission, with their multiplicity.\<close>
theorem rules_display_lists_the_holders:
  assumes "app_environment cfg \<noteq> ''development''"
  shows "map fst (get_permission_rules_display cfg today ms) = map permission PERMISSION_RULES \<and>
    (\<forall>(p, names) \<in> set (get_permission_rules_display cfg today ms).
      mset names = image_mset cn (mset (filter (\<lambda>m. p \<in> set (calculate_permissions cfg today m)) ms)))"
proof
  show "map fst (get_permission_rules_display cfg today ms) = map permission PERMISSION_RULES"
    by (simp add: get_permission_rules_display_def Let_def comp_def)
  show "\<forall>(p, names) \<in> set (get_permission_rules_display cfg today ms).
      mset names = image_mset cn (mset (filter (\<lambda>m. p \<in> set (calculate_permissions cfg today m)) ms))"
    using display_lists_holders [OF assms] by blast
qed

lemma rules_display_lists_the_holders_witness:
  "\<exists>names. (''p4xAdmin'', names) \<in> set (get_permission_rules_display demo_settings (Date 2024 4 1)
       [treasurer, outsider]) \<and> mset names = {#''Max''#}"
proof -
  have prod: "app_environment demo_settings \<noteq> ''development''" by (simp add: demo_settings_def)
  have "(''p4xAdmin'', [''Max'']) \<in> set (get_permission_rules_display demo_settings (Date 2024 4 1)
       [treasurer, outsider])" by code_simp
  then show ?thesis
    using rules_display_lists_the_holders [OF prod, of "Date 2024 4 1" "[treasurer, outsider]"] by auto
qed

end
