(* ===== verification/Pointer_Forest.thy ===== *)
theory Pointer_Forest
  imports Prelude
begin

text \<open>
  Rows that point to a parent row: archive directories (\<open>archive_dir_id\<close>) and members
  (\<open>parent_id\<close>, the Leibverhaeltnis). The interface \<open>parent_store\<close> is what both offer: a
  parent lookup and an operation that sets it; \<open>guarded_parent_store\<close> adds the check the
  services run before they set it. Its client lemma is the invariant: a reparenting that passed
  the check leaves the pointers without a cycle.
\<close>

section \<open>Parent pointers\<close>

definition parent_rel :: "('k \<Rightarrow> 'k option) \<Rightarrow> ('k \<times> 'k) set" where
  "parent_rel par = {(c, p). par c = Some p}"

definition no_cycle :: "('k \<Rightarrow> 'k option) \<Rightarrow> bool" where
  "no_cycle par \<longleftrightarrow> acyclic (parent_rel par)"

lemma parent_rel_iff [simp]: "(c, p) \<in> parent_rel par \<longleftrightarrow> par c = Some p"
  by (simp add: parent_rel_def)

lemma no_cycle_empty [simp]: "no_cycle (\<lambda>_. None)"
  by (simp add: no_cycle_def parent_rel_def acyclic_def)

lemma parent_rel_update_Some:
  "parent_rel (par(d := Some t)) \<subseteq> insert (d, t) (parent_rel par)"
  by (auto simp: parent_rel_def split: if_splits)

lemma parent_rel_update_None: "parent_rel (par(d := None)) \<subseteq> parent_rel par"
  by (auto simp: parent_rel_def split: if_splits)

lemma no_cycle_update_None: "no_cycle par \<Longrightarrow> no_cycle (par(d := None))"
  unfolding no_cycle_def by (rule acyclic_subset [OF _ parent_rel_update_None])

lemma no_cycle_update_Some:
  assumes "no_cycle par" and "t \<noteq> d" and "(t, d) \<notin> (parent_rel par)\<^sup>+"
  shows "no_cycle (par(d := Some t))"
proof -
  have "(t, d) \<notin> (parent_rel par)\<^sup>*" using assms(2,3) by (auto simp: rtrancl_eq_or_trancl)
  then have "acyclic (insert (d, t) (parent_rel par))"
    using assms(1) by (simp add: no_cycle_def acyclic_insert)
  then show ?thesis
    unfolding no_cycle_def by (rule acyclic_subset) (rule parent_rel_update_Some)
qed

lemma no_cycle_not_self: "no_cycle par \<Longrightarrow> par d \<noteq> Some d"
  by (force simp: no_cycle_def acyclic_def dest: r_into_trancl [of "(d, d)"])

text \<open>Removing nodes, or adding a node nobody points to, makes no cycle.\<close>

lemma no_cycle_mono:
  "no_cycle par \<Longrightarrow> (\<And>c p. par' c = Some p \<Longrightarrow> par c = Some p) \<Longrightarrow> no_cycle par'"
  unfolding no_cycle_def by (erule acyclic_subset) auto

lemma no_cycle_fresh_leaf:
  assumes "no_cycle par" and "par n = None" and "\<And>c. par c \<noteq> Some n" and "t \<noteq> Some n"
  shows "no_cycle (par(n := t))"
proof (cases t)
  case None
  then show ?thesis using assms(1) by (simp add: no_cycle_update_None)
next
  case (Some p)
  have "(p, n) \<notin> (parent_rel par)\<^sup>+" using assms(3) by (auto elim: tranclE)
  then show ?thesis using Some assms(1,4) by (simp add: no_cycle_update_Some)
qed

text \<open>
  The argument behind a walk with a visited set: what is not found among the parents of a set
  that is closed under parents is not above it.
\<close>

lemma closed_set_above:
  assumes "c \<in> V" and "\<And>v p. v \<in> V \<Longrightarrow> par v = Some p \<Longrightarrow> p \<in> V \<and> p \<noteq> a"
  shows "(c, a) \<notin> (parent_rel par)\<^sup>+"
proof
  assume "(c, a) \<in> (parent_rel par)\<^sup>+"
  then have "a \<in> V \<and> False \<or> a \<in> V \<and> (\<exists>v \<in> V. par v = Some a)"
    by (induction rule: trancl_induct) (use assms in auto)
  with assms(2) show False by blast
qed

text \<open>Above a node of a finite store without cycles there are finitely many steps.\<close>

definition height_bound :: "('k \<Rightarrow> 'k option) \<Rightarrow> 'k set \<Rightarrow> bool" where
  "height_bound par N \<longleftrightarrow> finite N \<and> (\<forall>c p. par c = Some p \<longrightarrow> c \<in> N)"

definition above :: "('k \<Rightarrow> 'k option) \<Rightarrow> 'k \<Rightarrow> 'k set" where
  "above par c = {a. (c, a) \<in> (parent_rel par)\<^sup>+}"

lemma above_None: "par c = None \<Longrightarrow> above par c = {}"
  by (auto simp: above_def dest: tranclD)

lemma above_Some: "par c = Some p \<Longrightarrow> above par c = insert p (above par p)"
  by (auto simp: above_def trancl_into_trancl2 dest: tranclD elim: converse_tranclE)

lemma above_finite:
  assumes "height_bound par N"
  shows "finite (above par c)"
proof -
  have "parent_rel par \<subseteq> (\<lambda>c. (c, the (par c))) ` N"
    using assms by (force simp: height_bound_def parent_rel_def)
  then have "finite (parent_rel par)"
    using assms finite_subset by (auto simp: height_bound_def)
  then have "finite (Range (parent_rel par))" by (rule finite_Range)
  moreover have "above par c \<subseteq> Range (parent_rel par)"
    unfolding above_def by (metis (mono_tags, lifting) Range.intros mem_Collect_eq subsetI trancl_range)
  ultimately show ?thesis by (rule finite_subset [rotated])
qed

lemma above_card_less:
  assumes "no_cycle par" "height_bound par N" "par c = Some p"
  shows "card (above par p) < card (above par c)"
proof -
  have "p \<notin> above par p" using assms(1) by (simp add: above_def no_cycle_def acyclic_def)
  then show ?thesis using assms by (simp add: above_Some above_finite)
qed

section \<open>The interface\<close>

locale parent_store =
  fixes par :: "'s \<Rightarrow> 'k \<Rightarrow> 'k option"
    and set_par :: "'k \<Rightarrow> 'k option \<Rightarrow> 's \<Rightarrow> 's"
    and present :: "'s \<Rightarrow> 'k \<Rightarrow> bool"
  assumes par_set: "present s d \<Longrightarrow> par (set_par d t s) = (par s)(d := t)"
    and present_set: "present (set_par d t s) k = present s k"
begin

lemma detach_keeps: "present s d \<Longrightarrow> no_cycle (par s) \<Longrightarrow> no_cycle (par (set_par d None s))"
  by (simp add: par_set no_cycle_update_None)

end

text \<open>\<open>blocked s t d\<close>: the check that refuses to hang \<open>d\<close> below \<open>t\<close>.\<close>

locale guarded_parent_store = parent_store par set_par present
  for par :: "'s \<Rightarrow> 'k \<Rightarrow> 'k option"
    and set_par :: "'k \<Rightarrow> 'k option \<Rightarrow> 's \<Rightarrow> 's"
    and present :: "'s \<Rightarrow> 'k \<Rightarrow> bool" +
  fixes blocked :: "'s \<Rightarrow> 'k \<Rightarrow> 'k \<Rightarrow> bool"
  assumes blocked_iff: "present s d \<Longrightarrow> blocked s t d \<longleftrightarrow> t = d \<or> (t, d) \<in> (parent_rel (par s))\<^sup>+"
begin

lemma attach_keeps:
  "present s d \<Longrightarrow> no_cycle (par s) \<Longrightarrow> \<not> blocked s t d \<Longrightarrow> no_cycle (par (set_par d (Some t) s))"
  by (simp add: par_set blocked_iff no_cycle_update_Some)

text \<open>The check is exact: what it refuses would close a cycle.\<close>

lemma blocked_closes_cycle:
  assumes "present s d" and "blocked s t d"
  shows "\<not> no_cycle (par (set_par d (Some t) s))"
proof
  let ?par = "(par s)(d := Some t)"
  assume "no_cycle (par (set_par d (Some t) s))"
  then have nc: "no_cycle ?par" using assms(1) by (simp add: par_set)
  have "(t, x) \<in> (parent_rel ?par)\<^sup>+ \<or> (t, d) \<in> (parent_rel ?par)\<^sup>*"
    if "(t, x) \<in> (parent_rel (par s))\<^sup>+" for x
    using that
  proof (induction rule: trancl_induct)
    case (base y)
    then show ?case by (cases "t = d") auto
  next
    case (step y z)
    then show ?case by (cases "y = d") (auto intro: trancl_into_trancl dest: trancl_into_rtrancl)
  qed
  then have "(t, d) \<in> (parent_rel ?par)\<^sup>*"
    using assms(2) blocked_iff [OF assms(1), of t] by (metis rtrancl.rtrancl_refl trancl_into_rtrancl)
  moreover have "(d, t) \<in> parent_rel ?par" by simp
  ultimately have "(d, d) \<in> (parent_rel ?par)\<^sup>+" by (rule rtrancl_into_trancl2 [rotated])
  with nc show False by (simp add: no_cycle_def acyclic_def)
qed

end

end
