(* ===== verification/Decimal_Text.thy ===== *)
theory Decimal_Text
  imports Members
begin

text \<open>
  \<open>decimal.Decimal(text)\<close> of the Python standard library, as far as the services use it: the
  literal syntax with sign, fraction and exponent, the special values, and \<open>InvalidOperation\<close>
  (\<open>None\<close> here) for everything else. Finite values are exact rationals. \<open>to_numeric\<close> is what a
  \<open>NUMERIC(12, 2)\<close> column stores.
\<close>

datatype dec_value = Finite rat | Infinite bool | NaN bool

definition digit_value :: "char \<Rightarrow> nat option" where
  "digit_value c = (let n = of_char c in if 48 \<le> n \<and> n \<le> 57 then Some (n - 48) else None)"

definition is_digit :: "char \<Rightarrow> bool" where
  "is_digit c \<longleftrightarrow> digit_value c \<noteq> None"

definition nat_of_digits :: "string \<Rightarrow> nat" where
  "nat_of_digits s = foldl (\<lambda>n c. 10 * n + (case digit_value c of Some d \<Rightarrow> d | None \<Rightarrow> 0)) 0 s"

definition span_digits :: "string \<Rightarrow> string \<times> string" where
  "span_digits s = (takeWhile is_digit s, dropWhile is_digit s)"

text \<open>A leading sign: whether it is a minus, and the rest.\<close>

definition read_sign :: "string \<Rightarrow> bool \<times> string" where
  "read_sign s = (case s of [] \<Rightarrow> (False, [])
     | c # r \<Rightarrow> if c = CHR ''-'' then (True, r) else if c = CHR ''+'' then (False, r) else (False, s))"

definition ten_power :: "int \<Rightarrow> rat" where
  "ten_power k = (if 0 \<le> k then 10 ^ nat k else 1 / 10 ^ nat (- k))"

text \<open>The exponent part; more than 18 digits are beyond the limits of the module.\<close>

definition read_exponent :: "string \<Rightarrow> int option" where
  "read_exponent s =
     (case s of [] \<Rightarrow> Some 0
      | c # r \<Rightarrow>
         if c = CHR ''e'' \<or> c = CHR ''E''
         then (case read_sign r of (neg, ds) \<Rightarrow>
                 if ds \<noteq> [] \<and> list_all is_digit ds \<and> length ds \<le> 18
                 then Some ((if neg then -1 else 1) * int (nat_of_digits ds)) else None)
         else None)"

definition read_fraction :: "string \<Rightarrow> string \<times> string" where
  "read_fraction s = (case s of [] \<Rightarrow> ([], [])
     | c # r \<Rightarrow> if c = CHR ''.'' then span_digits r else ([], s))"

definition read_number :: "bool \<Rightarrow> string \<Rightarrow> dec_value option" where
  "read_number neg s =
     (case span_digits s of (whole, r1) \<Rightarrow>
      case read_fraction r1 of (fr, r2) \<Rightarrow>
        if whole = [] \<and> fr = [] then None
        else map_option (\<lambda>e. Finite ((if neg then -1 else 1) * of_nat (nat_of_digits (whole @ fr)) *
                 ten_power (e - int (length fr)))) (read_exponent r2))"

definition parse_decimal :: "string \<Rightarrow> dec_value option" where
  "parse_decimal text =
     (let s = filter (\<lambda>c. c \<noteq> CHR ''_'') (strip text) in
      case read_sign s of (neg, r) \<Rightarrow>
        if lower r = ''inf'' \<or> lower r = ''infinity'' then Some (Infinite neg)
        else if take 3 (lower r) = ''nan'' \<and> list_all is_digit (drop 3 r) then Some (NaN False)
        else if take 4 (lower r) = ''snan'' \<and> list_all is_digit (drop 4 r) then Some (NaN True)
        else read_number neg r)"

section \<open>The money columns\<close>

text \<open>PostgreSQL rounds to the scale, halves away from zero, and refuses more than ten digits
  before the point.\<close>

definition round_half_up :: "rat \<Rightarrow> int" where
  "round_half_up x = (if 0 \<le> x then \<lfloor>x + 1 / 2\<rfloor> else - \<lfloor>- x + 1 / 2\<rfloor>)"

definition to_numeric :: "decimal \<Rightarrow> exc + decimal" where
  "to_numeric x =
     (let cents = round_half_up (x * 100)
      in if \<bar>cents\<bar> < 10 ^ 12 then Inr (of_int cents / 100) else Inl DataError)"

definition in_cents :: "decimal \<Rightarrow> bool" where
  "in_cents x \<longleftrightarrow> (\<exists>c. x = of_int c / 100 \<and> \<bar>c\<bar> < 10 ^ 12)"

lemma round_half_up_of_int [simp]: "round_half_up (of_int c) = c"
proof (cases "0 \<le> c")
  case True
  then show ?thesis by (simp add: round_half_up_def floor_eq_iff)
next
  case False
  have "\<lfloor>- rat_of_int c + 1 / 2\<rfloor> = - c"
    by (rule floor_unique) simp_all
  then show ?thesis using False by (simp add: round_half_up_def)
qed

lemma to_numeric_in_cents: "in_cents x \<Longrightarrow> to_numeric x = Inr x"
  by (auto simp: in_cents_def to_numeric_def Let_def)

lemma to_numeric_stored: "to_numeric x = Inr y \<Longrightarrow> in_cents y"
  unfolding in_cents_def to_numeric_def Let_def
  by (rule exI [of _ "round_half_up (x * 100)"]) (auto split: if_splits)

end
