(* ===== verification/P4x_Accounts.thy ===== *)
theory P4x_Accounts
  imports P4x_Model Decimal_Text
begin

text \<open>
  \<open>app/services/p4x_account_service.py\<close>: the bank accounts, their balance, the paginated
  listings of their transactions (by month, partner, category, category filter), the two kinds
  of warnings, and the categories an account uses. Rows with equal booking dates keep the order
  of the table, which SQL leaves open.
\<close>

definition PAGINATION_SIZE :: nat where
  "PAGINATION_SIZE = 100"

section \<open>Creating, changing and deleting accounts\<close>

record account_request =
  req_iban :: string
  req_bic :: string
  req_label :: string
  req_init_date :: date
  req_init_balance :: decimal

definition normalized_iban :: "string \<Rightarrow> string" where
  "normalized_iban iban = filter (\<lambda>c. c \<noteq> CHR '' '') iban"

definition acc_active :: "p4x_account \<Rightarrow> bool" where
  "acc_active a \<longleftrightarrow> acc_deleted_at a = None"

text \<open>
  The checks of the table: \<open>[A-Z]{2}[0-9]{2}[A-Z0-9 ]{4,}\<close> as the whole IBAN, and \<open>[A-Za-z0-9]{1,11}\<close> as the
  whole BIC. They are of the IBAN as it is stored, with its blanks, and know no small letters.
\<close>

definition in_chars :: "nat \<Rightarrow> nat \<Rightarrow> char \<Rightarrow> bool" where
  "in_chars lo hi c \<longleftrightarrow> lo \<le> of_char c \<and> of_char c \<le> hi"

definition is_upper_ascii :: "char \<Rightarrow> bool" where
  "is_upper_ascii = in_chars 65 90"

definition is_alnum_ascii :: "char \<Rightarrow> bool" where
  "is_alnum_ascii c \<longleftrightarrow> is_digit c \<or> in_chars 65 90 c \<or> in_chars 97 122 c"

definition stored_iban_ok :: "string \<Rightarrow> bool" where
  "stored_iban_ok s \<longleftrightarrow> 8 \<le> length s \<and> list_all is_upper_ascii (take 2 s) \<and> list_all is_digit (take 2 (drop 2 s)) \<and>
     list_all (\<lambda>c. is_upper_ascii c \<or> is_digit c \<or> c = CHR '' '') (drop 4 s)"

definition stored_bic_ok :: "string \<Rightarrow> bool" where
  "stored_bic_ok s \<longleftrightarrow> 1 \<le> length s \<and> length s \<le> 11 \<and> list_all is_alnum_ascii s"

definition account_check :: "account_request \<Rightarrow> bool" where
  "account_check data \<longleftrightarrow> stored_iban_ok (req_iban data) \<and> stored_bic_ok (req_bic data)"

definition create_account :: "p4x_db \<Rightarrow> account_request \<Rightarrow> exc + p4x_account \<times> p4x_db" where
  "create_account db data =
     (if \<exists>a \<in> set (accounts db). normalized_iban (acc_iban a) = normalized_iban (req_iban data) \<and> acc_active a
      then Inl (HTTPException 409 ''IBAN existiert bereits.'')
      else if \<not> account_check data then Inl IntegrityError
      else case fresh_id db of (i, db') \<Rightarrow>
        let account = \<lparr>acc_id = i, acc_iban = req_iban data, acc_bic = Some (req_bic data),
              acc_label = Some (req_label data), acc_init_date = Some (req_init_date data),
              acc_init_balance = req_init_balance data, acc_deleted_at = None\<rparr>
        in Inr (account, db'\<lparr>accounts := accounts db' @ [account]\<rparr>))"

definition update_account :: "p4x_db \<Rightarrow> p4x_account \<Rightarrow> account_request \<Rightarrow> exc + p4x_account \<times> p4x_db" where
  "update_account db account data =
     (if \<exists>a \<in> set (accounts db). normalized_iban (acc_iban a) = normalized_iban (req_iban data) \<and>
           acc_id a \<noteq> acc_id account \<and> acc_active a
      then Inl (HTTPException 409 ''IBAN existiert bereits.'')
      else if \<not> account_check data then Inl IntegrityError
      else
        let write = (\<lambda>a. a\<lparr>acc_iban := req_iban data, acc_bic := Some (req_bic data),
              acc_label := Some (req_label data), acc_init_date := Some (req_init_date data),
              acc_init_balance := req_init_balance data\<rparr>)
        in Inr (write account,
             db\<lparr>accounts := update_where (\<lambda>a. acc_id a = acc_id account) write (accounts db)\<rparr>))"

definition delete_account :: "p4x_db \<Rightarrow> instant \<Rightarrow> p4x_account \<Rightarrow> exc + p4x_db" where
  "delete_account db now account =
     (let tx_count = length (filter (\<lambda>tx. tx_account_id tx = acc_id account \<and> tx_active tx) (transactions db))
      in if 0 < tx_count
         then Inl (HTTPException 409 ''Konto kann nicht geloescht werden, da Transaktionen vorhanden sind.'')
         else Inr (db\<lparr>accounts := update_where (\<lambda>a. acc_id a = acc_id account)
                (\<lambda>a. a\<lparr>acc_deleted_at := Some now\<rparr>) (accounts db)\<rparr>))"

definition get_active_accounts :: "p4x_db \<Rightarrow> p4x_account list" where
  "get_active_accounts db = filter acc_active (accounts db)"

section \<open>Balance and listings\<close>

definition account_txs :: "p4x_db \<Rightarrow> p4x_account \<Rightarrow> p4x_transaction list" where
  "account_txs db account =
     filter (\<lambda>tx. tx_account_id tx = acc_id account \<and> tx_active tx) (transactions db)"

definition get_account_balance :: "p4x_db \<Rightarrow> date \<Rightarrow> p4x_account \<Rightarrow> date option \<Rightarrow> decimal" where
  "get_account_balance db today account up_to_date =
     (let up_to = (case up_to_date of None \<Rightarrow> today | Some d \<Rightarrow> d)
      in acc_init_balance account +
         sum_list (map amount (filter (\<lambda>tx. booking tx \<le> up_to) (account_txs db account))))"

text \<open>Every listing: the page of the selected transactions, latest first, and their number.\<close>

definition listing :: "(p4x_transaction \<Rightarrow> bool) \<Rightarrow> nat \<Rightarrow> p4x_transaction list \<Rightarrow> p4x_transaction list \<times> nat" where
  "listing P page txs =
     (let selected = filter P txs
      in (page_of PAGINATION_SIZE page (sort_desc booking selected), length selected))"

definition get_transactions_by_month ::
  "p4x_db \<Rightarrow> p4x_account \<Rightarrow> int \<Rightarrow> int \<Rightarrow> nat \<Rightarrow> p4x_transaction list \<times> nat" where
  "get_transactions_by_month db account y m page =
     listing (\<lambda>tx. year (booking tx) = y \<and> month (booking tx) = m) page (account_txs db account)"

text \<open>The column a partner type stands for, in \<open>p4x_partners\<close> and in the transaction.\<close>

definition partner_column :: "partner_type \<Rightarrow> p4x_partner \<Rightarrow> uuid option" where
  "partner_column t = (case t of PT_member \<Rightarrow> partner_member_id | PT_contact \<Rightarrow> partner_contact_id
     | PT_account \<Rightarrow> partner_account_id | PT_special \<Rightarrow> partner_special_id)"

definition delegating_column :: "partner_type \<Rightarrow> p4x_transaction \<Rightarrow> uuid option" where
  "delegating_column t = (case t of PT_member \<Rightarrow> delegating_member_id | PT_contact \<Rightarrow> delegating_contact_id
     | PT_account \<Rightarrow> delegating_p4x_account_id | PT_special \<Rightarrow> delegating_p4x_special_contact_id)"

definition partner_type_of_text :: "string \<Rightarrow> partner_type option" where
  "partner_type_of_text s =
     (if s = ''member'' then Some PT_member else if s = ''contact'' then Some PT_contact
      else if s = ''account'' then Some PT_account else if s = ''special'' then Some PT_special else None)"

definition has_partner :: "p4x_db \<Rightarrow> partner_type \<Rightarrow> uuid \<Rightarrow> p4x_transaction \<Rightarrow> bool" where
  "has_partner db t pid tx \<longleftrightarrow>
     (let partner_ibans = map partner_iban
            (filter (\<lambda>p. partner_column t p = Some pid \<and> partner_active p) (partners db))
      in (Some (tx_iban tx) \<in> set partner_ibans \<and> no_delegation tx) \<or> delegating_column t tx = Some pid)"

definition get_transactions_by_partner ::
  "p4x_db \<Rightarrow> p4x_account \<Rightarrow> string \<Rightarrow> uuid \<Rightarrow> nat \<Rightarrow> exc + p4x_transaction list \<times> nat" where
  "get_transactions_by_partner db account ptype pid page =
     (case partner_type_of_text ptype of
        None \<Rightarrow> Inl ValueError
      | Some t \<Rightarrow> Inr (listing (has_partner db t pid) page (account_txs db account)))"

definition get_transactions_by_category ::
  "p4x_db \<Rightarrow> p4x_account \<Rightarrow> uuid \<Rightarrow> nat \<Rightarrow> p4x_transaction list \<times> nat" where
  "get_transactions_by_category db account cat page =
     (let all_tx_ids = category_tx_ids db (Some cat)
      in if all_tx_ids = {} then ([], 0)
         else listing (\<lambda>tx. tx_id tx \<in> all_tx_ids) page (account_txs db account))"

definition get_transactions_by_filter ::
  "p4x_db \<Rightarrow> p4x_account \<Rightarrow> uuid \<Rightarrow> nat \<Rightarrow> p4x_transaction list \<times> nat" where
  "get_transactions_by_filter db account filter_id page =
     (let hit_tx_ids = hit_tx_id ` set (filter (\<lambda>h. hit_filter_id h = filter_id) (filter_hits db));
          tx_ids = hit_tx_ids - tx_with_directs db
      in if tx_ids = {} then ([], 0)
         else listing (\<lambda>tx. tx_id tx \<in> tx_ids) page (account_txs db account))"

section \<open>Warnings\<close>

text \<open>\<open>items\<close> of a query with an optional limit, and \<open>query.count()\<close>; a limit of 0 is no limit.\<close>

definition limited :: "nat option \<Rightarrow> 'a list \<Rightarrow> 'a list" where
  "limited n xs = (case n of None \<Rightarrow> xs | Some k \<Rightarrow> if k = 0 then xs else take k xs)"

text \<open>A \<open>NULL\<close> among the IBANs makes \<open>NOT IN\<close> unknown for every row it does not exclude.\<close>

definition partner_missing :: "p4x_db \<Rightarrow> p4x_transaction \<Rightarrow> bool" where
  "partner_missing db tx \<longleftrightarrow>
     (let partner_ibans = partner_iban ` set (filter partner_active (partners db))
      in Some (tx_iban tx) \<notin> partner_ibans \<and> None \<notin> partner_ibans)"

definition get_warnings_partner :: "p4x_db \<Rightarrow> nat option \<Rightarrow> p4x_transaction list \<times> nat" where
  "get_warnings_partner db limit =
     (let query = filter (\<lambda>tx. tx_active tx \<and> partner_missing db tx) (transactions db)
      in (limited limit (sort_desc booking query), length query))"

definition hit_count :: "p4x_db \<Rightarrow> uuid \<Rightarrow> nat" where
  "hit_count db i = length (filter (\<lambda>h. hit_tx_id h = i) (filter_hits db))"

definition get_warnings_category :: "p4x_db \<Rightarrow> nat option \<Rightarrow> p4x_transaction list \<times> nat" where
  "get_warnings_category db limit =
     (let all_tx = filter tx_active (transactions db);
          warnings = filter (\<lambda>tx. tx_id tx \<notin> tx_with_directs db \<and> hit_count db (tx_id tx) \<noteq> 1) all_tx
      in (limited limit (sort_desc booking warnings), length warnings))"

section \<open>The categories of an account\<close>

definition get_account_categories :: "p4x_db \<Rightarrow> p4x_account \<Rightarrow> p4x_category list" where
  "get_account_categories db account =
     (let tx_ids = map tx_id (account_txs db account) in
      if tx_ids = [] then []
      else
        let direct_cat_ids = cd_category_id `
              set (filter (\<lambda>d. cd_tx_id d \<in> set tx_ids \<and> direct_active d) (category_directs db));
            filter_ids = hit_filter_id ` set (filter (\<lambda>h. hit_tx_id h \<in> set tx_ids) (filter_hits db));
            filter_cat_ids = (if filter_ids = {} then {}
              else cf_category_id ` set (filter (\<lambda>f. cf_id f \<in> filter_ids) (category_filters db)));
            all_cat_ids = direct_cat_ids \<union> filter_cat_ids
        in if all_cat_ids = {} then [] else filter (\<lambda>c. cat_id c \<in> all_cat_ids) (categories db))"

end
