(* ===== verification/P4x_Account_Properties.thy ===== *)
theory P4x_Account_Properties
  imports P4x_Accounts
begin

text \<open>
  What the account service promises: an IBAN belongs to one active account, and the balance of
  an account is explained by the pages of its monthly listings.
\<close>

section \<open>Two accounts to evaluate on\<close>

definition giro :: p4x_account where
  "giro = \<lparr>acc_id = 2, acc_iban = ''AT61 1904'', acc_bic = None, acc_label = Some ''Giro'',
     acc_init_date = None, acc_init_balance = 100, acc_deleted_at = None\<rparr>"

definition bank_tx :: "uuid \<Rightarrow> date \<Rightarrow> decimal \<Rightarrow> p4x_transaction" where
  "bank_tx i d a = \<lparr>tx_id = i, sha256_hash = replicate i CHR ''h'', booking = d, valuation = d,
     tx_iban = ''AT1'', amount = a, subject = [], tx_account_id = 2,
     delegating_member_id = None, delegating_contact_id = None, delegating_p4x_account_id = None,
     delegating_p4x_special_contact_id = None, tx_comment = None, tx_raw = None, attachment = None,
     tx_deleted_at = None\<rparr>"

definition bank_db :: p4x_db where
  "bank_db = \<lparr>members = [], contacts = [], special_contacts = [], accounts = [giro],
     transactions = [bank_tx 5 (Date 2024 1 31) 7, bank_tx 6 (Date 2024 2 1) 30, bank_tx 7 (Date 2024 2 29) (- 12),
       bank_tx 8 (Date 2024 3 1) 1],
     partners = [], categories = [], category_filters = [], category_directs = [], filter_hits = [],
     fees = [], next_id = 100\<rparr>"

definition savings_request :: "string \<Rightarrow> account_request" where
  "savings_request iban = \<lparr>req_iban = iban, req_bic = ''B'', req_label = ''Spar'',
     req_init_date = Date 2024 1 1, req_init_balance = 0\<rparr>"

section \<open>One active account per IBAN\<close>

definition same_iban :: "p4x_account \<Rightarrow> p4x_account \<Rightarrow> bool" where
  "same_iban a b \<longleftrightarrow> acc_active a \<and> acc_active b \<and> normalized_iban (acc_iban a) = normalized_iban (acc_iban b)"

definition one_account_per_iban :: "p4x_db \<Rightarrow> bool" where
  "one_account_per_iban db \<longleftrightarrow>
     distinct (map acc_id (accounts db)) \<and> list_all (\<lambda>i. i < next_id db) (map acc_id (accounts db)) \<and>
     (\<forall>a \<in> set (accounts db). \<forall>b \<in> set (accounts db). same_iban a b \<longrightarrow> acc_id a = acc_id b)"

lemma unique_after_update:
  assumes U: "\<And>a b. a \<in> A \<Longrightarrow> b \<in> A \<Longrightarrow> same_iban a b \<Longrightarrow> acc_id a = acc_id b"
    and w: "\<And>a. acc_id (w a) = acc_id a" "\<And>a. acc_active (w a) \<Longrightarrow> normalized_iban (acc_iban (w a)) = v"
    and new: "\<And>a. a \<in> A \<Longrightarrow> acc_id a \<noteq> k \<Longrightarrow> acc_active a \<Longrightarrow> normalized_iban (acc_iban a) \<noteq> v"
    and r: "r \<in> A" and s: "s \<in> A"
    and same: "same_iban (if acc_id r = k then w r else r) (if acc_id s = k then w s else s)"
  shows "acc_id r = acc_id s"
proof (cases "acc_id r = k"; cases "acc_id s = k")
  assume "acc_id r = k" "acc_id s = k"
  then show ?thesis by simp
next
  assume k: "acc_id r = k" "acc_id s \<noteq> k"
  then have "acc_active s" "normalized_iban (acc_iban s) = v" using same w(2) by (auto simp: same_iban_def)
  then show ?thesis using new [OF s k(2)] by blast
next
  assume k: "acc_id r \<noteq> k" "acc_id s = k"
  then have "acc_active r" "normalized_iban (acc_iban r) = v" using same w(2) by (auto simp: same_iban_def)
  then show ?thesis using new [OF r k(1)] by blast
next
  assume "acc_id r \<noteq> k" "acc_id s \<noteq> k"
  then show ?thesis using U [OF r s] same by simp
qed

lemma created_account:
  assumes "create_account db data = Inr (a, db')"
  shows "\<not> (\<exists>b \<in> set (accounts db). normalized_iban (acc_iban b) = normalized_iban (req_iban data) \<and> acc_active b)"
    and "a = \<lparr>acc_id = next_id db, acc_iban = req_iban data, acc_bic = Some (req_bic data),
              acc_label = Some (req_label data), acc_init_date = Some (req_init_date data),
              acc_init_balance = req_init_balance data, acc_deleted_at = None\<rparr>"
    and "accounts db' = accounts db @ [a]" and "next_id db' = Suc (next_id db)"
proof -
  show g: "\<not> (\<exists>b \<in> set (accounts db). normalized_iban (acc_iban b) = normalized_iban (req_iban data) \<and> acc_active b)"
    using assms unfolding create_account_def by (rule contrapos_pn) simp
  show "a = \<lparr>acc_id = next_id db, acc_iban = req_iban data, acc_bic = Some (req_bic data),
              acc_label = Some (req_label data), acc_init_date = Some (req_init_date data),
              acc_init_balance = req_init_balance data, acc_deleted_at = None\<rparr>"
    and "accounts db' = accounts db @ [a]" and "next_id db' = Suc (next_id db)"
    using assms unfolding create_account_def if_not_P [OF g] by (auto simp: fresh_id_def Let_def split: if_split_asm)
qed

lemma create_account_keeps:
  assumes ok: "one_account_per_iban db" and new: "create_account db data = Inr (a, db')"
  shows "one_account_per_iban db'"
proof -
  note db' = created_account(3,4) [OF new]
  have a: "acc_id a = next_id db" "acc_iban a = req_iban data" by (simp_all add: created_account(2) [OF new])
  note fresh = created_account(1) [OF new, folded a(2)]
  have ids: "distinct (map acc_id (accounts db'))" "list_all (\<lambda>i. i < next_id db') (map acc_id (accounts db'))"
    using ok unfolding one_account_per_iban_def db' by (auto simp: list_all_iff less_Suc_eq a(1))
  have "acc_id r = acc_id s" if "r \<in> set (accounts db')" "s \<in> set (accounts db')" "same_iban r s" for r s
  proof -
    have "\<not> same_iban a b" "\<not> same_iban b a" if "b \<in> set (accounts db)" for b
      using fresh that unfolding same_iban_def by metis+
    then show ?thesis using that ok unfolding one_account_per_iban_def db'(1) by auto
  qed
  with ids show ?thesis unfolding one_account_per_iban_def by blast
qed

lemma account_update_keeps:
  assumes ok: "one_account_per_iban db"
    and w: "\<And>a. acc_id (w a) = acc_id a" "\<And>a. acc_active (w a) \<Longrightarrow> normalized_iban (acc_iban (w a)) = v"
    and new: "\<And>a. a \<in> set (accounts db) \<Longrightarrow> acc_id a \<noteq> k \<Longrightarrow> acc_active a \<Longrightarrow> normalized_iban (acc_iban a) \<noteq> v"
  shows "one_account_per_iban (db\<lparr>accounts := update_where (\<lambda>a. acc_id a = k) w (accounts db)\<rparr>)"
proof -
  let ?rows = "update_where (\<lambda>a. acc_id a = k) w (accounts db)"
  have U: "a \<in> set (accounts db) \<Longrightarrow> b \<in> set (accounts db) \<Longrightarrow> same_iban a b \<Longrightarrow> acc_id a = acc_id b" for a b
    using ok by (simp add: one_account_per_iban_def)
  have "acc_id a = acc_id b" if a: "a \<in> set ?rows" and b: "b \<in> set ?rows" and same: "same_iban a b" for a b
  proof -
    obtain r s where r: "r \<in> set (accounts db)" "a = (if acc_id r = k then w r else r)"
      and s: "s \<in> set (accounts db)" "b = (if acc_id s = k then w s else s)"
      using a b unfolding set_update_where image_iff by blast
    have "acc_id r = acc_id s"
      using U w new r(1) s(1) same [unfolded r(2) s(2)] by (rule unique_after_update)
    then show ?thesis using r(2) s(2) w(1) by simp
  qed
  moreover have "map acc_id ?rows = map acc_id (accounts db)"
    by (rule map_update_where_same) (rule w(1))
  ultimately show ?thesis using ok by (simp add: one_account_per_iban_def)
qed

lemma update_account_keeps:
  assumes "one_account_per_iban db" "update_account db account data = Inr (a, db')"
  shows "one_account_per_iban db'"
proof -
  let ?w = "\<lambda>a. a\<lparr>acc_iban := req_iban data, acc_bic := Some (req_bic data),
    acc_label := Some (req_label data), acc_init_date := Some (req_init_date data),
    acc_init_balance := req_init_balance data\<rparr>"
  have "db' = db\<lparr>accounts := update_where (\<lambda>a. acc_id a = acc_id account) ?w (accounts db)\<rparr>"
      "\<forall>a \<in> set (accounts db). acc_id a \<noteq> acc_id account \<longrightarrow> acc_active a \<longrightarrow>
         normalized_iban (acc_iban a) \<noteq> normalized_iban (req_iban data)"
    using assms(2) by (auto simp: update_account_def Let_def split: if_splits)
  then show ?thesis
    using account_update_keeps [OF assms(1), of ?w "normalized_iban (req_iban data)" "acc_id account"] by simp
qed

lemma delete_account_keeps:
  assumes "one_account_per_iban db" "delete_account db now account = Inr db'"
  shows "one_account_per_iban db'"
proof -
  have "db' = db\<lparr>accounts := update_where (\<lambda>a. acc_id a = acc_id account)
      (\<lambda>a. a\<lparr>acc_deleted_at := Some now\<rparr>) (accounts db)\<rparr>"
    using assms(2) by (auto simp: delete_account_def Let_def split: if_splits)
  moreover have "CHR '' '' \<notin> set (normalized_iban s)" for s by (simp add: normalized_iban_def)
  then have "normalized_iban s \<noteq> '' ''" for s by (metis list.set_intros(1))
  ultimately show ?thesis
    using account_update_keeps [OF assms(1), of "\<lambda>a. a\<lparr>acc_deleted_at := Some now\<rparr>" "'' ''" "acc_id account"]
    by (simp add: acc_active_def)
qed

text \<open>Blanks in an IBAN never make a second account: creating, changing and deleting accounts keep
  every IBAN on at most one active account, and a request for an IBAN that an active account
  has, whatever its blanks, is refused with 409.\<close>
theorem iban_belongs_to_one_account:
  assumes "one_account_per_iban db"
  shows "(\<forall>a db'. create_account db data = Inr (a, db') \<longrightarrow> one_account_per_iban db') \<and>
    (\<forall>a db'. update_account db account data = Inr (a, db') \<longrightarrow> one_account_per_iban db') \<and>
    (\<forall>db'. delete_account db now account = Inr db' \<longrightarrow> one_account_per_iban db') \<and>
    (\<forall>b \<in> set (get_active_accounts db). normalized_iban (acc_iban b) = normalized_iban (req_iban data) \<longrightarrow>
      create_account db data = Inl (HTTPException 409 ''IBAN existiert bereits.''))"
  using create_account_keeps [OF assms] update_account_keeps [OF assms] delete_account_keeps [OF assms]
  by (auto simp: create_account_def get_active_accounts_def)

lemma iban_belongs_to_one_account_witness:
  "create_account bank_db (savings_request ''AT611904'') = Inl (HTTPException 409 ''IBAN existiert bereits.'') \<and>
   (\<exists>a db'. create_account bank_db (savings_request ''AT99 1234'') = Inr (a, db') \<and> one_account_per_iban db')"
proof -
  have ok: "one_account_per_iban bank_db"
    by (simp add: one_account_per_iban_def bank_db_def giro_def)
  have "giro \<in> set (get_active_accounts bank_db)"
      "normalized_iban (acc_iban giro) = normalized_iban (req_iban (savings_request ''AT611904''))"
    by (simp_all add: get_active_accounts_def acc_active_def bank_db_def giro_def normalized_iban_def
        savings_request_def)
  moreover have "(case create_account bank_db (savings_request ''AT99 1234'') of Inl _ \<Rightarrow> False | Inr _ \<Rightarrow> True)"
    by code_simp
  ultimately show ?thesis
    using iban_belongs_to_one_account [OF ok, of "savings_request ''AT611904''"]
      iban_belongs_to_one_account [OF ok, of "savings_request ''AT99 1234''"]
    by (fastforce split: sum.splits)
qed

section \<open>Balances and listings\<close>

lemma sum_list_concat: "sum_list (concat xss) = (sum_list (map sum_list xss) :: 'b::monoid_add)"
  by (induction xss) (simp_all add: add.assoc)

lemma sum_listing_pages:
  assumes "length (filter P txs) \<le> n * PAGINATION_SIZE"
  shows "sum_list (map (\<lambda>p. sum_list (map amount (fst (listing P p txs)))) [1..<Suc n]) =
    sum_list (map amount (filter P txs))"
proof -
  let ?s = "sort_desc booking (filter P txs)"
  have "sum_list (map (\<lambda>p. sum_list (map amount (fst (listing P p txs)))) [1..<Suc n]) =
      sum_list (map amount (concat (map (\<lambda>p. page_of PAGINATION_SIZE p ?s) [1..<Suc n])))"
    by (simp only: map_concat sum_list_concat map_map comp_def listing_def Let_def fst_conv)
  also have "\<dots> = sum_list (map amount ?s)" using assms by (simp only: concat_pages) simp
  also have "\<dots> = sum_list (map amount (filter P txs))"
    by (rule sum_list_mset_cong) simp
  finally show ?thesis .
qed

lemma in_month_iff:
  assumes "valid_date d" "valid_date (Date y m 1)" "prev_day (Date y m 1) = Inr p"
    and "end_of_month (Date y m 1) = Inr fin"
  shows "d \<le> fin \<longleftrightarrow> d \<le> p \<or> (year d = y \<and> month d = m)" and "\<not> (d \<le> p \<and> year d = y \<and> month d = m)"
proof -
  have p: "d \<le> p \<longleftrightarrow> d < Date y m 1" using prev_day_adjacent [OF assms(2,3,1)] .
  have "(y, m) \<noteq> (9999, 12)" using end_of_month_overflow [of 1] assms(4) by auto
  then have "fin = Date y m (days_in_month y m)" using end_of_month_eq [OF assms(2)] assms(4) by simp
  then show "d \<le> fin \<longleftrightarrow> d \<le> p \<or> (year d = y \<and> month d = m)" "\<not> (d \<le> p \<and> year d = y \<and> month d = m)"
    using assms(1) p by (cases d, auto)+
qed

text \<open>The monthly listing explains the balance: the balance at the end of a month is the balance
  at the end of the month before plus the amounts on the pages of that month, when enough pages
  are read for the total the listing reports.\<close>
theorem month_pages_explain_balance:
  assumes "list_all (\<lambda>tx. valid_date (booking tx)) (transactions db)" and "valid_date (Date y m 1)"
    and "prev_day (Date y m 1) = Inr p" and "end_of_month (Date y m 1) = Inr fin"
    and "snd (get_transactions_by_month db account y m 1) \<le> n * PAGINATION_SIZE"
  shows "get_account_balance db today account (Some fin) =
    get_account_balance db today account (Some p) +
    sum_list (map (\<lambda>page. sum_list (map amount (fst (get_transactions_by_month db account y m page)))) [1..<Suc n])"
proof -
  let ?M = "\<lambda>tx. year (booking tx) = y \<and> month (booking tx) = m"
  let ?txs = "account_txs db account"
  have valid: "valid_date (booking tx)" if "tx \<in> set ?txs" for tx
    using that assms(1) by (simp add: account_txs_def list_all_iff)
  have "filter (\<lambda>tx. booking tx \<le> fin) ?txs = filter (\<lambda>tx. booking tx \<le> p \<or> ?M tx) ?txs"
    using in_month_iff(1) [OF valid assms(2-4)] by (intro filter_cong) auto
  then have "sum_list (map amount (filter (\<lambda>tx. booking tx \<le> fin) ?txs)) =
      sum_list (map amount (filter (\<lambda>tx. booking tx \<le> p) ?txs)) + sum_list (map amount (filter ?M ?txs))"
    using in_month_iff(2) [OF valid assms(2-4)] by (simp only:) (rule sum_list_filter_disj, blast)
  moreover have len: "length (filter ?M ?txs) \<le> n * PAGINATION_SIZE"
    using assms(5) by (simp add: get_transactions_by_month_def listing_def Let_def)
  ultimately show ?thesis
    by (simp only: get_transactions_by_month_def get_account_balance_def Let_def option.case
        sum_listing_pages [OF len] add.assoc)
qed

lemma month_pages_explain_balance_witness:
  "get_account_balance bank_db (Date 2024 5 1) giro (Some (Date 2024 2 29)) =
     get_account_balance bank_db (Date 2024 5 1) giro (Some (Date 2024 1 31)) +
     sum_list (map amount (fst (get_transactions_by_month bank_db giro 2024 2 1)))"
proof -
  have "list_all (\<lambda>tx. valid_date (booking tx)) (transactions bank_db)" "valid_date (Date 2024 2 1)"
      "prev_day (Date 2024 2 1) = Inr (Date 2024 1 31)" "end_of_month (Date 2024 2 1) = Inr (Date 2024 2 29)"
      "snd (get_transactions_by_month bank_db giro 2024 2 1) \<le> 1 * PAGINATION_SIZE"
    by code_simp+
  from month_pages_explain_balance [OF this, of "Date 2024 5 1"] show ?thesis by simp
qed

end
