(* ===== verification/Search_Text.thy ===== *)
theory Search_Text
  imports Members
begin

text \<open>
  \<open>escape_like\<close> (\<open>app/services/search_utils.py\<close>) and the SQL operator it is for:
  \<open>value ILIKE pattern ESCAPE '\'\<close>, where \<open>%\<close> stands for any text, \<open>_\<close> for any character and the
  escape character makes the next one literal. The lemmas show that an escaped text matches
  itself only, so that \<open>%\<close> and \<open>_\<close> typed by a user are text.
\<close>

abbreviation backslash :: char where
  "backslash \<equiv> CHR 0x5C"

fun replace_char :: "char \<Rightarrow> string \<Rightarrow> string \<Rightarrow> string" where
  "replace_char c r [] = []"
| "replace_char c r (x # xs) = (if x = c then r @ replace_char c r xs else x # replace_char c r xs)"

definition escape_like :: "string \<Rightarrow> string" where
  "escape_like term =
     replace_char CHR ''_'' [backslash, CHR ''_'']
       (replace_char CHR ''%'' [backslash, CHR ''%'']
         (replace_char backslash [backslash, backslash] term))"

function like_match :: "string \<Rightarrow> string \<Rightarrow> bool" where
  "like_match [] t = (t = [])"
| "like_match (c # p) t =
     (if c = CHR ''%''
      then like_match p t \<or> (case t of [] \<Rightarrow> False | _ # u \<Rightarrow> like_match (c # p) u)
      else if c = CHR ''_'' then (case t of [] \<Rightarrow> False | _ # u \<Rightarrow> like_match p u)
      else if c = backslash
      then (case p of [] \<Rightarrow> False
            | e # q \<Rightarrow> (case t of [] \<Rightarrow> False | x # u \<Rightarrow> if x = e then like_match q u else False))
      else (case t of [] \<Rightarrow> False | x # u \<Rightarrow> if x = c then like_match p u else False))"
  by pat_completeness auto
termination
  by (relation "measure (\<lambda>(p, t). length p + length t)") auto

declare like_match.simps(2) [simp del]

definition ilike :: "string \<Rightarrow> string \<Rightarrow> bool" where
  "ilike value pat = like_match (lower pat) (lower value)"

section \<open>Escaped text\<close>

definition escape_char :: "char \<Rightarrow> string" where
  "escape_char c = (if c \<in> {backslash, CHR ''%'', CHR ''_''} then [backslash, c] else [c])"

lemma replace_char_append: "replace_char c r (xs @ ys) = replace_char c r xs @ replace_char c r ys"
  by (induction xs) auto

lemma escape_like_Nil [simp]: "escape_like [] = []"
  by (simp add: escape_like_def)

lemma escape_like_Cons [simp]: "escape_like (c # s) = escape_char c @ escape_like s"
  by (simp add: escape_like_def escape_char_def replace_char_append)

lemma escape_like_eq: "escape_like s = concat (map escape_char s)"
  by (induction s) auto

lemma lower_append: "lower (a @ b) = lower a @ lower b"
  by (simp add: lower_def)

lemma of_char_to_lower:
  "of_char (to_lower_char c) = (let n = of_char c :: nat in
     if (65 \<le> n \<and> n \<le> 90) \<or> (192 \<le> n \<and> n \<le> 222 \<and> n \<noteq> 215) then n + 32 else n)"
proof -
  have "of_char (char_of (n + 32)) = n + 32" if "n \<le> 222" for n :: nat
    using that by simp
  then show ?thesis unfolding to_lower_char_def Let_def by (simp only: if_distrib) auto
qed

lemma to_lower_special:
  "to_lower_char c = d \<longleftrightarrow> c = d" if "d \<in> {backslash, CHR ''%'', CHR ''_''}"
proof -
  have step: "(if (65 \<le> n \<and> n \<le> 90) \<or> (192 \<le> n \<and> n \<le> 222 \<and> n \<noteq> 215) then n + 32 else n) = k \<longleftrightarrow> n = k"
    if "k = 92 \<or> k = 37 \<or> k = 95" for n k :: nat
    using that by auto
  have "of_char d = (92 :: nat) \<or> of_char d = (37 :: nat) \<or> of_char d = (95 :: nat)"
    using that by auto
  from step [OF this, of "of_char c"]
  have "of_char (to_lower_char c) = (of_char d :: nat) \<longleftrightarrow> of_char c = (of_char d :: nat)"
    unfolding of_char_to_lower Let_def .
  then show ?thesis by (simp only: of_char_eq_iff)
qed

lemma lower_escape_char: "lower (escape_char c) = escape_char (to_lower_char c)"
proof (cases "c \<in> {backslash, CHR ''%'', CHR ''_''}")
  case True
  then have "to_lower_char c = c" "to_lower_char backslash = backslash"
    using to_lower_special [of c c] to_lower_special [of backslash backslash] by blast+
  then show ?thesis by (simp only: escape_char_def lower_def True if_True list.map)
next
  case False
  then have "to_lower_char c \<notin> {backslash, CHR ''%'', CHR ''_''}"
    using to_lower_special [of _ c] by blast
  then show ?thesis by (simp only: escape_char_def lower_def False if_False list.map)
qed

lemma lower_escape_like: "lower (escape_like s) = escape_like (lower s)"
proof (induction s)
  case Nil
  then show ?case by (simp add: lower_def)
next
  case (Cons c s)
  have "lower (c # s) = to_lower_char c # lower s" by (simp add: lower_def)
  then show ?case by (simp only: escape_like_Cons lower_append lower_escape_char Cons.IH)
qed

lemma like_match_escape_char:
  "like_match (escape_char c @ p) t \<longleftrightarrow> (\<exists>u. t = c # u \<and> like_match p u)"
  by (cases t) (auto simp: escape_char_def like_match.simps)

lemma like_match_escape: "like_match (escape_like s @ p) t \<longleftrightarrow> (\<exists>u. t = s @ u \<and> like_match p u)"
  by (induction s arbitrary: t) (auto simp: like_match_escape_char)

lemma like_match_any: "like_match (CHR ''%'' # p) t \<longleftrightarrow> (\<exists>a b. t = a @ b \<and> like_match p b)"
proof (induction t)
  case Nil
  then show ?case by (simp add: like_match.simps)
next
  case (Cons c t)
  have "like_match (CHR ''%'' # p) (c # t) \<longleftrightarrow> like_match p (c # t) \<or> like_match (CHR ''%'' # p) t"
    by (simp add: like_match.simps)
  also have "\<dots> \<longleftrightarrow> (\<exists>a b. c # t = a @ b \<and> like_match p b)"
    unfolding Cons.IH by (metis append_Cons append_Nil append_eq_Cons_conv)
  finally show ?case .
qed

lemma lower_Cons_special: "lower (CHR ''%'' # p) = CHR ''%'' # lower p"
  using to_lower_special [of "CHR ''%''" "CHR ''%''"] by (simp only: lower_def list.map) blast

lemma ilike_equals: "ilike v (escape_like s) \<longleftrightarrow> lower v = lower s"
  using like_match_escape [of "lower s" "[]" "lower v"] by (auto simp: ilike_def lower_escape_like)

lemma ilike_starts: "ilike v (escape_like s @ ''%'') \<longleftrightarrow> (\<exists>u. lower v = lower s @ u)"
  unfolding ilike_def lower_append lower_escape_like lower_Cons_special
  by (simp add: like_match_escape like_match_any) (simp add: lower_def)

lemma ilike_contains: "ilike v (''%'' @ escape_like s @ ''%'') \<longleftrightarrow> (\<exists>a u. lower v = a @ lower s @ u)"
  unfolding ilike_def append_Cons append_Nil lower_append lower_escape_like lower_Cons_special
  by (simp add: like_match_escape like_match_any) (auto simp: lower_def)

end
