(* ===== verification/P4x_Partners.thy ===== *)
theory P4x_Partners
  imports P4x_Accounts Search_Text
begin

text \<open>
  \<open>app/services/p4x_partner_service.py\<close>: who a counter account belongs to. A partner row assigns
  an IBAN to a member, a contact, one of the own accounts or a special contact (an exclusive
  arc); a transaction can name a delegating partner instead.
\<close>

section \<open>Searching and finding partners\<close>

definition partner_type_text :: "partner_type \<Rightarrow> string" where
  "partner_type_text t = (case t of PT_member \<Rightarrow> ''member'' | PT_contact \<Rightarrow> ''contact''
     | PT_account \<Rightarrow> ''account'' | PT_special \<Rightarrow> ''special'')"

record partner_search_result =
  psr_type :: string
  psr_id :: uuid
  psr_label :: string

definition ilike_col :: "string option \<Rightarrow> string \<Rightarrow> bool" where
  "ilike_col v pat = (case v of None \<Rightarrow> False | Some s \<Rightarrow> ilike s pat)"

definition search_partners :: "p4x_db \<Rightarrow> string \<Rightarrow> partner_search_result list" where
  "search_partners db term =
     (if length term < 3 then []
      else
        let pat = ''%'' @ escape_like term @ ''%'';
            ms = filter (\<lambda>m. ilike_col (text_col m F_vorname) pat \<or> ilike_col (text_col m F_nachname) pat \<or>
                   ilike_col (text_col m F_couleurname) pat) (members db);
            cs = filter (\<lambda>c. contact_deleted_at c = None \<and>
                   (ilike (contact_name c) pat \<or> ilike_col (contact_couleurname c) pat)) (contacts db);
            ss = filter (\<lambda>s. ilike (special_cn s) pat) (special_contacts db);
            acs = filter (\<lambda>a. acc_active a \<and> ilike_col (acc_label a) pat) (accounts db);
            org = (\<lambda>m. if text_or_empty m F_org_id = [] then ''?'' else upper (text_or_empty m F_org_id))
        in map (\<lambda>m. \<lparr>psr_type = ''member'', psr_id = member_id m,
                      psr_label = ''Mitglied ('' @ org m @ ''): '' @ cn m\<rparr>) ms @
           map (\<lambda>c. \<lparr>psr_type = ''contact'', psr_id = contact_id c, psr_label = ''Kontakt: '' @ contact_cn c\<rparr>) cs @
           map (\<lambda>s. \<lparr>psr_type = ''special'', psr_id = special_id s, psr_label = ''Spezial: '' @ special_cn s\<rparr>) ss @
           map (\<lambda>a. \<lparr>psr_type = ''account'', psr_id = acc_id a, psr_label = ''Konto: '' @ account_cn a\<rparr>) acs)"

datatype partner_entity = EMember member | EContact p4x_contact | EAccount p4x_account | ESpecial p4x_special

definition entity_type :: "partner_entity \<Rightarrow> partner_type" where
  "entity_type e = (case e of EMember _ \<Rightarrow> PT_member | EContact _ \<Rightarrow> PT_contact
     | EAccount _ \<Rightarrow> PT_account | ESpecial _ \<Rightarrow> PT_special)"

definition entity_id :: "partner_entity \<Rightarrow> uuid" where
  "entity_id e = (case e of EMember m \<Rightarrow> member_id m | EContact c \<Rightarrow> contact_id c
     | EAccount a \<Rightarrow> acc_id a | ESpecial s \<Rightarrow> special_id s)"

text \<open>\<open>db.query(model)\<close> for the model of a partner type.\<close>

definition partner_rows :: "p4x_db \<Rightarrow> partner_type \<Rightarrow> partner_entity list" where
  "partner_rows db t = (case t of PT_member \<Rightarrow> map EMember (members db) | PT_contact \<Rightarrow> map EContact (contacts db)
     | PT_account \<Rightarrow> map EAccount (accounts db) | PT_special \<Rightarrow> map ESpecial (special_contacts db))"

definition find_partner_entities ::
  "p4x_db \<Rightarrow> (string \<times> uuid) list \<Rightarrow> ((string \<times> uuid) \<times> partner_entity) list" where
  "find_partner_entities db refs =
     concat (map (\<lambda>ptype. case partner_type_of_text ptype of
          None \<Rightarrow> []
        | Some t \<Rightarrow>
            let ids = snd ` set (filter (\<lambda>r. fst r = ptype) refs)
            in map (\<lambda>e. ((ptype, entity_id e), e)) (filter (\<lambda>e. entity_id e \<in> ids) (partner_rows db t)))
       (remdups (map fst refs)))"

definition find_partner_entity :: "p4x_db \<Rightarrow> string \<Rightarrow> uuid \<Rightarrow> partner_entity option" where
  "find_partner_entity db ptype pid = map_of (rev (find_partner_entities db [(ptype, pid)])) (ptype, pid)"

text \<open>\<open>tx.partner\<close>: the partner row of the transaction's IBAN.\<close>

definition tx_partner :: "p4x_db \<Rightarrow> p4x_transaction \<Rightarrow> p4x_partner option" where
  "tx_partner db tx = List.find (\<lambda>p. partner_iban p = Some (tx_iban tx)) (partners db)"

definition transaction_partner_refs :: "p4x_db \<Rightarrow> p4x_transaction \<Rightarrow> exc + (string \<times> uuid) list" where
  "transaction_partner_refs db tx =
     bind_res (case tx_partner db tx of
         None \<Rightarrow> Inr []
       | Some p \<Rightarrow> if partner_active p
           then bind_res (partner_type_of p) (\<lambda>t. bind_res (partner_id_of p) (\<lambda>i. Inr [(partner_type_text t, i)]))
           else Inr []) (\<lambda>own.
     Inr (own @ (case (delegating_partner_type tx, delegating_partner_id tx) of
         (Some t, Some i) \<Rightarrow> [(partner_type_text t, i)] | _ \<Rightarrow> [])))"

section \<open>Assigning partners\<close>

definition clear_delegating :: "p4x_transaction \<Rightarrow> p4x_transaction" where
  "clear_delegating tx = tx\<lparr>delegating_member_id := None, delegating_contact_id := None,
     delegating_p4x_account_id := None, delegating_p4x_special_contact_id := None\<rparr>"

definition write_delegating :: "partner_entity \<Rightarrow> p4x_transaction \<Rightarrow> p4x_transaction" where
  "write_delegating remote tx =
     (case remote of
        EMember m \<Rightarrow> tx\<lparr>delegating_member_id := Some (member_id m)\<rparr>
      | EContact c \<Rightarrow> tx\<lparr>delegating_contact_id := Some (contact_id c)\<rparr>
      | EAccount a \<Rightarrow> tx\<lparr>delegating_p4x_account_id := Some (acc_id a)\<rparr>
      | ESpecial s \<Rightarrow> tx\<lparr>delegating_p4x_special_contact_id := Some (special_id s)\<rparr>)"

definition write_partner :: "partner_entity \<Rightarrow> p4x_partner \<Rightarrow> p4x_partner" where
  "write_partner remote p =
     (let p = p\<lparr>partner_member_id := None, partner_contact_id := None, partner_account_id := None,
                partner_special_id := None\<rparr>;
          p = (case remote of
                 EMember m \<Rightarrow> p\<lparr>partner_member_id := Some (member_id m)\<rparr>
               | EContact c \<Rightarrow> p\<lparr>partner_contact_id := Some (contact_id c)\<rparr>
               | EAccount a \<Rightarrow> p\<lparr>partner_account_id := Some (acc_id a)\<rparr>
               | ESpecial s \<Rightarrow> p\<lparr>partner_special_id := Some (special_id s)\<rparr>)
      in p\<lparr>partner_deleted_at := None\<rparr>)"

text \<open>The upsert of the partner row, by IBAN.\<close>

definition upsert_partner :: "p4x_db \<Rightarrow> string \<Rightarrow> partner_entity \<Rightarrow> p4x_db" where
  "upsert_partner db iban remote =
     (case List.find (\<lambda>p. partner_iban p = Some iban) (partners db) of
        Some p \<Rightarrow> db\<lparr>partners := update_where (\<lambda>q. partner_pk q = partner_pk p) (write_partner remote) (partners db)\<rparr>
      | None \<Rightarrow> (case fresh_id db of (i, db') \<Rightarrow>
          db'\<lparr>partners := partners db' @ [write_partner remote
            \<lparr>partner_pk = i, partner_iban = Some iban, partner_member_id = None, partner_contact_id = None,
             partner_account_id = None, partner_special_id = None, partner_deleted_at = None\<rparr>]\<rparr>))"

definition set_own_partner ::
  "p4x_db \<Rightarrow> instant \<Rightarrow> p4x_transaction \<Rightarrow> (string \<times> uuid) option \<Rightarrow> exc + p4x_db" where
  "set_own_partner db now tx partner_data =
     (case partner_data of
        Some (p_type, p_id) \<Rightarrow>
          (if strip (tx_iban tx) = []
           then Inl (HTTPException 422 ''Buchungen ohne Gegenkonto koennen keinem Partner zugeordnet werden.'')
           else case find_partner_entity db p_type p_id of
             None \<Rightarrow> Inl (HTTPException 404 ''Angegebener Partner wurde nicht gefunden.'')
           | Some remote \<Rightarrow> Inr (upsert_partner db (tx_iban tx) remote))
      | None \<Rightarrow> Inr (db\<lparr>partners := update_where (\<lambda>p. partner_iban p = Some (tx_iban tx) \<and> partner_active p)
          (\<lambda>p. p\<lparr>partner_deleted_at := Some now\<rparr>) (partners db)\<rparr>))"

definition update_tx :: "p4x_db \<Rightarrow> p4x_transaction \<Rightarrow> p4x_db" where
  "update_tx db tx = db\<lparr>transactions := update_where (\<lambda>t. tx_id t = tx_id tx) (\<lambda>_. tx) (transactions db)\<rparr>"

definition set_transaction_partner ::
  "p4x_db \<Rightarrow> instant \<Rightarrow> p4x_transaction \<Rightarrow> (string \<times> uuid) option \<Rightarrow> bool \<Rightarrow> (string \<times> uuid) option \<Rightarrow>
   exc + p4x_db \<times> p4x_transaction" where
  "set_transaction_partner db now tx partner_data has_delegating delegating_data =
     bind_res (set_own_partner db now tx partner_data) (\<lambda>db.
     bind_res (case (has_delegating, delegating_data) of
         (True, Some (d_type, d_id)) \<Rightarrow>
           (case find_partner_entity db d_type d_id of
              None \<Rightarrow> Inl (HTTPException 404 ''Angegebener delegierender Partner wurde nicht gefunden.'')
            | Some remote \<Rightarrow> Inr (write_delegating remote (clear_delegating tx)))
       | _ \<Rightarrow> Inr (clear_delegating tx)) (\<lambda>tx.
     Inr (update_tx db tx, tx)))"

section \<open>Comment and attachment\<close>

definition b64_char :: "nat \<Rightarrow> char" where
  "b64_char n = (if n < 26 then char_of (65 + n) else if n < 52 then char_of (71 + n)
     else if n < 62 then char_of (n - 4) else if n = 62 then CHR ''+'' else CHR ''/'')"

fun b64encode :: "nat list \<Rightarrow> string" where
  "b64encode [] = []"
| "b64encode [a] = [b64_char (a div 4), b64_char (a mod 4 * 16), CHR ''='', CHR ''='']"
| "b64encode [a, b] = [b64_char (a div 4), b64_char (a mod 4 * 16 + b div 16), b64_char (b mod 16 * 4), CHR ''='']"
| "b64encode (a # b # c # r) = b64_char (a div 4) # b64_char (a mod 4 * 16 + b div 16) #
     b64_char (b mod 16 * 4 + c div 64) # b64_char (c mod 64) # b64encode r"

definition update_transaction_meta ::
  "p4x_db \<Rightarrow> p4x_transaction \<Rightarrow> string option \<Rightarrow> nat list option \<Rightarrow> bool \<Rightarrow> p4x_db \<times> p4x_transaction" where
  "update_transaction_meta db tx comment file_bytes delete_attachment =
     (let tx1 = tx\<lparr>tx_comment := comment\<rparr>;
          tx2 = (if has_attachment tx \<and> delete_attachment then tx1\<lparr>attachment := None\<rparr>
                 else if \<not> has_attachment tx \<and> file_bytes \<noteq> None \<and> file_bytes \<noteq> Some []
                 then tx1\<lparr>attachment := Some (b64encode (the file_bytes))\<rparr> else tx1)
      in (update_tx db tx2, tx2))"

end
