(* ===== verification/P4x_Partner_Properties.thy ===== *)
theory P4x_Partner_Properties
  imports P4x_Partners P4x_Account_Properties
begin

text \<open>
  What \<open>set_transaction_partner\<close> promises: reading the partners back gives what was set, the
  exclusive arcs hold, and transactions of other counter accounts are untouched.
\<close>

lemma find_update_where:
  "(\<And>r. P (f r) = P r) \<Longrightarrow>
   List.find P (update_where Q f rows) = map_option (\<lambda>r. if Q r then f r else r) (List.find P rows)"
  by (induction rows) auto

lemma find_cong_set: "(\<And>x. x \<in> set xs \<Longrightarrow> P x = Q x) \<Longrightarrow> List.find P xs = List.find Q xs"
  by (induction xs) auto

lemma entity_of_rows: "e \<in> set (partner_rows db t) \<Longrightarrow> entity_type e = t"
  by (cases t) (auto simp: partner_rows_def entity_type_def)

lemma found_partner:
  assumes "find_partner_entity db ptype pid = Some e"
  shows "partner_type_text (entity_type e) = ptype" "entity_id e = pid"
proof -
  have "((ptype, pid), e) \<in> set (find_partner_entities db [(ptype, pid)])"
    using map_of_SomeD [of "rev (find_partner_entities db [(ptype, pid)])"] assms
    by (simp add: find_partner_entity_def)
  then obtain t where t: "partner_type_of_text ptype = Some t" "e \<in> set (partner_rows db t)" "entity_id e = pid"
    by (cases "partner_type_of_text ptype") (auto simp: find_partner_entities_def)
  show "entity_id e = pid" by (rule t(3))
  show "partner_type_text (entity_type e) = ptype"
    using t(1) entity_of_rows [OF t(2)]
    by (auto simp: partner_type_of_text_def partner_type_text_def split: if_splits)
qed

lemma written_partner [simp]:
  "partner_iban (write_partner e p) = partner_iban p" "partner_pk (write_partner e p) = partner_pk p"
  "partner_active (write_partner e p)" "partner_arc_ok (write_partner e p)"
  "partner_type_of (write_partner e p) = Inr (entity_type e)" "partner_id_of (write_partner e p) = Inr (entity_id e)"
  by (cases e; simp add: write_partner_def Let_def partner_active_def partner_arc_ok_def num_nonnulls_def
      partner_type_of_def partner_id_of_def entity_type_def entity_id_def)+

lemma written_delegating [simp]:
  "delegating_arc_ok (write_delegating e (clear_delegating tx))" "delegating_arc_ok (clear_delegating tx)"
  "delegating_partner_type (write_delegating e (clear_delegating tx)) = Some (entity_type e)"
  "delegating_partner_id (write_delegating e (clear_delegating tx)) = Some (entity_id e)"
  "delegating_partner_type (clear_delegating tx) = None"
  "tx_iban (write_delegating e tx) = tx_iban tx" "tx_iban (clear_delegating tx) = tx_iban tx"
  "tx_id (write_delegating e tx) = tx_id tx" "tx_id (clear_delegating tx) = tx_id tx"
  by (cases e; simp add: write_delegating_def clear_delegating_def delegating_arc_ok_def num_nonnulls_def
      delegating_partner_type_def delegating_partner_id_def entity_type_def entity_id_def)+

lemma upsert_partner_found: "\<exists>p. tx_partner (upsert_partner db (tx_iban tx) e) tx = Some (write_partner e p)"
  by (cases "List.find (\<lambda>p. partner_iban p = Some (tx_iban tx)) (partners db)")
    (auto simp: upsert_partner_def tx_partner_def fresh_id_def find_update_where find_append)

lemma upsert_partner_other:
  assumes "distinct (map partner_pk (partners db))" "tx_iban u \<noteq> iban"
  shows "tx_partner (upsert_partner db iban e) u = tx_partner db u"
proof (cases "List.find (\<lambda>p. partner_iban p = Some iban) (partners db)")
  case None
  then show ?thesis
    using assms(2) by (simp add: upsert_partner_def tx_partner_def fresh_id_def find_append split: option.split)
next
  case (Some p)
  then have p: "p \<in> set (partners db)" "partner_iban p = Some iban" using find_SomeD by fast+
  have "partner_pk q \<noteq> partner_pk p" if "List.find (\<lambda>p. partner_iban p = Some (tx_iban u)) (partners db) = Some q" for q
    using find_SomeD [OF that] p assms by (auto simp: distinct_map inj_on_def)
  then show ?thesis
    using Some by (cases "List.find (\<lambda>p. partner_iban p = Some (tx_iban u)) (partners db)")
      (auto simp: upsert_partner_def tx_partner_def find_update_where)
qed

lemma refs_cong:
  "tx_partner db' u = tx_partner db u \<Longrightarrow> transaction_partner_refs db' u = transaction_partner_refs db u"
  by (simp add: transaction_partner_refs_def)

lemma own_partner_set:
  assumes ok: "p4x_ok db" and set: "set_own_partner db now tx partner_data = Inr db'"
  shows "transactions db' = transactions db" and "list_all partner_arc_ok (partners db')"
    and "tx_iban u \<noteq> tx_iban tx \<Longrightarrow> tx_partner db' u = tx_partner db u"
    and "case partner_data of
         None \<Rightarrow> (\<forall>p. tx_partner db' tx = Some p \<longrightarrow> \<not> partner_active p)
       | Some (t, i) \<Rightarrow> (\<exists>e p. tx_partner db' tx = Some (write_partner e p) \<and>
           partner_type_text (entity_type e) = t \<and> entity_id e = i)"
proof -
  have arcs: "list_all partner_arc_ok (partners db)" and pk: "distinct (map partner_pk (partners db))"
    using ok by (simp_all add: p4x_ok_def)
  have "transactions db' = transactions db \<and> list_all partner_arc_ok (partners db') \<and>
    (\<forall>u. tx_iban u \<noteq> tx_iban tx \<longrightarrow> tx_partner db' u = tx_partner db u) \<and>
    (case partner_data of
         None \<Rightarrow> (\<forall>p. tx_partner db' tx = Some p \<longrightarrow> \<not> partner_active p)
       | Some (t, i) \<Rightarrow> (\<exists>e p. tx_partner db' tx = Some (write_partner e p) \<and>
           partner_type_text (entity_type e) = t \<and> entity_id e = i))"
  proof (cases partner_data)
    case None
    let ?P = "\<lambda>p. partner_iban p = Some (tx_iban tx) \<and> partner_active p"
    let ?f = "\<lambda>p. p\<lparr>partner_deleted_at := Some now\<rparr>"
    have db': "db' = db\<lparr>partners := update_where ?P ?f (partners db)\<rparr>"
      using set None by (simp add: set_own_partner_def)
    have found: "tx_partner db' u = map_option (\<lambda>p. if ?P p then ?f p else p) (tx_partner db u)" for u
      by (simp add: tx_partner_def db' find_update_where)
    have "list_all partner_arc_ok (partners db')"
      using arcs by (auto simp: db' list_all_iff set_update_where partner_arc_ok_def)
    moreover have "tx_partner db' u = tx_partner db u" if "tx_iban u \<noteq> tx_iban tx" for u
      using that find_SomeD [of "\<lambda>p. partner_iban p = Some (tx_iban u)" "partners db"]
      by (cases "tx_partner db u") (auto simp: found, simp add: tx_partner_def)
    moreover have "\<not> partner_active p" if f: "tx_partner db' tx = Some p" for p
    proof -
      obtain q where q: "tx_partner db tx = Some q" "p = (if ?P q then ?f q else q)"
        using f found [of tx] by auto
      have "partner_iban q = Some (tx_iban tx)"
        using q(1) find_SomeD [of "\<lambda>p. partner_iban p = Some (tx_iban tx)"] by (auto simp: tx_partner_def)
      then show ?thesis using q(2) by (auto simp: partner_active_def split: if_splits)
    qed
    ultimately show ?thesis using None by (simp add: db')
  next
    case (Some r)
    obtain t i where r: "r = (t, i)" by (cases r)
    obtain e where e: "find_partner_entity db t i = Some e" "db' = upsert_partner db (tx_iban tx) e"
      using set Some r by (auto simp: set_own_partner_def split: if_splits option.splits)
    have "list_all partner_arc_ok (partners db')" "transactions db' = transactions db"
      using arcs by (auto simp: e(2) upsert_partner_def fresh_id_def list_all_iff set_update_where split: option.splits)
    then show ?thesis
      using Some r found_partner [OF e(1)] upsert_partner_other [OF pk] upsert_partner_found [of db tx e]
      unfolding e(2) by (simp del: written_partner) blast
  qed
  then show "transactions db' = transactions db" "list_all partner_arc_ok (partners db')"
    "tx_iban u \<noteq> tx_iban tx \<Longrightarrow> tx_partner db' u = tx_partner db u"
    "case partner_data of
         None \<Rightarrow> (\<forall>p. tx_partner db' tx = Some p \<longrightarrow> \<not> partner_active p)
       | Some (t, i) \<Rightarrow> (\<exists>e p. tx_partner db' tx = Some (write_partner e p) \<and>
           partner_type_text (entity_type e) = t \<and> entity_id e = i)"
    by blast+
qed

definition given_refs :: "(string \<times> uuid) option \<Rightarrow> (string \<times> uuid) list" where
  "given_refs r = (case r of None \<Rightarrow> [] | Some x \<Rightarrow> [x])"

lemma partner_roundtrip:
  assumes ok: "p4x_ok db" and tx: "tx \<in> set (transactions db)"
    and set: "set_transaction_partner db now tx partner_data has_delegating delegating_data = Inr (db', tx')"
  shows "tx' \<in> set (transactions db') \<and>
    transaction_partner_refs db' tx' =
      Inr (given_refs partner_data @ (if has_delegating then given_refs delegating_data else [])) \<and>
    list_all partner_arc_ok (partners db') \<and> list_all delegating_arc_ok (transactions db') \<and>
    (\<forall>u. tx_iban u \<noteq> tx_iban tx \<longrightarrow> transaction_partner_refs db' u = transaction_partner_refs db u)"
proof -
  obtain db1 where own: "set_own_partner db now tx partner_data = Inr db1"
    and db': "db' = update_tx db1 tx'"
    and tx': "(\<exists>e t i. has_delegating \<and> delegating_data = Some (t, i) \<and> find_partner_entity db1 t i = Some e \<and>
        tx' = write_delegating e (clear_delegating tx)) \<or>
      (\<not> has_delegating \<or> delegating_data = None) \<and> tx' = clear_delegating tx"
    using set by (auto simp: set_transaction_partner_def bind_res_eq_Inr split: bool.splits option.splits prod.splits)
  note o = own_partner_set [OF ok own]
  have id: "tx_id tx' = tx_id tx" "tx_iban tx' = tx_iban tx" "delegating_arc_ok tx'" using tx' by auto
  have del: "(case (delegating_partner_type tx', delegating_partner_id tx') of
         (Some t, Some i) \<Rightarrow> [(partner_type_text t, i)] | _ \<Rightarrow> []) =
      (if has_delegating then given_refs delegating_data else [])"
    using tx' found_partner [of db1] by (auto simp: given_refs_def)
  have p: "tx_partner db' u = tx_partner db1 u" for u by (simp add: tx_partner_def db' update_tx_def)
  have p': "tx_partner db' tx' = tx_partner db1 tx" using p [of tx'] by (simp add: tx_partner_def id(2))
  have "transaction_partner_refs db' tx' =
      Inr (given_refs partner_data @ (if has_delegating then given_refs delegating_data else []))"
    unfolding transaction_partner_refs_def del p'
    using o(4) by (cases partner_data) (auto simp: given_refs_def split: option.splits)
  moreover have "tx' \<in> set (transactions db')"
    using tx id(1) by (auto simp: db' update_tx_def set_update_where o(1) image_iff)
  moreover have "list_all partner_arc_ok (partners db')" using o(2) by (simp add: db' update_tx_def)
  moreover have "list_all delegating_arc_ok (transactions db')"
    using ok id(3) by (auto simp: db' update_tx_def list_all_iff set_update_where o(1) p4x_ok_def)
  moreover have "transaction_partner_refs db' u = transaction_partner_refs db u" if "tx_iban u \<noteq> tx_iban tx" for u
    by (rule refs_cong) (simp only: p o(3) [OF that])
  ultimately show ?thesis by blast
qed

text \<open>Setting the partners of a transaction and reading them back gives exactly what was set: the
  partner and, if one was given, the delegating partner. Afterwards every partner row has exactly
  one target and every transaction at most one delegating partner, and the partners of
  transactions with another counter account are what they were.\<close>
theorem set_partner_roundtrip:
  assumes "p4x_ok db" and "tx \<in> set (transactions db)"
    and "set_transaction_partner db now tx partner_data has_delegating delegating_data = Inr (db', tx')"
  shows "tx' \<in> set (transactions db') \<and>
    transaction_partner_refs db' tx' =
      Inr (given_refs partner_data @ (if has_delegating then given_refs delegating_data else [])) \<and>
    list_all partner_arc_ok (partners db') \<and> list_all delegating_arc_ok (transactions db') \<and>
    (\<forall>u. tx_iban u \<noteq> tx_iban tx \<longrightarrow> transaction_partner_refs db' u = transaction_partner_refs db u)"
  using assms by (rule partner_roundtrip)

lemma set_partner_roundtrip_witness:
  "\<exists>db' tx'. set_transaction_partner bank_db 5 (bank_tx 6 (Date 2024 2 1) 30) (Some (''account'', 2)) True
      (Some (''account'', 2)) = Inr (db', tx') \<and>
    transaction_partner_refs db' tx' = Inr [(''account'', 2), (''account'', 2)]"
proof -
  have ok: "p4x_ok bank_db"
    by (simp add: p4x_ok_def bank_db_def bank_tx_def giro_def delegating_arc_ok_def num_nonnulls_def
        days_in_month_def is_leap_def)
  let ?tx = "bank_tx 6 (Date 2024 2 1) 30"
  have tx: "?tx \<in> set (transactions bank_db)" by (simp add: bank_db_def)
  have "(case set_transaction_partner bank_db 5 ?tx (Some (''account'', 2)) True (Some (''account'', 2)) of
      Inr _ \<Rightarrow> True | _ \<Rightarrow> False)" by code_simp
  then obtain db' tx' where r: "set_transaction_partner bank_db 5 ?tx (Some (''account'', 2)) True
      (Some (''account'', 2)) = Inr (db', tx')"
    by (auto split: sum.splits)
  from set_partner_roundtrip [OF ok tx r] r show ?thesis by (auto simp: given_refs_def)
qed

end
