(* ===== verification/P4x_Categories.thy ===== *)
theory P4x_Categories
  imports P4x_Accounts Search_Text Decimal_Text
begin

text \<open>
  \<open>app/services/p4x_category_service.py\<close>: categories, the filters that assign transactions to
  them by account, IBAN, amount and subject, the stored hits of the filters, and the direct
  assignments that override the filters. An Inr result with a text is an error message the
  function returns; an Inl result is an exception, after which nothing is committed.
\<close>

section \<open>The filter engine\<close>

definition subject_pattern :: "subject_mode \<Rightarrow> string \<Rightarrow> string" where
  "subject_pattern mode s =
     (case mode of EQUALS \<Rightarrow> s | CONTAINS \<Rightarrow> ''%'' @ s @ ''%'' | STARTS \<Rightarrow> s @ ''%'')"

definition category_filter_criteria :: "p4x_category_filter \<Rightarrow> uuid set \<Rightarrow> p4x_transaction \<Rightarrow> bool" where
  "category_filter_criteria f with_directs tx \<longleftrightarrow>
     tx_id tx \<notin> with_directs \<and>
     tx_account_id tx = cf_account_id f \<and>
     (case cf_iban f of None \<Rightarrow> True
      | Some i \<Rightarrow> i = [] \<or> tx_iban tx = upper (concat (split_ws i))) \<and>
     (case min_amount f of None \<Rightarrow> True | Some a \<Rightarrow> a \<le> amount tx) \<and>
     (case max_amount f of None \<Rightarrow> True | Some a \<Rightarrow> amount tx \<le> a) \<and>
     (case cf_subject f of None \<Rightarrow> True
      | Some s \<Rightarrow> ilike (subject tx) (subject_pattern (cf_subject_mode f) (escape_like s)))"

definition matching_transactions :: "p4x_db \<Rightarrow> p4x_category_filter \<Rightarrow> uuid set \<Rightarrow> uuid list" where
  "matching_transactions db f with_directs =
     map tx_id (filter (\<lambda>tx. tx_active tx \<and> category_filter_criteria f with_directs tx) (transactions db))"

definition apply_filter_with_cache :: "p4x_category_filter \<Rightarrow> uuid set \<Rightarrow> p4x_db \<Rightarrow> p4x_db" where
  "apply_filter_with_cache f with_directs db =
     db\<lparr>filter_hits := delete_where (\<lambda>h. hit_filter_id h = cf_id f) (filter_hits db) @
        map (\<lambda>i. \<lparr>hit_tx_id = i, hit_filter_id = cf_id f\<rparr>) (matching_transactions db f with_directs)\<rparr>"

definition apply_single_filter :: "p4x_db \<Rightarrow> p4x_category_filter \<Rightarrow> p4x_db" where
  "apply_single_filter db f = apply_filter_with_cache f (tx_with_directs db) db"

definition refresh_transaction_hits :: "p4x_transaction \<Rightarrow> bool \<Rightarrow> p4x_db \<Rightarrow> p4x_db" where
  "refresh_transaction_hits tx assigned db =
     (let db = db\<lparr>filter_hits := delete_where (\<lambda>h. hit_tx_id h = tx_id tx) (filter_hits db)\<rparr>
      in if assigned then db
         else db\<lparr>filter_hits := filter_hits db @
           map (\<lambda>f. \<lparr>hit_tx_id = tx_id tx, hit_filter_id = cf_id f\<rparr>)
             (filter (\<lambda>f. tx_id tx \<in> set (matching_transactions db f {})) (category_filters db))\<rparr>)"

definition apply_all_category_filters_core :: "bool \<Rightarrow> p4x_db \<Rightarrow> p4x_db" where
  "apply_all_category_filters_core truncate_first db =
     (let db = (if truncate_first then db\<lparr>filter_hits := []\<rparr> else db)
      in fold (\<lambda>f. apply_filter_with_cache f (tx_with_directs db)) (category_filters db) db)"

section \<open>Categories\<close>

record category_request =
  creq_name :: string
  creq_label :: string
  creq_background_color :: string
  creq_text_color :: string

definition get_category_usage :: "p4x_db \<Rightarrow> p4x_category \<Rightarrow> nat \<times> nat" where
  "get_category_usage db c =
     (length (filter (\<lambda>f. cf_category_id f = cat_id c) (category_filters db)),
      length (filter (\<lambda>d. cd_category_id d = cat_id c \<and> direct_active d) (category_directs db)))"

definition create_category :: "p4x_db \<Rightarrow> category_request \<Rightarrow> exc + p4x_category \<times> p4x_db" where
  "create_category db data =
     (if \<exists>c \<in> set (categories db). cat_name c = creq_name data
      then Inl (HTTPException 409 ''Name muss eindeutig sein.'')
      else case fresh_id db of (i, db') \<Rightarrow>
        let c = \<lparr>cat_id = i, cat_name = creq_name data, cat_label = creq_label data,
              background_color = creq_background_color data, text_color = creq_text_color data,
              cat_protected = False\<rparr>
        in Inr (c, db'\<lparr>categories := categories db' @ [c]\<rparr>))"

definition update_category :: "p4x_db \<Rightarrow> p4x_category \<Rightarrow> category_request \<Rightarrow> exc + p4x_category \<times> p4x_db" where
  "update_category db c data =
     (if \<exists>d \<in> set (categories db). cat_name d = creq_name data \<and> cat_id d \<noteq> cat_id c
      then Inl (HTTPException 409 ''Name muss eindeutig sein.'')
      else
        let write = (\<lambda>c. c\<lparr>cat_name := creq_name data, cat_label := creq_label data,
              background_color := creq_background_color data, text_color := creq_text_color data\<rparr>)
        in Inr (write c, db\<lparr>categories := update_where (\<lambda>d. cat_id d = cat_id c) write (categories db)\<rparr>))"

text \<open>
  Deleting the row sets the foreign key of the remaining direct assignments, which are the
  deactivated ones, to \<open>NULL\<close>; the column does not allow it.
\<close>

definition delete_category :: "p4x_db \<Rightarrow> p4x_category \<Rightarrow> exc + p4x_db \<times> string option" where
  "delete_category db c =
     (if cat_protected c then Inr (db, Some ''Geschuetzte Kategorien koennen nicht geloescht werden.'')
      else case get_category_usage db c of (filter_count, direct_count) \<Rightarrow>
        if 0 < filter_count \<or> 0 < direct_count
        then Inr (db, Some ''Kategorie ist in Verwendung und kann nicht geloescht werden.'')
        else if \<exists>d \<in> set (category_directs db). cd_category_id d = cat_id c then Inl IntegrityError
        else Inr (db\<lparr>categories := delete_where (\<lambda>d. cat_id d = cat_id c) (categories db)\<rparr>, None))"

section \<open>Category filters\<close>

record filter_request =
  freq_name :: string
  freq_account_id :: uuid
  freq_iban :: "string option"
  freq_min_amount :: "decimal option"
  freq_max_amount :: "decimal option"
  freq_subject :: "string option"
  freq_subject_mode :: subject_mode
  freq_category_id :: uuid

definition get_filter_hit_count :: "p4x_db \<Rightarrow> p4x_category_filter \<Rightarrow> nat" where
  "get_filter_hit_count db f =
     length (filter (\<lambda>h. hit_filter_id h = cf_id f \<and> hit_tx_id h \<notin> tx_with_directs db) (filter_hits db))"

definition get_filter_hits :: "p4x_db \<Rightarrow> p4x_category_filter \<Rightarrow> p4x_transaction list" where
  "get_filter_hits db f =
     (let hit_tx_ids = map hit_tx_id (filter (\<lambda>h. hit_filter_id h = cf_id f) (filter_hits db));
          valid_ids = filter (\<lambda>i. i \<notin> tx_with_directs db) hit_tx_ids
      in if valid_ids = [] then []
         else filter (\<lambda>tx. tx_id tx \<in> set valid_ids \<and> tx_active tx) (transactions db))"

definition is_blank :: "string option \<Rightarrow> bool" where
  "is_blank s \<longleftrightarrow> s = None \<or> s = Some []"

definition validate_category_filter_input :: "p4x_db \<Rightarrow> filter_request \<Rightarrow> exc + unit" where
  "validate_category_filter_input db data =
     (if is_blank (freq_iban data) \<and> freq_min_amount data = None \<and> freq_max_amount data = None \<and>
         is_blank (freq_subject data)
      then Inl (HTTPException 422 ''Mindestens ein Filterkriterium muss gesetzt sein.'')
      else if get_by acc_id (accounts db) (freq_account_id data) = None
      then Inl (HTTPException 422 ''Konto existiert nicht.'')
      else if get_by cat_id (categories db) (freq_category_id data) = None
      then Inl (HTTPException 422 ''Kategorie existiert nicht.'')
      else Inr ())"

text \<open>The schema's check on the two amounts, on the flush.\<close>

definition amounts_ordered :: "decimal option \<Rightarrow> decimal option \<Rightarrow> bool" where
  "amounts_ordered lo hi = (case (lo, hi) of (Some a, Some b) \<Rightarrow> a \<le> b | _ \<Rightarrow> True)"

definition create_category_filter :: "p4x_db \<Rightarrow> filter_request \<Rightarrow> exc + p4x_category_filter \<times> p4x_db" where
  "create_category_filter db data =
     bind_res (validate_category_filter_input db data) (\<lambda>_.
       if \<exists>f \<in> set (category_filters db). cf_name f = freq_name data
       then Inl (HTTPException 409 ''Name muss eindeutig sein.'')
       else if \<not> amounts_ordered (freq_min_amount data) (freq_max_amount data) then Inl IntegrityError
       else case fresh_id db of (i, db') \<Rightarrow>
         let f = \<lparr>cf_id = i, cf_name = freq_name data, cf_account_id = freq_account_id data,
               cf_iban = freq_iban data, min_amount = freq_min_amount data, max_amount = freq_max_amount data,
               cf_subject_mode = freq_subject_mode data, cf_subject = freq_subject data,
               cf_category_id = freq_category_id data\<rparr>
         in Inr (f, apply_all_category_filters_core False
                      (db'\<lparr>category_filters := category_filters db' @ [f]\<rparr>)))"

definition update_category_filter ::
  "p4x_db \<Rightarrow> p4x_category_filter \<Rightarrow> filter_request \<Rightarrow> exc + p4x_category_filter \<times> p4x_db" where
  "update_category_filter db f data =
     bind_res (validate_category_filter_input db data) (\<lambda>_.
       if \<exists>g \<in> set (category_filters db). cf_name g = freq_name data \<and> cf_id g \<noteq> cf_id f
       then Inl (HTTPException 409 ''Name muss eindeutig sein.'')
       else if \<not> amounts_ordered (freq_min_amount data) (freq_max_amount data) then Inl IntegrityError
       else
         let write = (\<lambda>f. f\<lparr>cf_name := freq_name data, cf_account_id := freq_account_id data,
               cf_iban := freq_iban data, min_amount := freq_min_amount data, max_amount := freq_max_amount data,
               cf_subject := freq_subject data, cf_subject_mode := freq_subject_mode data,
               cf_category_id := freq_category_id data\<rparr>)
         in Inr (write f, apply_all_category_filters_core False
              (db\<lparr>category_filters := update_where (\<lambda>g. cf_id g = cf_id f) write (category_filters db)\<rparr>)))"

definition delete_category_filter :: "p4x_db \<Rightarrow> p4x_category_filter \<Rightarrow> p4x_db" where
  "delete_category_filter db f =
     db\<lparr>filter_hits := delete_where (\<lambda>h. hit_filter_id h = cf_id f) (filter_hits db),
        category_filters := delete_where (\<lambda>g. cf_id g = cf_id f) (category_filters db)\<rparr>"

section \<open>Direct assignments\<close>

text \<open>
  A slot of the request body: \<open>amount\<close> may be missing or null, a number, a text, or another JSON
  value, which \<open>Decimal(str(...))\<close> does not read.
\<close>

datatype slot_amount = NoAmount | NumAmount decimal | TextAmount string | OtherAmount

record slot =
  slot_category_id :: "uuid option"
  slot_amount :: slot_amount

definition truthy_amount :: "slot_amount \<Rightarrow> bool" where
  "truthy_amount a = (case a of NoAmount \<Rightarrow> False | NumAmount x \<Rightarrow> x \<noteq> 0 | TextAmount s \<Rightarrow> s \<noteq> []
     | OtherAmount \<Rightarrow> True)"

definition decimal_of_amount :: "slot_amount \<Rightarrow> exc + dec_value" where
  "decimal_of_amount a = (case a of
       NumAmount x \<Rightarrow> Inr (Finite x)
     | TextAmount s \<Rightarrow> (case parse_decimal s of None \<Rightarrow> Inl InvalidOperation
         | Some (NaN True) \<Rightarrow> Inl InvalidOperation | Some v \<Rightarrow> Inr v)
     | _ \<Rightarrow> Inl InvalidOperation)"

text \<open>The sum of the slots, from zero.\<close>

fun dec_add :: "dec_value \<Rightarrow> dec_value \<Rightarrow> exc + dec_value" where
  "dec_add (Finite x) (Finite y) = Inr (Finite (y + x))"
| "dec_add (NaN s) _ = Inr (NaN False)"
| "dec_add _ (NaN s) = Inr (NaN False)"
| "dec_add (Infinite s) (Infinite t) = (if s = t then Inr (Infinite s) else Inl InvalidOperation)"
| "dec_add (Infinite s) (Finite y) = Inr (Infinite s)"
| "dec_add (Finite x) (Infinite t) = Inr (Infinite t)"

definition sum_of_values :: "dec_value list \<Rightarrow> exc + dec_value" where
  "sum_of_values vs = fold_res dec_add vs (Finite 0)"

text \<open>
  Inserting the new assignments: the column rounds to cents, the foreign key needs the category,
  and the partial unique index allows one active assignment per transaction and category.
\<close>

definition insert_direct :: "uuid \<Rightarrow> slot \<times> dec_value \<Rightarrow> p4x_db \<Rightarrow> exc + p4x_db" where
  "insert_direct i sv db =
     (case (slot_category_id (fst sv), snd sv) of
        (Some c, Finite x) \<Rightarrow>
          bind_res (to_numeric x) (\<lambda>a.
            if get_by cat_id (categories db) c = None then Inl IntegrityError
            else if \<exists>d \<in> set (category_directs db). cd_tx_id d = i \<and> cd_category_id d = c \<and> direct_active d
            then Inl IntegrityError
            else Inr (db\<lparr>category_directs := category_directs db @
                   [\<lparr>cd_tx_id = i, cd_category_id = c, cd_amount = a, cd_deleted_at = None\<rparr>]\<rparr>))
      | _ \<Rightarrow> Inl DataError)"

definition deactivate_directs :: "p4x_transaction \<Rightarrow> instant \<Rightarrow> p4x_db \<Rightarrow> p4x_db" where
  "deactivate_directs tx now db =
     db\<lparr>category_directs := update_where (\<lambda>d. cd_tx_id d = tx_id tx \<and> direct_active d)
        (\<lambda>d. d\<lparr>cd_deleted_at := Some now\<rparr>) (category_directs db)\<rparr>"

definition set_category_direct_core ::
  "p4x_db \<Rightarrow> instant \<Rightarrow> p4x_transaction \<Rightarrow> slot list \<Rightarrow> exc + p4x_db \<times> string option" where
  "set_category_direct_core db now tx slots =
     (let valid_slots = filter (\<lambda>s. slot_category_id s \<noteq> None \<and> truthy_amount (slot_amount s)) slots in
      bind_res (map_res (\<lambda>s. decimal_of_amount (slot_amount s)) valid_slots) (\<lambda>values.
      bind_res (sum_of_values values) (\<lambda>total.
        if valid_slots \<noteq> [] \<and> total \<noteq> Finite (amount tx)
        then Inr (db, Some ''Summe der Betraege stimmt nicht mit dem Transaktionsbetrag ueberein.'')
        else
          bind_res (fold_res (insert_direct (tx_id tx)) (zip valid_slots values)
                     (deactivate_directs tx now db)) (\<lambda>db'.
          Inr (refresh_transaction_hits tx (valid_slots \<noteq> []) db', None)))))"

text \<open>
  The deferred trigger of the two tables (migration \<open>e1b3c5d7f9a2\<close>), run when the request commits: the active
  direct categories of a transaction add up to its amount, or there are none.
\<close>

definition direct_sum_ok :: "p4x_db \<Rightarrow> uuid \<Rightarrow> bool" where
  "direct_sum_ok db i \<longleftrightarrow>
     (case get_by tx_id (transactions db) i of
        None \<Rightarrow> True
      | Some tx \<Rightarrow>
          let directs = filter (\<lambda>d. cd_tx_id d = i \<and> direct_active d) (category_directs db)
          in directs = [] \<or> sum_list (map cd_amount directs) = amount tx)"

definition set_category_direct ::
  "p4x_db \<Rightarrow> instant \<Rightarrow> p4x_transaction \<Rightarrow> slot list \<Rightarrow> exc + p4x_db \<times> string option" where
  "set_category_direct db now tx slots =
     bind_res (set_category_direct_core db now tx slots) (\<lambda>(db', msg).
       case msg of
         Some _ \<Rightarrow> Inr (db', msg)
       | None \<Rightarrow> if direct_sum_ok db' (tx_id tx) then Inr (db', None) else Inl IntegrityError)"

text \<open>Without active rows the deferred check holds.\<close>

definition unset_category_direct :: "p4x_db \<Rightarrow> instant \<Rightarrow> p4x_transaction \<Rightarrow> p4x_db" where
  "unset_category_direct db now tx = refresh_transaction_hits tx False (deactivate_directs tx now db)"

definition filter_to_direct :: "p4x_db \<Rightarrow> instant \<Rightarrow> p4x_category_filter \<Rightarrow> exc + p4x_db \<times> string option" where
  "filter_to_direct db now f =
     (if 0 < snd (get_warnings_partner db None) + snd (get_warnings_category db None)
      then Inr (db, Some ''Es gibt noch offene Warnungen. Bitte zuerst alle Warnungen beheben.'')
      else
        bind_res (fold_res (\<lambda>tx db. bind_res (set_category_direct_core db now tx
                      [\<lparr>slot_category_id = Some (cf_category_id f), slot_amount = NumAmount (amount tx)\<rparr>])
                    (\<lambda>r. Inr (fst r))) (get_filter_hits db f) db) (\<lambda>db'.
        if list_all (\<lambda>tx. direct_sum_ok db' (tx_id tx)) (get_filter_hits db f)
        then Inr (db'\<lparr>filter_hits := delete_where (\<lambda>h. hit_filter_id h = cf_id f) (filter_hits db')\<rparr>, None)
        else Inl IntegrityError))"

end
