(* ===== verification/P4x_Hits.thy ===== *)
theory P4x_Hits
  imports P4x_Categories
begin

text \<open>
  The stored filter hits as a cache: \<open>hits_current\<close> says that the table holds exactly the pairs
  of an active transaction without direct assignment and a filter it matches. Every operation
  that changes filters or direct assignments keeps it.
\<close>

section \<open>What the table should hold\<close>

definition base_hits :: "p4x_db \<Rightarrow> p4x_filter_hit set" where
  "base_hits db = (\<Union>f \<in> set (category_filters db).
     (\<lambda>i. \<lparr>hit_tx_id = i, hit_filter_id = cf_id f\<rparr>) ` set (matching_transactions db f {}))"

definition expected_hits :: "p4x_db \<Rightarrow> p4x_filter_hit set" where
  "expected_hits db = {h \<in> base_hits db. hit_tx_id h \<notin> tx_with_directs db}"

definition hits_current :: "p4x_db \<Rightarrow> bool" where
  "hits_current db \<longleftrightarrow>
     distinct (map tx_id (transactions db)) \<and> distinct (map cf_id (category_filters db)) \<and>
     (\<forall>f \<in> set (category_filters db). cf_id f < next_id db) \<and>
     distinct (filter_hits db) \<and> set (filter_hits db) = expected_hits db"

lemma criteria_without_directs:
  "category_filter_criteria f D tx \<longleftrightarrow> tx_id tx \<notin> D \<and> category_filter_criteria f {} tx"
  by (simp add: category_filter_criteria_def)

lemma set_matching:
  "set (matching_transactions db f D) = {i \<in> set (matching_transactions db f {}). i \<notin> D}"
  using criteria_without_directs [of f D] by (auto simp: matching_transactions_def)

lemma matching_cong:
  "transactions db' = transactions db \<Longrightarrow> matching_transactions db' f D = matching_transactions db f D"
  by (simp add: matching_transactions_def)

lemma distinct_matching: "distinct (map tx_id (transactions db)) \<Longrightarrow> distinct (matching_transactions db f D)"
  by (simp add: matching_transactions_def distinct_map_filter)

lemma base_hits_cong:
  "transactions db' = transactions db \<Longrightarrow> category_filters db' = category_filters db \<Longrightarrow>
   base_hits db' = base_hits db"
  by (simp add: base_hits_def matching_transactions_def)

lemma tx_with_directs_cong:
  "category_directs db' = category_directs db \<Longrightarrow> tx_with_directs db' = tx_with_directs db"
  by (simp add: tx_with_directs_def)

lemma mem_base_hits:
  "h \<in> base_hits db \<longleftrightarrow> (\<exists>f \<in> set (category_filters db). hit_filter_id h = cf_id f \<and>
     hit_tx_id h \<in> set (matching_transactions db f {}))"
proof
  assume "h \<in> base_hits db"
  then show "\<exists>f \<in> set (category_filters db). hit_filter_id h = cf_id f \<and>
     hit_tx_id h \<in> set (matching_transactions db f {})" by (auto simp: base_hits_def)
next
  assume "\<exists>f \<in> set (category_filters db). hit_filter_id h = cf_id f \<and>
     hit_tx_id h \<in> set (matching_transactions db f {})"
  then show "h \<in> base_hits db" by (cases h) (auto simp: base_hits_def)
qed

section \<open>Recomputing all filters\<close>

lemma apply_filter_frame [simp]:
  "transactions (apply_filter_with_cache f D db) = transactions db"
  "category_filters (apply_filter_with_cache f D db) = category_filters db"
  "category_directs (apply_filter_with_cache f D db) = category_directs db"
  "categories (apply_filter_with_cache f D db) = categories db"
  "next_id (apply_filter_with_cache f D db) = next_id db"
  by (simp_all add: apply_filter_with_cache_def)

lemma fold_apply_frame [simp]:
  "transactions (fold (\<lambda>f. apply_filter_with_cache f D) fs db) = transactions db"
  "category_filters (fold (\<lambda>f. apply_filter_with_cache f D) fs db) = category_filters db"
  "category_directs (fold (\<lambda>f. apply_filter_with_cache f D) fs db) = category_directs db"
  "categories (fold (\<lambda>f. apply_filter_with_cache f D) fs db) = categories db"
  "next_id (fold (\<lambda>f. apply_filter_with_cache f D) fs db) = next_id db"
  by (induction fs arbitrary: db) auto

lemma hits_apply_filter:
  "set (filter_hits (apply_filter_with_cache f D db)) = {h \<in> set (filter_hits db). hit_filter_id h \<noteq> cf_id f} \<union>
     {h. hit_filter_id h = cf_id f \<and> hit_tx_id h \<in> set (matching_transactions db f D)}"
proof -
  have "(\<lambda>i. \<lparr>hit_tx_id = i, hit_filter_id = cf_id f\<rparr>) ` set (matching_transactions db f D) =
      {h. hit_filter_id h = cf_id f \<and> hit_tx_id h \<in> set (matching_transactions db f D)}" (is "?g ` ?M = ?S")
  proof
    show "?S \<subseteq> ?g ` ?M"
    proof
      fix h assume "h \<in> ?S"
      then have "h = ?g (hit_tx_id h)" "hit_tx_id h \<in> ?M" by (cases h, auto)+
      then show "h \<in> ?g ` ?M" by (rule image_eqI)
    qed
  qed auto
  then show ?thesis by (auto simp: apply_filter_with_cache_def)
qed

lemma distinct_apply_filter:
  assumes "distinct (filter_hits db)" "distinct (map tx_id (transactions db))"
  shows "distinct (filter_hits (apply_filter_with_cache f D db))"
proof -
  have "distinct (map (\<lambda>i. \<lparr>hit_tx_id = i, hit_filter_id = cf_id f\<rparr>) (matching_transactions db f D))"
    using distinct_matching [OF assms(2)] by (simp add: distinct_map inj_on_def)
  then show ?thesis using assms(1) by (auto simp: apply_filter_with_cache_def delete_where_def)
qed

lemma hits_fold_apply:
  assumes "distinct (map cf_id fs)"
  shows "h \<in> set (filter_hits (fold (\<lambda>f. apply_filter_with_cache f D) fs db)) \<longleftrightarrow>
    (h \<in> set (filter_hits db) \<and> hit_filter_id h \<notin> cf_id ` set fs) \<or>
    (\<exists>f \<in> set fs. hit_filter_id h = cf_id f \<and> hit_tx_id h \<in> set (matching_transactions db f D))"
  using assms
proof (induction fs arbitrary: db)
  case Nil
  then show ?case by simp
next
  case (Cons f fs)
  have m: "matching_transactions (apply_filter_with_cache f D db) g D = matching_transactions db g D" for g
    by (rule matching_cong) simp
  show ?case using Cons.prems by (auto simp: Cons.IH hits_apply_filter m image_iff)
qed

lemma distinct_fold_apply:
  "distinct (filter_hits db) \<Longrightarrow> distinct (map tx_id (transactions db)) \<Longrightarrow>
   distinct (filter_hits (fold (\<lambda>f. apply_filter_with_cache f D) fs db))"
  by (induction fs arbitrary: db) (auto simp: distinct_apply_filter)

lemma apply_all_frame [simp]:
  "transactions (apply_all_category_filters_core b db) = transactions db"
  "category_filters (apply_all_category_filters_core b db) = category_filters db"
  "category_directs (apply_all_category_filters_core b db) = category_directs db"
  "categories (apply_all_category_filters_core b db) = categories db"
  "next_id (apply_all_category_filters_core b db) = next_id db"
  by (simp_all add: apply_all_category_filters_core_def Let_def)

text \<open>Whatever the table held, provided its rows belong to existing filters.\<close>

lemma apply_all_current:
  assumes keys: "distinct (map tx_id (transactions db))" "distinct (map cf_id (category_filters db))"
      "\<forall>f \<in> set (category_filters db). cf_id f < next_id db"
    and hits: "distinct (filter_hits db)" "hit_filter_id ` set (filter_hits db) \<subseteq> cf_id ` set (category_filters db)"
  shows "hits_current (apply_all_category_filters_core b db)"
proof -
  define db1 where "db1 = (if b then db\<lparr>filter_hits := []\<rparr> else db)"
  have db1: "transactions db1 = transactions db" "category_filters db1 = category_filters db"
      "category_directs db1 = category_directs db" "distinct (filter_hits db1)"
      "set (filter_hits db1) \<subseteq> set (filter_hits db)" "next_id db1 = next_id db"
    using hits by (simp_all add: db1_def)
  let ?D = "tx_with_directs db1"
  let ?db = "fold (\<lambda>f. apply_filter_with_cache f ?D) (category_filters db1) db1"
  have eq: "apply_all_category_filters_core b db = ?db"
    by (simp add: apply_all_category_filters_core_def db1_def Let_def)
  have "h \<in> set (filter_hits ?db) \<longleftrightarrow> h \<in> expected_hits ?db" for h
  proof -
    have "h \<in> set (filter_hits ?db) \<longleftrightarrow> (\<exists>f \<in> set (category_filters db1). hit_filter_id h = cf_id f \<and>
        hit_tx_id h \<in> set (matching_transactions db1 f ?D))"
      using hits_fold_apply [of "category_filters db1" h ?D db1] keys(2) hits(2) db1(2,5) by auto
    also have "\<dots> \<longleftrightarrow> h \<in> base_hits db1 \<and> hit_tx_id h \<notin> ?D"
      unfolding mem_base_hits set_matching [of db1 _ ?D] by auto
    also have "\<dots> \<longleftrightarrow> h \<in> expected_hits ?db"
      using base_hits_cong [of ?db db1] tx_with_directs_cong [of ?db db1] by (simp add: expected_hits_def)
    finally show ?thesis .
  qed
  moreover have "distinct (filter_hits ?db)" using distinct_fold_apply [OF db1(4)] keys(1) db1(1) by simp
  ultimately show ?thesis
    using keys db1 unfolding eq hits_current_def by auto
qed

lemma hits_of_filters: "hits_current db \<Longrightarrow> hit_filter_id ` set (filter_hits db) \<subseteq> cf_id ` set (category_filters db)"
  by (auto simp: hits_current_def expected_hits_def mem_base_hits)

lemma create_filter_current:
  assumes "hits_current db" "create_category_filter db data = Inr (f, db')"
  shows "hits_current db'"
proof -
  obtain g where db': "db' = apply_all_category_filters_core False
      (db\<lparr>next_id := Suc (next_id db), category_filters := category_filters db @ [g]\<rparr>)" "cf_id g = next_id db"
    using assms(2) by (auto simp: create_category_filter_def bind_res_eq_Inr fresh_id_def Let_def
        split: if_splits)
  show ?thesis
    unfolding db'(1)
    by (rule apply_all_current)
      (use assms(1) hits_of_filters [OF assms(1)] in \<open>auto simp: hits_current_def db'(2) less_Suc_eq\<close>)
qed

lemma update_filter_current:
  assumes "hits_current db" "update_category_filter db f data = Inr (g, db')"
  shows "hits_current db'"
proof -
  obtain w where db': "db' = apply_all_category_filters_core False
      (db\<lparr>category_filters := update_where (\<lambda>g. cf_id g = cf_id f) w (category_filters db)\<rparr>)"
    and w: "\<And>g. cf_id (w g) = cf_id g"
    using assms(2) by (auto simp: update_category_filter_def bind_res_eq_Inr Let_def split: if_splits)
  have ids: "map cf_id (update_where (\<lambda>g. cf_id g = cf_id f) w (category_filters db)) = map cf_id (category_filters db)"
    by (rule map_update_where_same) (rule w)
  then have "cf_id ` set (update_where (\<lambda>g. cf_id g = cf_id f) w (category_filters db)) =
      cf_id ` set (category_filters db)"
    by (metis list.set_map)
  then show ?thesis
    unfolding db' using assms(1) hits_of_filters [OF assms(1)]
    by (intro apply_all_current) (auto simp: hits_current_def ids set_update_where w)
qed

lemma delete_filter_current:
  assumes "hits_current db"
  shows "hits_current (delete_category_filter db f)"
proof -
  let ?db = "delete_category_filter db f"
  have "h \<in> base_hits ?db \<longleftrightarrow> h \<in> base_hits db \<and> hit_filter_id h \<noteq> cf_id f" for h
    by (auto simp: mem_base_hits delete_category_filter_def matching_transactions_def)
  moreover have "tx_with_directs ?db = tx_with_directs db"
    by (rule tx_with_directs_cong) (simp add: delete_category_filter_def)
  ultimately have "expected_hits ?db = {h \<in> expected_hits db. hit_filter_id h \<noteq> cf_id f}"
    by (auto simp: expected_hits_def)
  then show ?thesis
    using assms by (auto simp: hits_current_def delete_category_filter_def delete_where_def
        distinct_map_filter)
qed

section \<open>Changing the direct assignments of one transaction\<close>

lemma refresh_frame [simp]:
  "transactions (refresh_transaction_hits tx b db) = transactions db"
  "category_filters (refresh_transaction_hits tx b db) = category_filters db"
  "category_directs (refresh_transaction_hits tx b db) = category_directs db"
  "categories (refresh_transaction_hits tx b db) = categories db"
  "next_id (refresh_transaction_hits tx b db) = next_id db"
  by (simp_all add: refresh_transaction_hits_def Let_def)

lemma set_refresh_hits:
  "h \<in> set (filter_hits (refresh_transaction_hits tx b db)) \<longleftrightarrow>
     (if hit_tx_id h = tx_id tx then \<not> b \<and> h \<in> base_hits db else h \<in> set (filter_hits db))"
proof -
  have "h \<in> (\<lambda>f. \<lparr>hit_tx_id = tx_id tx, hit_filter_id = cf_id f\<rparr>) `
      {f \<in> set (category_filters db). tx_id tx \<in> set (matching_transactions db f {})} \<longleftrightarrow>
      hit_tx_id h = tx_id tx \<and> h \<in> base_hits db"
    unfolding mem_base_hits by (cases h) auto
  moreover have "matching_transactions (db\<lparr>filter_hits := hs\<rparr>) f {} = matching_transactions db f {}" for hs f
    by (rule matching_cong) simp
  ultimately show ?thesis by (auto simp: refresh_transaction_hits_def Let_def)
qed

lemma distinct_refresh_hits:
  assumes "distinct (filter_hits db)" "distinct (map cf_id (category_filters db))"
  shows "distinct (filter_hits (refresh_transaction_hits tx b db))"
proof -
  let ?F = "filter (\<lambda>f. tx_id tx \<in> set (matching_transactions db f {})) (category_filters db)"
  have "matching_transactions (db\<lparr>filter_hits := hs\<rparr>) f {} = matching_transactions db f {}" for hs f
    by (rule matching_cong) simp
  moreover have "distinct (map (\<lambda>f. \<lparr>hit_tx_id = tx_id tx, hit_filter_id = cf_id f\<rparr>) ?F)"
    using assms(2) by (auto simp: distinct_map inj_on_def)
  ultimately show ?thesis
    using assms(1) by (auto simp: refresh_transaction_hits_def Let_def delete_where_def)
qed

lemma refresh_current:
  assumes cur: "hits_current db"
    and same: "transactions db1 = transactions db" "category_filters db1 = category_filters db"
      "filter_hits db1 = filter_hits db" "next_id db1 = next_id db"
    and other: "\<And>i. i \<noteq> tx_id tx \<Longrightarrow> i \<in> tx_with_directs db1 \<longleftrightarrow> i \<in> tx_with_directs db"
    and own: "b \<longleftrightarrow> tx_id tx \<in> tx_with_directs db1"
  shows "hits_current (refresh_transaction_hits tx b db1)"
proof -
  let ?db = "refresh_transaction_hits tx b db1"
  have base: "base_hits ?db = base_hits db" "base_hits db1 = base_hits db"
    using same by (intro base_hits_cong; simp)+
  have dirs: "tx_with_directs ?db = tx_with_directs db1" by (rule tx_with_directs_cong) simp
  have expected: "expected_hits ?db = {h \<in> base_hits db. hit_tx_id h \<notin> tx_with_directs db1}"
    by (simp only: expected_hits_def base(1) dirs)
  have hits: "set (filter_hits db) = {h \<in> base_hits db. hit_tx_id h \<notin> tx_with_directs db}"
    using cur by (simp only: hits_current_def expected_hits_def)
  have "h \<in> set (filter_hits ?db) \<longleftrightarrow> h \<in> expected_hits ?db" for h
    unfolding set_refresh_hits expected base(2) same(3) hits
    using other [of "hit_tx_id h"] own by auto
  moreover have "distinct (filter_hits ?db)"
    using distinct_refresh_hits [of db1] cur same by (simp add: hits_current_def)
  ultimately show ?thesis using cur same by (auto simp: hits_current_def)
qed

lemma deactivate_frame [simp]:
  "transactions (deactivate_directs tx now db) = transactions db"
  "category_filters (deactivate_directs tx now db) = category_filters db"
  "filter_hits (deactivate_directs tx now db) = filter_hits db"
  "categories (deactivate_directs tx now db) = categories db"
  "next_id (deactivate_directs tx now db) = next_id db"
  by (simp_all add: deactivate_directs_def)

definition active_directs :: "p4x_db \<Rightarrow> p4x_category_direct list" where
  "active_directs db = filter direct_active (category_directs db)"

lemma tx_with_directs_active: "tx_with_directs db = cd_tx_id ` set (active_directs db)"
  by (simp add: tx_with_directs_def active_directs_def)

lemma active_after_deactivate:
  "active_directs (deactivate_directs tx now db) = filter (\<lambda>d. cd_tx_id d \<noteq> tx_id tx) (active_directs db)"
proof -
  have "filter direct_active (update_where (\<lambda>d. cd_tx_id d = i \<and> direct_active d)
      (\<lambda>d. d\<lparr>cd_deleted_at := Some now\<rparr>) ds) = filter (\<lambda>d. cd_tx_id d \<noteq> i) (filter direct_active ds)"
    for i ds
    by (induction ds) (auto simp: direct_active_def)
  then show ?thesis by (simp add: active_directs_def deactivate_directs_def)
qed

lemma insert_direct_Inr:
  assumes "insert_direct i sv db = Inr db'"
  shows "\<exists>c x a. slot_category_id (fst sv) = Some c \<and> snd sv = Finite x \<and> to_numeric x = Inr a \<and>
    get_by cat_id (categories db) c \<noteq> None \<and>
    db' = db\<lparr>category_directs := category_directs db @
           [\<lparr>cd_tx_id = i, cd_category_id = c, cd_amount = a, cd_deleted_at = None\<rparr>]\<rparr>"
  using assms by (auto simp: insert_direct_def bind_res_eq_Inr split: option.splits dec_value.splits if_splits)

text \<open>The rows a list of slots stands for.\<close>

definition slot_rows :: "uuid \<Rightarrow> (slot \<times> dec_value) list \<Rightarrow> p4x_category_direct list" where
  "slot_rows i svs = map (\<lambda>sv. \<lparr>cd_tx_id = i, cd_category_id = the (slot_category_id (fst sv)),
     cd_amount = (case snd sv of Finite x \<Rightarrow> of_int (round_half_up (x * 100)) / 100 | _ \<Rightarrow> 0),
     cd_deleted_at = None\<rparr>) svs"

lemma insert_directs_Inr:
  "fold_res (insert_direct i) svs db = Inr db' \<Longrightarrow>
   db' = db\<lparr>category_directs := category_directs db @ slot_rows i svs\<rparr>"
proof (induction svs arbitrary: db)
  case Nil
  then show ?case by (simp add: slot_rows_def)
next
  case (Cons sv svs)
  then obtain db1 where db1: "insert_direct i sv db = Inr db1" "fold_res (insert_direct i) svs db1 = Inr db'"
    by (auto simp: bind_res_eq_Inr)
  obtain c x a where "slot_category_id (fst sv) = Some c" "snd sv = Finite x" "to_numeric x = Inr a"
      "db1 = db\<lparr>category_directs := category_directs db @
           [\<lparr>cd_tx_id = i, cd_category_id = c, cd_amount = a, cd_deleted_at = None\<rparr>]\<rparr>"
    using insert_direct_Inr [OF db1(1)] by blast
  then show ?case
    using Cons.IH [OF db1(2)] by (auto simp: slot_rows_def to_numeric_def Let_def split: if_splits)
qed

lemma active_slot_rows [simp]: "filter direct_active (slot_rows i svs) = slot_rows i svs"
  by (simp add: slot_rows_def direct_active_def filter_map comp_def)

definition valid_slots :: "slot list \<Rightarrow> slot list" where
  "valid_slots slots = filter (\<lambda>s. slot_category_id s \<noteq> None \<and> truthy_amount (slot_amount s)) slots"

text \<open>A successful assignment replaces the active rows of the transaction and nothing else.\<close>

lemma set_direct_Inr:
  assumes "set_category_direct_core db now tx slots = Inr (db', None)"
  shows "\<exists>values. map_res (\<lambda>s. decimal_of_amount (slot_amount s)) (valid_slots slots) = Inr values \<and>
    (valid_slots slots \<noteq> [] \<longrightarrow> sum_of_values values = Inr (Finite (amount tx))) \<and>
    db' = refresh_transaction_hits tx (valid_slots slots \<noteq> [])
      (deactivate_directs tx now db\<lparr>category_directs := category_directs (deactivate_directs tx now db) @
         slot_rows (tx_id tx) (zip (valid_slots slots) values)\<rparr>)"
  using assms unfolding set_category_direct_core_def Let_def valid_slots_def [symmetric]
  by (auto simp: bind_res_eq_Inr dest: insert_directs_Inr split: if_splits)

lemma set_direct_current:
  assumes "hits_current db" "set_category_direct_core db now tx slots = Inr (db', msg)"
  shows "hits_current db'"
proof (cases msg)
  case (Some m)
  then have "db' = db" using assms(2)
    by (auto simp: set_category_direct_core_def Let_def bind_res_eq_Inr split: if_splits)
  then show ?thesis using assms(1) by simp
next
  case None
  obtain "values" where v: "map_res (\<lambda>s. decimal_of_amount (slot_amount s)) (valid_slots slots) = Inr values"
    and db': "db' = refresh_transaction_hits tx (valid_slots slots \<noteq> [])
      (deactivate_directs tx now db\<lparr>category_directs := category_directs (deactivate_directs tx now db) @
         slot_rows (tx_id tx) (zip (valid_slots slots) values)\<rparr>)" (is "_ = refresh_transaction_hits tx _ ?db1")
    using set_direct_Inr assms(2) None by blast
  have len: "length values = length (valid_slots slots)" using map_res_length [OF v] .
  have "active_directs ?db1 = filter (\<lambda>d. cd_tx_id d \<noteq> tx_id tx) (active_directs db) @
      slot_rows (tx_id tx) (zip (valid_slots slots) values)"
    using active_after_deactivate [of tx now db] by (simp add: active_directs_def)
  then have "tx_with_directs ?db1 = (tx_with_directs db - {tx_id tx}) \<union>
      (if valid_slots slots = [] then {} else {tx_id tx})"
    using len by (cases "valid_slots slots"; cases "values")
      (auto simp: tx_with_directs_active slot_rows_def image_iff)
  then show ?thesis
    unfolding db' using assms(1) by (intro refresh_current) auto
qed

lemma unset_direct_current:
  assumes "hits_current db"
  shows "hits_current (unset_category_direct db now tx)"
  unfolding unset_category_direct_def
  by (rule refresh_current [OF assms])
    (auto simp: tx_with_directs_active active_after_deactivate image_iff)

end
