(* ===== verification/P4x_Category_Properties.thy ===== *)
theory P4x_Category_Properties
  imports P4x_Hits P4x_Account_Properties
begin

text \<open>
  What the category service promises: the stored hits follow every write, turning a filter into
  direct assignments keeps the category of every transaction, an assignment is complete, a
  filter's text is matched literally, and the categories offered for an account are the ones
  with transactions.
\<close>

section \<open>A filter and its transaction to evaluate on\<close>

definition donation_filter :: p4x_category_filter where
  "donation_filter = \<lparr>cf_id = 30, cf_name = ''spenden'', cf_account_id = 2, cf_iban = None,
     min_amount = Some 1, max_amount = None, cf_subject_mode = CONTAINS, cf_subject = Some ''100%'',
     cf_category_id = 20\<rparr>"

definition cat_db :: p4x_db where
  "cat_db = bank_db\<lparr>
     transactions := [(bank_tx 6 (Date 2024 2 1) 30)\<lparr>subject := ''SPENDE 100%''\<rparr>],
     partners := [\<lparr>partner_pk = 3, partner_iban = Some ''AT1'', partner_member_id = Some 1,
       partner_contact_id = None, partner_account_id = None, partner_special_id = None,
       partner_deleted_at = None\<rparr>],
     categories := [\<lparr>cat_id = 20, cat_name = ''spende'', cat_label = ''Spende'',
       background_color = ''#fff'', text_color = ''#000'', cat_protected = False\<rparr>],
     category_filters := [donation_filter],
     filter_hits := [\<lparr>hit_tx_id = 6, hit_filter_id = 30\<rparr>]\<rparr>"

section \<open>The category of a transaction\<close>

lemma mem_image_Collect: "i \<in> k ` {h \<in> H. P h} \<longleftrightarrow> (\<exists>h \<in> H. k h = i \<and> P h)"
  by auto

lemma mem_category_tx_ids:
  "i \<in> category_tx_ids db (Some c) \<longleftrightarrow>
     (\<exists>d \<in> set (active_directs db). cd_tx_id d = i \<and> cd_category_id d = c) \<or>
     (i \<notin> tx_with_directs db \<and> (\<exists>h \<in> set (filter_hits db). hit_tx_id h = i \<and>
        (\<exists>g \<in> set (category_filters db). cf_category_id g = c \<and> cf_id g = hit_filter_id h)))"
proof -
  have "i \<in> direct_tx_ids db (Some c) \<longleftrightarrow> (\<exists>d \<in> set (active_directs db). cd_tx_id d = i \<and> cd_category_id d = c)"
    by (auto simp: direct_tx_ids_def active_directs_def)
  moreover have "i \<in> filter_tx_ids db (Some c) \<longleftrightarrow> (\<exists>h \<in> set (filter_hits db). hit_tx_id h = i \<and>
        (\<exists>g \<in> set (category_filters db). cf_category_id g = c \<and> cf_id g = hit_filter_id h))"
  proof -
    have "filter_tx_ids db (Some c) = hit_tx_id ` {h \<in> set (filter_hits db). hit_filter_id h \<in>
        cf_id ` {g \<in> set (category_filters db). cf_category_id g = c}}"
      by (auto simp: filter_tx_ids_def Let_def filter_empty_conv)
    then show ?thesis by (simp only: mem_image_Collect) blast
  qed
  ultimately show ?thesis by (simp add: category_tx_ids_def) blast
qed

lemma set_direct_committed:
  "set_category_direct db now tx slots = Inr (db', msg) \<Longrightarrow> set_category_direct_core db now tx slots = Inr (db', msg)"
  by (auto simp: set_category_direct_def bind_res_eq_Inr split: option.split_asm if_split_asm)

lemma single_slot_step:
  assumes "set_category_direct_core db now tx
      [\<lparr>slot_category_id = Some c, slot_amount = NumAmount (amount tx)\<rparr>] = Inr (db1, msg)"
    and "amount tx \<noteq> 0"
  shows "active_directs db1 = filter (\<lambda>d. cd_tx_id d \<noteq> tx_id tx) (active_directs db) @
      slot_rows (tx_id tx) [(\<lparr>slot_category_id = Some c, slot_amount = NumAmount (amount tx)\<rparr>, Finite (amount tx))]"
    and "transactions db1 = transactions db" "category_filters db1 = category_filters db"
    and "h \<in> set (filter_hits db1) \<longleftrightarrow> h \<in> set (filter_hits db) \<and> hit_tx_id h \<noteq> tx_id tx"
proof -
  let ?s = "\<lparr>slot_category_id = Some c, slot_amount = NumAmount (amount tx)\<rparr>"
  have valid: "valid_slots [?s] = [?s]" using assms(2) by (simp add: valid_slots_def truthy_amount_def)
  have "msg = None"
    using assms by (auto simp: set_category_direct_core_def Let_def truthy_amount_def decimal_of_amount_def
        sum_of_values_def bind_res_eq_Inr split: if_splits)
  then obtain "values" where v: "map_res (\<lambda>s. decimal_of_amount (slot_amount s)) [?s] = Inr values"
    and db1: "db1 = refresh_transaction_hits tx True
      (deactivate_directs tx now db\<lparr>category_directs := category_directs (deactivate_directs tx now db) @
         slot_rows (tx_id tx) (zip [?s] values)\<rparr>)"
    using set_direct_Inr [of db now tx "[?s]" db1] assms(1) unfolding valid by auto
  then have "values = [Finite (amount tx)]" by (simp add: decimal_of_amount_def)
  with db1 show "active_directs db1 = filter (\<lambda>d. cd_tx_id d \<noteq> tx_id tx) (active_directs db) @
      slot_rows (tx_id tx) [(?s, Finite (amount tx))]"
      and "transactions db1 = transactions db" "category_filters db1 = category_filters db"
      and "h \<in> set (filter_hits db1) \<longleftrightarrow> h \<in> set (filter_hits db) \<and> hit_tx_id h \<noteq> tx_id tx"
    using active_after_deactivate [of tx now db] by (simp_all add: active_directs_def set_refresh_hits)
qed

definition convert :: "instant \<Rightarrow> uuid \<Rightarrow> p4x_transaction \<Rightarrow> p4x_db \<Rightarrow> exc + p4x_db" where
  "convert now c tx db = bind_res (set_category_direct_core db now tx
      [\<lparr>slot_category_id = Some c, slot_amount = NumAmount (amount tx)\<rparr>]) (\<lambda>r. Inr (fst r))"

text \<open>The loop of \<open>filter_to_direct\<close>: one active row of the category for each transaction.\<close>

lemma convert_all:
  assumes "fold_res (convert now c) txs db = Inr db'" "\<forall>tx \<in> set txs. amount tx \<noteq> 0"
  shows "transactions db' = transactions db \<and> category_filters db' = category_filters db \<and>
    (\<forall>h. h \<in> set (filter_hits db') \<longleftrightarrow> h \<in> set (filter_hits db) \<and> hit_tx_id h \<notin> tx_id ` set txs) \<and>
    (\<forall>i k. (\<exists>d \<in> set (active_directs db'). cd_tx_id d = i \<and> cd_category_id d = k) \<longleftrightarrow>
       (if i \<in> tx_id ` set txs then k = c
        else \<exists>d \<in> set (active_directs db). cd_tx_id d = i \<and> cd_category_id d = k))"
  using assms
proof (induction txs arbitrary: db)
  case Nil
  then show ?case by simp
next
  case (Cons tx txs)
  obtain db1 where c: "convert now c tx db = Inr db1" and rest: "fold_res (convert now c) txs db1 = Inr db'"
    using Cons.prems(1) by (auto simp: bind_res_eq_Inr)
  from c obtain msg where step: "set_category_direct_core db now tx
      [\<lparr>slot_category_id = Some c, slot_amount = NumAmount (amount tx)\<rparr>] = Inr (db1, msg)"
    by (auto simp: convert_def bind_res_eq_Inr)
  have nz: "amount tx \<noteq> 0" "\<forall>t \<in> set txs. amount t \<noteq> 0" using Cons.prems(2) by auto
  note one = single_slot_step [OF step nz(1)] and IH = Cons.IH [OF rest nz(2)]
  have "(\<exists>d \<in> set (active_directs db1). cd_tx_id d = i \<and> cd_category_id d = k) \<longleftrightarrow>
      (if i = tx_id tx then k = c else \<exists>d \<in> set (active_directs db). cd_tx_id d = i \<and> cd_category_id d = k)"
    for i k
    unfolding one(1) by (auto simp: slot_rows_def)
  with IH show ?case by (auto simp: one(2-4))
qed

lemma convert_all_current:
  "fold_res (convert now c) txs db = Inr db' \<Longrightarrow> hits_current db \<Longrightarrow> hits_current db'"
  by (rule fold_res_invariant [where P = hits_current])
    (auto simp: convert_def bind_res_eq_Inr dest: set_direct_current)

lemma filter_to_direct_Inr:
  assumes "filter_to_direct db now f = Inr (db', None)"
  shows "snd (get_warnings_category db None) = 0"
    and "\<exists>db1. fold_res (convert now (cf_category_id f)) (get_filter_hits db f) db = Inr db1 \<and>
      db' = db1\<lparr>filter_hits := delete_where (\<lambda>h. hit_filter_id h = cf_id f) (filter_hits db1)\<rparr>"
  using assms by (auto simp: filter_to_direct_def bind_res_eq_Inr convert_def [abs_def] split: if_splits)

lemma hit_count_one:
  assumes "hit_count db i = 1" "h \<in> set (filter_hits db)" "h' \<in> set (filter_hits db)"
    and "hit_tx_id h = i" "hit_tx_id h' = i"
  shows "h = h'"
proof -
  obtain x where "filter (\<lambda>h. hit_tx_id h = i) (filter_hits db) = [x]"
    using assms(1) by (auto simp: hit_count_def length_Suc_conv)
  then have "set (filter (\<lambda>h. hit_tx_id h = i) (filter_hits db)) = {x}" by simp
  moreover have "h \<in> set (filter (\<lambda>h. hit_tx_id h = i) (filter_hits db))"
      "h' \<in> set (filter (\<lambda>h. hit_tx_id h = i) (filter_hits db))" using assms(2-5) by simp_all
  ultimately show ?thesis by simp
qed

lemma no_category_warning:
  assumes "snd (get_warnings_category db None) = 0" "tx \<in> set (transactions db)" "tx_active tx"
    and "tx_id tx \<notin> tx_with_directs db"
  shows "hit_count db (tx_id tx) = 1"
  using assms by (auto simp: get_warnings_category_def Let_def filter_empty_conv)

lemma hit_eq: "h = \<lparr>hit_tx_id = i, hit_filter_id = k\<rparr> \<longleftrightarrow> hit_tx_id h = i \<and> hit_filter_id h = k"
  by (cases h) auto

lemma mem_filter_hits:
  "tx \<in> set (get_filter_hits db f) \<longleftrightarrow> tx \<in> set (transactions db) \<and> tx_active tx \<and>
     tx_id tx \<notin> tx_with_directs db \<and> \<lparr>hit_tx_id = tx_id tx, hit_filter_id = cf_id f\<rparr> \<in> set (filter_hits db)"
proof -
  have hit: "(\<exists>h \<in> set (filter_hits db). hit_filter_id h = cf_id f \<and> hit_tx_id h = i) \<longleftrightarrow>
      \<lparr>hit_tx_id = i, hit_filter_id = cf_id f\<rparr> \<in> set (filter_hits db)" for i
  proof
    assume "\<exists>h \<in> set (filter_hits db). hit_filter_id h = cf_id f \<and> hit_tx_id h = i"
    then obtain h where h: "h \<in> set (filter_hits db)" "hit_filter_id h = cf_id f" "hit_tx_id h = i" by blast
    then have "h = \<lparr>hit_tx_id = i, hit_filter_id = cf_id f\<rparr>" by (simp add: hit_eq)
    then show "\<lparr>hit_tx_id = i, hit_filter_id = cf_id f\<rparr> \<in> set (filter_hits db)" using h(1) by (simp only:)
  next
    assume "\<lparr>hit_tx_id = i, hit_filter_id = cf_id f\<rparr> \<in> set (filter_hits db)"
    then show "\<exists>h \<in> set (filter_hits db). hit_filter_id h = cf_id f \<and> hit_tx_id h = i"
      by (rule bexI [rotated]) simp
  qed
  have "get_filter_hits db f = filter (\<lambda>tx. tx_id tx \<in> set (filter (\<lambda>i. i \<notin> tx_with_directs db)
      (map hit_tx_id (filter (\<lambda>h. hit_filter_id h = cf_id f) (filter_hits db)))) \<and> tx_active tx) (transactions db)"
    unfolding get_filter_hits_def Let_def by (simp del: filter_filter set_filter)
  then show ?thesis
    unfolding hit [symmetric] by (simp only: set_filter set_map mem_Collect_eq mem_image_Collect) blast
qed

lemma directs_after_convert:
  assumes "\<forall>i k. (\<exists>d \<in> set (active_directs db1). cd_tx_id d = i \<and> cd_category_id d = k) \<longleftrightarrow>
       (if i \<in> I then k = c else \<exists>d \<in> set (active_directs db). cd_tx_id d = i \<and> cd_category_id d = k)"
  shows "i \<in> tx_with_directs db1 \<longleftrightarrow> i \<in> I \<or> i \<in> tx_with_directs db"
proof -
  have iff: "i \<in> tx_with_directs db1 \<longleftrightarrow> (\<exists>k. \<exists>d \<in> set (active_directs db1). cd_tx_id d = i \<and> cd_category_id d = k)"
    for db1 by (auto simp: tx_with_directs_active)
  show ?thesis unfolding iff assms [rule_format] by auto
qed

lemma convert_filter:
  assumes cur: "hits_current db" and f: "f \<in> set (category_filters db)"
    and nz: "\<forall>tx \<in> set (transactions db). tx_active tx \<longrightarrow> amount tx \<noteq> 0"
    and res: "filter_to_direct db now f = Inr (db', None)"
  shows "(\<forall>tx \<in> set (transactions db). tx_active tx \<longrightarrow>
      (\<forall>c. tx_id tx \<in> category_tx_ids db' (Some c) \<longleftrightarrow> tx_id tx \<in> category_tx_ids db (Some c))) \<and>
    get_filter_hits db' f = [] \<and> hits_current db'"
proof -
  note warn = filter_to_direct_Inr(1) [OF res]
  obtain db1 where loop: "fold_res (convert now (cf_category_id f)) (get_filter_hits db f) db = Inr db1"
    and db': "db' = db1\<lparr>filter_hits := delete_where (\<lambda>h. hit_filter_id h = cf_id f) (filter_hits db1)\<rparr>"
    using filter_to_direct_Inr(2) [OF res] by blast
  define I where "I = tx_id ` set (get_filter_hits db f)"
  have nz': "\<forall>tx \<in> set (get_filter_hits db f). amount tx \<noteq> 0" using nz by (simp add: mem_filter_hits)
  have frame: "transactions db1 = transactions db" "category_filters db1 = category_filters db"
    and hits1: "h \<in> set (filter_hits db1) \<longleftrightarrow> h \<in> set (filter_hits db) \<and> hit_tx_id h \<notin> I"
    and dirs1: "(\<exists>d \<in> set (active_directs db1). cd_tx_id d = i \<and> cd_category_id d = k) \<longleftrightarrow>
       (if i \<in> I then k = cf_category_id f
        else \<exists>d \<in> set (active_directs db). cd_tx_id d = i \<and> cd_category_id d = k)" for h i k
    using convert_all [OF loop nz'] unfolding I_def by blast+
  have D1: "i \<in> tx_with_directs db1 \<longleftrightarrow> i \<in> I \<or> i \<in> tx_with_directs db" for i
    by (rule directs_after_convert) (use dirs1 in blast)
  have I: "i \<notin> tx_with_directs db" "\<lparr>hit_tx_id = i, hit_filter_id = cf_id f\<rparr> \<in> set (filter_hits db)"
      "hit_count db i = 1" if "i \<in> I" for i
    using that no_category_warning [OF warn] by (auto simp: I_def mem_filter_hits)
  have none_left: "hit_filter_id h \<noteq> cf_id f" if "h \<in> set (filter_hits db1)" for h
  proof
    assume k: "hit_filter_id h = cf_id f"
    have h: "h \<in> set (filter_hits db)" "hit_tx_id h \<notin> I" using hits1 that by auto
    then obtain tx where "tx \<in> set (transactions db)" "tx_active tx" "tx_id tx = hit_tx_id h"
        "hit_tx_id h \<notin> tx_with_directs db"
      using cur by (auto simp: hits_current_def expected_hits_def mem_base_hits matching_transactions_def)
    then have "tx \<in> set (get_filter_hits db f)"
      using h(1) k by (cases h) (auto simp: mem_filter_hits)
    then have "tx_id tx \<in> I" unfolding I_def by (rule imageI)
    then show False using h(2) \<open>tx_id tx = hit_tx_id h\<close> by simp
  qed
  have same: "filter_hits db' = filter_hits db1"
    unfolding db' using none_left by (simp add: delete_where_id)
  have eq: "db' = db1" unfolding db' same [unfolded db', simplified] by simp
  have "hits_current db'" using convert_all_current [OF loop cur] by (simp only: eq)
  moreover have "get_filter_hits db' f = []"
    using none_left mem_filter_hits [of _ db' f] unfolding eq
    by (metis empty_set ex_in_conv p4x_filter_hit.select_convs(2) set_empty)
  moreover have "i \<in> category_tx_ids db' (Some c) \<longleftrightarrow> i \<in> category_tx_ids db (Some c)" for i c
  proof (cases "i \<in> I")
    case True
    have "i \<in> category_tx_ids db (Some c) \<longleftrightarrow> c = cf_category_id f"
    proof -
      have only: "h = \<lparr>hit_tx_id = i, hit_filter_id = cf_id f\<rparr>" if "h \<in> set (filter_hits db)" "hit_tx_id h = i" for h
        using hit_count_one [OF I(3) [OF True] that(1) I(2) [OF True]] that(2) by simp
      have "g = f" if "g \<in> set (category_filters db)" "cf_id g = cf_id f" for g
        using cur f that by (auto simp: hits_current_def distinct_map inj_on_def)
      then have "(\<exists>h \<in> set (filter_hits db). hit_tx_id h = i \<and>
          (\<exists>g \<in> set (category_filters db). cf_category_id g = c \<and> cf_id g = hit_filter_id h)) \<longleftrightarrow> c = cf_category_id f"
        using I(2) [OF True] only f by (metis p4x_filter_hit.select_convs)
      moreover have "\<not> (\<exists>d \<in> set (active_directs db). cd_tx_id d = i \<and> cd_category_id d = c)"
        using I(1) [OF True] by (auto simp: tx_with_directs_active)
      ultimately show ?thesis using I(1) [OF True] unfolding mem_category_tx_ids by blast
    qed
    moreover have "i \<in> category_tx_ids db' (Some c) \<longleftrightarrow> c = cf_category_id f"
      using True D1 dirs1 [of i c] unfolding eq mem_category_tx_ids by auto
    ultimately show ?thesis by simp
  next
    case False
    then show ?thesis
      using D1 [of i] dirs1 [of i c] hits1 unfolding eq mem_category_tx_ids frame by auto
  qed
  ultimately show ?thesis by blast
qed

section \<open>Categories of an account, and deleting a category\<close>

lemma account_categories_listing:
  assumes "hits_current db"
  shows "get_account_categories db account =
    filter (\<lambda>c. 0 < snd (get_transactions_by_category db account (cat_id c) page)) (categories db)"
proof -
  define T where "T = tx_id ` set (account_txs db account)"
  have no_direct: "hit_tx_id h \<notin> tx_with_directs db" if "h \<in> set (filter_hits db)" for h
    using assms that by (auto simp: hits_current_def expected_hits_def)
  have listed: "0 < snd (get_transactions_by_category db account k page) \<longleftrightarrow> (\<exists>i \<in> T. i \<in> category_tx_ids db (Some k))"
    for k
    by (auto simp: get_transactions_by_category_def listing_def Let_def T_def filter_empty_conv)
  define E where "E k \<longleftrightarrow> (\<exists>d \<in> set (active_directs db). cd_tx_id d \<in> T \<and> cd_category_id d = k) \<or>
      (\<exists>h \<in> set (filter_hits db). hit_tx_id h \<in> T \<and>
        (\<exists>g \<in> set (category_filters db). cf_category_id g = k \<and> cf_id g = hit_filter_id h))" for k
  have E: "0 < snd (get_transactions_by_category db account k page) \<longleftrightarrow> E k" for k
    unfolding listed mem_category_tx_ids E_def using no_direct by blast
  define F where "F = hit_filter_id ` set (filter (\<lambda>h. hit_tx_id h \<in> T) (filter_hits db))"
  define K where "K = cd_category_id ` set (filter (\<lambda>d. cd_tx_id d \<in> T \<and> direct_active d) (category_directs db)) \<union>
      (if F = {} then {} else cf_category_id ` set (filter (\<lambda>f. cf_id f \<in> F) (category_filters db)))"
  have "k \<in> K \<longleftrightarrow> E k" for k
  proof -
    have "k \<in> cf_category_id ` set (filter (\<lambda>f. cf_id f \<in> F) (category_filters db)) \<longleftrightarrow>
        (\<exists>h \<in> set (filter_hits db). hit_tx_id h \<in> T \<and>
        (\<exists>g \<in> set (category_filters db). cf_category_id g = k \<and> cf_id g = hit_filter_id h))"
      unfolding F_def by auto
    moreover have "k \<in> cd_category_id ` set (filter (\<lambda>d. cd_tx_id d \<in> T \<and> direct_active d) (category_directs db)) \<longleftrightarrow>
        (\<exists>d \<in> set (active_directs db). cd_tx_id d \<in> T \<and> cd_category_id d = k)"
      by (auto simp: active_directs_def)
    ultimately show ?thesis unfolding K_def E_def by auto
  qed
  moreover have "get_account_categories db account = filter (\<lambda>c. cat_id c \<in> K) (categories db)"
  proof (cases "map tx_id (account_txs db account) = []")
    case True
    then have "K = {}" by (simp add: K_def F_def T_def)
    then show ?thesis using True by (simp add: get_account_categories_def)
  next
    case False
    have T: "set (map tx_id (account_txs db account)) = T" by (simp add: T_def)
    show ?thesis
      unfolding get_account_categories_def Let_def if_not_P [OF False] T F_def [symmetric] K_def [symmetric]
      by simp
  qed
  ultimately show ?thesis by (simp add: E)
qed

lemma assigned_category_row:
  assumes "set_category_direct db now tx slots = Inr (db1, None)"
    and "s \<in> set (valid_slots slots)" and "slot_category_id s = Some (cat_id c)"
  shows "\<forall>db2. delete_category (unset_category_direct db1 now' tx) c \<noteq> Inr (db2, None)"
proof -
  obtain "values" where v: "map_res (\<lambda>s. decimal_of_amount (slot_amount s)) (valid_slots slots) = Inr values"
    and db1: "db1 = refresh_transaction_hits tx (valid_slots slots \<noteq> [])
      (deactivate_directs tx now db\<lparr>category_directs := category_directs (deactivate_directs tx now db) @
         slot_rows (tx_id tx) (zip (valid_slots slots) values)\<rparr>)"
    using set_direct_Inr [OF set_direct_committed [OF assms(1)]] by auto
  obtain i where i: "i < length (valid_slots slots)" "valid_slots slots ! i = s"
    using assms(2) by (metis in_set_conv_nth)
  have "(s, values ! i) \<in> set (zip (valid_slots slots) values)"
    using i map_res_length [OF v] by (metis in_set_zip fst_conv snd_conv)
  then have "\<exists>d \<in> set (category_directs db1). cd_category_id d = cat_id c"
    using assms(3) by (force simp: db1 slot_rows_def)
  moreover have "map cd_category_id (category_directs (unset_category_direct db1 now' tx)) =
      map cd_category_id (category_directs db1)"
    by (simp add: unset_category_direct_def deactivate_directs_def map_update_where_same)
  ultimately have "\<exists>d \<in> set (category_directs (unset_category_direct db1 now' tx)). cd_category_id d = cat_id c"
    by (metis (no_types, lifting) image_iff list.set_map)
  then show ?thesis by (auto simp: delete_category_def split: prod.splits)
qed

text \<open>A transaction of one Euro and three slots of a third each.\<close>

definition finer_db :: p4x_db where
  "finer_db = cat_db\<lparr>transactions := [bank_tx 6 (Date 2024 2 1) 1], categories := categories cat_db @
     [\<lparr>cat_id = 21, cat_name = ''b'', cat_label = [], background_color = [], text_color = [], cat_protected = False\<rparr>,
      \<lparr>cat_id = 22, cat_name = ''c'', cat_label = [], background_color = [], text_color = [], cat_protected = False\<rparr>]\<rparr>"

definition finer_slots :: "slot list" where
  "finer_slots = [\<lparr>slot_category_id = Some 20, slot_amount = NumAmount (334 / 1000)\<rparr>,
     \<lparr>slot_category_id = Some 21, slot_amount = NumAmount (333 / 1000)\<rparr>,
     \<lparr>slot_category_id = Some 22, slot_amount = NumAmount (333 / 1000)\<rparr>]"

section \<open>The promises\<close>

text \<open>C25: a successful \<open>filter_to_direct\<close> changes nothing about which category a transaction is in: for
  every active transaction and every category it belongs to the category afterwards exactly if
  it did before. The converted filter has no hits left, and the stored hits are current. The
  hypotheses are that the filter is a row of the table and that no active transaction has the
  amount zero, which the import skips.\<close>
theorem filter_to_direct_keeps_categories:
  assumes "hits_current db" and "f \<in> set (category_filters db)"
    and "\<forall>tx \<in> set (transactions db). tx_active tx \<longrightarrow> amount tx \<noteq> 0"
    and "filter_to_direct db now f = Inr (db', None)"
  shows "(\<forall>tx \<in> set (transactions db). tx_active tx \<longrightarrow>
      (\<forall>c. tx_id tx \<in> category_tx_ids db' (Some c) \<longleftrightarrow> tx_id tx \<in> category_tx_ids db (Some c))) \<and>
    get_filter_hits db' f = [] \<and> hits_current db'"
  using assms by (rule convert_filter)

lemma cat_db_current: "hits_current cat_db"
proof -
  have "set (matching_transactions cat_db donation_filter {}) = {6}" by code_simp
  moreover have "category_filters cat_db = [donation_filter]" "cf_id donation_filter = 30"
      "tx_with_directs cat_db = {}" "filter_hits cat_db = [\<lparr>hit_tx_id = 6, hit_filter_id = 30\<rparr>]"
    by (simp_all add: cat_db_def bank_db_def donation_filter_def tx_with_directs_def)
  ultimately have "expected_hits cat_db = set (filter_hits cat_db)"
    by (simp add: expected_hits_def base_hits_def)
  then show ?thesis
    by (simp add: hits_current_def cat_db_def bank_db_def donation_filter_def bank_tx_def)
qed

lemma filter_to_direct_keeps_categories_witness:
  "\<exists>db'. filter_to_direct cat_db 5 donation_filter = Inr (db', None) \<and>
     6 \<in> category_tx_ids db' (Some 20) \<and> get_filter_hits db' donation_filter = []"
proof -
  have f: "donation_filter \<in> set (category_filters cat_db)" by (simp add: cat_db_def)
  have nz: "\<forall>tx \<in> set (transactions cat_db). tx_active tx \<longrightarrow> amount tx \<noteq> 0"
    by (simp add: cat_db_def bank_tx_def)
  have "(case filter_to_direct cat_db 5 donation_filter of Inr (_, None) \<Rightarrow> True | _ \<Rightarrow> False)" by code_simp
  then obtain db' where db': "filter_to_direct cat_db 5 donation_filter = Inr (db', None)"
    by (auto split: sum.splits option.splits)
  have "6 \<in> category_tx_ids cat_db (Some 20)" by code_simp
  moreover obtain tx where "tx \<in> set (transactions cat_db)" "tx_active tx" "tx_id tx = 6"
    by (auto simp: cat_db_def bank_tx_def tx_active_def)
  ultimately show ?thesis
    using filter_to_direct_keeps_categories [OF cat_db_current f nz db'] db' by auto
qed

text \<open>The stored hits follow every write: creating, changing and deleting a category filter,
  setting, unsetting and refusing direct assignments all leave the table of hits current.\<close>
theorem hits_follow_writes:
  assumes "hits_current db"
  shows "(\<forall>f db'. create_category_filter db data = Inr (f, db') \<longrightarrow> hits_current db') \<and>
    (\<forall>g db'. update_category_filter db f data = Inr (g, db') \<longrightarrow> hits_current db') \<and>
    hits_current (delete_category_filter db f) \<and>
    (\<forall>db' msg. set_category_direct db now tx slots = Inr (db', msg) \<longrightarrow> hits_current db') \<and>
    hits_current (unset_category_direct db now tx)"
  using create_filter_current [OF assms] update_filter_current [OF assms] delete_filter_current [OF assms]
    set_direct_current [OF assms set_direct_committed] unset_direct_current [OF assms]
  by blast

lemma hits_follow_writes_witness:
  "hits_current (unset_category_direct cat_db 5 (bank_tx 6 (Date 2024 2 1) 30)) \<and>
   hits_current (delete_category_filter cat_db donation_filter)"
  using hits_follow_writes [OF cat_db_current] by blast

lemma rounded_in_cents: "in_cents x \<Longrightarrow> of_int (round_half_up (x * 100)) / 100 = x"
  by (auto simp: in_cents_def)

text \<open>A successful \<open>set_category_direct\<close> is complete: the active assignments of the transaction are
  the given slots, in order, those of all other transactions are untouched, and amounts given in
  cents add up to the amount of the transaction.\<close>
theorem direct_assignment_is_complete:
  assumes "set_category_direct db now tx slots = Inr (db', None)"
    and "\<forall>s \<in> set slots. \<exists>x. slot_amount s = NumAmount x \<and> in_cents x"
  shows "(\<forall>i. i \<noteq> tx_id tx \<longrightarrow> filter (\<lambda>d. cd_tx_id d = i) (active_directs db') =
        filter (\<lambda>d. cd_tx_id d = i) (active_directs db)) \<and>
    map (\<lambda>d. (Some (cd_category_id d), NumAmount (cd_amount d)))
        (filter (\<lambda>d. cd_tx_id d = tx_id tx) (active_directs db')) =
      map (\<lambda>s. (slot_category_id s, slot_amount s)) (valid_slots slots) \<and>
    (valid_slots slots \<noteq> [] \<longrightarrow>
      sum_list (map cd_amount (filter (\<lambda>d. cd_tx_id d = tx_id tx) (active_directs db'))) = amount tx)"
proof -
  obtain "values" where v: "map_res (\<lambda>s. decimal_of_amount (slot_amount s)) (valid_slots slots) = Inr values"
    and total: "valid_slots slots \<noteq> [] \<Longrightarrow> sum_of_values values = Inr (Finite (amount tx))"
    and db': "db' = refresh_transaction_hits tx (valid_slots slots \<noteq> [])
      (deactivate_directs tx now db\<lparr>category_directs := category_directs (deactivate_directs tx now db) @
         slot_rows (tx_id tx) (zip (valid_slots slots) values)\<rparr>)"
    using set_direct_Inr [OF set_direct_committed [OF assms(1)]] by auto
  let ?rows = "slot_rows (tx_id tx) (zip (valid_slots slots) values)"
  define amt where "amt s = (case slot_amount s of NumAmount x \<Rightarrow> x | _ \<Rightarrow> 0)" for s :: slot
  have num: "slot_amount s = NumAmount (amt s)" "in_cents (amt s)" "slot_category_id s \<noteq> None"
    if "s \<in> set (valid_slots slots)" for s
    using assms(2) that by (auto simp: amt_def valid_slots_def)
  have "map_res (\<lambda>s. decimal_of_amount (slot_amount s)) (valid_slots slots) =
      Inr (map (\<lambda>s. Finite (amt s)) (valid_slots slots))"
    using num(1) by (intro map_res_Inr_map) (simp add: decimal_of_amount_def)
  then have vals: "values = map (\<lambda>s. Finite (amt s)) (valid_slots slots)" using v by simp
  have rows: "?rows = map (\<lambda>s. \<lparr>cd_tx_id = tx_id tx, cd_category_id = the (slot_category_id s),
      cd_amount = amt s, cd_deleted_at = None\<rparr>) (valid_slots slots)"
    using rounded_in_cents [OF num(2)] by (simp add: slot_rows_def vals zip_map2 zip_same_conv_map comp_def)
  have act: "active_directs db' = filter (\<lambda>d. cd_tx_id d \<noteq> tx_id tx) (active_directs db) @ ?rows"
    using active_after_deactivate [of tx now db] by (simp add: db' active_directs_def)
  have own: "filter (\<lambda>d. cd_tx_id d = tx_id tx) (active_directs db') = ?rows"
    by (simp add: act rows filter_empty_conv)
  have other: "filter (\<lambda>d. cd_tx_id d = i) (active_directs db') = filter (\<lambda>d. cd_tx_id d = i) (active_directs db)"
    if "i \<noteq> tx_id tx" for i
  proof -
    have "filter (\<lambda>d. cd_tx_id d = i) ?rows = []" using that by (simp add: rows filter_empty_conv)
    moreover have "filter (\<lambda>d. cd_tx_id d \<noteq> tx_id tx \<and> cd_tx_id d = i) ds = filter (\<lambda>d. cd_tx_id d = i) ds" for ds
      by (rule filter_cong) (use that in auto)
    ultimately show ?thesis by (simp add: act)
  qed
  have "sum_of_values (map (\<lambda>s. Finite (amt s)) ss) = Inr (Finite (sum_list (map amt ss)))" for ss
  proof -
    have "fold_res dec_add (map (\<lambda>s. Finite (amt s)) ss) (Finite b) = Inr (Finite (b + sum_list (map amt ss)))" for b
      by (induction ss arbitrary: b) (auto simp: add.assoc)
    then show ?thesis by (simp add: sum_of_values_def)
  qed
  then have "valid_slots slots \<noteq> [] \<Longrightarrow> sum_list (map amt (valid_slots slots)) = amount tx"
    using total by (simp add: vals)
  moreover have "map (\<lambda>d. (Some (cd_category_id d), NumAmount (cd_amount d))) ?rows =
      map (\<lambda>s. (slot_category_id s, slot_amount s)) (valid_slots slots)"
    using num by (auto simp: rows)
  ultimately show ?thesis unfolding own using other by (auto simp: rows comp_def)
qed

lemma direct_assignment_is_complete_witness:
  "\<exists>db'. set_category_direct cat_db 5 (bank_tx 6 (Date 2024 2 1) 30)
      [\<lparr>slot_category_id = Some 20, slot_amount = NumAmount 30\<rparr>] = Inr (db', None) \<and>
    map cd_category_id (filter (\<lambda>d. cd_tx_id d = 6) (active_directs db')) = [20]"
proof -
  let ?r = "set_category_direct cat_db 5 (bank_tx 6 (Date 2024 2 1) 30)
      [\<lparr>slot_category_id = Some 20, slot_amount = NumAmount 30\<rparr>]"
  have "(case ?r of Inr (_, None) \<Rightarrow> True | _ \<Rightarrow> False)" by code_simp
  then obtain db' where db': "?r = Inr (db', None)" by (auto split: sum.splits option.splits)
  have "in_cents 30" unfolding in_cents_def by (rule exI [of _ 3000]) simp
  then have "\<forall>s \<in> set [\<lparr>slot_category_id = Some 20, slot_amount = NumAmount 30\<rparr>].
      \<exists>x. slot_amount s = NumAmount x \<and> in_cents x" by simp
  from direct_assignment_is_complete [OF db' this]
  have "map (\<lambda>d. (Some (cd_category_id d), NumAmount (cd_amount d)))
      (filter (\<lambda>d. cd_tx_id d = tx_id (bank_tx 6 (Date 2024 2 1) 30)) (active_directs db')) =
      map (\<lambda>s. (slot_category_id s, slot_amount s))
        (valid_slots [\<lparr>slot_category_id = Some 20, slot_amount = NumAmount 30\<rparr>])"
    by (elim conjE)
  moreover have "tx_id (bank_tx 6 (Date 2024 2 1) 30) = 6" by (simp add: bank_tx_def)
  moreover have "valid_slots [\<lparr>slot_category_id = Some 20, slot_amount = NumAmount 30\<rparr>] =
      [\<lparr>slot_category_id = Some 20, slot_amount = NumAmount 30\<rparr>]"
    by (simp add: valid_slots_def truthy_amount_def)
  ultimately have rows: "map (\<lambda>d. (Some (cd_category_id d), NumAmount (cd_amount d)))
      (filter (\<lambda>d. cd_tx_id d = 6) (active_directs db')) = [(Some 20, NumAmount 30)]"
    by (simp only: list.map slot.select_convs)
  have "map cd_category_id (filter (\<lambda>d. cd_tx_id d = 6) (active_directs db')) = [20]"
    using arg_cong [OF rows, of "map (the \<circ> fst)"] by (simp add: comp_def)
  with db' show ?thesis by (intro exI conjI)
qed

text \<open>Amounts with more than two decimals are added exactly but stored in cents: here the stored
  parts of an amount of 1 would add up to 99 cents, which the table refuses when the request commits.\<close>

lemma finer_amounts_are_refused_late:
  "(case set_category_direct_core finer_db 5 (bank_tx 6 (Date 2024 2 1) 1) finer_slots of
     Inr (db', None) \<Rightarrow> sum_list (map cd_amount (active_directs db')) = 99 / 100
   | _ \<Rightarrow> False)"
  "(case set_category_direct finer_db 5 (bank_tx 6 (Date 2024 2 1) 1) finer_slots of
     Inl e \<Rightarrow> e = IntegrityError | Inr _ \<Rightarrow> False)"
  by code_simp+

text \<open>The text of a filter is matched literally, whatever wildcards it contains, and regardless of
  case: the whole subject, its beginning, or a part of it, by the filter's mode.\<close>
theorem filter_text_is_literal:
  assumes "cf_subject f = Some s"
  shows "category_filter_criteria f D tx \<longleftrightarrow> category_filter_criteria (f\<lparr>cf_subject := None\<rparr>) D tx \<and>
    (case cf_subject_mode f of
       EQUALS \<Rightarrow> lower (subject tx) = lower s
     | STARTS \<Rightarrow> (\<exists>u. lower (subject tx) = lower s @ u)
     | CONTAINS \<Rightarrow> (\<exists>a u. lower (subject tx) = a @ lower s @ u))"
  using assms
  by (cases "cf_subject_mode f")
    (simp_all add: category_filter_criteria_def subject_pattern_def ilike_equals ilike_starts ilike_contains [simplified])

lemma filter_text_is_literal_witness:
  "category_filter_criteria donation_filter {} ((bank_tx 6 (Date 2024 2 1) 30)\<lparr>subject := ''SPENDE 100%''\<rparr>) \<and>
   \<not> category_filter_criteria donation_filter {} ((bank_tx 6 (Date 2024 2 1) 30)\<lparr>subject := ''100 Euro''\<rparr>)"
proof -
  have s: "cf_subject donation_filter = Some ''100%''" by (simp add: donation_filter_def)
  have "category_filter_criteria donation_filter {} ((bank_tx 6 (Date 2024 2 1) 30)\<lparr>subject := ''SPENDE 100%''\<rparr>)"
    by code_simp
  moreover have "lower ''100 Euro'' = ''100 euro''" "lower ''100%'' = ''100%''" by code_simp+
  then have "\<not> (\<exists>a u. lower ''100 Euro'' = a @ lower ''100%'' @ u)"
    by (auto simp: Cons_eq_append_conv)
  ultimately show ?thesis
    unfolding filter_text_is_literal [OF s, of "{}" "(bank_tx 6 (Date 2024 2 1) 30)\<lparr>subject := ''100 Euro''\<rparr>"]
    by (simp add: donation_filter_def)
qed

text \<open>While the stored hits are current, the categories offered for an account are exactly those
  whose listing for the account is not empty.\<close>
theorem account_categories_have_transactions:
  assumes "hits_current db"
  shows "get_account_categories db account =
    filter (\<lambda>c. 0 < snd (get_transactions_by_category db account (cat_id c) page)) (categories db)"
  using assms by (rule account_categories_listing)

lemma account_categories_have_transactions_witness:
  "map cat_id (get_account_categories cat_db giro) = [20] \<and>
   0 < snd (get_transactions_by_category cat_db giro 20 1)"
proof -
  have "map cat_id (get_account_categories cat_db giro) = [20]" by code_simp
  then show ?thesis
    using account_categories_have_transactions [OF cat_db_current, of giro 1]
    by (auto simp: filter_eq_Cons_iff)
qed

text \<open>A category that was once assigned to a transaction can never be deleted: also after the
  assignment has been removed, the request is refused or ends in an \<open>IntegrityError\<close>.\<close>
theorem assigned_category_stays:
  assumes "set_category_direct db now tx slots = Inr (db1, None)"
    and "s \<in> set (valid_slots slots)" and "slot_category_id s = Some (cat_id c)"
  shows "\<forall>db2. delete_category (unset_category_direct db1 now' tx) c \<noteq> Inr (db2, None)"
  using assms by (rule assigned_category_row)

lemma assigned_category_stays_witness:
  "(case set_category_direct cat_db 5 (bank_tx 6 (Date 2024 2 1) 30)
      [\<lparr>slot_category_id = Some 20, slot_amount = NumAmount 30\<rparr>] of
     Inr (db1, None) \<Rightarrow> (case delete_category (unset_category_direct db1 6 (bank_tx 6 (Date 2024 2 1) 30))
        (hd (categories cat_db)) of Inr (_, None) \<Rightarrow> False | _ \<Rightarrow> True)
   | _ \<Rightarrow> False)"
proof -
  let ?slots = "[\<lparr>slot_category_id = Some 20, slot_amount = NumAmount 30\<rparr>]"
  have "(case set_category_direct cat_db 5 (bank_tx 6 (Date 2024 2 1) 30) ?slots of Inr (_, None) \<Rightarrow> True | _ \<Rightarrow> False)"
    by code_simp
  then obtain db1 where db1: "set_category_direct cat_db 5 (bank_tx 6 (Date 2024 2 1) 30) ?slots = Inr (db1, None)"
    by (auto split: sum.splits option.splits)
  have "hd ?slots \<in> set (valid_slots ?slots)" "slot_category_id (hd ?slots) = Some (cat_id (hd (categories cat_db)))"
    by (simp_all add: valid_slots_def truthy_amount_def cat_db_def)
  from assigned_category_stays [OF db1 this, of 6] db1 show ?thesis
    by (auto split: sum.splits option.splits)
qed

end
