(* ===== verification/P4x_Import.thy ===== *)
theory P4x_Import
  imports P4x_Categories
begin

text \<open>
  \<open>app/services/p4x_import_service.py\<close>: reading the bank's JSON export and importing its entries
  by the SHA-256 hash of their text, so that a file can be imported again. \<open>json.loads\<close>,
  \<open>json.dumps\<close>, the text of a container and \<open>hashlib.sha256\<close> are parameters; a float is the text
  Python prints for it. Decimal arithmetic is exact: the rounding of the quotient to 28 digits
  and the sign of a zero are left out.
\<close>

section \<open>JSON values\<close>

datatype json = JNull | JBool bool | JInt int | JFloat string | JStr string
  | JList "json list" | JDict "(string \<times> json) list"

text \<open>\<open>str(value)\<close> and the truth value.\<close>

definition py_str :: "(json \<Rightarrow> string) \<Rightarrow> json \<Rightarrow> string" where
  "py_str repr v = (case v of JNull \<Rightarrow> ''None'' | JBool b \<Rightarrow> if b then ''True'' else ''False''
     | JInt i \<Rightarrow> text_of_int i | JFloat s \<Rightarrow> s | JStr s \<Rightarrow> s | _ \<Rightarrow> repr v)"

definition py_truthy :: "json \<Rightarrow> bool" where
  "py_truthy v = (case v of JNull \<Rightarrow> False | JBool b \<Rightarrow> b | JInt i \<Rightarrow> i \<noteq> 0
     | JFloat s \<Rightarrow> s \<noteq> ''0.0'' \<and> s \<noteq> ''-0.0'' | JStr s \<Rightarrow> s \<noteq> [] | JList l \<Rightarrow> l \<noteq> [] | JDict d \<Rightarrow> d \<noteq> [])"

text \<open>\<open>int(text)\<close>: an optional sign and digits, with single underscores between them.\<close>

fun int_digits :: "string \<Rightarrow> string option" where
  "int_digits [] = None"
| "int_digits [c] = (if is_digit c then Some [c] else None)"
| "int_digits (c # d # r) =
     (if \<not> is_digit c then None
      else if d = CHR ''_'' then map_option ((#) c) (int_digits r)
      else map_option ((#) c) (int_digits (d # r)))"

definition py_int :: "string \<Rightarrow> int option" where
  "py_int text = (case read_sign (strip text) of (neg, s) \<Rightarrow>
     (case int_digits s of None \<Rightarrow> None
      | Some ds \<Rightarrow> if length ds \<le> 4300 then Some ((if neg then -1 else 1) * int (nat_of_digits ds)) else None))"

section \<open>The parser\<close>

record payload =
  p_booking :: date
  p_valuation :: date
  p_iban :: string
  p_amount :: string
  p_subject :: string
  p_raw :: string

text \<open>A corrupt entry is the text of the error.\<close>

type_synonym 'a corrupt = "string + 'a"

definition child :: "json \<Rightarrow> string \<Rightarrow> string list \<Rightarrow> json corrupt" where
  "child node key path =
     (case node of
        JDict d \<Rightarrow> (case map_of d key of Some v \<Rightarrow> Inr v | None \<Rightarrow> Inl (''missing field: '' @ join ''.'' path))
      | _ \<Rightarrow> Inl (''missing field: '' @ join ''.'' path))"

definition field :: "json \<Rightarrow> string list \<Rightarrow> json corrupt" where
  "field struct path = fold_res (\<lambda>key node. child node key path) path struct"

definition MAX_PRECISION :: int where "MAX_PRECISION = 9"

definition MAX_ABSOLUTE_AMOUNT :: decimal where "MAX_ABSOLUTE_AMOUNT = 10 ^ 10"

definition parse_amount :: "(json \<Rightarrow> string) \<Rightarrow> json \<Rightarrow> json \<Rightarrow> decimal corrupt" where
  "parse_amount repr value precision =
     (case py_int (py_str repr precision) of
        None \<Rightarrow> Inl ''invalid field: amount.precision''
      | Some ex \<Rightarrow>
          if \<not> (0 \<le> ex \<and> ex \<le> MAX_PRECISION) then Inl ''invalid field: amount.precision''
          else (case parse_decimal (py_str repr value) of
                  Some (Finite v) \<Rightarrow>
                    let a = v / 10 ^ nat ex
                    in if MAX_ABSOLUTE_AMOUNT \<le> \<bar>a\<bar> then Inl ''invalid field: amount.value'' else Inr a
                | _ \<Rightarrow> Inl ''invalid field: amount.value''))"

definition booking_date :: "(json \<Rightarrow> string) \<Rightarrow> json \<Rightarrow> string \<Rightarrow> date corrupt" where
  "booking_date repr struct name =
     bind_res (field struct [name]) (\<lambda>v.
       case fromisoformat (take 10 (strip (py_str repr v))) of
         Inr d \<Rightarrow> Inr d | Inl _ \<Rightarrow> Inl (''invalid field: '' @ name))"

definition subject_of :: "(json \<Rightarrow> string) \<Rightarrow> (string \<times> json) list \<Rightarrow> string" where
  "subject_of repr d =
     (let txt = (\<lambda>key. case map_of d key of None \<Rightarrow> [] | Some v \<Rightarrow> if py_truthy v then py_str repr v else []);
          ref = txt ''reference''; recv = txt ''receiverReference''
      in strip (if length recv < length ref then ref else recv))"

text \<open>\<open>f"{amount:.2f}"\<close>: two decimals, halves to the even cent.\<close>

definition round_half_even :: "rat \<Rightarrow> int" where
  "round_half_even x = (let f = \<lfloor>x\<rfloor>; r = x - of_int f
     in if r < 1 / 2 then f else if 1 / 2 < r then f + 1 else if even f then f else f + 1)"

definition format_cents :: "rat \<Rightarrow> string" where
  "format_cents x = (let n = nat (round_half_even (\<bar>x\<bar> * 100))
     in (if x < 0 then ''-'' else []) @ digits_of_nat (n div 100) @ ''.'' @
        [char_of (48 + n mod 100 div 10), char_of (48 + n mod 10)])"

definition is_dict :: "json \<Rightarrow> bool" where
  "is_dict v = (case v of JDict _ \<Rightarrow> True | _ \<Rightarrow> False)"

definition parse_entry :: "(json \<Rightarrow> string) \<Rightarrow> (json \<Rightarrow> string) \<Rightarrow> json \<Rightarrow> payload corrupt" where
  "parse_entry repr dumps struct =
     (case struct of
        JDict d \<Rightarrow>
          bind_res (booking_date repr struct ''booking'') (\<lambda>b.
          bind_res (booking_date repr struct ''valuation'') (\<lambda>v.
          bind_res (field struct [''partnerAccount'']) (\<lambda>account.
          let d = (if is_dict account then d
                   else AList.update ''partnerAccount'' (JDict [(''iban'', JStr [])]) d);
              entry = JDict d
          in bind_res (field entry [''partnerAccount'', ''iban'']) (\<lambda>iban.
             bind_res (field entry [''amount'']) (\<lambda>_.
             bind_res (field entry [''amount'', ''value'']) (\<lambda>val.
             bind_res (field entry [''amount'', ''precision'']) (\<lambda>prec.
             bind_res (parse_amount repr val prec) (\<lambda>a.
             if map_of d ''reference'' = None \<and> map_of d ''receiverReference'' = None
             then Inl ''missing field: reference or receiverReference''
             else Inr \<lparr>p_booking = b, p_valuation = v, p_iban = strip (py_str repr iban),
                       p_amount = format_cents a, p_subject = subject_of repr d, p_raw = dumps entry\<rparr>))))))))
      | _ \<Rightarrow> Inl ''entry is not an object'')"

definition GEORGE_BIC :: string where "GEORGE_BIC = ''GIBAATWWXXX''"

record parse_result =
  pr_success :: bool
  pr_message :: string
  pr_entries :: "payload list"

definition parse_george_json ::
  "(string \<Rightarrow> json option) \<Rightarrow> (json \<Rightarrow> string) \<Rightarrow> (json \<Rightarrow> string) \<Rightarrow> string \<Rightarrow> string \<Rightarrow> parse_result" where
  "parse_george_json loads repr dumps bic raw_json =
     (if bic \<noteq> GEORGE_BIC
      then \<lparr>pr_success = False, pr_message = ''No parser method found for BIC '' @ bic, pr_entries = []\<rparr>
      else case loads raw_json of
        Some (JList structs) \<Rightarrow>
          (case map_res (parse_entry repr dumps) structs of
             Inr entries \<Rightarrow> \<lparr>pr_success = True, pr_message = ''finished successfully'', pr_entries = entries\<rparr>
           | Inl msg \<Rightarrow> \<lparr>pr_success = False,
               pr_message = ''given data contains at least one corrupt entry: '' @ msg, pr_entries = []\<rparr>)
      | _ \<Rightarrow> \<lparr>pr_success = False, pr_message = ''failed to parse given raw json data'', pr_entries = []\<rparr>)"

section \<open>The hash of a transaction\<close>

definition two_digits :: "string \<Rightarrow> (int \<times> string) option" where
  "two_digits s = (case s of a # b # r \<Rightarrow>
       (case (digit_value a, digit_value b) of (Some x, Some y) \<Rightarrow> Some (int (10 * x + y), r) | _ \<Rightarrow> None)
     | _ \<Rightarrow> None)"

definition expect :: "char \<Rightarrow> string \<Rightarrow> string option" where
  "expect c s = (case s of x # r \<Rightarrow> if x = c then Some r else None | [] \<Rightarrow> None)"

text \<open>The date part \<open>\d{4}-\d{2}-\d{2}\<close>, and \<open>T\d{2}:\d{2}:\d{2}\<close>.\<close>

definition match_date :: "string \<Rightarrow> (string \<times> string) option" where
  "match_date s =
     (let d = take 10 s
      in if length d = 10 \<and> list_all is_digit (take 4 d) \<and> d ! 4 = CHR ''-'' \<and>
            list_all is_digit (take 2 (drop 5 d)) \<and> d ! 7 = CHR ''-'' \<and> list_all is_digit (drop 8 d)
         then Some (d, drop 10 s) else None)"

definition match_time :: "string \<Rightarrow> ((int \<times> int \<times> int) \<times> string) option" where
  "match_time s =
     Option.bind (expect CHR ''T'' s) (\<lambda>r. Option.bind (two_digits r) (\<lambda>(h, r).
     Option.bind (expect CHR '':'' r) (\<lambda>r. Option.bind (two_digits r) (\<lambda>(mi, r).
     Option.bind (expect CHR '':'' r) (\<lambda>r. Option.bind (two_digits r) (\<lambda>(sec, r). Some ((h, mi, sec), r)))))))"

text \<open>\<open>(?:\.\d+)?([+-])(\d{2})(\d{2})\<close>: the offset in minutes.\<close>

definition match_offset :: "string \<Rightarrow> int option" where
  "match_offset s =
     (let r = (case s of c # t \<Rightarrow> if c = CHR ''.'' \<and> takeWhile is_digit t \<noteq> [] then dropWhile is_digit t else s
               | [] \<Rightarrow> [])
      in case r of [] \<Rightarrow> None
         | c # t \<Rightarrow> if c \<noteq> CHR ''+'' \<and> c \<noteq> CHR ''-'' then None
             else Option.bind (two_digits t) (\<lambda>(h, t). Option.bind (two_digits t) (\<lambda>(mi, _).
                    Some ((if c = CHR ''+'' then 1 else -1) * (60 * h + mi)))))"

definition match_timestamp :: "string \<Rightarrow> (string \<times> (int \<times> int \<times> int) \<times> int) option" where
  "match_timestamp s =
     Option.bind (match_date s) (\<lambda>(d, r). Option.bind (match_time r) (\<lambda>(t, r).
     Option.bind (match_offset r) (\<lambda>off. Some (d, t, off))))"

text \<open>
  \<open>datetime.fromisoformat\<close> of the date and the time (\<open>24:00:00\<close> is the next midnight): the date
  and the second of the day.
\<close>

definition datetime_fromisoformat :: "string \<Rightarrow> int \<times> int \<times> int \<Rightarrow> exc + date \<times> int" where
  "datetime_fromisoformat dtext hms =
     (case hms of (h, mi, sec) \<Rightarrow>
     bind_res (fromisoformat dtext) (\<lambda>d.
       if h = 24 \<and> mi = 0 \<and> sec = 0
       then (case next_day d of Inr e \<Rightarrow> Inr (e, 0) | Inl _ \<Rightarrow> Inl ValueError)
       else if h < 24 \<and> mi < 60 \<and> sec < 60 then Inr (d, h * 3600 + mi * 60 + sec)
       else Inl ValueError))"

definition pad2 :: "int \<Rightarrow> string" where
  "pad2 n = [char_of (nat (48 + n div 10)), char_of (nat (48 + n mod 10))]"

definition utc_text :: "date \<Rightarrow> int \<Rightarrow> string" where
  "utc_text d s = isoformat d @ ''T'' @ pad2 (s div 3600) @ '':'' @ pad2 (s mod 3600 div 60) @ '':'' @
     pad2 (s mod 60) @ ''.000000Z''"

text \<open>The offset of a \<open>timezone\<close> lies strictly between minus and plus 24 hours.\<close>

definition date_to_carbon_json :: "date \<Rightarrow> string \<Rightarrow> exc + string" where
  "date_to_carbon_json booked original =
     (case match_timestamp (strip original) of
        None \<Rightarrow> Inr (isoformat booked @ ''T00:00:00.000000Z'')
      | Some (dtext, hms, off) \<Rightarrow>
          bind_res (datetime_fromisoformat dtext hms) (\<lambda>(d, s).
            if 1440 \<le> \<bar>off\<bar> then Inl ValueError
            else
              let u = s - off * 60
              in if u < 0 then bind_res (prev_day d) (\<lambda>p. Inr (utc_text p (u + 86400)))
                 else if 86400 \<le> u then bind_res (next_day d) (\<lambda>p. Inr (utc_text p (u - 86400)))
                 else Inr (utc_text d u)))"

definition escape_json_char :: "char \<Rightarrow> string" where
  "escape_json_char c =
     (let n = of_char c :: nat in
      if c = CHR 0x22 then [backslash, CHR 0x22]
      else if c = backslash then [backslash, backslash]
      else if n = 10 then [backslash, CHR ''n''] else if n = 13 then [backslash, CHR ''r'']
      else if n = 9 then [backslash, CHR ''t''] else if n = 8 then [backslash, CHR ''b'']
      else if n = 12 then [backslash, CHR ''f'']
      else if n < 32 \<or> 126 < n
      then [backslash, CHR ''u'', CHR ''0'', CHR ''0'', hex_digit (n div 16), hex_digit (n mod 16)]
      else [c])"

definition json_text :: "string \<Rightarrow> string" where
  "json_text s = CHR 0x22 # concat (map escape_json_char s) @ [CHR 0x22]"

definition json_encode_escaping_slashes :: "string list \<Rightarrow> string" where
  "json_encode_escaping_slashes xs =
     replace_char CHR ''/'' [backslash, CHR ''/''] (CHR ''['' # join '','' (map json_text xs) @ '']'')"

definition compute_transaction_hash ::
  "(string \<Rightarrow> string) \<Rightarrow> string \<Rightarrow> string \<Rightarrow> string \<Rightarrow> string \<Rightarrow> string \<Rightarrow> string" where
  "compute_transaction_hash sha b v iban amount_str subj =
     sha (json_encode_escaping_slashes [b, v, iban, amount_str, subj])"

section \<open>The import\<close>

text \<open>A dictionary of counters, every key starting at 0.\<close>

type_synonym counters = "string \<Rightarrow> nat"

definition count_up :: "string \<Rightarrow> counters \<Rightarrow> counters" where
  "count_up k c = c(k := c k + 1)"

definition distinguish_repeated_entry ::
  "(string \<Rightarrow> string) \<Rightarrow> string \<Rightarrow> counters \<Rightarrow> counters \<Rightarrow> string \<times> counters \<times> counters" where
  "distinguish_repeated_entry sha h seen summary =
     (let occurrence = seen h + 1; seen' = seen(h := occurrence)
      in if occurrence = 1 then (h, seen', summary)
         else (sha (h @ ''#'' @ digits_of_nat occurrence), seen', count_up ''repeated_in_file'' summary))"

record import_state =
  i_db :: p4x_db
  i_pending :: "p4x_transaction list"
  i_seen :: counters
  i_summary :: counters

definition struct_text :: "(json \<Rightarrow> string) \<Rightarrow> json \<Rightarrow> string \<Rightarrow> string" where
  "struct_text repr struct key =
     (case struct of JDict d \<Rightarrow> (case map_of d key of None \<Rightarrow> [] | Some v \<Rightarrow> py_str repr v) | _ \<Rightarrow> [])"

definition decimal_of_text :: "string \<Rightarrow> exc + decimal" where
  "decimal_of_text s = (case parse_decimal s of Some (Finite x) \<Rightarrow> Inr x | _ \<Rightarrow> Inl InvalidOperation)"

definition write_entry :: "uuid \<Rightarrow> payload \<Rightarrow> decimal \<Rightarrow> p4x_transaction \<Rightarrow> p4x_transaction" where
  "write_entry account_id p a tx =
     tx\<lparr>tx_deleted_at := None, booking := p_booking p, valuation := p_valuation p, tx_iban := p_iban p,
        amount := a, subject := p_subject p, tx_raw := Some (p_raw p), tx_account_id := account_id\<rparr>"

definition status_of :: "p4x_account \<Rightarrow> p4x_transaction \<Rightarrow> string" where
  "status_of account tx =
     (if tx_account_id tx \<noteq> acc_id account then ''existing_with_new_binding''
      else if tx_deleted_at tx \<noteq> None then ''restored'' else ''existing'')"

definition blank_tx :: "uuid \<Rightarrow> string \<Rightarrow> p4x_transaction" where
  "blank_tx i h = \<lparr>tx_id = i, sha256_hash = h, booking = Date 1 1 1, valuation = Date 1 1 1, tx_iban = [],
     amount = 0, subject = [], tx_account_id = 0, delegating_member_id = None, delegating_contact_id = None,
     delegating_p4x_account_id = None, delegating_p4x_special_contact_id = None, tx_comment = None,
     tx_raw = None, attachment = None, tx_deleted_at = None\<rparr>"

text \<open>One entry with its hash: set aside, update the row that has the hash, or add a row.\<close>

definition import_hashed ::
  "instant \<Rightarrow> p4x_account \<Rightarrow> string \<Rightarrow> payload \<Rightarrow> decimal \<Rightarrow> import_state \<Rightarrow> import_state" where
  "import_hashed now account h p a st =
     (let db = i_db st in
      if (case acc_init_date account of None \<Rightarrow> False | Some d \<Rightarrow> p_booking p < d)
      then st\<lparr>i_db := db\<lparr>transactions := update_where (\<lambda>t. sha256_hash t = h)
                 (\<lambda>t. t\<lparr>tx_deleted_at := Some now\<rparr>) (transactions db)\<rparr>,
              i_summary := count_up ''before_init_date'' (i_summary st)\<rparr>
      else case List.find (\<lambda>t. sha256_hash t = h) (transactions db) of
        Some t \<Rightarrow>
          st\<lparr>i_db := db\<lparr>transactions := update_where (\<lambda>u. tx_id u = tx_id t)
                 (write_entry (acc_id account) p a) (transactions db)\<rparr>,
             i_summary := count_up (status_of account t) (i_summary st)\<rparr>
      | None \<Rightarrow> (case fresh_id db of (i, db') \<Rightarrow>
          st\<lparr>i_db := db', i_pending := i_pending st @ [write_entry (acc_id account) p a (blank_tx i h)],
             i_summary := count_up ''new'' (i_summary st)\<rparr>))"

definition import_entry ::
  "(string \<Rightarrow> string) \<Rightarrow> (json \<Rightarrow> string) \<Rightarrow> instant \<Rightarrow> p4x_account \<Rightarrow> payload \<times> json \<Rightarrow> import_state \<Rightarrow>
   exc + import_state" where
  "import_entry sha repr now account ps st =
     (let p = fst ps; struct = snd ps; st = st\<lparr>i_summary := count_up ''giventotal'' (i_summary st)\<rparr> in
      bind_res (decimal_of_text (p_amount p)) (\<lambda>a.
      if a = 0 then Inr (st\<lparr>i_summary := count_up ''zero_skipped'' (i_summary st)\<rparr>)
      else
        bind_res (date_to_carbon_json (p_booking p) (struct_text repr struct ''booking'')) (\<lambda>b.
        bind_res (date_to_carbon_json (p_valuation p) (struct_text repr struct ''valuation'')) (\<lambda>v.
        case distinguish_repeated_entry sha (compute_transaction_hash sha b v (p_iban p) (p_amount p) (p_subject p))
               (i_seen st) (i_summary st) of (h, seen, summary) \<Rightarrow>
          Inr (import_hashed now account h p a (st\<lparr>i_seen := seen, i_summary := summary\<rparr>))))))"

text \<open>The flush: the amounts fit the column and the hash column is unique.\<close>

definition flush_transactions :: "p4x_db \<Rightarrow> p4x_transaction list \<Rightarrow> exc + p4x_db" where
  "flush_transactions db pending =
     (if \<not> list_all (\<lambda>t. to_numeric (amount t) = Inr (amount t)) (transactions db @ pending) then Inl DataError
      else if \<not> distinct (map sha256_hash (transactions db @ pending)) then Inl IntegrityError
      else Inr (db\<lparr>transactions := transactions db @ pending\<rparr>))"

definition import_transactions ::
  "(string \<Rightarrow> string) \<Rightarrow> (json \<Rightarrow> string) \<Rightarrow> instant \<Rightarrow> p4x_db \<Rightarrow> p4x_account \<Rightarrow> payload list \<Rightarrow> json list \<Rightarrow>
   exc + p4x_db \<times> counters" where
  "import_transactions sha repr now db account entries structs =
     bind_res (fold_res (import_entry sha repr now account) (zip entries structs)
        \<lparr>i_db = db, i_pending = [], i_seen = (\<lambda>_. 0), i_summary = (\<lambda>_. 0)\<rparr>) (\<lambda>st.
     bind_res (flush_transactions (i_db st) (i_pending st)) (\<lambda>db'. Inr (db', i_summary st)))"

definition import_and_apply_filters ::
  "(string \<Rightarrow> string) \<Rightarrow> (json \<Rightarrow> string) \<Rightarrow> instant \<Rightarrow> p4x_db \<Rightarrow> p4x_account \<Rightarrow> payload list \<Rightarrow> json list \<Rightarrow>
   exc + p4x_db \<times> counters" where
  "import_and_apply_filters sha repr now db account entries structs =
     bind_res (import_transactions sha repr now db account entries structs) (\<lambda>(db', summary).
       Inr (apply_all_category_filters_core False db', summary))"

text \<open>Parsing and importing an uploaded file: the message, and the summary when it was imported.\<close>

definition run_george_import ::
  "(string \<Rightarrow> string) \<Rightarrow> (string \<Rightarrow> json option) \<Rightarrow> (json \<Rightarrow> string) \<Rightarrow> (json \<Rightarrow> string) \<Rightarrow> instant \<Rightarrow> p4x_db \<Rightarrow>
   p4x_account \<Rightarrow> string \<Rightarrow> exc + p4x_db \<times> string option \<times> counters option" where
  "run_george_import sha loads repr dumps now db account raw_json =
     (let r = parse_george_json loads repr dumps (case acc_bic account of None \<Rightarrow> [] | Some b \<Rightarrow> b) raw_json in
      if \<not> pr_success r then Inr (db, Some (pr_message r), None)
      else
        bind_res (import_and_apply_filters sha repr now db account (pr_entries r)
            (case loads raw_json of Some (JList structs) \<Rightarrow> structs | _ \<Rightarrow> [])) (\<lambda>(db', summary).
          Inr (db', None, Some summary)))"

end
