(* ===== verification/Import_Text.thy ===== *)
theory Import_Text
  imports P4x_Import
begin

text \<open>
  The texts of the import: the hashed text determines the five values it is made of, and the
  printed amount reads back as the amount in cents.
\<close>

section \<open>The hashed text is unambiguous\<close>

definition hex_value :: "char \<Rightarrow> nat" where
  "hex_value c = (let n = of_char c in if n < 58 then n - 48 else n - 87)"

definition unescape :: "string \<Rightarrow> (char \<times> string) option" where
  "unescape s =
     (case s of
        [] \<Rightarrow> None
      | c # r \<Rightarrow>
          if c \<noteq> backslash then Some (c, r)
          else (case r of [] \<Rightarrow> None
            | d # r \<Rightarrow>
                if d = CHR ''n'' then Some (char_of (10 :: nat), r)
                else if d = CHR ''r'' then Some (char_of (13 :: nat), r)
                else if d = CHR ''t'' then Some (char_of (9 :: nat), r)
                else if d = CHR ''b'' then Some (char_of (8 :: nat), r)
                else if d = CHR ''f'' then Some (char_of (12 :: nat), r)
                else if d = CHR ''u''
                then (case r of _ # _ # a # b # r \<Rightarrow> Some (char_of (16 * hex_value a + hex_value b), r) | _ \<Rightarrow> None)
                else Some (d, r)))"

lemma hex_value_digit [simp]: "n < 16 \<Longrightarrow> hex_value (hex_digit n) = n"
  by (auto simp: hex_value_def hex_digit_def)

lemma of_char_less: "of_char c < (256 :: nat)"
proof -
  have "(of_char c :: nat) = of_char c mod 256" by simp
  then show ?thesis by (metis mod_less_divisor zero_less_numeral)
qed

lemma char_of_eq: "of_char c = (k :: nat) \<Longrightarrow> char_of k = c"
  by (metis char_of_char)

lemma unescape_escape: "unescape (escape_json_char c @ r) = Some (c, r)"
proof -
  define n where "n = (of_char c :: nat)"
  have "n < 256" using of_char_less by (simp add: n_def)
  then have "n div 16 < 16" by simp
  then have hex: "char_of (16 * hex_value (hex_digit (n div 16)) + hex_value (hex_digit (n mod 16))) = c"
    by (simp add: n_def)
  show ?thesis
    unfolding escape_json_char_def Let_def n_def [symmetric]
    using hex by (auto simp: unescape_def char_of_eq [of c] n_def [symmetric])
qed

lemma escape_not_quote: "\<exists>d e. escape_json_char c = d # e \<and> d \<noteq> CHR 0x22"
  by (auto simp: escape_json_char_def Let_def)

lemma escaped_inject:
  "concat (map escape_json_char s) @ CHR 0x22 # r = concat (map escape_json_char t) @ CHR 0x22 # r' \<longleftrightarrow> s = t \<and> r = r'"
proof (induction s arbitrary: t)
  case Nil
  show ?case
  proof (cases t)
    case (Cons d t')
    then show ?thesis using escape_not_quote [of d] by auto
  qed auto
next
  case (Cons c s)
  show ?case
  proof (cases t)
    case Nil
    then show ?thesis using escape_not_quote [of c] by auto
  next
    case t: (Cons d t')
    let ?x = "concat (map escape_json_char s) @ CHR 0x22 # r"
    let ?y = "concat (map escape_json_char t') @ CHR 0x22 # r'"
    have "escape_json_char c @ ?x = escape_json_char d @ ?y \<longleftrightarrow> c = d \<and> ?x = ?y"
      using unescape_escape [of c ?x] unescape_escape [of d ?y] by (metis Pair_inject option.inject)
    then show ?thesis using Cons.IH by (simp add: t)
  qed
qed

lemma json_text_inject: "json_text s @ r = json_text t @ r' \<longleftrightarrow> s = t \<and> r = r'"
  by (simp add: json_text_def escaped_inject)

lemma json_list_inject:
  "join '','' (map json_text xs) @ '']'' = join '','' (map json_text ys) @ '']'' \<longleftrightarrow> xs = ys"
proof (induction xs arbitrary: ys)
  case Nil
  show ?case
  proof (cases ys)
    case (Cons y ys')
    then show ?thesis by (cases ys') (simp_all add: json_text_def)
  qed simp
next
  case (Cons x xs)
  have split: "join '','' (map json_text (z # zs)) @ '']'' =
      json_text z @ (if zs = [] then '']'' else '','' @ join '','' (map json_text zs) @ '']'')" for z zs
    by (cases zs) simp_all
  show ?case
  proof (cases ys)
    case Nil
    then show ?thesis by (simp only: split) (simp add: json_text_def)
  next
    case (Cons y ys')
    show ?thesis
      unfolding Cons split json_text_inject using Cons.IH [of ys'] by auto
  qed
qed

fun unslash :: "string \<Rightarrow> string" where
  "unslash [] = []"
| "unslash [a] = [a]"
| "unslash (a # b # r) = (if a = backslash \<and> b = CHR ''/'' then CHR ''/'' # unslash r else a # unslash (b # r))"

lemma unslash_replace: "unslash (replace_char CHR ''/'' [backslash, CHR ''/''] s) = s"
proof (induction s)
  case Nil
  then show ?case by simp
next
  case (Cons x s)
  let ?r = "replace_char CHR ''/'' [backslash, CHR ''/''] s"
  show ?case
  proof (cases ?r)
    case Nil
    then show ?thesis using Cons.IH by auto
  next
    case (Cons y r)
    then have "y \<noteq> CHR ''/''" by (cases s) (auto split: if_splits)
    then show ?thesis using Cons Cons.IH by auto
  qed
qed

text \<open>The text that is hashed for a transaction is unambiguous: two lists of texts have the same
  encoding only if they are the same list, whatever quotes, backslashes, slashes and control
  characters they contain.\<close>
theorem hashed_text_unambiguous:
  "json_encode_escaping_slashes xs = json_encode_escaping_slashes ys \<longleftrightarrow> xs = ys"
proof
  assume "json_encode_escaping_slashes xs = json_encode_escaping_slashes ys"
  then have "CHR ''['' # join '','' (map json_text xs) @ '']'' = CHR ''['' # join '','' (map json_text ys) @ '']''"
    unfolding json_encode_escaping_slashes_def by (metis unslash_replace)
  then show "xs = ys" using json_list_inject by simp
qed simp

section \<open>Printed amounts\<close>

lemma digit_value_char [simp]: "(n :: nat) < 10 \<Longrightarrow> digit_value (char_of (48 + n)) = Some n"
  by (simp add: digit_value_def)

lemma is_digit_char [simp]: "(n :: nat) < 10 \<Longrightarrow> is_digit (char_of (48 + n))"
  by (simp add: is_digit_def)

lemma digit_range: "is_digit c \<longleftrightarrow> 48 \<le> (of_char c :: nat) \<and> of_char c \<le> (57 :: nat)"
  by (auto simp: is_digit_def digit_value_def Let_def)

lemma digits_of_nat_digits: "list_all is_digit (digits_of_nat n) \<and> digits_of_nat n \<noteq> []"
proof (induction n rule: less_induct)
  case (less n)
  then show ?case by (subst (1 2) digits_of_nat.simps) auto
qed

lemma nat_of_digits_snoc: "nat_of_digits (s @ [char_of (48 + d)]) = 10 * nat_of_digits s + d" if "d < 10"
  using that by (simp add: nat_of_digits_def)

lemma nat_of_digits_of_nat [simp]: "nat_of_digits (digits_of_nat n) = n"
proof (induction n rule: less_induct)
  case (less n)
  show ?case
  proof (cases "n < 10")
    case True
    then show ?thesis
      using nat_of_digits_snoc [OF True, of "[]"] by (subst digits_of_nat.simps) (simp add: nat_of_digits_def)
  next
    case False
    then show ?thesis
      using less.IH [of "n div 10"] by (subst digits_of_nat.simps) (simp add: nat_of_digits_snoc)
  qed
qed

lemma span_digits_append: "list_all is_digit ds \<Longrightarrow> span_digits (ds @ r) = (ds @ fst (span_digits r), snd (span_digits r))"
  by (induction ds) (auto simp: span_digits_def)

lemma strip_id:
  assumes "s \<noteq> []" "\<not> is_space (hd s)" "\<not> is_space (List.last s)"
  shows "strip s = s"
proof -
  have id: "lstrip u = u" if "u \<noteq> []" "\<not> is_space (hd u)" for u
    using that by (cases u) (auto simp: lstrip_def)
  have "hd (rev s) = List.last s" using assms(1) by (simp add: hd_rev)
  then show ?thesis using assms by (simp add: strip_def id)
qed

lemma digit_not_special:
  assumes "is_digit c"
  shows "\<not> is_space c" "c \<noteq> CHR ''_''" "to_lower_char c = c" "c \<noteq> CHR ''i''" "c \<noteq> CHR ''n''" "c \<noteq> CHR ''s''"
    "c \<noteq> CHR ''-''" "c \<noteq> CHR ''+''"
  using assms by (auto simp: digit_range is_space_def to_lower_char_def Let_def)

definition amount_text :: "bool \<Rightarrow> nat \<Rightarrow> string" where
  "amount_text neg n = (if neg then ''-'' else []) @ digits_of_nat (n div 100) @ ''.'' @
        [char_of (48 + n mod 100 div 10), char_of (48 + n mod 10)]"

lemma cents_digits: "10 * (10 * (n div 100) + n mod 100 div 10) + n mod 10 = (n :: nat)"
proof -
  have sum: "a * 100 + m = n \<Longrightarrow> b * 10 + c = m \<Longrightarrow> 10 * (10 * a + b) + c = n" for a b c m :: nat
    by simp
  have "n mod 100 mod 10 = n mod 10" by (rule mod_mod_cancel) simp
  then show ?thesis using sum [OF div_mult_mod_eq [of n 100] div_mult_mod_eq [of "n mod 100" 10]] by simp
qed

lemma read_amount:
  "read_number neg (digits_of_nat (n div 100) @ ''.'' @ [char_of (48 + n mod 100 div 10), char_of (48 + n mod 10)]) =
     Some (Finite ((if neg then -1 else 1) * of_nat n / 100))"
proof -
  let ?a = "n mod 100 div 10" and ?b = "n mod 10"
  have ab: "?a < 10" "?b < 10" by simp_all
  have whole: "span_digits (digits_of_nat (n div 100) @ ''.'' @ [char_of (48 + ?a), char_of (48 + ?b)]) =
      (digits_of_nat (n div 100), ''.'' @ [char_of (48 + ?a), char_of (48 + ?b)])"
    using digits_of_nat_digits [of "n div 100"]
    by (simp add: span_digits_append) (simp add: span_digits_def digit_range)
  have fr: "read_fraction (''.'' @ [char_of (48 + ?a), char_of (48 + ?b)]) = ([char_of (48 + ?a), char_of (48 + ?b)], [])"
    using is_digit_char [OF ab(1)] is_digit_char [OF ab(2)] by (simp add: read_fraction_def span_digits_def)
  have "nat_of_digits (digits_of_nat (n div 100) @ [char_of (48 + ?a), char_of (48 + ?b)]) =
      10 * (10 * (n div 100) + ?a) + ?b"
    using nat_of_digits_snoc [OF ab(2), of "digits_of_nat (n div 100) @ [char_of (48 + ?a)]"]
      nat_of_digits_snoc [OF ab(1), of "digits_of_nat (n div 100)"] by simp
  also have "\<dots> = n" by (rule cents_digits)
  finally have "nat_of_digits (digits_of_nat (n div 100) @ [char_of (48 + ?a), char_of (48 + ?b)]) = n" .
  then show ?thesis
    by (simp add: read_number_def whole [simplified] fr [simplified] read_exponent_def ten_power_def)
qed

lemma parse_amount_text:
  "parse_decimal (amount_text neg n) = Some (Finite ((if neg then -1 else 1) * of_nat n / 100))"
proof -
  obtain d ds where d: "digits_of_nat (n div 100) = d # ds" "is_digit d" "list_all is_digit ds"
    using digits_of_nat_digits [of "n div 100"] by (cases "digits_of_nat (n div 100)") auto
  let ?e = "[char_of (48 + n mod 100 div 10), char_of (48 + n mod 10)]"
  have e: "is_digit (char_of (48 + n mod 100 div 10))" "is_digit (char_of (48 + n mod 10))"
    by (rule is_digit_char, simp)+
  let ?r = "digits_of_nat (n div 100) @ ''.'' @ ?e"
  have "\<not> is_space CHR ''-''" by (simp add: is_space_def)
  then have strip: "strip (amount_text neg n) = amount_text neg n"
    using d digit_not_special(1) [OF d(2)] digit_not_special(1) [OF e(2)] by (intro strip_id) (auto simp: amount_text_def)
  have "c \<noteq> CHR ''_''" if "c \<in> set (digits_of_nat k)" for c k
    using digits_of_nat_digits [of k] that digit_not_special(2) [of c] unfolding list_all_iff by blast
  then have "filter (\<lambda>c. c \<noteq> CHR ''_'') (digits_of_nat k) = digits_of_nat k" for k
    unfolding filter_id_conv by blast
  then have clean: "filter (\<lambda>c. c \<noteq> CHR ''_'') (amount_text neg n) = amount_text neg n"
    using digit_not_special(2) [OF e(1)] digit_not_special(2) [OF e(2)] unfolding amount_text_def by simp
  have sign: "read_sign (amount_text neg n) = (neg, ?r)"
    using digit_not_special(7,8) [OF d(2)] by (simp add: read_sign_def amount_text_def d(1))
  have low: "\<exists>t. lower ?r = d # t" using digit_not_special(3) [OF d(2)] by (simp add: d(1) lower_def)
  then have "lower ?r \<noteq> ''inf''" "lower ?r \<noteq> ''infinity''" "take 3 (lower ?r) \<noteq> ''nan''" "take 4 (lower ?r) \<noteq> ''snan''"
    using digit_not_special(4-6) [OF d(2)] by auto
  then show ?thesis
    unfolding parse_decimal_def Let_def strip clean sign prod.case by (simp only: read_amount) simp
qed

text \<open>The amount in cents that the text of an amount stands for.\<close>

definition cents_of :: "rat \<Rightarrow> rat" where
  "cents_of x = (if x < 0 then -1 else 1) * of_int (round_half_even (\<bar>x\<bar> * 100)) / 100"

lemma round_half_even_nonneg: "0 \<le> x \<Longrightarrow> 0 \<le> round_half_even x"
  by (auto simp: round_half_even_def Let_def)

lemma round_half_even_bounds: "of_int (round_half_even x) \<le> x + 1 / 2" "x - 1 / 2 \<le> of_int (round_half_even x)"
  by (auto simp: round_half_even_def Let_def) linarith+

lemma format_cents_text: "format_cents x = amount_text (x < 0) (nat (round_half_even (\<bar>x\<bar> * 100)))"
  by (simp add: format_cents_def amount_text_def Let_def)

lemma decimal_of_format_cents: "decimal_of_text (format_cents x) = Inr (cents_of x)"
  by (simp add: format_cents_text decimal_of_text_def parse_amount_text cents_of_def round_half_even_nonneg)

lemma cents_of_close: "\<bar>cents_of x - x\<bar> \<le> 1 / 200"
  using round_half_even_bounds [of "\<bar>x\<bar> * 100"] by (auto simp: cents_of_def abs_if field_simps)

text \<open>The amount text of a parsed entry reads back, without an exception, as the amount rounded
  to cents: at most half a cent away from the amount the bank gave.\<close>
theorem amount_text_roundtrip:
  "\<exists>c. decimal_of_text (format_cents x) = Inr (of_int c / 100) \<and> \<bar>of_int c / 100 - x\<bar> \<le> 1 / 200"
proof -
  have "cents_of x = of_int ((if x < 0 then -1 else 1) * round_half_even (\<bar>x\<bar> * 100)) / 100"
    by (simp add: cents_of_def)
  then show ?thesis using decimal_of_format_cents [of x] cents_of_close [of x] by metis
qed

end
