(* ===== verification/P4x_Import_Properties.thy ===== *)
theory P4x_Import_Properties
  imports Import_Text P4x_Category_Properties
begin

text \<open>
  What the import promises: the table afterwards is the table before, with each entry's row
  written, set aside or added by its hash; importing the same file again changes nothing; and
  the stored filter hits are current after it.
\<close>

section \<open>The import as a list of hashed entries\<close>

type_synonym hashed = "string \<times> payload \<times> decimal"

fun hash_entries :: "(string \<Rightarrow> string) \<Rightarrow> (json \<Rightarrow> string) \<Rightarrow> (payload \<times> json) list \<Rightarrow> counters \<Rightarrow> exc + hashed list" where
  "hash_entries sha repr [] seen = Inr []"
| "hash_entries sha repr ((p, struct) # ps) seen =
     bind_res (decimal_of_text (p_amount p)) (\<lambda>a.
     if a = 0 then hash_entries sha repr ps seen
     else
       bind_res (date_to_carbon_json (p_booking p) (struct_text repr struct ''booking'')) (\<lambda>b.
       bind_res (date_to_carbon_json (p_valuation p) (struct_text repr struct ''valuation'')) (\<lambda>v.
       case distinguish_repeated_entry sha (compute_transaction_hash sha b v (p_iban p) (p_amount p) (p_subject p))
              seen (\<lambda>_. 0) of (h, seen', _) \<Rightarrow>
         bind_res (hash_entries sha repr ps seen') (\<lambda>hs. Inr ((h, p, a) # hs)))))"

definition apply_hashed :: "instant \<Rightarrow> p4x_account \<Rightarrow> hashed \<Rightarrow> import_state \<Rightarrow> import_state" where
  "apply_hashed now account x st = import_hashed now account (fst x) (fst (snd x)) (snd (snd x)) st"

text \<open>States that agree up to the counters.\<close>

definition same_rows :: "import_state \<Rightarrow> import_state \<Rightarrow> bool" where
  "same_rows s t \<longleftrightarrow> i_db s = i_db t \<and> i_pending s = i_pending t"

lemma same_rows_refl [simp]: "same_rows s s"
  by (simp add: same_rows_def)

lemma import_hashed_same_rows:
  "same_rows s t \<Longrightarrow> same_rows (import_hashed now account h p a s) (import_hashed now account h p a t)"
  by (auto simp: same_rows_def import_hashed_def Let_def fresh_id_def split: option.splits)

lemma fold_apply_same_rows:
  "same_rows s t \<Longrightarrow> same_rows (fold (apply_hashed now account) hs s) (fold (apply_hashed now account) hs t)"
  by (induction hs arbitrary: s t) (auto simp: apply_hashed_def import_hashed_same_rows)

lemma import_hashed_seen [simp]: "i_seen (import_hashed now account h p a st) = i_seen st"
  by (auto simp: import_hashed_def Let_def fresh_id_def split: option.splits)

lemma distinguish_summary:
  "fst (distinguish_repeated_entry sha h seen s) = fst (distinguish_repeated_entry sha h seen (\<lambda>_. 0))"
  "fst (snd (distinguish_repeated_entry sha h seen s)) = fst (snd (distinguish_repeated_entry sha h seen (\<lambda>_. 0)))"
  by (simp_all add: distinguish_repeated_entry_def Let_def)

text \<open>The loop of the import is hashing, which may raise, and then applying, which does not.\<close>

definition loop_matches ::
  "instant \<Rightarrow> p4x_account \<Rightarrow> exc + hashed list \<Rightarrow> import_state \<Rightarrow> exc + import_state \<Rightarrow> bool" where
  "loop_matches now account r st res \<longleftrightarrow>
     (case r of Inl e \<Rightarrow> res = Inl e
      | Inr hs \<Rightarrow> \<exists>st'. res = Inr st' \<and> same_rows st' (fold (apply_hashed now account) hs st))"

lemma loop_matches_shift:
  assumes "loop_matches now account r st1 res" "same_rows st1 st2"
  shows "loop_matches now account r st2 res"
  using assms(1) fold_apply_same_rows [OF assms(2)]
  by (auto simp: loop_matches_def same_rows_def split: sum.splits)

lemma loop_matches_Cons:
  assumes "loop_matches now account r (apply_hashed now account x st) res"
  shows "loop_matches now account (bind_res r (\<lambda>hs. Inr (x # hs))) st res"
  using assms by (auto simp: loop_matches_def split: sum.splits)

lemma import_loop:
  "loop_matches now account (hash_entries sha repr ps (i_seen st)) st
     (fold_res (import_entry sha repr now account) ps st)"
proof (induction ps arbitrary: st)
  case Nil
  then show ?case by (simp add: loop_matches_def)
next
  case (Cons q rest)
  obtain p struct where q: "q = (p, struct)" by (cases q)
  let ?st0 = "st\<lparr>i_summary := count_up ''giventotal'' (i_summary st)\<rparr>"
  show ?case
  proof (cases "decimal_of_text (p_amount p)")
    case (Inl e)
    then show ?thesis by (simp add: q import_entry_def loop_matches_def)
  next
    case a: (Inr a)
    show ?thesis
    proof (cases "a = 0")
      case True
      let ?st1 = "?st0\<lparr>i_summary := count_up ''zero_skipped'' (i_summary ?st0)\<rparr>"
      have step: "import_entry sha repr now account q st = Inr ?st1"
        using a True by (simp add: q import_entry_def)
      have h: "hash_entries sha repr (q # rest) (i_seen st) = hash_entries sha repr rest (i_seen ?st1)"
        using a True by (simp add: q)
      show ?thesis
        unfolding h fold_res.simps step bind_res_simps
        by (rule loop_matches_shift [OF Cons.IH]) (simp add: same_rows_def)
    next
      case False
      let ?B = "date_to_carbon_json (p_booking p) (struct_text repr struct ''booking'')"
      let ?V = "date_to_carbon_json (p_valuation p) (struct_text repr struct ''valuation'')"
      show ?thesis
      proof (cases ?B; cases ?V)
        fix b v assume bv: "?B = Inr b" "?V = Inr v"
        let ?h = "compute_transaction_hash sha b v (p_iban p) (p_amount p) (p_subject p)"
        obtain h seen' s' where d: "distinguish_repeated_entry sha ?h (i_seen st) (i_summary ?st0) = (h, seen', s')"
          by (metis prod_cases3)
        obtain s'' where d0: "distinguish_repeated_entry sha ?h (i_seen st) (\<lambda>_. 0) = (h, seen', s'')"
          using distinguish_summary [of sha ?h "i_seen st" "i_summary ?st0"] d by (metis prod.collapse fst_conv snd_conv)
        let ?st1 = "?st0\<lparr>i_seen := seen', i_summary := s'\<rparr>"
        let ?st2 = "import_hashed now account h p a ?st1"
        have step: "import_entry sha repr now account q st = Inr ?st2"
          using a False bv d by (simp add: q import_entry_def)
        have seen: "i_seen ?st2 = seen'" by simp
        have h: "hash_entries sha repr (q # rest) (i_seen st) =
            bind_res (hash_entries sha repr rest (i_seen ?st2)) (\<lambda>hs. Inr ((h, p, a) # hs))"
          unfolding seen using a False bv d0 by (simp add: q)
        have "same_rows ?st2 (apply_hashed now account (h, p, a) st)"
          unfolding apply_hashed_def fst_conv snd_conv by (rule import_hashed_same_rows) (simp add: same_rows_def)
        then show ?thesis
          unfolding h fold_res.simps step bind_res_simps
          by (intro loop_matches_Cons loop_matches_shift [OF Cons.IH])
      qed (use a False in \<open>simp_all add: q import_entry_def loop_matches_def\<close>)
    qed
  qed
qed

section \<open>The table after the import\<close>

definition early :: "p4x_account \<Rightarrow> payload \<Rightarrow> bool" where
  "early account p \<longleftrightarrow> (case acc_init_date account of None \<Rightarrow> False | Some d \<Rightarrow> p_booking p < d)"

text \<open>What happens to a row that is in the table, by the entry with its hash.\<close>

definition imported :: "instant \<Rightarrow> p4x_account \<Rightarrow> hashed list \<Rightarrow> p4x_transaction \<Rightarrow> p4x_transaction" where
  "imported now account hs t =
     (case map_of hs (sha256_hash t) of None \<Rightarrow> t
      | Some (p, a) \<Rightarrow> if early account p then t\<lparr>tx_deleted_at := Some now\<rparr>
                      else write_entry (acc_id account) p a t)"

lemma write_entry_frame [simp]:
  "sha256_hash (write_entry k p a t) = sha256_hash t" "tx_id (write_entry k p a t) = tx_id t"
  "amount (write_entry k p a t) = a" "tx_deleted_at (write_entry k p a t) = None"
  "write_entry k p a (write_entry k p a t) = write_entry k p a t"
  by (simp_all add: write_entry_def)

lemma blank_tx_frame [simp]: "tx_id (blank_tx i h) = i" "sha256_hash (blank_tx i h) = h"
  by (simp_all add: blank_tx_def)

lemma imported_frame [simp]:
  "sha256_hash (imported now account hs t) = sha256_hash t" "tx_id (imported now account hs t) = tx_id t"
  by (auto simp: imported_def split: option.splits)

lemma update_by_id:
  assumes "distinct (map sha256_hash txs)" "distinct (map tx_id txs)" "t \<in> set txs" "sha256_hash t = h"
  shows "update_where (\<lambda>u. tx_id u = tx_id t) w txs = update_where (\<lambda>u. sha256_hash u = h) w txs"
proof -
  have "tx_id u = tx_id t \<longleftrightarrow> sha256_hash u = h" if "u \<in> set txs" for u
    using assms that by (auto simp: distinct_map inj_on_def)
  then show ?thesis by (auto simp: update_where_def)
qed

lemma imported_Cons:
  assumes "h \<notin> fst ` set hs" "sha256_hash (w t) = sha256_hash t"
    and "w = (if early account p then (\<lambda>t. t\<lparr>tx_deleted_at := Some now\<rparr>) else write_entry (acc_id account) p a)"
  shows "imported now account hs (if sha256_hash t = h then w t else t) = imported now account ((h, p, a) # hs) t"
proof -
  have none: "map_of hs h = None" using assms(1) by (simp add: map_of_eq_None_iff)
  show ?thesis
    by (cases "sha256_hash t = h"; simp add: imported_def none assms(2,3))
qed

text \<open>The rows that are added: one for each entry on or after the start whose hash is new.\<close>

definition is_new :: "p4x_db \<Rightarrow> p4x_account \<Rightarrow> hashed \<Rightarrow> bool" where
  "is_new db account x \<longleftrightarrow> \<not> early account (fst (snd x)) \<and> fst x \<notin> sha256_hash ` set (transactions db)"

definition new_row :: "p4x_account \<Rightarrow> hashed \<Rightarrow> p4x_transaction \<Rightarrow> bool" where
  "new_row account x r \<longleftrightarrow> (\<exists>i. r = write_entry (acc_id account) (fst (snd x)) (snd (snd x)) (blank_tx i (fst x)))"

lemma apply_hashed_step:
  assumes "distinct (map sha256_hash (transactions (i_db st)))" "distinct (map tx_id (transactions (i_db st)))"
    and w: "w = (if early account p then (\<lambda>t. t\<lparr>tx_deleted_at := Some now\<rparr>) else write_entry (acc_id account) p a)"
  shows "\<exists>n rows. i_db (apply_hashed now account (h, p, a) st) = (i_db st)\<lparr>
        transactions := map (\<lambda>t. if sha256_hash t = h then w t else t) (transactions (i_db st)), next_id := n\<rparr> \<and>
      i_pending (apply_hashed now account (h, p, a) st) = i_pending st @ rows \<and>
      next_id (i_db st) \<le> n \<and> map tx_id rows = [next_id (i_db st)..<n] \<and>
      list_all2 (new_row account) (filter (is_new (i_db st) account) [(h, p, a)]) rows"
proof (cases "early account p")
  case True
  have e: "case acc_init_date account of None \<Rightarrow> False | Some d \<Rightarrow> p_booking p < d"
    using True by (simp add: early_def)
  have "apply_hashed now account (h, p, a) st = st\<lparr>i_db := (i_db st)\<lparr>transactions :=
        map (\<lambda>t. if sha256_hash t = h then w t else t) (transactions (i_db st))\<rparr>,
      i_summary := count_up ''before_init_date'' (i_summary st)\<rparr>"
    using True unfolding apply_hashed_def import_hashed_def Let_def fst_conv snd_conv if_P [OF e]
    by (simp add: w update_where_def)
  then show ?thesis
    using True by (intro exI [of _ "next_id (i_db st)"] exI [of _ "[]"]) (simp add: is_new_def)
next
  case False
  have e: "\<not> (case acc_init_date account of None \<Rightarrow> False | Some d \<Rightarrow> p_booking p < d)"
    using False by (simp add: early_def)
  show ?thesis
  proof (cases "List.find (\<lambda>t. sha256_hash t = h) (transactions (i_db st))")
    case (Some t)
    then have t: "t \<in> set (transactions (i_db st))" "sha256_hash t = h" using find_SomeD by fast+
    have "apply_hashed now account (h, p, a) st = st\<lparr>i_db := (i_db st)\<lparr>transactions :=
        map (\<lambda>t. if sha256_hash t = h then w t else t) (transactions (i_db st))\<rparr>,
        i_summary := count_up (status_of account t) (i_summary st)\<rparr>"
      using False Some update_by_id [OF assms(1,2) t]
      unfolding apply_hashed_def import_hashed_def Let_def fst_conv snd_conv if_not_P [OF e]
      by (simp add: w update_where_def)
    moreover have "\<not> is_new (i_db st) account (h, p, a)" using t by (force simp: is_new_def)
    ultimately show ?thesis
      by (intro exI [of _ "next_id (i_db st)"] exI [of _ "[]"]) simp
  next
    case None
    then have no: "\<forall>t \<in> set (transactions (i_db st)). sha256_hash t \<noteq> h" by (simp add: find_None_iff)
    then have same: "map (\<lambda>t. if sha256_hash t = h then w t else t) (transactions (i_db st)) = transactions (i_db st)"
      by (intro map_idI) simp
    let ?row = "write_entry (acc_id account) p a (blank_tx (next_id (i_db st)) h)"
    have "apply_hashed now account (h, p, a) st = st\<lparr>i_db := (i_db st)\<lparr>next_id := Suc (next_id (i_db st))\<rparr>,
        i_pending := i_pending st @ [?row], i_summary := count_up ''new'' (i_summary st)\<rparr>"
      using None unfolding apply_hashed_def import_hashed_def Let_def fst_conv snd_conv if_not_P [OF e]
      by (simp add: fresh_id_def)
    moreover have "is_new (i_db st) account (h, p, a)" using no False by (auto simp: is_new_def)
    moreover have "new_row account (h, p, a) ?row" by (auto simp: new_row_def)
    ultimately show ?thesis
      unfolding same by (intro exI [of _ "Suc (next_id (i_db st))"] exI [of _ "[?row]"]) simp
  qed
qed

lemma apply_all_hashed:
  assumes "distinct (map sha256_hash (transactions (i_db st)))" "distinct (map tx_id (transactions (i_db st)))"
    and "distinct (map fst hs)"
  shows "\<exists>n rows. i_db (fold (apply_hashed now account) hs st) = (i_db st)\<lparr>
        transactions := map (imported now account hs) (transactions (i_db st)), next_id := n\<rparr> \<and>
      i_pending (fold (apply_hashed now account) hs st) = i_pending st @ rows \<and>
      next_id (i_db st) \<le> n \<and> map tx_id rows = [next_id (i_db st)..<n] \<and>
      list_all2 (new_row account) (filter (is_new (i_db st) account) hs) rows"
  using assms
proof (induction hs arbitrary: st)
  case Nil
  have "map (imported now account []) txs = txs" for txs by (rule map_idI) (simp add: imported_def)
  then show ?case by (intro exI [of _ "next_id (i_db st)"] exI [of _ "[]"]) simp
next
  case (Cons x hs)
  obtain h p a where x: "x = (h, p, a)" by (cases x) auto
  define w where "w = (if early account p then (\<lambda>t. t\<lparr>tx_deleted_at := Some now\<rparr>) else write_entry (acc_id account) p a)"
  have keys: "sha256_hash (w t) = sha256_hash t" "tx_id (w t) = tx_id t" for t by (simp_all add: w_def)
  let ?st1 = "apply_hashed now account x st"
  obtain n1 rows1 where one: "i_db ?st1 = (i_db st)\<lparr>
        transactions := map (\<lambda>t. if sha256_hash t = h then w t else t) (transactions (i_db st)), next_id := n1\<rparr>"
      "i_pending ?st1 = i_pending st @ rows1"
      "next_id (i_db st) \<le> n1" "map tx_id rows1 = [next_id (i_db st)..<n1]"
      "list_all2 (new_row account) (filter (is_new (i_db st) account) [x]) rows1"
    using apply_hashed_step [OF Cons.prems(1,2) w_def] unfolding x by blast
  have sha: "map sha256_hash (transactions (i_db ?st1)) = map sha256_hash (transactions (i_db st))"
      "map tx_id (transactions (i_db ?st1)) = map tx_id (transactions (i_db st))"
    by (simp_all add: one(1) comp_def keys if_distrib [of sha256_hash] if_distrib [of tx_id])
  have "sha256_hash ` set (transactions (i_db ?st1)) = sha256_hash ` set (transactions (i_db st))"
    using arg_cong [OF sha(1), of set] by (simp only: list.set_map)
  then have new: "is_new (i_db ?st1) account = is_new (i_db st) account"
    by (intro ext) (simp only: is_new_def)
  have rest: "distinct (map fst hs)" "h \<notin> fst ` set hs" using Cons.prems(3) by (simp_all add: x)
  have d: "distinct (map sha256_hash (transactions (i_db ?st1)))" "distinct (map tx_id (transactions (i_db ?st1)))"
    unfolding sha by (rule Cons.prems(1), rule Cons.prems(2))
  obtain n rows where IH: "i_db (fold (apply_hashed now account) hs ?st1) = (i_db ?st1)\<lparr>
        transactions := map (imported now account hs) (transactions (i_db ?st1)), next_id := n\<rparr>"
      "i_pending (fold (apply_hashed now account) hs ?st1) = i_pending ?st1 @ rows"
      "next_id (i_db ?st1) \<le> n" "map tx_id rows = [next_id (i_db ?st1)..<n]"
      "list_all2 (new_row account) (filter (is_new (i_db ?st1) account) hs) rows"
    using Cons.IH [OF d rest(1)] by blast
  have "map (imported now account hs) (transactions (i_db ?st1)) = map (imported now account (x # hs)) (transactions (i_db st))"
    unfolding one(1) using imported_Cons [OF rest(2) keys(1) w_def] by (simp add: x)
  moreover have "list_all2 (new_row account) (filter (is_new (i_db st) account) (x # hs)) (rows1 @ rows)"
    using list_all2_appendI [OF one(5) IH(5)] unfolding new by (simp split: if_splits)
  moreover have "next_id (i_db ?st1) = n1" by (simp add: one(1))
  then have "next_id (i_db st) \<le> n" "map tx_id (rows1 @ rows) = [next_id (i_db st)..<n]"
    using one(3,4) IH(3,4) upt_add_eq_append [of "next_id (i_db st)" n1 "n - n1"] by simp_all
  ultimately show ?case
    using IH(1,2) one(1,2) by (intro exI [of _ n] exI [of _ "rows1 @ rows"]) simp
qed

text \<open>What a successful import leaves in the table.\<close>

lemma import_rows:
  assumes keys: "distinct (map sha256_hash (transactions db))" "distinct (map tx_id (transactions db))"
    and res: "import_transactions sha repr now db account entries structs = Inr (db', summary)"
    and hs: "hash_entries sha repr (zip entries structs) (\<lambda>_. 0) = Inr hs" "distinct (map fst hs)"
  shows "\<exists>n rows. db' = db\<lparr>transactions := map (imported now account hs) (transactions db) @ rows, next_id := n\<rparr> \<and>
    list_all2 (new_row account) (filter (is_new db account) hs) rows \<and>
    next_id db \<le> n \<and> map tx_id rows = [next_id db..<n] \<and>
    list_all (\<lambda>t. to_numeric (amount t) = Inr (amount t)) (transactions db') \<and>
    distinct (map sha256_hash (transactions db'))"
proof -
  let ?st0 = "\<lparr>i_db = db, i_pending = [], i_seen = (\<lambda>_. 0), i_summary = (\<lambda>_. 0)\<rparr>"
  have "loop_matches now account (Inr hs) ?st0
      (fold_res (import_entry sha repr now account) (zip entries structs) ?st0)"
    using import_loop [of now account sha repr "zip entries structs" ?st0] hs(1) by simp
  then obtain st' where loop: "fold_res (import_entry sha repr now account) (zip entries structs) ?st0 = Inr st'"
      "same_rows st' (fold (apply_hashed now account) hs ?st0)"
    by (auto simp: loop_matches_def)
  obtain n rows where closed: "i_db st' = db\<lparr>transactions := map (imported now account hs) (transactions db), next_id := n\<rparr>"
      "i_pending st' = rows" "list_all2 (new_row account) (filter (is_new db account) hs) rows"
      "next_id db \<le> n" "map tx_id rows = [next_id db..<n]"
    using apply_all_hashed [of ?st0 hs now account] keys hs(2) loop(2) by (auto simp: same_rows_def)
  have "flush_transactions (i_db st') rows = Inr db'"
    using res loop(1) closed(2) by (auto simp: import_transactions_def bind_res_eq_Inr)
  then have "list_all (\<lambda>t. to_numeric (amount t) = Inr (amount t)) (transactions (i_db st') @ rows)"
      "distinct (map sha256_hash (transactions (i_db st') @ rows))"
      "db' = (i_db st')\<lparr>transactions := transactions (i_db st') @ rows\<rparr>"
    unfolding flush_transactions_def by (simp_all split: if_split_asm)
  then show ?thesis using closed(1,3-5) by (intro exI [of _ n] exI [of _ rows]) simp
qed

lemma new_row_key: "new_row account x r \<Longrightarrow> sha256_hash r = fst x"
  by (auto simp: new_row_def blank_tx_def)

lemma new_row_of:
  assumes "list_all2 (new_row account) xs rows" "x \<in> set xs"
  shows "\<exists>r \<in> set rows. new_row account x r"
  using assms by (metis list_all2_conv_all_nth in_set_conv_nth)

lemma row_of_new:
  assumes "list_all2 (new_row account) xs rows" "r \<in> set rows"
  shows "\<exists>x \<in> set xs. new_row account x r"
  using assms by (metis list_all2_conv_all_nth in_set_conv_nth)

definition entry_row :: "p4x_account \<Rightarrow> payload \<Rightarrow> decimal \<Rightarrow> p4x_transaction \<Rightarrow> bool" where
  "entry_row account p a t \<longleftrightarrow> tx_active t \<and> tx_account_id t = acc_id account \<and> booking t = p_booking p \<and>
     valuation t = p_valuation p \<and> tx_iban t = p_iban p \<and> amount t = a \<and> subject t = p_subject p"

lemma entry_row_written: "entry_row account p a (write_entry (acc_id account) p a t)"
  by (simp add: entry_row_def write_entry_def tx_active_def)

text \<open>C5: What a successful import of a file leaves in the table, when the hashes of the file's
  entries are distinct: an entry before the account's start is set aside if its row is there and is
  not stored otherwise; every other entry has an active row with its hash and exactly its date,
  valuation, IBAN, amount and text; rows with other hashes are unchanged, no other hash appears and
  hashes stay unique.\<close>
theorem import_result:
  assumes keys: "distinct (map sha256_hash (transactions db))" "distinct (map tx_id (transactions db))"
    and res: "import_transactions sha repr now db account entries structs = Inr (db', summary)"
    and hs: "hash_entries sha repr (zip entries structs) (\<lambda>_. 0) = Inr hs" "distinct (map fst hs)"
  shows "(\<forall>(h, p, a) \<in> set hs. if early account p
      then \<forall>t \<in> set (transactions db'). sha256_hash t = h \<longrightarrow> \<not> tx_active t
      else \<exists>t \<in> set (transactions db'). sha256_hash t = h \<and> entry_row account p a t) \<and>
    (\<forall>t \<in> set (transactions db). sha256_hash t \<notin> fst ` set hs \<longrightarrow> t \<in> set (transactions db')) \<and>
    sha256_hash ` set (transactions db') \<subseteq> sha256_hash ` set (transactions db) \<union> fst ` set hs \<and>
    distinct (map sha256_hash (transactions db'))"
proof -
  obtain n rows where r: "db' = db\<lparr>transactions := map (imported now account hs) (transactions db) @ rows, next_id := n\<rparr>"
      "list_all2 (new_row account) (filter (is_new db account) hs) rows"
      "distinct (map sha256_hash (transactions db'))"
    using import_rows [OF keys res hs] by blast
  have txs: "set (transactions db') = imported now account hs ` set (transactions db) \<union> set rows" by (simp add: r(1))
  have known: "map_of hs h = Some (p, a)" if "(h, p, a) \<in> set hs" for h p a
    using map_of_is_SomeI [OF hs(2) that] .
  have row_hash: "\<exists>x \<in> set hs. sha256_hash t = fst x \<and> \<not> early account (fst (snd x))" if "t \<in> set rows" for t
    using row_of_new [OF r(2) that] new_row_key unfolding set_filter is_new_def mem_Collect_eq by blast
  have entry: "if early account p
      then \<forall>t \<in> set (transactions db'). sha256_hash t = h \<longrightarrow> \<not> tx_active t
      else \<exists>t \<in> set (transactions db'). sha256_hash t = h \<and> entry_row account p a t" if x: "(h, p, a) \<in> set hs" for h p a
  proof (cases "early account p")
    case True
    have "\<not> tx_active t" if tm: "t \<in> set (transactions db')" and th: "sha256_hash t = h" for t
    proof (cases "t \<in> set rows")
      case t: True
      obtain y where "y \<in> set hs" "fst y = h" "\<not> early account (fst (snd y))" using row_hash [OF t] th by auto
      then show ?thesis using known [OF x] known [of h "fst (snd y)" "snd (snd y)"] True
        by (metis fst_conv option.inject prod.collapse)
    next
      case False
      then obtain u where u: "t = imported now account hs u" "sha256_hash u = h" using tm th txs by auto
      show ?thesis by (simp add: u imported_def known [OF x] True tx_active_def)
    qed
    then show ?thesis using True by simp
  next
    case False
    have "\<exists>t \<in> set (transactions db'). sha256_hash t = h \<and> entry_row account p a t"
    proof (cases "h \<in> sha256_hash ` set (transactions db)")
      case True
      then obtain u where u: "u \<in> set (transactions db)" "sha256_hash u = h" by auto
      then have "imported now account hs u = write_entry (acc_id account) p a u"
        by (simp add: imported_def known [OF x] False)
      then show ?thesis using u txs entry_row_written by (metis UnI1 image_eqI write_entry_frame(1))
    next
      case h: False
      then have "(h, p, a) \<in> set (filter (is_new db account) hs)" using x False by (simp add: is_new_def)
      from new_row_of [OF r(2) this] obtain t where "t \<in> set rows" "new_row account (h, p, a) t" by blast
      then have "entry_row account p a t" "sha256_hash t = h"
        using new_row_key [of account "(h, p, a)" t] by (metis entry_row_written fst_conv new_row_def snd_conv)+
      then show ?thesis using txs \<open>t \<in> set rows\<close> by blast
    qed
    then show ?thesis using False by simp
  qed
  have "t \<in> set (transactions db')" if "t \<in> set (transactions db)" "sha256_hash t \<notin> fst ` set hs" for t
  proof -
    have "map_of hs (sha256_hash t) = None" using that(2) by (simp add: map_of_eq_None_iff)
    then have "imported now account hs t = t" by (simp add: imported_def)
    then show ?thesis using that(1) txs by (metis UnI1 image_eqI)
  qed
  moreover have "sha256_hash ` set (transactions db') \<subseteq> sha256_hash ` set (transactions db) \<union> fst ` set hs"
    unfolding txs using row_hash by auto
  ultimately show ?thesis using entry r(3) by auto
qed


section \<open>Two entries to evaluate on\<close>

definition iso_time :: string where
  "iso_time = ''2024-03-05T00:00:00.000+0100''"

definition struct_of :: "string \<Rightarrow> json" where
  "struct_of t = JDict [(''booking'', JStr t), (''valuation'', JStr t)]"

definition sample_entry :: "string \<Rightarrow> payload" where
  "sample_entry a = \<lparr>p_booking = Date 2024 3 5, p_valuation = Date 2024 3 5, p_iban = ''AT9'', p_amount = a,
     p_subject = ''Rent'', p_raw = []\<rparr>"

definition empty_bank :: p4x_db where
  "empty_bank = bank_db\<lparr>transactions := []\<rparr>"


lemma empty_bank_keys: "distinct (map sha256_hash (transactions empty_bank)) \<and> distinct (map tx_id (transactions empty_bank))"
  by (simp add: empty_bank_def)

abbreviation two_entries :: "payload list" where
  "two_entries \<equiv> [sample_entry ''12.5'', sample_entry ''12.5'']"

abbreviation two_structs :: "json list" where
  "two_structs \<equiv> [struct_of iso_time, struct_of iso_time]"

lemma sample_import:
  "\<exists>db' s hs. import_transactions (\<lambda>s. s) (\<lambda>_. []) 0 empty_bank giro two_entries two_structs = Inr (db', s) \<and>
     hash_entries (\<lambda>s. s) (\<lambda>_. []) (zip two_entries two_structs) (\<lambda>_. 0) = Inr hs \<and> distinct (map fst hs) \<and>
     length hs = 2 \<and> map amount (transactions db') = [25/2, 25/2] \<and> s ''new'' = 2"
proof -
  have "case import_transactions (\<lambda>s. s) (\<lambda>_. []) 0 empty_bank giro two_entries two_structs of Inl _ \<Rightarrow> False
    | Inr (db', s) \<Rightarrow> map amount (transactions db') = [25/2, 25/2] \<and> s ''new'' = 2"
    by code_simp
  moreover have "case hash_entries (\<lambda>s. s) (\<lambda>_. []) (zip two_entries two_structs) (\<lambda>_. 0) of Inl _ \<Rightarrow> False
    | Inr hs \<Rightarrow> distinct (map fst hs) \<and> length hs = 2"
    by code_simp
  ultimately show ?thesis by (fastforce split: sum.splits)
qed

theorem import_result_witness:
  "\<exists>(db' :: p4x_db) hs. length hs = 2 \<and> length (transactions db') = 2 \<and>
     (\<forall>(h, p, a) \<in> set hs. if early giro p
      then \<forall>t \<in> set (transactions db'). sha256_hash t = h \<longrightarrow> \<not> tx_active t
      else \<exists>t \<in> set (transactions db'). sha256_hash t = h \<and> entry_row giro p a t)"
proof -
  obtain db' s hs where x: "import_transactions (\<lambda>s. s) (\<lambda>_. []) 0 empty_bank giro two_entries two_structs = Inr (db', s)"
      "hash_entries (\<lambda>s. s) (\<lambda>_. []) (zip two_entries two_structs) (\<lambda>_. 0) = Inr hs" "distinct (map fst hs)"
      "length hs = 2" "map amount (transactions db') = [25/2, 25/2]"
    by (rule exE [OF sample_import]) (elim exE conjE, rule that)
  have two: "length (transactions db') = 2" using arg_cong [OF x(5), of length] by simp
  note r = import_result [OF conjunct1 [OF empty_bank_keys] conjunct2 [OF empty_bank_keys] x(1-3)]
  show ?thesis by (rule exI, rule exI, rule conjI [OF x(4) conjI [OF two conjunct1 [OF r]]])
qed

section \<open>Importing the file again\<close>

definition counts_new :: "nat \<Rightarrow> import_state \<Rightarrow> bool" where
  "counts_new k st \<longleftrightarrow> length (transactions (i_db st)) = k \<and> i_summary st ''new'' = length (i_pending st)"

lemma counts_new_hashed: "counts_new k st \<Longrightarrow> counts_new k (import_hashed now account h p a st)"
  unfolding import_hashed_def Let_def
  by (simp add: counts_new_def fresh_id_def count_up_def status_of_def split: option.split)

lemma counts_new_entry:
  assumes "counts_new k u" "import_entry sha repr now account x u = Inr v"
  shows "counts_new k v"
proof (cases "decimal_of_text (p_amount (fst x))")
  case (Inl e)
  then show ?thesis using assms(2) by (simp add: import_entry_def)
next
  case a: (Inr a)
  show ?thesis
  proof (cases "a = 0")
    case True
    then show ?thesis using assms a by (auto simp: import_entry_def counts_new_def count_up_def)
  next
    case False
    obtain b w where bw: "date_to_carbon_json (p_booking (fst x)) (struct_text repr (snd x) ''booking'') = Inr b"
        "date_to_carbon_json (p_valuation (fst x)) (struct_text repr (snd x) ''valuation'') = Inr w"
      using assms(2) a False by (auto simp: import_entry_def Let_def bind_res_eq_Inr)
    let ?u = "u\<lparr>i_summary := count_up ''giventotal'' (i_summary u)\<rparr>"
    let ?h = "compute_transaction_hash sha b w (p_iban (fst x)) (p_amount (fst x)) (p_subject (fst x))"
    obtain h seen s where d: "distinguish_repeated_entry sha ?h (i_seen ?u) (i_summary ?u) = (h, seen, s)"
      by (metis prod_cases3)
    have v: "v = import_hashed now account h (fst x) a (?u\<lparr>i_seen := seen, i_summary := s\<rparr>)"
      using assms(2) a False bw d by (simp add: import_entry_def)
    have "s ''new'' = i_summary u ''new''"
      using d by (auto simp: distinguish_repeated_entry_def Let_def count_up_def split: if_split_asm)
    then show ?thesis unfolding v using assms(1) by (intro counts_new_hashed) (simp add: counts_new_def)
  qed
qed

lemma import_counts_new:
  assumes "import_transactions sha repr now db account entries structs = Inr (db', summary)"
  shows "length (transactions db') = length (transactions db) + summary ''new''"
proof -
  let ?st0 = "\<lparr>i_db = db, i_pending = [], i_seen = (\<lambda>_. 0), i_summary = (\<lambda>_. 0)\<rparr>"
  obtain st where st: "fold_res (import_entry sha repr now account) (zip entries structs) ?st0 = Inr st"
      "flush_transactions (i_db st) (i_pending st) = Inr db'" "summary = i_summary st"
    using assms by (auto simp: import_transactions_def bind_res_eq_Inr)
  have "counts_new (length (transactions db)) st"
    by (rule fold_res_invariant [OF st(1)]) (simp add: counts_new_def, rule counts_new_entry)
  then show ?thesis using st(2,3) by (auto simp: counts_new_def flush_transactions_def split: if_split_asm)
qed


definition set_aside :: "instant \<Rightarrow> p4x_account \<Rightarrow> hashed list \<Rightarrow> p4x_transaction \<Rightarrow> p4x_transaction" where
  "set_aside now account hs t =
     (case map_of hs (sha256_hash t) of None \<Rightarrow> t
      | Some (p, a) \<Rightarrow> if early account p then t\<lparr>tx_deleted_at := Some now\<rparr> else t)"

lemma set_aside_frame [simp]: "sha256_hash (set_aside now account hs t) = sha256_hash t"
    "tx_id (set_aside now account hs t) = tx_id t" "amount (set_aside now account hs t) = amount t"
  by (auto simp: set_aside_def split: option.splits)

lemma imported_after_imported:
  "imported now' account hs (imported now account hs t) = set_aside now' account hs (imported now account hs t)"
  by (cases "map_of hs (sha256_hash t)") (auto simp: imported_def set_aside_def)

lemma imported_after_new:
  assumes "new_row account x r" "x \<in> set hs" "distinct (map fst hs)" "\<not> early account (fst (snd x))"
  shows "imported now' account hs r = set_aside now' account hs r"
proof -
  obtain h p a where x: "x = (h, p, a)" by (cases x) auto
  have "map_of hs (sha256_hash r) = Some (p, a)"
    using assms(2,3) new_row_key [OF assms(1)] by (simp add: x)
  then show ?thesis using assms(1,4) by (auto simp: imported_def set_aside_def new_row_def x)
qed

lemma import_succeeds:
  assumes keys: "distinct (map sha256_hash (transactions db))" "distinct (map tx_id (transactions db))"
    and hs: "hash_entries sha repr (zip entries structs) (\<lambda>_. 0) = Inr hs" "distinct (map fst hs)"
    and old: "filter (is_new db account) hs = []"
    and amounts: "\<And>t. t \<in> set (transactions db) \<Longrightarrow> to_numeric (amount (imported now account hs t)) = Inr (amount (imported now account hs t))"
  shows "\<exists>summary. import_transactions sha repr now db account entries structs =
    Inr (db\<lparr>transactions := map (imported now account hs) (transactions db)\<rparr>, summary)"
proof -
  let ?st0 = "\<lparr>i_db = db, i_pending = [], i_seen = (\<lambda>_. 0), i_summary = (\<lambda>_. 0)\<rparr>"
  obtain st' where loop: "fold_res (import_entry sha repr now account) (zip entries structs) ?st0 = Inr st'"
      "same_rows st' (fold (apply_hashed now account) hs ?st0)"
    using import_loop [of now account sha repr "zip entries structs" ?st0] hs(1) by (auto simp: loop_matches_def)
  obtain n rows where closed: "i_db st' = db\<lparr>transactions := map (imported now account hs) (transactions db), next_id := n\<rparr>"
      "i_pending st' = rows" "list_all2 (new_row account) (filter (is_new db account) hs) rows"
      "next_id db \<le> n" "map tx_id rows = [next_id db..<n]"
    using apply_all_hashed [of ?st0 hs now account] keys hs(2) loop(2) by (auto simp: same_rows_def)
  have rows: "rows = []" using closed(3) old by simp
  then have "[next_id db..<n] = []" using closed(5) by simp
  then have n: "n = next_id db" using closed(4) by auto
  have "flush_transactions (i_db st') [] = Inr (i_db st')"
    using amounts keys(1) unfolding flush_transactions_def
    by (auto simp: closed(1) n list_all_iff comp_def)
  then show ?thesis using loop(1) closed(1,2) rows n by (simp add: import_transactions_def)
qed

text \<open>C6: Importing a file a second time never stores an entry twice: the second import succeeds,
  adds no row and counts nothing as new, and every row keeps its content; only the rows of entries
  before the account's start are set aside again (with the later time).\<close>
theorem import_again_adds_nothing:
  assumes keys: "distinct (map sha256_hash (transactions db))" "distinct (map tx_id (transactions db))"
      "\<forall>t \<in> set (transactions db). tx_id t < next_id db"
    and first: "import_transactions sha repr now db account entries structs = Inr (db1, s1)"
    and hs: "hash_entries sha repr (zip entries structs) (\<lambda>_. 0) = Inr hs" "distinct (map fst hs)"
  shows "\<exists>s2. import_transactions sha repr now' db1 account entries structs =
      Inr (db1\<lparr>transactions := map (set_aside now' account hs) (transactions db1)\<rparr>, s2) \<and> s2 ''new'' = 0"
proof -
  obtain n rows where r: "db1 = db\<lparr>transactions := map (imported now account hs) (transactions db) @ rows, next_id := n\<rparr>"
      "list_all2 (new_row account) (filter (is_new db account) hs) rows" "map tx_id rows = [next_id db..<n]"
      "list_all (\<lambda>t. to_numeric (amount t) = Inr (amount t)) (transactions db1)"
      "distinct (map sha256_hash (transactions db1))"
    using import_rows [OF keys(1,2) first hs] by blast
  have again: "imported now' account hs t = set_aside now' account hs t" if t: "t \<in> set (transactions db1)" for t
  proof -
    consider u where "t = imported now account hs u" | "t \<in> set rows" using t by (auto simp: r(1))
    then show ?thesis
    proof cases
      case 2
      then obtain x where "x \<in> set (filter (is_new db account) hs)" "new_row account x t"
        using row_of_new [OF r(2)] by blast
      then show ?thesis using imported_after_new [OF _ _ hs(2)] by (auto simp: is_new_def)
    qed (simp add: imported_after_imported)
  qed
  have "set (map tx_id rows) = {next_id db..<n}" by (simp only: r(3) set_upt)
  then have "distinct (map tx_id (transactions db1))"
    using keys(2,3) r(3) by (auto simp: r(1) comp_def)
  moreover have "filter (is_new db1 account) hs = []"
  proof (rule ccontr)
    assume "filter (is_new db1 account) hs \<noteq> []"
    then obtain x where x: "x \<in> set hs" "is_new db1 account x" by (auto simp: filter_empty_conv)
    then have "x \<in> set (filter (is_new db account) hs)" by (auto simp: is_new_def r(1) image_Un image_image)
    then obtain u where "u \<in> set rows" "sha256_hash u = fst x" using new_row_of [OF r(2)] new_row_key by blast
    then have "fst x \<in> sha256_hash ` set (transactions db1)" by (force simp: r(1))
    then show False using x(2) by (simp add: is_new_def)
  qed
  moreover have "to_numeric (amount (imported now' account hs t)) = Inr (amount (imported now' account hs t))"
    if "t \<in> set (transactions db1)" for t
    using r(4) that again [OF that] by (simp add: list_all_iff)
  ultimately obtain s2 where s2: "import_transactions sha repr now' db1 account entries structs =
      Inr (db1\<lparr>transactions := map (imported now' account hs) (transactions db1)\<rparr>, s2)"
    using import_succeeds [OF r(5) _ hs, of account now'] by blast
  have "s2 ''new'' = 0" using import_counts_new [OF s2] by simp
  moreover have "map (imported now' account hs) (transactions db1) = map (set_aside now' account hs) (transactions db1)"
    using again by simp
  ultimately show ?thesis using s2 by (intro exI [of _ s2]) simp
qed

theorem import_again_adds_nothing_witness:
  "\<exists>db1 s2 hs. length hs = 2 \<and> import_transactions (\<lambda>s. s) (\<lambda>_. []) 9 db1 giro two_entries two_structs =
      Inr (db1\<lparr>transactions := map (set_aside 9 giro hs) (transactions db1)\<rparr>, s2) \<and> s2 ''new'' = 0"
proof -
  obtain db' s hs where x: "import_transactions (\<lambda>s. s) (\<lambda>_. []) 0 empty_bank giro two_entries two_structs = Inr (db', s)"
      "hash_entries (\<lambda>s. s) (\<lambda>_. []) (zip two_entries two_structs) (\<lambda>_. 0) = Inr hs" "distinct (map fst hs)" "length hs = 2"
    by (rule exE [OF sample_import]) (elim exE conjE, rule that)
  have ids: "\<forall>t \<in> set (transactions empty_bank). tx_id t < next_id empty_bank" by (simp add: empty_bank_def)
  from import_again_adds_nothing [OF conjunct1 [OF empty_bank_keys] conjunct2 [OF empty_bank_keys] ids x(1-3), of 9]
  obtain s2 where "import_transactions (\<lambda>s. s) (\<lambda>_. []) 9 db' giro two_entries two_structs =
      Inr (db'\<lparr>transactions := map (set_aside 9 giro hs) (transactions db')\<rparr>, s2) \<and> s2 ''new'' = 0" by (elim exE)
  then show ?thesis using x(4) by (intro exI [of _ db'] exI [of _ s2] exI [of _ hs] conjI) simp_all
qed

section \<open>The filters after the import\<close>

text \<open>After an import with its filter run the stored filter hits are again exactly the matches of
  the filters among the active transactions without direct categories.\<close>
theorem import_keeps_hits_current:
  assumes cur: "hits_current db" and keys: "distinct (map sha256_hash (transactions db))"
      "\<forall>t \<in> set (transactions db). tx_id t < next_id db"
    and res: "import_and_apply_filters sha repr now db account entries structs = Inr (db', summary)"
    and hs: "hash_entries sha repr (zip entries structs) (\<lambda>_. 0) = Inr hs" "distinct (map fst hs)"
  shows "hits_current db'"
proof -
  obtain db1 where db1: "import_transactions sha repr now db account entries structs = Inr (db1, summary)"
      "db' = apply_all_category_filters_core False db1"
    using res by (auto simp: import_and_apply_filters_def bind_res_eq_Inr)
  have ids: "distinct (map tx_id (transactions db))" using cur by (simp add: hits_current_def)
  obtain n rows where r: "db1 = db\<lparr>transactions := map (imported now account hs) (transactions db) @ rows, next_id := n\<rparr>"
      "next_id db \<le> n" "map tx_id rows = [next_id db..<n]"
    using import_rows [OF keys(1) ids db1(1) hs] by blast
  have "set (map tx_id rows) = {next_id db..<n}" by (simp only: r(3) set_upt)
  then have d: "distinct (map tx_id (transactions db1))"
    using ids keys(2) r(3) by (auto simp: r(1) comp_def)
  show ?thesis unfolding db1(2)
    by (rule apply_all_current [OF d]) (use cur hits_of_filters [OF cur] r(2) in \<open>auto simp: hits_current_def r(1)\<close>)
qed

theorem import_keeps_hits_current_witness:
  "\<exists>db' s. import_and_apply_filters (\<lambda>s. s) (\<lambda>_. []) 0 empty_bank giro two_entries two_structs = Inr (db', s) \<and>
     length (transactions db') = 2 \<and> hits_current db'"
proof -
  obtain db1 s hs where x: "import_transactions (\<lambda>s. s) (\<lambda>_. []) 0 empty_bank giro two_entries two_structs = Inr (db1, s)"
      "hash_entries (\<lambda>s. s) (\<lambda>_. []) (zip two_entries two_structs) (\<lambda>_. 0) = Inr hs" "distinct (map fst hs)"
      "map amount (transactions db1) = [25/2, 25/2]"
    by (rule exE [OF sample_import]) (elim exE conjE, rule that)
  have two: "length (transactions db1) = 2" using arg_cong [OF x(4), of length] by simp
  let ?db' = "apply_all_category_filters_core False db1"
  have r: "import_and_apply_filters (\<lambda>s. s) (\<lambda>_. []) 0 empty_bank giro two_entries two_structs = Inr (?db', s)"
    using x(1) by (simp add: import_and_apply_filters_def)
  have ids: "\<forall>t \<in> set (transactions empty_bank). tx_id t < next_id empty_bank" by (simp add: empty_bank_def)
  have "hits_current empty_bank"
    by (simp add: empty_bank_def bank_db_def hits_current_def expected_hits_def base_hits_def)
  from import_keeps_hits_current [OF this conjunct1 [OF empty_bank_keys] ids r x(2,3)]
  show ?thesis using r two by (intro exI [of _ ?db'] exI [of _ s]) simp
qed

section \<open>Times that pass the parser\<close>

text \<open>The parser checks the date of an entry; a time of day that does not exist is found by the
  import only, which then raises (instead of skipping the entry).\<close>

lemma impossible_time_breaks_the_import:
  "booking_date (\<lambda>_. []) (struct_of ''2024-03-05T25:00:00.000+0100'') ''booking'' = Inr (Date 2024 3 5) \<and>
   import_transactions (\<lambda>s. s) (\<lambda>_. []) 0 empty_bank giro [sample_entry ''12.5'']
     [struct_of ''2024-03-05T25:00:00.000+0100''] = Inl ValueError"
proof
  show "booking_date (\<lambda>_. []) (struct_of ''2024-03-05T25:00:00.000+0100'') ''booking'' = Inr (Date 2024 3 5)"
    by code_simp
  have "case import_transactions (\<lambda>s. s) (\<lambda>_. []) 0 empty_bank giro [sample_entry ''12.5'']
     [struct_of ''2024-03-05T25:00:00.000+0100''] of Inl e \<Rightarrow> e = ValueError | Inr _ \<Rightarrow> False"
    by code_simp
  then show "import_transactions (\<lambda>s. s) (\<lambda>_. []) 0 empty_bank giro [sample_entry ''12.5'']
     [struct_of ''2024-03-05T25:00:00.000+0100''] = Inl ValueError"
    by (auto split: sum.splits)
qed

end
