(* ===== verification/Archive_Model.thy ===== *)
theory Archive_Model
  imports Permissions Pointer_Forest Search_Text
begin

text \<open>
  The archive (\<open>app/models/archive_*.py\<close>, first half of \<open>app/services/archive_service.py\<close>):
  directories with a parent pointer, files that refer to content-addressed store items, comments,
  and the organisation/state pairs that may see a directory. Here are the rows, the permissions of
  a directory with their inheritance, the trash and the rule for reading a file.

  Python's call stack is finite: the mutually recursive permission functions take the number of
  frames that are left and raise \<open>RecursionError\<close> when there is none.
\<close>

section \<open>Rows\<close>

record archive_dir =
  dir_id :: uuid
  dir_name :: string
  dir_description :: "string option"
  dir_parent :: "uuid option"
  recursive_permissions :: "bool option"
  dir_created_at :: instant
  dir_updated_at :: "instant option"
  dir_deleted_at :: "instant option"

record archive_permission =
  ap_dir_id :: uuid
  ap_org_id :: string
  ap_state_id :: string

record archive_store_item =
  si_id :: uuid
  si_name :: string
  si_description :: "string option"
  si_extension :: string
  si_mime_type :: string
  si_size :: nat
  si_sha256_hash :: string
  si_created_by :: "uuid option"
  si_created_at :: instant

record archive_file =
  file_id :: uuid
  file_dir :: "uuid option"
  file_description :: "string option"
  file_item_id :: uuid
  file_created_at :: instant
  file_deleted_at :: "instant option"

record archive_file_comment =
  com_id :: uuid
  com_file_id :: uuid
  com_content :: string
  com_created_by :: "uuid option"
  com_created_at :: instant
  com_deleted_at :: "instant option"

record archive_db =
  a_members :: "member list"
  orgs :: "lookup_row list"
  states :: "lookup_row list"
  dirs :: "archive_dir list"
  dir_permissions :: "archive_permission list"
  store_items :: "archive_store_item list"
  files :: "archive_file list"
  comments :: "archive_file_comment list"
  a_next_id :: uuid

definition get_dir :: "archive_db \<Rightarrow> uuid \<Rightarrow> archive_dir option" where
  "get_dir db = get_by dir_id (dirs db)"

definition get_file :: "archive_db \<Rightarrow> uuid \<Rightarrow> archive_file option" where
  "get_file db = get_by file_id (files db)"

text \<open>The relationship \<open>store_item\<close>: the foreign key guarantees the row.\<close>

definition store_item :: "archive_db \<Rightarrow> archive_file \<Rightarrow> archive_store_item option" where
  "store_item db f = get_by si_id (store_items db) (file_item_id f)"

definition parent_of :: "archive_db \<Rightarrow> archive_dir \<Rightarrow> archive_dir option" where
  "parent_of db d = Option.bind (dir_parent d) (get_dir db)"

definition occurs_in :: "string \<Rightarrow> string \<Rightarrow> bool" where
  "occurs_in part text \<longleftrightarrow> list_ex (\<lambda>i. take (length part) (drop i text) = part) [0..<Suc (length text)]"

definition starts_with :: "string \<Rightarrow> string \<Rightarrow> bool" where
  "starts_with text start \<longleftrightarrow> take (length start) text = start"

definition is_image :: "archive_store_item \<Rightarrow> bool" where
  "is_image item \<longleftrightarrow> starts_with (si_mime_type item) ''image/'' \<and> \<not> occurs_in ''eps'' (lower (si_mime_type item))"

text \<open>What a request runs with: the settings, the day and the time, and the free stack frames.\<close>

record request =
  rq_settings :: settings
  rq_today :: date
  rq_now :: instant
  rq_frames :: nat

section \<open>Permissions\<close>

definition is_archive_admin :: "request \<Rightarrow> member \<Rightarrow> bool" where
  "is_archive_admin rq user \<longleftrightarrow>
     ''archiveAdmin'' \<in> set (calculate_permissions (rq_settings rq) (rq_today rq) user)"

record perm_sets =
  ps_orgs :: "string set"
  ps_states :: "string set"

definition load_perm_sets :: "archive_db \<Rightarrow> perm_sets" where
  "load_perm_sets db = \<lparr>ps_orgs = lr_id ` set (orgs db), ps_states = lr_id ` set (states db)\<rparr>"

definition permission_key :: "string \<Rightarrow> string \<Rightarrow> string" where
  "permission_key org state = org @ ''_'' @ state"

definition own_permissions :: "archive_db \<Rightarrow> archive_dir \<Rightarrow> perm_sets \<Rightarrow> string list" where
  "own_permissions db d ps =
     fold (\<lambda>p result.
         if ap_org_id p \<in> ps_orgs ps \<and> ap_state_id p \<in> ps_states ps \<and>
            permission_key (ap_org_id p) (ap_state_id p) \<notin> set result
         then result @ [permission_key (ap_org_id p) (ap_state_id p)] else result)
       (filter (\<lambda>p. ap_dir_id p = dir_id d) (dir_permissions db)) []"

fun get_effective_permissions :: "nat \<Rightarrow> archive_db \<Rightarrow> archive_dir \<Rightarrow> perm_sets \<Rightarrow> exc + string list"
  and inherited_permissions :: "nat \<Rightarrow> archive_db \<Rightarrow> archive_dir \<Rightarrow> perm_sets \<Rightarrow> exc + string list" where
  "get_effective_permissions 0 db d ps = Inl RecursionError"
| "get_effective_permissions (Suc n) db d ps =
     bind_res (inherited_permissions n db d ps) (\<lambda>inherited.
       Inr (sort (remdups (own_permissions db d ps @ inherited))))"
| "inherited_permissions 0 db d ps = Inl RecursionError"
| "inherited_permissions (Suc n) db d ps =
     (case parent_of db d of
        None \<Rightarrow> Inr []
      | Some p \<Rightarrow> if recursive_permissions p = Some True then get_effective_permissions n db p ps
                 else inherited_permissions n db p ps)"

text \<open>\<open>f"{x}"\<close> of a nullable text column.\<close>

definition formatted :: "string option \<Rightarrow> string" where
  "formatted x = (case x of None \<Rightarrow> ''None'' | Some s \<Rightarrow> s)"

definition user_key :: "member \<Rightarrow> string" where
  "user_key user = permission_key (formatted (text_col user F_org_id)) (formatted (text_col user F_state_id))"

definition can_insight :: "request \<Rightarrow> member \<Rightarrow> archive_db \<Rightarrow> archive_dir \<Rightarrow> perm_sets \<Rightarrow> exc + bool" where
  "can_insight rq user db d ps =
     bind_res (get_effective_permissions (rq_frames rq) db d ps) (\<lambda>keys. Inr (user_key user \<in> set keys))"

definition require_admin :: "request \<Rightarrow> member \<Rightarrow> exc + unit" where
  "require_admin rq user =
     (if is_archive_admin rq user then Inr ()
      else Inl (HTTPException 403 ''Fehlende Berechtigung: archiveAdmin''))"

definition require_insight_or_admin ::
  "request \<Rightarrow> member \<Rightarrow> archive_db \<Rightarrow> archive_dir \<Rightarrow> perm_sets \<Rightarrow> exc + unit" where
  "require_insight_or_admin rq user db d ps =
     (if is_archive_admin rq user then Inr ()
      else bind_res (can_insight rq user db d ps) (\<lambda>ok.
        if ok then Inr () else Inl (HTTPException 403 ''Keine Berechtigung fuer dieses Verzeichnis.'')))"

section \<open>The trash\<close>

text \<open>
  The recursive query: the working table starts with the trashed directories; a round adds the
  children of the working table that are not in the result yet, and they are the next working
  table. It ends when a round adds nothing; each round before adds a directory, so one round more
  than there are directories is enough.
\<close>

fun cte_rounds :: "nat \<Rightarrow> archive_dir list \<Rightarrow> uuid list \<Rightarrow> uuid list \<Rightarrow> uuid list" where
  "cte_rounds 0 ds result working = result"
| "cte_rounds (Suc n) ds result working =
     (let new = remdups (map dir_id (filter (\<lambda>d. dir_id d \<notin> set result \<and>
                  (case dir_parent d of None \<Rightarrow> False | Some p \<Rightarrow> p \<in> set working)) ds))
      in if new = [] then result else cte_rounds n ds (result @ new) new)"

definition trashed_subtree :: "archive_dir list \<Rightarrow> uuid list" where
  "trashed_subtree ds =
     (let base = remdups (map dir_id (filter (\<lambda>d. dir_deleted_at d \<noteq> None) ds))
      in cte_rounds (Suc (length ds)) ds base base)"

definition trashed_dir_ids :: "archive_db \<Rightarrow> uuid set" where
  "trashed_dir_ids db = set (trashed_subtree (dirs db))"

section \<open>Reading a file\<close>

definition file_missing :: exc where
  "file_missing = HTTPException 404 ''Datei nicht gefunden.''"

definition dir_missing :: exc where
  "dir_missing = HTTPException 404 ''Verzeichnis nicht gefunden.''"

definition uploader :: "archive_db \<Rightarrow> archive_file \<Rightarrow> uuid option" where
  "uploader db f = Option.bind (store_item db f) si_created_by"

definition require_readable_file ::
  "request \<Rightarrow> archive_db \<Rightarrow> archive_file \<Rightarrow> member \<Rightarrow> bool \<Rightarrow> exc + unit" where
  "require_readable_file rq db f user allow_unfiled_uploader =
     (if is_archive_admin rq user then Inr ()
      else if file_deleted_at f \<noteq> None then Inl file_missing
      else case file_dir f of
        None \<Rightarrow>
          if allow_unfiled_uploader \<and> uploader db f = Some (member_id user) then Inr ()
          else Inl (HTTPException 403 ''Keine Berechtigung fuer diese Datei.'')
      | Some k \<Rightarrow>
          (case get_dir db k of
             None \<Rightarrow> Inl file_missing
           | Some d \<Rightarrow> if dir_id d \<in> trashed_dir_ids db then Inl file_missing
                      else require_insight_or_admin rq user db d (load_perm_sets db)))"

section \<open>The path of a directory\<close>

text \<open>The loop to the root; \<open>None\<close> if it does not end.\<close>

partial_function (option) path_loop ::
  "archive_db \<Rightarrow> archive_dir \<Rightarrow> (uuid \<times> string) list \<Rightarrow> (uuid \<times> string) list option" where
  "path_loop db d path =
     (case parent_of db d of
        None \<Rightarrow> Some (path @ [(dir_id d, dir_name d)])
      | Some p \<Rightarrow> path_loop db p (path @ [(dir_id d, dir_name d)]))"

definition build_path :: "archive_db \<Rightarrow> archive_dir \<Rightarrow> (uuid \<times> string) list option" where
  "build_path db d = map_option rev (path_loop db d [])"

definition dir_path_string :: "archive_db \<Rightarrow> archive_dir \<Rightarrow> string option" where
  "dir_path_string db d = map_option (\<lambda>path. join '' / '' (map snd path)) (build_path db d)"

end
