(* ===== verification/Archive_Access.thy ===== *)
theory Archive_Access
  imports Archive_Model
begin

text \<open>
  What the permission, trash and path functions compute: the specifications over the set of the
  directories above a directory, and the proofs that the recursive code meets them while the
  parent pointers have no cycle.
\<close>

section \<open>The directory tree\<close>

definition dir_par :: "archive_db \<Rightarrow> uuid \<Rightarrow> uuid option" where
  "dir_par db k = Option.bind (get_dir db k) dir_parent"

definition tree_ok :: "archive_db \<Rightarrow> bool" where
  "tree_ok db \<longleftrightarrow> distinct (map dir_id (dirs db)) \<and>
     (\<forall>d \<in> set (dirs db). \<forall>p. dir_parent d = Some p \<longrightarrow> p \<in> dir_id ` set (dirs db)) \<and>
     no_cycle (dir_par db)"

lemma get_dir_SomeD: "get_dir db k = Some d \<Longrightarrow> d \<in> set (dirs db) \<and> dir_id d = k"
  unfolding get_dir_def by (rule get_by_SomeD)

lemma get_dir_self: "distinct (map dir_id (dirs db)) \<Longrightarrow> d \<in> set (dirs db) \<Longrightarrow> get_dir db (dir_id d) = Some d"
  by (simp add: get_dir_def get_by_distinct)

lemma dir_par_self: "tree_ok db \<Longrightarrow> d \<in> set (dirs db) \<Longrightarrow> dir_par db (dir_id d) = dir_parent d"
  by (simp add: tree_ok_def dir_par_def get_dir_self)

lemma parent_of_SomeD:
  "parent_of db d = Some p \<Longrightarrow> p \<in> set (dirs db) \<and> dir_parent d = Some (dir_id p)"
  by (auto simp: parent_of_def bind_eq_Some_conv dest: get_dir_SomeD)

lemma parent_of_None:
  assumes "tree_ok db" "d \<in> set (dirs db)" "parent_of db d = None"
  shows "dir_parent d = None"
proof (rule ccontr)
  assume "dir_parent d \<noteq> None"
  then obtain p where p: "dir_parent d = Some p" by blast
  then have "p \<in> dir_id ` set (dirs db)" using assms(1,2) unfolding tree_ok_def by blast
  then have "get_dir db p \<noteq> None" by (simp add: get_dir_def get_by_None_iff)
  then show False using assms(3) p by (simp add: parent_of_def)
qed

lemma dir_height_bound: "height_bound (dir_par db) (dir_id ` set (dirs db))"
  by (auto simp: height_bound_def dir_par_def bind_eq_Some_conv dest: get_dir_SomeD)

definition dirs_above :: "archive_db \<Rightarrow> archive_dir \<Rightarrow> archive_dir set" where
  "dirs_above db d = {a \<in> set (dirs db). dir_id a \<in> above (dir_par db) (dir_id d)}"

lemma dirs_above_root: "tree_ok db \<Longrightarrow> d \<in> set (dirs db) \<Longrightarrow> parent_of db d = None \<Longrightarrow> dirs_above db d = {}"
  by (simp add: dirs_above_def above_None dir_par_self parent_of_None)

lemma dir_eq: "tree_ok db \<Longrightarrow> a \<in> set (dirs db) \<Longrightarrow> b \<in> set (dirs db) \<Longrightarrow> dir_id a = dir_id b \<longleftrightarrow> a = b"
  by (auto simp: tree_ok_def distinct_map inj_on_def)

lemma dirs_above_parent:
  assumes "tree_ok db" "d \<in> set (dirs db)" "parent_of db d = Some p"
  shows "dirs_above db d = insert p (dirs_above db p)"
proof -
  have p: "p \<in> set (dirs db)" "dir_par db (dir_id d) = Some (dir_id p)"
    using parent_of_SomeD [OF assms(3)] dir_par_self [OF assms(1,2)] by simp_all
  have "a \<in> dirs_above db d \<longleftrightarrow> a \<in> insert p (dirs_above db p)" for a
    using dir_eq [OF assms(1) _ p(1), of a] p(1) by (auto simp: dirs_above_def above_Some [where par = "dir_par db", OF p(2)])
  then show ?thesis by blast
qed

lemma dirs_above_less:
  assumes "tree_ok db" "d \<in> set (dirs db)" "parent_of db d = Some p"
  shows "card (dirs_above db p) < card (dirs_above db d)"
proof -
  have "dir_id p \<notin> above (dir_par db) (dir_id p)"
    using assms(1) by (simp add: tree_ok_def no_cycle_def acyclic_def above_def)
  then have "p \<notin> dirs_above db p" by (simp add: dirs_above_def)
  moreover have "finite (dirs_above db p)" by (simp add: dirs_above_def)
  ultimately show ?thesis by (simp add: dirs_above_parent [OF assms])
qed

lemma dirs_above_card: "tree_ok db \<Longrightarrow> d \<in> set (dirs db) \<Longrightarrow> card (dirs_above db d) < length (dirs db)"
proof -
  assume t: "tree_ok db" and d: "d \<in> set (dirs db)"
  have "d \<notin> dirs_above db d"
    using t by (simp add: dirs_above_def tree_ok_def no_cycle_def acyclic_def above_def)
  then have "card (dirs_above db d) < card (set (dirs db))"
    using d by (intro psubset_card_mono) (auto simp: dirs_above_def)
  then show ?thesis using card_length [of "dirs db"] by linarith
qed

lemma tree_induct [consumes 2, case_names dir]:
  assumes "tree_ok db" "d \<in> set (dirs db)"
    and step: "\<And>d. d \<in> set (dirs db) \<Longrightarrow> (\<And>p. parent_of db d = Some p \<Longrightarrow> P p) \<Longrightarrow> P d"
  shows "P d"
  using assms(2)
proof (induction "card (dirs_above db d)" arbitrary: d rule: less_induct)
  case less
  show ?case
    by (rule step [OF less.prems])
      (use dirs_above_less [OF assms(1) less.prems] parent_of_SomeD in \<open>blast intro: less.hyps\<close>)
qed

section \<open>Permissions\<close>

definition own_keys :: "archive_db \<Rightarrow> perm_sets \<Rightarrow> archive_dir \<Rightarrow> string set" where
  "own_keys db ps d = {permission_key (ap_org_id p) (ap_state_id p) |p. p \<in> set (dir_permissions db) \<and>
     ap_dir_id p = dir_id d \<and> ap_org_id p \<in> ps_orgs ps \<and> ap_state_id p \<in> ps_states ps}"

text \<open>The specification: a directory's own keys, and those of every directory above it whose
  permissions are recursive.\<close>

definition inherited_keys :: "archive_db \<Rightarrow> perm_sets \<Rightarrow> archive_dir \<Rightarrow> string set" where
  "inherited_keys db ps d = (\<Union>a \<in> {a \<in> dirs_above db d. recursive_permissions a = Some True}. own_keys db ps a)"

definition visible_keys :: "archive_db \<Rightarrow> perm_sets \<Rightarrow> archive_dir \<Rightarrow> string set" where
  "visible_keys db ps d = own_keys db ps d \<union> inherited_keys db ps d"

lemma own_permissions_fold:
  "set (fold (\<lambda>p result. if ok p \<and> key p \<notin> set result then result @ [key p] else result) rows acc) =
     set acc \<union> key ` {p \<in> set rows. ok p} \<and>
   (distinct acc \<longrightarrow> distinct (fold (\<lambda>p result. if ok p \<and> key p \<notin> set result then result @ [key p] else result) rows acc))"
  by (induction rows arbitrary: acc) (auto simp: image_iff)

lemma set_own_permissions: "set (own_permissions db d ps) = own_keys db ps d"
proof -
  let ?ok = "\<lambda>p. ap_org_id p \<in> ps_orgs ps \<and> ap_state_id p \<in> ps_states ps"
  let ?key = "\<lambda>p. permission_key (ap_org_id p) (ap_state_id p)"
  have "own_permissions db d ps =
      fold (\<lambda>p result. if ?ok p \<and> ?key p \<notin> set result then result @ [?key p] else result)
        (filter (\<lambda>p. ap_dir_id p = dir_id d) (dir_permissions db)) []"
    by (simp only: own_permissions_def conj_assoc)
  then have "set (own_permissions db d ps) =
      set [] \<union> ?key ` {p \<in> set (filter (\<lambda>p. ap_dir_id p = dir_id d) (dir_permissions db)). ?ok p}"
    using conjunct1 [OF own_permissions_fold [of ?ok ?key]] by (simp only:)
  then show ?thesis by (auto simp: own_keys_def)
qed

lemma inherited_keys_root:
  "tree_ok db \<Longrightarrow> d \<in> set (dirs db) \<Longrightarrow> parent_of db d = None \<Longrightarrow> inherited_keys db ps d = {}"
  by (simp add: inherited_keys_def dirs_above_root)

lemma inherited_keys_parent:
  assumes "tree_ok db" "d \<in> set (dirs db)" "parent_of db d = Some p"
  shows "inherited_keys db ps d =
    (if recursive_permissions p = Some True then own_keys db ps p else {}) \<union> inherited_keys db ps p"
  by (auto simp: inherited_keys_def dirs_above_parent [OF assms])

lemma inherited_meets_spec:
  assumes "tree_ok db" "d \<in> set (dirs db)" "2 * card (dirs_above db d) < n"
  shows "\<exists>ks. inherited_permissions n db d ps = Inr ks \<and> set ks = inherited_keys db ps d"
  using assms
proof (induction n arbitrary: d rule: less_induct)
  case (less n)
  obtain m where n: "n = Suc m" using less.prems(3) by (cases n) auto
  show ?case
  proof (cases "parent_of db d")
    case None
    then show ?thesis using inherited_keys_root [OF less.prems(1,2)] by (simp add: n)
  next
    case (Some p)
    note parent = parent_of_SomeD [OF Some] and smaller = dirs_above_less [OF less.prems(1,2) Some]
      and keys = inherited_keys_parent [OF less.prems(1,2) Some]
    show ?thesis
    proof (cases "recursive_permissions p = Some True")
      case True
      obtain l where m: "m = Suc l" using less.prems(3) smaller n by (cases m) auto
      obtain ks where "inherited_permissions l db p ps = Inr ks" "set ks = inherited_keys db ps p"
        using less.IH [of l p] less.prems(1,3) parent smaller n m by auto
      then show ?thesis using Some True by (simp add: n m keys set_own_permissions)
    next
      case False
      obtain ks where "inherited_permissions m db p ps = Inr ks" "set ks = inherited_keys db ps p"
        using less.IH [of m p] less.prems(1,3) parent smaller n by auto
      then show ?thesis using Some False by (simp add: n keys)
    qed
  qed
qed

text \<open>Two frames for a directory and two for each directory above it are enough.\<close>

lemma effective_meets_spec:
  assumes "tree_ok db" "d \<in> set (dirs db)" "2 * length (dirs db) \<le> n"
  shows "\<exists>ks. get_effective_permissions n db d ps = Inr ks \<and> set ks = visible_keys db ps d \<and>
    sorted ks \<and> distinct ks"
proof -
  have small: "card (dirs_above db d) < length (dirs db)" by (rule dirs_above_card [OF assms(1,2)])
  then obtain m where n: "n = Suc m" using assms(3) by (cases n) auto
  obtain ks where "inherited_permissions m db d ps = Inr ks" "set ks = inherited_keys db ps d"
    using inherited_meets_spec [OF assms(1,2), of m ps] small assms(3) n by auto
  then show ?thesis by (auto simp: n visible_keys_def set_own_permissions)
qed

section \<open>The trash\<close>

definition in_trash :: "archive_db \<Rightarrow> archive_dir \<Rightarrow> bool" where
  "in_trash db d \<longleftrightarrow> dir_deleted_at d \<noteq> None \<or> (\<exists>a \<in> dirs_above db d. dir_deleted_at a \<noteq> None)"

definition child_of :: "archive_dir list \<Rightarrow> uuid set \<Rightarrow> uuid set" where
  "child_of ds W = dir_id ` {d \<in> set ds. \<exists>p \<in> W. dir_parent d = Some p}"

lemma child_of_Un: "child_of ds (A \<union> B) = child_of ds A \<union> child_of ds B"
  by (auto simp: child_of_def)

text \<open>The result of the rounds is the least set with the base that is closed under children.\<close>

lemma cte_rounds_closed:
  assumes "distinct result" "set result \<subseteq> dir_id ` set ds" "set working \<subseteq> set result"
    and "child_of ds (set result - set working) \<subseteq> set result" and "length ds < n + length result"
  shows "set result \<subseteq> set (cte_rounds n ds result working) \<and>
    child_of ds (set (cte_rounds n ds result working)) \<subseteq> set (cte_rounds n ds result working)"
  using assms
proof (induction n arbitrary: result working)
  case 0
  have "length result \<le> card (dir_id ` set ds)"
    using 0(1,2) distinct_card [of result] card_mono [of "dir_id ` set ds" "set result"] by simp
  then show ?case using 0(5) card_image_le [of "set ds" dir_id] card_length [of ds] by simp
next
  case (Suc n)
  define new where "new = remdups (map dir_id (filter (\<lambda>d. dir_id d \<notin> set result \<and>
      (case dir_parent d of None \<Rightarrow> False | Some p \<Rightarrow> p \<in> set working)) ds))"
  have set_new: "set new = child_of ds (set working) - set result"
    by (auto simp: new_def child_of_def split: option.splits)
  have split: "child_of ds (set result) = child_of ds (set result - set working) \<union> child_of ds (set working)"
    unfolding child_of_Un [symmetric] using Suc.prems(3) by (simp add: Un_absorb2 Un_commute)
  show ?case
  proof (cases "new = []")
    case True
    then have "child_of ds (set result) \<subseteq> set result" using Suc.prems(4) set_new split by auto
    then show ?thesis using True by (simp add: new_def [symmetric])
  next
    case False
    have "set (result @ new) - set new = set result" using set_new by auto
    then have "child_of ds (set (result @ new) - set new) \<subseteq> set (result @ new)"
      using Suc.prems(4) set_new split by auto
    moreover have "set new \<subseteq> dir_id ` set ds" by (auto simp: new_def)
    moreover have "distinct (result @ new)" using Suc.prems(1) set_new by (auto simp: new_def)
    moreover have "length ds < n + length (result @ new)"
      using Suc.prems(5) False by (cases new) simp_all
    ultimately show ?thesis
      using Suc.IH [of "result @ new" new] Suc.prems(2) False by (simp add: new_def [symmetric])
  qed
qed

lemma cte_rounds_sound:
  assumes "\<And>c. c \<in> set result \<Longrightarrow> P c" "set working \<subseteq> set result"
    and "\<And>d p. d \<in> set ds \<Longrightarrow> dir_parent d = Some p \<Longrightarrow> P p \<Longrightarrow> P (dir_id d)"
  shows "c \<in> set (cte_rounds n ds result working) \<Longrightarrow> P c"
  using assms(1,2)
proof (induction n arbitrary: result working)
  case 0
  then show ?case by simp
next
  case (Suc n)
  show ?case
  proof (rule ccontr)
    assume not: "\<not> P c"
    let ?new = "remdups (map dir_id (filter (\<lambda>d. dir_id d \<notin> set result \<and>
      (case dir_parent d of None \<Rightarrow> False | Some p \<Rightarrow> p \<in> set working)) ds))"
    have new: "P x" if "x \<in> set ?new" for x
      using that Suc.prems(2,3) assms(3) by (auto split: option.splits)
    show False
    proof (cases "?new = []")
      case True
      then show ?thesis using Suc.prems not by (auto simp: Let_def)
    next
      case False
      then have "c \<in> set (cte_rounds n ds (result @ ?new) ?new)" using Suc.prems(1) by (simp add: Let_def)
      then show ?thesis using Suc.IH [of "result @ ?new" ?new] Suc.prems(2) new not by fastforce
    qed
  qed
qed

lemma trashed_iff:
  assumes "tree_ok db" "d \<in> set (dirs db)"
  shows "dir_id d \<in> trashed_dir_ids db \<longleftrightarrow> in_trash db d"
proof
  let ?base = "remdups (map dir_id (filter (\<lambda>d. dir_deleted_at d \<noteq> None) (dirs db)))"
  let ?T = "set (cte_rounds (Suc (length (dirs db))) (dirs db) ?base ?base)"
  have T: "trashed_dir_ids db = ?T" by (simp add: trashed_dir_ids_def trashed_subtree_def Let_def)
  have closed: "set ?base \<subseteq> ?T \<and> child_of (dirs db) ?T \<subseteq> ?T"
    by (rule cte_rounds_closed) (auto simp: child_of_def)
  assume "in_trash db d"
  with assms show "dir_id d \<in> trashed_dir_ids db"
  proof (induction rule: tree_induct)
    case (dir d)
    show ?case
    proof (cases "dir_deleted_at d = None")
      case False
      then show ?thesis using closed dir.hyps T by auto
    next
      case True
      then obtain a where a: "a \<in> dirs_above db d" "dir_deleted_at a \<noteq> None"
        using dir.prems by (auto simp: in_trash_def)
      then obtain p where p: "parent_of db d = Some p"
        using dirs_above_root [OF assms(1) dir.hyps] by (cases "parent_of db d") auto
      have "in_trash db p" using a by (auto simp: in_trash_def dirs_above_parent [OF assms(1) dir.hyps p])
      then have "dir_id p \<in> ?T" using dir.IH [OF p] T by simp
      then have "dir_id d \<in> child_of (dirs db) ?T"
        using dir.hyps parent_of_SomeD [OF p] by (auto simp: child_of_def)
      then show ?thesis using closed T by auto
    qed
  qed
next
  let ?P = "\<lambda>k. \<forall>d \<in> set (dirs db). dir_id d = k \<longrightarrow> in_trash db d"
  assume "dir_id d \<in> trashed_dir_ids db"
  then have "?P (dir_id d)"
    unfolding trashed_dir_ids_def trashed_subtree_def Let_def
  proof (rule cte_rounds_sound [rotated 3])
    fix k assume "k \<in> set (remdups (map dir_id (filter (\<lambda>d. dir_deleted_at d \<noteq> None) (dirs db))))"
    then show "?P k" using dir_eq [OF assms(1)] by (auto simp: in_trash_def)
  next
    fix c p assume c: "c \<in> set (dirs db)" "dir_parent c = Some p" "?P p"
    then obtain q where q: "parent_of db c = Some q" using parent_of_None [OF assms(1) c(1)] by fastforce
    then have "in_trash db q" using c parent_of_SomeD [OF q] by auto
    then have "in_trash db c" by (auto simp: in_trash_def dirs_above_parent [OF assms(1) c(1) q])
    then show "?P (dir_id c)" using dir_eq [OF assms(1) _ c(1)] by blast
  qed simp
  then show "in_trash db d" using assms(2) by blast
qed

end
