(* ===== verification/Archive_Dirs.thy ===== *)
theory Archive_Dirs
  imports Archive_Model
begin

text \<open>
  The directory operations of \<open>app/services/archive_service.py\<close> and the request models they get
  (\<open>app/schemas/archive.py\<close>): create, change, trash, restore and purge a directory, and move
  directories and files into one. Every operation is a function of the request, the tables and the
  user; an exception leaves the tables as they were (the transaction is not committed).
\<close>

section \<open>The request models\<close>

record dir_request =
  dr_name :: string
  dr_description :: "string option"
  dr_permissions :: "string list"
  dr_recursive :: bool
  dr_parent :: "uuid option"

text \<open>\<open>PERM_REGEX.fullmatch\<close>: three letters, an underscore, two letters.\<close>

definition is_az :: "char \<Rightarrow> bool" where
  "is_az c = (let n = of_char c in 97 \<le> n \<and> n \<le> (122 :: nat))"

definition perm_format :: "string \<Rightarrow> bool" where
  "perm_format p = (case p of
     [a, b, c, u, d, e] \<Rightarrow> is_az a \<and> is_az b \<and> is_az c \<and> u = CHR ''_'' \<and> is_az d \<and> is_az e
   | _ \<Rightarrow> False)"

definition dict_keys :: "'a list \<Rightarrow> 'a list" where
  "dict_keys xs = rev (remdups (rev xs))"

definition validate_dir_request :: "dir_request \<Rightarrow> dir_request option" where
  "validate_dir_request r =
     (let name = strip (dr_name r) in
      if length name < 3 \<or> 64 < length name then None
      else if (case dr_description r of None \<Rightarrow> False | Some t \<Rightarrow> 128 < length t) then None
      else if \<not> list_all perm_format (dr_permissions r) \<or> 100 < length (dr_permissions r) then None
      else Some (r\<lparr>dr_name := name, dr_permissions := dict_keys (dr_permissions r)\<rparr>))"

definition validate_comment :: "string \<Rightarrow> string option" where
  "validate_comment content =
     (let text = strip content in if length text < 5 \<or> 1000 < length text then None else Some text)"

section \<open>Permission rows\<close>

text \<open>\<open>perm.partition("_")\<close> without the separator.\<close>

definition partition_underscore :: "string \<Rightarrow> string \<times> string" where
  "partition_underscore p = (takeWhile (\<lambda>c. c \<noteq> CHR ''_'') p, drop 1 (dropWhile (\<lambda>c. c \<noteq> CHR ''_'') p))"

definition known_pair :: "perm_sets \<Rightarrow> string \<times> string \<Rightarrow> bool" where
  "known_pair ps q \<longleftrightarrow> fst q \<in> ps_orgs ps \<and> snd q \<in> ps_states ps"

definition parse_permissions :: "archive_db \<Rightarrow> string list \<Rightarrow> exc + (string \<times> string) list" where
  "parse_permissions db perms =
     (let ps = load_perm_sets db;
          unknown = filter (\<lambda>p. \<not> known_pair ps (partition_underscore p)) perms
      in if unknown \<noteq> []
         then Inl (HTTPException 422 (''Unbekannte Berechtigung: '' @ join '', '' unknown))
         else Inr (map partition_underscore perms))"

definition permission_row :: "uuid \<Rightarrow> string \<times> string \<Rightarrow> archive_permission" where
  "permission_row k q = \<lparr>ap_dir_id = k, ap_org_id = fst q, ap_state_id = snd q\<rparr>"

text \<open>The flush checks the constraints of the directory row and that its pairs are distinct.\<close>

definition dir_row_ok :: "archive_dir \<Rightarrow> bool" where
  "dir_row_ok d \<longleftrightarrow> 3 \<le> length (dir_name d) \<and> length (dir_name d) \<le> 64 \<and>
     (case dir_description d of None \<Rightarrow> True | Some t \<Rightarrow> length t \<le> 128)"

definition sync_permissions :: "archive_db \<Rightarrow> archive_dir \<Rightarrow> (string \<times> string) list \<Rightarrow> exc + archive_db" where
  "sync_permissions db d pairs =
     (if \<not> dir_row_ok d \<or> \<not> distinct pairs then Inl IntegrityError
      else Inr (db\<lparr>dir_permissions := delete_where (\<lambda>p. ap_dir_id p = dir_id d) (dir_permissions db) @
                     map (permission_row (dir_id d)) pairs\<rparr>))"

section \<open>Create and change\<close>

definition create_dir :: "request \<Rightarrow> archive_db \<Rightarrow> dir_request \<Rightarrow> member \<Rightarrow> exc + archive_db \<times> archive_dir" where
  "create_dir rq db data user =
     bind_res (require_admin rq user) (\<lambda>_.
     if (case dr_parent data of None \<Rightarrow> False | Some p \<Rightarrow> get_dir db p = None)
     then Inl (HTTPException 404 ''Uebergeordnetes Verzeichnis nicht gefunden.'')
     else bind_res (parse_permissions db (dr_permissions data)) (\<lambda>pairs.
       let d = \<lparr>dir_id = a_next_id db, dir_name = dr_name data, dir_description = dr_description data,
                dir_parent = dr_parent data, recursive_permissions = Some (dr_recursive data),
                dir_created_at = rq_now rq, dir_updated_at = Some (rq_now rq), dir_deleted_at = None\<rparr>
       in bind_res (sync_permissions (db\<lparr>dirs := dirs db @ [d], a_next_id := Suc (a_next_id db)\<rparr>) d pairs)
            (\<lambda>db'. Inr (db', d))))"

definition update_dir_row :: "uuid \<Rightarrow> (archive_dir \<Rightarrow> archive_dir) \<Rightarrow> archive_db \<Rightarrow> archive_db" where
  "update_dir_row k f db = db\<lparr>dirs := update_where (\<lambda>d. dir_id d = k) f (dirs db)\<rparr>"

definition update_dir :: "request \<Rightarrow> archive_db \<Rightarrow> uuid \<Rightarrow> dir_request \<Rightarrow> member \<Rightarrow> exc + archive_db" where
  "update_dir rq db k data user =
     bind_res (require_admin rq user) (\<lambda>_.
     case get_dir db k of None \<Rightarrow> Inl dir_missing
     | Some d \<Rightarrow> bind_res (parse_permissions db (dr_permissions data)) (\<lambda>pairs.
         let w = (\<lambda>d. d\<lparr>dir_name := dr_name data, dir_description := dr_description data,
                       recursive_permissions := Some (dr_recursive data)\<rparr>)
         in sync_permissions (update_dir_row k w db) (w d) pairs))"

section \<open>Trash, restore and purge\<close>

definition dir_has_content :: "archive_db \<Rightarrow> uuid \<Rightarrow> bool" where
  "dir_has_content db k \<longleftrightarrow>
     list_ex (\<lambda>d. dir_parent d = Some k) (dirs db) \<or> list_ex (\<lambda>f. file_dir f = Some k) (files db)"

text \<open>Deleting a directory row deletes its permission rows.\<close>

definition remove_dir_row :: "uuid \<Rightarrow> archive_db \<Rightarrow> archive_db" where
  "remove_dir_row k db =
     db\<lparr>dirs := delete_where (\<lambda>d. dir_id d = k) (dirs db),
        dir_permissions := delete_where (\<lambda>p. ap_dir_id p = k) (dir_permissions db)\<rparr>"

definition delete_dir :: "request \<Rightarrow> archive_db \<Rightarrow> uuid \<Rightarrow> member \<Rightarrow> exc + archive_db" where
  "delete_dir rq db k user =
     bind_res (require_admin rq user) (\<lambda>_.
     case get_dir db k of None \<Rightarrow> Inl dir_missing
     | Some d \<Rightarrow>
         if dir_has_content db (dir_id d)
         then Inr (update_dir_row k (\<lambda>d. d\<lparr>dir_deleted_at := Some (rq_now rq)\<rparr>) db)
         else Inr (remove_dir_row k db))"

definition purge_dir :: "request \<Rightarrow> archive_db \<Rightarrow> uuid \<Rightarrow> member \<Rightarrow> exc + archive_db" where
  "purge_dir rq db k user =
     bind_res (require_admin rq user) (\<lambda>_.
     case get_dir db k of None \<Rightarrow> Inl dir_missing
     | Some d \<Rightarrow>
         if dir_deleted_at d = None
         then Inl (HTTPException 409 ''Verzeichnis befindet sich nicht im Papierkorb.'')
         else if dir_has_content db (dir_id d)
         then Inl (HTTPException 409 ''Verzeichnis ist nicht leer und kann nicht endgueltig geloescht werden.'')
         else Inr (remove_dir_row k db))"

definition restore_dir :: "request \<Rightarrow> archive_db \<Rightarrow> uuid \<Rightarrow> member \<Rightarrow> exc + archive_db" where
  "restore_dir rq db k user =
     bind_res (require_admin rq user) (\<lambda>_.
     case get_dir db k of None \<Rightarrow> Inl dir_missing
     | Some d \<Rightarrow> Inr (update_dir_row k (\<lambda>d. d\<lparr>dir_deleted_at := None\<rparr>) db))"

section \<open>Moving\<close>

text \<open>The walk to the root stops at a directory it has visited.\<close>

function descendant_walk :: "archive_db \<Rightarrow> uuid option \<Rightarrow> uuid \<Rightarrow> uuid list \<Rightarrow> bool" where
  "descendant_walk db None ancestor visited = False"
| "descendant_walk db (Some c) ancestor visited =
     (if c \<in> set visited then False
      else case get_dir db c of
        None \<Rightarrow> False
      | Some d \<Rightarrow> if dir_parent d = Some ancestor then True
                 else descendant_walk db (dir_parent d) ancestor (c # visited))"
  by pat_completeness auto

termination
proof (relation "measure (\<lambda>(db, c, a, v). card (dir_id ` set (dirs db) - set v))")
  fix db :: archive_db and c a :: uuid and v :: "uuid list" and d
  assume "c \<notin> set v" "get_dir db c = Some d"
  then have "c \<in> dir_id ` set (dirs db) - set v" by (auto simp: get_dir_def dest: get_by_SomeD)
  then have "card (dir_id ` set (dirs db) - set (c # v)) < card (dir_id ` set (dirs db) - set v)"
    by (intro psubset_card_mono) auto
  then show "((db, dir_parent d, a, c # v), db, Some c, a, v)
      \<in> measure (\<lambda>(db, c, a, v). card (dir_id ` set (dirs db) - set v))" by simp
qed simp

definition is_descendant :: "archive_db \<Rightarrow> uuid \<Rightarrow> uuid \<Rightarrow> bool" where
  "is_descendant db candidate ancestor = descendant_walk db (Some candidate) ancestor []"

definition set_dir_parent :: "uuid \<Rightarrow> uuid option \<Rightarrow> archive_db \<Rightarrow> archive_db" where
  "set_dir_parent k t = update_dir_row k (\<lambda>d. d\<lparr>dir_parent := t\<rparr>)"

text \<open>The check before a directory is moved below another.\<close>

definition move_blocked :: "archive_db \<Rightarrow> uuid \<Rightarrow> uuid \<Rightarrow> bool" where
  "move_blocked db target k \<longleftrightarrow> target = k \<or> is_descendant db target k"

definition receive_dir :: "uuid option \<Rightarrow> uuid \<Rightarrow> archive_db \<Rightarrow> exc + archive_db" where
  "receive_dir target k db =
     (case get_dir db k of None \<Rightarrow> Inr db
      | Some d \<Rightarrow>
         if Some k = target
         then Inl (HTTPException 422 ''Verzeichnis kann nicht in sich selbst verschoben werden.'')
         else if (case target of None \<Rightarrow> False | Some t \<Rightarrow> is_descendant db t k)
         then Inl (HTTPException 422 ''Verzeichnis kann nicht in eigenes Unterverzeichnis verschoben werden.'')
         else Inr (set_dir_parent k target db))"

definition receive_dirs :: "archive_db \<Rightarrow> uuid option \<Rightarrow> uuid list \<Rightarrow> exc + archive_db" where
  "receive_dirs db target ids = fold_res (receive_dir target) ids db"

definition receive_files :: "archive_db \<Rightarrow> uuid option \<Rightarrow> uuid list \<Rightarrow> archive_db" where
  "receive_files db target ids =
     fold (\<lambda>k db. db\<lparr>files := update_where (\<lambda>f. file_id f = k) (\<lambda>f. f\<lparr>file_dir := target\<rparr>) (files db)\<rparr>) ids db"

definition receive_items ::
  "request \<Rightarrow> archive_db \<Rightarrow> uuid option \<Rightarrow> string \<Rightarrow> uuid list \<Rightarrow> member \<Rightarrow> exc + archive_db" where
  "receive_items rq db target item_type ids user =
     bind_res (require_admin rq user) (\<lambda>_.
     if (case target of None \<Rightarrow> False | Some t \<Rightarrow> get_dir db t = None)
     then Inl (HTTPException 404 ''Zielverzeichnis nicht gefunden.'')
     else if item_type = ''dir'' then receive_dirs db target ids
     else Inr (receive_files db target ids))"

end
