(* ===== verification/Object_Store.thy ===== *)
theory Object_Store
  imports Prelude
begin

text \<open>
  The object store as the services see it through \<open>StorageClient\<close> (\<open>app/core/storage.py\<close>): named
  objects, and requests that may fail. Which requests fail is a parameter, a predicate on the
  operation and the key (the prefix, for a listing). A failed request changes nothing.
\<close>

datatype s3_op = Put | Get | Head | Delete | List_Keys

record storage =
  objects :: "(string \<times> string) list"
  s3_fails :: "s3_op \<Rightarrow> string \<Rightarrow> bool"

definition has_object :: "storage \<Rightarrow> string \<Rightarrow> bool" where
  "has_object st key \<longleftrightarrow> key \<in> fst ` set (objects st)"

definition storage_upload :: "storage \<Rightarrow> string \<Rightarrow> string \<Rightarrow> exc + storage" where
  "storage_upload st key data =
     (if s3_fails st Put key then Inl RuntimeError
      else Inr (st\<lparr>objects := (key, data) # delete_where (\<lambda>obj. fst obj = key) (objects st)\<rparr>))"

text \<open>A missing object is a \<open>ClientError\<close> as well.\<close>

definition storage_download :: "storage \<Rightarrow> string \<Rightarrow> exc + string" where
  "storage_download st key =
     (if s3_fails st Get key then Inl ClientError
      else case map_of (objects st) key of None \<Rightarrow> Inl ClientError | Some data \<Rightarrow> Inr data)"

definition storage_exists :: "storage \<Rightarrow> string \<Rightarrow> exc + bool" where
  "storage_exists st key = (if s3_fails st Head key then Inl ClientError else Inr (has_object st key))"

definition storage_delete :: "storage \<Rightarrow> string \<Rightarrow> exc + storage" where
  "storage_delete st key =
     (if s3_fails st Delete key then Inl ClientError
      else Inr (st\<lparr>objects := delete_where (\<lambda>obj. fst obj = key) (objects st)\<rparr>))"

definition has_prefix :: "string \<Rightarrow> string \<Rightarrow> bool" where
  "has_prefix prefix key \<longleftrightarrow> take (length prefix) key = prefix"

definition storage_list_keys :: "storage \<Rightarrow> string \<Rightarrow> exc + string list" where
  "storage_list_keys st prefix =
     (if s3_fails st List_Keys prefix then Inl ClientError
      else Inr (filter (has_prefix prefix) (map fst (objects st))))"

lemma storage_upload_object:
  "storage_upload st key data = Inr st' \<Longrightarrow>
     map_of (objects st') key = Some data \<and> s3_fails st' = s3_fails st \<and>
     (\<forall>k. has_object st' k \<longleftrightarrow> k = key \<or> has_object st k) \<and>
     (\<forall>k. k \<noteq> key \<longrightarrow> map_of (objects st') k = map_of (objects st) k)"
proof -
  have other: "map_of (delete_where (\<lambda>obj. fst obj = key) os) k = map_of os k" if "k \<noteq> key" for k and os :: "(string \<times> string) list"
    using that by (induction os) auto
  show "storage_upload st key data = Inr st' \<Longrightarrow> ?thesis"
    by (auto simp: storage_upload_def has_object_def other image_iff split: if_split_asm)
qed

lemma storage_delete_object:
  "storage_delete st key = Inr st' \<Longrightarrow>
     s3_fails st' = s3_fails st \<and> (\<forall>k. has_object st' k \<longleftrightarrow> k \<noteq> key \<and> has_object st k) \<and>
     (\<forall>k. k \<noteq> key \<longrightarrow> map_of (objects st') k = map_of (objects st) k)"
proof -
  have other: "map_of (delete_where (\<lambda>obj. fst obj = key) os) k = map_of os k" if "k \<noteq> key" for k and os :: "(string \<times> string) list"
    using that by (induction os) auto
  show "storage_delete st key = Inr st' \<Longrightarrow> ?thesis"
    by (auto simp: storage_delete_def has_object_def other image_iff split: if_split_asm)
qed

end
