(* ===== verification/Archive_Files.thy ===== *)
theory Archive_Files
  imports Archive_Dirs Object_Store
begin

text \<open>
  The file operations of \<open>app/services/archive_service.py\<close> and the hard delete of
  \<open>app/services/archive_store_cleanup.py\<close>: description, trash, download links with thumbnails,
  upload, the removal of an unfiled upload, comments. SHA-256 (\<open>sha\<close>), the scaling of an image
  (\<open>thumb\<close>, \<open>None\<close> when the image cannot be read) and the signing of a link (\<open>presign\<close>) are
  parameters. An operation that changes the object store returns it even when it fails: nothing
  rolls it back.
\<close>

section \<open>Description and trash\<close>

definition update_file_row :: "uuid \<Rightarrow> (archive_file \<Rightarrow> archive_file) \<Rightarrow> archive_db \<Rightarrow> archive_db" where
  "update_file_row k g db = db\<lparr>files := update_where (\<lambda>f. file_id f = k) g (files db)\<rparr>"

definition description_ok :: "string option \<Rightarrow> bool" where
  "description_ok x \<longleftrightarrow> (case x of None \<Rightarrow> True | Some t \<Rightarrow> length t \<le> 128)"

definition update_file :: "request \<Rightarrow> archive_db \<Rightarrow> uuid \<Rightarrow> string option \<Rightarrow> member \<Rightarrow> exc + archive_db" where
  "update_file rq db k description user =
     bind_res (require_admin rq user) (\<lambda>_.
     case get_file db k of None \<Rightarrow> Inl file_missing
     | Some f \<Rightarrow> if \<not> description_ok description then Inl IntegrityError
                else Inr (update_file_row k (\<lambda>f. f\<lparr>file_description := description\<rparr>) db))"

definition delete_file :: "request \<Rightarrow> archive_db \<Rightarrow> uuid \<Rightarrow> member \<Rightarrow> exc + archive_db" where
  "delete_file rq db k user =
     bind_res (require_admin rq user) (\<lambda>_.
     case get_file db k of None \<Rightarrow> Inl file_missing
     | Some f \<Rightarrow> Inr (update_file_row k (\<lambda>f. f\<lparr>file_deleted_at := Some (rq_now rq)\<rparr>) db))"

definition restore_file :: "request \<Rightarrow> archive_db \<Rightarrow> uuid \<Rightarrow> member \<Rightarrow> exc + archive_db" where
  "restore_file rq db k user =
     bind_res (require_admin rq user) (\<lambda>_.
     case get_file db k of None \<Rightarrow> Inl file_missing
     | Some f \<Rightarrow> Inr (update_file_row k (\<lambda>f. f\<lparr>file_deleted_at := None\<rparr>) db))"

section \<open>Download links\<close>

definition THUMB_SIZES :: "(string \<times> nat) list" where
  "THUMB_SIZES = [(''xs'', 16), (''sm'', 128), (''md'', 256), (''lg'', 550)]"

definition THUMBNAIL_CACHE_VERSION :: string where
  "THUMBNAIL_CACHE_VERSION = ''v2''"

text \<open>The two path settings of the store.\<close>

record archive_paths =
  path_store :: string
  path_cache :: string

definition store_key :: "archive_paths \<Rightarrow> string \<Rightarrow> string" where
  "store_key paths h = path_store paths @ ''/'' @ h"

definition thumbnail_cache_key :: "archive_paths \<Rightarrow> string \<Rightarrow> string \<Rightarrow> string" where
  "thumbnail_cache_key paths h sz =
     path_cache paths @ ''/'' @ h @ ''.'' @ THUMBNAIL_CACHE_VERSION @ ''.thumb_'' @ sz"

text \<open>The unreadable image is caught; a request the store refuses is not.\<close>

definition get_or_create_thumbnail ::
  "(string \<Rightarrow> nat \<Rightarrow> string option) \<Rightarrow> archive_paths \<Rightarrow> string \<Rightarrow> string \<Rightarrow> storage \<Rightarrow>
   exc + storage \<times> string option" where
  "get_or_create_thumbnail thumb paths h sz st =
     (let cache = thumbnail_cache_key paths h sz; source = store_key paths h in
      bind_res (storage_exists st cache) (\<lambda>cached.
      if cached then bind_res (storage_download st cache) (\<lambda>data. Inr (st, Some data))
      else bind_res (storage_exists st source) (\<lambda>present.
        if \<not> present then Inr (st, None)
        else bind_res (storage_download st source) (\<lambda>data.
          case map_of THUMB_SIZES sz of None \<Rightarrow> Inl RuntimeError
          | Some pixels \<Rightarrow>
              (case thumb data pixels of None \<Rightarrow> Inr (st, None)
               | Some small \<Rightarrow> bind_res (storage_upload st cache small) (\<lambda>st'. Inr (st', Some small)))))))"

definition get_presigned_url ::
  "(string \<Rightarrow> nat \<Rightarrow> string option) \<Rightarrow> (string \<Rightarrow> string option \<Rightarrow> string \<Rightarrow> string) \<Rightarrow> archive_paths \<Rightarrow>
   request \<Rightarrow> archive_db \<Rightarrow> uuid \<Rightarrow> member \<Rightarrow> storage \<Rightarrow> string option \<Rightarrow> exc + storage \<times> string" where
  "get_presigned_url thumb presign paths rq db k user st sz =
     (case get_file db k of None \<Rightarrow> Inl file_missing
      | Some f \<Rightarrow> bind_res (require_readable_file rq db f user True) (\<lambda>_.
          case store_item db f of None \<Rightarrow> Inl IntegrityError
          | Some item \<Rightarrow>
              (case sz of
                 Some s \<Rightarrow>
                   if s \<in> fst ` set THUMB_SIZES \<and> is_image item
                   then bind_res (get_or_create_thumbnail thumb paths (si_sha256_hash item) s st) (\<lambda>(st', _).
                          Inr (st', presign (thumbnail_cache_key paths (si_sha256_hash item) s) None ''image/jpeg''))
                   else Inr (st, presign (store_key paths (si_sha256_hash item))
                          (Some (si_name item @ ''.'' @ si_extension item)) (si_mime_type item))
               | None \<Rightarrow> Inr (st, presign (store_key paths (si_sha256_hash item))
                          (Some (si_name item @ ''.'' @ si_extension item)) (si_mime_type item)))))"

section \<open>Upload\<close>

definition UPLOAD_EXTENSIONS :: "string list" where
  "UPLOAD_EXTENSIONS = [''gif'', ''jpg'', ''jpeg'', ''png'', ''doc'', ''docx'', ''xls'', ''xlsx'', ''pdf'', ''txt'',
     ''mp3'', ''mp4'', ''avi'', ''mpga'', ''ai'', ''eps'']"

definition UPLOAD_MIN_KB :: nat where "UPLOAD_MIN_KB = 2"
definition UPLOAD_MAX_KB :: nat where "UPLOAD_MAX_KB = 10240"
definition UPLOAD_DESC_MIN :: nat where "UPLOAD_DESC_MIN = 5"
definition UPLOAD_DESC_MAX :: nat where "UPLOAD_DESC_MAX = 125"

text \<open>\<open>filename.rsplit(".", 1)\<close> of a name with a dot.\<close>

definition split_extension :: "string \<Rightarrow> string \<times> string" where
  "split_extension s =
     (let r = rev s in (rev (drop 1 (dropWhile (\<lambda>c. c \<noteq> CHR ''.'') r)), rev (takeWhile (\<lambda>c. c \<noteq> CHR ''.'') r)))"

record upload =
  up_filename :: "string option"
  up_content :: string
  up_content_type :: "string option"

text \<open>The content type, or the default when there is none or it is empty.\<close>

definition mime_of :: "upload \<Rightarrow> string" where
  "mime_of u = (case up_content_type u of None \<Rightarrow> ''application/octet-stream''
     | Some t \<Rightarrow> if t = [] then ''application/octet-stream'' else t)"

text \<open>The checks before anything is stored: the error of the first that fails.\<close>

definition upload_refused :: "(string \<Rightarrow> string) \<Rightarrow> archive_db \<Rightarrow> upload \<Rightarrow> string \<Rightarrow> string \<Rightarrow> exc option" where
  "upload_refused sha db u content description =
     (case up_filename u of None \<Rightarrow> Some (HTTPException 422 ''Datei hat keine Dateiendung.'')
      | Some n \<Rightarrow>
        if CHR ''.'' \<notin> set n then Some (HTTPException 422 ''Datei hat keine Dateiendung.'')
        else let ext = lower (snd (split_extension n)) in
        if ext \<notin> set UPLOAD_EXTENSIONS then Some (HTTPException 422 (''Unerlaubtes Dateiformat: '' @ ext))
        else if length content < UPLOAD_MIN_KB * 1024
        then Some (HTTPException 422 ''Datei zu klein. Minimum: 2 KB'')
        else if length content > UPLOAD_MAX_KB * 1024
        then Some (HTTPException 422 ''Datei zu gross. Maximum: 10240 KB'')
        else if List.find (\<lambda>i. si_sha256_hash i = sha content) (store_items db) \<noteq> None
        then Some (HTTPException 422 ''Datei existiert bereits.'')
        else if length description < UPLOAD_DESC_MIN \<or> length description > UPLOAD_DESC_MAX
        then Some (HTTPException 422 ''Beschreibung muss 5-125 Zeichen lang sein.'')
        else None)"

definition uploaded_item ::
  "(string \<Rightarrow> string) \<Rightarrow> request \<Rightarrow> archive_db \<Rightarrow> upload \<Rightarrow> string \<Rightarrow> string \<Rightarrow> uuid \<Rightarrow> archive_store_item" where
  "uploaded_item sha rq db u content description user_id =
     (let parts = split_extension (case up_filename u of None \<Rightarrow> [] | Some n \<Rightarrow> n)
      in \<lparr>si_id = a_next_id db, si_name = fst parts, si_description = Some description,
          si_extension = lower (snd parts), si_mime_type = mime_of u, si_size = length content,
          si_sha256_hash = sha content, si_created_by = Some user_id, si_created_at = rq_now rq\<rparr>)"

definition upload_file ::
  "(string \<Rightarrow> string) \<Rightarrow> archive_paths \<Rightarrow> request \<Rightarrow> archive_db \<Rightarrow> upload \<Rightarrow> string \<Rightarrow> uuid \<Rightarrow> storage \<Rightarrow>
   storage \<times> (exc + archive_db \<times> archive_file)" where
  "upload_file sha paths rq db u description user_id st =
     (let content = take (UPLOAD_MAX_KB * 1024 + 1) (up_content u) in
      case upload_refused sha db u content description of Some e \<Rightarrow> (st, Inl e)
      | None \<Rightarrow>
        (case storage_upload st (store_key paths (sha content)) content of
           Inl e \<Rightarrow> (st, Inl e)
         | Inr st' \<Rightarrow>
             let item = uploaded_item sha rq db u content description user_id;
                 f = \<lparr>file_id = Suc (a_next_id db), file_dir = None, file_description = Some description,
                      file_item_id = si_id item, file_created_at = rq_now rq, file_deleted_at = None\<rparr>
             in (st', Inr (db\<lparr>store_items := store_items db @ [item], files := files db @ [f],
                             a_next_id := Suc (Suc (a_next_id db))\<rparr>, f))))"

section \<open>Removing for good\<close>

record hard_delete_outcome =
  store_item_deleted :: bool
  s3_keys_deleted :: "string list"
  s3_errors :: "string list"

text \<open>A failed request is recorded by its key; the text of the exception is left out.\<close>

definition delete_s3_key :: "string \<Rightarrow> storage \<times> string list \<times> string list \<Rightarrow> storage \<times> string list \<times> string list" where
  "delete_s3_key key = (\<lambda>(st, deleted, errors).
     case storage_delete st key of Inl _ \<Rightarrow> (st, deleted, errors @ [key])
     | Inr st' \<Rightarrow> (st', deleted @ [key], errors))"

definition cache_prefix :: "archive_paths \<Rightarrow> string \<Rightarrow> string" where
  "cache_prefix paths h = path_cache paths @ ''/'' @ h @ ''.''"

definition purge_s3_object ::
  "archive_paths \<Rightarrow> string \<Rightarrow> storage \<times> string list \<times> string list \<Rightarrow> storage \<times> string list \<times> string list" where
  "purge_s3_object paths h s =
     (case delete_s3_key (store_key paths h) s of (st, deleted, errors) \<Rightarrow>
        (case storage_list_keys st (cache_prefix paths h) of
           Inl _ \<Rightarrow> (st, deleted, errors @ [''list_keys('' @ cache_prefix paths h @ '')''])
         | Inr cached \<Rightarrow> fold delete_s3_key cached (st, deleted, errors)))"

definition item_referenced :: "archive_db \<Rightarrow> uuid \<Rightarrow> bool" where
  "item_referenced db i \<longleftrightarrow> list_ex (\<lambda>f. file_item_id f = i) (files db)"

definition delete_orphaned_store_items :: "archive_db \<Rightarrow> uuid \<Rightarrow> archive_db \<times> archive_store_item list" where
  "delete_orphaned_store_items db i =
     (if item_referenced db i then (db, [])
      else case get_by si_id (store_items db) i of None \<Rightarrow> (db, [])
      | Some item \<Rightarrow> (db\<lparr>store_items := delete_where (\<lambda>x. si_id x = i) (store_items db)\<rparr>, [item]))"

definition remove_file_row :: "uuid \<Rightarrow> archive_db \<Rightarrow> archive_db" where
  "remove_file_row k db =
     db\<lparr>files := delete_where (\<lambda>f. file_id f = k) (files db),
        comments := delete_where (\<lambda>c. com_file_id c = k) (comments db)\<rparr>"

definition hard_delete_file ::
  "archive_paths \<Rightarrow> archive_db \<Rightarrow> storage \<Rightarrow> archive_file \<Rightarrow> archive_db \<times> storage \<times> hard_delete_outcome" where
  "hard_delete_file paths db st f =
     (case delete_orphaned_store_items (remove_file_row (file_id f) db) (file_item_id f) of (db', orphaned) \<Rightarrow>
      case fold (\<lambda>item. purge_s3_object paths (si_sha256_hash item)) orphaned (st, [], []) of (st', deleted, errors) \<Rightarrow>
        (db', st', \<lparr>store_item_deleted = orphaned \<noteq> [], s3_keys_deleted = deleted, s3_errors = errors\<rparr>))"

definition delete_unfiled_upload ::
  "archive_paths \<Rightarrow> archive_db \<Rightarrow> uuid \<Rightarrow> member \<Rightarrow> storage \<Rightarrow> exc + archive_db \<times> storage" where
  "delete_unfiled_upload paths db k user st =
     (case List.find (\<lambda>f. file_id f = k) (files db) of None \<Rightarrow> Inl file_missing
      | Some f \<Rightarrow>
          if uploader db f \<noteq> Some (member_id user) then Inl file_missing
          else if file_dir f \<noteq> None
          then Inl (HTTPException 409 ''Die Datei wurde bereits einsortiert und kann nicht mehr geloescht werden.'')
          else case hard_delete_file paths db st f of (db', st', _) \<Rightarrow> Inr (db', st'))"

definition get_unfiled_uploads :: "archive_db \<Rightarrow> uuid \<Rightarrow> archive_file list" where
  "get_unfiled_uploads db user_id =
     filter (\<lambda>f. file_dir f = None \<and> file_deleted_at f = None \<and> uploader db f = Some user_id) (files db)"

definition get_unsorted_upload_count :: "archive_db \<Rightarrow> nat" where
  "get_unsorted_upload_count db =
     length (filter (\<lambda>f. file_dir f = None \<and> file_deleted_at f = None) (files db))"

section \<open>Comments\<close>

definition create_comment ::
  "request \<Rightarrow> archive_db \<Rightarrow> uuid \<Rightarrow> string \<Rightarrow> member \<Rightarrow> exc + archive_db \<times> archive_file_comment" where
  "create_comment rq db k content user =
     (case get_file db k of None \<Rightarrow> Inl file_missing
      | Some f \<Rightarrow> bind_res (require_readable_file rq db f user False) (\<lambda>_.
          let c = \<lparr>com_id = a_next_id db, com_file_id = file_id f, com_content = content,
                   com_created_by = Some (member_id user), com_created_at = rq_now rq, com_deleted_at = None\<rparr>
          in if length content < 5 \<or> 1000 < length content then Inl IntegrityError
             else Inr (db\<lparr>comments := comments db @ [c], a_next_id := Suc (a_next_id db)\<rparr>, c)))"

definition delete_comment :: "request \<Rightarrow> archive_db \<Rightarrow> uuid \<Rightarrow> uuid \<Rightarrow> member \<Rightarrow> exc + archive_db" where
  "delete_comment rq db k cid user =
     (case (get_file db k, get_by com_id (comments db) cid) of
        (Some f, Some c) \<Rightarrow>
          if com_file_id c \<noteq> file_id f then Inl (HTTPException 404 ''Kommentar nicht gefunden.'')
          else if com_created_by c \<noteq> Some (member_id user) \<and> \<not> is_archive_admin rq user
          then Inl (HTTPException 403 ''Fehlende Berechtigung: eigener Kommentar oder archiveAdmin'')
          else Inr (db\<lparr>comments := update_where (\<lambda>x. com_id x = cid)
                          (\<lambda>x. x\<lparr>com_deleted_at := Some (rq_now rq)\<rparr>) (comments db)\<rparr>)
      | _ \<Rightarrow> Inl (HTTPException 404 ''Kommentar nicht gefunden.''))"

end
