(* ===== verification/Archive_Maintenance.thy ===== *)
theory Archive_Maintenance
  imports Archive_Files
begin

text \<open>
  \<open>app/services/archive_maintenance_service.py\<close>: the operator's view of the trash. A candidate is
  a trashed file with the numbers of other files that share its content; purging it removes the
  content only when nothing else refers to it.
\<close>

section \<open>Candidates\<close>

datatype purge_impact = DUPLICATE | SHARED | SOLE

definition classify_impact :: "nat \<Rightarrow> int \<Rightarrow> purge_impact" where
  "classify_impact active_count other_deleted_count =
     (if active_count > 0 then DUPLICATE else if other_deleted_count > 0 then SHARED else SOLE)"

record purge_candidate =
  pc_file_id :: uuid
  pc_path :: "string option"
  pc_item :: archive_store_item
  pc_description :: "string option"
  pc_deleted_at :: "instant option"
  pc_store_item_id :: uuid
  pc_dir :: "uuid option"
  active_sibling_count :: nat
  other_deleted_sibling_count :: int

definition candidate_impact :: "purge_candidate \<Rightarrow> purge_impact" where
  "candidate_impact c = classify_impact (active_sibling_count c) (other_deleted_sibling_count c)"

text \<open>The path, and the store item, that are shown for a file.\<close>

definition describe_location :: "archive_db \<Rightarrow> archive_file \<Rightarrow> string option" where
  "describe_location db f =
     (case Option.bind (file_dir f) (get_dir db) of None \<Rightarrow> Some ''Archiv'' | Some d \<Rightarrow> dir_path_string db d)"

definition reference_counts :: "archive_db \<Rightarrow> uuid \<Rightarrow> nat \<times> nat" where
  "reference_counts db i =
     (length (filter (\<lambda>f. file_item_id f = i \<and> file_deleted_at f = None) (files db)),
      length (filter (\<lambda>f. file_item_id f = i \<and> file_deleted_at f \<noteq> None) (files db)))"

definition to_candidate :: "archive_db \<Rightarrow> archive_file \<Rightarrow> nat \<times> nat \<Rightarrow> purge_candidate option" where
  "to_candidate db f counts =
     map_option (\<lambda>item. \<lparr>pc_file_id = file_id f, pc_path = describe_location db f, pc_item = item,
         pc_description = file_description f, pc_deleted_at = file_deleted_at f,
         pc_store_item_id = file_item_id f, pc_dir = file_dir f, active_sibling_count = fst counts,
         other_deleted_sibling_count = int (snd counts) - 1\<rparr>) (store_item db f)"

definition candidates_for :: "archive_db \<Rightarrow> archive_file list \<Rightarrow> purge_candidate list" where
  "candidates_for db fs = List.map_filter (\<lambda>f. to_candidate db f (reference_counts db (file_item_id f))) fs"

definition deletion_time :: "archive_file \<Rightarrow> instant" where
  "deletion_time f = (case file_deleted_at f of None \<Rightarrow> 0 | Some t \<Rightarrow> t)"

definition list_deleted_files :: "archive_db \<Rightarrow> purge_candidate list" where
  "list_deleted_files db =
     candidates_for db (sort_key deletion_time (filter (\<lambda>f. file_deleted_at f \<noteq> None) (files db)))"

definition list_deleted_files_in_dir :: "archive_db \<Rightarrow> uuid \<Rightarrow> purge_candidate list" where
  "list_deleted_files_in_dir db k =
     candidates_for db (sort_key deletion_time
       (filter (\<lambda>f. file_dir f = Some k \<and> file_deleted_at f \<noteq> None) (files db)))"

definition is_still_duplicate :: "archive_db \<Rightarrow> purge_candidate \<Rightarrow> bool" where
  "is_still_duplicate db c \<longleftrightarrow> fst (reference_counts db (pc_store_item_id c)) > 0"

section \<open>Purge and restore\<close>

definition cli_get_file :: "archive_db \<Rightarrow> uuid \<Rightarrow> exc + archive_file" where
  "cli_get_file db k =
     (case get_file db k of None \<Rightarrow> Inl (ArchiveMaintenanceError ''nicht gefunden'') | Some f \<Rightarrow> Inr f)"

definition get_soft_deleted_file :: "archive_db \<Rightarrow> uuid \<Rightarrow> exc + archive_file" where
  "get_soft_deleted_file db k =
     bind_res (cli_get_file db k) (\<lambda>f.
       if file_deleted_at f = None then Inl (ArchiveMaintenanceError ''ist nicht geloescht-markiert'') else Inr f)"

definition purge_file ::
  "archive_paths \<Rightarrow> archive_db \<Rightarrow> storage \<Rightarrow> uuid \<Rightarrow> exc + archive_db \<times> storage \<times> hard_delete_outcome" where
  "purge_file paths db st k =
     bind_res (get_soft_deleted_file db k) (\<lambda>f. Inr (hard_delete_file paths db st f))"

record file_location =
  fl_file_id :: uuid
  fl_path :: "string option"
  fl_deleted :: bool

definition location_of :: "archive_db \<Rightarrow> archive_file \<Rightarrow> file_location" where
  "location_of db f = \<lparr>fl_file_id = file_id f, fl_path = describe_location db f,
     fl_deleted = (file_deleted_at f \<noteq> None)\<rparr>"

definition cli_restore_file :: "archive_db \<Rightarrow> uuid \<Rightarrow> exc + archive_db \<times> file_location" where
  "cli_restore_file db k =
     bind_res (get_soft_deleted_file db k) (\<lambda>f.
       let counts = reference_counts db (file_item_id f) in
       if classify_impact (fst counts) (int (snd counts) - 1) \<noteq> SOLE
       then Inl (ArchiveMaintenanceError ''ist nicht SOLE'')
       else let g = f\<lparr>file_deleted_at := None\<rparr>; db' = update_file_row k (\<lambda>f. f\<lparr>file_deleted_at := None\<rparr>) db
            in Inr (db', location_of db' g))"

section \<open>Duplicates\<close>

definition active_duplicates_for :: "archive_db \<Rightarrow> uuid set \<Rightarrow> uuid \<Rightarrow> archive_file list" where
  "active_duplicates_for db excluded i =
     filter (\<lambda>f. file_item_id f = i \<and> file_deleted_at f = None \<and> file_id f \<notin> excluded) (files db)"

definition active_duplicates_of_file :: "archive_db \<Rightarrow> uuid \<Rightarrow> exc + file_location \<times> archive_file list" where
  "active_duplicates_of_file db k =
     bind_res (cli_get_file db k) (\<lambda>f.
       Inr (location_of db f, active_duplicates_for db {k} (file_item_id f)))"

definition active_duplicates_in_dir :: "archive_db \<Rightarrow> uuid \<Rightarrow> (purge_candidate \<times> archive_file list) list" where
  "active_duplicates_in_dir db k =
     map (\<lambda>c. (c, active_duplicates_for db {} (pc_store_item_id c))) (list_deleted_files_in_dir db k)"

definition find_file_location :: "archive_db \<Rightarrow> uuid \<Rightarrow> file_location option" where
  "find_file_location db k = map_option (location_of db) (get_file db k)"

record dir_location =
  dl_dir_id :: uuid
  dl_path :: "string option"
  dl_deleted :: bool

definition find_dir_location :: "archive_db \<Rightarrow> uuid \<Rightarrow> dir_location option" where
  "find_dir_location db k =
     map_option (\<lambda>d. \<lparr>dl_dir_id = dir_id d, dl_path = dir_path_string db d,
       dl_deleted = (dir_deleted_at d \<noteq> None)\<rparr>) (get_dir db k)"

end
