(* ===== verification/Archive_Invariant.thy ===== *)
theory Archive_Invariant
  imports Archive_Access Archive_Maintenance
begin

text \<open>
  The archive as a state machine: the tables are well formed (keys are unique, every reference
  has its row, the directories form a forest) and every operation keeps them so. The check that
  guards a move is an instance of the interface \<open>guarded_parent_store\<close>.
\<close>

section \<open>The guarded parent pointers\<close>

lemma get_dir_update:
  assumes "\<And>d. dir_id (g d) = dir_id d"
  shows "get_dir (update_dir_row k g db) j = map_option (\<lambda>d. if j = k then g d else d) (get_dir db j)"
proof -
  have "get_by dir_id (update_where (\<lambda>d. dir_id d = k) g ds) j =
      map_option (\<lambda>d. if j = k then g d else d) (get_by dir_id ds j)" for ds
    by (induction ds) (auto simp: assms)
  then show ?thesis by (simp add: get_dir_def update_dir_row_def)
qed

lemma dir_par_set:
  "get_dir db k \<noteq> None \<Longrightarrow> dir_par (set_dir_parent k t db) = (dir_par db)(k := t)"
  by (rule ext) (auto simp: dir_par_def set_dir_parent_def get_dir_update option.map_ident split: option.split)

lemma walk_sound:
  "descendant_walk db c a visited \<Longrightarrow> \<exists>k. c = Some k \<and> (k, a) \<in> (parent_rel (dir_par db))\<^sup>+"
proof (induction db c a visited rule: descendant_walk.induct)
  case (1 db ancestor visited)
  then show ?case by simp
next
  case (2 db c ancestor visited)
  have c: "c \<notin> set visited" using "2.prems" by (auto split: if_splits)
  obtain d where d: "get_dir db c = Some d" using "2.prems" c by (cases "get_dir db c") auto
  show ?case
  proof (cases "dir_parent d = Some ancestor")
    case True
    then have "(c, ancestor) \<in> parent_rel (dir_par db)" by (simp add: dir_par_def d)
    then show ?thesis by blast
  next
    case False
    have "descendant_walk db (dir_parent d) ancestor (c # visited)" using "2.prems" c d False by simp
    from "2.IH" [OF c d False this] obtain k where "dir_parent d = Some k" "(k, ancestor) \<in> (parent_rel (dir_par db))\<^sup>+"
      by blast
    moreover from this(1) have "(c, k) \<in> parent_rel (dir_par db)" by (simp add: dir_par_def d)
    ultimately show ?thesis by (blast intro: trancl_into_trancl2)
  qed
qed

definition walk_inv :: "archive_db \<Rightarrow> uuid option \<Rightarrow> uuid \<Rightarrow> uuid list \<Rightarrow> bool" where
  "walk_inv db c a visited \<longleftrightarrow>
     (\<forall>v \<in> set visited. \<forall>p. dir_par db v = Some p \<longrightarrow> p \<noteq> a \<and> (p \<in> set visited \<or> c = Some p))"

lemma walk_complete:
  "\<not> descendant_walk db c a visited \<Longrightarrow> walk_inv db c a visited \<Longrightarrow>
     v \<in> set visited \<or> c = Some v \<Longrightarrow> (v, a) \<notin> (parent_rel (dir_par db))\<^sup>+"
proof (induction db c a visited arbitrary: v rule: descendant_walk.induct)
  case (1 db ancestor visited)
  then show ?case
    using closed_set_above [of v "set visited" "dir_par db" ancestor] by (auto simp: walk_inv_def)
next
  case (2 db c ancestor visited)
  show ?case
  proof (cases "c \<in> set visited")
    case True
    then have "v \<in> set visited" using "2.prems"(3) by auto
    then show ?thesis
      using closed_set_above [of v "set visited" "dir_par db" ancestor] "2.prems"(2) True by (auto simp: walk_inv_def)
  next
    case c: False
    show ?thesis
    proof (cases "get_dir db c")
      case None
      then have "dir_par db c = None" by (simp add: dir_par_def)
      then show ?thesis
        by (intro closed_set_above [of v "insert c (set visited)"])
          (use "2.prems"(2,3) in \<open>auto simp: walk_inv_def\<close>)
    next
      case d: (Some d)
      have not: "dir_parent d \<noteq> Some ancestor" "\<not> descendant_walk db (dir_parent d) ancestor (c # visited)"
        using "2.prems"(1) c d by (auto split: if_splits)
      have "dir_par db c = dir_parent d" by (simp add: dir_par_def d)
      then have "walk_inv db (dir_parent d) ancestor (c # visited)"
        using "2.prems"(2) not(1) by (auto simp: walk_inv_def)
      then show ?thesis using "2.IH" [OF c d not(1,2)] "2.prems"(3) by auto
    qed
  qed
qed

lemma is_descendant_iff: "is_descendant db t k \<longleftrightarrow> (t, k) \<in> (parent_rel (dir_par db))\<^sup>+"
  using walk_sound [of db "Some t" k "[]"] walk_complete [of db "Some t" k "[]" t]
  by (auto simp: is_descendant_def walk_inv_def simp del: descendant_walk.simps)

interpretation archive: guarded_parent_store dir_par set_dir_parent "\<lambda>db k. get_dir db k \<noteq> None" move_blocked
proof
  show "get_dir s d \<noteq> None \<Longrightarrow> dir_par (set_dir_parent d t s) = (dir_par s)(d := t)" for s d t
    by (rule dir_par_set)
  show "(get_dir (set_dir_parent d t s) k \<noteq> None) = (get_dir s k \<noteq> None)" for s d t k
    by (simp add: set_dir_parent_def get_dir_update)
  show "move_blocked s t d = (t = d \<or> (t, d) \<in> (parent_rel (dir_par s))\<^sup>+)" for s t d
    by (simp add: move_blocked_def is_descendant_iff)
qed

section \<open>Well-formed tables\<close>

definition refs_ok :: "archive_db \<Rightarrow> bool" where
  "refs_ok db \<longleftrightarrow>
     distinct (map file_id (files db)) \<and> distinct (map si_id (store_items db)) \<and>
     distinct (map si_sha256_hash (store_items db)) \<and> distinct (map com_id (comments db)) \<and>
     (\<forall>f \<in> set (files db). file_item_id f \<in> si_id ` set (store_items db)) \<and>
     (\<forall>f \<in> set (files db). \<forall>k. file_dir f = Some k \<longrightarrow> k \<in> dir_id ` set (dirs db)) \<and>
     (\<forall>c \<in> set (comments db). com_file_id c \<in> file_id ` set (files db)) \<and>
     (\<forall>p \<in> set (dir_permissions db). ap_dir_id p \<in> dir_id ` set (dirs db)) \<and>
     distinct (dir_permissions db)"

definition fresh_ok :: "archive_db \<Rightarrow> bool" where
  "fresh_ok db \<longleftrightarrow> (\<forall>k \<in> dir_id ` set (dirs db) \<union> file_id ` set (files db) \<union> si_id ` set (store_items db) \<union>
     com_id ` set (comments db). k < a_next_id db)"

definition archive_ok :: "archive_db \<Rightarrow> bool" where
  "archive_ok db \<longleftrightarrow> tree_ok db \<and> refs_ok db \<and> fresh_ok db"

lemma update_where_key [simp]:
  "(\<And>r. key (g r) = key r) \<Longrightarrow> map key (update_where P g rows) = map key rows"
  by (auto simp: update_where_def)

lemma update_where_key_set [simp]:
  "(\<And>r. key (g r) = key r) \<Longrightarrow> key ` set (update_where P g rows) = key ` set rows"
proof -
  assume g: "\<And>r. key (g r) = key r"
  have "set (map key (update_where P g rows)) = set (map key rows)" by (simp only: update_where_key [of key g, OF g])
  then show ?thesis by (simp only: list.set_map)
qed

lemma tree_ok_cong: "dirs db' = dirs db \<Longrightarrow> tree_ok db' = tree_ok db"
proof -
  assume d: "dirs db' = dirs db"
  have "dir_par db' = dir_par db" by (rule ext) (simp add: dir_par_def get_dir_def d)
  then show ?thesis by (simp add: tree_ok_def d)
qed

text \<open>A change of a directory row that keeps its key and its parent.\<close>

lemma update_dir_row_ok:
  assumes g: "\<And>d. dir_id (g d) = dir_id d" "\<And>d. dir_parent (g d) = dir_parent d" and ok: "archive_ok db"
  shows "archive_ok (update_dir_row k g db)"
proof -
  have "dir_par (update_dir_row k g db) = dir_par db"
  proof
    show "dir_par (update_dir_row k g db) j = dir_par db j" for j
      by (cases "get_dir db j") (simp_all add: dir_par_def get_dir_update [OF g(1)] g(2))
  qed
  moreover have "\<exists>d' \<in> set (dirs db). dir_parent d = dir_parent d'"
    if "d \<in> set (update_where (\<lambda>d. dir_id d = k) g (dirs db))" for d
    using that g(2) by (auto simp: set_update_where)
  ultimately have "tree_ok (update_dir_row k g db)"
    using ok g(1) by (fastforce simp: archive_ok_def tree_ok_def update_dir_row_def)
  then show ?thesis
    using ok g(1) by (simp add: archive_ok_def refs_ok_def fresh_ok_def update_dir_row_def)
qed

text \<open>A change of a file row that keeps its key and its content and names an existing directory.\<close>

lemma update_file_row_ok:
  assumes g: "\<And>f. file_id (g f) = file_id f" "\<And>f. file_item_id (g f) = file_item_id f"
      "\<And>f k. file_dir (g f) = Some k \<Longrightarrow> file_dir f = Some k \<or> k \<in> dir_id ` set (dirs db)"
    and ok: "archive_ok db"
  shows "archive_ok (update_file_row k g db)"
proof -
  have item: "file_item_id f \<in> si_id ` set (store_items db)"
    and dir: "\<And>k. file_dir f = Some k \<Longrightarrow> k \<in> dir_id ` set (dirs db)"
    if f: "f \<in> set (update_where (\<lambda>f. file_id f = k) g (files db))" for f
  proof -
    obtain f' where f': "f' \<in> set (files db)" "f = f' \<or> f = g f'" using f by (auto simp: set_update_where split: if_splits)
    then show "file_item_id f \<in> si_id ` set (store_items db)" using ok g(2) by (auto simp: archive_ok_def refs_ok_def)
    show "j \<in> dir_id ` set (dirs db)" if "file_dir f = Some j" for j
      using f' that ok g(3) unfolding archive_ok_def refs_ok_def by metis
  qed
  have "tree_ok (update_file_row k g db) = tree_ok db"
    by (rule tree_ok_cong) (simp add: update_file_row_def)
  moreover have "refs_ok (update_file_row k g db)"
    using ok item dir g(1) by (simp add: archive_ok_def refs_ok_def update_file_row_def)
  moreover have "fresh_ok (update_file_row k g db)"
    using ok g(1) by (simp add: archive_ok_def fresh_ok_def update_file_row_def)
  ultimately show ?thesis using ok by (simp add: archive_ok_def)
qed

section \<open>Every operation keeps the tables well formed\<close>

lemma sync_permissions_ok:
  assumes "archive_ok db" "sync_permissions db d pairs = Inr db'" "dir_id d \<in> dir_id ` set (dirs db)"
  shows "archive_ok db'"
proof -
  have db': "db' = db\<lparr>dir_permissions := delete_where (\<lambda>p. ap_dir_id p = dir_id d) (dir_permissions db) @
      map (permission_row (dir_id d)) pairs\<rparr>" "distinct pairs"
    using assms(2) by (auto simp: sync_permissions_def split: if_split_asm)
  have "inj_on (permission_row (dir_id d)) (set pairs)"
    by (auto simp: inj_on_def permission_row_def prod_eq_iff)
  then have "distinct (map (permission_row (dir_id d)) pairs)" using db'(2) by (simp add: distinct_map)
  moreover have "distinct (delete_where (\<lambda>p. ap_dir_id p = dir_id d) (dir_permissions db))"
    using assms(1) by (simp add: archive_ok_def refs_ok_def delete_where_def)
  ultimately have "distinct (dir_permissions db')" by (auto simp: db'(1) permission_row_def)
  moreover have "\<forall>p \<in> set (dir_permissions db'). ap_dir_id p \<in> dir_id ` set (dirs db)"
    using assms(1,3) by (auto simp: db'(1) archive_ok_def refs_ok_def permission_row_def)
  moreover have "tree_ok db' = tree_ok db" by (rule tree_ok_cong) (simp add: db'(1))
  moreover have "fresh_ok db' = fresh_ok db" by (simp add: db'(1) fresh_ok_def)
  ultimately show ?thesis using assms(1) by (simp add: archive_ok_def refs_ok_def db'(1))
qed

lemma add_dir_ok:
  assumes ok: "archive_ok db" and d: "dir_id d = a_next_id db"
    and p: "\<And>p. dir_parent d = Some p \<Longrightarrow> get_dir db p \<noteq> None"
  shows "archive_ok (db\<lparr>dirs := dirs db @ [d], a_next_id := Suc (a_next_id db)\<rparr>)" (is "archive_ok ?db'")
proof -
  have new: "a_next_id db \<notin> dir_id ` set (dirs db)" using ok by (auto simp: archive_ok_def fresh_ok_def)
  have parents: "x \<in> dir_id ` set (dirs db)" if "dir_par db c = Some x" for c x
    using that ok by (auto simp: archive_ok_def tree_ok_def dir_par_def bind_eq_Some_conv dest!: get_dir_SomeD)
  have par: "dir_par ?db' = (dir_par db)(a_next_id db := dir_parent d)"
  proof
    fix j
    show "dir_par ?db' j = ((dir_par db)(a_next_id db := dir_parent d)) j"
    proof (cases "j = a_next_id db")
      case True
      have "get_by dir_id (dirs db) j = None" using new True by (simp add: get_by_None_iff)
      then show ?thesis using True by (simp add: dir_par_def get_dir_def get_by_append d)
    next
      case False
      then show ?thesis by (simp add: dir_par_def get_dir_def get_by_append d split: option.split)
    qed
  qed
  have "no_cycle (dir_par ?db')"
    unfolding par
  proof (rule no_cycle_fresh_leaf)
    show "no_cycle (dir_par db)" using ok by (simp add: archive_ok_def tree_ok_def)
    have "get_by dir_id (dirs db) (a_next_id db) = None" using new by (simp add: get_by_None_iff)
    then show "dir_par db (a_next_id db) = None" by (simp add: dir_par_def get_dir_def)
    show "dir_par db c \<noteq> Some (a_next_id db)" for c using parents new by blast
    show "dir_parent d \<noteq> Some (a_next_id db)" using p new by (auto simp: get_dir_def get_by_None_iff)
  qed
  moreover have "\<forall>p. dir_parent d = Some p \<longrightarrow> p \<in> dir_id ` set (dirs db)"
    using p by (auto simp: get_dir_def dest: get_by_SomeD)
  ultimately have "tree_ok ?db'"
    using ok new d by (auto simp: archive_ok_def tree_ok_def)
  moreover have "refs_ok ?db'" using ok by (auto simp: archive_ok_def refs_ok_def)
  moreover have "fresh_ok ?db'" using ok d by (auto simp: archive_ok_def fresh_ok_def less_Suc_eq)
  ultimately show ?thesis by (simp add: archive_ok_def)
qed

lemma remove_dir_ok:
  assumes ok: "archive_ok db" and empty: "\<not> dir_has_content db k"
  shows "archive_ok (remove_dir_row k db)"
proof -
  have par: "dir_par db c = Some p" if "dir_par (remove_dir_row k db) c = Some p" for c p
  proof -
    have "get_by dir_id (delete_where (\<lambda>d. dir_id d = k) ds) c = (if c = k then None else get_by dir_id ds c)"
      for ds :: "archive_dir list"
      by (induction ds) auto
    then show ?thesis using that by (auto simp: dir_par_def get_dir_def remove_dir_row_def split: if_splits)
  qed
  have "no_cycle (dir_par (remove_dir_row k db))"
    by (rule no_cycle_mono [of "dir_par db"]) (use ok par in \<open>auto simp: archive_ok_def tree_ok_def\<close>)
  moreover have "p \<noteq> k" if "d \<in> set (dirs db)" "dir_parent d = Some p" for d p
    using empty that by (auto simp: dir_has_content_def list_ex_iff)
  moreover have "j \<noteq> k" if "f \<in> set (files db)" "file_dir f = Some j" for f j
    using empty that by (auto simp: dir_has_content_def list_ex_iff)
  moreover have "distinct (delete_where (\<lambda>p. ap_dir_id p = k) (dir_permissions db))"
    using ok by (simp add: archive_ok_def refs_ok_def delete_where_def)
  ultimately have "tree_ok (remove_dir_row k db)" "refs_ok (remove_dir_row k db)"
    using ok unfolding archive_ok_def tree_ok_def refs_ok_def
    by (simp_all add: remove_dir_row_def distinct_map_delete_where image_iff) (metis, metis)
  moreover have "fresh_ok (remove_dir_row k db)" using ok by (auto simp: archive_ok_def fresh_ok_def remove_dir_row_def)
  ultimately show ?thesis by (simp add: archive_ok_def)
qed

lemma require_admin_bind: "bind_res (require_admin rq user) f = Inr y \<longleftrightarrow> is_archive_admin rq user \<and> f () = Inr y"
  by (simp add: require_admin_def)

lemma create_dir_ok:
  assumes "archive_ok db" "create_dir rq db data user = Inr (db', d)"
  shows "archive_ok db'"
proof -
  let ?d = "\<lparr>dir_id = a_next_id db, dir_name = dr_name data, dir_description = dr_description data,
                dir_parent = dr_parent data, recursive_permissions = Some (dr_recursive data),
                dir_created_at = rq_now rq, dir_updated_at = Some (rq_now rq), dir_deleted_at = None\<rparr>"
  let ?db = "db\<lparr>dirs := dirs db @ [?d], a_next_id := Suc (a_next_id db)\<rparr>"
  obtain pairs where sync: "sync_permissions ?db ?d pairs = Inr db'"
      and parent: "\<And>p. dr_parent data = Some p \<Longrightarrow> get_dir db p \<noteq> None"
    using assms(2) by (auto simp: create_dir_def require_admin_bind bind_res_eq_Inr Let_def
        split: if_split_asm option.split_asm)
  have "archive_ok ?db" by (rule add_dir_ok [OF assms(1)]) (use parent in auto)
  then show ?thesis by (rule sync_permissions_ok [OF _ sync]) simp
qed

lemma update_dir_ok:
  assumes "archive_ok db" "update_dir rq db k data user = Inr db'"
  shows "archive_ok db'"
proof -
  let ?w = "\<lambda>d. d\<lparr>dir_name := dr_name data, dir_description := dr_description data,
                       recursive_permissions := Some (dr_recursive data)\<rparr>"
  obtain d pairs where d: "get_dir db k = Some d" and sync: "sync_permissions (update_dir_row k ?w db) (?w d) pairs = Inr db'"
    using assms(2) by (auto simp: update_dir_def require_admin_bind bind_res_eq_Inr Let_def split: option.split_asm)
  have "archive_ok (update_dir_row k ?w db)" by (rule update_dir_row_ok [OF _ _ assms(1)]) simp_all
  then show ?thesis
    by (rule sync_permissions_ok [OF _ sync]) (use get_dir_SomeD [OF d] in \<open>auto simp: update_dir_row_def\<close>)
qed

lemma set_dir_parent_ok:
  assumes ok: "archive_ok db" and k: "get_dir db k \<noteq> None" and t: "\<And>t. target = Some t \<Longrightarrow> get_dir db t \<noteq> None"
    and free: "\<And>t. target = Some t \<Longrightarrow> \<not> move_blocked db t k"
  shows "archive_ok (set_dir_parent k target db)"
proof -
  have nc: "no_cycle (dir_par db)" using ok by (simp add: archive_ok_def tree_ok_def)
  have "no_cycle (dir_par (set_dir_parent k target db))"
  proof (cases target)
    case None
    then show ?thesis using archive.detach_keeps [OF k nc] by simp
  next
    case (Some t)
    then show ?thesis using archive.attach_keeps [OF k nc free] by simp
  qed
  moreover have "\<exists>x \<in> set (dirs db). dir_id x = p"
    if d: "d \<in> set (update_where (\<lambda>d. dir_id d = k) (\<lambda>d. d\<lparr>dir_parent := target\<rparr>) (dirs db))"
      and dp: "dir_parent d = Some p" for d p
  proof -
    obtain d' where d': "d' \<in> set (dirs db)" "d = d' \<or> d = d'\<lparr>dir_parent := target\<rparr>"
      using d by (auto simp: set_update_where split: if_splits)
    then consider "dir_parent d' = Some p" | "target = Some p" using dp by auto
    then show ?thesis
    proof cases
      case 1
      then show ?thesis using d'(1) ok by (force simp: archive_ok_def tree_ok_def)
    next
      case 2
      then obtain x where "get_dir db p = Some x" using t by blast
      then show ?thesis using get_dir_SomeD by blast
    qed
  qed
  ultimately have "tree_ok (set_dir_parent k target db)"
    using ok by (force simp: archive_ok_def tree_ok_def set_dir_parent_def update_dir_row_def)
  then show ?thesis
    using ok by (simp add: archive_ok_def refs_ok_def fresh_ok_def set_dir_parent_def update_dir_row_def)
qed

lemma receive_dir_ok:
  assumes "archive_ok db" "\<And>t. target = Some t \<Longrightarrow> get_dir db t \<noteq> None" "receive_dir target k db = Inr db'"
  shows "archive_ok db' \<and> (\<forall>t. (get_dir db' t \<noteq> None) = (get_dir db t \<noteq> None))"
proof (cases "get_dir db k")
  case None
  then show ?thesis using assms by (simp add: receive_dir_def)
next
  case (Some d)
  then have db': "db' = set_dir_parent k target db" "\<And>t. target = Some t \<Longrightarrow> \<not> move_blocked db t k"
    using assms(3) by (auto simp: receive_dir_def move_blocked_def split: if_split_asm)
  then show ?thesis
    using set_dir_parent_ok [OF assms(1) _ assms(2), of k target] Some archive.present_set by simp
qed

lemma receive_items_ok:
  assumes ok: "archive_ok db" and res: "receive_items rq db target item_type ids user = Inr db'"
  shows "archive_ok db'"
proof -
  have t: "get_dir db t \<noteq> None" if "target = Some t" for t
    using res that by (auto simp: receive_items_def require_admin_bind split: if_split_asm)
  show ?thesis
  proof (cases "item_type = ''dir''")
    case True
    then have "fold_res (receive_dir target) ids db = Inr db'"
      using res by (auto simp: receive_items_def require_admin_bind receive_dirs_def split: if_split_asm)
    then have "archive_ok db' \<and> (\<forall>t. target = Some t \<longrightarrow> get_dir db' t \<noteq> None)"
    proof (rule fold_res_invariant)
      show "archive_ok db \<and> (\<forall>t. target = Some t \<longrightarrow> get_dir db t \<noteq> None)" using ok t by blast
      fix k u v assume "archive_ok u \<and> (\<forall>t. target = Some t \<longrightarrow> get_dir u t \<noteq> None)" "receive_dir target k u = Inr v"
      then show "archive_ok v \<and> (\<forall>t. target = Some t \<longrightarrow> get_dir v t \<noteq> None)"
        using receive_dir_ok [of u target k v] by blast
    qed
    then show ?thesis by blast
  next
    case False
    then have db': "db' = receive_files db target ids"
      using res by (auto simp: receive_items_def require_admin_bind split: if_split_asm)
    have "archive_ok db' \<and> dirs db' = dirs db"
      unfolding db' receive_files_def
    proof (rule fold_invariant')
      show "archive_ok db \<and> dirs db = dirs db" using ok by blast
      fix k u assume u: "archive_ok u \<and> dirs u = dirs db"
      have target: "j \<in> dir_id ` set (dirs u)" if j: "target = Some j" for j
      proof -
        obtain x where "get_dir db j = Some x" using t [OF j] by blast
        then show ?thesis using get_dir_SomeD u by (metis image_eqI)
      qed
      have "archive_ok (update_file_row k (\<lambda>f. f\<lparr>file_dir := target\<rparr>) u)"
        by (rule update_file_row_ok) (use u target in auto)
      then show "archive_ok (u\<lparr>files := update_where (\<lambda>f. file_id f = k) (\<lambda>f. f\<lparr>file_dir := target\<rparr>) (files u)\<rparr>) \<and>
          dirs (u\<lparr>files := update_where (\<lambda>f. file_id f = k) (\<lambda>f. f\<lparr>file_dir := target\<rparr>) (files u)\<rparr>) = dirs db"
        using u by (simp add: update_file_row_def)
    qed
    then show ?thesis by blast
  qed
qed

lemma upload_file_ok:
  assumes ok: "archive_ok db" and up: "upload_file sha paths rq db u description user_id st = (st', Inr (db', f))"
  shows "archive_ok db'"
proof -
  define content where "content = take (UPLOAD_MAX_KB * 1024 + 1) (up_content u)"
  define item where "item = uploaded_item sha rq db u content description user_id"
  have new: "upload_refused sha db u content description = None" and f: "f = \<lparr>file_id = Suc (a_next_id db), file_dir = None,
      file_description = Some description, file_item_id = si_id item, file_created_at = rq_now rq, file_deleted_at = None\<rparr>"
    and db': "db' = db\<lparr>store_items := store_items db @ [item], files := files db @ [f], a_next_id := Suc (Suc (a_next_id db))\<rparr>"
    using up unfolding upload_file_def content_def [symmetric] Let_def item_def [symmetric]
    by (auto split: option.split_asm sum.split_asm)
  have id: "si_id item = a_next_id db" "si_sha256_hash item = sha content"
    by (simp_all add: item_def uploaded_item_def Let_def)
  have "List.find (\<lambda>i. si_sha256_hash i = sha content) (store_items db) = None"
    using new by (auto simp: upload_refused_def Let_def split: option.split_asm if_split_asm)
  then have hash: "sha content \<notin> si_sha256_hash ` set (store_items db)" by (auto simp: find_None_iff)
  have below: "k < a_next_id db" if "k \<in> file_id ` set (files db) \<union> si_id ` set (store_items db)" for k
    using ok that unfolding archive_ok_def fresh_ok_def by blast
  then have fresh: "Suc (a_next_id db) \<notin> file_id ` set (files db)" "a_next_id db \<notin> si_id ` set (store_items db)"
    by (metis Un_iff below less_irrefl Suc_lessD, metis Un_iff below less_irrefl)
  have "tree_ok db'" using ok tree_ok_cong [of db' db] by (simp add: archive_ok_def db')
  moreover have "refs_ok db'" using ok hash id f fresh unfolding archive_ok_def refs_ok_def db' by simp
  moreover have "fresh_ok db'" using ok id f by (auto simp: archive_ok_def fresh_ok_def db' less_Suc_eq)
  ultimately show ?thesis by (simp add: archive_ok_def)
qed

lemma create_comment_ok:
  assumes ok: "archive_ok db" and res: "create_comment rq db k content user = Inr (db', c)"
  shows "archive_ok db'"
proof -
  obtain f where f: "get_file db k = Some f" and db': "db' = db\<lparr>comments := comments db @ [c], a_next_id := Suc (a_next_id db)\<rparr>"
      and c: "com_id c = a_next_id db" "com_file_id c = file_id f"
    using res by (auto simp: create_comment_def bind_res_eq_Inr Let_def split: option.split_asm if_split_asm)
  have "file_id f \<in> file_id ` set (files db)" using get_by_SomeD [of file_id "files db" k f] f by (auto simp: get_file_def)
  moreover have "tree_ok db'" using ok tree_ok_cong [of db' db] by (simp add: archive_ok_def db')
  moreover have "fresh_ok db'" using ok c by (auto simp: archive_ok_def fresh_ok_def db' less_Suc_eq)
  ultimately show ?thesis
    using ok c by (auto simp: archive_ok_def refs_ok_def fresh_ok_def db')
qed

lemma delete_comment_ok:
  assumes ok: "archive_ok db" and res: "delete_comment rq db k cid user = Inr db'"
  shows "archive_ok db'"
proof -
  have db': "db' = db\<lparr>comments := update_where (\<lambda>x. com_id x = cid)
                          (\<lambda>x. x\<lparr>com_deleted_at := Some (rq_now rq)\<rparr>) (comments db)\<rparr>"
    using res by (auto simp: delete_comment_def split: option.split_asm if_split_asm)
  have "tree_ok db'" using ok tree_ok_cong [of db' db] by (simp add: archive_ok_def db')
  moreover have "fresh_ok db'" using ok by (simp add: archive_ok_def fresh_ok_def db')
  moreover have "refs_ok db'" using ok by (auto simp: archive_ok_def refs_ok_def db' set_update_where split: if_splits)
  ultimately show ?thesis by (simp add: archive_ok_def)
qed

lemma remove_file_ok:
  assumes ok: "archive_ok db"
  shows "archive_ok (remove_file_row k db)"
proof -
  have "tree_ok (remove_file_row k db)" using ok tree_ok_cong [of "remove_file_row k db" db]
    by (simp add: archive_ok_def remove_file_row_def)
  moreover have "fresh_ok (remove_file_row k db)" using ok by (auto simp: archive_ok_def fresh_ok_def remove_file_row_def)
  moreover have "refs_ok (remove_file_row k db)" using ok unfolding archive_ok_def refs_ok_def
    by (auto simp: remove_file_row_def distinct_map_delete_where)
  ultimately show ?thesis by (simp add: archive_ok_def)
qed

lemma orphans_ok:
  assumes ok: "archive_ok db" and d: "delete_orphaned_store_items db i = (db', os)"
  shows "archive_ok db'"
proof (cases "item_referenced db i \<or> get_by si_id (store_items db) i = None")
  case True
  then show ?thesis using ok d by (auto simp: delete_orphaned_store_items_def split: if_split_asm)
next
  case False
  then have db': "db' = db\<lparr>store_items := delete_where (\<lambda>x. si_id x = i) (store_items db)\<rparr>"
    using d by (auto simp: delete_orphaned_store_items_def)
  have ref: "file_item_id f \<noteq> i" if "f \<in> set (files db)" for f
    using False that by (auto simp: item_referenced_def list_ex_iff)
  have "tree_ok db'" using ok tree_ok_cong [of db' db] by (simp add: archive_ok_def db')
  moreover have "fresh_ok db'" using ok by (auto simp: archive_ok_def fresh_ok_def db')
  moreover have "refs_ok db'" using ok ref unfolding archive_ok_def refs_ok_def
    by (simp add: db' distinct_map_delete_where image_iff) metis
  ultimately show ?thesis by (simp add: archive_ok_def)
qed

lemma hard_delete_file_ok:
  assumes "archive_ok db" "hard_delete_file paths db st f = (db', st', out)"
  shows "archive_ok db'"
proof -
  obtain os where "delete_orphaned_store_items (remove_file_row (file_id f) db) (file_item_id f) = (db', os)"
    using assms(2) by (auto simp: hard_delete_file_def split: prod.split_asm)
  then show ?thesis by (rule orphans_ok [OF remove_file_ok [OF assms(1)]])
qed

section \<open>The state machine\<close>

text \<open>One request that succeeds, by whichever user, or one call of the operator's tool.\<close>

inductive archive_step ::
  "(string \<Rightarrow> string) \<Rightarrow> archive_paths \<Rightarrow> archive_db \<times> storage \<Rightarrow> archive_db \<times> storage \<Rightarrow> bool"
  for sha and paths where
  create: "create_dir rq db data user = Inr (db', d) \<Longrightarrow> archive_step sha paths (db, st) (db', st)"
| change: "update_dir rq db k data user = Inr db' \<Longrightarrow> archive_step sha paths (db, st) (db', st)"
| trash: "delete_dir rq db k user = Inr db' \<Longrightarrow> archive_step sha paths (db, st) (db', st)"
| purge: "purge_dir rq db k user = Inr db' \<Longrightarrow> archive_step sha paths (db, st) (db', st)"
| restore: "restore_dir rq db k user = Inr db' \<Longrightarrow> archive_step sha paths (db, st) (db', st)"
| move: "receive_items rq db target item_type ids user = Inr db' \<Longrightarrow> archive_step sha paths (db, st) (db', st)"
| describe: "update_file rq db k text user = Inr db' \<Longrightarrow> archive_step sha paths (db, st) (db', st)"
| trash_file: "delete_file rq db k user = Inr db' \<Longrightarrow> archive_step sha paths (db, st) (db', st)"
| untrash_file: "restore_file rq db k user = Inr db' \<Longrightarrow> archive_step sha paths (db, st) (db', st)"
| upload: "upload_file sha paths rq db u text uid st = (st', Inr (db', f)) \<Longrightarrow> archive_step sha paths (db, st) (db', st')"
| link: "get_presigned_url thumb presign paths rq db k user st sz = Inr (st', url) \<Longrightarrow>
     archive_step sha paths (db, st) (db, st')"
| withdraw: "delete_unfiled_upload paths db k user st = Inr (db', st') \<Longrightarrow> archive_step sha paths (db, st) (db', st')"
| comment_on: "create_comment rq db k text user = Inr (db', c) \<Longrightarrow> archive_step sha paths (db, st) (db', st)"
| uncomment: "delete_comment rq db k cid user = Inr db' \<Longrightarrow> archive_step sha paths (db, st) (db', st)"
| cli_purge: "purge_file paths db st k = Inr (db', st', out) \<Longrightarrow> archive_step sha paths (db, st) (db', st')"
| cli_restore: "cli_restore_file db k = Inr (db', loc) \<Longrightarrow> archive_step sha paths (db, st) (db', st)"

inductive_cases archive_stepE: "archive_step sha paths s t"

lemmas dir_writes = delete_dir_def purge_dir_def restore_dir_def update_file_def delete_file_def restore_file_def
  require_admin_bind

lemma archive_step_ok: "archive_step sha paths s t \<Longrightarrow> archive_ok (fst s) \<Longrightarrow> archive_ok (fst t)"
proof (induction rule: archive_step.induct)
  case (trash rq db k user db' st)
  then show ?case
    by (auto simp: dir_writes intro!: update_dir_row_ok remove_dir_ok split: option.split_asm if_split_asm
        dest!: get_dir_SomeD)
next
  case (purge rq db k user db' st)
  then show ?case
    by (auto simp: dir_writes intro!: remove_dir_ok split: option.split_asm if_split_asm dest!: get_dir_SomeD)
next
  case (restore rq db k user db' st)
  then show ?case by (auto simp: dir_writes intro!: update_dir_row_ok split: option.split_asm)
next
  case (describe rq db k tx user db' st)
  then show ?case by (auto simp: dir_writes intro!: update_file_row_ok split: option.split_asm if_split_asm)
next
  case (trash_file rq db k user db' st)
  then show ?case by (auto simp: dir_writes intro!: update_file_row_ok split: option.split_asm)
next
  case (untrash_file rq db k user db' st)
  then show ?case by (auto simp: dir_writes intro!: update_file_row_ok split: option.split_asm)
next
  case (withdraw db k user st db' st')
  then show ?case
    by (auto simp: delete_unfiled_upload_def split: option.split_asm if_split_asm prod.split_asm
        intro: hard_delete_file_ok)
next
  case (cli_purge db st k db' st' out)
  then show ?case by (auto simp: purge_file_def bind_res_eq_Inr intro: hard_delete_file_ok)
next
  case (cli_restore db k db' loc st)
  then show ?case by (auto simp: cli_restore_file_def bind_res_eq_Inr Let_def intro!: update_file_row_ok split: if_split_asm)
qed (auto intro: create_dir_ok update_dir_ok receive_items_ok upload_file_ok create_comment_ok delete_comment_ok)

end
