(* ===== verification/Archive_Content.thy ===== *)
theory Archive_Content
  imports Archive_Invariant
begin

text \<open>
  The content behind the archive: every store item has its object in the store, and the object is
  the one its hash was computed from. Uploads establish it, thumbnails and purges do not touch
  the content of other items.
\<close>

definition paths_apart :: "archive_paths \<Rightarrow> bool" where
  "paths_apart paths \<longleftrightarrow> (\<forall>h. \<not> has_prefix (path_cache paths @ ''/'') (store_key paths h))"

definition stored :: "(string \<Rightarrow> string) \<Rightarrow> archive_paths \<Rightarrow> storage \<Rightarrow> string \<Rightarrow> bool" where
  "stored sha paths st h \<longleftrightarrow> (\<exists>data. map_of (objects st) (store_key paths h) = Some data \<and> sha data = h)"

definition content_stored :: "(string \<Rightarrow> string) \<Rightarrow> archive_paths \<Rightarrow> archive_db \<Rightarrow> storage \<Rightarrow> bool" where
  "content_stored sha paths db st \<longleftrightarrow> (\<forall>i \<in> set (store_items db). stored sha paths st (si_sha256_hash i))"

lemma store_key_eq [simp]: "store_key paths g = store_key paths h \<longleftrightarrow> g = h"
  by (simp add: store_key_def)

lemma has_prefix_cache: "has_prefix (cache_prefix paths h) k \<Longrightarrow> has_prefix (path_cache paths @ ''/'') k"
proof -
  assume "has_prefix (cache_prefix paths h) k"
  then have "take (length (path_cache paths @ ''/'')) (take (length (cache_prefix paths h)) k) =
      take (length (path_cache paths @ ''/'')) (cache_prefix paths h)" by (simp add: has_prefix_def)
  then show ?thesis by (simp add: has_prefix_def cache_prefix_def min_def)
qed

lemma thumbnail_key_cached: "has_prefix (path_cache paths @ ''/'') (thumbnail_cache_key paths h sz)"
  by (simp add: has_prefix_def thumbnail_cache_key_def)

lemma stored_mono:
  "stored sha paths st h \<Longrightarrow> map_of (objects st') (store_key paths h) = map_of (objects st) (store_key paths h) \<Longrightarrow>
   stored sha paths st' h"
  by (simp add: stored_def)

section \<open>Deletions in the store\<close>

lemma delete_s3_key_other:
  assumes "delete_s3_key key (st, del, err) = (st', del', err')" "k \<noteq> key"
  shows "map_of (objects st') k = map_of (objects st) k"
  using assms storage_delete_object [of st key] by (auto simp: delete_s3_key_def split: sum.split_asm)

lemma fold_delete_other:
  assumes "fold delete_s3_key keys s = t" "k \<notin> set keys"
  shows "map_of (objects (fst t)) k = map_of (objects (fst s)) k"
  using assms
proof (induction keys arbitrary: s)
  case Nil
  then show ?case by simp
next
  case (Cons key keys)
  obtain st del err where s: "s = (st, del, err)" by (cases s) auto
  obtain st' del' err' where d: "delete_s3_key key (st, del, err) = (st', del', err')"
    by (cases "delete_s3_key key (st, del, err)") auto
  then show ?case using Cons delete_s3_key_other [OF d, of k] by (simp add: s)
qed

lemma purge_s3_object_other:
  assumes "purge_s3_object paths h s = t" "k \<noteq> store_key paths h" "\<not> has_prefix (path_cache paths @ ''/'') k"
  shows "map_of (objects (fst t)) k = map_of (objects (fst s)) k"
proof -
  obtain st del err where s: "s = (st, del, err)" by (cases s) auto
  obtain st' del' err' where d: "delete_s3_key (store_key paths h) (st, del, err) = (st', del', err')"
    by (cases "delete_s3_key (store_key paths h) (st, del, err)") auto
  have first: "map_of (objects st') k = map_of (objects st) k" by (rule delete_s3_key_other [OF d assms(2)])
  show ?thesis
  proof (cases "storage_list_keys st' (cache_prefix paths h)")
    case (Inl e)
    then show ?thesis using assms(1) first d by (auto simp: purge_s3_object_def s)
  next
    case (Inr keys)
    have "k \<notin> set keys"
      using Inr assms(3) has_prefix_cache by (auto simp: storage_list_keys_def split: if_split_asm)
    moreover have "t = fold delete_s3_key keys (st', del', err')"
      using assms(1) d Inr by (simp add: purge_s3_object_def s)
    ultimately show ?thesis using fold_delete_other [of keys "(st', del', err')" t k] first by (simp add: s)
  qed
qed

text \<open>What removing a list of keys leaves: a key goes exactly if its request does not fail.\<close>

lemma fold_delete_keys:
  "fold delete_s3_key keys (st, del, err) = (st', del', err') \<Longrightarrow>
     s3_fails st' = s3_fails st \<and> err' = err @ filter (s3_fails st Delete) keys \<and>
     del' = del @ filter (\<lambda>k. \<not> s3_fails st Delete k) keys \<and>
     (\<forall>k. map_of (objects st') k = (if k \<in> set keys \<and> \<not> s3_fails st Delete k then None else map_of (objects st) k))"
proof (induction keys arbitrary: st del err)
  case (Cons key keys)
  show ?case
  proof (cases "storage_delete st key")
    case (Inl e)
    then have f: "s3_fails st Delete key" by (simp add: storage_delete_def split: if_split_asm)
    have "delete_s3_key key (st, del, err) = (st, del, err @ [key])" by (simp add: delete_s3_key_def Inl)
    then have "fold delete_s3_key keys (st, del, err @ [key]) = (st', del', err')" using Cons.prems by simp
    from Cons.IH [OF this] f show ?thesis by auto
  next
    case (Inr st1)
    then have f: "\<not> s3_fails st Delete key" by (simp add: storage_delete_def split: if_split_asm)
    have "delete_s3_key key (st, del, err) = (st1, del @ [key], err)" by (simp add: delete_s3_key_def Inr)
    then have "fold delete_s3_key keys (st1, del @ [key], err) = (st', del', err')" using Cons.prems by simp
    note ih = Cons.IH [OF this]
    note d = storage_delete_object [OF Inr]
    have "map_of (objects st1) key = None" using d by (auto simp: has_object_def map_of_eq_None_iff)
    then show ?thesis using ih d f by auto
  qed
qed simp

definition content_key :: "archive_paths \<Rightarrow> string \<Rightarrow> string \<Rightarrow> bool" where
  "content_key paths h k \<longleftrightarrow> k = store_key paths h \<or> has_prefix (cache_prefix paths h) k"

lemma purge_s3_object_content:
  assumes "purge_s3_object paths h (st, [], []) = (st', del, err)"
  shows "\<not> content_key paths h k \<Longrightarrow> map_of (objects st') k = map_of (objects st) k"
    and "content_key paths h k \<Longrightarrow> map_of (objects st') k \<noteq> None \<Longrightarrow>
      (s3_fails st Delete k \<or> s3_fails st List_Keys (cache_prefix paths h)) \<and> err \<noteq> []"
    and "k \<in> set del \<Longrightarrow> content_key paths h k \<and> map_of (objects st') k = None"
proof -
  let ?m = "store_key paths h" and ?p = "cache_prefix paths h"
  obtain st1 del1 err1 where d1: "delete_s3_key ?m (st, [], []) = (st1, del1, err1)" by (metis prod_cases3)
  then have "fold delete_s3_key [?m] (st, [], []) = (st1, del1, err1)" by simp
  note one = fold_delete_keys [OF this]
  have "(\<not> content_key paths h k \<longrightarrow> map_of (objects st') k = map_of (objects st) k) \<and>
      (content_key paths h k \<and> map_of (objects st') k \<noteq> None \<longrightarrow>
        (s3_fails st Delete k \<or> s3_fails st List_Keys ?p) \<and> err \<noteq> []) \<and>
      (k \<in> set del \<longrightarrow> content_key paths h k \<and> map_of (objects st') k = None)"
  proof (cases "storage_list_keys st1 ?p")
    case (Inl e)
    then have f: "s3_fails st List_Keys ?p" using one by (simp add: storage_list_keys_def split: if_split_asm)
    have "st' = st1 \<and> del = del1 \<and> err \<noteq> []" using assms d1 Inl by (auto simp: purge_s3_object_def)
    then show ?thesis using one f by (auto simp: content_key_def)
  next
    case (Inr keys)
    then have keys: "set keys = {k. map_of (objects st1) k \<noteq> None \<and> has_prefix ?p k}"
      by (auto simp: storage_list_keys_def map_of_eq_None_iff image_iff split: if_split_asm) force+
    have "fold delete_s3_key keys (st1, del1, err1) = (st', del, err)"
      using assms d1 Inr by (simp add: purge_s3_object_def)
    note rest = fold_delete_keys [OF this]
    have same: "s3_fails st1 = s3_fails st" using one by blast
    have err: "err = filter (s3_fails st Delete) [?m] @ filter (s3_fails st Delete) keys"
      and del: "del = filter (\<lambda>k. \<not> s3_fails st Delete k) [?m] @ filter (\<lambda>k. \<not> s3_fails st Delete k) keys"
      using one rest same by simp_all
    have m: "map_of (objects st') k = (if (k \<in> set keys \<or> k = ?m) \<and> \<not> s3_fails st Delete k then None else map_of (objects st) k)" for k
      using one rest same by auto
    show ?thesis
    proof (intro conjI impI)
      show "\<not> content_key paths h k \<Longrightarrow> map_of (objects st') k = map_of (objects st) k"
        unfolding m using keys by (auto simp: content_key_def)
      assume "k \<in> set del"
      then have "(k \<in> set keys \<or> k = ?m) \<and> \<not> s3_fails st Delete k" by (auto simp: del split: if_split_asm)
      then show "content_key paths h k" "map_of (objects st') k = None" unfolding m using keys by (auto simp: content_key_def)
    next
      assume k: "content_key paths h k \<and> map_of (objects st') k \<noteq> None"
      then have there: "map_of (objects st) k \<noteq> None" "\<not> ((k \<in> set keys \<or> k = ?m) \<and> \<not> s3_fails st Delete k)"
        unfolding m by (auto split: if_split_asm)
      have "k \<in> set keys \<or> k = ?m" using k there(1) keys one by (auto simp: content_key_def)
      then show "s3_fails st Delete k \<or> s3_fails st List_Keys ?p" "err \<noteq> []"
        using there(2) by (auto simp: err filter_empty_conv)
    qed
  qed
  then show "\<not> content_key paths h k \<Longrightarrow> map_of (objects st') k = map_of (objects st) k"
    and "content_key paths h k \<Longrightarrow> map_of (objects st') k \<noteq> None \<Longrightarrow>
      (s3_fails st Delete k \<or> s3_fails st List_Keys (cache_prefix paths h)) \<and> err \<noteq> []"
    and "k \<in> set del \<Longrightarrow> content_key paths h k \<and> map_of (objects st') k = None"
    by blast+
qed

lemma orphan_cases:
  assumes "delete_orphaned_store_items db i = (db', os)"
  shows "(db' = db \<and> os = []) \<or> (\<exists>item. os = [item] \<and> item \<in> set (store_items db) \<and> si_id item = i \<and>
    \<not> item_referenced db i \<and> db' = db\<lparr>store_items := delete_where (\<lambda>x. si_id x = i) (store_items db)\<rparr>)"
  using assms get_by_SomeD [of si_id "store_items db" i]
  by (auto simp: delete_orphaned_store_items_def split: if_split_asm option.split_asm)

lemma hard_delete_content:
  assumes ok: "archive_ok db" and apart: "paths_apart paths" and content: "content_stored sha paths db st"
    and res: "hard_delete_file paths db st f = (db', st', out)"
  shows "content_stored sha paths db' st'"
proof -
  let ?db = "remove_file_row (file_id f) db"
  obtain os where os: "delete_orphaned_store_items ?db (file_item_id f) = (db', os)"
    and st': "st' = fst (fold (\<lambda>item. purge_s3_object paths (si_sha256_hash item)) os (st, [], []))"
    using res by (auto simp: hard_delete_file_def split: prod.split_asm)
  have items: "store_items ?db = store_items db" by (simp add: remove_file_row_def)
  show ?thesis
    using orphan_cases [OF os]
  proof (elim disjE exE conjE)
    assume "db' = ?db" "os = []"
    then show ?thesis using content by (simp add: content_stored_def items st')
  next
    fix item assume item: "os = [item]" "item \<in> set (store_items ?db)" "si_id item = file_item_id f"
      and db': "db' = ?db\<lparr>store_items := delete_where (\<lambda>x. si_id x = file_item_id f) (store_items ?db)\<rparr>"
    have "stored sha paths st' (si_sha256_hash i)" if i: "i \<in> set (store_items db')" for i
    proof -
      have i': "i \<in> set (store_items db)" "i \<noteq> item" using i item(3) by (auto simp: db' items)
      then have "si_sha256_hash i \<noteq> si_sha256_hash item"
        using ok item(2) by (auto simp: archive_ok_def refs_ok_def distinct_map inj_on_def items)
      then have "map_of (objects st') (store_key paths (si_sha256_hash i)) =
          map_of (objects st) (store_key paths (si_sha256_hash i))"
        using purge_s3_object_other [of paths "si_sha256_hash item" "(st, [], [])" _ "store_key paths (si_sha256_hash i)"]
          apart by (simp add: st' item(1) paths_apart_def)
      then show ?thesis using stored_mono content i'(1) unfolding content_stored_def by blast
    qed
    then show ?thesis by (simp add: content_stored_def)
  qed
qed

section \<open>Uploads and thumbnails\<close>

lemma thumbnail_content:
  assumes "paths_apart paths" "get_or_create_thumbnail thumb paths h sz st = Inr (st', x)"
  shows "map_of (objects st') (store_key paths g) = map_of (objects st) (store_key paths g)"
proof -
  consider "st' = st" | small where "storage_upload st (thumbnail_cache_key paths h sz) small = Inr st'"
    using assms(2) by (auto simp: get_or_create_thumbnail_def Let_def bind_res_eq_Inr split: if_split_asm option.split_asm)
      (metis not_None_eq)
  then show ?thesis
  proof cases
    case 2
    have "store_key paths g \<noteq> thumbnail_cache_key paths h sz"
      using assms(1) thumbnail_key_cached unfolding paths_apart_def by metis
    then show ?thesis using storage_upload_object [OF 2] by simp
  qed simp
qed

lemma upload_content:
  assumes content: "content_stored sha paths db st"
    and up: "upload_file sha paths rq db u description user_id st = (st', Inr (db', f))"
  shows "content_stored sha paths db' st'"
proof -
  define data where "data = take (UPLOAD_MAX_KB * 1024 + 1) (up_content u)"
  have st': "storage_upload st (store_key paths (sha data)) data = Inr st'"
    and items: "store_items db' = store_items db @ [uploaded_item sha rq db u data description user_id]"
    using up unfolding upload_file_def data_def [symmetric] Let_def
    by (auto split: option.split_asm sum.split_asm)
  have "stored sha paths st' (sha data)" using storage_upload_object [OF st'] by (simp add: stored_def)
  moreover have "stored sha paths st' g" if "stored sha paths st g" for g
    using that storage_upload_object [OF st'] calculation by (cases "g = sha data") (auto simp: stored_def)
  ultimately show ?thesis
    using content by (auto simp: content_stored_def items uploaded_item_def Let_def)
qed

section \<open>Every step keeps the content\<close>

lemma receive_files_items: "store_items (receive_files db target ids) = store_items db"
  unfolding receive_files_def by (induction ids arbitrary: db) simp_all

lemma receive_store_items: "receive_items rq db target item_type ids user = Inr db' \<Longrightarrow> store_items db' = store_items db"
proof -
  assume res: "receive_items rq db target item_type ids user = Inr db'"
  show ?thesis
  proof (cases "item_type = ''dir''")
    case True
    then have "fold_res (receive_dir target) ids db = Inr db'"
      using res by (auto simp: receive_items_def require_admin_bind receive_dirs_def split: if_split_asm)
    then show ?thesis
    proof (rule fold_res_invariant)
      show "store_items db = store_items db" ..
      show "store_items v = store_items db" if "store_items u = store_items db" "receive_dir target k u = Inr v" for k u v
        using that by (auto simp: receive_dir_def set_dir_parent_def update_dir_row_def split: option.split_asm if_split_asm)
    qed
  next
    case False
    then have "db' = receive_files db target ids"
      using res by (auto simp: receive_items_def require_admin_bind split: if_split_asm)
    then show ?thesis by (simp add: receive_files_items)
  qed
qed

lemma sync_store_items: "sync_permissions db d pairs = Inr db' \<Longrightarrow> store_items db' = store_items db"
  by (auto simp: sync_permissions_def split: if_split_asm)

lemma archive_step_content:
  "archive_step sha paths s t \<Longrightarrow> archive_ok (fst s) \<Longrightarrow> paths_apart paths \<Longrightarrow>
   content_stored sha paths (fst s) (snd s) \<Longrightarrow> content_stored sha paths (fst t) (snd t)"
proof (induction rule: archive_step.induct)
  case (upload rq db u tx uid st st' db' f)
  then show ?case by (auto intro: upload_content)
next
  case (link thumb presign rq db k user st sz st' url)
  then have "st' = st \<or> (\<exists>h s x. get_or_create_thumbnail thumb paths h s st = Inr (st', x))"
    by (auto simp: get_presigned_url_def bind_res_eq_Inr split: option.split_asm if_split_asm)
  then show ?case using link thumbnail_content [of paths thumb] unfolding content_stored_def
    by (auto intro: stored_mono)
next
  case (withdraw db k user st db' st')
  then show ?case
    by (auto simp: delete_unfiled_upload_def split: option.split_asm if_split_asm prod.split_asm
        intro: hard_delete_content)
next
  case (cli_purge db st k db' st' out)
  then show ?case by (auto simp: purge_file_def bind_res_eq_Inr intro: hard_delete_content)
next
  case (create rq db data user db' d st)
  then have "store_items db' = store_items db"
    by (auto simp: create_dir_def require_admin_bind bind_res_eq_Inr Let_def
        split: if_split_asm dest!: sync_store_items)
  then show ?case using create by (simp add: content_stored_def)
next
  case (change rq db k data user db' st)
  then have "store_items db' = store_items db"
    by (auto simp: update_dir_def require_admin_bind bind_res_eq_Inr Let_def update_dir_row_def
        split: option.split_asm dest!: sync_store_items)
  then show ?case using change by (simp add: content_stored_def)
next
  case (move rq db target item_type ids user db' st)
  then show ?case using receive_store_items [OF move.hyps] by (simp add: content_stored_def)
next
  case (trash rq db k user db' st)
  then show ?case
    by (auto simp: dir_writes update_dir_row_def remove_dir_row_def content_stored_def split: option.split_asm if_split_asm)
next
  case (purge rq db k user db' st)
  then show ?case by (auto simp: dir_writes remove_dir_row_def content_stored_def split: option.split_asm if_split_asm)
next
  case (cli_restore db k db' loc st)
  then show ?case
    by (auto simp: cli_restore_file_def bind_res_eq_Inr Let_def update_file_row_def content_stored_def split: if_split_asm)
qed (auto simp: dir_writes create_comment_def delete_comment_def bind_res_eq_Inr Let_def update_dir_row_def
    update_file_row_def content_stored_def split: option.split_asm if_split_asm)

end
