(* ===== verification/Archive_Browse.thy ===== *)
theory Archive_Browse
  imports Archive_Files
begin

text \<open>
  What a member sees of the archive: the root and directory listings, one file with its comments,
  the statistics and the ranked search of \<open>app/services/archive_service.py\<close>. PostgreSQL's text
  search is a parameter: which rows a query matches and how it ranks them. A path that is
  \<open>None\<close> stands for a request that does not return.
\<close>

section \<open>Statistics\<close>

definition reachable_file :: "archive_db \<Rightarrow> archive_file \<Rightarrow> bool" where
  "reachable_file db f \<longleftrightarrow> file_deleted_at f = None \<and>
     (case file_dir f of None \<Rightarrow> False | Some k \<Rightarrow> k \<notin> trashed_dir_ids db)"

definition active_item :: "archive_db \<Rightarrow> archive_store_item \<Rightarrow> bool" where
  "active_item db i \<longleftrightarrow> list_ex (\<lambda>f. file_item_id f = si_id i \<and> reachable_file db f) (files db)"

record extension_stat =
  es_extension :: string
  es_count :: nat
  es_size :: nat

record archive_stats =
  file_count :: nat
  unique_object_count :: nat
  dir_count :: nat
  total_size :: nat
  by_extension :: "extension_stat list"

definition extension_stats :: "archive_store_item list \<Rightarrow> extension_stat list" where
  "extension_stats items =
     sort_desc es_count (map (\<lambda>e. \<lparr>es_extension = e,
         es_count = length (filter (\<lambda>i. si_extension i = e) items),
         es_size = sum_list (map si_size (filter (\<lambda>i. si_extension i = e) items))\<rparr>)
       (remdups (map si_extension items)))"

definition get_archive_stats :: "archive_db \<Rightarrow> archive_stats" where
  "get_archive_stats db =
     (let items = filter (active_item db) (store_items db) in
      \<lparr>file_count = length (filter (reachable_file db) (files db)),
       unique_object_count = length items,
       dir_count = length (filter (\<lambda>d. dir_deleted_at d = None \<and> dir_id d \<notin> trashed_dir_ids db) (dirs db)),
       total_size = sum_list (map si_size items),
       by_extension = extension_stats items\<rparr>)"

section \<open>Listings\<close>

record 'a bucket =
  b_insight :: "'a list"
  b_admin :: "'a list"
  b_trashed :: "'a list"

definition empty_bucket :: "'a bucket" where
  "empty_bucket = \<lparr>b_insight = [], b_admin = [], b_trashed = []\<rparr>"

definition classify_dir ::
  "request \<Rightarrow> archive_db \<Rightarrow> member \<Rightarrow> perm_sets \<Rightarrow> archive_dir \<Rightarrow> archive_dir bucket \<Rightarrow> exc + archive_dir bucket" where
  "classify_dir rq db user ps d b =
     (let admin = is_archive_admin rq user in
      if dir_deleted_at d \<noteq> None then Inr (if admin then b\<lparr>b_trashed := b_trashed b @ [d]\<rparr> else b)
      else bind_res (can_insight rq user db d ps) (\<lambda>ok.
        Inr (if ok then b\<lparr>b_insight := b_insight b @ [d]\<rparr>
             else if admin then b\<lparr>b_admin := b_admin b @ [d]\<rparr> else b)))"

definition by_name :: "archive_dir list \<Rightarrow> archive_dir list" where
  "by_name = sort_key dir_name"

definition classify_file :: "bool \<Rightarrow> bool \<Rightarrow> archive_file \<Rightarrow> archive_file bucket \<Rightarrow> archive_file bucket" where
  "classify_file admin insight f b =
     (if file_deleted_at f \<noteq> None then (if admin then b\<lparr>b_trashed := b_trashed b @ [f]\<rparr> else b)
      else if insight then b\<lparr>b_insight := b_insight b @ [f]\<rparr>
      else if admin then b\<lparr>b_admin := b_admin b @ [f]\<rparr> else b)"

record listing =
  l_subdirs :: "archive_dir bucket"
  l_files :: "archive_file bucket"

definition root_listing :: "request \<Rightarrow> archive_db \<Rightarrow> member \<Rightarrow> exc + listing" where
  "root_listing rq db user =
     bind_res (fold_res (classify_dir rq db user (load_perm_sets db))
        (by_name (filter (\<lambda>d. dir_parent d = None) (dirs db))) empty_bucket) (\<lambda>subdirs.
     Inr \<lparr>l_subdirs = subdirs,
          l_files = fold (classify_file (is_archive_admin rq user) False)
            (filter (\<lambda>f. file_dir f = None) (files db)) empty_bucket\<rparr>)"

definition build_dir_detail_content ::
  "request \<Rightarrow> archive_db \<Rightarrow> archive_dir \<Rightarrow> member \<Rightarrow> perm_sets \<Rightarrow> exc + listing" where
  "build_dir_detail_content rq db d user ps =
     bind_res (fold_res (classify_dir rq db user ps)
        (by_name (filter (\<lambda>c. dir_parent c = Some (dir_id d)) (dirs db))) empty_bucket) (\<lambda>subdirs.
     bind_res (can_insight rq user db d ps) (\<lambda>insight.
     Inr \<lparr>l_subdirs = subdirs,
          l_files = fold (classify_file (is_archive_admin rq user) insight)
            (filter (\<lambda>f. file_dir f = Some (dir_id d)) (files db)) empty_bucket\<rparr>))"

text \<open>\<open>ORDER BY sort_order\<close>, ascending: rows without a number come last.\<close>

definition by_sort_order :: "lookup_row list \<Rightarrow> lookup_row list" where
  "by_sort_order rows =
     sort_key (\<lambda>r. the (lr_sort_order r)) (filter (\<lambda>r. lr_sort_order r \<noteq> None) rows) @
     filter (\<lambda>r. lr_sort_order r = None) rows"

record archive_sets =
  set_orgs :: "(string \<times> string option) list"
  set_states :: "(string \<times> string option) list"

definition get_sets :: "archive_db \<Rightarrow> archive_sets" where
  "get_sets db = \<lparr>set_orgs = map (\<lambda>o'. (lr_id o', lr_label o')) (by_sort_order (orgs db)),
     set_states = map (\<lambda>s. (lr_id s, lr_label s)) (by_sort_order (states db))\<rparr>"

record dir_detail =
  dd_dir :: "archive_dir option"
  dd_path :: "(uuid \<times> string) list option"
  dd_effective :: "string list"
  dd_own :: "string list"
  dd_parent :: "string list"
  dd_content :: listing
  dd_sets :: archive_sets
  dd_stats :: "archive_stats option"

definition get_root_content :: "request \<Rightarrow> archive_db \<Rightarrow> member \<Rightarrow> exc + dir_detail" where
  "get_root_content rq db user =
     bind_res (root_listing rq db user) (\<lambda>content.
       Inr \<lparr>dd_dir = None, dd_path = Some [], dd_effective = [], dd_own = [], dd_parent = [],
            dd_content = content, dd_sets = get_sets db, dd_stats = Some (get_archive_stats db)\<rparr>)"

definition get_dir_detail :: "request \<Rightarrow> archive_db \<Rightarrow> uuid \<Rightarrow> member \<Rightarrow> exc + dir_detail" where
  "get_dir_detail rq db k user =
     (case get_dir db k of None \<Rightarrow> Inl dir_missing
      | Some d \<Rightarrow>
        let admin = is_archive_admin rq user; ps = load_perm_sets db in
        if \<not> admin \<and> dir_id d \<in> trashed_dir_ids db then Inl dir_missing
        else bind_res (require_insight_or_admin rq user db d ps) (\<lambda>_.
          bind_res (build_dir_detail_content rq db d user ps) (\<lambda>content.
          bind_res (inherited_permissions (rq_frames rq) db d ps) (\<lambda>inherited.
            let own = own_permissions db d ps in
            Inr \<lparr>dd_dir = Some d, dd_path = build_path db d, dd_effective = sort (remdups (own @ inherited)),
                 dd_own = (if admin then own else []), dd_parent = (if admin then inherited else []),
                 dd_content = content,
                 dd_sets = (if admin then get_sets db else \<lparr>set_orgs = [], set_states = []\<rparr>),
                 dd_stats = None\<rparr>))))"

section \<open>One file\<close>

record file_detail =
  fd_file :: archive_file
  fd_item :: archive_store_item
  fd_path :: "(uuid \<times> string) list option"
  fd_comments :: "archive_file_comment list"
  fd_trashed_comments :: "archive_file_comment list"

definition get_file_detail :: "request \<Rightarrow> archive_db \<Rightarrow> uuid \<Rightarrow> member \<Rightarrow> exc + file_detail" where
  "get_file_detail rq db k user =
     (case get_file db k of None \<Rightarrow> Inl file_missing
      | Some f \<Rightarrow> bind_res (require_readable_file rq db f user False) (\<lambda>_.
        case store_item db f of None \<Rightarrow> Inl IntegrityError
        | Some item \<Rightarrow>
          let own = filter (\<lambda>c. com_file_id c = file_id f) (comments db) in
          Inr \<lparr>fd_file = f, fd_item = item,
               fd_path = (case Option.bind (file_dir f) (get_dir db) of None \<Rightarrow> Some [] | Some d \<Rightarrow> build_path db d),
               fd_comments = sort_key com_created_at (filter (\<lambda>c. com_deleted_at c = None) own),
               fd_trashed_comments =
                 (if is_archive_admin rq user
                  then sort_key com_created_at (filter (\<lambda>c. com_deleted_at c \<noteq> None) own) else [])\<rparr>))"

section \<open>Search\<close>

definition SEARCH_LIMIT :: nat where "SEARCH_LIMIT = 50"
definition FUZZY_MIN_QUERY_LENGTH :: nat where "FUZZY_MIN_QUERY_LENGTH = 3"

text \<open>The text search of one stage: does the query match, and the rank of the match.\<close>

record text_search =
  ts_dir :: "archive_dir \<Rightarrow> bool"
  ts_dir_rank :: "archive_dir \<Rightarrow> rat"
  ts_item :: "archive_store_item \<Rightarrow> bool"
  ts_item_rank :: "archive_store_item \<Rightarrow> rat"
  ts_file :: "archive_file \<Rightarrow> bool"
  ts_file_rank :: "archive_file \<Rightarrow> rat"
  ts_comment :: "archive_file_comment \<Rightarrow> bool"
  ts_comment_rank :: "archive_file_comment \<Rightarrow> rat"

definition search_dirs :: "text_search \<Rightarrow> archive_db \<Rightarrow> (archive_dir \<times> rat) list" where
  "search_dirs ts db =
     map (\<lambda>d. (d, ts_dir_rank ts d))
       (take SEARCH_LIMIT (sort_desc (ts_dir_rank ts)
          (filter (\<lambda>d. dir_deleted_at d = None \<and> ts_dir ts d) (dirs db))))"

definition matching_comments :: "text_search \<Rightarrow> archive_db \<Rightarrow> archive_file \<Rightarrow> archive_file_comment list" where
  "matching_comments ts db f =
     filter (\<lambda>c. com_file_id c = file_id f \<and> com_deleted_at c = None \<and> ts_comment ts c) (comments db)"

definition file_rank :: "text_search \<Rightarrow> archive_db \<Rightarrow> archive_file \<times> archive_store_item \<Rightarrow> rat" where
  "file_rank ts db fi =
     (let cs = map (ts_comment_rank ts) (matching_comments ts db (fst fi)) in
      max (ts_item_rank ts (snd fi)) (max (ts_file_rank ts (fst fi)) (if cs = [] then 0 else Max (set cs))))"

definition files_with_items :: "archive_db \<Rightarrow> (archive_file \<times> archive_store_item) list" where
  "files_with_items db =
     concat (map (\<lambda>f. case store_item db f of None \<Rightarrow> [] | Some i \<Rightarrow> [(f, i)]) (files db))"

definition search_files :: "text_search \<Rightarrow> archive_db \<Rightarrow> ((archive_file \<times> archive_store_item) \<times> rat) list" where
  "search_files ts db =
     map (\<lambda>fi. (fi, file_rank ts db fi))
       (take SEARCH_LIMIT (sort_desc (file_rank ts db)
          (filter (\<lambda>(f, i). file_deleted_at f = None \<and>
             (ts_item ts i \<or> ts_file ts f \<or> matching_comments ts db f \<noteq> [])) (files_with_items db))))"

datatype search_result =
    Dir_Hit archive_dir "string option"
  | File_Hit archive_file archive_store_item "string option"

fun collect_dir_hits ::
  "request \<Rightarrow> archive_db \<Rightarrow> member \<Rightarrow> perm_sets \<Rightarrow> uuid set \<Rightarrow> (archive_dir \<times> rat) list \<Rightarrow>
   exc + (rat \<times> search_result) list" where
  "collect_dir_hits rq db user ps trashed [] = Inr []"
| "collect_dir_hits rq db user ps trashed ((d, rank) # hits) =
     bind_res (if is_archive_admin rq user then Inr True
               else if dir_id d \<in> trashed then Inr False else can_insight rq user db d ps) (\<lambda>shown.
     bind_res (collect_dir_hits rq db user ps trashed hits) (\<lambda>rest.
       Inr (if shown then (rank, Dir_Hit d (dir_path_string db d)) # rest else rest)))"

fun collect_file_hits ::
  "request \<Rightarrow> archive_db \<Rightarrow> member \<Rightarrow> perm_sets \<Rightarrow> uuid set \<Rightarrow> ((archive_file \<times> archive_store_item) \<times> rat) list \<Rightarrow>
   exc + (rat \<times> search_result) list" where
  "collect_file_hits rq db user ps trashed [] = Inr []"
| "collect_file_hits rq db user ps trashed (((f, i), rank) # hits) =
     (let parent = Option.bind (file_dir f) (get_dir db) in
      bind_res (if is_archive_admin rq user then Inr True
                else case parent of None \<Rightarrow> Inr False
                | Some p \<Rightarrow> if dir_id p \<in> trashed then Inr False else can_insight rq user db p ps) (\<lambda>shown.
      bind_res (collect_file_hits rq db user ps trashed hits) (\<lambda>rest.
        Inr (if shown then (rank, File_Hit f i
               (case parent of None \<Rightarrow> Some ''Archiv'' | Some p \<Rightarrow> dir_path_string db p)) # rest else rest))))"

definition search_stage ::
  "request \<Rightarrow> archive_db \<Rightarrow> member \<Rightarrow> perm_sets \<Rightarrow> uuid set \<Rightarrow> text_search \<Rightarrow> exc + (rat \<times> search_result) list" where
  "search_stage rq db user ps trashed ts =
     bind_res (collect_dir_hits rq db user ps trashed (search_dirs ts db)) (\<lambda>ds.
     bind_res (collect_file_hits rq db user ps trashed (search_files ts db)) (\<lambda>fs. Inr (ds @ fs)))"

text \<open>\<open>exact\<close> is the search for the query's lexemes (\<open>None\<close> when it has none), \<open>fuzzy\<close> the
  trigram search.\<close>

definition search_archive ::
  "request \<Rightarrow> archive_db \<Rightarrow> member \<Rightarrow> text_search option \<Rightarrow> text_search \<Rightarrow> string \<Rightarrow> exc + search_result list" where
  "search_archive rq db user exact fuzzy query =
     (let ps = load_perm_sets db;
          trashed = (if is_archive_admin rq user then {} else trashed_dir_ids db) in
      bind_res (case exact of None \<Rightarrow> Inr [] | Some ts \<Rightarrow> search_stage rq db user ps trashed ts) (\<lambda>ranked.
      bind_res (if ranked = [] \<and> FUZZY_MIN_QUERY_LENGTH \<le> length (strip query)
                then search_stage rq db user ps trashed fuzzy else Inr ranked) (\<lambda>ranked.
        Inr (map snd (take SEARCH_LIMIT (sort_desc fst ranked))))))"

end
