(* ===== verification/Archive_Properties.thy ===== *)
theory Archive_Properties
  imports Archive_Content Archive_Browse
begin

text \<open>
  What the archive promises: who sees a directory, who may read a file and find it by search, that
  content is never lost while a file refers to it, that moves keep the directories a forest, that
  the statistics agree with each other and what the operator's purge removes.
\<close>

section \<open>A small archive to evaluate on\<close>

definition folder :: "uuid \<Rightarrow> uuid option \<Rightarrow> bool \<Rightarrow> instant option \<Rightarrow> archive_dir" where
  "folder k p r del = \<lparr>dir_id = k, dir_name = ''Ordner'', dir_description = None, dir_parent = p,
     recursive_permissions = Some r, dir_created_at = 0, dir_updated_at = None, dir_deleted_at = del\<rparr>"

definition scan :: archive_store_item where
  "scan = \<lparr>si_id = 10, si_name = ''Scan'', si_description = None, si_extension = ''pdf'',
     si_mime_type = ''application/pdf'', si_size = 3, si_sha256_hash = ''abc'', si_created_by = Some 50, si_created_at = 0\<rparr>"

definition filed :: "uuid \<Rightarrow> uuid option \<Rightarrow> instant option \<Rightarrow> archive_file" where
  "filed k d del = \<lparr>file_id = k, file_dir = d, file_description = None, file_item_id = 10,
     file_created_at = 0, file_deleted_at = del\<rparr>"

text \<open>Directory 1 with its child 2, which inherits; directory 3 in the trash with its child 4.\<close>

definition shelf :: archive_db where
  "shelf = \<lparr>a_members = [], orgs = [\<lparr>lr_id = ''vbw'', lr_label = None, lr_sort_order = None\<rparr>],
     states = [\<lparr>lr_id = ''up'', lr_label = None, lr_sort_order = None\<rparr>],
     dirs = [folder 1 None True None, folder 2 (Some 1) False None, folder 3 None True (Some 0), folder 4 (Some 3) False None],
     dir_permissions = [\<lparr>ap_dir_id = 1, ap_org_id = ''vbw'', ap_state_id = ''up''\<rparr>,
       \<lparr>ap_dir_id = 4, ap_org_id = ''vbw'', ap_state_id = ''up''\<rparr>],
     store_items = [scan], files = [filed 20 (Some 2) None, filed 21 (Some 4) None, filed 22 (Some 2) (Some 7)],
     comments = [], a_next_id = 100\<rparr>"

definition reader :: member where
  "reader = \<lparr>member_id = 50, columns = (\<lambda>_. PNone)(F_org_id := PStr ''vbw'', F_state_id := PStr ''up''),
     member_roles = [], member_badges = [], member_keys = []\<rparr>"

definition keeper :: member where
  "keeper = reader\<lparr>member_roles := [\<lparr>mr_role_id = ''archivar2'', mr_startdate = Date 2020 1 1, mr_enddate = None, mr_role = None\<rparr>]\<rparr>"

definition visit :: request where
  "visit = \<lparr>rq_settings = \<lparr>dev_superuser_id = None, app_environment = ''production'', system_admin_email_set = {}\<rparr>,
     rq_today = Date 2024 1 1, rq_now = 9, rq_frames = 20\<rparr>"

lemma shelf_par:
  "dir_par shelf k = (if k = 2 then Some 1 else if k = 4 then Some 3 else None)"
  by (simp add: dir_par_def get_dir_def shelf_def folder_def)

lemma shelf_no_cycle: "no_cycle (dir_par shelf)"
proof -
  have "dir_par shelf = (\<lambda>_. None)(2 := Some 1, 4 := Some (3 :: nat))" by (rule ext) (simp add: shelf_par)
  then show ?thesis
    by (simp only:) (intro no_cycle_fresh_leaf; simp add: fun_upd_def split: if_splits)
qed

lemma shelf_ok: "archive_ok shelf"
proof -
  have "tree_ok shelf" using shelf_no_cycle by (simp add: tree_ok_def) (simp add: shelf_def folder_def)
  moreover have "refs_ok shelf" by (simp add: refs_ok_def shelf_def folder_def filed_def scan_def)
  moreover have "fresh_ok shelf" by (simp add: fresh_ok_def shelf_def folder_def filed_def scan_def)
  ultimately show ?thesis by (simp add: archive_ok_def)
qed

lemma shelf_tree: "tree_ok shelf"
  using shelf_ok by (simp add: archive_ok_def)

lemma shelf_roles: "\<not> is_archive_admin visit reader" "is_archive_admin visit keeper"
  by (simp add: is_archive_admin_def calculate_permissions_def visit_def effective_dev_superuser_def rules_met_def
      PERMISSION_RULES_def active_roles_def reader_def verified_email_def time_col_def text_col_def)
    code_simp

lemma shelf_above:
  "dirs_above shelf (folder 2 (Some 1) False None) = {folder 1 None True None}"
  "dirs_above shelf (folder 4 (Some 3) False None) = {folder 3 None True (Some 0)}"
  using above_Some [of "dir_par shelf" 2 1] above_None [of "dir_par shelf" 1]
    above_Some [of "dir_par shelf" 4 3] above_None [of "dir_par shelf" 3]
  by (auto simp: dirs_above_def shelf_par folder_def) (auto simp: shelf_def folder_def)

lemma shelf_key: "''vbw_up'' \<in> own_keys shelf (load_perm_sets shelf) (folder 1 None True None)"
  unfolding set_own_permissions [symmetric] by code_simp

lemma shelf_visible: "user_key reader \<in> visible_keys shelf (load_perm_sets shelf) (folder 2 (Some 1) False None)"
proof -
  have "user_key reader = ''vbw_up''" by code_simp
  moreover have "recursive_permissions (folder 1 None True None) = Some True" by (simp add: folder_def)
  ultimately show ?thesis using shelf_key unfolding visible_keys_def inherited_keys_def shelf_above by auto
qed

lemma shelf_dirs: "folder 1 None True None \<in> set (dirs shelf)" "folder 2 (Some 1) False None \<in> set (dirs shelf)"
    "folder 4 (Some 3) False None \<in> set (dirs shelf)"
  by (simp_all add: shelf_def)

lemma shelf_trash: "\<not> in_trash shelf (folder 2 (Some 1) False None)" "in_trash shelf (folder 4 (Some 3) False None)"
  unfolding in_trash_def shelf_above by (simp_all add: folder_def)

lemma shelf_frames: "2 * length (dirs shelf) \<le> rq_frames visit"
  by (simp add: shelf_def visit_def)

section \<open>Who sees a directory\<close>

text \<open>C22: The keys of a directory are its own and those of every directory above it whose permissions
  are recursive, however many levels lie between; the list is sorted and without repetitions. Two
  stack frames for each directory are enough.\<close>
theorem directory_permissions_follow_the_tree:
  assumes "tree_ok db" "d \<in> set (dirs db)" "2 * length (dirs db) \<le> n"
  shows "\<exists>ks. get_effective_permissions n db d ps = Inr ks \<and> sorted ks \<and> distinct ks \<and>
    (\<forall>k. k \<in> set ks \<longleftrightarrow> k \<in> own_keys db ps d \<or>
       (\<exists>a \<in> dirs_above db d. recursive_permissions a = Some True \<and> k \<in> own_keys db ps a))"
proof -
  obtain ks where "get_effective_permissions n db d ps = Inr ks" "set ks = visible_keys db ps d" "sorted ks" "distinct ks"
    using effective_meets_spec [OF assms] by blast
  then show ?thesis by (intro exI [of _ ks]) (auto simp: visible_keys_def inherited_keys_def)
qed

theorem directory_permissions_follow_the_tree_witness:
  "\<exists>ks. get_effective_permissions 8 shelf (folder 2 (Some 1) False None) (load_perm_sets shelf) = Inr ks \<and>
     ''vbw_up'' \<in> set ks \<and> sorted ks"
proof -
  have r: "recursive_permissions (folder 1 None True None) = Some True" by (simp add: folder_def)
  have n: "2 * length (dirs shelf) \<le> 8" by (simp add: shelf_def)
  show ?thesis
    using directory_permissions_follow_the_tree [OF shelf_tree shelf_dirs(2) n, of "load_perm_sets shelf"] shelf_key r
    unfolding shelf_above by blast
qed

section \<open>Who may read a file\<close>

text \<open>C13: Anyone but an archive admin may read exactly the files that are not in the trash, lie in a
  directory that is neither trashed nor below a trashed one, and whose directory is open to the
  member's organisation and state; of the unfiled uploads, where the caller allows it, exactly the own.\<close>
theorem only_permitted_members_read_a_file:
  assumes "tree_ok db" "\<not> is_archive_admin rq user" "2 * length (dirs db) \<le> rq_frames rq"
  shows "require_readable_file rq db f user allow = Inr () \<longleftrightarrow> file_deleted_at f = None \<and>
    (case file_dir f of None \<Rightarrow> allow \<and> uploader db f = Some (member_id user)
     | Some k \<Rightarrow> \<exists>d \<in> set (dirs db). dir_id d = k \<and> \<not> in_trash db d \<and>
         user_key user \<in> visible_keys db (load_perm_sets db) d)"
proof (cases "file_dir f")
  case None
  then show ?thesis using assms(2) by (simp add: require_readable_file_def)
next
  case (Some k)
  show ?thesis
  proof (cases "get_dir db k")
    case None
    then have "k \<notin> dir_id ` set (dirs db)" by (simp add: get_dir_def get_by_None_iff)
    then show ?thesis using assms(2) Some None by (auto simp: require_readable_file_def)
  next
    case d: (Some d)
    note dd = get_dir_SomeD [OF d]
    have only: "e = d" if "e \<in> set (dirs db)" "dir_id e = k" for e
      using dir_eq [OF assms(1)] dd that by blast
    obtain ks where "get_effective_permissions (rq_frames rq) db d (load_perm_sets db) = Inr ks"
        "set ks = visible_keys db (load_perm_sets db) d"
      using effective_meets_spec [OF assms(1) _ assms(3)] dd by blast
    then show ?thesis
      using assms(2) Some d dd only trashed_iff [OF assms(1), of d]
      by (auto simp: require_readable_file_def require_insight_or_admin_def can_insight_def)
  qed
qed

theorem only_permitted_members_read_a_file_witness:
  "require_readable_file visit shelf (filed 20 (Some 2) None) reader False = Inr () \<and>
   require_readable_file visit shelf (filed 21 (Some 4) None) reader False \<noteq> Inr ()"
proof -
  note iff = only_permitted_members_read_a_file [OF shelf_tree shelf_roles(1) shelf_frames]
  have "d = folder 4 (Some 3) False None" if "d \<in> set (dirs shelf)" "dir_id d = 4" for d
    using that by (auto simp: shelf_def folder_def)
  moreover have "dir_id (folder 2 (Some 1) False None) = 2" by (simp add: folder_def)
  ultimately show ?thesis
    unfolding iff using shelf_visible shelf_trash shelf_dirs(2) by (auto simp: filed_def)
qed

section \<open>Search\<close>

lemma mem_take_sort: "x \<in> set (take n (sort_desc key xs)) \<Longrightarrow> x \<in> set xs"
  by (metis in_set_takeD set_sort_desc)

lemma search_dirs_sound: "(d, r) \<in> set (search_dirs ts db) \<Longrightarrow> d \<in> set (dirs db) \<and> dir_deleted_at d = None"
  by (auto simp: search_dirs_def dest!: mem_take_sort)

lemma files_with_items_iff: "(f, i) \<in> set (files_with_items db) \<longleftrightarrow> f \<in> set (files db) \<and> store_item db f = Some i"
  by (auto simp: files_with_items_def split: option.splits)

lemma search_files_sound:
  "((f, i), r) \<in> set (search_files ts db) \<Longrightarrow> f \<in> set (files db) \<and> file_deleted_at f = None \<and> store_item db f = Some i"
  by (auto simp: search_files_def files_with_items_iff dest!: mem_take_sort)

definition dir_shown :: "request \<Rightarrow> archive_db \<Rightarrow> member \<Rightarrow> archive_dir \<Rightarrow> bool" where
  "dir_shown rq db user d \<longleftrightarrow> dir_id d \<notin> trashed_dir_ids db \<and> can_insight rq user db d (load_perm_sets db) = Inr True"

lemma collect_dir_sound:
  assumes "\<not> is_archive_admin rq user"
    "collect_dir_hits rq db user (load_perm_sets db) (trashed_dir_ids db) hits = Inr res" "(r, h) \<in> set res"
  shows "\<exists>d. h = Dir_Hit d (dir_path_string db d) \<and> (d, r) \<in> set hits \<and> dir_shown rq db user d"
  using assms(2,3)
proof (induction hits arbitrary: res)
  case Nil
  then show ?case by simp
next
  case (Cons hit hits)
  obtain d rank where hit: "hit = (d, rank)" by (cases hit)
  obtain shown rest where s: "(if dir_id d \<in> trashed_dir_ids db then Inr False
        else can_insight rq user db d (load_perm_sets db)) = Inr shown"
      "collect_dir_hits rq db user (load_perm_sets db) (trashed_dir_ids db) hits = Inr rest"
      "res = (if shown then (rank, Dir_Hit d (dir_path_string db d)) # rest else rest)"
    using Cons.prems(1) assms(1) by (auto simp: hit bind_res_eq_Inr)
  show ?case
  proof (cases "(r, h) \<in> set rest")
    case True
    then show ?thesis using Cons.IH [OF s(2)] by auto
  next
    case False
    then have "shown" "r = rank" "h = Dir_Hit d (dir_path_string db d)" using Cons.prems(2) s(3) by (auto split: if_splits)
    then show ?thesis using s(1) by (auto simp: hit dir_shown_def split: if_splits)
  qed
qed

lemma collect_file_sound:
  assumes "\<not> is_archive_admin rq user"
    "collect_file_hits rq db user (load_perm_sets db) (trashed_dir_ids db) hits = Inr res" "(r, h) \<in> set res"
  shows "\<exists>f i p. h = File_Hit f i (dir_path_string db p) \<and> ((f, i), r) \<in> set hits \<and>
    Option.bind (file_dir f) (get_dir db) = Some p \<and> dir_shown rq db user p"
  using assms(2,3)
proof (induction hits arbitrary: res)
  case Nil
  then show ?case by simp
next
  case (Cons hit hits)
  obtain f i rank where hit: "hit = ((f, i), rank)" by (cases hit) auto
  let ?p = "Option.bind (file_dir f) (get_dir db)"
  obtain shown rest where s: "(case ?p of None \<Rightarrow> Inr False
        | Some p \<Rightarrow> if dir_id p \<in> trashed_dir_ids db then Inr False else can_insight rq user db p (load_perm_sets db)) = Inr shown"
      "collect_file_hits rq db user (load_perm_sets db) (trashed_dir_ids db) hits = Inr rest"
      "res = (if shown then (rank, File_Hit f i
               (case ?p of None \<Rightarrow> Some ''Archiv'' | Some p \<Rightarrow> dir_path_string db p)) # rest else rest)"
    using Cons.prems(1) assms(1) by (auto simp: hit bind_res_eq_Inr Let_def)
  show ?case
  proof (cases "(r, h) \<in> set rest")
    case True
    then show ?thesis using Cons.IH [OF s(2)] by auto
  next
    case False
    then have "shown" "r = rank" "h = File_Hit f i (case ?p of None \<Rightarrow> Some ''Archiv'' | Some p \<Rightarrow> dir_path_string db p)"
      using Cons.prems(2) s(3) by (auto split: if_splits)
    then show ?thesis using s(1) by (auto simp: hit dir_shown_def split: option.splits if_splits)
  qed
qed

lemma search_archive_stage:
  assumes "\<not> is_archive_admin rq user" "search_archive rq db user exact fuzzy query = Inr results" "h \<in> set results"
  shows "\<exists>ts r ds fs. collect_dir_hits rq db user (load_perm_sets db) (trashed_dir_ids db) (search_dirs ts db) = Inr ds \<and>
    collect_file_hits rq db user (load_perm_sets db) (trashed_dir_ids db) (search_files ts db) = Inr fs \<and>
    ((r, h) \<in> set ds \<or> (r, h) \<in> set fs)"
proof -
  let ?stage = "search_stage rq db user (load_perm_sets db) (trashed_dir_ids db)"
  obtain first ranked where first: "(case exact of None \<Rightarrow> Inr [] | Some ts \<Rightarrow> ?stage ts) = Inr first"
    and ranked: "(if first = [] \<and> FUZZY_MIN_QUERY_LENGTH \<le> length (strip query) then ?stage fuzzy else Inr first) = Inr ranked"
    and results: "results = map snd (take SEARCH_LIMIT (sort_desc fst ranked))"
    using assms(1,2) unfolding search_archive_def Let_def bind_res_eq_Inr by (elim exE conjE) (simp only: if_False sum.inject)
  obtain r where r: "(r, h) \<in> set ranked" using assms(3) results by (auto dest!: mem_take_sort)
  have "\<exists>ts. ?stage ts = Inr ranked"
  proof (cases "first = [] \<and> FUZZY_MIN_QUERY_LENGTH \<le> length (strip query)")
    case True
    then show ?thesis using ranked by (intro exI [of _ fuzzy]) simp
  next
    case False
    then have "first = ranked" using ranked by (simp only: if_False sum.inject)
    then show ?thesis using first r by (cases exact) auto
  qed
  with r obtain ts where "?stage ts = Inr ranked" by blast
  then obtain ds fs where "collect_dir_hits rq db user (load_perm_sets db) (trashed_dir_ids db) (search_dirs ts db) = Inr ds"
      "collect_file_hits rq db user (load_perm_sets db) (trashed_dir_ids db) (search_files ts db) = Inr fs" "ranked = ds @ fs"
    unfolding search_stage_def bind_res_eq_Inr by blast
  then show ?thesis using r by (intro exI [of _ ts] exI [of _ r] exI [of _ ds] exI [of _ fs]) simp
qed

text \<open>C23: A search never shows a member more than browsing: of at most fifty results, a directory is
  neither trashed nor below a trashed one and open to the member, and a file is one the member may
  read; it is named with its own store item. The path of every result is found.\<close>
theorem search_shows_only_what_is_readable:
  assumes "tree_ok db" "\<not> is_archive_admin rq user" "2 * length (dirs db) \<le> rq_frames rq"
    and res: "search_archive rq db user exact fuzzy query = Inr results"
  shows "length results \<le> 50 \<and> (\<forall>h \<in> set results. case h of
      Dir_Hit d path \<Rightarrow> d \<in> set (dirs db) \<and> \<not> in_trash db d \<and> path = dir_path_string db d \<and>
        user_key user \<in> visible_keys db (load_perm_sets db) d
    | File_Hit f i path \<Rightarrow> f \<in> set (files db) \<and> store_item db f = Some i \<and>
        require_readable_file rq db f user False = Inr ())"
proof -
  have shown: "\<not> in_trash db d \<and> user_key user \<in> visible_keys db (load_perm_sets db) d"
    if d: "d \<in> set (dirs db)" and s: "dir_shown rq db user d" for d
  proof -
    obtain ks where "get_effective_permissions (rq_frames rq) db d (load_perm_sets db) = Inr ks"
        "set ks = visible_keys db (load_perm_sets db) d"
      using effective_meets_spec [OF assms(1) d assms(3)] by blast
    then show ?thesis using s trashed_iff [OF assms(1) d] by (simp add: dir_shown_def can_insight_def)
  qed
  have "case h of
      Dir_Hit d path \<Rightarrow> d \<in> set (dirs db) \<and> \<not> in_trash db d \<and> path = dir_path_string db d \<and>
        user_key user \<in> visible_keys db (load_perm_sets db) d
    | File_Hit f i path \<Rightarrow> f \<in> set (files db) \<and> store_item db f = Some i \<and>
        require_readable_file rq db f user False = Inr ()" if h: "h \<in> set results" for h
    using search_archive_stage [OF assms(2) res h]
  proof (elim exE conjE disjE)
    fix ts r ds fs
    assume "collect_dir_hits rq db user (load_perm_sets db) (trashed_dir_ids db) (search_dirs ts db) = Inr ds" "(r, h) \<in> set ds"
    from collect_dir_sound [OF assms(2) this] show ?thesis using shown by (auto dest!: search_dirs_sound)
  next
    fix ts r ds fs
    assume "collect_file_hits rq db user (load_perm_sets db) (trashed_dir_ids db) (search_files ts db) = Inr fs" "(r, h) \<in> set fs"
    from collect_file_sound [OF assms(2) this] obtain f i p where f: "h = File_Hit f i (dir_path_string db p)"
        "((f, i), r) \<in> set (search_files ts db)" "Option.bind (file_dir f) (get_dir db) = Some p" "dir_shown rq db user p"
      by blast
    then obtain k where k: "file_dir f = Some k" "get_dir db k = Some p" by (auto simp: bind_eq_Some_conv)
    then show ?thesis
      using f(1,4) search_files_sound [OF f(2)] assms(2)
      by (simp add: require_readable_file_def require_insight_or_admin_def dir_shown_def)
  qed
  moreover have "length results \<le> 50"
    using res by (auto simp: search_archive_def Let_def bind_res_eq_Inr SEARCH_LIMIT_def)
  ultimately show ?thesis by blast
qed

definition match_all :: text_search where
  "match_all = \<lparr>ts_dir = \<lambda>_. True, ts_dir_rank = \<lambda>d. of_nat (dir_id d), ts_item = \<lambda>_. True, ts_item_rank = \<lambda>_. 0,
     ts_file = \<lambda>_. True, ts_file_rank = \<lambda>_. 1, ts_comment = \<lambda>_. False, ts_comment_rank = \<lambda>_. 0\<rparr>"

theorem search_shows_only_what_is_readable_witness:
  "\<exists>results. search_archive visit shelf reader (Some match_all) match_all ''ab'' = Inr results \<and> length results = 3 \<and>
     (\<forall>h \<in> set results. case h of Dir_Hit d _ \<Rightarrow> \<not> in_trash shelf d
        | File_Hit f _ _ \<Rightarrow> require_readable_file visit shelf f reader False = Inr ())"
proof -
  have "case search_archive visit shelf reader (Some match_all) match_all ''ab'' of Inl _ \<Rightarrow> False
      | Inr results \<Rightarrow> length results = 3" by code_simp
  then obtain results where r: "search_archive visit shelf reader (Some match_all) match_all ''ab'' = Inr results"
      "length results = 3" by (auto split: sum.splits)
  show ?thesis
    using search_shows_only_what_is_readable [OF shelf_tree shelf_roles(1) shelf_frames r(1)] r
    by (intro exI [of _ results]) (auto split: search_result.splits)
qed

section \<open>No content is lost\<close>

text \<open>C4: Whatever requests and operator calls succeed, in whatever order: keys stay unique, references
  keep their rows, the directories stay a forest, and every file has its content: its store item
  exists and the object store holds, under the item's hash, an object with that hash.\<close>
theorem archive_keeps_its_content:
  assumes "archive_ok db" "content_stored sha paths db st" "paths_apart paths"
    and "(archive_step sha paths)\<^sup>*\<^sup>* (db, st) (db', st')"
  shows "archive_ok db' \<and> content_stored sha paths db' st' \<and>
    (\<forall>f \<in> set (files db'). \<exists>i data. store_item db' f = Some i \<and>
       map_of (objects st') (store_key paths (si_sha256_hash i)) = Some data \<and> sha data = si_sha256_hash i)"
proof -
  have "archive_ok (fst t) \<and> content_stored sha paths (fst t) (snd t)"
    if "(archive_step sha paths)\<^sup>*\<^sup>* s t" "archive_ok (fst s) \<and> content_stored sha paths (fst s) (snd s)" for s t
    using that by (induction rule: rtranclp_induct) (use archive_step_ok archive_step_content assms(3) in blast)+
  from this [OF assms(4)] have ok: "archive_ok db'" "content_stored sha paths db' st'" using assms(1,2) by simp_all
  moreover have "\<exists>i data. store_item db' f = Some i \<and>
       map_of (objects st') (store_key paths (si_sha256_hash i)) = Some data \<and> sha data = si_sha256_hash i"
    if f: "f \<in> set (files db')" for f
  proof -
    have "file_item_id f \<in> si_id ` set (store_items db')" using ok(1) f by (auto simp: archive_ok_def refs_ok_def)
    then have "get_by si_id (store_items db') (file_item_id f) \<noteq> None" by (simp add: get_by_None_iff)
    then obtain i where i: "get_by si_id (store_items db') (file_item_id f) = Some i" by blast
    then have "stored sha paths st' (si_sha256_hash i)"
      using ok(2) get_by_SomeD [OF i] by (simp add: content_stored_def)
    then show ?thesis using i by (auto simp: stored_def store_item_def)
  qed
  ultimately show ?thesis by blast
qed

definition default_paths :: archive_paths where
  "default_paths = \<lparr>path_store = ''archive/store'', path_cache = ''archive/cache''\<rparr>"

definition shelf_store :: storage where
  "shelf_store = \<lparr>objects = [(''archive/store/abc'', ''ABC'')], s3_fails = \<lambda>_ _. False\<rparr>"

lemma default_paths_apart: "paths_apart default_paths"
  by (simp add: paths_apart_def default_paths_def store_key_def has_prefix_def)

lemma shelf_content: "content_stored lower default_paths shelf shelf_store"
proof -
  have "lower ''ABC'' = ''abc''" by code_simp
  then show ?thesis
    by (simp add: content_stored_def stored_def shelf_def scan_def store_key_def default_paths_def shelf_store_def)
qed

theorem archive_keeps_its_content_witness:
  "\<exists>db'. delete_file visit shelf 20 keeper = Inr db' \<and> archive_ok db' \<and>
     content_stored lower default_paths db' shelf_store"
proof -
  obtain db' where "delete_file visit shelf 20 keeper = Inr db'"
    using shelf_roles(2) by (simp add: delete_file_def require_admin_def) (simp add: get_file_def shelf_def filed_def)
  moreover from archive_step.trash_file [OF this]
  have "(archive_step lower default_paths)\<^sup>*\<^sup>* (shelf, shelf_store) (db', shelf_store)" by (rule r_into_rtranclp)
  ultimately show ?thesis
    using archive_keeps_its_content [OF shelf_ok shelf_content default_paths_apart] by blast
qed

section \<open>Moving a directory\<close>

text \<open>C27: The check before a move is exact: an admin's move of a directory below another succeeds if and
  only if the directories are still without a cycle afterwards, and a refused move is a 422.\<close>
theorem move_refused_exactly_when_cyclic:
  assumes "archive_ok db" "is_archive_admin rq user" "get_dir db t \<noteq> None" "get_dir db k \<noteq> None"
  shows "receive_items rq db (Some t) ''dir'' [k] user = Inr (set_dir_parent k (Some t) db) \<and>
      no_cycle (dir_par (set_dir_parent k (Some t) db)) \<or>
    (\<exists>msg. receive_items rq db (Some t) ''dir'' [k] user = Inl (HTTPException 422 msg)) \<and>
      \<not> no_cycle (dir_par (set_dir_parent k (Some t) db))"
proof (cases "move_blocked db t k")
  case True
  then have "\<exists>msg. receive_items rq db (Some t) ''dir'' [k] user = Inl (HTTPException 422 msg)"
    using assms(2-4) by (auto simp: receive_items_def require_admin_def receive_dirs_def receive_dir_def move_blocked_def)
  then show ?thesis using archive.blocked_closes_cycle [OF assms(4) True] by blast
next
  case False
  then have "receive_items rq db (Some t) ''dir'' [k] user = Inr (set_dir_parent k (Some t) db)"
    using assms(2-4) by (auto simp: receive_items_def require_admin_def receive_dirs_def receive_dir_def move_blocked_def)
  then show ?thesis
    using archive.attach_keeps [OF assms(4) _ False] assms(1) by (simp add: archive_ok_def tree_ok_def)
qed

theorem move_refused_exactly_when_cyclic_witness:
  "\<exists>msg. receive_items visit shelf (Some 2) ''dir'' [1] keeper = Inl (HTTPException 422 msg)"
proof -
  have d: "get_dir shelf 2 \<noteq> None" "get_dir shelf 1 \<noteq> None"
    by (simp_all add: get_dir_def shelf_def folder_def)
  let ?par = "dir_par (set_dir_parent 1 (Some 2) shelf)"
  have par: "?par = (dir_par shelf)(1 := Some 2)" by (rule dir_par_set [OF d(2)])
  have "(1, 2) \<in> (parent_rel ?par)\<^sup>+" by (rule r_into_trancl) (simp only: parent_rel_iff par fun_upd_same)
  moreover have "(2, 1) \<in> parent_rel ?par" unfolding parent_rel_iff par by (simp add: shelf_par)
  ultimately have "(1, 1) \<in> (parent_rel ?par)\<^sup>+" by (rule trancl_into_trancl)
  then have "\<not> no_cycle ?par" unfolding no_cycle_def acyclic_def by blast
  then show ?thesis
    using move_refused_exactly_when_cyclic [OF shelf_ok shelf_roles(2) d] by blast
qed

section \<open>Paths\<close>

lemma path_loop_ends:
  assumes "tree_ok db" "d \<in> set (dirs db)"
  shows "\<exists>rest. path_loop db d acc = Some (acc @ (dir_id d, dir_name d) # rest) \<and>
    set rest = (\<lambda>a. (dir_id a, dir_name a)) ` dirs_above db d \<and>
    (\<exists>r \<in> set (dirs db). dir_parent r = None \<and> last ((dir_id d, dir_name d) # rest) = (dir_id r, dir_name r)) \<and>
    distinct (map fst ((dir_id d, dir_name d) # rest))"
  using assms
proof (induction arbitrary: acc rule: tree_induct)
  case (dir d)
  show ?case
  proof (cases "parent_of db d")
    case None
    then show ?thesis
      using dirs_above_root [OF assms(1) dir.hyps None] parent_of_None [OF assms(1) dir.hyps None] dir.hyps
      by (subst path_loop.simps) auto
  next
    case (Some p)
    obtain rest where rest: "path_loop db p (acc @ [(dir_id d, dir_name d)]) =
          Some ((acc @ [(dir_id d, dir_name d)]) @ (dir_id p, dir_name p) # rest)"
        "set rest = (\<lambda>a. (dir_id a, dir_name a)) ` dirs_above db p"
        "\<exists>r \<in> set (dirs db). dir_parent r = None \<and> last ((dir_id p, dir_name p) # rest) = (dir_id r, dir_name r)"
        "distinct (map fst ((dir_id p, dir_name p) # rest))"
      using dir.IH [OF Some] by blast
    have above: "dirs_above db d = insert p (dirs_above db p)" by (rule dirs_above_parent [OF assms(1) dir.hyps Some])
    have "dir_id d \<notin> dir_id ` dirs_above db d"
      using assms(1) by (auto simp: dirs_above_def tree_ok_def no_cycle_def acyclic_def above_def)
    then have "dir_id d \<notin> fst ` set ((dir_id p, dir_name p) # rest)"
      using rest(2) by (auto simp: above image_image)
    then show ?thesis
      using rest Some by (intro exI [of _ "(dir_id p, dir_name p) # rest"]) (subst path_loop.simps, simp add: above)
  qed
qed

text \<open>The loop that builds a path ends, and the path is the way to the directory: it starts at a
  directory without parent, ends at the directory and holds exactly it and the directories above,
  each once.\<close>
theorem path_leads_from_the_root:
  assumes "tree_ok db" "d \<in> set (dirs db)"
  shows "\<exists>path. build_path db d = Some path \<and> last path = (dir_id d, dir_name d) \<and> distinct (map fst path) \<and>
    set path = insert (dir_id d, dir_name d) ((\<lambda>a. (dir_id a, dir_name a)) ` dirs_above db d) \<and>
    (\<exists>r \<in> set (dirs db). dir_parent r = None \<and> hd path = (dir_id r, dir_name r))"
proof -
  obtain rest where rest: "path_loop db d [] = Some ([] @ (dir_id d, dir_name d) # rest)"
      "set rest = (\<lambda>a. (dir_id a, dir_name a)) ` dirs_above db d"
      "\<exists>r \<in> set (dirs db). dir_parent r = None \<and> last ((dir_id d, dir_name d) # rest) = (dir_id r, dir_name r)"
      "distinct (map fst ((dir_id d, dir_name d) # rest))"
    using path_loop_ends [OF assms, of "[]"] by blast
  let ?path = "rev ((dir_id d, dir_name d) # rest)"
  have "hd ?path = last ((dir_id d, dir_name d) # rest)" by (simp only: hd_rev)
  moreover have "distinct (map fst ?path)" using rest(4) by (simp only: rev_map [symmetric] distinct_rev)
  moreover have "last ?path = (dir_id d, dir_name d)" by simp
  moreover have "build_path db d = Some ?path" using rest(1) by (simp add: build_path_def)
  ultimately show ?thesis using rest(2,3) by (intro exI [of _ ?path]) simp
qed

theorem path_leads_from_the_root_witness:
  "\<exists>path. build_path shelf (folder 2 (Some 1) False None) = Some path \<and> last path = (2, ''Ordner'')"
  using path_leads_from_the_root [OF shelf_tree shelf_dirs(2)] by (auto simp: folder_def)

section \<open>Statistics\<close>

lemma sum_over_keys:
  fixes g :: "'a \<Rightarrow> nat"
  shows "sum_list (map (\<lambda>e. sum_list (map g (filter (\<lambda>i. key i = e) xs))) (remdups (map key xs))) = sum_list (map g xs)"
proof -
  have "sum_list (map (\<lambda>e. sum_list (map g (filter (\<lambda>i. key i = e) xs))) (remdups (map key xs))) =
      (\<Sum>e \<in> key ` set xs. sum_list (map g (filter (\<lambda>i. key i = e) xs)))"
    by (subst sum_list_distinct_conv_sum_set) simp_all
  also have "\<dots> = sum_list (map g xs)"
  proof (induction xs)
    case Nil
    then show ?case by simp
  next
    case (Cons x xs)
    have "(\<Sum>e \<in> insert (key x) (key ` set xs). sum_list (map g (filter (\<lambda>i. key i = e) (x # xs)))) =
        (\<Sum>e \<in> insert (key x) (key ` set xs). (if e = key x then g x else 0) + sum_list (map g (filter (\<lambda>i. key i = e) xs)))"
      by (rule sum.cong) auto
    also have "\<dots> = g x + (\<Sum>e \<in> insert (key x) (key ` set xs). sum_list (map g (filter (\<lambda>i. key i = e) xs)))"
      by (simp add: sum.distrib)
    also have "(\<Sum>e \<in> insert (key x) (key ` set xs). sum_list (map g (filter (\<lambda>i. key i = e) xs))) =
        (\<Sum>e \<in> key ` set xs. sum_list (map g (filter (\<lambda>i. key i = e) xs)))"
    proof (rule sum.mono_neutral_right)
      show "\<forall>e \<in> insert (key x) (key ` set xs) - key ` set xs. sum_list (map g (filter (\<lambda>i. key i = e) xs)) = 0"
      proof
        fix e assume "e \<in> insert (key x) (key ` set xs) - key ` set xs"
        then have "filter (\<lambda>i. key i = e) xs = []" by (auto simp: filter_empty_conv)
        then show "sum_list (map g (filter (\<lambda>i. key i = e) xs)) = 0" by simp
      qed
    qed auto
    finally show ?case using Cons.IH by simp
  qed
  finally show ?thesis .
qed

lemma sort_desc_sum: "sum_list (map (g :: 'a \<Rightarrow> nat) (sort_desc key xs)) = sum_list (map g xs)"
  by (rule sum_list_mset_cong) (simp add: mset_map)

text \<open>The statistics agree with each other: there are never more objects than files, the counts and
  sizes by extension add up to the totals, and the numbers of files and directories are those of
  the files and directories that neither are in the trash nor lie below a trashed directory.\<close>
theorem statistics_agree:
  assumes "archive_ok db"
  shows "unique_object_count (get_archive_stats db) \<le> file_count (get_archive_stats db) \<and>
    sum_list (map es_count (by_extension (get_archive_stats db))) = unique_object_count (get_archive_stats db) \<and>
    sum_list (map es_size (by_extension (get_archive_stats db))) = total_size (get_archive_stats db) \<and>
    dir_count (get_archive_stats db) = length (filter (\<lambda>d. \<not> in_trash db d) (dirs db)) \<and>
    file_count (get_archive_stats db) = length (filter (\<lambda>f. file_deleted_at f = None \<and>
      (\<exists>d \<in> set (dirs db). file_dir f = Some (dir_id d) \<and> \<not> in_trash db d)) (files db))"
proof -
  let ?items = "filter (active_item db) (store_items db)"
  let ?files = "filter (reachable_file db) (files db)"
  have tree: "tree_ok db" using assms by (simp add: archive_ok_def)
  have "si_id ` set ?items \<subseteq> file_item_id ` set ?files" by (auto simp: active_item_def list_ex_iff image_iff) metis
  then have "card (si_id ` set ?items) \<le> card (file_item_id ` set ?files)" by (rule card_mono [rotated]) simp
  also have "\<dots> \<le> length ?files" by (rule order_trans [OF card_image_le card_length]) simp
  finally have "card (si_id ` set ?items) \<le> length ?files" .
  moreover have "distinct (map si_id ?items)" using assms by (simp add: archive_ok_def refs_ok_def distinct_map_filter)
  then have "card (si_id ` set ?items) = length ?items" by (metis distinct_card length_map list.set_map)
  ultimately have le: "length ?items \<le> length ?files" by simp
  have count: "sum_list (map es_count (extension_stats ?items)) = length ?items"
    using sum_over_keys [of "\<lambda>_. 1" si_extension ?items]
    by (simp add: extension_stats_def sort_desc_sum comp_def sum_list_triv)
  have sizes: "sum_list (map es_size (extension_stats ?items)) = sum_list (map si_size ?items)"
    using sum_over_keys [of si_size si_extension ?items] by (simp add: extension_stats_def sort_desc_sum comp_def)
  have dirs: "filter (\<lambda>d. dir_deleted_at d = None \<and> dir_id d \<notin> trashed_dir_ids db) (dirs db) =
      filter (\<lambda>d. \<not> in_trash db d) (dirs db)"
    by (rule filter_cong) (use trashed_iff [OF tree] in \<open>auto simp: in_trash_def\<close>)
  have reach: "reachable_file db f \<longleftrightarrow> file_deleted_at f = None \<and>
      (\<exists>d \<in> set (dirs db). file_dir f = Some (dir_id d) \<and> \<not> in_trash db d)" if f: "f \<in> set (files db)" for f
  proof (cases "file_dir f")
    case None
    then show ?thesis by (simp add: reachable_file_def)
  next
    case (Some k)
    then obtain d where "d \<in> set (dirs db)" "dir_id d = k" using assms f by (fastforce simp: archive_ok_def refs_ok_def)
    then show ?thesis using Some trashed_iff [OF tree] by (auto simp: reachable_file_def)
  qed
  have files: "?files = filter (\<lambda>f. file_deleted_at f = None \<and>
      (\<exists>d \<in> set (dirs db). file_dir f = Some (dir_id d) \<and> \<not> in_trash db d)) (files db)"
    by (rule filter_cong [OF refl reach])
  show ?thesis unfolding get_archive_stats_def Let_def
    using le count sizes by (simp add: dirs files)
qed

theorem statistics_agree_witness:
  "unique_object_count (get_archive_stats shelf) \<le> file_count (get_archive_stats shelf) \<and>
   file_count (get_archive_stats shelf) = 1"
proof -
  have "file_count (get_archive_stats shelf) = 1" by code_simp
  then show ?thesis using statistics_agree [OF shelf_ok] by simp
qed

section \<open>Purging\<close>

lemma at_most_one: "length xs \<le> 1 \<Longrightarrow> x \<in> set xs \<Longrightarrow> y \<in> set xs \<Longrightarrow> x = y"
  by (cases xs) (auto simp: le_Suc_eq length_Suc_conv)

lemma reference_count_own:
  assumes "distinct (map file_id (files db))" "f \<in> set (files db)" "file_deleted_at f \<noteq> None"
  shows "item_referenced (remove_file_row (file_id f) db) (file_item_id f) \<longleftrightarrow>
    classify_impact (fst (reference_counts db (file_item_id f))) (int (snd (reference_counts db (file_item_id f))) - 1) \<noteq> SOLE"
proof -
  let ?same = "\<lambda>g. file_item_id g = file_item_id f"
  let ?dead = "filter (\<lambda>g. ?same g \<and> file_deleted_at g \<noteq> None) (files db)"
  have mem: "f \<in> set ?dead" using assms(2,3) by simp
  have only: "length ?dead \<le> 1 \<longleftrightarrow> (\<forall>g \<in> set ?dead. g = f)"
  proof
    assume "length ?dead \<le> 1"
    then show "\<forall>g \<in> set ?dead. g = f" using at_most_one [OF _ _ mem] by blast
  next
    assume all: "\<forall>g \<in> set ?dead. g = f"
    then have "set ?dead = {f}" using mem by blast
    moreover have "distinct ?dead" using assms(1) by (simp add: distinct_map distinct_filter)
    ultimately show "length ?dead \<le> 1" using distinct_card [of ?dead] by simp
  qed
  have same: "g = f \<longleftrightarrow> file_id g = file_id f" if "g \<in> set (files db)" for g
    using assms(1,2) that by (auto simp: distinct_map inj_on_def)
  have "item_referenced (remove_file_row (file_id f) db) (file_item_id f) \<longleftrightarrow>
      (\<exists>g \<in> set (files db). g \<noteq> f \<and> ?same g)"
    using same by (auto simp: item_referenced_def remove_file_row_def list_ex_iff)
  also have "\<dots> \<longleftrightarrow> (\<exists>g \<in> set (files db). ?same g \<and> file_deleted_at g = None) \<or> \<not> length ?dead \<le> 1"
    unfolding only using assms(3) by auto (metis option.distinct(1))
  also have "\<dots> \<longleftrightarrow> classify_impact (fst (reference_counts db (file_item_id f)))
      (int (snd (reference_counts db (file_item_id f))) - 1) \<noteq> SOLE"
    by (auto simp: reference_counts_def classify_impact_def filter_empty_conv)
  finally show ?thesis .
qed

lemma listed_candidate:
  assumes "c \<in> set (list_deleted_files db)"
  shows "\<exists>f \<in> set (files db). file_deleted_at f \<noteq> None \<and> pc_file_id c = file_id f \<and>
    pc_store_item_id c = file_item_id f \<and> active_sibling_count c = fst (reference_counts db (file_item_id f)) \<and>
    other_deleted_sibling_count c = int (snd (reference_counts db (file_item_id f))) - 1 \<and>
    get_by si_id (store_items db) (file_item_id f) = Some (pc_item c)"
  using assms
  by (auto simp: list_deleted_files_def candidates_for_def List.map_filter_def to_candidate_def store_item_def)

text \<open>C26: The operator's list tells exactly what a purge will do. It always removes the file's row and no
  other. If the candidate is listed as the sole reference, its store item goes, and with it the
  content and every cached thumbnail: an object of theirs is only left if the store refuses a request, and then an
  error is reported; no other object changes. Otherwise (an active file or another trashed one has the
  same content) no object and no store item is touched.\<close>
theorem purge_does_what_the_list_says:
  assumes "archive_ok db" "c \<in> set (list_deleted_files db)"
    and res: "purge_file paths db st (pc_file_id c) = Inr (db', st', out)"
  shows "files db' = filter (\<lambda>f. file_id f \<noteq> pc_file_id c) (files db) \<and>
    (store_item_deleted out \<longleftrightarrow> candidate_impact c = SOLE) \<and>
    (candidate_impact c = SOLE \<longrightarrow>
       store_items db' = filter (\<lambda>i. i \<noteq> pc_item c) (store_items db) \<and> pc_item c \<in> set (store_items db) \<and>
       (\<forall>k. \<not> content_key paths (si_sha256_hash (pc_item c)) k \<longrightarrow> map_of (objects st') k = map_of (objects st) k) \<and>
       (\<forall>k. content_key paths (si_sha256_hash (pc_item c)) k \<and> has_object st' k \<longrightarrow> s3_errors out \<noteq> [] \<and>
          (s3_fails st Delete k \<or> s3_fails st List_Keys (cache_prefix paths (si_sha256_hash (pc_item c))))) \<and>
       (\<forall>k \<in> set (s3_keys_deleted out). content_key paths (si_sha256_hash (pc_item c)) k \<and> \<not> has_object st' k)) \<and>
    (candidate_impact c \<noteq> SOLE \<longrightarrow> st' = st \<and> store_items db' = store_items db \<and> s3_keys_deleted out = [])"
proof -
  have refs: "distinct (map file_id (files db))" "\<forall>f \<in> set (files db). file_item_id f \<in> si_id ` set (store_items db)"
      "distinct (map si_id (store_items db))"
    using assms(1) by (simp_all add: archive_ok_def refs_ok_def)
  obtain f where f: "f \<in> set (files db)" "file_deleted_at f \<noteq> None" "pc_file_id c = file_id f"
      "active_sibling_count c = fst (reference_counts db (file_item_id f))"
      "other_deleted_sibling_count c = int (snd (reference_counts db (file_item_id f))) - 1"
      "get_by si_id (store_items db) (file_item_id f) = Some (pc_item c)"
    using listed_candidate [OF assms(2)] by blast
  let ?db = "remove_file_row (file_id f) db" and ?i = "pc_item c"
  have items: "store_items ?db = store_items db" by (simp add: remove_file_row_def)
  have get: "get_file db (pc_file_id c) = Some f" using refs(1) f(1,3) by (simp add: get_file_def get_by_distinct)
  then have hard: "hard_delete_file paths db st f = (db', st', out)"
    using res f(2) by (simp add: purge_file_def get_soft_deleted_file_def cli_get_file_def)
  then obtain os where os: "delete_orphaned_store_items ?db (file_item_id f) = (db', os)"
      "fold (\<lambda>item. purge_s3_object paths (si_sha256_hash item)) os (st, [], []) = (st', s3_keys_deleted out, s3_errors out)"
      "store_item_deleted out \<longleftrightarrow> os \<noteq> []"
    unfolding hard_delete_file_def by (auto split: prod.split_asm)
  have impact: "candidate_impact c \<noteq> SOLE \<longleftrightarrow> item_referenced ?db (file_item_id f)"
    unfolding reference_count_own [OF refs(1) f(1,2)] candidate_impact_def f(4,5) by simp
  have eq: "(db', os) = (if item_referenced ?db (file_item_id f) then (?db, [])
      else (?db\<lparr>store_items := delete_where (\<lambda>x. si_id x = file_item_id f) (store_items db)\<rparr>, [?i]))"
    using os(1) [symmetric] unfolding delete_orphaned_store_items_def items f(6) by simp
  have item: "?i \<in> set (store_items db)" "si_id ?i = file_item_id f" using get_by_SomeD [OF f(6)] by blast+
  have only: "delete_where (\<lambda>x. si_id x = file_item_id f) (store_items db) = filter (\<lambda>x. x \<noteq> ?i) (store_items db)"
    unfolding delete_where_def using refs(3) item by (intro filter_cong) (auto simp: distinct_map inj_on_def)
  have "files db' = filter (\<lambda>f. file_id f \<noteq> pc_file_id c) (files db)"
    using eq f(3) by (auto simp: remove_file_row_def delete_where_def split: if_split_asm)
  moreover have "store_items db' = filter (\<lambda>i. i \<noteq> ?i) (store_items db) \<and> ?i \<in> set (store_items db) \<and>
       (\<forall>k. \<not> content_key paths (si_sha256_hash ?i) k \<longrightarrow> map_of (objects st') k = map_of (objects st) k) \<and>
       (\<forall>k. content_key paths (si_sha256_hash ?i) k \<and> has_object st' k \<longrightarrow> s3_errors out \<noteq> [] \<and>
          (s3_fails st Delete k \<or> s3_fails st List_Keys (cache_prefix paths (si_sha256_hash ?i)))) \<and>
       (\<forall>k \<in> set (s3_keys_deleted out). content_key paths (si_sha256_hash ?i) k \<and> \<not> has_object st' k)"
    if "candidate_impact c = SOLE"
  proof -
    have o: "os = [?i]" "store_items db' = filter (\<lambda>i. i \<noteq> ?i) (store_items db)" using eq impact that only by simp_all
    have "purge_s3_object paths (si_sha256_hash ?i) (st, [], []) = (st', s3_keys_deleted out, s3_errors out)"
      using os(2) by (simp add: o(1))
    note p = purge_s3_object_content [OF this]
    have h: "has_object st' k \<longleftrightarrow> map_of (objects st') k \<noteq> None" for k by (simp add: has_object_def map_of_eq_None_iff)
    show ?thesis
    proof (intro conjI allI impI ballI)
      fix k
      show "\<not> content_key paths (si_sha256_hash ?i) k \<Longrightarrow> map_of (objects st') k = map_of (objects st) k" by (rule p(1))
      show "s3_errors out \<noteq> []" "s3_fails st Delete k \<or> s3_fails st List_Keys (cache_prefix paths (si_sha256_hash ?i))"
        if "content_key paths (si_sha256_hash ?i) k \<and> has_object st' k" using that p(2) [of k] unfolding h by blast+
      show "content_key paths (si_sha256_hash ?i) k" "\<not> has_object st' k" if "k \<in> set (s3_keys_deleted out)"
        using p(3) [OF that] unfolding h by simp_all
    qed (use o(2) item(1) in blast)+
  qed
  moreover have "st' = st \<and> store_items db' = store_items db \<and> s3_keys_deleted out = []" if "candidate_impact c \<noteq> SOLE"
    using that impact eq os(2) items by simp
  moreover have "store_item_deleted out \<longleftrightarrow> candidate_impact c = SOLE" using os(3) eq impact by (auto split: if_split_asm)
  ultimately show ?thesis by blast
qed

text \<open>The one reference to a scan with a thumbnail: both objects go, the other scan stays.\<close>

definition last_copy :: archive_db where
  "last_copy = shelf\<lparr>files := [filed 22 (Some 2) (Some 7)]\<rparr>"

definition last_store :: storage where
  "last_store = \<lparr>objects = [(''archive/store/abc'', ''ABC''), (''archive/cache/abc.v1.jpg'', ''a''), (''archive/store/abd'', ''ABD'')],
     s3_fails = \<lambda>_ _. False\<rparr>"

lemma last_copy_ok: "archive_ok last_copy"
proof -
  have d: "dirs last_copy = dirs shelf" "dir_par last_copy = dir_par shelf"
    by (simp_all add: last_copy_def dir_par_def [abs_def] get_dir_def)
  have "tree_ok last_copy" using shelf_tree by (simp add: tree_ok_def d)
  moreover have "refs_ok last_copy" by (simp add: refs_ok_def last_copy_def shelf_def folder_def filed_def scan_def)
  moreover have "fresh_ok last_copy" by (simp add: fresh_ok_def last_copy_def shelf_def folder_def filed_def scan_def)
  ultimately show ?thesis by (simp add: archive_ok_def)
qed

theorem purge_does_what_the_list_says_witness:
  "\<exists>db' st' out. purge_file default_paths last_copy last_store 22 = Inr (db', st', out) \<and> files db' = [] \<and> store_items db' = [] \<and>
     \<not> has_object st' ''archive/store/abc'' \<and> \<not> has_object st' ''archive/cache/abc.v1.jpg'' \<and>
     map_of (objects st') ''archive/store/abd'' = Some ''ABD''"
proof -
  have c: "case list_deleted_files last_copy of [c] \<Rightarrow> pc_file_id c = 22 \<and> candidate_impact c = SOLE \<and> si_sha256_hash (pc_item c) = ''abc''
      | _ \<Rightarrow> False" by code_simp
  then obtain c where c: "c \<in> set (list_deleted_files last_copy)" "pc_file_id c = 22" "candidate_impact c = SOLE"
      "si_sha256_hash (pc_item c) = ''abc''"
    by (auto split: list.splits)
  obtain db' st' out where r: "purge_file default_paths last_copy last_store 22 = Inr (db', st', out)"
    by (simp add: purge_file_def get_soft_deleted_file_def cli_get_file_def get_file_def last_copy_def shelf_def filed_def) (metis prod_cases3)
  note t = purge_does_what_the_list_says [OF last_copy_ok c(1), of default_paths last_store db' st' out, unfolded c(2,4), OF r]
  have k: "content_key default_paths ''abc'' ''archive/store/abc''" "content_key default_paths ''abc'' ''archive/cache/abc.v1.jpg''"
      "\<not> content_key default_paths ''abc'' ''archive/store/abd''"
    by (simp_all add: content_key_def store_key_def cache_prefix_def default_paths_def has_prefix_def)
  have f: "\<not> s3_fails last_store x y" for x y by (simp add: last_store_def)
  have "\<forall>k. content_key default_paths ''abc'' k \<longrightarrow> \<not> has_object st' k" using t c(3) f by blast
  moreover have "map_of (objects st') ''archive/store/abd'' = map_of (objects last_store) ''archive/store/abd''" using t c(3) k(3) by blast
  moreover have "files db' = []" using conjunct1 [OF t] by (simp add: last_copy_def filed_def)
  moreover have "store_items db' = []"
  proof -
    have s: "store_items db' = filter (\<lambda>i. i \<noteq> pc_item c) (store_items last_copy)" "pc_item c \<in> set (store_items last_copy)"
      using t c(3) by blast+
    then show ?thesis by (simp add: last_copy_def shelf_def)
  qed
  ultimately show ?thesis using r k(1,2) by (intro exI [of _ db'] exI [of _ st'] exI [of _ out]) (simp add: last_store_def)
qed

section \<open>Validated requests\<close>

lemma perm_format_split:
  assumes "perm_format p"
  shows "fst (partition_underscore p) @ ''_'' @ snd (partition_underscore p) = p"
proof -
  obtain a b c u d e where p: "p = [a, b, c, u, d, e]" and f: "is_az a" "is_az b" "is_az c" "u = CHR ''_''"
    using assms unfolding perm_format_def by (auto split: list.split_asm)
  have "x \<noteq> CHR ''_''" if "is_az x" for x using that by (auto simp: is_az_def Let_def)
  then show ?thesis using f by (auto simp: p partition_underscore_def)
qed

lemma validated_request:
  assumes "validate_dir_request r = Some data" "parse_permissions db (dr_permissions data) = Inr pairs"
  shows "distinct pairs \<and> 3 \<le> length (dr_name data) \<and> length (dr_name data) \<le> 64 \<and>
    (case dr_description data of None \<Rightarrow> True | Some t \<Rightarrow> length t \<le> 128)"
proof -
  have data: "list_all perm_format (dr_permissions r)" "dr_permissions data = dict_keys (dr_permissions r)"
      "3 \<le> length (dr_name data)" "length (dr_name data) \<le> 64"
      "case dr_description data of None \<Rightarrow> True | Some t \<Rightarrow> length t \<le> 128"
    using assms(1) by (auto simp: validate_dir_request_def Let_def split: if_split_asm option.splits)
  have formats: "perm_format p" if "p \<in> set (dr_permissions data)" for p
    using data(1,2) that by (simp add: dict_keys_def list_all_iff)
  have "inj_on partition_underscore (set (dr_permissions data))"
    using formats perm_format_split by (metis inj_onI)
  moreover have "distinct (dr_permissions data)" by (simp add: data(2) dict_keys_def)
  moreover have "pairs = map partition_underscore (dr_permissions data)"
    using assms(2) by (auto simp: parse_permissions_def Let_def split: if_split_asm)
  ultimately show ?thesis using data(3-5) by (simp add: distinct_map)
qed

text \<open>A directory request that passed the request model never ends in a constraint violation of the
  database: creating and changing either succeed or raise one of the documented HTTP errors.\<close>
theorem validated_dir_request_meets_constraints:
  assumes "validate_dir_request r = Some data"
  shows "(\<forall>e. create_dir rq db data user = Inl e \<longrightarrow> (\<exists>code msg. e = HTTPException code msg)) \<and>
    (\<forall>e. update_dir rq db k data user = Inl e \<longrightarrow> (\<exists>code msg. e = HTTPException code msg))"
proof -
  have parse: "\<exists>code msg. e = HTTPException code msg" if "parse_permissions db (dr_permissions data) = Inl e" for e
    using that by (auto simp: parse_permissions_def Let_def split: if_split_asm)
  have sync: "sync_permissions db' d pairs \<noteq> Inl e"
    if "parse_permissions db (dr_permissions data) = Inr pairs" "dir_name d = dr_name data"
      "dir_description d = dr_description data" for db' d pairs e
    using validated_request [OF assms that(1)] that(2,3) by (simp add: sync_permissions_def dir_row_ok_def)
  have "\<exists>code msg. e = HTTPException code msg" if c: "create_dir rq db data user = Inl e" for e
    using c parse unfolding create_dir_def
    by (auto simp: bind_res_eq_Inl require_admin_def Let_def sync split: if_split_asm option.split_asm)
  moreover have "\<exists>code msg. e = HTTPException code msg" if u: "update_dir rq db k data user = Inl e" for e
    using u parse unfolding update_dir_def
    by (auto simp: bind_res_eq_Inl require_admin_def Let_def sync dir_missing_def split: if_split_asm option.split_asm)
  ultimately show ?thesis by blast
qed

definition new_folder :: dir_request where
  "new_folder = \<lparr>dr_name = '' Bilder '', dr_description = None, dr_permissions = [''vbw_up'', ''vbw_up''],
     dr_recursive = True, dr_parent = Some 2\<rparr>"

theorem validated_dir_request_meets_constraints_witness:
  "\<exists>data. validate_dir_request new_folder = Some data \<and> dr_name data = ''Bilder'' \<and>
     (\<forall>e. create_dir visit shelf data keeper = Inl e \<longrightarrow> (\<exists>code msg. e = HTTPException code msg))"
proof -
  have "case validate_dir_request new_folder of None \<Rightarrow> False | Some data \<Rightarrow> dr_name data = ''Bilder''" by code_simp
  then obtain data where data: "validate_dir_request new_folder = Some data" "dr_name data = ''Bilder''"
    by (auto split: option.splits)
  show ?thesis using validated_dir_request_meets_constraints [OF data(1), of visit shelf keeper 1] data by blast
qed

end
