(* ===== verification/Auth.thy ===== *)
theory Auth
  imports Members
begin

text \<open>
  Signing in (\<open>app/services/auth_service.py\<close>, \<open>app/core/security.py\<close>): passwords, sessions with a
  rotating refresh secret, access tokens, password resets and Google accounts.

  Cryptography is a parameter of the model, the record \<open>crypto\<close>: SHA-256, bcrypt, the signing and
  verifying of access tokens (\<open>jwt_decode check_expiry now\<close>; \<open>None\<close> is a \<open>PyJWTError\<close>) and
  Google's verification of its own. The times in a token are whole seconds. Random values and the time are
  arguments. An operation returns the tables it leaves behind together with its result, because
  some rejections are preceded by a committed change (the session is deleted).
\<close>

section \<open>Rows, errors and parameters\<close>

record auth_session =
  s_member_id :: uuid
  s_jti :: string
  s_refresh_token_hash :: "string option"
  s_last_used_at :: instant
  s_created_at :: instant

record reset_token =
  rt_member_id :: uuid
  rt_token_hash :: string
  rt_created_at :: instant

text \<open>The bindings of the one provider there is.\<close>

record google_binding =
  gb_member_id :: uuid
  gb_remote_id :: string
  gb_remote_name :: string
  gb_lastuse_at :: instant

record auth_db =
  au_members :: "member list"
  sessions :: "auth_session list"
  reset_tokens :: "reset_token list"
  bindings :: "google_binding list"

datatype auth_error =
    InvalidToken string
  | AuthenticationFailed string
  | RefreshRejected string
  | AccountLocked string
  | InvalidResetToken string
  | AccountNotLinked string
  | GoogleAuthUnavailable string
  | Conflict

type_synonym 'a outcome = "auth_db \<times> (auth_error + 'a)"

record claims =
  cl_exp :: int
  cl_iat :: int
  cl_auth_time :: int
  cl_sub :: "string option"
  cl_jti :: "string option"

datatype google_answer =
    Google_Claims "string option" "string option"
  | Google_Rejected
  | Google_Unreachable

record crypto =
  sha256 :: "string \<Rightarrow> string"
  bcrypt_hash :: "string \<Rightarrow> string"
  bcrypt_check :: "string \<Rightarrow> string \<Rightarrow> bool option"
  jwt_encode :: "claims \<Rightarrow> string"
  jwt_decode :: "bool \<Rightarrow> instant \<Rightarrow> string \<Rightarrow> claims option"
  google_verify :: "string \<Rightarrow> google_answer"

text \<open>The settings the module reads.\<close>

record auth_settings =
  access_token_expire_minutes :: int
  session_idle_timeout_minutes :: int
  refresh_token_lifetime_days :: int
  google_configured :: bool
  dummy_hash :: string

definition microseconds :: int where "microseconds = 1000000"

definition minutes :: "int \<Rightarrow> int" where "minutes n = n * 60 * microseconds"

definition days :: "int \<Rightarrow> int" where "days n = n * 86400 * microseconds"

section \<open>Passwords and tokens\<close>

text \<open>\<open>str.encode("utf-8")\<close> of the first 256 code points.\<close>

definition utf8 :: "string \<Rightarrow> string" where
  "utf8 s = concat (map (\<lambda>c. let n = (of_char c :: nat) in
     if n < 128 then [c] else [char_of (192 + n div 64), char_of (128 + n mod 64)]) s)"

definition BCRYPT_MAX_PASSWORD_BYTES :: nat where "BCRYPT_MAX_PASSWORD_BYTES = 72"

definition verify_password :: "crypto \<Rightarrow> string \<Rightarrow> string \<Rightarrow> bool" where
  "verify_password cr plain hashed =
     (if hashed = [] then False
      else let h = (if take 4 hashed = ''$2y$'' then ''$2b$'' @ drop 4 hashed else hashed)
           in bcrypt_check cr (take BCRYPT_MAX_PASSWORD_BYTES (utf8 plain)) (utf8 h) = Some True)"

definition get_password_hash :: "crypto \<Rightarrow> string \<Rightarrow> string" where
  "get_password_hash cr password = bcrypt_hash cr (utf8 password)"

definition effective_bcrypt_rounds :: "int \<Rightarrow> string option \<Rightarrow> int" where
  "effective_bcrypt_rounds configured environment =
     (if environment \<noteq> Some ''production'' then configured else max configured 12)"

definition hash_refresh_secret :: "crypto \<Rightarrow> string \<Rightarrow> string" where
  "hash_refresh_secret cr secret = sha256 cr (utf8 secret)"

definition verify_refresh_secret :: "crypto \<Rightarrow> string \<Rightarrow> string \<Rightarrow> bool" where
  "verify_refresh_secret cr plain hashed \<longleftrightarrow> sha256 cr (utf8 plain) = hashed"

definition hash_reset_token :: "crypto \<Rightarrow> string \<Rightarrow> string" where
  "hash_reset_token cr token = sha256 cr (utf8 token)"

definition build_refresh_cookie_value :: "string \<Rightarrow> string \<Rightarrow> string" where
  "build_refresh_cookie_value session_id secret = session_id @ '':'' @ secret"

definition parse_refresh_cookie :: "string \<Rightarrow> (string \<times> string) option" where
  "parse_refresh_cookie cookie =
     (let left = takeWhile (\<lambda>c. c \<noteq> CHR '':'') cookie; rest = dropWhile (\<lambda>c. c \<noteq> CHR '':'') cookie
      in if rest = [] \<or> left = [] \<or> tl rest = [] then None else Some (left, tl rest))"

definition create_access_token ::
  "crypto \<Rightarrow> auth_settings \<Rightarrow> instant \<Rightarrow> string \<Rightarrow> string \<Rightarrow> string option \<Rightarrow> instant option \<Rightarrow> string \<times> string" where
  "create_access_token cr cfg now new_id subject jti_override auth_time =
     (let token_id = (case jti_override of None \<Rightarrow> new_id | Some j \<Rightarrow> if j = [] then new_id else j)
      in (jwt_encode cr \<lparr>cl_exp = (now + minutes (access_token_expire_minutes cfg)) div microseconds,
            cl_iat = now div microseconds,
            cl_auth_time = (case auth_time of None \<Rightarrow> now | Some t \<Rightarrow> t) div microseconds,
            cl_sub = Some subject, cl_jti = Some token_id\<rparr>, token_id))"

section \<open>Members\<close>

definition member_by_email :: "auth_db \<Rightarrow> string \<Rightarrow> member option" where
  "member_by_email db email =
     List.find (\<lambda>m. case text_col m F_email of None \<Rightarrow> False | Some e \<Rightarrow> lower e = lower email) (au_members db)"

definition member_by_id :: "auth_db \<Rightarrow> uuid \<Rightarrow> member option" where
  "member_by_id db k = List.find (\<lambda>m. member_id m = k) (au_members db)"

definition update_member_row :: "uuid \<Rightarrow> (member \<Rightarrow> member) \<Rightarrow> auth_db \<Rightarrow> auth_db" where
  "update_member_row k g db = db\<lparr>au_members := update_where (\<lambda>m. member_id m = k) g (au_members db)\<rparr>"

text \<open>A text column that is set and not empty.\<close>

definition set_text :: "member \<Rightarrow> member_field \<Rightarrow> string option" where
  "set_text m f = (case text_col m f of None \<Rightarrow> None | Some s \<Rightarrow> if s = [] then None else Some s)"

definition authenticate_user ::
  "crypto \<Rightarrow> auth_settings \<Rightarrow> auth_db \<Rightarrow> string \<Rightarrow> string \<Rightarrow> member option \<times> string" where
  "authenticate_user cr cfg db email password =
     (let m = member_by_email db email;
          stored = Option.bind m (\<lambda>m. set_text m F_auth_password);
          ok = verify_password cr password (case stored of None \<Rightarrow> dummy_hash cfg | Some h \<Rightarrow> h)
      in case m of
           None \<Rightarrow> (None, ''unknown_email'')
         | Some m \<Rightarrow>
             if flag_col m F_auth_locked then (None, ''account_locked'')
             else if stored = None \<or> \<not> ok then (None, ''wrong_password'')
             else (Some m, ''ok''))"

section \<open>Password reset\<close>

definition process_forgot_password ::
  "crypto \<Rightarrow> auth_db \<Rightarrow> instant \<Rightarrow> string \<Rightarrow> string \<Rightarrow> auth_db \<times> (string \<times> string) option" where
  "process_forgot_password cr db now token email =
     (case member_by_email db email of None \<Rightarrow> (db, None)
      | Some m \<Rightarrow>
          (db\<lparr>reset_tokens := delete_where (\<lambda>t. rt_member_id t = member_id m) (reset_tokens db) @
                [\<lparr>rt_member_id = member_id m, rt_token_hash = hash_reset_token cr token, rt_created_at = now\<rparr>]\<rparr>,
           map_option (\<lambda>e. (e, token)) (set_text m F_email)))"

definition delete_reset :: "reset_token \<Rightarrow> auth_db \<Rightarrow> auth_db" where
  "delete_reset t db = db\<lparr>reset_tokens := delete_where (\<lambda>x. rt_member_id x = rt_member_id t) (reset_tokens db)\<rparr>"

definition execute_password_reset ::
  "crypto \<Rightarrow> auth_db \<Rightarrow> instant \<Rightarrow> string \<Rightarrow> string \<Rightarrow> string \<Rightarrow> unit outcome" where
  "execute_password_reset cr db now email token new_password =
     (let m = member_by_email db email;
          entry = Option.bind m (\<lambda>m. List.find (\<lambda>t. rt_member_id t = member_id m \<and>
                    rt_token_hash t = hash_reset_token cr token) (reset_tokens db))
      in case (m, entry) of
           (Some m, Some t) \<Rightarrow>
             if now - rt_created_at t > minutes 20
             then (delete_reset t db, Inl (InvalidResetToken ''Der Reset-Token ist abgelaufen.''))
             else (delete_reset t (update_member_row (member_id m)
                      (\<lambda>m. set_col F_email_verified_at (PTime now)
                             (set_col F_auth_password (PStr (get_password_hash cr new_password)) m))
                      (db\<lparr>sessions := delete_where (\<lambda>s. s_member_id s = member_id m) (sessions db)\<rparr>)), Inr ())
         | _ \<Rightarrow> (db, Inl (InvalidResetToken ''Ungueltiger Token oder E-Mail-Adresse.'')))"

section \<open>Sessions\<close>

definition create_user_session ::
  "crypto \<Rightarrow> auth_settings \<Rightarrow> auth_db \<Rightarrow> instant \<Rightarrow> string \<Rightarrow> string \<Rightarrow> member \<Rightarrow> (string \<times> string \<times> string) outcome" where
  "create_user_session cr cfg db now new_id secret m =
     (case set_text m F_email of
        None \<Rightarrow> (db, Inl (AuthenticationFailed ''Member hat keine E-Mail-Adresse.''))
      | Some email \<Rightarrow>
          (case create_access_token cr cfg now new_id email None None of (access, session_id) \<Rightarrow>
             if List.find (\<lambda>s. s_jti s = session_id) (sessions db) \<noteq> None then (db, Inl Conflict)
             else (update_member_row (member_id m) (set_col F_auth_lastlogin (PTime now))
                    (db\<lparr>sessions := sessions db @ [\<lparr>s_member_id = member_id m, s_jti = session_id,
                       s_refresh_token_hash = Some (hash_refresh_secret cr secret), s_last_used_at = now,
                       s_created_at = now\<rparr>]\<rparr>), Inr (access, session_id, secret))))"

definition session_by_jti :: "auth_db \<Rightarrow> string \<Rightarrow> auth_session option" where
  "session_by_jti db j = List.find (\<lambda>s. s_jti s = j) (sessions db)"

definition delete_session :: "auth_session \<Rightarrow> auth_db \<Rightarrow> auth_db" where
  "delete_session s db = db\<lparr>sessions := delete_where (\<lambda>x. s_jti x = s_jti s) (sessions db)\<rparr>"

definition update_session :: "auth_session \<Rightarrow> (auth_session \<Rightarrow> auth_session) \<Rightarrow> auth_db \<Rightarrow> auth_db" where
  "update_session s g db = db\<lparr>sessions := update_where (\<lambda>x. s_jti x = s_jti s) g (sessions db)\<rparr>"

definition decode_access_token :: "crypto \<Rightarrow> instant \<Rightarrow> string \<Rightarrow> auth_error + string \<times> string" where
  "decode_access_token cr now token =
     (case jwt_decode cr True now token of
        None \<Rightarrow> Inl (InvalidToken ''Anmeldedaten ungueltig.'')
      | Some c \<Rightarrow>
          (case (cl_sub c, cl_jti c) of
             (Some email, Some token_id) \<Rightarrow> Inr (email, token_id)
           | _ \<Rightarrow> Inl (InvalidToken ''Anmeldedaten ungueltig.'')))"

definition is_idle :: "auth_settings \<Rightarrow> auth_session \<Rightarrow> instant \<Rightarrow> bool" where
  "is_idle cfg s now \<longleftrightarrow> now - s_last_used_at s > minutes (session_idle_timeout_minutes cfg)"

definition touch_session :: "auth_settings \<Rightarrow> auth_db \<Rightarrow> instant \<Rightarrow> auth_session \<Rightarrow> unit outcome" where
  "touch_session cfg db now s =
     (if is_idle cfg s now
      then (delete_session s db, Inl (InvalidToken ''Session expired due to inactivity.''))
      else if now - s_last_used_at s > minutes 1
      then (update_member_row (s_member_id s) (set_col F_auth_lastsignal (PTime now))
              (update_session s (\<lambda>s. s\<lparr>s_last_used_at := now\<rparr>) db), Inr ())
      else (db, Inr ()))"

definition authenticate_access_token ::
  "crypto \<Rightarrow> auth_settings \<Rightarrow> auth_db \<Rightarrow> instant \<Rightarrow> string \<Rightarrow> member outcome" where
  "authenticate_access_token cr cfg db now token =
     (case decode_access_token cr now token of Inl e \<Rightarrow> (db, Inl e)
      | Inr (email, token_id) \<Rightarrow>
        (case session_by_jti db token_id of None \<Rightarrow> (db, Inl (InvalidToken ''Anmeldedaten ungueltig.''))
         | Some s \<Rightarrow>
           (case touch_session cfg db now s of
              (db', Inl e) \<Rightarrow> (db', Inl e)
            | (db', Inr _) \<Rightarrow>
              (case List.find (\<lambda>m. text_col m F_email = Some email) (au_members db') of
                 None \<Rightarrow> (db', Inl (InvalidToken ''Anmeldedaten ungueltig.''))
               | Some m \<Rightarrow>
                   if member_id m \<noteq> s_member_id s then (db', Inl (InvalidToken ''Anmeldedaten ungueltig.''))
                   else if flag_col m F_auth_locked then (db', Inl (AccountLocked ''Account is locked''))
                   else (db', Inr m)))))"

definition rejected_refresh :: "auth_db \<Rightarrow> auth_session \<Rightarrow> string \<Rightarrow> 'a outcome" where
  "rejected_refresh db s msg = (delete_session s db, Inl (RefreshRejected msg))"

definition refresh_session ::
  "crypto \<Rightarrow> auth_settings \<Rightarrow> auth_db \<Rightarrow> instant \<Rightarrow> string \<Rightarrow> string \<Rightarrow> string \<Rightarrow> (string \<times> string \<times> string) outcome" where
  "refresh_session cr cfg db now new_secret session_id secret =
     (case session_by_jti db session_id of None \<Rightarrow> (db, Inl (RefreshRejected ''Invalid session''))
      | Some s \<Rightarrow>
          if (case s_refresh_token_hash s of None \<Rightarrow> True
              | Some h \<Rightarrow> h = [] \<or> \<not> verify_refresh_secret cr secret h)
          then rejected_refresh db s ''Token reuse detected''
          else if is_idle cfg s now then rejected_refresh db s ''Session expired due to inactivity''
          else if now - s_created_at s > days (refresh_token_lifetime_days cfg)
          then rejected_refresh db s ''Session expired''
          else case member_by_id db (s_member_id s) of
            None \<Rightarrow> rejected_refresh db s ''Account locked or deleted''
          | Some m \<Rightarrow>
              if flag_col m F_auth_locked then rejected_refresh db s ''Account locked or deleted''
              else case set_text m F_email of
                None \<Rightarrow> rejected_refresh db s ''Account has no email''
              | Some email \<Rightarrow>
                  (update_member_row (member_id m) (set_col F_auth_lastsignal (PTime now))
                     (update_session s (\<lambda>s. s\<lparr>s_refresh_token_hash := Some (hash_refresh_secret cr new_secret),
                        s_last_used_at := now\<rparr>) db),
                   Inr (fst (create_access_token cr cfg now [] email (Some (s_jti s)) (Some (s_created_at s))),
                        s_jti s, new_secret)))"

definition refresh_from_cookie ::
  "crypto \<Rightarrow> auth_settings \<Rightarrow> auth_db \<Rightarrow> instant \<Rightarrow> string \<Rightarrow> string option \<Rightarrow> (string \<times> string \<times> string) outcome" where
  "refresh_from_cookie cr cfg db now new_secret cookie =
     (case cookie of None \<Rightarrow> (db, Inl (AuthenticationFailed ''No refresh token''))
      | Some c \<Rightarrow>
          if c = [] then (db, Inl (AuthenticationFailed ''No refresh token''))
          else case parse_refresh_cookie c of
                 None \<Rightarrow> (db, Inl (RefreshRejected ''Malformed refresh cookie''))
               | Some (session_id, secret) \<Rightarrow> refresh_session cr cfg db now new_secret session_id secret)"

text \<open>Logging out: an expired token is good enough, a broken one does nothing.\<close>

definition logout_user :: "crypto \<Rightarrow> auth_db \<Rightarrow> instant \<Rightarrow> string \<Rightarrow> auth_db" where
  "logout_user cr db now token =
     (case Option.bind (jwt_decode cr False now token) cl_jti of None \<Rightarrow> db
      | Some j \<Rightarrow>
          if j = [] then db
          else case session_by_jti db j of None \<Rightarrow> db
             | Some s \<Rightarrow> delete_session s
                 (update_member_row (s_member_id s) (set_col F_auth_lastlogout (PTime now)) db))"

section \<open>Google accounts\<close>

definition verify_google_credential ::
  "crypto \<Rightarrow> auth_settings \<Rightarrow> string \<Rightarrow> string \<Rightarrow> auth_error + string \<times> string option" where
  "verify_google_credential cr cfg credential invalid_message =
     (if \<not> google_configured cfg
      then Inl (AuthenticationFailed ''Google Login ist auf dem Server nicht konfiguriert.'')
      else case google_verify cr credential of
        Google_Unreachable \<Rightarrow> Inl (GoogleAuthUnavailable
          ''Google-Anmeldung ist gerade nicht erreichbar. Bitte versuch es spaeter erneut.'')
      | Google_Rejected \<Rightarrow> Inl (AuthenticationFailed invalid_message)
      | Google_Claims sub name \<Rightarrow>
          (case sub of None \<Rightarrow> Inl (AuthenticationFailed invalid_message)
           | Some s \<Rightarrow> if s = [] then Inl (AuthenticationFailed invalid_message) else Inr (s, name)))"

definition touch_binding :: "google_binding \<Rightarrow> instant \<Rightarrow> auth_db \<Rightarrow> auth_db" where
  "touch_binding b now db =
     db\<lparr>bindings := update_where (\<lambda>x. gb_remote_id x = gb_remote_id b) (\<lambda>x. x\<lparr>gb_lastuse_at := now\<rparr>) (bindings db)\<rparr>"

text \<open>The time stamp of the binding is committed with the session that follows, or not at all.\<close>

definition authenticate_google_user ::
  "crypto \<Rightarrow> auth_settings \<Rightarrow> auth_db \<Rightarrow> instant \<Rightarrow> string \<Rightarrow> member outcome" where
  "authenticate_google_user cr cfg db now credential =
     (case verify_google_credential cr cfg credential ''Ungueltiger Google-Token.'' of Inl e \<Rightarrow> (db, Inl e)
      | Inr (google_id, _) \<Rightarrow>
        (case List.find (\<lambda>b. gb_remote_id b = google_id) (bindings db) of
           None \<Rightarrow> (db, Inl (AccountNotLinked ''ACCOUNT_NOT_LINKED''))
         | Some b \<Rightarrow>
           (case member_by_id db (gb_member_id b) of
              None \<Rightarrow> (db, Inl (AuthenticationFailed ''Dein Account ist gesperrt oder wurde geloescht.''))
            | Some m \<Rightarrow>
                if flag_col m F_auth_locked
                then (db, Inl (AuthenticationFailed ''Dein Account ist gesperrt oder wurde geloescht.''))
                else (touch_binding b now db, Inr m))))"

definition already_linked :: auth_error where
  "already_linked = AuthenticationFailed ''Dieser Account oder dieses Google-Konto ist bereits verknuepft.''"

text \<open>The insertion in a savepoint: the unique constraints decide.\<close>

definition insert_google_binding :: "auth_db \<Rightarrow> instant \<Rightarrow> uuid \<Rightarrow> string \<Rightarrow> string \<Rightarrow> auth_error + auth_db" where
  "insert_google_binding db now k google_id google_name =
     (if List.find (\<lambda>b. gb_remote_id b = google_id \<or> gb_member_id b = k) (bindings db) \<noteq> None then Inl already_linked
      else Inr (db\<lparr>bindings := bindings db @ [\<lparr>gb_member_id = k, gb_remote_id = google_id, gb_remote_name = google_name,
                  gb_lastuse_at = now\<rparr>]\<rparr>))"

definition link_google_account ::
  "crypto \<Rightarrow> auth_settings \<Rightarrow> auth_db \<Rightarrow> instant \<Rightarrow> string \<Rightarrow> string \<Rightarrow> string \<Rightarrow> member outcome" where
  "link_google_account cr cfg db now credential email password =
     (case fst (authenticate_user cr cfg db email password) of
        None \<Rightarrow> (db, Inl (AuthenticationFailed ''Die lokale E-Mail-Adresse oder das Passwort ist falsch.''))
      | Some m \<Rightarrow>
        (case verify_google_credential cr cfg credential ''Der Google-Token ist ungueltig oder abgelaufen.'' of
           Inl e \<Rightarrow> (db, Inl e)
         | Inr (google_id, name) \<Rightarrow>
           (case List.find (\<lambda>b. gb_remote_id b = google_id \<or> gb_member_id b = member_id m) (bindings db) of
              Some b \<Rightarrow>
                if gb_member_id b = member_id m \<and> gb_remote_id b = google_id then (touch_binding b now db, Inr m)
                else (db, Inl already_linked)
            | None \<Rightarrow>
                (case insert_google_binding db now (member_id m) google_id
                        (case name of None \<Rightarrow> ''Unknown'' | Some n \<Rightarrow> n) of
                   Inl e \<Rightarrow> (db, Inl e)
                 | Inr db' \<Rightarrow> (db', Inr m)))))"

definition unlink_google_account :: "auth_db \<Rightarrow> uuid \<Rightarrow> auth_db" where
  "unlink_google_account db k = db\<lparr>bindings := delete_where (\<lambda>b. gb_member_id b = k) (bindings db)\<rparr>"

end
