(* ===== verification/Auth_Properties.thy ===== *)
theory Auth_Properties
  imports Auth
begin

text \<open>
  What signing in promises: the tables stay consistent over any sequence of requests, an accepted
  access token names the owner of a live session, a refresh secret works once and its reuse ends
  the session, a password reset token works once and signs the member out everywhere, and a new
  session can be used and refreshed.
\<close>

section \<open>Consistent tables\<close>

definition auth_ok :: "instant \<Rightarrow> auth_db \<Rightarrow> bool" where
  "auth_ok now db \<longleftrightarrow>
     distinct (map member_id (au_members db)) \<and> distinct (map s_jti (sessions db)) \<and>
     distinct (map rt_member_id (reset_tokens db)) \<and>
     distinct (map gb_member_id (bindings db)) \<and> distinct (map gb_remote_id (bindings db)) \<and>
     s_member_id ` set (sessions db) \<subseteq> member_id ` set (au_members db) \<and>
     rt_member_id ` set (reset_tokens db) \<subseteq> member_id ` set (au_members db) \<and>
     gb_member_id ` set (bindings db) \<subseteq> member_id ` set (au_members db) \<and>
     (\<forall>s \<in> set (sessions db). s_created_at s \<le> s_last_used_at s \<and> s_last_used_at s \<le> now)"

lemma map_update_where_key [simp]:
  "(\<And>r. key (g r) = key r) \<Longrightarrow> map key (update_where P g rows) = map key rows"
  by (auto simp: update_where_def)

lemma image_update_where_key [simp]:
  assumes "\<And>r. key (g r) = key r"
  shows "key ` set (update_where P g rows) = key ` set rows"
proof -
  have "set (map key (update_where P g rows)) = set (map key rows)" by (simp only: map_update_where_key [of key g, OF assms])
  then show ?thesis by (simp only: list.set_map)
qed

lemma auth_ok_later: "auth_ok now db \<Longrightarrow> now \<le> now' \<Longrightarrow> auth_ok now' db"
  by (fastforce simp: auth_ok_def)

lemma update_member_row_ok:
  "(\<And>m. member_id (g m) = member_id m) \<Longrightarrow> auth_ok now (update_member_row k g db) = auth_ok now db"
  by (simp add: auth_ok_def update_member_row_def)

lemma delete_session_ok: "auth_ok now db \<Longrightarrow> auth_ok now (delete_session s db)"
  by (auto simp: auth_ok_def delete_session_def distinct_map_delete_where)

lemma delete_reset_ok: "auth_ok now db \<Longrightarrow> auth_ok now (delete_reset t db)"
  by (auto simp: auth_ok_def delete_reset_def distinct_map_delete_where)

lemma end_sessions_ok: "auth_ok now db \<Longrightarrow> auth_ok now (db\<lparr>sessions := delete_where P (sessions db)\<rparr>)"
  by (auto simp: auth_ok_def distinct_map_delete_where)

lemma update_session_ok:
  assumes "auth_ok now db" "\<And>s. s_jti (g s) = s_jti s" "\<And>s. s_member_id (g s) = s_member_id s"
    "\<And>s. s_created_at (g s) = s_created_at s" "\<And>s. s_last_used_at (g s) = now"
  shows "auth_ok now (update_session s g db)"
proof -
  have "s_created_at x \<le> s_last_used_at x \<and> s_last_used_at x \<le> now"
    if "x \<in> set (update_where (\<lambda>x. s_jti x = s_jti s) g (sessions db))" for x
    using that assms(1,4,5) by (fastforce simp: set_update_where auth_ok_def split: if_splits)
  then show ?thesis using assms(1-3) by (simp add: auth_ok_def update_session_def)
qed

lemma touch_binding_ok: "auth_ok now db \<Longrightarrow> auth_ok now (touch_binding b t db)"
  by (simp add: auth_ok_def touch_binding_def)

lemma find_None_all: "List.find P xs = None \<Longrightarrow> x \<in> set xs \<Longrightarrow> \<not> P x"
  by (simp add: find_None_iff)

lemma member_by_id_D: "member_by_id db k = Some m \<Longrightarrow> m \<in> set (au_members db) \<and> member_id m = k"
  unfolding member_by_id_def by (rule find_SomeD)

lemma session_by_jti_D: "session_by_jti db j = Some s \<Longrightarrow> s \<in> set (sessions db) \<and> s_jti s = j"
  unfolding session_by_jti_def by (rule find_SomeD)

lemma add_session_ok:
  assumes "auth_ok now db" "m \<in> set (au_members db)" "List.find (\<lambda>s. s_jti s = j) (sessions db) = None"
  shows "auth_ok now (db\<lparr>sessions := sessions db @ [\<lparr>s_member_id = member_id m, s_jti = j,
     s_refresh_token_hash = h, s_last_used_at = now, s_created_at = now\<rparr>]\<rparr>)"
proof -
  have "j \<notin> s_jti ` set (sessions db)" using find_None_all [OF assms(3)] by blast
  then show ?thesis using assms(1,2) by (auto simp: auth_ok_def)
qed

lemma create_user_session_ok:
  assumes "auth_ok now db" "m \<in> set (au_members db)"
  shows "auth_ok now (fst (create_user_session cr cfg db now new_id secret m))"
  unfolding create_user_session_def
  using assms by (auto simp: update_member_row_ok intro!: add_session_ok split: option.splits prod.splits)

lemma refresh_session_ok:
  "auth_ok now db \<Longrightarrow> auth_ok now (fst (refresh_session cr cfg db now new_secret session_id secret))"
  unfolding refresh_session_def rejected_refresh_def
  by (auto split: option.splits simp: update_member_row_ok intro!: delete_session_ok update_session_ok)

lemma touch_session_ok: "auth_ok now db \<Longrightarrow> auth_ok now (fst (touch_session cfg db now s))"
  by (auto simp: touch_session_def update_member_row_ok intro!: delete_session_ok update_session_ok)

lemma authenticate_access_token_db:
  "fst (authenticate_access_token cr cfg db now token) = db \<or>
   (\<exists>s. fst (authenticate_access_token cr cfg db now token) = fst (touch_session cfg db now s))"
  unfolding authenticate_access_token_def
  by (auto split: sum.splits prod.splits option.splits intro: exI [of _ "_ :: auth_session"]) (metis fst_conv)+

lemma authenticate_access_token_ok:
  "auth_ok now db \<Longrightarrow> auth_ok now (fst (authenticate_access_token cr cfg db now token))"
  using authenticate_access_token_db [of cr cfg db now token] touch_session_ok [of now db cfg] by metis

lemma process_forgot_password_ok:
  assumes "auth_ok now db"
  shows "auth_ok now (fst (process_forgot_password cr db now token email))"
proof (cases "member_by_email db email")
  case None
  then show ?thesis using assms by (simp add: process_forgot_password_def)
next
  case (Some m)
  then have "m \<in> set (au_members db)" unfolding member_by_email_def by (blast dest: find_SomeD)
  then show ?thesis
    using assms Some by (auto simp: process_forgot_password_def auth_ok_def distinct_map_delete_where)
qed

lemma execute_password_reset_ok:
  "auth_ok now db \<Longrightarrow> auth_ok now (fst (execute_password_reset cr db now email token new_password))"
  unfolding execute_password_reset_def Let_def
  by (auto split: option.splits intro!: delete_reset_ok simp: update_member_row_ok end_sessions_ok)

lemma logout_user_ok: "auth_ok now db \<Longrightarrow> auth_ok now (logout_user cr db now token)"
  unfolding logout_user_def by (auto split: option.splits intro!: delete_session_ok simp: update_member_row_ok)

lemma authenticate_google_user_ok:
  "auth_ok now db \<Longrightarrow> auth_ok now (fst (authenticate_google_user cr cfg db now credential))"
  unfolding authenticate_google_user_def by (auto split: sum.splits option.splits prod.splits intro!: touch_binding_ok)

lemma insert_google_binding_ok:
  assumes "auth_ok now db" "insert_google_binding db t k g n = Inr db'" "k \<in> member_id ` set (au_members db)"
  shows "auth_ok now db'"
proof -
  have free: "List.find (\<lambda>b. gb_remote_id b = g \<or> gb_member_id b = k) (bindings db) = None"
    and db': "db' = db\<lparr>bindings := bindings db @ [\<lparr>gb_member_id = k, gb_remote_id = g, gb_remote_name = n, gb_lastuse_at = t\<rparr>]\<rparr>"
    using assms(2) by (auto simp: insert_google_binding_def split: if_split_asm)
  then have "g \<notin> gb_remote_id ` set (bindings db)" "k \<notin> gb_member_id ` set (bindings db)"
    using find_None_all [OF free] by blast+
  then show ?thesis using assms(1,3) by (simp add: auth_ok_def db')
qed

lemma authenticate_user_D:
  assumes "authenticate_user cr cfg db email password = (Some m, why)"
  shows "m \<in> set (au_members db) \<and> member_by_email db email = Some m \<and> \<not> flag_col m F_auth_locked"
proof -
  have "member_by_email db email = Some m" "\<not> flag_col m F_auth_locked"
    using assms by (auto simp: authenticate_user_def Let_def split: option.split_asm if_split_asm)
  then show ?thesis unfolding member_by_email_def by (blast dest: find_SomeD)
qed

lemma link_google_account_ok:
  assumes ok: "auth_ok now db"
  shows "auth_ok now (fst (link_google_account cr cfg db now credential email password))"
proof (cases "fst (authenticate_user cr cfg db email password)")
  case None
  then show ?thesis using ok by (simp add: link_google_account_def)
next
  case (Some m)
  then have m: "member_id m \<in> member_id ` set (au_members db)"
    using authenticate_user_D [of cr cfg db email password m] by (metis image_eqI prod.collapse)
  show ?thesis
    unfolding link_google_account_def
    using ok Some insert_google_binding_ok [OF ok _ m]
    by (auto split: sum.splits option.splits prod.splits intro!: touch_binding_ok)
qed

lemma unlink_google_account_ok: "auth_ok now db \<Longrightarrow> auth_ok now (unlink_google_account db k)"
  by (auto simp: auth_ok_def unlink_google_account_def distinct_map_delete_where)

text \<open>One request; the clock may advance before it.\<close>

inductive auth_step ::
  "crypto \<Rightarrow> auth_settings \<Rightarrow> instant \<times> auth_db \<Rightarrow> instant \<times> auth_db \<Rightarrow> bool" for cr cfg where
  login: "t \<le> now \<Longrightarrow> authenticate_user cr cfg db email pw = (Some m, why) \<Longrightarrow>
     auth_step cr cfg (t, db) (now, fst (create_user_session cr cfg db now i x m))"
| google_login: "t \<le> now \<Longrightarrow> authenticate_google_user cr cfg db now credential = (db1, Inr m) \<Longrightarrow>
     auth_step cr cfg (t, db) (now, fst (create_user_session cr cfg db1 now i x m))"
| link: "t \<le> now \<Longrightarrow> link_google_account cr cfg db now credential email pw = (db1, Inr m) \<Longrightarrow>
     auth_step cr cfg (t, db) (now, fst (create_user_session cr cfg db1 now i x m))"
| unlink: "t \<le> now \<Longrightarrow> auth_step cr cfg (t, db) (now, unlink_google_account db k)"
| forgot: "t \<le> now \<Longrightarrow> auth_step cr cfg (t, db) (now, fst (process_forgot_password cr db now token email))"
| reset: "t \<le> now \<Longrightarrow> auth_step cr cfg (t, db) (now, fst (execute_password_reset cr db now email token pw))"
| use_token: "t \<le> now \<Longrightarrow> auth_step cr cfg (t, db) (now, fst (authenticate_access_token cr cfg db now token))"
| refresh: "t \<le> now \<Longrightarrow> auth_step cr cfg (t, db) (now, fst (refresh_from_cookie cr cfg db now x cookie))"
| logout: "t \<le> now \<Longrightarrow> auth_step cr cfg (t, db) (now, logout_user cr db now token)"

inductive_simps auth_step_unfold: "auth_step cr cfg s t"

lemma refresh_from_cookie_ok:
  "auth_ok now db \<Longrightarrow> auth_ok now (fst (refresh_from_cookie cr cfg db now x cookie))"
  unfolding refresh_from_cookie_def by (auto split: option.splits prod.splits simp: refresh_session_ok)

lemma google_member_D:
  assumes "authenticate_google_user cr cfg db now credential = (db1, Inr m)"
  shows "m \<in> set (au_members db1)"
  using assms unfolding authenticate_google_user_def
  by (auto split: sum.split_asm option.split_asm prod.split_asm if_split_asm dest!: member_by_id_D simp: touch_binding_def)

lemma link_member_D:
  assumes "link_google_account cr cfg db now credential email pw = (db1, Inr m)"
  shows "m \<in> set (au_members db1)"
proof -
  obtain why where "authenticate_user cr cfg db email pw = (Some m, why)" "au_members db1 = au_members db"
    using assms unfolding link_google_account_def insert_google_binding_def
    by (cases "authenticate_user cr cfg db email pw")
      (auto split: sum.split_asm option.split_asm prod.split_asm if_split_asm simp: touch_binding_def)
  then show ?thesis using authenticate_user_D by metis
qed

lemma auth_step_ok: "auth_step cr cfg s t \<Longrightarrow> auth_ok (fst s) (snd s) \<Longrightarrow> auth_ok (fst t) (snd t) \<and> fst s \<le> fst t"
proof (induction rule: auth_step.induct)
  case (login t now db email pw m why i x)
  then show ?case using auth_ok_later [of t db now] authenticate_user_D create_user_session_ok by simp
next
  case (google_login t now db credential db1 m i x)
  then have "auth_ok now db1" using auth_ok_later [of t db now] authenticate_google_user_ok by (metis fst_conv snd_conv)
  then show ?case using google_member_D [OF google_login.hyps(2)] google_login.hyps(1) create_user_session_ok by simp
next
  case (link t now db credential email pw db1 m i x)
  then have "auth_ok now db1" using auth_ok_later [of t db now] link_google_account_ok by (metis fst_conv snd_conv)
  then show ?case using link_member_D [OF link.hyps(2)] link.hyps(1) create_user_session_ok by simp
qed (simp_all add: auth_ok_later unlink_google_account_ok process_forgot_password_ok execute_password_reset_ok
    authenticate_access_token_ok refresh_from_cookie_ok logout_user_ok)

section \<open>A member to evaluate on\<close>

definition alice :: member where
  "alice = \<lparr>member_id = 7, columns = (\<lambda>_. PNone)(F_email := PStr ''a@b.at'', F_auth_password := PStr ''bcrypt:old''),
     member_roles = [], member_badges = [], member_keys = []\<rparr>"

text \<open>Toy cryptography: hashes and tokens that show their content.\<close>

definition toy :: crypto where
  "toy = \<lparr>sha256 = \<lambda>s. ''sha:'' @ s, bcrypt_hash = \<lambda>s. ''bcrypt:'' @ s, bcrypt_check = \<lambda>s h. Some (h = ''bcrypt:'' @ s),
     jwt_encode = \<lambda>c. (case cl_jti c of None \<Rightarrow> [] | Some j \<Rightarrow> j),
     jwt_decode = \<lambda>_ now s. if s = [] then None else
       Some \<lparr>cl_exp = now div microseconds + 1, cl_iat = 0, cl_auth_time = 0, cl_sub = Some ''a@b.at'', cl_jti = Some s\<rparr>,
     google_verify = \<lambda>_. Google_Unreachable\<rparr>"

definition defaults :: auth_settings where
  "defaults = \<lparr>access_token_expire_minutes = 60, session_idle_timeout_minutes = 30, refresh_token_lifetime_days = 7,
     google_configured = False, dummy_hash = ''x''\<rparr>"

definition one_member :: auth_db where
  "one_member = \<lparr>au_members = [alice], sessions = [\<lparr>s_member_id = 7, s_jti = ''j1'',
     s_refresh_token_hash = Some ''sha:old'', s_last_used_at = 0, s_created_at = 0\<rparr>],
     reset_tokens = [\<lparr>rt_member_id = 7, rt_token_hash = ''sha:reset'', rt_created_at = 0\<rparr>], bindings = []\<rparr>"

lemma one_member_ok: "auth_ok 0 one_member"
  by (simp add: auth_ok_def one_member_def alice_def)

section \<open>The properties\<close>

text \<open>C3: The tables stay consistent over any sequence of requests with a clock that does not go back:
  member, session, reset and binding keys are unique (one pending reset per member, one Google
  account per member and one member per Google account), every row belongs to a member, and no
  session was last used before it began or in the future.\<close>
theorem auth_tables_stay_consistent:
  assumes "auth_ok now db" "(auth_step cr cfg)\<^sup>*\<^sup>* (now, db) (now', db')"
  shows "auth_ok now' db' \<and> now \<le> now'"
proof -
  have "auth_ok (fst t) (snd t) \<and> fst s \<le> fst t"
    if "(auth_step cr cfg)\<^sup>*\<^sup>* s t" "auth_ok (fst s) (snd s)" for s t
    using that by (induction rule: rtranclp_induct) (use auth_step_ok order_trans in blast)+
  from this [OF assms(2)] show ?thesis using assms(1) by simp
qed

theorem auth_tables_stay_consistent_witness:
  "auth_ok 5 (fst (execute_password_reset toy one_member 5 ''a@b.at'' ''reset'' ''new''))"
proof -
  have "(auth_step toy defaults)\<^sup>*\<^sup>* (0, one_member)
      (5, fst (execute_password_reset toy one_member 5 ''a@b.at'' ''reset'' ''new''))"
    by (rule r_into_rtranclp, rule auth_step.reset) simp
  from auth_tables_stay_consistent [OF one_member_ok this] show ?thesis by simp
qed

text \<open>C24: An accepted access token names the owner of a live session: the token is valid now, its session
  exists and has not been idle longer than the limit, and the member returned is the one the
  session belongs to (whoever has the address by now) and is not locked. Afterwards the session
  was last used at most a minute ago.\<close>
theorem accepted_token_names_the_session_owner:
  assumes "auth_ok now db" "authenticate_access_token cr cfg db now token = (db', Inr m)"
  shows "\<exists>c s s'. jwt_decode cr True now token = Some c \<and> s \<in> set (sessions db) \<and> cl_jti c = Some (s_jti s) \<and>
    now - s_last_used_at s \<le> minutes (session_idle_timeout_minutes cfg) \<and>
    member_id m = s_member_id s \<and> text_col m F_email = cl_sub c \<and> \<not> flag_col m F_auth_locked \<and>
    s' \<in> set (sessions db') \<and> s_jti s' = s_jti s \<and> now - s_last_used_at s' \<le> minutes 1"
proof -
  obtain c email token_id where c: "jwt_decode cr True now token = Some c" "cl_sub c = Some email" "cl_jti c = Some token_id"
      "decode_access_token cr now token = Inr (email, token_id)"
    using assms(2) by (auto simp: authenticate_access_token_def decode_access_token_def split: option.split_asm)
  obtain s where s: "session_by_jti db token_id = Some s"
    using assms(2) c(4) by (auto simp: authenticate_access_token_def split: option.split_asm)
  note sd = session_by_jti_D [OF s]
  obtain db1 where t: "touch_session cfg db now s = (db1, Inr ())"
    using assms(2) c(4) s by (cases "touch_session cfg db now s")
      (auto simp: authenticate_access_token_def split: sum.split_asm prod.split_asm)
  have m: "List.find (\<lambda>m. text_col m F_email = Some email) (au_members db1) = Some m" "member_id m = s_member_id s"
      "\<not> flag_col m F_auth_locked" "db' = db1"
    using assms(2) c(4) s t by (auto simp: authenticate_access_token_def split: option.split_asm if_split_asm)
  have idle: "now - s_last_used_at s \<le> minutes (session_idle_timeout_minutes cfg)"
    using t by (auto simp: touch_session_def is_idle_def split: if_split_asm)
  have "\<exists>s' \<in> set (sessions db1). s_jti s' = s_jti s \<and> now - s_last_used_at s' \<le> minutes 1"
  proof (cases "now - s_last_used_at s > minutes 1")
    case True
    have "sessions db1 = update_where (\<lambda>x. s_jti x = s_jti s) (\<lambda>s. s\<lparr>s_last_used_at := now\<rparr>) (sessions db)"
      using t True by (auto simp: touch_session_def update_member_row_def update_session_def split: if_split_asm)
    then have "s\<lparr>s_last_used_at := now\<rparr> \<in> set (sessions db1)" using sd by (auto simp: set_update_where image_iff)
    then show ?thesis by (rule bexI [rotated]) (simp add: minutes_def microseconds_def)
  next
    case False
    then have "db1 = db" using t by (auto simp: touch_session_def split: if_split_asm)
    then show ?thesis using sd False by auto
  qed
  then show ?thesis using c sd idle m find_SomeD [OF m(1)] by auto
qed

theorem accepted_token_names_the_session_owner_witness:
  "\<exists>db' m. authenticate_access_token toy defaults one_member 9 ''j1'' = (db', Inr m) \<and> member_id m = 7 \<and>
     (\<exists>s \<in> set (sessions one_member). member_id m = s_member_id s)"
proof -
  have "case authenticate_access_token toy defaults one_member 9 ''j1'' of (_, Inr m) \<Rightarrow> member_id m = 7 | _ \<Rightarrow> False"
    by code_simp
  then obtain db' m where r: "authenticate_access_token toy defaults one_member 9 ''j1'' = (db', Inr m)" "member_id m = 7"
    by (auto split: prod.splits sum.splits)
  show ?thesis
    using accepted_token_names_the_session_owner [OF auth_ok_later [OF one_member_ok] r(1)] r by auto
qed

section \<open>Refresh\<close>

lemma session_after_update:
  assumes "session_by_jti db j = Some s" "\<And>x. s_jti (g x) = s_jti x"
  shows "session_by_jti (update_session s g db) j = Some (g s)"
proof -
  have "List.find (\<lambda>x. s_jti x = j) (update_where (\<lambda>x. s_jti x = j) g ss) = map_option g (List.find (\<lambda>x. s_jti x = j) ss)" for ss
    by (induction ss) (auto simp: assms(2))
  then show ?thesis using assms(1) session_by_jti_D [OF assms(1)] by (simp add: session_by_jti_def update_session_def)
qed

lemma session_after_delete:
  assumes "session_by_jti db j = Some s"
  shows "session_by_jti (delete_session s db) j = None"
  using session_by_jti_D [OF assms] by (auto simp: session_by_jti_def delete_session_def find_None_iff)

lemma session_other_tables [simp]:
  "session_by_jti (update_member_row k g db) j = session_by_jti db j"
  by (simp add: session_by_jti_def update_member_row_def)

lemma refresh_success:
  assumes "refresh_session cr cfg db now x j secret = (db', Inr (access, j', x'))"
  shows "\<exists>s email m. session_by_jti db j = Some s \<and> j' = j \<and> x' = x \<and> set_text m F_email = Some email \<and>
    db' = update_member_row (member_id m) (set_col F_auth_lastsignal (PTime now))
      (update_session s (\<lambda>s. s\<lparr>s_refresh_token_hash := Some (hash_refresh_secret cr x), s_last_used_at := now\<rparr>) db) \<and>
    access = fst (create_access_token cr cfg now [] email (Some j) (Some (s_created_at s))) \<and>
    now - s_created_at s \<le> days (refresh_token_lifetime_days cfg) \<and> \<not> is_idle cfg s now"
proof -
  obtain s where s: "session_by_jti db j = Some s"
    using assms by (auto simp: refresh_session_def split: option.split_asm)
  then have "s_jti s = j" using session_by_jti_D by blast
  then show ?thesis
    using assms s by (auto simp: refresh_session_def rejected_refresh_def split: option.split_asm if_split_asm)
qed

text \<open>C15: A refresh secret works once, and its reuse ends the session: after a refresh that replaced it by
  another, presenting the old secret is rejected as reuse and deletes the session, so that from
  then on neither the new secret nor any access token of the session is accepted.\<close>
theorem reused_secret_ends_the_session:
  assumes "refresh_session cr cfg db now x j secret = (db1, Inr (access, j', x'))"
    and "hash_refresh_secret cr secret \<noteq> hash_refresh_secret cr x"
    and "refresh_session cr cfg db1 now2 y j secret = (db2, res)"
  shows "res = Inl (RefreshRejected ''Token reuse detected'') \<and> session_by_jti db2 j = None \<and>
    (\<forall>t z any. refresh_session cr cfg db2 t z j any = (db2, Inl (RefreshRejected ''Invalid session''))) \<and>
    (\<forall>t token c. jwt_decode cr True t token = Some c \<longrightarrow> cl_jti c = Some j \<longrightarrow>
       (\<exists>msg. authenticate_access_token cr cfg db2 t token = (db2, Inl (InvalidToken msg))))"
proof -
  let ?g = "\<lambda>s. s\<lparr>s_refresh_token_hash := Some (hash_refresh_secret cr x), s_last_used_at := now\<rparr>"
  obtain s and m :: member where s: "session_by_jti db j = Some s" and db1: "db1 = update_member_row (member_id m) (set_col F_auth_lastsignal (PTime now)) (update_session s ?g db)"
    using refresh_success [OF assms(1)] by (elim exE conjE) (rule that)
  have s1: "session_by_jti db1 j = Some (?g s)" unfolding db1 using session_after_update [OF s, of ?g] by simp
  have "\<not> verify_refresh_secret cr secret (hash_refresh_secret cr x)"
    using assms(2) by (simp add: verify_refresh_secret_def hash_refresh_secret_def)
  then have r: "(db2, res) = rejected_refresh db1 (?g s) ''Token reuse detected''"
    using assms(3) s1 by (simp add: refresh_session_def)
  then have gone: "session_by_jti db2 j = None" using session_after_delete [OF s1] by (simp add: rejected_refresh_def)
  have "\<exists>msg. authenticate_access_token cr cfg db2 t token = (db2, Inl (InvalidToken msg))"
    if "jwt_decode cr True t token = Some c" "cl_jti c = Some j" for t token c
    using that gone by (cases "cl_sub c") (simp_all add: authenticate_access_token_def decode_access_token_def)
  then show ?thesis using r gone by (simp add: rejected_refresh_def refresh_session_def)
qed

theorem reused_secret_ends_the_session_witness:
  "\<exists>db1 r db2. refresh_session toy defaults one_member 9 ''new'' ''j1'' ''old'' = (db1, Inr r) \<and>
     refresh_session toy defaults db1 10 ''x'' ''j1'' ''old'' = (db2, Inl (RefreshRejected ''Token reuse detected'')) \<and>
     session_by_jti db2 ''j1'' = None"
proof -
  have "case refresh_session toy defaults one_member 9 ''new'' ''j1'' ''old'' of (_, Inr r) \<Rightarrow> fst (snd r) = ''j1'' | _ \<Rightarrow> False"
    by code_simp
  then obtain db1 a b c where r: "refresh_session toy defaults one_member 9 ''new'' ''j1'' ''old'' = (db1, Inr (a, b, c))"
    by (auto split: prod.splits sum.splits)
  obtain db2 res where r2: "refresh_session toy defaults db1 10 ''x'' ''j1'' ''old'' = (db2, res)"
    by (cases "refresh_session toy defaults db1 10 ''x'' ''j1'' ''old''")
  have "hash_refresh_secret toy ''old'' \<noteq> hash_refresh_secret toy ''new''" by code_simp
  from reused_secret_ends_the_session [OF r this r2] show ?thesis using r r2 by blast
qed

text \<open>C29: A refresh never extends a session beyond its lifetime: the access token it issues carries the
  session's id and expires at the latest one token lifetime after the session's absolute end.\<close>
theorem refreshed_token_is_bounded:
  assumes "refresh_session cr cfg db now x j secret = (db', Inr (access, j', x'))" "j \<noteq> []"
  shows "\<exists>s c. session_by_jti db j = Some s \<and> access = jwt_encode cr c \<and> cl_jti c = Some j \<and>
    cl_exp c * microseconds \<le> s_created_at s + days (refresh_token_lifetime_days cfg) +
      minutes (access_token_expire_minutes cfg) \<and>
    cl_auth_time c = s_created_at s div microseconds"
proof -
  obtain s email where s: "session_by_jti db j = Some s" "now - s_created_at s \<le> days (refresh_token_lifetime_days cfg)"
      "access = fst (create_access_token cr cfg now [] email (Some j) (Some (s_created_at s)))"
    using refresh_success [OF assms(1)] by blast
  let ?e = "now + minutes (access_token_expire_minutes cfg)"
  have "?e div microseconds * microseconds \<le> ?e" by (simp add: microseconds_def)
  then have "?e div microseconds * microseconds \<le> s_created_at s + days (refresh_token_lifetime_days cfg) +
      minutes (access_token_expire_minutes cfg)" using s(2) by linarith
  then show ?thesis using s(1,3) assms(2) by (auto simp: create_access_token_def Let_def)
qed

theorem refreshed_token_is_bounded_witness:
  "\<exists>db1 a b c cl s. refresh_session toy defaults one_member 9 ''new'' ''j1'' ''old'' = (db1, Inr (a, b, c)) \<and>
     a = jwt_encode toy cl \<and> session_by_jti one_member ''j1'' = Some s \<and>
     cl_exp cl * microseconds \<le> s_created_at s + days 7 + minutes 60"
proof -
  have "case refresh_session toy defaults one_member 9 ''new'' ''j1'' ''old'' of (_, Inr r) \<Rightarrow> fst (snd r) = ''j1'' | _ \<Rightarrow> False"
    by code_simp
  then obtain db1 a b c where r: "refresh_session toy defaults one_member 9 ''new'' ''j1'' ''old'' = (db1, Inr (a, b, c))"
    by (auto split: prod.splits sum.splits)
  have cfg: "refresh_token_lifetime_days defaults = 7" "access_token_expire_minutes defaults = 60" by (simp_all add: defaults_def)
  obtain s cl where "session_by_jti one_member ''j1'' = Some s" "a = jwt_encode toy cl"
      "cl_exp cl * microseconds \<le> s_created_at s + days 7 + minutes 60"
    using refreshed_token_is_bounded [OF r] unfolding cfg by blast
  then show ?thesis using r by blast
qed

section \<open>Password reset\<close>

lemma find_member_update:
  assumes "List.find P xs = Some m" "\<And>x. P (g x) = P x"
  shows "List.find P (update_where (\<lambda>x. key x = key m) g xs) = Some (g m)"
  using assms(1) by (induction xs) (auto simp: assms(2) split: if_splits)

text \<open>C14: A password reset takes effect at once and its token works once: after a successful reset no
  session of the member is left, the same token is refused, and the member signs in with the new
  password (unless locked), given that bcrypt accepts the password a hash was made from.\<close>
theorem reset_works_once_and_signs_out:
  assumes "auth_ok now db" "execute_password_reset cr db now email token new_password = (db', Inr ())"
    and bcrypt: "bcrypt_check cr (utf8 new_password) (utf8 (bcrypt_hash cr (utf8 new_password))) = Some True"
      "bcrypt_hash cr (utf8 new_password) \<noteq> []" "take 4 (bcrypt_hash cr (utf8 new_password)) \<noteq> ''$2y$''"
      "length (utf8 new_password) \<le> 72"
  shows "\<exists>m m'. member_by_email db email = Some m \<and> member_by_email db' email = Some m' \<and> member_id m' = member_id m \<and>
    (\<forall>s \<in> set (sessions db'). s_member_id s \<noteq> member_id m) \<and>
    (\<forall>t pw. \<exists>msg. execute_password_reset cr db' t email token pw = (db', Inl (InvalidResetToken msg))) \<and>
    (\<not> flag_col m F_auth_locked \<longrightarrow> fst (authenticate_user cr cfg db' email new_password) = Some m')"
proof -
  let ?g = "\<lambda>m. set_col F_email_verified_at (PTime now) (set_col F_auth_password (PStr (get_password_hash cr new_password)) m)"
  obtain m t where m: "member_by_email db email = Some m"
    and t: "List.find (\<lambda>t. rt_member_id t = member_id m \<and> rt_token_hash t = hash_reset_token cr token) (reset_tokens db) = Some t"
    and db': "db' = delete_reset t (update_member_row (member_id m) ?g
        (db\<lparr>sessions := delete_where (\<lambda>s. s_member_id s = member_id m) (sessions db)\<rparr>))"
    using assms(2) by (auto simp: execute_password_reset_def Let_def split: option.split_asm if_split_asm)
  have tm: "rt_member_id t = member_id m" using find_SomeD [OF t] by simp
  have m': "member_by_email db' email = Some (?g m)"
    using find_member_update [OF m [unfolded member_by_email_def], of ?g member_id]
    by (simp add: member_by_email_def db' delete_reset_def update_member_row_def text_col_def)
  have none: "List.find (\<lambda>x. rt_member_id x = member_id m \<and> rt_token_hash x = hash_reset_token cr token) (reset_tokens db') = None"
    by (auto simp: find_None_iff db' delete_reset_def update_member_row_def tm)
  have "\<exists>msg. execute_password_reset cr db' u email token pw = (db', Inl (InvalidResetToken msg))" for u pw
    using m' none by (simp add: execute_password_reset_def Let_def)
  moreover have "fst (authenticate_user cr cfg db' email new_password) = Some (?g m)" if "\<not> flag_col m F_auth_locked"
    using that m' bcrypt
    by (simp add: authenticate_user_def Let_def set_text_def text_col_def flag_col_def get_password_hash_def
        verify_password_def BCRYPT_MAX_PASSWORD_BYTES_def)
  moreover have "s_member_id s \<noteq> member_id m" if "s \<in> set (sessions db')" for s
    using that by (auto simp: db' delete_reset_def update_member_row_def)
  ultimately show ?thesis using m m' by (intro exI [of _ m] exI [of _ "?g m"]) simp
qed

theorem reset_works_once_and_signs_out_witness:
  "\<exists>db'. execute_password_reset toy one_member 9 ''a@b.at'' ''reset'' ''new'' = (db', Inr ()) \<and>
     (\<forall>s \<in> set (sessions db'). s_member_id s \<noteq> 7) \<and> fst (authenticate_user toy defaults db' ''a@b.at'' ''new'') \<noteq> None"
proof -
  have e: "case execute_password_reset toy one_member 9 ''a@b.at'' ''reset'' ''new'' of (_, Inr u) \<Rightarrow> True | _ \<Rightarrow> False"
    by code_simp
  then obtain db' where r: "execute_password_reset toy one_member 9 ''a@b.at'' ''reset'' ''new'' = (db', Inr ())"
    by (auto split: prod.splits sum.splits)
  have b: "bcrypt_check toy (utf8 ''new'') (utf8 (bcrypt_hash toy (utf8 ''new''))) = Some True"
    "bcrypt_hash toy (utf8 ''new'') \<noteq> []" "take 4 (bcrypt_hash toy (utf8 ''new'')) \<noteq> ''$2y$''" "length (utf8 ''new'') \<le> 72"
    by code_simp+
  have "case member_by_email one_member ''a@b.at'' of Some m \<Rightarrow> member_id m = 7 \<and> \<not> flag_col m F_auth_locked | None \<Rightarrow> False"
    by code_simp
  then show ?thesis
    using reset_works_once_and_signs_out [OF auth_ok_later [OF one_member_ok] r b, of defaults] r
    by (auto split: option.splits)
qed

section \<open>A new session\<close>

lemma cookie_roundtrip:
  assumes "sid \<noteq> []" "CHR '':'' \<notin> set sid" "secret \<noteq> []"
  shows "parse_refresh_cookie (build_refresh_cookie_value sid secret) = Some (sid, secret)"
proof -
  have "takeWhile (\<lambda>c. c \<noteq> CHR '':'') (sid @ '':'' @ secret) = sid" "dropWhile (\<lambda>c. c \<noteq> CHR '':'') (sid @ '':'' @ secret) = '':'' @ secret"
    using assms(2) by (induction sid) auto
  then show ?thesis using assms(1,3) by (simp add: parse_refresh_cookie_def build_refresh_cookie_value_def Let_def)
qed

lemma find_unique:
  assumes "x \<in> set xs" "P x" "\<And>y. y \<in> set xs \<Longrightarrow> P y \<Longrightarrow> y = x"
  shows "List.find P xs = Some x"
proof (cases "List.find P xs")
  case None
  then show ?thesis using assms(1,2) by (auto simp: find_None_iff)
next
  case (Some y)
  then show ?thesis using assms(3) find_SomeD [OF Some] by simp
qed

lemma touch_session_keeps_owner:
  assumes m: "List.find (\<lambda>m :: member. text_col m F_email = Some email) (au_members db) = Some m"
    and "\<not> is_idle cfg s t" "\<not> flag_col m F_auth_locked" "member_id m = s_member_id s"
  obtains db2 m' where "touch_session cfg db t s = (db2, Inr ())"
    "List.find (\<lambda>m. text_col m F_email = Some email) (au_members db2) = Some m'" "member_id m' = member_id m"
    "\<not> flag_col m' F_auth_locked"
proof (cases "t - s_last_used_at s > minutes 1")
  case True
  let ?h = "set_col F_auth_lastsignal (PTime t) :: member \<Rightarrow> member"
  have "List.find (\<lambda>m. text_col m F_email = Some email) (update_where (\<lambda>x. member_id x = member_id m) ?h (au_members db)) = Some (?h m)"
    using find_member_update [OF m, of ?h member_id] by (simp add: text_col_def)
  then show thesis
    using assms(2-) True by (intro that [of _ "?h m"])
      (auto simp: touch_session_def update_member_row_def update_session_def flag_col_def)
next
  case False
  then show thesis using assms by (intro that [of db m]) (auto simp: touch_session_def)
qed

text \<open>C16: A new session works: until the access token expires it is accepted and names the member, and
  until the session is idle or over, the cookie with its refresh secret is accepted and renews the
  same session. (Addresses are unique, the member is not locked; tokens are read as written.)\<close>
theorem new_session_can_be_used_and_refreshed:
  assumes "auth_ok now db" "m \<in> set (au_members db)" "\<not> flag_col m F_auth_locked" "set_text m F_email = Some email"
    and unique: "\<forall>o' \<in> set (au_members db). text_col o' F_email = Some email \<longrightarrow> o' = m"
    and create: "create_user_session cr cfg db now new_id secret m = (db', Inr (access, sid, sec))"
    and cookie: "new_id \<noteq> []" "CHR '':'' \<notin> set new_id" "secret \<noteq> []" 
    and crypto: "\<And>s. sha256 cr s \<noteq> []"
      "\<And>c. jwt_encode cr c = access \<Longrightarrow> t < cl_exp c * microseconds \<Longrightarrow> jwt_decode cr True t access = Some c"
    and t: "now \<le> t" "t - now \<le> minutes (session_idle_timeout_minutes cfg)"
  shows "(t < (now + minutes (access_token_expire_minutes cfg)) div microseconds * microseconds \<longrightarrow>
      (\<exists>db2 m'. authenticate_access_token cr cfg db' t access = (db2, Inr m') \<and> member_id m' = member_id m)) \<and>
    (t - now \<le> days (refresh_token_lifetime_days cfg) \<longrightarrow>
      (\<exists>db3 a x'. refresh_from_cookie cr cfg db' t x (Some (build_refresh_cookie_value sid sec)) = (db3, Inr (a, sid, x'))))"
proof -
  let ?s = "\<lparr>s_member_id = member_id m, s_jti = new_id, s_refresh_token_hash = Some (hash_refresh_secret cr secret),
      s_last_used_at = now, s_created_at = now\<rparr>"
  let ?g = "set_col F_auth_lastlogin (PTime now) :: member \<Rightarrow> member"
  let ?c = "\<lparr>cl_exp = (now + minutes (access_token_expire_minutes cfg)) div microseconds, cl_iat = now div microseconds,
      cl_auth_time = now div microseconds, cl_sub = Some email, cl_jti = Some new_id\<rparr>"
  have token: "create_access_token cr cfg now new_id email None None = (jwt_encode cr ?c, new_id)"
    by (simp add: create_access_token_def Let_def)
  have fresh: "List.find (\<lambda>s. s_jti s = new_id) (sessions db) = None"
    using create assms(4) token by (auto simp: create_user_session_def split: if_split_asm)
  have made: "create_user_session cr cfg db now new_id secret m =
      (update_member_row (member_id m) ?g (db\<lparr>sessions := sessions db @ [?s]\<rparr>), Inr (jwt_encode cr ?c, new_id, secret))"
    unfolding create_user_session_def using assms(4) token fresh by (simp add: Let_def)
  note eq = made [unfolded create prod.inject sum.inject]
  have out: "db' = update_member_row (member_id m) ?g (db\<lparr>sessions := sessions db @ [?s]\<rparr>)"
      "access = jwt_encode cr ?c" "sid = new_id" "sec = secret" by (rule eq [THEN conjunct1], use eq in blast, use eq in blast, use eq in blast)
  have session: "session_by_jti db' new_id = Some ?s"
    using fresh by (simp add: out(1) session_by_jti_def find_append update_member_row_def)
  have email_col: "text_col m F_email = Some email" "email \<noteq> []"
    using assms(4) by (auto simp: set_text_def split: option.split_asm if_split_asm)
  let ?P = "\<lambda>m :: member. text_col m F_email = Some email"
  have "List.find ?P (au_members db) = Some m" by (rule find_unique [where P = ?P, OF assms(2) email_col(1)]) (use unique in blast)
  then have by_email: "List.find ?P (au_members db') = Some (?g m)"
    using find_member_update [of ?P "au_members db" m ?g member_id] by (simp add: out(1) update_member_row_def text_col_def)
  have idle: "\<not> is_idle cfg ?s t" using t(2) by (simp add: is_idle_def)
  obtain db2 m' where touched: "touch_session cfg db' t ?s = (db2, Inr ())"
    "List.find ?P (au_members db2) = Some m'" "member_id m' = member_id m" "\<not> flag_col m' F_auth_locked"
    by (rule touch_session_keeps_owner [OF by_email idle]) (use assms(3) in \<open>simp_all add: flag_col_def\<close>)
  have use: "\<exists>db2 m'. authenticate_access_token cr cfg db' t access = (db2, Inr m') \<and> member_id m' = member_id m"
    if "t < cl_exp ?c * microseconds"
  proof -
    have "jwt_decode cr True t access = Some ?c" using crypto(2) [of ?c] out(2) that by simp
    then show ?thesis
      using session touched by (simp add: authenticate_access_token_def decode_access_token_def)
  qed
  have member: "member_by_id db' (member_id m) = Some (?g m)"
  proof -
    have "List.find (\<lambda>x. member_id x = member_id m) (au_members db) = Some m"
      by (rule find_unique) (use assms(1,2) in \<open>auto simp: auth_ok_def distinct_map inj_on_def\<close>)
    then show ?thesis
      using find_member_update [of "\<lambda>x. member_id x = member_id m" "au_members db" m ?g member_id]
      by (simp add: member_by_id_def out(1) update_member_row_def)
  qed
  have "verify_refresh_secret cr secret (hash_refresh_secret cr secret)" "hash_refresh_secret cr secret \<noteq> []"
    using crypto(1) by (simp_all add: verify_refresh_secret_def hash_refresh_secret_def)
  moreover have "\<not> flag_col (?g m) F_auth_locked" "set_text (?g m) F_email = Some email"
    using assms(3) email_col by (simp_all add: flag_col_def set_text_def text_col_def)
  ultimately have renew: "\<exists>db3 a x'. refresh_session cr cfg db' t x new_id secret = (db3, Inr (a, new_id, x'))"
    if "t - now \<le> days (refresh_token_lifetime_days cfg)"
    using session member idle that by (simp add: refresh_session_def)
  have "build_refresh_cookie_value sid sec \<noteq> []" by (simp add: build_refresh_cookie_value_def)
  then have "refresh_from_cookie cr cfg db' t x (Some (build_refresh_cookie_value sid sec)) =
      refresh_session cr cfg db' t x new_id secret"
    using cookie_roundtrip [OF cookie] by (simp add: refresh_from_cookie_def out(3,4))
  then show ?thesis using use renew by (simp add: out(3))
qed

definition toy_claims :: claims where
  "toy_claims = \<lparr>cl_exp = 3600, cl_iat = 0, cl_auth_time = 0, cl_sub = Some ''a@b.at'', cl_jti = Some ''j2''\<rparr>"

definition toy_tokens :: crypto where
  "toy_tokens = toy\<lparr>jwt_encode := \<lambda>c. if c = toy_claims then ''good'' else ''bad'',
     jwt_decode := \<lambda>_ now s. if s = ''good'' \<and> now < 3600 * microseconds then Some toy_claims else None\<rparr>"

theorem new_session_can_be_used_and_refreshed_witness:
  "\<exists>db' access sid sec. create_user_session toy_tokens defaults one_member 0 ''j2'' ''s2'' alice = (db', Inr (access, sid, sec)) \<and>
     (\<exists>db2 m'. authenticate_access_token toy_tokens defaults db' 9 access = (db2, Inr m') \<and> member_id m' = 7) \<and>
     (\<exists>db3 a x'. refresh_from_cookie toy_tokens defaults db' 9 ''s3'' (Some (build_refresh_cookie_value sid sec)) = (db3, Inr (a, sid, x')))"
proof -
  have "case create_user_session toy_tokens defaults one_member 0 ''j2'' ''s2'' alice of (_, Inr r) \<Rightarrow> fst r = ''good'' | _ \<Rightarrow> False"
    by code_simp
  then obtain db' sid sec where c: "create_user_session toy_tokens defaults one_member 0 ''j2'' ''s2'' alice = (db', Inr (''good'', sid, sec))"
    by (auto split: prod.splits sum.splits)
  have m: "alice \<in> set (au_members one_member)" "\<not> flag_col alice F_auth_locked" "set_text alice F_email = Some ''a@b.at''"
      "\<forall>o' \<in> set (au_members one_member). text_col o' F_email = Some ''a@b.at'' \<longrightarrow> o' = alice"
    by (simp_all add: one_member_def alice_def flag_col_def set_text_def text_col_def)
  have crypto: "sha256 toy_tokens s \<noteq> []" for s by (simp add: toy_tokens_def toy_def)
  have tokens: "jwt_decode toy_tokens True 9 ''good'' = Some c" if "jwt_encode toy_tokens c = ''good''" for c
    using that by (simp add: toy_tokens_def microseconds_def split: if_split_asm)
  have now: "(0 :: instant) \<le> 9" "9 - 0 \<le> minutes (session_idle_timeout_minutes defaults)"
    "9 < (0 + minutes (access_token_expire_minutes defaults)) div microseconds * microseconds"
    "9 - 0 \<le> days (refresh_token_lifetime_days defaults)"
    by (simp_all add: defaults_def minutes_def days_def microseconds_def)
  have "member_id alice = 7" by (simp add: alice_def)
  then show ?thesis
    using new_session_can_be_used_and_refreshed [OF one_member_ok m c _ _ _ crypto tokens now(1,2)] now(3,4) c by auto
qed

end
