(* ===== verification/Register_Model.thy ===== *)
theory Register_Model
  imports Permissions Pointer_Forest Decimal_Text "HOL-Library.AList"
begin

text \<open>
  The tables of the member register (\<open>app/models\<close>), the change log and the role history
  (\<open>app/services/role_history_service.py\<close>) behind \<open>app/services/standesdb_service.py\<close>.

  Badges, keys and roles are stored with the member they belong to, so saving a member replaces
  its row. A change log entry names a column by the column's name, as the code does.
\<close>

section \<open>Rows\<close>

record badge =
  badge_id :: uuid
  badge_name :: string
  badge_group :: "string option"
  badge_sort_order :: "int option"

record key_row =
  key_id :: uuid
  key_name :: "string option"

datatype contact_field =
    K_kontakttyp | K_anrede | K_name | K_couleurname | K_org_id
  | K_adresse_anschrift | K_adresse_plz | K_adresse_ort | K_adresse_land
  | K_zustellungen | K_email | K_rufnummer | K_datum | K_datum_accuracy | K_anmerkungen
  | K_modified_at | K_modified_by

record contact =
  contact_id :: uuid
  contact_columns :: "contact_field \<Rightarrow> pyval"
  contact_deleted_at :: "instant option"

record change_log =
  log_id :: uuid
  log_entity :: "uuid option"
  log_action :: string
  log_key :: string
  log_old :: "string option"
  log_new :: "string option"
  log_modified_by :: "uuid option"
  log_modified_at :: instant

datatype role_action = Granted | Revoked | Period_changed

fun action_value :: "role_action \<Rightarrow> string" where
  "action_value Granted = ''granted''"
| "action_value Revoked = ''revoked''"
| "action_value Period_changed = ''period_changed''"

record role_entry =
  re_role_id :: string
  re_startdate :: date
  re_enddate :: "date option"

record role_event =
  ev_id :: uuid
  ev_member_id :: uuid
  ev_role_id :: string
  ev_action :: role_action
  ev_startdate :: date
  ev_enddate :: "date option"
  ev_previous_enddate :: "date option"
  ev_actor_id :: "uuid option"
  ev_created_at :: instant

datatype request_status = Pending | Resolved

text \<open>The proposed data: for each field the value before and the proposed one.\<close>

record change_request =
  cr_id :: uuid
  cr_member_id :: uuid
  cr_status :: request_status
  cr_proposed_data :: "(member_field \<times> pyval \<times> pyval) list"
  cr_field_decisions :: "(member_field \<times> string) list option"
  cr_resolved_by :: "uuid option"
  cr_resolved_at :: "instant option"
  cr_created_at :: instant
  cr_updated_at :: instant

record register_db =
  rg_members :: "member list"
  rg_orgs :: "lookup_row list"
  rg_states :: "lookup_row list"
  rg_roles :: "role list"
  rg_badges :: "badge list"
  rg_keys :: "key_row list"
  member_logs :: "change_log list"
  role_events :: "role_event list"
  change_requests :: "change_request list"
  contacts :: "contact list"
  contact_logs :: "change_log list"
  rg_next_id :: uuid

definition get_member :: "register_db \<Rightarrow> uuid \<Rightarrow> member option" where
  "get_member db = get_by member_id (rg_members db)"

definition contact_text :: "contact \<Rightarrow> contact_field \<Rightarrow> string" where
  "contact_text c f = (case contact_columns c f of PStr s \<Rightarrow> s | _ \<Rightarrow> [])"

definition contact_cn :: "contact \<Rightarrow> string" where
  "contact_cn c =
     (let name = contact_text c K_name; couleur = contact_text c K_couleurname
      in join '' '' (split_ws (if name \<noteq> [] \<and> couleur \<noteq> [] then name @ '' v/o '' @ couleur
                               else if couleur \<noteq> [] then couleur else name)))"

section \<open>Texts\<close>

text \<open>\<open>str(uuid)\<close> of a 128-bit number.\<close>

definition uuid_text :: "uuid \<Rightarrow> string" where
  "uuid_text u =
     (let h = map (\<lambda>i. hex_digit (u div 16 ^ (31 - i) mod 16)) [0..<32]
      in take 8 h @ ''-'' @ take 4 (drop 8 h) @ ''-'' @ take 4 (drop 12 h) @ ''-'' @
         take 4 (drop 16 h) @ ''-'' @ drop 20 h)"

text \<open>\<open>str\<close> of a UTC \<open>datetime\<close>: the date of a day number counted from 1970-01-01, and the time.\<close>

definition date_of_days :: "int \<Rightarrow> date" where
  "date_of_days n =
     (let z = n + 719468; era = z div 146097; doe = z mod 146097;
          yoe = (doe - doe div 1460 + doe div 36524 - doe div 146096) div 365;
          doy = doe - (365 * yoe + yoe div 4 - yoe div 100);
          mp = (5 * doy + 2) div 153;
          m = (if mp < 10 then mp + 3 else mp - 9)
      in Date (yoe + era * 400 + (if m \<le> 2 then 1 else 0)) m (doy - (153 * mp + 2) div 5 + 1))"

fun padded :: "nat \<Rightarrow> nat \<Rightarrow> string" where
  "padded 0 n = []"
| "padded (Suc k) n = padded k (n div 10) @ [char_of (48 + n mod 10)]"

definition time_text :: "instant \<Rightarrow> string" where
  "time_text t =
     (let s = t div 1000000; us = t mod 1000000; sec = nat (s mod 86400)
      in isoformat (date_of_days (s div 86400)) @ '' '' @
         padded 2 (sec div 3600) @ '':'' @ padded 2 (sec div 60 mod 60) @ '':'' @ padded 2 (sec mod 60) @
         (if us = 0 then [] else ''.'' @ padded 6 (nat us)) @ ''+00:00'')"

text \<open>\<open>json.dumps(s, ensure_ascii=False)\<close>.\<close>

definition json_char :: "char \<Rightarrow> string" where
  "json_char c =
     (let n = of_char c :: nat; b = CHR 0x5C in
      if c = CHR 0x22 \<or> c = b then [b, c]
      else if n = 10 then [b, CHR ''n''] else if n = 13 then [b, CHR ''r'']
      else if n = 9 then [b, CHR ''t''] else if n = 8 then [b, CHR ''b'']
      else if n = 12 then [b, CHR ''f'']
      else if n < 32 then [b, CHR ''u'', CHR ''0'', CHR ''0'', hex_digit (n div 16), hex_digit (n mod 16)]
      else [c])"

definition json_string :: "string \<Rightarrow> string" where
  "json_string s = CHR 0x22 # concat (map json_char s) @ [CHR 0x22]"

definition json_optional :: "string option \<Rightarrow> string" where
  "json_optional v = (case v of None \<Rightarrow> ''null'' | Some s \<Rightarrow> json_string s)"

definition json_object :: "(string \<times> string) list \<Rightarrow> string" where
  "json_object kvs = ''{'' @ join '', '' (map (\<lambda>(k, v). json_string k @ '': '' @ v) kvs) @ ''}''"

definition json_list :: "string list \<Rightarrow> string" where
  "json_list xs = ''['' @ join '', '' xs @ '']''"

section \<open>Comparing values\<close>

text \<open>Python's \<open>==\<close>: booleans and numbers are compared as numbers.\<close>

fun py_number :: "pyval \<Rightarrow> rat option" where
  "py_number (PBool b) = Some (of_bool b)"
| "py_number (PInt i) = Some (of_int i)"
| "py_number (PDec d) = Some d"
| "py_number _ = None"

definition py_eq :: "pyval \<Rightarrow> pyval \<Rightarrow> bool" where
  "py_eq a b \<longleftrightarrow> (case (py_number a, py_number b) of (Some x, Some y) \<Rightarrow> x = y | _ \<Rightarrow> a = b)"

text \<open>\<open>v in {None, False, "", "deaktiviert"}\<close>; so the number 0 counts as empty.\<close>

definition empty_value :: "pyval \<Rightarrow> bool" where
  "empty_value v \<longleftrightarrow> py_eq v PNone \<or> py_eq v (PBool False) \<or> py_eq v (PStr []) \<or> py_eq v (PStr ''deaktiviert'')"

definition values_differ :: "pyval \<Rightarrow> pyval \<Rightarrow> bool" where
  "values_differ old new \<longleftrightarrow> \<not> py_eq old new \<and> \<not> (empty_value old \<and> empty_value new)"

text \<open>The loop over the columns of a save: the differences, and the columns afterwards.\<close>

fun apply_columns :: "('f \<times> pyval) list \<Rightarrow> ('f \<Rightarrow> pyval) \<Rightarrow> ('f \<times> pyval \<times> pyval) list \<times> ('f \<Rightarrow> pyval)" where
  "apply_columns [] cols = ([], cols)"
| "apply_columns ((f, v) # fs) cols =
     (let old = cols f;
          cols' = (if values_differ old v then cols(f := v) else if \<not> py_eq old v then cols(f := v) else cols);
          (diff, final) = apply_columns fs cols'
      in (if values_differ old v then (f, old, v) # diff else diff, final))"

section \<open>The change log\<close>

text \<open>What a difference can hold; the lists are the ones \<open>_sync_badges\<close> and \<open>_sync_roles\<close> build.\<close>

datatype diff_value =
    Column_value pyval
  | Item_list "(uuid \<times> string option \<times> int) list"
  | Role_list "(string \<times> string \<times> string option) list"

type_synonym diff = "(string \<times> diff_value \<times> diff_value) list"

text \<open>\<open>str(val)\<close>; no saved column is a \<open>Decimal\<close>, so its text is never needed.\<close>

fun value_text :: "pyval \<Rightarrow> string option" where
  "value_text PNone = None"
| "value_text (PBool b) = Some (if b then ''True'' else ''False'')"
| "value_text (PInt i) = Some (text_of_int i)"
| "value_text (PStr s) = Some s"
| "value_text (PDate d) = Some (isoformat d)"
| "value_text (PUuid u) = Some (uuid_text u)"
| "value_text (PTime t) = Some (time_text t)"
| "value_text (PDec d) = None"

fun serialize_log_value :: "diff_value \<Rightarrow> string option" where
  "serialize_log_value (Column_value v) = value_text v"
| "serialize_log_value (Item_list xs) = Some (json_list (map (\<lambda>(i, d, a).
     json_object [(''id'', json_string (uuid_text i)), (''presentationdate'', json_optional d),
       (''presentationdate_accuracy'', text_of_int a)]) xs))"
| "serialize_log_value (Role_list xs) = Some (json_list (map (\<lambda>(r, s, e).
     json_object [(''id'', json_string r), (''startdate'', json_string s), (''enddate'', json_optional e)]) xs))"

definition CHANGELOG_EXCLUDED_KEYS :: "string list" where
  "CHANGELOG_EXCLUDED_KEYS =
     [''auth_lastlogin'', ''auth_lastlogin_provider'', ''auth_lastsignal'', ''auth_lastlogout'',
      ''modified_at'', ''modified_by'', ''updated_at'']"

text \<open>The new entries, numbered from the next free id.\<close>

definition change_log_entries :: "uuid \<Rightarrow> uuid \<Rightarrow> diff \<Rightarrow> string \<Rightarrow> uuid \<Rightarrow> instant \<Rightarrow> change_log list" where
  "change_log_entries next_free entity diff action modified_by modified_at =
     (let logged = filter (\<lambda>(k, _). k \<notin> set CHANGELOG_EXCLUDED_KEYS) diff
      in map (\<lambda>(i, k, old, new). \<lparr>log_id = i, log_entity = Some entity, log_action = action, log_key = k,
             log_old = serialize_log_value old, log_new = serialize_log_value new,
             log_modified_by = Some modified_by, log_modified_at = modified_at\<rparr>)
           (zip [next_free..<next_free + length logged] logged))"

section \<open>The role history\<close>

record role_change =
  ch_action :: role_action
  ch_entry :: role_entry
  ch_previous_enddate :: "date option"

type_synonym role_key = "string \<times> date"

text \<open>The dictionary \<open>{(e.role_id, e.startdate): e for e in entries}\<close>.\<close>

definition entry_dict :: "role_entry list \<Rightarrow> (role_key \<times> role_entry) list" where
  "entry_dict es = fold (\<lambda>e d. AList.update (re_role_id e, re_startdate e) e d) es []"

definition diff_role_entries :: "role_entry list \<Rightarrow> role_entry list \<Rightarrow> role_change list" where
  "diff_role_entries before after =
     (let old = entry_dict before; new = entry_dict after;
          revoked = map (\<lambda>(k, e). \<lparr>ch_action = Revoked, ch_entry = e, ch_previous_enddate = None\<rparr>)
            (filter (\<lambda>(k, e). map_of new k = None) old);
          granted = map (\<lambda>(k, e). \<lparr>ch_action = Granted, ch_entry = e, ch_previous_enddate = None\<rparr>)
            (filter (\<lambda>(k, e). map_of old k = None) new);
          changed = concat (map (\<lambda>(k, e). case map_of new k of None \<Rightarrow> []
            | Some e' \<Rightarrow> if re_enddate e \<noteq> re_enddate e'
                then [\<lparr>ch_action = Period_changed, ch_entry = e', ch_previous_enddate = re_enddate e\<rparr>] else []) old)
      in sort_key (\<lambda>c. (re_role_id (ch_entry c), re_startdate (ch_entry c), action_value (ch_action c)))
           (revoked @ granted @ changed))"

definition record_role_changes ::
  "instant \<Rightarrow> uuid \<Rightarrow> role_entry list \<Rightarrow> role_entry list \<Rightarrow> uuid option \<Rightarrow> register_db \<Rightarrow> register_db" where
  "record_role_changes now member before after actor db =
     (let changes = diff_role_entries before after; i = rg_next_id db
      in db\<lparr>role_events := role_events db @ map (\<lambda>(j, c). \<lparr>ev_id = j, ev_member_id = member,
             ev_role_id = re_role_id (ch_entry c), ev_action = ch_action c,
             ev_startdate = re_startdate (ch_entry c), ev_enddate = re_enddate (ch_entry c),
             ev_previous_enddate = ch_previous_enddate c, ev_actor_id = actor, ev_created_at = now\<rparr>)
               (zip [i..<i + length changes] changes),
           rg_next_id := i + length changes\<rparr>)"

record role_event_response =
  rr_id :: uuid
  rr_occurred_at :: instant
  rr_action :: role_action
  rr_member_id :: uuid
  rr_member_cn :: string
  rr_actor_cn :: "string option"
  rr_role_id :: string
  rr_role_label :: string
  rr_startdate :: date
  rr_enddate :: "date option"
  rr_previous_enddate :: "date option"
  rr_permissions :: "string list"

text \<open>The foreign keys guarantee the member and the role of an event.\<close>

definition to_event_response :: "settings \<Rightarrow> register_db \<Rightarrow> role_event \<Rightarrow> role_event_response option" where
  "to_event_response cfg db e =
     (case (get_member db (ev_member_id e), get_by role_id (rg_roles db) (ev_role_id e)) of
        (Some m, Some r) \<Rightarrow> Some \<lparr>rr_id = ev_id e, rr_occurred_at = ev_created_at e, rr_action = ev_action e,
          rr_member_id = ev_member_id e, rr_member_cn = cn m,
          rr_actor_cn = map_option cn (Option.bind (ev_actor_id e) (get_member db)),
          rr_role_id = ev_role_id e,
          rr_role_label = (case role_label r of None \<Rightarrow> ev_role_id e | Some l \<Rightarrow> if l = [] then ev_role_id e else l),
          rr_startdate = ev_startdate e, rr_enddate = ev_enddate e, rr_previous_enddate = ev_previous_enddate e,
          rr_permissions = sorted_list_of_set (permissions_conferred_by_role cfg r (text_col m F_org_id))\<rparr>
      | _ \<Rightarrow> None)"

definition list_role_history ::
  "settings \<Rightarrow> register_db \<Rightarrow> nat \<Rightarrow> nat \<Rightarrow> role_event_response option list \<times> nat" where
  "list_role_history cfg db page page_size =
     (map (to_event_response cfg db)
        (page_of page_size page (sort_desc (\<lambda>e. (ev_created_at e, ev_id e)) (role_events db))),
      length (role_events db))"

end
