(* ===== verification/Register_Requests.thy ===== *)
theory Register_Requests
  imports Register_Model
begin

text \<open>
  The request models of the member register (\<open>app/schemas/standesdb.py\<close>). A request carries a
  value per column; validating trims every text and checks type, length and form of each value.
  The address check of the library \<open>email-validator\<close> is a parameter: it refuses an address or
  returns its normal form.
\<close>

section \<open>The columns of a save\<close>

text \<open>The fields of \<open>MemberSaveRequest\<close>, in its order, and their names.\<close>

definition SAVE_FIELDS :: "member_field list" where
  "SAVE_FIELDS =
    [F_vortitel, F_vorname, F_nachname, F_nachname_geburt, F_nachtitel, F_couleurname, F_org_id,
     F_state_id, F_gruender, F_entlassen, F_verstorben, F_parent_id, F_grabadresse, F_geburtsdatum,
     F_geburtsdatum_accuracy, F_aufnahmedatum, F_aufnahmedatum_accuracy, F_branderdatum,
     F_branderdatum_accuracy, F_burschungsdatum, F_burschungsdatum_accuracy, F_philistrierungsdatum,
     F_philistrierungsdatum_accuracy, F_entlassungsdatum, F_entlassungsdatum_accuracy, F_sterbedatum,
     F_sterbedatum_accuracy, F_email, F_url, F_mkv_ogv_url, F_rufnummer_mobil, F_rufnummer_privat,
     F_rufnummer_beruf, F_zustellungen, F_adresse_privat_anschrift, F_adresse_privat_plz,
     F_adresse_privat_ort, F_adresse_privat_land, F_adresse_beruf_anschrift, F_adresse_beruf_plz,
     F_adresse_beruf_ort, F_adresse_beruf_land, F_arbeitgeber, F_taetigkeit, F_mitgliedschaften,
     F_verbandchargen, F_anmerkungen, F_chroniclemail, F_auth_locked]"

fun field_name :: "member_field \<Rightarrow> string" where
  "field_name F_vortitel = ''vortitel''"
| "field_name F_vorname = ''vorname''"
| "field_name F_nachname = ''nachname''"
| "field_name F_nachname_geburt = ''nachname_geburt''"
| "field_name F_nachtitel = ''nachtitel''"
| "field_name F_couleurname = ''couleurname''"
| "field_name F_org_id = ''org_id''"
| "field_name F_state_id = ''state_id''"
| "field_name F_gruender = ''gruender''"
| "field_name F_entlassen = ''entlassen''"
| "field_name F_verstorben = ''verstorben''"
| "field_name F_parent_id = ''parent_id''"
| "field_name F_grabadresse = ''grabadresse''"
| "field_name F_geburtsdatum = ''geburtsdatum''"
| "field_name F_geburtsdatum_accuracy = ''geburtsdatum_accuracy''"
| "field_name F_aufnahmedatum = ''aufnahmedatum''"
| "field_name F_aufnahmedatum_accuracy = ''aufnahmedatum_accuracy''"
| "field_name F_branderdatum = ''branderdatum''"
| "field_name F_branderdatum_accuracy = ''branderdatum_accuracy''"
| "field_name F_burschungsdatum = ''burschungsdatum''"
| "field_name F_burschungsdatum_accuracy = ''burschungsdatum_accuracy''"
| "field_name F_philistrierungsdatum = ''philistrierungsdatum''"
| "field_name F_philistrierungsdatum_accuracy = ''philistrierungsdatum_accuracy''"
| "field_name F_entlassungsdatum = ''entlassungsdatum''"
| "field_name F_entlassungsdatum_accuracy = ''entlassungsdatum_accuracy''"
| "field_name F_sterbedatum = ''sterbedatum''"
| "field_name F_sterbedatum_accuracy = ''sterbedatum_accuracy''"
| "field_name F_email = ''email''"
| "field_name F_url = ''url''"
| "field_name F_mkv_ogv_url = ''mkv_ogv_url''"
| "field_name F_rufnummer_mobil = ''rufnummer_mobil''"
| "field_name F_rufnummer_privat = ''rufnummer_privat''"
| "field_name F_rufnummer_beruf = ''rufnummer_beruf''"
| "field_name F_zustellungen = ''zustellungen''"
| "field_name F_adresse_privat_anschrift = ''adresse_privat_anschrift''"
| "field_name F_adresse_privat_plz = ''adresse_privat_plz''"
| "field_name F_adresse_privat_ort = ''adresse_privat_ort''"
| "field_name F_adresse_privat_land = ''adresse_privat_land''"
| "field_name F_adresse_beruf_anschrift = ''adresse_beruf_anschrift''"
| "field_name F_adresse_beruf_plz = ''adresse_beruf_plz''"
| "field_name F_adresse_beruf_ort = ''adresse_beruf_ort''"
| "field_name F_adresse_beruf_land = ''adresse_beruf_land''"
| "field_name F_arbeitgeber = ''arbeitgeber''"
| "field_name F_taetigkeit = ''taetigkeit''"
| "field_name F_mitgliedschaften = ''mitgliedschaften''"
| "field_name F_verbandchargen = ''verbandchargen''"
| "field_name F_anmerkungen = ''anmerkungen''"
| "field_name F_chroniclemail = ''chroniclemail''"
| "field_name F_auth_locked = ''auth_locked''"
| "field_name F_email_verified_at = ''email_verified_at''"
| "field_name F_p4x_init_date = ''p4x_init_date''"
| "field_name F_p4x_init_balance = ''p4x_init_balance''"
| "field_name F_p4x_freed = ''p4x_freed''"
| "field_name F_p4x_comment = ''p4x_comment''"
| "field_name F_auth_password = ''auth_password''"
| "field_name F_auth_lastlogin = ''auth_lastlogin''"
| "field_name F_auth_lastsignal = ''auth_lastsignal''"
| "field_name F_auth_lastlogout = ''auth_lastlogout''"
| "field_name F_modified_at = ''modified_at''"
| "field_name F_modified_by = ''modified_by''"

text \<open>The fields of \<open>MemberSelfServiceSaveRequest\<close>.\<close>

definition SELF_SERVICE_FIELDS :: "member_field list" where
  "SELF_SERVICE_FIELDS =
    [F_vortitel, F_vorname, F_nachname, F_nachname_geburt, F_nachtitel, F_couleurname, F_email, F_url,
     F_mkv_ogv_url, F_rufnummer_mobil, F_rufnummer_privat, F_rufnummer_beruf, F_zustellungen,
     F_adresse_privat_anschrift, F_adresse_privat_plz, F_adresse_privat_ort, F_adresse_privat_land,
     F_adresse_beruf_anschrift, F_adresse_beruf_plz, F_adresse_beruf_ort, F_adresse_beruf_land,
     F_arbeitgeber, F_taetigkeit, F_mitgliedschaften, F_verbandchargen]"

definition CONTACT_FIELDS :: "contact_field list" where
  "CONTACT_FIELDS =
    [K_kontakttyp, K_anrede, K_name, K_couleurname, K_org_id, K_adresse_anschrift, K_adresse_plz,
     K_adresse_ort, K_adresse_land, K_zustellungen, K_email, K_rufnummer, K_datum, K_datum_accuracy,
     K_anmerkungen]"

fun contact_field_name :: "contact_field \<Rightarrow> string" where
  "contact_field_name K_kontakttyp = ''kontakttyp''"
| "contact_field_name K_anrede = ''anrede''"
| "contact_field_name K_name = ''name''"
| "contact_field_name K_couleurname = ''couleurname''"
| "contact_field_name K_org_id = ''org_id''"
| "contact_field_name K_adresse_anschrift = ''adresse_anschrift''"
| "contact_field_name K_adresse_plz = ''adresse_plz''"
| "contact_field_name K_adresse_ort = ''adresse_ort''"
| "contact_field_name K_adresse_land = ''adresse_land''"
| "contact_field_name K_zustellungen = ''zustellungen''"
| "contact_field_name K_email = ''email''"
| "contact_field_name K_rufnummer = ''rufnummer''"
| "contact_field_name K_datum = ''datum''"
| "contact_field_name K_datum_accuracy = ''datum_accuracy''"
| "contact_field_name K_anmerkungen = ''anmerkungen''"
| "contact_field_name K_modified_at = ''modified_at''"
| "contact_field_name K_modified_by = ''modified_by''"

record role_history_entry =
  rhe_id :: string
  rhe_label :: "string option"
  rhe_startdate :: date
  rhe_enddate :: "date option"

record save_request =
  sr_values :: "member_field \<Rightarrow> pyval"
  sr_roles_history :: "role_history_entry list"
  sr_badges :: "presented_item list"
  sr_keys :: "presented_item list"

section \<open>Validation\<close>

definition MAX_PHONE_LENGTH :: nat where "MAX_PHONE_LENGTH = 32"
definition MAX_ADDRESS_LINE_LENGTH :: nat where "MAX_ADDRESS_LINE_LENGTH = 128"
definition MAX_NOTE_LENGTH :: nat where "MAX_NOTE_LENGTH = 5000"

text \<open>\<open>PHONE_REGEX.fullmatch\<close>: an optional plus and at least one digit, blank, slash or hyphen.\<close>

definition phone_format :: "string \<Rightarrow> bool" where
  "phone_format s =
     (let t = (case s of CHR ''+'' # r \<Rightarrow> r | _ \<Rightarrow> s);
          ok = (\<lambda>c. (CHR ''0'' \<le> c \<and> c \<le> CHR ''9'') \<or> c = CHR '' '' \<or> c = CHR ''/'' \<or> c = CHR ''-'')
      in t \<noteq> [] \<and> list_all ok t)"

text \<open>\<open>re.match(r"^https?://", v, re.IGNORECASE)\<close>.\<close>

definition url_format :: "string \<Rightarrow> bool" where
  "url_format s \<longleftrightarrow> take 7 (lower s) = ''http://'' \<or> take 8 (lower s) = ''https://''"

datatype value_kind =
    Text nat
  | Phone
  | Url
  | Email
  | Org
  | Unbounded
  | Choice "string list"
  | Flag
  | Day
  | Accuracy
  | Reference

fun field_kind :: "member_field \<Rightarrow> value_kind" where
  "field_kind F_vortitel = Text 32"
| "field_kind F_nachtitel = Text 32"
| "field_kind F_vorname = Text 64"
| "field_kind F_nachname = Text 64"
| "field_kind F_nachname_geburt = Text 64"
| "field_kind F_couleurname = Text 64"
| "field_kind F_arbeitgeber = Text 64"
| "field_kind F_taetigkeit = Text 64"
| "field_kind F_grabadresse = Text MAX_ADDRESS_LINE_LENGTH"
| "field_kind F_adresse_privat_anschrift = Text MAX_ADDRESS_LINE_LENGTH"
| "field_kind F_adresse_beruf_anschrift = Text MAX_ADDRESS_LINE_LENGTH"
| "field_kind F_adresse_privat_plz = Text 8"
| "field_kind F_adresse_beruf_plz = Text 8"
| "field_kind F_adresse_privat_ort = Text 32"
| "field_kind F_adresse_privat_land = Text 32"
| "field_kind F_adresse_beruf_ort = Text 32"
| "field_kind F_adresse_beruf_land = Text 32"
| "field_kind F_mitgliedschaften = Text MAX_NOTE_LENGTH"
| "field_kind F_verbandchargen = Text MAX_NOTE_LENGTH"
| "field_kind F_anmerkungen = Text MAX_NOTE_LENGTH"
| "field_kind F_rufnummer_mobil = Phone"
| "field_kind F_rufnummer_privat = Phone"
| "field_kind F_rufnummer_beruf = Phone"
| "field_kind F_url = Url"
| "field_kind F_mkv_ogv_url = Url"
| "field_kind F_email = Email"
| "field_kind F_org_id = Org"
| "field_kind F_state_id = Unbounded"
| "field_kind F_zustellungen = Choice [''deaktiviert'', ''adresse_privat'', ''adresse_beruf'']"
| "field_kind F_gruender = Flag"
| "field_kind F_entlassen = Flag"
| "field_kind F_verstorben = Flag"
| "field_kind F_chroniclemail = Flag"
| "field_kind F_auth_locked = Flag"
| "field_kind F_geburtsdatum = Day"
| "field_kind F_aufnahmedatum = Day"
| "field_kind F_branderdatum = Day"
| "field_kind F_burschungsdatum = Day"
| "field_kind F_philistrierungsdatum = Day"
| "field_kind F_entlassungsdatum = Day"
| "field_kind F_sterbedatum = Day"
| "field_kind F_geburtsdatum_accuracy = Accuracy"
| "field_kind F_aufnahmedatum_accuracy = Accuracy"
| "field_kind F_branderdatum_accuracy = Accuracy"
| "field_kind F_burschungsdatum_accuracy = Accuracy"
| "field_kind F_philistrierungsdatum_accuracy = Accuracy"
| "field_kind F_entlassungsdatum_accuracy = Accuracy"
| "field_kind F_sterbedatum_accuracy = Accuracy"
| "field_kind F_parent_id = Reference"
| "field_kind _ = Text 0"

type_synonym address_check = "string \<Rightarrow> string option"

text \<open>One field: the value it is given after trimming, or \<open>None\<close> when the request is refused.\<close>

fun validate_value :: "address_check \<Rightarrow> value_kind \<Rightarrow> pyval \<Rightarrow> pyval option" where
  "validate_value chk (Text n) (PStr s) = (if length (trim s) \<le> n then Some (PStr (trim s)) else None)"
| "validate_value chk Phone (PStr s) =
     (let t = trim s in
      if length t \<le> MAX_PHONE_LENGTH \<and> (t = [] \<or> phone_format t) then Some (PStr t) else None)"
| "validate_value chk Url (PStr s) =
     (let t = trim s in if length t \<le> 128 \<and> (t = [] \<or> url_format t) then Some (PStr t) else None)"
| "validate_value chk Email (PStr s) =
     (case chk (trim s) of None \<Rightarrow> None | Some e \<Rightarrow> if length e \<le> 128 then Some (PStr e) else None)"
| "validate_value chk Org (PStr s) = Some (PStr (trim s))"
| "validate_value chk Unbounded (PStr s) = Some (PStr (trim s))"
| "validate_value chk (Choice xs) (PStr s) = (if s \<in> set xs then Some (PStr s) else None)"
| "validate_value chk Flag (PBool b) = Some (PBool b)"
| "validate_value chk Day (PDate d) = Some (PDate d)"
| "validate_value chk Accuracy (PInt i) = (if 0 \<le> i \<and> i \<le> 3 then Some (PInt i) else None)"
| "validate_value chk Reference (PUuid u) = Some (PUuid u)"
| "validate_value chk k PNone =
     (case k of Text _ \<Rightarrow> Some PNone | Phone \<Rightarrow> Some PNone | Url \<Rightarrow> Some PNone | Email \<Rightarrow> Some PNone | Unbounded \<Rightarrow> Some PNone
      | Day \<Rightarrow> Some PNone | Reference \<Rightarrow> Some PNone | _ \<Rightarrow> None)"
| "validate_value chk _ _ = None"

definition value_or_empty :: "pyval \<Rightarrow> string" where
  "value_or_empty v = (case v of PStr s \<Rightarrow> s | _ \<Rightarrow> [])"

text \<open>A request that leaves out a field of the model is not one: every listed field is checked.\<close>

definition validate_columns ::
  "address_check \<Rightarrow> member_field list \<Rightarrow> (member_field \<Rightarrow> pyval) \<Rightarrow> (member_field \<Rightarrow> pyval) option" where
  "validate_columns chk names vs =
     (let checked = (\<lambda>f. if f \<in> set names then validate_value chk (field_kind f) (vs f) else Some PNone);
          given = (\<lambda>f. case checked f of None \<Rightarrow> PNone | Some w \<Rightarrow> w)
      in if list_all (\<lambda>f. checked f \<noteq> None) names \<and>
            (value_or_empty (given F_nachname) \<noteq> [] \<or> value_or_empty (given F_couleurname) \<noteq> [])
         then Some given else None)"

text \<open>Dates arrive as ISO texts, so they are days of the calendar.\<close>

definition entry_dates_ok :: "role_history_entry \<Rightarrow> bool" where
  "entry_dates_ok e \<longleftrightarrow> valid_date (rhe_startdate e) \<and> (case rhe_enddate e of None \<Rightarrow> True | Some d \<Rightarrow> valid_date d)"

definition validate_save_request :: "address_check \<Rightarrow> save_request \<Rightarrow> save_request option" where
  "validate_save_request chk data =
     (if list_all entry_dates_ok (sr_roles_history data)
      then map_option (\<lambda>vs. data\<lparr>sr_values := vs\<rparr>) (validate_columns chk SAVE_FIELDS (sr_values data))
      else None)"

definition validate_self_service :: "address_check \<Rightarrow> (member_field \<Rightarrow> pyval) \<Rightarrow> (member_field \<Rightarrow> pyval) option" where
  "validate_self_service chk = validate_columns chk SELF_SERVICE_FIELDS"

text \<open>\<open>ContactSaveRequest\<close>: the name is required and not blank.\<close>

fun contact_kind :: "contact_field \<Rightarrow> value_kind" where
  "contact_kind K_kontakttyp = Choice [''person'', ''organisation'']"
| "contact_kind K_anrede = Text 32"
| "contact_kind K_name = Text 64"
| "contact_kind K_couleurname = Text 64"
| "contact_kind K_org_id = Unbounded"
| "contact_kind K_adresse_anschrift = Text MAX_ADDRESS_LINE_LENGTH"
| "contact_kind K_adresse_plz = Text 8"
| "contact_kind K_adresse_ort = Text 32"
| "contact_kind K_adresse_land = Text 32"
| "contact_kind K_zustellungen = Flag"
| "contact_kind K_email = Email"
| "contact_kind K_rufnummer = Phone"
| "contact_kind K_datum = Day"
| "contact_kind K_datum_accuracy = Accuracy"
| "contact_kind K_anmerkungen = Text MAX_NOTE_LENGTH"
| "contact_kind _ = Text 0"

definition validate_contact_request ::
  "address_check \<Rightarrow> (contact_field \<Rightarrow> pyval) \<Rightarrow> (contact_field \<Rightarrow> pyval) option" where
  "validate_contact_request chk vs =
     (let checked = (\<lambda>f. if f \<in> set CONTACT_FIELDS then validate_value chk (contact_kind f) (vs f) else Some PNone);
          given = (\<lambda>f. case checked f of None \<Rightarrow> PNone | Some w \<Rightarrow> w)
      in if list_all (\<lambda>f. checked f \<noteq> None) CONTACT_FIELDS \<and> value_or_empty (given K_name) \<noteq> []
         then Some given else None)"

end
