(* ===== verification/Register_Save.thy ===== *)
theory Register_Save
  imports Register_Requests
begin

text \<open>
  Saving members and contacts: the validation helpers, \<open>apply_member_input\<close> and the contact
  functions of \<open>app/services/standesdb_service.py\<close>, and the member and contact operations of
  \<open>app/services/standesdb_entry_service.py\<close>.

  The constraints of the tables are checked where the code flushes; a violated one ends the
  request with \<open>IntegrityError\<close>. \<open>rv_today\<close> is \<open>local_today()\<close>, \<open>rv_now\<close> the time.
\<close>

record environment =
  rv_settings :: settings
  rv_today :: date
  rv_now :: instant

definition permissions_of :: "environment \<Rightarrow> member \<Rightarrow> string set" where
  "permissions_of rv m = set (calculate_permissions (rv_settings rv) (rv_today rv) m)"

section \<open>Validation helpers\<close>

definition validate_member_org :: "save_request \<Rightarrow> member \<Rightarrow> exc + unit" where
  "validate_member_org data user =
     (if sr_values data F_org_id \<noteq> columns user F_org_id
      then Inl (HTTPException 403 ''Du kannst nur Mitglieder deiner eigenen Organisation verwalten.'')
      else Inr ())"

text \<open>\<open>func.lower(func.coalesce(column, ""))\<close> of the three names.\<close>

definition name_key :: "(member_field \<Rightarrow> pyval) \<Rightarrow> string \<times> string \<times> string" where
  "name_key vs = (lower (value_or_empty (vs F_vorname)), lower (value_or_empty (vs F_nachname)),
                  lower (value_or_empty (vs F_couleurname)))"

definition validate_member_uniqueness :: "register_db \<Rightarrow> save_request \<Rightarrow> uuid option \<Rightarrow> exc + unit" where
  "validate_member_uniqueness db data exclude_id =
     (if \<exists>m \<in> set (rg_members db). name_key (columns m) = name_key (sr_values data) \<and> exclude_id \<noteq> Some (member_id m)
      then Inl (HTTPException 409 ''Ein Mitglied mit diesem Namen existiert bereits.'')
      else Inr ())"

definition parent_member :: "register_db \<Rightarrow> member \<Rightarrow> member option" where
  "parent_member db m = Option.bind (uuid_col m F_parent_id) (get_member db)"

text \<open>The walk up the chain; \<open>seen\<close> ends it when the data has a cycle.\<close>

function leib_walk :: "register_db \<Rightarrow> uuid set \<Rightarrow> member option \<Rightarrow> uuid \<Rightarrow> bool" where
  "leib_walk db seen None k = False"
| "leib_walk db seen (Some m) k =
     (if member_id m \<in> seen then False
      else if member_id m = k then True
      else leib_walk db (insert (member_id m) seen) (parent_member db m) k)"
  by pat_completeness auto

lemma parent_member_stored: "parent_member db m = Some p \<Longrightarrow> p \<in> set (rg_members db)"
  by (auto simp: parent_member_def get_member_def bind_eq_Some_conv dest: get_by_SomeD)

termination leib_walk
proof (relation "measure (\<lambda>(db, seen, cur, k). case cur of None \<Rightarrow> 0
    | Some m \<Rightarrow> Suc (card (insert (member_id m) (member_id ` set (rg_members db)) - seen)))")
  show "wf (measure (\<lambda>(db, seen, cur, k :: uuid). case cur of None \<Rightarrow> 0
    | Some m \<Rightarrow> Suc (card (insert (member_id m) (member_id ` set (rg_members db)) - seen))))" by simp
next
  fix db :: register_db and seen and m :: member and k :: uuid
  assume new: "member_id m \<notin> seen"
  let ?ids = "member_id ` set (rg_members db)"
  have "Suc (card (insert (member_id p) ?ids - insert (member_id m) seen)) < Suc (card (insert (member_id m) ?ids - seen))"
    if "parent_member db m = Some p" for p
  proof -
    have "insert (member_id p) ?ids - insert (member_id m) seen \<subset> insert (member_id m) ?ids - seen"
      using parent_member_stored [OF that] new by auto
    then show ?thesis by (simp add: psubset_card_mono)
  qed
  then show "((db, insert (member_id m) seen, parent_member db m, k), db, seen, Some m, k)
      \<in> measure (\<lambda>(db, seen, cur, k). case cur of None \<Rightarrow> 0
          | Some m \<Rightarrow> Suc (card (insert (member_id m) (member_id ` set (rg_members db)) - seen)))"
    by (auto split: option.split)
qed

definition is_self_or_ancestor :: "register_db \<Rightarrow> member \<Rightarrow> uuid \<Rightarrow> bool" where
  "is_self_or_ancestor db start k = leib_walk db {} (Some start) k"

definition invalid_parent :: exc where
  "invalid_parent = HTTPException 400 ''Ungueltiges Leibverhaeltnis.''"

definition validate_parent_id :: "register_db \<Rightarrow> uuid option \<Rightarrow> pyval \<Rightarrow> uuid option \<Rightarrow> exc + unit" where
  "validate_parent_id db parent_id org_id member =
     (case parent_id of None \<Rightarrow> Inr ()
      | Some p \<Rightarrow>
          (case get_member db p of None \<Rightarrow> Inl invalid_parent
           | Some parent \<Rightarrow>
               if columns parent F_org_id \<noteq> org_id then Inl invalid_parent
               else if (case member of None \<Rightarrow> False | Some k \<Rightarrow> is_self_or_ancestor db parent k)
               then Inl invalid_parent
               else Inr ()))"

definition validate_ids_exist :: "'k set \<Rightarrow> ('k \<Rightarrow> string) \<Rightarrow> 'k list \<Rightarrow> string \<Rightarrow> exc + unit" where
  "validate_ids_exist valid_ids text_of ids label =
     (case List.find (\<lambda>i. i \<notin> valid_ids) ids of
        Some i \<Rightarrow> Inl (HTTPException 422 (label @ '': '' @ text_of i))
      | None \<Rightarrow> Inr ())"

definition validate_member_references :: "register_db \<Rightarrow> save_request \<Rightarrow> exc + unit" where
  "validate_member_references db data =
     (if (case sr_values data F_state_id of PStr s \<Rightarrow> s \<noteq> [] \<and> s \<notin> lr_id ` set (rg_states db) | _ \<Rightarrow> False)
      then Inl (HTTPException 422 ''Ungueltiger Status.'')
      else bind_res (validate_ids_exist (role_id ` set (rg_roles db)) (\<lambda>s. s) (map rhe_id (sr_roles_history data)) ''Ungueltige Rolle'') (\<lambda>_.
           bind_res (validate_ids_exist (badge_id ` set (rg_badges db)) uuid_text (map item_id (sr_badges data)) ''Ungueltiges Abzeichen'') (\<lambda>_.
           validate_ids_exist (key_id ` set (rg_keys db)) uuid_text (map item_id (sr_keys data)) ''Ungueltiger Schluessel'')))"

section \<open>The periods of roles\<close>

definition ranges_overlap :: "date \<Rightarrow> date option \<Rightarrow> date \<Rightarrow> date option \<Rightarrow> bool" where
  "ranges_overlap start1 end1 start2 end2 =
     (case (end1, end2) of
        (Some e1, Some e2) \<Rightarrow> start1 < e2 \<and> start2 < e1
      | (Some e1, None) \<Rightarrow> start2 < e1
      | (None, Some e2) \<Rightarrow> start1 < e2
      | (None, None) \<Rightarrow> True)"

definition MONTH_NAMES :: "string list" where
  "MONTH_NAMES = ['''', ''Jaenner'', ''Februar'', ''Maerz'', ''April'', ''Mai'', ''Juni'', ''Juli'', ''August'',
     ''September'', ''Oktober'', ''November'', ''Dezember'']"

definition format_date :: "date option \<Rightarrow> string" where
  "format_date d = (case d of None \<Rightarrow> ''laufend''
     | Some d \<Rightarrow> text_of_int (day d) @ ''. '' @ MONTH_NAMES ! nat (month d) @ '' '' @ text_of_int (year d))"

text \<open>The first pair of a group that overlaps, in the order of \<open>itertools.combinations\<close>.\<close>

fun first_overlap :: "('i \<times> role_history_entry) list \<Rightarrow> 'i option" where
  "first_overlap [] = None"
| "first_overlap ((i, a) # rest) =
     (if list_ex (\<lambda>(_, b). ranges_overlap (rhe_startdate a) (rhe_enddate a) (rhe_startdate b) (rhe_enddate b)) rest
      then Some i else first_overlap rest)"

definition entry_label :: "register_db \<Rightarrow> role_history_entry \<Rightarrow> string" where
  "entry_label db e =
     (case rhe_label e of Some (c # cs) \<Rightarrow> c # cs
      | _ \<Rightarrow> (case map_of (rev (map (\<lambda>r. (role_id r, case role_label r of Some (c # cs) \<Rightarrow> c # cs | _ \<Rightarrow> role_id r)) (rg_roles db))) (rhe_id e) of
                None \<Rightarrow> rhe_id e | Some l \<Rightarrow> l))"

definition period_errors :: "register_db \<Rightarrow> role_history_entry list \<Rightarrow> string list" where
  "period_errors db es = concat (map (\<lambda>e. case rhe_enddate e of
       Some d \<Rightarrow> if d \<le> rhe_startdate e
         then [''Startdatum von Rolle \"'' @ entry_label db e @ ''\" muss vor Enddatum liegen.''] else []
     | None \<Rightarrow> []) es)"

definition overlap_errors :: "register_db \<Rightarrow> role_history_entry list \<Rightarrow> string list" where
  "overlap_errors db es = concat (map (\<lambda>r.
       case first_overlap (map (\<lambda>e. (entry_label db e, e)) (filter (\<lambda>e. rhe_id e = r) es)) of
         None \<Rightarrow> []
       | Some label \<Rightarrow> [''Die Zeitraeume fuer die Rolle \"'' @ label @ ''\" ueberschneiden sich.''])
     (rev (remdups (rev (map rhe_id es)))))"

text \<open>The query for other members of the organisation who hold the role in the period.\<close>

definition holders_between ::
  "register_db \<Rightarrow> string \<Rightarrow> string \<Rightarrow> uuid option \<Rightarrow> date \<Rightarrow> date option \<Rightarrow> (member \<times> member_role) list" where
  "holders_between db role org except start finish =
     concat (map (\<lambda>m. map (Pair m) (filter (\<lambda>mr. mr_role_id mr = role \<and>
         (case finish of
            Some f \<Rightarrow> (case mr_enddate mr of None \<Rightarrow> mr_startdate mr < f
                      | Some e \<Rightarrow> mr_startdate mr < f \<and> start < e)
          | None \<Rightarrow> (case mr_enddate mr of None \<Rightarrow> True | Some e \<Rightarrow> start < e))) (member_roles m)))
       (filter (\<lambda>m. columns m F_org_id = PStr org \<and> except \<noteq> Some (member_id m)) (rg_members db)))"

definition holder_errors :: "register_db \<Rightarrow> role_history_entry list \<Rightarrow> string \<Rightarrow> uuid option \<Rightarrow> string list" where
  "holder_errors db es org member = concat (map (\<lambda>e.
       case holders_between db (rhe_id e) org member (rhe_startdate e) (rhe_enddate e) of
         [] \<Rightarrow> []
       | (owner, mr) # _ \<Rightarrow> [''Der Zeitraum fuer die Rolle \"'' @ entry_label db e @ ''\" ('' @
            format_date (Some (rhe_startdate e)) @ '' - '' @ format_date (rhe_enddate e) @ '') ist durch \"'' @ cn owner @
            ''\" belegt ('' @ format_date (Some (mr_startdate mr)) @ '' - '' @ format_date (mr_enddate mr) @ '').'']) es)"

definition validate_roles_history :: "register_db \<Rightarrow> role_history_entry list \<Rightarrow> string \<Rightarrow> uuid option \<Rightarrow> exc + unit" where
  "validate_roles_history db es org member =
     (if es = [] then Inr ()
      else if period_errors db es \<noteq> [] then Inl (HTTPExceptionList 422 (period_errors db es))
      else if overlap_errors db es \<noteq> [] then Inl (HTTPExceptionList 422 (overlap_errors db es))
      else if holder_errors db es org member \<noteq> [] then Inl (HTTPExceptionList 422 (holder_errors db es org member))
      else Inr ())"

section \<open>Saving a member\<close>

text \<open>The rules of the form, in the order of the code: who has left or died has no account and gets
  no mail, an account needs an address, and the end data belong to their flag.\<close>

definition lock_departed :: "(member_field \<Rightarrow> pyval) \<Rightarrow> (member_field \<Rightarrow> pyval)" where
  "lock_departed vs =
     (if vs F_entlassen = PBool True \<or> vs F_verstorben = PBool True
      then vs(F_auth_locked := PBool True, F_zustellungen := PStr ''deaktiviert'', F_chroniclemail := PBool False)
      else vs)"

definition lock_without_address :: "(member_field \<Rightarrow> pyval) \<Rightarrow> (member_field \<Rightarrow> pyval)" where
  "lock_without_address vs = (if value_or_empty (vs F_email) = [] then vs(F_auth_locked := PBool True) else vs)"

definition clear_dismissal :: "(member_field \<Rightarrow> pyval) \<Rightarrow> (member_field \<Rightarrow> pyval)" where
  "clear_dismissal vs = (if vs F_entlassen = PBool True then vs
     else vs(F_entlassungsdatum := PNone, F_entlassungsdatum_accuracy := PInt 0))"

definition clear_death :: "(member_field \<Rightarrow> pyval) \<Rightarrow> (member_field \<Rightarrow> pyval)" where
  "clear_death vs = (if vs F_verstorben = PBool True then vs
     else vs(F_sterbedatum := PNone, F_sterbedatum_accuracy := PInt 0, F_grabadresse := PNone))"

definition input_columns :: "(member_field \<Rightarrow> pyval) \<Rightarrow> (member_field \<Rightarrow> pyval)" where
  "input_columns vs = clear_death (clear_dismissal (lock_without_address (lock_departed vs)))"

text \<open>The constraints of the table \<open>members\<close> on one row.\<close>

definition accuracy_ok :: "pyval \<Rightarrow> bool" where
  "accuracy_ok v = (case v of PInt i \<Rightarrow> 0 \<le> i \<and> i \<le> 3 | _ \<Rightarrow> True)"

definition ACCURACY_COLUMNS :: "member_field list" where
  "ACCURACY_COLUMNS = [F_geburtsdatum_accuracy, F_aufnahmedatum_accuracy, F_branderdatum_accuracy,
     F_burschungsdatum_accuracy, F_philistrierungsdatum_accuracy, F_entlassungsdatum_accuracy, F_sterbedatum_accuracy]"

definition same_address :: "member \<Rightarrow> member \<Rightarrow> bool" where
  "same_address a b = (case (text_col a F_email, text_col b F_email) of
     (Some x, Some y) \<Rightarrow> lower x = lower y | _ \<Rightarrow> False)"

definition member_row_ok :: "register_db \<Rightarrow> member \<Rightarrow> bool" where
  "member_row_ok db m \<longleftrightarrow>
     list_all (\<lambda>f. accuracy_ok (columns m f)) ACCURACY_COLUMNS \<and>
     (case uuid_col m F_parent_id of None \<Rightarrow> True
      | Some p \<Rightarrow> p \<noteq> member_id m \<and> p \<in> member_id ` set (rg_members db)) \<and>
     (case text_col m F_org_id of None \<Rightarrow> True | Some i \<Rightarrow> i \<in> lr_id ` set (rg_orgs db)) \<and>
     (case text_col m F_state_id of None \<Rightarrow> True | Some i \<Rightarrow> i \<in> lr_id ` set (rg_states db)) \<and>
     (\<forall>o' \<in> set (rg_members db). member_id o' \<noteq> member_id m \<longrightarrow> \<not> same_address o' m)"

definition items_ok :: "uuid set \<Rightarrow> presented_item list \<Rightarrow> bool" where
  "items_ok known items \<longleftrightarrow> distinct (map item_id items) \<and>
     list_all (\<lambda>b. item_id b \<in> known \<and> 0 \<le> presentationdate_accuracy b \<and> presentationdate_accuracy b \<le> 3) items"

definition role_rows_ok :: "register_db \<Rightarrow> role_history_entry list \<Rightarrow> bool" where
  "role_rows_ok db es \<longleftrightarrow> distinct (map (\<lambda>e. (rhe_id e, rhe_startdate e)) es) \<and>
     list_all (\<lambda>e. rhe_id e \<in> role_id ` set (rg_roles db) \<and>
       (case rhe_enddate e of None \<Rightarrow> True | Some d \<Rightarrow> rhe_startdate e < d)) es"

definition constraint :: "bool \<Rightarrow> exc + unit" where
  "constraint ok = (if ok then Inr () else Inl IntegrityError)"

text \<open>\<open>db.add\<close> and \<open>flush\<close> of a member: its row is replaced, or added.\<close>

definition store_member :: "member \<Rightarrow> register_db \<Rightarrow> register_db" where
  "store_member m db =
     (if member_id m \<in> member_id ` set (rg_members db)
      then db\<lparr>rg_members := update_where (\<lambda>x. member_id x = member_id m) (\<lambda>_. m) (rg_members db)\<rparr>
      else db\<lparr>rg_members := rg_members db @ [m]\<rparr>)"

definition item_view :: "presented_item list \<Rightarrow> (uuid \<times> string option \<times> int) list" where
  "item_view items = sort_key (\<lambda>(i, _). uuid_text i)
     (map (\<lambda>b. (item_id b, map_option isoformat (presentationdate b), presentationdate_accuracy b)) items)"

definition sync_badges :: "presented_item list \<Rightarrow> member \<Rightarrow> diff \<Rightarrow> diff \<times> member" where
  "sync_badges items m d =
     (let old = item_view (member_badges m); new = item_view items
      in (if old \<noteq> new then d @ [(''badges'', Item_list old, Item_list new)] else d, m\<lparr>member_badges := items\<rparr>))"

definition sync_keys :: "presented_item list \<Rightarrow> member \<Rightarrow> diff \<Rightarrow> diff \<times> member" where
  "sync_keys items m d =
     (let old = item_view (member_keys m); new = item_view items
      in (if old \<noteq> new then d @ [(''keys'', Item_list old, Item_list new)] else d, m\<lparr>member_keys := items\<rparr>))"

definition role_view :: "role_entry list \<Rightarrow> (string \<times> string \<times> string option) list" where
  "role_view es = sort_key (\<lambda>(i, s, _). (i, s))
     (map (\<lambda>e. (re_role_id e, isoformat (re_startdate e), map_option isoformat (re_enddate e))) es)"

definition held_entries :: "member \<Rightarrow> role_entry list" where
  "held_entries m = map (\<lambda>mr. \<lparr>re_role_id = mr_role_id mr, re_startdate = mr_startdate mr, re_enddate = mr_enddate mr\<rparr>)
     (member_roles m)"

definition wanted_entries :: "role_history_entry list \<Rightarrow> role_entry list" where
  "wanted_entries es = map (\<lambda>e. \<lparr>re_role_id = rhe_id e, re_startdate = rhe_startdate e, re_enddate = rhe_enddate e\<rparr>) es"

definition sync_roles ::
  "instant \<Rightarrow> uuid \<Rightarrow> role_history_entry list \<Rightarrow> member \<Rightarrow> diff \<Rightarrow> register_db \<Rightarrow> diff \<times> member \<times> register_db" where
  "sync_roles now actor es m d db =
     (let before = held_entries m; after = wanted_entries es; old = role_view before; new = role_view after;
          m' = m\<lparr>member_roles := map (\<lambda>e. \<lparr>mr_role_id = rhe_id e, mr_startdate = rhe_startdate e,
                 mr_enddate = rhe_enddate e, mr_role = get_by role_id (rg_roles db) (rhe_id e)\<rparr>) es\<rparr>
      in if old \<noteq> new
         then (d @ [(''roles_history'', Role_list old, Role_list new)], m',
               record_role_changes now (member_id m) before after (Some actor) db)
         else (d, m', db))"

definition column_diff :: "(member_field \<times> pyval \<times> pyval) list \<Rightarrow> diff" where
  "column_diff d = map (\<lambda>(f, old, new). (field_name f, Column_value old, Column_value new)) d"

definition add_member_logs :: "uuid \<Rightarrow> diff \<Rightarrow> string \<Rightarrow> uuid \<Rightarrow> instant \<Rightarrow> register_db \<Rightarrow> register_db" where
  "add_member_logs entity d action by_id now db =
     (let new = change_log_entries (rg_next_id db) entity d action by_id now
      in db\<lparr>member_logs := member_logs db @ new, rg_next_id := rg_next_id db + length new\<rparr>)"

definition saved_columns :: "(member_field \<Rightarrow> pyval) \<Rightarrow> member \<Rightarrow> uuid \<Rightarrow> instant \<Rightarrow> (member_field \<times> pyval \<times> pyval) list \<times> member" where
  "saved_columns input m by_id now =
     (let cols = (if py_eq (columns m F_email) (input F_email) then columns m else (columns m)(F_email_verified_at := PNone));
          (d, cols') = apply_columns (map (\<lambda>f. (f, input f)) SAVE_FIELDS) cols
      in (d, m\<lparr>columns := cols'(F_modified_at := PTime now, F_modified_by := PUuid by_id)\<rparr>))"

definition apply_member_input ::
  "environment \<Rightarrow> register_db \<Rightarrow> member \<Rightarrow> save_request \<Rightarrow> member \<Rightarrow> exc + register_db \<times> member \<times> diff" where
  "apply_member_input rv db m data user =
     (let is_new = (get_member db (member_id m) = None);
          (column_changes, m1) = saved_columns (input_columns (sr_values data)) m (member_id user) (rv_now rv)
      in bind_res (constraint (member_row_ok db m1)) (\<lambda>_.
         let db1 = store_member m1 db;
             (d2, m2) = sync_badges (sr_badges data) m1 (column_diff column_changes);
             (d3, m3) = sync_keys (sr_keys data) m2 d2
         in bind_res (constraint (items_ok (badge_id ` set (rg_badges db)) (sr_badges data))) (\<lambda>_.
            bind_res (constraint (items_ok (key_id ` set (rg_keys db)) (sr_keys data))) (\<lambda>_.
            bind_res (validate_roles_history db1 (sr_roles_history data) (value_or_empty (columns m1 F_org_id)) (Some (member_id m1))) (\<lambda>_.
            bind_res (constraint (role_rows_ok db (sr_roles_history data))) (\<lambda>_.
            let (d4, m4, db4) = sync_roles (rv_now rv) (member_id user) (sr_roles_history data) m3 d3 db1;
                db5 = store_member m4 db4
            in Inr (if d4 = [] then db5
                    else add_member_logs (member_id m1) d4 (if is_new then ''create'' else ''update'') (member_id user) (rv_now rv) db5,
                    m4, d4)))))))"

end
