(* ===== verification/Register_Entries.thy ===== *)
theory Register_Entries
  imports Register_Save
begin

text \<open>
  What the routes do with entries (\<open>app/services/standesdb_entry_service.py\<close>): the permission
  checks, creating and updating members and contacts with the notification for the admins, and
  the change requests of members for their own data
  (\<open>app/services/member_change_request_service.py\<close>).

  The time of a request is one value: \<open>datetime.now\<close> and the database's \<open>now()\<close> are both
  \<open>rv_now\<close>. Locks are not modelled: requests run one after the other.
\<close>

section \<open>Permissions and lookups\<close>

definition org_admin_permission :: "string \<Rightarrow> string" where
  "org_admin_permission org = ''standesdb'' @ capitalize org @ ''Admin''"

definition member_missing :: exc where "member_missing = HTTPException 404 ''Mitglied nicht gefunden.''"

definition get_member_or_404 :: "register_db \<Rightarrow> uuid \<Rightarrow> exc + member" where
  "get_member_or_404 db k = (case get_member db k of None \<Rightarrow> Inl member_missing | Some m \<Rightarrow> Inr m)"

definition require_org_admin :: "environment \<Rightarrow> member \<Rightarrow> pyval \<Rightarrow> exc + unit" where
  "require_org_admin rv user org_id =
     (let org = value_or_empty org_id in
      if org = [] then Inl (HTTPException 422 ''Keine Verbindung zugewiesen.'')
      else if org_admin_permission org \<notin> permissions_of rv user
      then Inl (HTTPException 403 (''Fehlende Berechtigung: '' @ org_admin_permission org))
      else Inr ())"

definition require_any_org_admin :: "environment \<Rightarrow> member \<Rightarrow> exc + unit" where
  "require_any_org_admin rv user =
     (if \<exists>org \<in> {''vbw'', ''vbn''}. org_admin_permission org \<in> permissions_of rv user then Inr ()
      else Inl (HTTPException 403 ''Fehlende Berechtigung.''))"

definition get_member_for_org_admin :: "environment \<Rightarrow> register_db \<Rightarrow> uuid \<Rightarrow> member \<Rightarrow> exc + member" where
  "get_member_for_org_admin rv db k user =
     bind_res (get_member_or_404 db k) (\<lambda>m. bind_res (require_org_admin rv user (columns m F_org_id)) (\<lambda>_. Inr m))"

definition get_assigned_member_for_org_admin :: "environment \<Rightarrow> register_db \<Rightarrow> uuid \<Rightarrow> member \<Rightarrow> exc + member" where
  "get_assigned_member_for_org_admin rv db k user =
     bind_res (get_member_or_404 db k) (\<lambda>m.
       if value_or_empty (columns m F_org_id) = []
       then Inl (HTTPException 422 ''Mitglied hat keine Verbindung zugewiesen.'')
       else bind_res (require_org_admin rv user (columns m F_org_id)) (\<lambda>_. Inr m))"

record entry_changed =
  en_to_emails :: "string list"
  en_entry_type :: string
  en_entry_cn :: string
  en_diff :: diff
  en_change_type :: string
  en_modifier_cn :: string

definition emails_with_permission :: "environment \<Rightarrow> register_db \<Rightarrow> string \<Rightarrow> string list" where
  "emails_with_permission rv db p = get_emails_with_permission (rv_settings rv) (rv_today rv) (rg_members db) p"

section \<open>Members\<close>

text \<open>A fresh \<open>Member()\<close>: no column has a value, and the database gives it an id.\<close>

definition new_member :: "uuid \<Rightarrow> member" where
  "new_member k = \<lparr>member_id = k, columns = (\<lambda>_. PNone), member_roles = [], member_badges = [], member_keys = []\<rparr>"

definition parent_given :: "save_request \<Rightarrow> uuid option" where
  "parent_given data = (case sr_values data F_parent_id of PUuid u \<Rightarrow> Some u | _ \<Rightarrow> None)"

definition create_member ::
  "environment \<Rightarrow> register_db \<Rightarrow> save_request \<Rightarrow> member \<Rightarrow> exc + register_db \<times> member \<times> entry_changed" where
  "create_member rv db data user =
     (let org = sr_values data F_org_id in
      bind_res (require_org_admin rv user org) (\<lambda>_.
      bind_res (validate_member_org data user) (\<lambda>_.
      bind_res (validate_member_uniqueness db data None) (\<lambda>_.
      bind_res (validate_parent_id db (parent_given data) org None) (\<lambda>_.
      bind_res (validate_member_references db data) (\<lambda>_.
      let k = rg_next_id db in
      bind_res (apply_member_input rv (db\<lparr>rg_next_id := Suc k\<rparr>) (new_member k) data user) (\<lambda>(db', m, d).
      Inr (db', m, \<lparr>en_to_emails = emails_with_permission rv db' (org_admin_permission (value_or_empty org)),
        en_entry_type = ''member'', en_entry_cn = cn m, en_diff = d, en_change_type = ''store'',
        en_modifier_cn = cn user\<rparr>))))))))"

definition update_member ::
  "environment \<Rightarrow> register_db \<Rightarrow> uuid \<Rightarrow> save_request \<Rightarrow> member \<Rightarrow> exc + register_db \<times> member \<times> entry_changed option" where
  "update_member rv db k data user =
     bind_res (get_assigned_member_for_org_admin rv db k user) (\<lambda>m.
     bind_res (validate_member_org data user) (\<lambda>_.
     bind_res (validate_member_uniqueness db data (Some k)) (\<lambda>_.
     bind_res (validate_parent_id db (parent_given data) (sr_values data F_org_id) (Some k)) (\<lambda>_.
     bind_res (validate_member_references db data) (\<lambda>_.
     bind_res (apply_member_input rv db m data user) (\<lambda>(db', m', d).
     Inr (db', m', if d = [] then None else
       Some \<lparr>en_to_emails = emails_with_permission rv db' (org_admin_permission (value_or_empty (columns m F_org_id))),
         en_entry_type = ''member'', en_entry_cn = cn m', en_diff = d, en_change_type = ''update'',
         en_modifier_cn = cn (case get_member db' (member_id user) of None \<Rightarrow> user | Some u \<Rightarrow> u)\<rparr>)))))))"

section \<open>Contacts\<close>

definition contact_missing :: exc where "contact_missing = HTTPException 404 ''Kontakt nicht gefunden.''"

definition get_contact_or_404 :: "register_db \<Rightarrow> uuid \<Rightarrow> exc + contact" where
  "get_contact_or_404 db k = (case get_by contact_id (contacts db) k of None \<Rightarrow> Inl contact_missing
     | Some c \<Rightarrow> if contact_deleted_at c \<noteq> None then Inl contact_missing else Inr c)"

definition validate_contact_uniqueness :: "register_db \<Rightarrow> string \<Rightarrow> uuid option \<Rightarrow> exc + unit" where
  "validate_contact_uniqueness db name exclude_id =
     (if \<exists>c \<in> set (contacts db). contact_deleted_at c = None \<and> lower (contact_text c K_name) = lower name \<and>
           exclude_id \<noteq> Some (contact_id c)
      then Inl (HTTPException 409 ''Ein Kontakt mit diesem Namen existiert bereits.'')
      else Inr ())"

text \<open>The constraints of the table \<open>contacts\<close> on one row.\<close>

definition contact_row_ok :: "register_db \<Rightarrow> contact \<Rightarrow> bool" where
  "contact_row_ok db c \<longleftrightarrow> accuracy_ok (contact_columns c K_datum_accuracy) \<and>
     (case contact_columns c K_org_id of PStr i \<Rightarrow> i \<in> lr_id ` set (rg_orgs db) | _ \<Rightarrow> True) \<and>
     (\<forall>o' \<in> set (contacts db). contact_id o' \<noteq> contact_id c \<longrightarrow> contact_deleted_at o' = None \<longrightarrow>
        contact_deleted_at c = None \<longrightarrow> lower (contact_text o' K_name) \<noteq> lower (contact_text c K_name))"

definition store_contact :: "contact \<Rightarrow> register_db \<Rightarrow> register_db" where
  "store_contact c db =
     (if contact_id c \<in> contact_id ` set (contacts db)
      then db\<lparr>contacts := update_where (\<lambda>x. contact_id x = contact_id c) (\<lambda>_. c) (contacts db)\<rparr>
      else db\<lparr>contacts := contacts db @ [c]\<rparr>)"

definition contact_diff :: "(contact_field \<times> pyval \<times> pyval) list \<Rightarrow> diff" where
  "contact_diff d = map (\<lambda>(f, old, new). (contact_field_name f, Column_value old, Column_value new)) d"

definition add_contact_logs :: "uuid \<Rightarrow> diff \<Rightarrow> string \<Rightarrow> uuid \<Rightarrow> instant \<Rightarrow> register_db \<Rightarrow> register_db" where
  "add_contact_logs entity d action by_id now db =
     (let new = change_log_entries (rg_next_id db) entity d action by_id now
      in db\<lparr>contact_logs := contact_logs db @ new, rg_next_id := rg_next_id db + length new\<rparr>)"

definition apply_contact_input ::
  "environment \<Rightarrow> register_db \<Rightarrow> contact \<Rightarrow> (contact_field \<Rightarrow> pyval) \<Rightarrow> member \<Rightarrow> exc + register_db \<times> contact \<times> diff" where
  "apply_contact_input rv db c data user =
     (let is_new = (get_by contact_id (contacts db) (contact_id c) = None);
          (changes, cols) = apply_columns (map (\<lambda>f. (f, data f)) CONTACT_FIELDS) (contact_columns c);
          c' = c\<lparr>contact_columns := cols(K_modified_at := PTime (rv_now rv), K_modified_by := PUuid (member_id user))\<rparr>;
          d = contact_diff changes
      in bind_res (constraint (contact_row_ok db c')) (\<lambda>_.
         let db1 = store_contact c' db
         in Inr (if d = [] then db1
                 else add_contact_logs (contact_id c) d (if is_new then ''create'' else ''update'') (member_id user) (rv_now rv) db1,
                 c', d)))"

definition soft_delete_contact :: "environment \<Rightarrow> register_db \<Rightarrow> contact \<Rightarrow> member \<Rightarrow> register_db" where
  "soft_delete_contact rv db c user =
     (let c' = c\<lparr>contact_deleted_at := Some (rv_now rv), contact_columns := (contact_columns c)(
            K_modified_at := PTime (rv_now rv), K_modified_by := PUuid (member_id user))\<rparr>;
          db1 = store_contact c' db
      in db1\<lparr>contact_logs := contact_logs db1 @ [\<lparr>log_id = rg_next_id db1, log_entity = Some (contact_id c),
            log_action = ''delete'', log_key = ''deleted_at'', log_old = None, log_new = Some (time_text (rv_now rv)),
            log_modified_by = Some (member_id user), log_modified_at = rv_now rv\<rparr>],
          rg_next_id := Suc (rg_next_id db1)\<rparr>)"

definition new_contact :: "uuid \<Rightarrow> contact" where
  "new_contact k = \<lparr>contact_id = k, contact_columns = (\<lambda>_. PNone), contact_deleted_at = None\<rparr>"

definition contact_notice :: "environment \<Rightarrow> register_db \<Rightarrow> contact \<Rightarrow> diff \<Rightarrow> string \<Rightarrow> member \<Rightarrow> entry_changed" where
  "contact_notice rv db c d kind user =
     \<lparr>en_to_emails = emails_with_permission rv db ''standesdbContactAdmin'', en_entry_type = ''contact'',
      en_entry_cn = contact_cn c, en_diff = d, en_change_type = kind, en_modifier_cn = cn user\<rparr>"

definition create_contact ::
  "environment \<Rightarrow> register_db \<Rightarrow> (contact_field \<Rightarrow> pyval) \<Rightarrow> member \<Rightarrow> exc + register_db \<times> contact \<times> entry_changed" where
  "create_contact rv db data user =
     bind_res (validate_contact_uniqueness db (value_or_empty (data K_name)) None) (\<lambda>_.
     let k = rg_next_id db in
     bind_res (apply_contact_input rv (db\<lparr>rg_next_id := Suc k\<rparr>) (new_contact k) data user) (\<lambda>(db', c, d).
     Inr (db', c, contact_notice rv db' c d ''store'' user)))"

definition update_contact ::
  "environment \<Rightarrow> register_db \<Rightarrow> uuid \<Rightarrow> (contact_field \<Rightarrow> pyval) \<Rightarrow> member \<Rightarrow> exc + register_db \<times> contact \<times> entry_changed option" where
  "update_contact rv db k data user =
     bind_res (get_contact_or_404 db k) (\<lambda>c.
     bind_res (validate_contact_uniqueness db (value_or_empty (data K_name)) (Some k)) (\<lambda>_.
     bind_res (apply_contact_input rv db c data user) (\<lambda>(db', c', d).
     Inr (db', c', if d = [] then None else Some (contact_notice rv db' c' d ''update'' user)))))"

definition delete_contact :: "environment \<Rightarrow> register_db \<Rightarrow> uuid \<Rightarrow> member \<Rightarrow> exc + register_db" where
  "delete_contact rv db k user =
     bind_res (get_contact_or_404 db k) (\<lambda>c. Inr (soft_delete_contact rv db c user))"

section \<open>Change requests\<close>

definition get_own_pending_request :: "register_db \<Rightarrow> member \<Rightarrow> change_request option" where
  "get_own_pending_request db m =
     List.find (\<lambda>r. cr_member_id r = member_id m \<and> cr_status r = Pending) (change_requests db)"

definition proposed_diff :: "member \<Rightarrow> (member_field \<Rightarrow> pyval) \<Rightarrow> (member_field \<times> pyval \<times> pyval) list" where
  "proposed_diff m proposed =
     map (\<lambda>f. (f, columns m f, proposed f)) (filter (\<lambda>f. values_differ (columns m f) (proposed f)) SELF_SERVICE_FIELDS)"

definition update_request :: "uuid \<Rightarrow> (change_request \<Rightarrow> change_request) \<Rightarrow> register_db \<Rightarrow> register_db" where
  "update_request k g db = db\<lparr>change_requests := update_where (\<lambda>r. cr_id r = k) g (change_requests db)\<rparr>"

text \<open>An overwritten request gets a new \<open>updated_at\<close> from the trigger; writing the same data is no update.\<close>

definition submit_change_request ::
  "environment \<Rightarrow> register_db \<Rightarrow> member \<Rightarrow> (member_field \<Rightarrow> pyval) \<Rightarrow> register_db \<times> change_request option" where
  "submit_change_request rv db m proposed =
     (let d = proposed_diff m proposed in
      case get_own_pending_request db m of
        Some r \<Rightarrow>
          if d = [] then (db\<lparr>change_requests := delete_where (\<lambda>x. cr_id x = cr_id r) (change_requests db)\<rparr>, None)
          else if d = cr_proposed_data r then (db, Some r)
          else let r' = r\<lparr>cr_proposed_data := d, cr_updated_at := rv_now rv\<rparr>
               in (update_request (cr_id r) (\<lambda>_. r') db, Some r')
      | None \<Rightarrow>
          if d = [] then (db, None)
          else let r = \<lparr>cr_id = rg_next_id db, cr_member_id = member_id m, cr_status = Pending, cr_proposed_data = d,
                   cr_field_decisions = None, cr_resolved_by = None, cr_resolved_at = None,
                   cr_created_at = rv_now rv, cr_updated_at = rv_now rv\<rparr>
               in (db\<lparr>change_requests := change_requests db @ [r], rg_next_id := Suc (rg_next_id db)\<rparr>, Some r))"

definition get_pending_requests_for_admin :: "environment \<Rightarrow> register_db \<Rightarrow> member \<Rightarrow> change_request list" where
  "get_pending_requests_for_admin rv db user =
     (let admin_orgs = filter (\<lambda>org. org_admin_permission org \<in> permissions_of rv user) [''vbw'', ''vbn'']
      in sort_key cr_created_at (filter (\<lambda>r. cr_status r = Pending \<and>
           (case get_member db (cr_member_id r) of None \<Rightarrow> False
            | Some m \<Rightarrow> value_or_empty (columns m F_org_id) \<in> set admin_orgs)) (change_requests db)))"

definition get_change_request_or_404 :: "register_db \<Rightarrow> uuid \<Rightarrow> exc + change_request" where
  "get_change_request_or_404 db k = (case get_by cr_id (change_requests db) k of
     None \<Rightarrow> Inl (HTTPException 404 ''Aenderungsantrag nicht gefunden.'') | Some r \<Rightarrow> Inr r)"

text \<open>\<open>column or default\<close> for the columns that may be NULL.\<close>

definition live_value :: "member \<Rightarrow> member_field \<Rightarrow> pyval" where
  "live_value m f =
     (if f \<in> set ACCURACY_COLUMNS then (case columns m f of PInt i \<Rightarrow> PInt i | _ \<Rightarrow> PInt 0)
      else if f = F_zustellungen then (if empty_value (columns m f) then PStr ''deaktiviert'' else columns m f)
      else columns m f)"

definition build_current_full_request :: "member \<Rightarrow> save_request" where
  "build_current_full_request m =
     \<lparr>sr_values = (\<lambda>f. if f \<in> set SAVE_FIELDS then live_value m f else PNone),
      sr_roles_history = map (\<lambda>mr. \<lparr>rhe_id = mr_role_id mr, rhe_label = Option.bind (mr_role mr) role_label,
        rhe_startdate = mr_startdate mr, rhe_enddate = mr_enddate mr\<rparr>) (member_roles m),
      sr_badges = member_badges m, sr_keys = member_keys m\<rparr>"

definition approve ::
  "(member_field \<times> string) list \<Rightarrow> (member_field \<times> pyval \<times> pyval) list \<Rightarrow> (member_field \<Rightarrow> pyval) \<Rightarrow> (member_field \<Rightarrow> pyval)" where
  "approve decisions proposed vs =
     fold (\<lambda>(f, decision) vs. if decision = ''approved''
         then (case map_of proposed f of None \<Rightarrow> vs | Some (_, new) \<Rightarrow> vs(f := new)) else vs) decisions vs"

definition resolve_change_request ::
  "address_check \<Rightarrow> environment \<Rightarrow> register_db \<Rightarrow> change_request \<Rightarrow> member \<Rightarrow> (member_field \<times> string) list \<Rightarrow> instant \<Rightarrow>
   member \<Rightarrow> exc + register_db \<times> member" where
  "resolve_change_request chk rv db r m decisions expected_updated_at admin =
     (if cr_status r \<noteq> Pending then Inl (HTTPException 409 ''Antrag wurde bereits entschieden.'')
      else if cr_updated_at r \<noteq> expected_updated_at
      then Inl (HTTPException 409 ''Der Antrag wurde inzwischen vom Mitglied geaendert und muss erneut geprueft werden.'')
      else if fst ` set decisions \<noteq> fst ` set (cr_proposed_data r)
      then Inl (HTTPException 422 ''Es muss fuer jedes vorgeschlagene Feld eine Entscheidung vorliegen.'')
      else let full = build_current_full_request m;
               request = full\<lparr>sr_values := approve decisions (cr_proposed_data r) (sr_values full)\<rparr>
      in case validate_save_request chk request of
        None \<Rightarrow> Inl ValueError
      | Some merged \<Rightarrow>
          bind_res (validate_member_org merged admin) (\<lambda>_.
          bind_res (validate_member_uniqueness db merged (Some (member_id m))) (\<lambda>_.
          bind_res (apply_member_input rv db m merged admin) (\<lambda>(db', m', _).
          Inr (update_request (cr_id r) (\<lambda>r. r\<lparr>cr_status := Resolved, cr_field_decisions := Some decisions,
                 cr_resolved_by := Some (member_id admin), cr_resolved_at := Some (rv_now rv),
                 cr_updated_at := rv_now rv\<rparr>) db', m')))))"

text \<open>\<open>request.member\<close>: the foreign key guarantees the row.\<close>

definition decide_change_request ::
  "address_check \<Rightarrow> environment \<Rightarrow> register_db \<Rightarrow> uuid \<Rightarrow> (member_field \<times> string) list \<Rightarrow> instant \<Rightarrow> member \<Rightarrow>
   exc + register_db \<times> (string \<times> (member_field \<times> pyval \<times> pyval) list \<times> (member_field \<times> string) list) option" where
  "decide_change_request chk rv db k decisions expected_updated_at user =
     bind_res (get_change_request_or_404 db k) (\<lambda>r.
     bind_res (get_member_or_404 db (cr_member_id r)) (\<lambda>m.
     bind_res (require_org_admin rv user (columns m F_org_id)) (\<lambda>_.
     bind_res (resolve_change_request chk rv db r m decisions expected_updated_at user) (\<lambda>(db', m').
     Inr (db', if value_or_empty (columns m' F_email) = [] then None
               else Some (value_or_empty (columns m' F_email), cr_proposed_data r, decisions))))))"

definition submit_own_change_request ::
  "environment \<Rightarrow> register_db \<Rightarrow> (member_field \<Rightarrow> pyval) \<Rightarrow> member \<Rightarrow>
   exc + register_db \<times> (string list \<times> string \<times> (member_field \<times> pyval \<times> pyval) list) option" where
  "submit_own_change_request rv db data user =
     (if value_or_empty (columns user F_org_id) = []
      then Inl (HTTPException 422 ''Deinem Konto ist keine Verbindung zugewiesen; Aenderungsantraege koennen nicht eingereicht werden.'')
      else case submit_change_request rv db user data of (db', res) \<Rightarrow>
        Inr (db', map_option (\<lambda>r. (emails_with_permission rv db' (org_admin_permission (value_or_empty (columns user F_org_id))),
               cn user, cr_proposed_data r)) res))"

definition get_own_change_request_response ::
  "register_db \<Rightarrow> member \<Rightarrow> exc + uuid \<times> instant \<times> (member_field \<times> pyval) list" where
  "get_own_change_request_response db user =
     (case get_own_pending_request db user of
        None \<Rightarrow> Inl (HTTPException 404 ''Kein offener Aenderungsantrag.'')
      | Some r \<Rightarrow> Inr (cr_id r, cr_created_at r, map (\<lambda>(f, old, new). (f, new)) (cr_proposed_data r)))"

record request_summary =
  rs_id :: uuid
  rs_member_id :: uuid
  rs_member_cn :: string
  rs_member_org_id :: pyval
  rs_field_count :: nat
  rs_created_at :: instant
  rs_updated_at :: instant

definition list_change_requests :: "environment \<Rightarrow> register_db \<Rightarrow> member \<Rightarrow> exc + request_summary list" where
  "list_change_requests rv db user =
     bind_res (require_any_org_admin rv user) (\<lambda>_.
     Inr (concat (map (\<lambda>r. case get_member db (cr_member_id r) of None \<Rightarrow> []
       | Some m \<Rightarrow> [\<lparr>rs_id = cr_id r, rs_member_id = cr_member_id r, rs_member_cn = cn m,
           rs_member_org_id = columns m F_org_id, rs_field_count = length (cr_proposed_data r),
           rs_created_at = cr_created_at r, rs_updated_at = cr_updated_at r\<rparr>]) (get_pending_requests_for_admin rv db user))))"

record request_detail =
  rd_request :: change_request
  rd_member_cn :: string
  rd_resolved_by_name :: "string option"
  rd_diff :: "(member_field \<times> string option \<times> string option) list"

definition get_change_request_detail :: "environment \<Rightarrow> register_db \<Rightarrow> uuid \<Rightarrow> member \<Rightarrow> exc + request_detail" where
  "get_change_request_detail rv db k user =
     bind_res (get_change_request_or_404 db k) (\<lambda>r.
     bind_res (get_member_or_404 db (cr_member_id r)) (\<lambda>m.
     bind_res (require_org_admin rv user (columns m F_org_id)) (\<lambda>_.
     Inr \<lparr>rd_request = r, rd_member_cn = cn m,
          rd_resolved_by_name = map_option cn (Option.bind (cr_resolved_by r) (get_member db)),
          rd_diff = map (\<lambda>(f, old, new). (f, value_text old, value_text new)) (cr_proposed_data r)\<rparr>)))"

definition build_own_stammdaten_response :: "member \<Rightarrow> uuid \<times> string \<times> (member_field \<times> pyval) list" where
  "build_own_stammdaten_response m = (member_id m, cn m, map (\<lambda>f. (f, live_value m f)) SELF_SERVICE_FIELDS)"

definition get_own_image_changed_recipients :: "environment \<Rightarrow> register_db \<Rightarrow> member \<Rightarrow> string list option" where
  "get_own_image_changed_recipients rv db m =
     (let org = value_or_empty (columns m F_org_id) in
      if org = [] then None else Some (emails_with_permission rv db (org_admin_permission org)))"

end
