(* ===== verification/Register_Rows.thy ===== *)
theory Register_Rows
  imports Register_Entries
begin

text \<open>
  What saving does to one row: with values of the right types every saved column holds the value
  of the request after the rules of the form, the differences are exactly the columns whose value
  changed in substance, and the change log names each of them once.
\<close>

section \<open>Types of columns\<close>

fun typed :: "value_kind \<Rightarrow> pyval \<Rightarrow> bool" where
  "typed Flag v \<longleftrightarrow> v = PNone \<or> (\<exists>b. v = PBool b)"
| "typed Day v \<longleftrightarrow> v = PNone \<or> (\<exists>d. v = PDate d)"
| "typed Accuracy v \<longleftrightarrow> v = PNone \<or> (\<exists>i. v = PInt i)"
| "typed Reference v \<longleftrightarrow> v = PNone \<or> (\<exists>u. v = PUuid u)"
| "typed _ v \<longleftrightarrow> v = PNone \<or> (\<exists>s. v = PStr s)"

definition typed_columns :: "(member_field \<Rightarrow> pyval) \<Rightarrow> bool" where
  "typed_columns vs \<longleftrightarrow> (\<forall>f \<in> set SAVE_FIELDS. typed (field_kind f) (vs f))"

lemma typed_PNone [simp]: "typed k PNone"
  by (cases k) auto

lemma py_eq_refl [simp]: "py_eq a a"
  by (cases a) (auto simp: py_eq_def)

lemma typed_py_eq: "typed k a \<Longrightarrow> typed k b \<Longrightarrow> py_eq a b \<longleftrightarrow> a = b"
  by (cases k) (auto simp: py_eq_def)

lemma validated_typed: "validate_value chk k v = Some w \<Longrightarrow> typed k w"
  by (cases k; cases v) (auto simp: Let_def split: if_split_asm option.split_asm)

lemma validated_request_typed: "validate_save_request chk raw = Some data \<Longrightarrow> typed_columns (sr_values data)"
  by (auto simp: validate_save_request_def validate_columns_def Let_def typed_columns_def list_all_iff
      split: if_split_asm option.split dest!: validated_typed)

lemma validated_request_dates: "validate_save_request chk raw = Some data \<Longrightarrow> list_all entry_dates_ok (sr_roles_history data)"
  by (auto simp: validate_save_request_def split: if_split_asm)

lemma distinct_save_fields: "distinct SAVE_FIELDS"
  by (simp add: SAVE_FIELDS_def)

lemma input_typed: "typed_columns vs \<Longrightarrow> typed_columns (input_columns vs)"
  by (auto simp: typed_columns_def input_columns_def lock_departed_def lock_without_address_def
      clear_dismissal_def clear_death_def)

section \<open>The loop over the columns\<close>

lemma apply_columns_diff:
  assumes "distinct (map fst fs)"
  shows "fst (apply_columns fs cols) = map (\<lambda>(f, v). (f, cols f, v)) (filter (\<lambda>(f, v). values_differ (cols f) v) fs)"
  using assms
proof (induction fs arbitrary: cols)
  case Nil
  then show ?case by simp
next
  case (Cons fv fs)
  obtain f v where fv: "fv = (f, v)" by (cases fv)
  have new: "f \<notin> fst ` set fs" "distinct (map fst fs)" using Cons.prems by (simp_all add: fv)
  have "fst (apply_columns fs (cols(f := x))) =
      map (\<lambda>(g, w). (g, cols g, w)) (filter (\<lambda>(g, w). values_differ (cols g) w) fs)" for x
  proof -
    have same: "map (\<lambda>(g, w). (g, (cols(f := x)) g, w)) (filter (\<lambda>(g, w). values_differ ((cols(f := x)) g) w) gs) =
        map (\<lambda>(g, w). (g, cols g, w)) (filter (\<lambda>(g, w). values_differ (cols g) w) gs)" if "f \<notin> fst ` set gs" for gs
      using that by (induction gs) auto
    show ?thesis by (rule trans [OF Cons.IH [OF new(2)] same [OF new(1)]])
  qed
  moreover have "fst (apply_columns fs cols) = map (\<lambda>(g, w). (g, cols g, w)) (filter (\<lambda>(g, w). values_differ (cols g) w) fs)"
    by (rule Cons.IH [OF new(2)])
  ultimately show ?case by (simp add: fv Let_def case_prod_beta')
qed

lemma apply_columns_other: "f \<notin> fst ` set fs \<Longrightarrow> snd (apply_columns fs cols) f = cols f"
  by (induction fs arbitrary: cols) (auto simp: Let_def split_beta)

lemma apply_columns_values:
  assumes "distinct (map fst fs)" "(f, v) \<in> set fs" "py_eq (cols f) v \<longleftrightarrow> cols f = v"
  shows "snd (apply_columns fs cols) f = v"
  using assms
proof (induction fs arbitrary: cols)
  case Nil
  then show ?case by simp
next
  case (Cons gw fs)
  obtain g w where gw: "gw = (g, w)" by (cases gw)
  show ?case
  proof (cases "f = g")
    case True
    then have "w = v" "f \<notin> fst ` set fs" using Cons.prems(1,2) by (auto simp: gw rev_image_eqI)
    then show ?thesis
      using apply_columns_other [of f fs] Cons.prems(3) True by (simp add: gw Let_def split_beta values_differ_def)
  next
    case False
    then have "(f, v) \<in> set fs" "distinct (map fst fs)" using Cons.prems by (auto simp: gw)
    then have IH: "snd (apply_columns fs cols') f = v" if "cols' f = cols f" for cols'
      using Cons.IH [of cols'] Cons.prems(3) that by simp
    show ?thesis using False IH [of cols] IH [of "cols(g := w)"] by (simp add: gw Let_def split_beta)
  qed
qed

section \<open>The saved row\<close>

definition row_changes :: "(member_field \<Rightarrow> pyval) \<Rightarrow> (member_field \<Rightarrow> pyval) \<Rightarrow> (member_field \<times> pyval \<times> pyval) list" where
  "row_changes old new = map (\<lambda>f. (f, old f, new f)) (filter (\<lambda>f. values_differ (old f) (new f)) SAVE_FIELDS)"

definition row_after :: "environment \<Rightarrow> member \<Rightarrow> (member_field \<Rightarrow> pyval) \<Rightarrow> (member_field \<Rightarrow> pyval) \<Rightarrow> (member_field \<Rightarrow> pyval)" where
  "row_after rv user old new f =
     (if f \<in> set SAVE_FIELDS then new f
      else if f = F_modified_at then PTime (rv_now rv)
      else if f = F_modified_by then PUuid (member_id user)
      else if f = F_email_verified_at \<and> old F_email \<noteq> new F_email then PNone
      else old f)"

lemma not_saved: "F_email_verified_at \<notin> set SAVE_FIELDS" "F_modified_at \<notin> set SAVE_FIELDS" "F_modified_by \<notin> set SAVE_FIELDS"
  and saved: "F_email \<in> set SAVE_FIELDS" "F_org_id \<in> set SAVE_FIELDS" "F_parent_id \<in> set SAVE_FIELDS"
    "F_vorname \<in> set SAVE_FIELDS" "F_nachname \<in> set SAVE_FIELDS" "F_couleurname \<in> set SAVE_FIELDS"
    "F_auth_locked \<in> set SAVE_FIELDS" "F_zustellungen \<in> set SAVE_FIELDS" "F_chroniclemail \<in> set SAVE_FIELDS"
    "F_entlassen \<in> set SAVE_FIELDS" "F_verstorben \<in> set SAVE_FIELDS"
  by (simp_all add: SAVE_FIELDS_def)

lemma saved_columns_eq:
  assumes "typed_columns (columns m)" "typed_columns new"
  shows "saved_columns new m (member_id user) (rv_now rv) =
     (row_changes (columns m) new, m\<lparr>columns := row_after rv user (columns m) new\<rparr>)"
proof -
  let ?fs = "map (\<lambda>f. (f, new f)) SAVE_FIELDS"
  let ?cols = "if py_eq (columns m F_email) (new F_email) then columns m else (columns m)(F_email_verified_at := PNone)"
  have fs: "distinct (map fst ?fs)" using distinct_save_fields by (simp add: comp_def)
  have eq: "py_eq (columns m f) (new f) \<longleftrightarrow> columns m f = new f" if "f \<in> set SAVE_FIELDS" for f
    using assms that typed_py_eq by (auto simp: typed_columns_def)
  have old: "?cols f = columns m f" if "f \<in> set SAVE_FIELDS" for f
    using that not_saved(1) by auto
  have "fst (apply_columns ?fs ?cols) = row_changes (columns m) new"
  proof -
    have "map (\<lambda>f. (f, ?cols f, new f)) (filter (\<lambda>f. values_differ (?cols f) (new f)) SAVE_FIELDS) = row_changes (columns m) new"
      unfolding row_changes_def by (intro map_cong filter_cong) (use old in auto)
    then show ?thesis by (simp add: apply_columns_diff [OF fs] filter_map comp_def)
  qed
  moreover have "(snd (apply_columns ?fs ?cols))(F_modified_at := PTime (rv_now rv), F_modified_by := PUuid (member_id user)) =
      row_after rv user (columns m) new"
  proof
    fix f
    show "((snd (apply_columns ?fs ?cols))(F_modified_at := PTime (rv_now rv), F_modified_by := PUuid (member_id user))) f =
      row_after rv user (columns m) new f"
    proof (cases "f \<in> set SAVE_FIELDS")
      case True
      have "snd (apply_columns ?fs ?cols) f = new f"
        by (rule apply_columns_values [OF fs]) (use True old [OF True] eq [OF True] in auto)
      then show ?thesis using True not_saved by (auto simp: row_after_def)
    next
      case False
      then have "snd (apply_columns ?fs ?cols) f = ?cols f"
        by (intro apply_columns_other) (auto simp: image_image)
      then show ?thesis using False eq [OF saved(1)] by (auto simp: row_after_def)
    qed
  qed
  ultimately show ?thesis by (simp add: saved_columns_def Let_def split_beta)
qed

lemma row_after_saved: "f \<in> set SAVE_FIELDS \<Longrightarrow> row_after rv user old new f = new f"
  by (simp add: row_after_def)

section \<open>Storing a row\<close>

lemma set_store_member:
  "set (rg_members (store_member m db)) = insert m {x \<in> set (rg_members db). member_id x \<noteq> member_id m}"
proof (cases "member_id m \<in> member_id ` set (rg_members db)")
  case True
  then show ?thesis by (auto simp: store_member_def set_update_where)
next
  case False
  then have "\<forall>x \<in> set (rg_members db). member_id x \<noteq> member_id m" by (auto simp: image_iff)
  then show ?thesis using False by (auto simp: store_member_def)
qed

lemma ids_store_member: "member_id ` set (rg_members (store_member m db)) = insert (member_id m) (member_id ` set (rg_members db))"
  by (auto simp: set_store_member)

lemma distinct_store_member:
  "distinct (map member_id (rg_members db)) \<Longrightarrow> distinct (map member_id (rg_members (store_member m db)))"
proof -
  have "map member_id (update_where (\<lambda>x. member_id x = member_id m) (\<lambda>_. m) ms) = map member_id ms" for ms :: "member list"
    by (auto simp: update_where_def)
  then show "distinct (map member_id (rg_members db)) \<Longrightarrow> ?thesis"
    by (auto simp: store_member_def)
qed

lemma store_member_frame [simp]:
  "rg_orgs (store_member m db) = rg_orgs db" "rg_states (store_member m db) = rg_states db"
  "rg_roles (store_member m db) = rg_roles db" "rg_badges (store_member m db) = rg_badges db"
  "rg_keys (store_member m db) = rg_keys db" "member_logs (store_member m db) = member_logs db"
  "role_events (store_member m db) = role_events db" "change_requests (store_member m db) = change_requests db"
  "contacts (store_member m db) = contacts db" "contact_logs (store_member m db) = contact_logs db"
  "rg_next_id (store_member m db) = rg_next_id db"
  by (simp_all add: store_member_def)

lemma store_member_twice:
  assumes "member_id a = member_id b"
  shows "rg_members (store_member b (store_member a db)) = rg_members (store_member b db)"
proof -
  have old: "update_where (\<lambda>x. member_id x = member_id b) (\<lambda>_. b) (update_where (\<lambda>x. member_id x = member_id b) (\<lambda>_. a) ms) =
      update_where (\<lambda>x. member_id x = member_id b) (\<lambda>_. b) ms" for ms :: "member list"
    using assms by (auto simp: update_where_def)
  have new: "update_where (\<lambda>x. member_id x = member_id b) (\<lambda>_. b) ms = ms" if "member_id b \<notin> member_id ` set ms" for ms :: "member list"
    using that by (induction ms) auto
  have app: "update_where P f (ms @ [a]) = update_where P f ms @ (if P a then [f a] else [a])" for P f ms
    by (simp add: update_where_def)
  have "rg_members (store_member b d) = update_where (\<lambda>x. member_id x = member_id b) (\<lambda>_. b) (rg_members d)"
    if "member_id b \<in> member_id ` set (rg_members d)" for d
    using that by (simp add: store_member_def)
  from this [of "store_member a db"] have twice: "rg_members (store_member b (store_member a db)) =
      update_where (\<lambda>x. member_id x = member_id b) (\<lambda>_. b) (rg_members (store_member a db))"
    by (simp add: ids_store_member assms)
  show ?thesis
  proof (cases "member_id b \<in> member_id ` set (rg_members db)")
    case True
    then show ?thesis unfolding twice by (simp add: store_member_def assms old)
  next
    case False
    then show ?thesis unfolding twice by (simp add: store_member_def assms app new)
  qed
qed

lemma get_store_member:
  "get_member (store_member m db) k = (if k = member_id m then Some m else get_member db k)"
proof (cases "member_id m \<in> member_id ` set (rg_members db)")
  case True
  have "get_by member_id (update_where (\<lambda>x. member_id x = member_id m) (\<lambda>_. m) ms) k =
      (if k = member_id m \<and> k \<in> member_id ` set ms then Some m else get_by member_id ms k)" for ms :: "member list"
    by (induction ms) auto
  then show ?thesis using True by (simp add: get_member_def store_member_def)
next
  case False
  then have "get_by member_id (rg_members db) (member_id m) = None" by (simp add: get_by_None_iff)
  then show ?thesis
    using False by (simp add: get_member_def store_member_def get_by_append split: option.split)
qed

end
