(* ===== verification/Register_Invariant.thy ===== *)
theory Register_Invariant
  imports Register_Rows
begin

text \<open>
  The register as a state machine: names, addresses and ids are unique, the chain of
  Leibverhaeltnisse has no cycle, a role has one holder per organisation and day, and every row
  keeps the rules of the form. The walk that guards a new parent is an instance of the interface
  \<open>guarded_parent_store\<close>.
\<close>

section \<open>Periods\<close>

lemma ranges_overlap_sym: "ranges_overlap a b c d \<longleftrightarrow> ranges_overlap c d a b"
  by (auto simp: ranges_overlap_def split: option.split)

definition entries_overlap :: "role_history_entry \<Rightarrow> role_history_entry \<Rightarrow> bool" where
  "entries_overlap a b \<longleftrightarrow> rhe_id a = rhe_id b \<and>
     ranges_overlap (rhe_startdate a) (rhe_enddate a) (rhe_startdate b) (rhe_enddate b)"

lemma first_overlap_None:
  "first_overlap xs = None \<longleftrightarrow> sorted_wrt (\<lambda>(_, a) (_, b).
     \<not> ranges_overlap (rhe_startdate a) (rhe_enddate a) (rhe_startdate b) (rhe_enddate b)) xs"
  by (induction xs rule: first_overlap.induct) (auto simp: list_ex_iff)

lemma sorted_wrt_groups:
  "(\<forall>r \<in> key ` set xs. sorted_wrt (\<lambda>a b. \<not> P a b) (filter (\<lambda>x. key x = r) xs)) \<longleftrightarrow>
     sorted_wrt (\<lambda>a b. \<not> (key a = key b \<and> P a b)) xs"
proof
  have "sorted_wrt (\<lambda>a b. \<not> (key a = key b \<and> P a b)) xs"
    if "\<And>r. sorted_wrt (\<lambda>a b. \<not> P a b) (filter (\<lambda>x. key x = r) xs)" for xs
    using that
  proof (induction xs)
    case (Cons a xs)
    have "sorted_wrt (\<lambda>a b. \<not> P a b) (filter (\<lambda>x. key x = r) xs)" for r
      using Cons.prems [of r] by (auto split: if_split_asm)
    then show ?case using Cons.IH Cons.prems [of "key a"] by auto
  qed simp
  moreover have "sorted_wrt (\<lambda>a b. \<not> P a b) (filter (\<lambda>x. key x = r) xs)" if "r \<notin> key ` set xs" for r
  proof -
    have "filter (\<lambda>x. key x = r) xs = []" using that by (auto simp: filter_empty_conv)
    then show ?thesis by simp
  qed
  ultimately show "\<forall>r \<in> key ` set xs. sorted_wrt (\<lambda>a b. \<not> P a b) (filter (\<lambda>x. key x = r) xs) \<Longrightarrow>
      sorted_wrt (\<lambda>a b. \<not> (key a = key b \<and> P a b)) xs" by blast
  show "\<forall>r \<in> key ` set xs. sorted_wrt (\<lambda>a b. \<not> P a b) (filter (\<lambda>x. key x = r) xs)"
    if "sorted_wrt (\<lambda>a b. \<not> (key a = key b \<and> P a b)) xs"
  proof
    show "sorted_wrt (\<lambda>a b. \<not> P a b) (filter (\<lambda>x. key x = r) xs)" for r
      using that by (induction xs) auto
  qed
qed

lemma overlap_errors_Nil: "overlap_errors db es = [] \<longleftrightarrow> sorted_wrt (\<lambda>a b. \<not> entries_overlap a b) es"
proof -
  have "overlap_errors db es = [] \<longleftrightarrow> (\<forall>r \<in> rhe_id ` set es. sorted_wrt (\<lambda>a b.
      \<not> ranges_overlap (rhe_startdate a) (rhe_enddate a) (rhe_startdate b) (rhe_enddate b))
        (filter (\<lambda>e. rhe_id e = r) es))"
    by (auto simp: overlap_errors_def first_overlap_None sorted_wrt_map split: option.split)
  then show ?thesis unfolding sorted_wrt_groups entries_overlap_def .
qed

definition holds_in_way :: "role_history_entry \<Rightarrow> member_role \<Rightarrow> bool" where
  "holds_in_way e mr \<longleftrightarrow> mr_role_id mr = rhe_id e \<and>
     ranges_overlap (rhe_startdate e) (rhe_enddate e) (mr_startdate mr) (mr_enddate mr)"

lemma holders_between_Nil:
  "holders_between db (rhe_id e) org except (rhe_startdate e) (rhe_enddate e) = [] \<longleftrightarrow>
     (\<forall>m \<in> set (rg_members db). columns m F_org_id = PStr org \<longrightarrow> except \<noteq> Some (member_id m) \<longrightarrow>
        (\<forall>mr \<in> set (member_roles m). \<not> holds_in_way e mr))"
  by (auto simp: holders_between_def holds_in_way_def ranges_overlap_def filter_empty_conv split: option.split)

lemma valid_periods:
  assumes "validate_roles_history db es org member = Inr ()"
  shows "sorted_wrt (\<lambda>a b. \<not> entries_overlap a b) es"
    and "\<And>e d. e \<in> set es \<Longrightarrow> rhe_enddate e = Some d \<Longrightarrow> rhe_startdate e < d"
    and "\<And>e m mr. e \<in> set es \<Longrightarrow> m \<in> set (rg_members db) \<Longrightarrow> columns m F_org_id = PStr org \<Longrightarrow>
      member \<noteq> Some (member_id m) \<Longrightarrow> mr \<in> set (member_roles m) \<Longrightarrow> \<not> holds_in_way e mr"
proof -
  have ok: "es = [] \<or> period_errors db es = [] \<and> overlap_errors db es = [] \<and> holder_errors db es org member = []"
    using assms by (auto simp: validate_roles_history_def split: if_split_asm)
  show "sorted_wrt (\<lambda>a b. \<not> entries_overlap a b) es" using ok by (auto simp: overlap_errors_Nil)
  show "rhe_startdate e < d" if "e \<in> set es" "rhe_enddate e = Some d" for e d
    using ok that by (fastforce simp: period_errors_def split: if_split_asm)
  show "\<not> holds_in_way e mr" if "e \<in> set es" "m \<in> set (rg_members db)" "columns m F_org_id = PStr org"
      "member \<noteq> Some (member_id m)" "mr \<in> set (member_roles m)" for e m mr
  proof -
    have "holder_errors db es org member = []" using ok that(1) by auto
    then have "holders_between db (rhe_id e) org member (rhe_startdate e) (rhe_enddate e) = []"
      using that(1) by (cases "holders_between db (rhe_id e) org member (rhe_startdate e) (rhe_enddate e)")
        (auto simp: holder_errors_def split: list.split_asm)
    then show ?thesis using that by (simp add: holders_between_Nil)
  qed
qed

section \<open>What a save leaves behind\<close>

definition roles_of_request :: "register_db \<Rightarrow> role_history_entry list \<Rightarrow> member_role list" where
  "roles_of_request db es = map (\<lambda>e. \<lparr>mr_role_id = rhe_id e, mr_startdate = rhe_startdate e,
     mr_enddate = rhe_enddate e, mr_role = get_by role_id (rg_roles db) (rhe_id e)\<rparr>) es"

definition row_of_request :: "environment \<Rightarrow> register_db \<Rightarrow> member \<Rightarrow> member \<Rightarrow> save_request \<Rightarrow> member" where
  "row_of_request rv db user m data = m\<lparr>columns := row_after rv user (columns m) (input_columns (sr_values data)),
     member_roles := roles_of_request db (sr_roles_history data), member_badges := sr_badges data,
     member_keys := sr_keys data\<rparr>"

definition list_change :: "string \<Rightarrow> diff_value \<Rightarrow> diff_value \<Rightarrow> diff" where
  "list_change k old new = (if old \<noteq> new then [(k, old, new)] else [])"

definition list_changes :: "member \<Rightarrow> save_request \<Rightarrow> diff" where
  "list_changes m data =
     list_change ''badges'' (Item_list (item_view (member_badges m))) (Item_list (item_view (sr_badges data))) @
     list_change ''keys'' (Item_list (item_view (member_keys m))) (Item_list (item_view (sr_keys data))) @
     list_change ''roles_history'' (Role_list (role_view (held_entries m)))
       (Role_list (role_view (wanted_entries (sr_roles_history data))))"

definition same_register_tables :: "register_db \<Rightarrow> register_db \<Rightarrow> bool" where
  "same_register_tables db db' \<longleftrightarrow> rg_orgs db' = rg_orgs db \<and> rg_states db' = rg_states db \<and> rg_roles db' = rg_roles db \<and>
     rg_badges db' = rg_badges db \<and> rg_keys db' = rg_keys db \<and> change_requests db' = change_requests db \<and>
     contacts db' = contacts db \<and> contact_logs db' = contact_logs db \<and> rg_next_id db \<le> rg_next_id db'"

definition save_accepted :: "register_db \<Rightarrow> member \<Rightarrow> save_request \<Rightarrow> bool" where
  "save_accepted db m' data \<longleftrightarrow> member_row_ok db m' \<and>
     items_ok (badge_id ` set (rg_badges db)) (sr_badges data) \<and> items_ok (key_id ` set (rg_keys db)) (sr_keys data) \<and>
     role_rows_ok db (sr_roles_history data) \<and>
     sorted_wrt (\<lambda>a b. \<not> entries_overlap a b) (sr_roles_history data) \<and>
     (\<forall>e \<in> set (sr_roles_history data). \<forall>x \<in> set (rg_members db). \<forall>mr \<in> set (member_roles x).
        columns x F_org_id = PStr (value_or_empty (columns m' F_org_id)) \<longrightarrow> member_id x \<noteq> member_id m' \<longrightarrow>
        \<not> holds_in_way e mr)"

lemma member_row_ok_cong: "columns a = columns b \<Longrightarrow> member_id a = member_id b \<Longrightarrow> member_row_ok db a = member_row_ok db b"
  unfolding member_row_ok_def same_address_def text_col_def uuid_col_def by (simp cong: option.case_cong)

lemma record_role_changes_frame [simp]:
  "rg_members (record_role_changes now k b a u db) = rg_members db"
  "rg_orgs (record_role_changes now k b a u db) = rg_orgs db" "rg_states (record_role_changes now k b a u db) = rg_states db"
  "rg_roles (record_role_changes now k b a u db) = rg_roles db" "rg_badges (record_role_changes now k b a u db) = rg_badges db"
  "rg_keys (record_role_changes now k b a u db) = rg_keys db" "member_logs (record_role_changes now k b a u db) = member_logs db"
  "change_requests (record_role_changes now k b a u db) = change_requests db"
  "contacts (record_role_changes now k b a u db) = contacts db" "contact_logs (record_role_changes now k b a u db) = contact_logs db"
  "rg_next_id (record_role_changes now k b a u db) = rg_next_id db + length (diff_role_entries b a)"
  by (simp_all add: record_role_changes_def Let_def)

lemma add_member_logs_frame [simp]:
  "rg_members (add_member_logs k d a u now db) = rg_members db"
  "rg_orgs (add_member_logs k d a u now db) = rg_orgs db" "rg_states (add_member_logs k d a u now db) = rg_states db"
  "rg_roles (add_member_logs k d a u now db) = rg_roles db" "rg_badges (add_member_logs k d a u now db) = rg_badges db"
  "rg_keys (add_member_logs k d a u now db) = rg_keys db" "role_events (add_member_logs k d a u now db) = role_events db"
  "change_requests (add_member_logs k d a u now db) = change_requests db"
  "contacts (add_member_logs k d a u now db) = contacts db" "contact_logs (add_member_logs k d a u now db) = contact_logs db"
  "rg_next_id db \<le> rg_next_id (add_member_logs k d a u now db)"
  by (simp_all add: add_member_logs_def Let_def)

lemma constraint_Inr [simp]: "constraint b = Inr u \<longleftrightarrow> b"
  by (simp add: constraint_def)

definition synced_events :: "environment \<Rightarrow> member \<Rightarrow> save_request \<Rightarrow> member \<Rightarrow> register_db \<Rightarrow> register_db" where
  "synced_events rv m data user db =
     (if role_view (held_entries m) \<noteq> role_view (wanted_entries (sr_roles_history data))
      then record_role_changes (rv_now rv) (member_id m) (held_entries m) (wanted_entries (sr_roles_history data)) (Some (member_id user)) db
      else db)"

lemma synced_events_store [simp]: "synced_events rv m data user (store_member x db) = store_member x (synced_events rv m data user db)"
  by (simp add: synced_events_def record_role_changes_def store_member_def Let_def)

definition logged :: "environment \<Rightarrow> member \<Rightarrow> diff \<Rightarrow> string \<Rightarrow> member \<Rightarrow> register_db \<Rightarrow> register_db" where
  "logged rv m d action user db =
     (if d = [] then db else add_member_logs (member_id m) d action (member_id user) (rv_now rv) db)"

lemma sync_eqs:
  "sync_badges items m d =
     (d @ list_change ''badges'' (Item_list (item_view (member_badges m))) (Item_list (item_view items)), m\<lparr>member_badges := items\<rparr>)"
  "sync_keys items m d =
     (d @ list_change ''keys'' (Item_list (item_view (member_keys m))) (Item_list (item_view items)), m\<lparr>member_keys := items\<rparr>)"
  "sync_roles (rv_now rv) (member_id user) (sr_roles_history data) m d db =
     (d @ list_change ''roles_history'' (Role_list (role_view (held_entries m)))
        (Role_list (role_view (wanted_entries (sr_roles_history data)))),
      m\<lparr>member_roles := roles_of_request db (sr_roles_history data)\<rparr>, synced_events rv m data user db)"
  by (simp_all add: sync_badges_def sync_keys_def sync_roles_def list_change_def roles_of_request_def synced_events_def Let_def)

lemma synced_events_cong:
  "member_roles a = member_roles b \<Longrightarrow> member_id a = member_id b \<Longrightarrow> synced_events rv a data user db = synced_events rv b data user db"
  by (simp add: synced_events_def held_entries_def)

text \<open>The row before the badges, keys and roles are written.\<close>

definition row_with_columns :: "environment \<Rightarrow> member \<Rightarrow> member \<Rightarrow> save_request \<Rightarrow> member" where
  "row_with_columns rv user m data = m\<lparr>columns := row_after rv user (columns m) (input_columns (sr_values data))\<rparr>"

definition diff_of_request :: "member \<Rightarrow> save_request \<Rightarrow> diff" where
  "diff_of_request m data = column_diff (row_changes (columns m) (input_columns (sr_values data))) @ list_changes m data"

definition db_after_save :: "environment \<Rightarrow> register_db \<Rightarrow> member \<Rightarrow> member \<Rightarrow> save_request \<Rightarrow> register_db" where
  "db_after_save rv db user m data =
     logged rv m (diff_of_request m data) (if get_member db (member_id m) = None then ''create'' else ''update'') user
       (store_member (row_of_request rv db user m data) (synced_events rv m data user (store_member (row_with_columns rv user m data) db)))"

lemma apply_member_input_Inr:
  assumes "typed_columns (columns m)" "typed_columns (sr_values data)"
  shows "apply_member_input rv db m data user = Inr r \<longleftrightarrow>
    member_row_ok db (row_with_columns rv user m data) \<and> items_ok (badge_id ` set (rg_badges db)) (sr_badges data) \<and>
    items_ok (key_id ` set (rg_keys db)) (sr_keys data) \<and>
    validate_roles_history (store_member (row_with_columns rv user m data) db) (sr_roles_history data)
      (value_or_empty (sr_values data F_org_id)) (Some (member_id m)) = Inr () \<and>
    role_rows_ok db (sr_roles_history data) \<and>
    r = (db_after_save rv db user m data, row_of_request rv db user m data, diff_of_request m data)"
proof -
  let ?new = "input_columns (sr_values data)"
  let ?m1 = "row_with_columns rv user m data"
  let ?db1 = "store_member ?m1 db"
  have s: "saved_columns ?new m (member_id user) (rv_now rv) = (row_changes (columns m) ?new, ?m1)"
    unfolding row_with_columns_def by (rule saved_columns_eq) (use assms input_typed in auto)
  have roles: "roles_of_request ?db1 es = roles_of_request db es" for es by (simp add: roles_of_request_def)
  have row: "?m1\<lparr>member_badges := sr_badges data, member_keys := sr_keys data,
      member_roles := roles_of_request db (sr_roles_history data)\<rparr> = row_of_request rv db user m data"
    by (simp add: row_of_request_def row_with_columns_def)
  have events: "synced_events rv (?m1\<lparr>member_badges := sr_badges data, member_keys := sr_keys data\<rparr>) data user ?db1 =
      synced_events rv m data user ?db1"
    by (rule synced_events_cong) (simp_all add: row_with_columns_def)
  have held: "held_entries (?m1\<lparr>member_badges := sr_badges data, member_keys := sr_keys data\<rparr>) = held_entries m"
    "member_id ?m1 = member_id m" "member_badges ?m1 = member_badges m" "member_keys ?m1 = member_keys m"
    by (simp_all add: held_entries_def row_with_columns_def)
  have org: "columns ?m1 F_org_id = sr_values data F_org_id"
    by (simp add: row_with_columns_def row_after_saved saved input_columns_def lock_departed_def lock_without_address_def
        clear_dismissal_def clear_death_def)
  show ?thesis
    unfolding apply_member_input_def s Let_def split_beta fst_conv snd_conv sync_eqs roles row events held org
    by (auto simp: constraint_def bind_res_eq_Inr db_after_save_def diff_of_request_def list_changes_def logged_def held simp del: synced_events_store split: if_split_asm)
qed

lemma row_of_request_eq:
  "row_of_request rv db user m data = (row_with_columns rv user m data)\<lparr>member_roles := roles_of_request db (sr_roles_history data),
     member_badges := sr_badges data, member_keys := sr_keys data\<rparr>"
  by (simp add: row_of_request_def row_with_columns_def)

lemma apply_member_input_eq:
  assumes "typed_columns (columns m)" "typed_columns (sr_values data)"
    and "apply_member_input rv db m data user = Inr (db', m', d)"
  shows "m' = row_of_request rv db user m data" "d = diff_of_request m data" "db' = db_after_save rv db user m data"
    and "save_accepted db m' data"
proof -
  let ?m1 = "row_with_columns rv user m data"
  note facts = assms(3) [unfolded apply_member_input_Inr [OF assms(1,2)]]
  show out: "m' = row_of_request rv db user m data" "d = diff_of_request m data" "db' = db_after_save rv db user m data"
    using facts by simp_all
  have cols: "columns m' = columns ?m1" "member_id m' = member_id ?m1" "member_id m' = member_id m"
    by (simp_all add: out(1) row_of_request_def row_with_columns_def)
  have org: "columns m' F_org_id = sr_values data F_org_id"
    by (simp add: cols(1) row_with_columns_def row_after_saved saved input_columns_def lock_departed_def lock_without_address_def
        clear_dismissal_def clear_death_def)
  have w: "validate_roles_history (store_member ?m1 db) (sr_roles_history data) (value_or_empty (columns m' F_org_id)) (Some (member_id m')) = Inr ()"
    unfolding org cols(3) using facts by blast
  have "\<not> holds_in_way e mr" if "e \<in> set (sr_roles_history data)" "x \<in> set (rg_members db)" "mr \<in> set (member_roles x)"
      "columns x F_org_id = PStr (value_or_empty (columns m' F_org_id))" "member_id x \<noteq> member_id m'" for e x mr
  proof (rule valid_periods(3) [OF w that(1) _ _ _ that(3)])
    show "x \<in> set (rg_members (store_member ?m1 db))" using that(2,5) cols(2) by (simp add: set_store_member)
    show "columns x F_org_id = PStr (value_or_empty (columns m' F_org_id))" by (rule that(4))
    show "Some (member_id m') \<noteq> Some (member_id x)" using that(5) by simp
  qed
  then show "save_accepted db m' data"
    using facts valid_periods(1) [OF w] member_row_ok_cong [OF cols(1,2)] by (auto simp: save_accepted_def)
qed

lemma db_after_save_tables:
  "rg_members (db_after_save rv db user m data) = rg_members (store_member (row_of_request rv db user m data) db)"
  "same_register_tables db (db_after_save rv db user m data)"
  "role_events (db_after_save rv db user m data) = role_events (synced_events rv m data user db)"
proof -
  have "rg_members (store_member (row_of_request rv db user m data) (store_member (row_with_columns rv user m data) db)) =
      rg_members (store_member (row_of_request rv db user m data) db)"
    by (rule store_member_twice) (simp add: row_of_request_def row_with_columns_def)
  moreover have "rg_members (store_member x (synced_events rv m data user db1)) = rg_members (store_member x db1)" for db1 x
    by (simp add: synced_events_def store_member_def)
  ultimately show "rg_members (db_after_save rv db user m data) = rg_members (store_member (row_of_request rv db user m data) db)"
    by (simp add: db_after_save_def logged_def del: synced_events_store)
  show "same_register_tables db (db_after_save rv db user m data)"
    "role_events (db_after_save rv db user m data) = role_events (synced_events rv m data user db)"
    by (auto simp: db_after_save_def logged_def same_register_tables_def synced_events_def record_role_changes_def Let_def
        intro: order_trans [OF _ add_member_logs_frame(11)])
qed

lemma apply_member_input_tables:
  assumes "typed_columns (columns m)" "typed_columns (sr_values data)"
    and "apply_member_input rv db m data user = Inr (db', m', d)"
  shows "rg_members db' = rg_members (store_member m' db)" "same_register_tables db db'"
    "role_events db' = role_events (synced_events rv m data user db)"
  by (simp_all add: apply_member_input_eq [OF assms] db_after_save_tables)

section \<open>The chain of Leibverhaeltnisse\<close>

definition member_par :: "register_db \<Rightarrow> uuid \<Rightarrow> uuid option" where
  "member_par db k = Option.bind (get_member db k) (\<lambda>m. uuid_col m F_parent_id)"

definition set_member_parent :: "uuid \<Rightarrow> uuid option \<Rightarrow> register_db \<Rightarrow> register_db" where
  "set_member_parent k t db = db\<lparr>rg_members := update_where (\<lambda>m. member_id m = k)
     (set_col F_parent_id (case t of None \<Rightarrow> PNone | Some u \<Rightarrow> PUuid u)) (rg_members db)\<rparr>"

definition parent_blocked :: "register_db \<Rightarrow> uuid \<Rightarrow> uuid \<Rightarrow> bool" where
  "parent_blocked db t d = (case get_member db t of None \<Rightarrow> t = d | Some p \<Rightarrow> is_self_or_ancestor db p d)"

lemma get_member_D: "get_member db k = Some m \<Longrightarrow> m \<in> set (rg_members db) \<and> member_id m = k"
  unfolding get_member_def by (rule get_by_SomeD)

lemma get_member_self:
  "distinct (map member_id (rg_members db)) \<Longrightarrow> m \<in> set (rg_members db) \<Longrightarrow> get_member db (member_id m) = Some m"
  unfolding get_member_def by (rule get_by_distinct)

lemma parent_member_eq:
  "get_member db k = Some m \<Longrightarrow> parent_member db m = Option.bind (member_par db k) (get_member db)"
  by (simp add: parent_member_def member_par_def)

lemma leib_walk_sound:
  "leib_walk db seen cur k \<Longrightarrow> \<exists>m. cur = Some m \<and>
     (get_member db (member_id m) = Some m \<longrightarrow> (member_id m, k) \<in> (parent_rel (member_par db))\<^sup>*)"
proof (induction db seen cur k rule: leib_walk.induct)
  case (1 db seen k)
  then show ?case by simp
next
  case (2 db seen m k)
  have step: "(member_id m, k) \<in> (parent_rel (member_par db))\<^sup>*" if m: "get_member db (member_id m) = Some m"
  proof (cases "member_id m = k")
    case False
    have new: "member_id m \<notin> seen" using "2.prems" by (auto split: if_split_asm)
    have walk: "leib_walk db (insert (member_id m) seen) (parent_member db m) k"
      using "2.prems" new False by (simp del: leib_walk.simps add: leib_walk.simps(2))
    obtain p where p: "parent_member db m = Some p" and
        above: "get_member db (member_id p) = Some p \<longrightarrow> (member_id p, k) \<in> (parent_rel (member_par db))\<^sup>*"
      using "2.IH" [OF new False walk] by blast
    obtain t where t: "member_par db (member_id m) = Some t" "get_member db t = Some p"
      using p unfolding parent_member_eq [OF m] by (auto simp: bind_eq_Some_conv)
    then have "t = member_id p" using get_member_D by blast
    then have "(member_id m, member_id p) \<in> parent_rel (member_par db)" "(member_id p, k) \<in> (parent_rel (member_par db))\<^sup>*"
      using t above by simp_all
    then show ?thesis by (rule converse_rtrancl_into_rtrancl)
  qed simp
  then show ?case by blast
qed

lemma no_way_out:
  assumes "(v, k) \<in> (parent_rel par)\<^sup>*" "v \<in> S" "\<And>a p. a \<in> S \<Longrightarrow> par a = Some p \<Longrightarrow> p \<in> S"
  shows "k \<in> S"
  using assms by (induction rule: rtrancl_induct) auto

lemma leib_walk_complete:
  assumes "\<not> leib_walk db seen cur k" "k \<notin> seen" "get_member db k \<noteq> None"
    and "\<And>v p. v \<in> seen \<Longrightarrow> member_par db v = Some p \<Longrightarrow> p \<in> seen \<or> get_member db p = None \<or> cur = get_member db p"
    and "\<And>m. cur = Some m \<Longrightarrow> get_member db (member_id m) = Some m"
    and "v \<in> seen \<or> get_member db v = None \<or> cur = get_member db v"
  shows "(v, k) \<notin> (parent_rel (member_par db))\<^sup>*"
  using assms
proof (induction db seen cur k arbitrary: v rule: leib_walk.induct)
  case (1 db seen k)
  show ?case
  proof
    assume "(v, k) \<in> (parent_rel (member_par db))\<^sup>*"
    then have "k \<in> seen \<union> {p. get_member db p = None}"
    proof (rule no_way_out)
      show "v \<in> seen \<union> {p. get_member db p = None}" using "1.prems"(6) by auto
      show "p \<in> seen \<union> {p. get_member db p = None}" if "a \<in> seen \<union> {p. get_member db p = None}" "member_par db a = Some p" for a p
        using that "1.prems"(4) [of a p] by (auto simp: member_par_def)
    qed
    then show False using "1.prems"(2,3) by simp
  qed
next
  case (2 db seen m k)
  have m: "get_member db (member_id m) = Some m" using "2.prems"(5) by simp
  show ?case
  proof (cases "member_id m \<in> seen")
    case True
    show ?thesis
    proof
      assume "(v, k) \<in> (parent_rel (member_par db))\<^sup>*"
      then have "k \<in> seen \<union> {p. get_member db p = None}"
      proof (rule no_way_out)
        show "v \<in> seen \<union> {p. get_member db p = None}"
          using "2.prems"(6) True get_member_D [of db v m] by auto
        show "p \<in> seen \<union> {p. get_member db p = None}" if "a \<in> seen \<union> {p. get_member db p = None}" "member_par db a = Some p" for a p
          using that "2.prems"(4) [of a p] True get_member_D [of db p m] by (auto simp: member_par_def)
      qed
      then show False using "2.prems"(2,3) by simp
    qed
  next
    case False
    have ne: "member_id m \<noteq> k" "\<not> leib_walk db (insert (member_id m) seen) (parent_member db m) k"
      using "2.prems"(1) False by (auto split: if_split_asm)
    have par: "parent_member db m = Option.bind (member_par db (member_id m)) (get_member db)"
      by (rule parent_member_eq [OF m])
    show ?thesis
    proof (rule "2.IH" [OF False ne])
      show "k \<notin> insert (member_id m) seen" using "2.prems"(2) ne(1) by simp
      show "get_member db k \<noteq> None" by (rule "2.prems"(3))
      show "p \<in> insert (member_id m) seen \<or> get_member db p = None \<or> parent_member db m = get_member db p"
        if "a \<in> insert (member_id m) seen" "member_par db a = Some p" for a p
        using that "2.prems"(4) [of a p] get_member_D [of db p m] by (auto simp: par)
      show "get_member db (member_id p) = Some p" if "parent_member db m = Some p" for p
        using that get_member_D unfolding par by (fastforce simp: bind_eq_Some_conv)
      show "v \<in> insert (member_id m) seen \<or> get_member db v = None \<or> parent_member db m = get_member db v"
        using "2.prems"(6) get_member_D [of db v m] by auto
    qed
  qed
qed

lemma is_self_or_ancestor_iff:
  assumes "get_member db t = Some p" "get_member db k \<noteq> None"
  shows "is_self_or_ancestor db p k \<longleftrightarrow> (t, k) \<in> (parent_rel (member_par db))\<^sup>*"
proof -
  have t: "member_id p = t" "get_member db (member_id p) = Some p" using get_member_D [OF assms(1)] assms(1) by simp_all
  show ?thesis
    using leib_walk_sound [of db "{}" "Some p" k] leib_walk_complete [of db "{}" "Some p" k t] t assms
    unfolding is_self_or_ancestor_def by (auto simp del: leib_walk.simps)
qed

lemma member_par_set:
  "get_member db d \<noteq> None \<Longrightarrow> member_par (set_member_parent d t db) = (member_par db)(d := t)"
proof -
  assume d: "get_member db d \<noteq> None"
  have upd: "get_member (set_member_parent d t db) k =
      map_option (\<lambda>m. if member_id m = d then set_col F_parent_id (case t of None \<Rightarrow> PNone | Some u \<Rightarrow> PUuid u) m else m)
        (get_member db k)" for k
    by (simp add: get_member_def set_member_parent_def get_by_update_where_same_key)
  show ?thesis
  proof
    fix k
    show "member_par (set_member_parent d t db) k = ((member_par db)(d := t)) k"
    proof (cases "get_member db k")
      case None
      then show ?thesis using d by (auto simp: member_par_def upd)
    next
      case (Some m)
      then have "member_id m = k" using get_member_D by blast
      then show ?thesis using Some by (auto simp: member_par_def upd uuid_col_def split: option.split)
    qed
  qed
qed

interpretation register: guarded_parent_store member_par set_member_parent "\<lambda>db k. get_member db k \<noteq> None" parent_blocked
proof
  show "get_member s d \<noteq> None \<Longrightarrow> member_par (set_member_parent d t s) = (member_par s)(d := t)" for s d t
    by (rule member_par_set)
  show "(get_member (set_member_parent d t s) k \<noteq> None) = (get_member s k \<noteq> None)" for s d t k
    by (simp add: get_member_def set_member_parent_def get_by_update_where_same_key)
  show "parent_blocked s t d = (t = d \<or> (t, d) \<in> (parent_rel (member_par s))\<^sup>+)" if "get_member s d \<noteq> None" for s d t
  proof (cases "get_member s t")
    case None
    then have "(t, d) \<notin> (parent_rel (member_par s))\<^sup>+"
      by (auto simp: member_par_def dest!: tranclD)
    then show ?thesis by (simp add: parent_blocked_def None)
  next
    case (Some p)
    then show ?thesis
      using is_self_or_ancestor_iff [OF Some that] by (auto simp: parent_blocked_def rtrancl_eq_or_trancl)
  qed
qed

end
