(* ===== verification/Register_Steps.thy ===== *)
theory Register_Steps
  imports Register_Invariant
begin

text \<open>
  The invariant of the register and its preservation by every operation on members, contacts and
  change requests.
\<close>

section \<open>The invariant\<close>

text \<open>The rules of the form as a condition on a row.\<close>

definition form_rules :: "(member_field \<Rightarrow> pyval) \<Rightarrow> bool" where
  "form_rules vs \<longleftrightarrow>
     (vs F_entlassen = PBool True \<or> vs F_verstorben = PBool True \<longrightarrow> vs F_auth_locked = PBool True \<and>
        vs F_zustellungen = PStr ''deaktiviert'' \<and> vs F_chroniclemail = PBool False) \<and>
     (value_or_empty (vs F_email) = [] \<longrightarrow> vs F_auth_locked = PBool True) \<and>
     (vs F_entlassen \<noteq> PBool True \<longrightarrow> vs F_entlassungsdatum = PNone \<and> vs F_entlassungsdatum_accuracy = PInt 0) \<and>
     (vs F_verstorben \<noteq> PBool True \<longrightarrow> vs F_sterbedatum = PNone \<and> vs F_sterbedatum_accuracy = PInt 0 \<and> vs F_grabadresse = PNone)"

definition row_ok :: "member \<Rightarrow> bool" where
  "row_ok m \<longleftrightarrow> typed_columns (columns m) \<and> form_rules (columns m) \<and>
     distinct (map (\<lambda>r. (mr_role_id r, mr_startdate r)) (member_roles m)) \<and>
     (\<forall>r \<in> set (member_roles m). valid_date (mr_startdate r) \<and>
        (\<forall>e. mr_enddate r = Some e \<longrightarrow> valid_date e \<and> mr_startdate r < e))"

definition roles_overlap :: "member_role \<Rightarrow> member_role \<Rightarrow> bool" where
  "roles_overlap a b \<longleftrightarrow> mr_role_id a = mr_role_id b \<and>
     ranges_overlap (mr_startdate a) (mr_enddate a) (mr_startdate b) (mr_enddate b)"

definition one_holder :: "register_db \<Rightarrow> bool" where
  "one_holder db \<longleftrightarrow> (\<forall>m1 \<in> set (rg_members db). \<forall>m2 \<in> set (rg_members db).
     \<forall>r1 \<in> set (member_roles m1). \<forall>r2 \<in> set (member_roles m2). \<forall>org.
       columns m1 F_org_id = PStr org \<longrightarrow> columns m2 F_org_id = PStr org \<longrightarrow> roles_overlap r1 r2 \<longrightarrow> m1 = m2 \<and> r1 = r2)"

definition members_ok :: "register_db \<Rightarrow> bool" where
  "members_ok db \<longleftrightarrow> distinct (map member_id (rg_members db)) \<and>
     (\<forall>m \<in> set (rg_members db). row_ok m) \<and>
     (\<forall>a \<in> set (rg_members db). \<forall>b \<in> set (rg_members db). member_id a \<noteq> member_id b \<longrightarrow>
        name_key (columns a) \<noteq> name_key (columns b) \<and> \<not> same_address a b) \<and>
     (\<forall>m \<in> set (rg_members db). \<forall>p. uuid_col m F_parent_id = Some p \<longrightarrow> p \<in> member_id ` set (rg_members db)) \<and>
     no_cycle (member_par db) \<and> one_holder db"

definition requests_ok :: "register_db \<Rightarrow> bool" where
  "requests_ok db \<longleftrightarrow> distinct (map cr_id (change_requests db)) \<and>
     (\<forall>r \<in> set (change_requests db). cr_member_id r \<in> member_id ` set (rg_members db) \<and> cr_proposed_data r \<noteq> [] \<and>
        fst ` set (cr_proposed_data r) \<subseteq> set SELF_SERVICE_FIELDS \<and> (cr_status r = Pending \<longleftrightarrow> cr_field_decisions r = None)) \<and>
     (\<forall>a \<in> set (change_requests db). \<forall>b \<in> set (change_requests db).
        cr_status a = Pending \<longrightarrow> cr_status b = Pending \<longrightarrow> cr_member_id a = cr_member_id b \<longrightarrow> a = b)"

definition contacts_ok :: "register_db \<Rightarrow> bool" where
  "contacts_ok db \<longleftrightarrow> distinct (map contact_id (contacts db)) \<and>
     (\<forall>a \<in> set (contacts db). \<forall>b \<in> set (contacts db). contact_id a \<noteq> contact_id b \<longrightarrow>
        contact_deleted_at a = None \<longrightarrow> contact_deleted_at b = None \<longrightarrow>
        lower (contact_text a K_name) \<noteq> lower (contact_text b K_name))"

definition ids_ok :: "register_db \<Rightarrow> bool" where
  "ids_ok db \<longleftrightarrow> (\<forall>k \<in> member_id ` set (rg_members db) \<union> cr_id ` set (change_requests db) \<union>
     contact_id ` set (contacts db). k < rg_next_id db)"

definition register_ok :: "register_db \<Rightarrow> bool" where
  "register_ok db \<longleftrightarrow> members_ok db \<and> requests_ok db \<and> contacts_ok db \<and> ids_ok db"

section \<open>Saving a row keeps the members in order\<close>

lemma form_rules_input: "form_rules (input_columns vs)"
  by (simp add: form_rules_def input_columns_def lock_departed_def lock_without_address_def clear_dismissal_def clear_death_def)

lemma input_keeps:
  "input_columns vs F_parent_id = vs F_parent_id" "input_columns vs F_org_id = vs F_org_id"
  "input_columns vs F_email = vs F_email" "name_key (input_columns vs) = name_key vs"
  by (simp_all add: input_columns_def lock_departed_def lock_without_address_def clear_dismissal_def clear_death_def name_key_def)

lemma form_rules_cong: "(\<And>f. f \<in> set SAVE_FIELDS \<Longrightarrow> a f = b f) \<Longrightarrow> form_rules a = form_rules b"
  by (simp add: form_rules_def SAVE_FIELDS_def)

lemma typed_columns_cong: "(\<And>f. f \<in> set SAVE_FIELDS \<Longrightarrow> a f = b f) \<Longrightarrow> typed_columns a = typed_columns b"
  by (simp add: typed_columns_def)

lemma saved_row:
  assumes "m' = row_of_request rv db user m data"
  shows "member_id m' = member_id m" "\<And>f. f \<in> set SAVE_FIELDS \<Longrightarrow> columns m' f = input_columns (sr_values data) f"
    "columns m' F_org_id = sr_values data F_org_id" "uuid_col m' F_parent_id = parent_given data"
    "name_key (columns m') = name_key (sr_values data)" "member_roles m' = roles_of_request db (sr_roles_history data)"
proof -
  show cols: "columns m' f = input_columns (sr_values data) f" if "f \<in> set SAVE_FIELDS" for f
    using that by (simp add: assms row_of_request_def row_after_saved)
  show "member_id m' = member_id m" "member_roles m' = roles_of_request db (sr_roles_history data)"
    by (simp_all add: assms row_of_request_def)
  show "columns m' F_org_id = sr_values data F_org_id" by (simp add: cols saved input_keeps)
  show "uuid_col m' F_parent_id = parent_given data"
    by (simp add: uuid_col_def parent_given_def cols saved input_keeps)
  have "name_key (columns m') = name_key (input_columns (sr_values data))" by (simp add: name_key_def cols saved)
  then show "name_key (columns m') = name_key (sr_values data)" by (simp add: input_keeps)
qed

lemma saved_row_ok:
  assumes "m' = row_of_request rv db user m data" "typed_columns (sr_values data)" "role_rows_ok db (sr_roles_history data)"
    and dates: "list_all entry_dates_ok (sr_roles_history data)"
  shows "row_ok m'"
proof -
  note row = saved_row [OF assms(1)]
  have "typed_columns (columns m')" using typed_columns_cong [of "columns m'", OF row(2)] input_typed [OF assms(2)] by simp
  moreover have "form_rules (columns m')" using form_rules_cong [of "columns m'", OF row(2)] form_rules_input by simp
  moreover have "distinct (map (\<lambda>r. (mr_role_id r, mr_startdate r)) (member_roles m'))"
    using assms(3) by (simp add: row(6) roles_of_request_def role_rows_ok_def comp_def)
  moreover have "\<forall>r \<in> set (member_roles m'). valid_date (mr_startdate r) \<and>
      (\<forall>e. mr_enddate r = Some e \<longrightarrow> valid_date e \<and> mr_startdate r < e)"
    using assms(3) dates by (fastforce simp: row(6) roles_of_request_def role_rows_ok_def entry_dates_ok_def list_all_iff)
  ultimately show ?thesis by (simp add: row_ok_def)
qed

lemma sorted_wrt_two: "sorted_wrt R xs \<Longrightarrow> a \<in> set xs \<Longrightarrow> b \<in> set xs \<Longrightarrow> a \<noteq> b \<Longrightarrow> R a b \<or> R b a"
  by (induction xs) auto

lemma one_holder_save:
  assumes "one_holder db" "save_accepted db m' data" "member_roles m' = roles_of_request db (sr_roles_history data)"
    and "set (rg_members db') = insert m' {x \<in> set (rg_members db). member_id x \<noteq> member_id m'}"
  shows "one_holder db'"
proof -
  let ?es = "sr_roles_history data"
  have own: "r1 = r2" if rs: "r1 \<in> set (member_roles m')" "r2 \<in> set (member_roles m')" "roles_overlap r1 r2" for r1 r2
  proof -
    obtain e1 e2 where e: "e1 \<in> set ?es" "e2 \<in> set ?es" "mr_role_id r1 = rhe_id e1" "mr_role_id r2 = rhe_id e2"
        "mr_startdate r1 = rhe_startdate e1" "mr_enddate r1 = rhe_enddate e1"
        "mr_startdate r2 = rhe_startdate e2" "mr_enddate r2 = rhe_enddate e2"
        "e1 = e2 \<Longrightarrow> r1 = r2"
      using rs(1,2) assms(3) by (auto simp: roles_of_request_def)
    have "entries_overlap e1 e2" "entries_overlap e2 e1"
      using rs(3) e ranges_overlap_sym by (auto simp: entries_overlap_def roles_overlap_def)
    then have "e1 = e2" using sorted_wrt_two [OF _ e(1,2)] assms(2) by (auto simp: save_accepted_def)
    then show ?thesis by (rule e(9))
  qed
  have other: "\<not> roles_overlap r x" "\<not> roles_overlap x r"
    if rs: "r \<in> set (member_roles m')" "x \<in> set (member_roles y)" "y \<in> set (rg_members db)" "member_id y \<noteq> member_id m'"
      "columns m' F_org_id = PStr org" "columns y F_org_id = PStr org" for r x y org
  proof -
    obtain e where e: "e \<in> set ?es" "mr_role_id r = rhe_id e" "mr_startdate r = rhe_startdate e" "mr_enddate r = rhe_enddate e"
      using rs(1) assms(3) by (auto simp: roles_of_request_def)
    have "columns y F_org_id = PStr (value_or_empty (columns m' F_org_id))" using rs(5,6) by (simp add: value_or_empty_def)
    then have "\<not> holds_in_way e x" using assms(2) e(1) rs(2-4) unfolding save_accepted_def by blast
    then show "\<not> roles_overlap r x" "\<not> roles_overlap x r"
      using e(2-4) ranges_overlap_sym by (auto simp: holds_in_way_def roles_overlap_def)
  qed
  show ?thesis
    unfolding one_holder_def assms(4) using assms(1) own other by (fastforce simp: one_holder_def)
qed

definition name_free :: "register_db \<Rightarrow> uuid \<Rightarrow> save_request \<Rightarrow> bool" where
  "name_free db k data \<longleftrightarrow> (\<forall>x \<in> set (rg_members db). member_id x \<noteq> k \<longrightarrow> name_key (columns x) \<noteq> name_key (sr_values data))"

lemma members_save:
  assumes ok: "members_ok db" and row: "m' = row_of_request rv db user m data" "save_accepted db m' data" "typed_columns (sr_values data)"
      "list_all entry_dates_ok (sr_roles_history data)"
    and db': "rg_members db' = rg_members (store_member m' db)"
    and name: "name_free db (member_id m) data"
    and parent: "no_cycle ((member_par db)(member_id m := parent_given data))"
  shows "members_ok db'"
proof -
  note sr = saved_row [OF row(1)]
  have set': "set (rg_members db') = insert m' {x \<in> set (rg_members db). member_id x \<noteq> member_id m'}"
    by (simp add: db' set_store_member)
  have row_db: "member_row_ok db m'" "role_rows_ok db (sr_roles_history data)" using row(2) by (simp_all add: save_accepted_def)
  have "distinct (map member_id (rg_members db'))"
    using ok distinct_store_member by (simp add: members_ok_def db')
  moreover have "row_ok x" if "x \<in> set (rg_members db')" for x
    using that ok saved_row_ok [OF row(1,3) row_db(2) row(4)] by (auto simp: set' members_ok_def)
  moreover have "name_key (columns a) \<noteq> name_key (columns b) \<and> \<not> same_address a b"
    if ab: "a \<in> set (rg_members db')" "b \<in> set (rg_members db')" "member_id a \<noteq> member_id b" for a b
  proof -
    have new: "name_key (columns x) \<noteq> name_key (columns m') \<and> \<not> same_address x m'" if "x \<in> set (rg_members db)" "member_id x \<noteq> member_id m'" for x
      using that name row_db(1) by (simp add: name_free_def sr(1,5) member_row_ok_def)
    have sym: "same_address x m' = same_address m' x" for x by (auto simp: same_address_def split: option.split)
    consider "a \<in> set (rg_members db)" "b \<in> set (rg_members db)" | "a = m'" "b \<in> set (rg_members db)" | "b = m'" "a \<in> set (rg_members db)"
      using ab by (auto simp: set')
    then show ?thesis
    proof cases
      case 1
      then show ?thesis using ok ab(3) by (simp add: members_ok_def)
    next
      case 2
      then show ?thesis using new [of b] ab(3) sym [of b] by metis
    next
      case 3
      then show ?thesis using new [of a] ab(3) by metis
    qed
  qed
  moreover have "p \<in> member_id ` set (rg_members db')" if "x \<in> set (rg_members db')" "uuid_col x F_parent_id = Some p" for x p
  proof -
    have "p \<in> member_id ` set (rg_members db)"
      using that ok row_db(1) by (auto simp: set' members_ok_def member_row_ok_def)
    then show ?thesis by (auto simp: set')
  qed
  moreover have "no_cycle (member_par db')"
  proof -
    have "get_member db' k = (if k = member_id m' then Some m' else get_member db k)" for k
      using get_store_member [of m' db k] by (simp add: get_member_def db')
    then have "member_par db' = (member_par db)(member_id m := parent_given data)"
      using sr(1,4) by (auto simp: member_par_def)
    then show ?thesis using parent by simp
  qed
  moreover have "one_holder db'"
    by (rule one_holder_save [OF _ row(2) sr(6) set']) (use ok in \<open>simp add: members_ok_def\<close>)
  ultimately show ?thesis by (simp add: members_ok_def)
qed

section \<open>The operations\<close>

lemma uniqueness_checked: "validate_member_uniqueness db data ex = Inr u \<Longrightarrow> (\<And>k. ex = Some k \<Longrightarrow> k = n) \<Longrightarrow>
    (ex = None \<Longrightarrow> n \<notin> member_id ` set (rg_members db)) \<Longrightarrow> name_free db n data"
  by (cases ex) (auto simp: validate_member_uniqueness_def name_free_def split: if_split_asm)

lemma parent_checked:
  assumes "validate_parent_id db (parent_given data) org (Some k) = Inr u" "no_cycle (member_par db)" "get_member db k \<noteq> None"
  shows "no_cycle ((member_par db)(k := parent_given data))"
proof (cases "parent_given data")
  case None
  then show ?thesis using register.detach_keeps [OF assms(3,2)] by (simp add: register.par_set [OF assms(3)])
next
  case (Some p)
  then have "\<not> parent_blocked db p k"
    using assms(1) by (auto simp: validate_parent_id_def parent_blocked_def split: option.split_asm if_split_asm)
  then show ?thesis using register.attach_keeps [OF assms(3,2)] Some by (simp add: register.par_set [OF assms(3)])
qed

lemma same_tables_ok:
  assumes "requests_ok db" "contacts_ok db" "ids_ok db" "same_register_tables db db'"
    and "set (rg_members db') = insert m' {x \<in> set (rg_members db). member_id x \<noteq> member_id m'}" "member_id m' < rg_next_id db"
  shows "requests_ok db' \<and> contacts_ok db' \<and> ids_ok db'"
proof (intro conjI)
  have sub: "k \<in> member_id ` set (rg_members db')" if "k \<in> member_id ` set (rg_members db)" for k
    using that unfolding assms(5) by auto
  have same: "change_requests db' = change_requests db" using assms(4) by (simp add: same_register_tables_def)
  have "\<forall>r \<in> set (change_requests db). cr_member_id r \<in> member_id ` set (rg_members db') \<and> cr_proposed_data r \<noteq> [] \<and>
      fst ` set (cr_proposed_data r) \<subseteq> set SELF_SERVICE_FIELDS \<and> (cr_status r = Pending \<longleftrightarrow> cr_field_decisions r = None)"
    using assms(1) sub unfolding requests_ok_def by metis
  then show "requests_ok db'" using assms(1) unfolding requests_ok_def same by blast
  show "contacts_ok db'" using assms(2,4) by (simp add: contacts_ok_def same_register_tables_def)
  have tabs: "rg_next_id db \<le> rg_next_id db'" "contacts db' = contacts db" using assms(4) by (simp_all add: same_register_tables_def)
  have "k < rg_next_id db" if "k \<in> member_id ` set (rg_members db') \<union> cr_id ` set (change_requests db') \<union> contact_id ` set (contacts db')" for k
    using that assms(3,6) unfolding ids_ok_def assms(5) same tabs(2) by auto
  then show "ids_ok db'" unfolding ids_ok_def using tabs(1) order_less_le_trans by blast
qed

lemma save_keeps:
  assumes ok: "register_ok db" and row: "typed_columns (columns m)" "typed_columns (sr_values data)"
    and dates: "list_all entry_dates_ok (sr_roles_history data)" and save: "apply_member_input rv db m data user = Inr (db', m', d)"
    and name: "name_free db (member_id m) data"
    and parent: "no_cycle ((member_par db)(member_id m := parent_given data))" and id: "member_id m < rg_next_id db"
  shows "register_ok db'"
proof -
  note eq = apply_member_input_eq [OF row save] and tables = apply_member_input_tables [OF row save]
  have "member_id m' = member_id m" using saved_row(1) [OF eq(1)] .
  moreover have "set (rg_members db') = insert m' {x \<in> set (rg_members db). member_id x \<noteq> member_id m'}"
    by (simp add: tables(1) set_store_member)
  ultimately show ?thesis
    using members_save [OF _ eq(1,4) row(2) dates tables(1) name parent] same_tables_ok [OF _ _ _ tables(2), of m'] ok id
    by (simp add: register_ok_def)
qed

lemma members_ok_cong: "rg_members db' = rg_members db \<Longrightarrow> members_ok db' = members_ok db"
proof -
  assume eq: "rg_members db' = rg_members db"
  have "member_par db' = member_par db" by (rule ext) (simp add: member_par_def get_member_def eq)
  then show ?thesis by (simp add: members_ok_def one_holder_def eq)
qed

lemma ids_ok_later:
  "ids_ok db \<Longrightarrow> rg_members db' = rg_members db \<Longrightarrow> change_requests db' = change_requests db \<Longrightarrow>
   contacts db' = contacts db \<Longrightarrow> rg_next_id db \<le> rg_next_id db' \<Longrightarrow> ids_ok db'"
  unfolding ids_ok_def by (metis order_less_le_trans)

lemma register_ok_next: "register_ok db \<Longrightarrow> register_ok (db\<lparr>rg_next_id := Suc (rg_next_id db)\<rparr>)"
  using members_ok_cong [of "db\<lparr>rg_next_id := Suc (rg_next_id db)\<rparr>" db] ids_ok_later [of db "db\<lparr>rg_next_id := Suc (rg_next_id db)\<rparr>"]
  by (simp add: register_ok_def requests_ok_def contacts_ok_def)

lemma create_D:
  assumes "create_member rv db data user = Inr (db', m', n)"
  obtains d where "require_org_admin rv user (sr_values data F_org_id) = Inr ()" "sr_values data F_org_id = columns user F_org_id"
    "validate_member_uniqueness db data None = Inr ()" "validate_parent_id db (parent_given data) (sr_values data F_org_id) None = Inr ()"
    "apply_member_input rv (db\<lparr>rg_next_id := Suc (rg_next_id db)\<rparr>) (new_member (rg_next_id db)) data user = Inr (db', m', d)"
  using assms by (auto simp: create_member_def Let_def bind_res_eq_Inr validate_member_org_def split: if_split_asm)

lemma update_D:
  assumes "update_member rv db k data user = Inr (db', m', n)"
  obtains m d where "get_member db k = Some m" "require_org_admin rv user (columns m F_org_id) = Inr ()"
    "sr_values data F_org_id = columns user F_org_id"
    "validate_member_uniqueness db data (Some k) = Inr ()" "validate_parent_id db (parent_given data) (sr_values data F_org_id) (Some k) = Inr ()"
    "apply_member_input rv db m data user = Inr (db', m', d)" "n = None \<longleftrightarrow> d = []"
  using assms by (auto simp: update_member_def get_assigned_member_for_org_admin_def get_member_or_404_def bind_res_eq_Inr
      validate_member_org_def split: option.split_asm if_split_asm)

lemma create_member_ok:
  assumes ok: "register_ok db" and data: "validate_save_request chk raw = Some data"
    and create: "create_member rv db data user = Inr (db', m', n)"
  shows "register_ok db'"
proof -
  let ?k = "rg_next_id db"
  let ?db = "db\<lparr>rg_next_id := Suc ?k\<rparr>"
  obtain d where u: "validate_member_uniqueness db data None = Inr ()" and save: "apply_member_input rv ?db (new_member ?k) data user = Inr (db', m', d)"
      and p: "validate_parent_id db (parent_given data) (sr_values data F_org_id) None = Inr ()"
    using create by (elim create_D)
  have fresh: "?k \<notin> member_id ` set (rg_members db)" using ok by (auto simp: register_ok_def ids_ok_def)
  then have none: "get_member db ?k = None" by (simp add: get_member_def get_by_None_iff)
  have par: "member_par ?db = member_par db" by (rule ext) (simp add: member_par_def get_member_def)
  have "member_par db c \<noteq> Some ?k" for c
  proof
    assume "member_par db c = Some ?k"
    then obtain x where x: "get_member db c = Some x" "uuid_col x F_parent_id = Some ?k"
      by (auto simp: member_par_def bind_eq_Some_conv)
    then have "?k \<in> member_id ` set (rg_members db)"
      using ok get_member_D [OF x(1)] unfolding register_ok_def members_ok_def by blast
    then show False using fresh by simp
  qed
  moreover have "parent_given data \<noteq> Some ?k"
    using p none by (auto simp: validate_parent_id_def)
  moreover have "no_cycle (member_par db)" "member_par db ?k = None"
    using ok none by (simp_all add: register_ok_def members_ok_def member_par_def)
  ultimately have "no_cycle ((member_par ?db)(?k := parent_given data))"
    unfolding par by (intro no_cycle_fresh_leaf)
  moreover have "name_free ?db ?k data" using uniqueness_checked [OF u, of ?k] fresh by (simp add: name_free_def)
  moreover have "typed_columns (columns (new_member ?k))" by (simp add: typed_columns_def new_member_def)
  ultimately show ?thesis
    using save_keeps [OF register_ok_next [OF ok] _ validated_request_typed [OF data] validated_request_dates [OF data] save] by (simp add: new_member_def)
qed

lemma update_member_ok:
  assumes ok: "register_ok db" and data: "validate_save_request chk raw = Some data"
    and update: "update_member rv db k data user = Inr (db', m', n)"
  shows "register_ok db'"
proof -
  obtain m d where m: "get_member db k = Some m" and u: "validate_member_uniqueness db data (Some k) = Inr ()"
      and p: "validate_parent_id db (parent_given data) (sr_values data F_org_id) (Some k) = Inr ()"
      and save: "apply_member_input rv db m data user = Inr (db', m', d)"
    using update by (elim update_D)
  have mk: "m \<in> set (rg_members db)" "member_id m = k" using get_member_D [OF m] by simp_all
  have "no_cycle ((member_par db)(member_id m := parent_given data))"
    using parent_checked [OF p] ok m mk(2) by (simp add: register_ok_def members_ok_def)
  moreover have "typed_columns (columns m)" "member_id m < rg_next_id db"
    using ok mk(1) by (auto simp: register_ok_def members_ok_def row_ok_def ids_ok_def)
  moreover have "name_free db (member_id m) data" using uniqueness_checked [OF u] mk(2) by simp
  ultimately show ?thesis using save_keeps [OF ok _ validated_request_typed [OF data] validated_request_dates [OF data] save] by simp
qed

lemma update_request_ok:
  assumes ok: "register_ok db" and g: "\<And>r. cr_id (g r) = cr_id r" "\<And>r. cr_member_id (g r) = cr_member_id r"
    "\<And>r. cr_status (g r) = Resolved" "\<And>r. cr_proposed_data (g r) = cr_proposed_data r" "\<And>r. cr_field_decisions (g r) = Some ds"
  shows "register_ok (update_request k g db)"
proof -
  let ?db = "update_request k g db"
  have "members_ok ?db" "contacts_ok ?db"
    using members_ok_cong [of ?db db] ok by (simp_all add: register_ok_def contacts_ok_def update_request_def)
  moreover have ids: "map cr_id (change_requests ?db) = map cr_id (change_requests db)"
    by (simp add: update_request_def update_where_def g)
  have old: "\<exists>x \<in> set (change_requests db). cr_member_id r = cr_member_id x \<and> cr_proposed_data r = cr_proposed_data x \<and>
      (r = x \<or> cr_status r = Resolved \<and> cr_field_decisions r = Some ds)" if "r \<in> set (change_requests ?db)" for r
    using that g by (fastforce simp: update_request_def set_update_where split: if_split_asm)
  have "requests_ok ?db"
    unfolding requests_ok_def
  proof (intro conjI ballI impI)
    show "distinct (map cr_id (change_requests ?db))" using ok ids by (simp add: register_ok_def requests_ok_def)
    fix r assume r: "r \<in> set (change_requests ?db)"
    obtain x where x: "x \<in> set (change_requests db)" "cr_member_id r = cr_member_id x" "cr_proposed_data r = cr_proposed_data x"
      and rx: "r = x \<or> cr_status r = Resolved \<and> cr_field_decisions r = Some ds" using old [OF r] by blast
    have "rg_members ?db = rg_members db" by (simp add: update_request_def)
    then show "cr_member_id r \<in> member_id ` set (rg_members ?db)" "cr_proposed_data r \<noteq> []"
      "fst ` set (cr_proposed_data r) \<subseteq> set SELF_SERVICE_FIELDS"
      using ok x unfolding register_ok_def requests_ok_def by simp_all
    show "cr_status r = Pending \<longleftrightarrow> cr_field_decisions r = None"
      using ok x(1) rx unfolding register_ok_def requests_ok_def by auto
    fix b assume b: "b \<in> set (change_requests ?db)" "cr_status r = Pending" "cr_status b = Pending" "cr_member_id r = cr_member_id b"
    have "r = x" "b \<in> set (change_requests db)" using rx old [OF b(1)] b(2,3) by auto
    then show "r = b" using ok x(1) b(2-4) unfolding register_ok_def requests_ok_def by blast
  qed
  moreover have "ids_ok ?db"
  proof -
    have "cr_id ` set (change_requests ?db) = cr_id ` set (change_requests db)" using ids by (metis set_map)
    then show ?thesis using ok by (simp add: register_ok_def ids_ok_def update_request_def)
  qed
  ultimately show ?thesis by (simp add: register_ok_def)
qed

lemma approve_other: "f \<notin> fst ` set decisions \<Longrightarrow> approve decisions proposed vs f = vs f"
  unfolding approve_def by (induction decisions arbitrary: vs) (auto split: option.split)

lemma validated_parent:
  "validate_save_request chk data = Some data' \<Longrightarrow> parent_given data' = parent_given data"
  by (cases "sr_values data F_parent_id") (auto simp: validate_save_request_def validate_columns_def Let_def parent_given_def saved list_all_iff
      split: if_split_asm option.split)

lemma not_self_service:
  "F_parent_id \<notin> set SELF_SERVICE_FIELDS" "F_org_id \<notin> set SELF_SERVICE_FIELDS" "F_auth_locked \<notin> set SELF_SERVICE_FIELDS"
  "F_entlassen \<notin> set SELF_SERVICE_FIELDS" "F_verstorben \<notin> set SELF_SERVICE_FIELDS"
  by (simp_all add: SELF_SERVICE_FIELDS_def)

lemma self_service_saved: "set SELF_SERVICE_FIELDS \<subseteq> set SAVE_FIELDS"
  by (simp add: SELF_SERVICE_FIELDS_def SAVE_FIELDS_def)

definition merged_request :: "change_request \<Rightarrow> member \<Rightarrow> (member_field \<times> string) list \<Rightarrow> save_request" where
  "merged_request r m decisions = (build_current_full_request m)\<lparr>sr_values :=
     approve decisions (cr_proposed_data r) (sr_values (build_current_full_request m))\<rparr>"

lemma decide_D:
  assumes "decide_change_request chk rv db k decisions t user = Inr (db', note)"
  obtains r m merged db1 m' d where "get_by cr_id (change_requests db) k = Some r" "get_member db (cr_member_id r) = Some m"
    "require_org_admin rv user (columns m F_org_id) = Inr ()" "cr_status r = Pending" "cr_updated_at r = t"
    "fst ` set decisions = fst ` set (cr_proposed_data r)"
    "validate_save_request chk (merged_request r m decisions) = Some merged" "sr_values merged F_org_id = columns user F_org_id"
    "validate_member_uniqueness db merged (Some (member_id m)) = Inr ()"
    "apply_member_input rv db m merged user = Inr (db1, m', d)"
    "db' = update_request (cr_id r) (\<lambda>r. r\<lparr>cr_status := Resolved, cr_field_decisions := Some decisions,
       cr_resolved_by := Some (member_id user), cr_resolved_at := Some (rv_now rv), cr_updated_at := rv_now rv\<rparr>) db1"
  using assms by (auto simp: decide_change_request_def get_change_request_or_404_def get_member_or_404_def bind_res_eq_Inr
      resolve_change_request_def merged_request_def Let_def validate_member_org_def split: option.split_asm if_split_asm)

lemma decide_change_request_ok:
  assumes ok: "register_ok db" and decide: "decide_change_request chk rv db k decisions t user = Inr (db', note)"
  shows "register_ok db'"
proof -
  obtain r m merged db1 m' d where r: "get_by cr_id (change_requests db) k = Some r" "get_member db (cr_member_id r) = Some m"
    and fs: "fst ` set decisions = fst ` set (cr_proposed_data r)"
    and data: "validate_save_request chk (merged_request r m decisions) = Some merged"
    and u: "validate_member_uniqueness db merged (Some (member_id m)) = Inr ()"
    and save: "apply_member_input rv db m merged user = Inr (db1, m', d)"
    and db': "db' = update_request (cr_id r) (\<lambda>r. r\<lparr>cr_status := Resolved, cr_field_decisions := Some decisions,
       cr_resolved_by := Some (member_id user), cr_resolved_at := Some (rv_now rv), cr_updated_at := rv_now rv\<rparr>) db1"
    using decide by (rule decide_D)
  have m: "m \<in> set (rg_members db)" "get_member db (member_id m) = Some m" using get_member_D [OF r(2)] r(2) by simp_all
  have "r \<in> set (change_requests db)" using get_by_SomeD [OF r(1)] by simp
  moreover have "\<forall>r \<in> set (change_requests db). fst ` set (cr_proposed_data r) \<subseteq> set SELF_SERVICE_FIELDS"
    using ok by (simp add: register_ok_def requests_ok_def)
  ultimately have "F_parent_id \<notin> fst ` set decisions" using not_self_service(1) unfolding fs by (meson subsetD)
  then have "sr_values (merged_request r m decisions) F_parent_id = columns m F_parent_id"
    by (simp add: merged_request_def approve_other) (simp add: build_current_full_request_def saved live_value_def ACCURACY_COLUMNS_def)
  then have "parent_given merged = uuid_col m F_parent_id"
    unfolding validated_parent [OF data] by (simp add: parent_given_def uuid_col_def)
  then have "(member_par db)(member_id m := parent_given merged) = member_par db"
    using m(2) by (auto simp: member_par_def)
  then have "no_cycle ((member_par db)(member_id m := parent_given merged))" using ok by (simp add: register_ok_def members_ok_def)
  moreover have "typed_columns (columns m)" "member_id m < rg_next_id db"
    using ok m(1) by (auto simp: register_ok_def members_ok_def row_ok_def ids_ok_def)
  moreover have "name_free db (member_id m) merged" using uniqueness_checked [OF u, of "member_id m"] by simp
  ultimately have "register_ok db1" using save_keeps [OF ok _ validated_request_typed [OF data] validated_request_dates [OF data] save] by simp
  then show ?thesis unfolding db' by (rule update_request_ok) simp_all
qed

lemma proposed_fields: "fst ` set (proposed_diff m p) \<subseteq> set SELF_SERVICE_FIELDS"
  by (auto simp: proposed_diff_def)

lemma pending_found:
  "get_own_pending_request db m = Some r \<Longrightarrow> r \<in> set (change_requests db) \<and> cr_member_id r = member_id m \<and> cr_status r = Pending"
  unfolding get_own_pending_request_def using find_SomeD by fastforce

lemma tables_replaced:
  assumes "register_ok db" "requests_ok db'" "rg_members db' = rg_members db" "contacts_ok db'"
    "\<forall>k \<in> cr_id ` set (change_requests db') \<union> contact_id ` set (contacts db'). k < rg_next_id db'" "rg_next_id db \<le> rg_next_id db'"
  shows "register_ok db'"
proof -
  have "\<forall>k \<in> member_id ` set (rg_members db'). k < rg_next_id db'"
    using assms(1,3,6) by (auto simp: register_ok_def ids_ok_def intro: order_less_le_trans)
  then show ?thesis using assms members_ok_cong [OF assms(3)] by (auto simp: register_ok_def ids_ok_def)
qed

lemma pending_request_replaced:
  assumes ok: "requests_ok db" and r: "r \<in> set (change_requests db)" "cr_status r = Pending"
    and new: "cr_id r' = cr_id r" "cr_member_id r' = cr_member_id r" "cr_status r' = Pending"
      "cr_field_decisions r' = cr_field_decisions r" "cr_proposed_data r' \<noteq> []"
      "fst ` set (cr_proposed_data r') \<subseteq> set SELF_SERVICE_FIELDS"
  shows "requests_ok (update_request (cr_id r) (\<lambda>_. r') db)"
proof -
  let ?db = "update_request (cr_id r) (\<lambda>_. r') db"
  have rs: "set (change_requests ?db) \<subseteq> insert r' {x \<in> set (change_requests db). cr_id x \<noteq> cr_id r}"
    by (auto simp: update_request_def set_update_where)
  have others: "x = r" if "x \<in> set (change_requests db)" "cr_status x = Pending" "cr_member_id x = cr_member_id r" for x
    using that r ok unfolding requests_ok_def by blast
  have old: "cr_member_id y \<in> member_id ` set (rg_members db) \<and> cr_proposed_data y \<noteq> [] \<and>
      fst ` set (cr_proposed_data y) \<subseteq> set SELF_SERVICE_FIELDS \<and> (cr_status y = Pending \<longleftrightarrow> cr_field_decisions y = None)"
    if "y \<in> set (change_requests db)" for y
    using ok that unfolding requests_ok_def by blast
  have each: "cr_member_id x \<in> member_id ` set (rg_members db) \<and> cr_proposed_data x \<noteq> [] \<and>
      fst ` set (cr_proposed_data x) \<subseteq> set SELF_SERVICE_FIELDS \<and> (cr_status x = Pending \<longleftrightarrow> cr_field_decisions x = None)"
    if "x \<in> set (change_requests ?db)" for x
    using that rs old [of x] old [OF r(1)] r(2) new by (cases "x = r'") (auto simp del: split_paired_All)
  have same: "x = y" if xy: "x \<in> set (change_requests ?db)" "y \<in> set (change_requests ?db)" "cr_status x = Pending"
      "cr_status y = Pending" "cr_member_id x = cr_member_id y" for x y
  proof (rule ccontr)
    assume "x \<noteq> y"
    then consider "x = r'" "y \<in> set (change_requests db)" "cr_id y \<noteq> cr_id r" | "y = r'" "x \<in> set (change_requests db)" "cr_id x \<noteq> cr_id r"
      | "x \<in> set (change_requests db)" "y \<in> set (change_requests db)" using xy(1,2) rs by blast
    then show False
      using others [of y] others [of x] xy(3-5) new(2) ok \<open>x \<noteq> y\<close> unfolding requests_ok_def by cases auto
  qed
  have "map cr_id (change_requests ?db) = map cr_id (change_requests db)"
    using new(1) by (simp add: update_request_def update_where_def)
  then have "distinct (map cr_id (change_requests ?db))" "rg_members ?db = rg_members db"
    using ok by (simp_all add: requests_ok_def update_request_def)
  then show ?thesis unfolding requests_ok_def using each same by metis
qed

lemma submit_change_request_ok:
  assumes ok: "register_ok db" and m: "member_id m \<in> member_id ` set (rg_members db)"
    and submit: "submit_change_request rv db m proposed = (db', res)"
  shows "register_ok db'"
proof -
  let ?d = "proposed_diff m proposed"
  have rq: "requests_ok db" "contacts_ok db" "ids_ok db" using ok by (simp_all add: register_ok_def)
  show ?thesis
  proof (cases "get_own_pending_request db m")
    case None
    then have none: "\<forall>r \<in> set (change_requests db). cr_member_id r = member_id m \<longrightarrow> cr_status r \<noteq> Pending"
      by (auto simp: get_own_pending_request_def find_None_iff)
    show ?thesis
    proof (cases "?d = []")
      case True
      then show ?thesis using submit None ok by (simp add: submit_change_request_def)
    next
      case False
      let ?r = "\<lparr>cr_id = rg_next_id db, cr_member_id = member_id m, cr_status = Pending, cr_proposed_data = ?d,
          cr_field_decisions = None, cr_resolved_by = None, cr_resolved_at = None,
          cr_created_at = rv_now rv, cr_updated_at = rv_now rv\<rparr>"
      have db': "db' = db\<lparr>change_requests := change_requests db @ [?r], rg_next_id := Suc (rg_next_id db)\<rparr>"
        using submit None False by (simp add: submit_change_request_def Let_def)
      have "rg_next_id db \<notin> cr_id ` set (change_requests db)" using rq(3) by (auto simp: ids_ok_def)
      then have "requests_ok db'"
        using rq(1) m none False proposed_fields [of m proposed] unfolding requests_ok_def db' by auto
      then show ?thesis
        by (rule tables_replaced [OF ok]) (use rq in \<open>auto simp: db' contacts_ok_def ids_ok_def less_Suc_eq\<close>)
    qed
  next
    case (Some r)
    note r = pending_found [OF Some]
    show ?thesis
    proof (cases "?d = []")
      case True
      then have db': "db' = db\<lparr>change_requests := delete_where (\<lambda>x. cr_id x = cr_id r) (change_requests db)\<rparr>"
        using submit Some by (simp add: submit_change_request_def)
      have "requests_ok db'" using rq(1) by (simp add: requests_ok_def db' distinct_map_delete_where)
      then show ?thesis
        by (rule tables_replaced [OF ok]) (use rq in \<open>auto simp: db' contacts_ok_def ids_ok_def\<close>)
    next
      case False
      show ?thesis
      proof (cases "?d = cr_proposed_data r")
        case True
        then show ?thesis using submit Some False ok by (simp add: submit_change_request_def Let_def)
      next
        case changed: False
        let ?r = "r\<lparr>cr_proposed_data := ?d, cr_updated_at := rv_now rv\<rparr>"
        have db': "db' = update_request (cr_id r) (\<lambda>_. ?r) db"
          using submit Some False changed by (simp add: submit_change_request_def Let_def)
        have "requests_ok db'"
          unfolding db' by (rule pending_request_replaced [OF rq(1)]) (use r False proposed_fields in simp_all)
        then show ?thesis
          by (rule tables_replaced [OF ok])
            (use rq r in \<open>auto simp: db' update_request_def set_update_where contacts_ok_def ids_ok_def split: if_split_asm\<close>)
      qed
    qed
  qed
qed

section \<open>Contacts\<close>

lemma set_store_contact:
  "set (contacts (store_contact c db)) = insert c {x \<in> set (contacts db). contact_id x \<noteq> contact_id c}"
proof (cases "contact_id c \<in> contact_id ` set (contacts db)")
  case True
  then show ?thesis by (auto simp: store_contact_def set_update_where)
next
  case False
  then have "\<forall>x \<in> set (contacts db). contact_id x \<noteq> contact_id c" by (auto simp: image_iff)
  then show ?thesis using False by (auto simp: store_contact_def)
qed

lemma store_contact_frame [simp]:
  "rg_members (store_contact c db) = rg_members db" "change_requests (store_contact c db) = change_requests db"
  "rg_next_id (store_contact c db) = rg_next_id db" "contact_logs (store_contact c db) = contact_logs db"
  by (simp_all add: store_contact_def)

lemma add_contact_logs_frame [simp]:
  "rg_members (add_contact_logs k d a u now db) = rg_members db" "contacts (add_contact_logs k d a u now db) = contacts db"
  "change_requests (add_contact_logs k d a u now db) = change_requests db"
  "rg_next_id db \<le> rg_next_id (add_contact_logs k d a u now db)"
  by (simp_all add: add_contact_logs_def Let_def)

lemma store_contact_ok:
  assumes "contacts_ok db" "\<And>x. x \<in> set (contacts db) \<Longrightarrow> contact_id x \<noteq> contact_id c \<Longrightarrow> contact_deleted_at x = None \<Longrightarrow>
      contact_deleted_at c = None \<Longrightarrow> lower (contact_text x K_name) \<noteq> lower (contact_text c K_name)"
  shows "contacts_ok (store_contact c db)"
proof -
  have "map contact_id (update_where (\<lambda>x. contact_id x = contact_id c) (\<lambda>_. c) cs) = map contact_id cs" for cs :: "contact list"
    by (auto simp: update_where_def)
  then have "distinct (map contact_id (contacts (store_contact c db)))"
    using assms(1) by (auto simp: store_contact_def contacts_ok_def)
  then show ?thesis
    using assms unfolding contacts_ok_def set_store_contact by (metis (mono_tags, lifting) insert_iff mem_Collect_eq)
qed

lemma stored_contact_ok:
  assumes ok: "register_ok db" and stored: "contacts_ok (store_contact c db)" and id: "contact_id c < rg_next_id db"
    and db': "rg_members db' = rg_members db" "change_requests db' = change_requests db"
      "contacts db' = contacts (store_contact c db)" "rg_next_id db \<le> rg_next_id db'"
  shows "register_ok db'"
proof (rule tables_replaced [OF ok _ db'(1)])
  show "requests_ok db'" using ok db'(1,2) by (simp add: register_ok_def requests_ok_def)
  show "contacts_ok db'" using stored db'(3) by (simp add: contacts_ok_def)
  have "k < rg_next_id db" if "k \<in> cr_id ` set (change_requests db') \<union> contact_id ` set (contacts db')" for k
    using that ok id unfolding db'(2,3) set_store_contact register_ok_def ids_ok_def by auto
  then show "\<forall>k \<in> cr_id ` set (change_requests db') \<union> contact_id ` set (contacts db'). k < rg_next_id db'"
    using db'(4) order_less_le_trans by blast
  show "rg_next_id db \<le> rg_next_id db'" by (rule db'(4))
qed

lemma apply_contact_input_ok:
  assumes ok: "register_ok db" "contact_id c < rg_next_id db"
    and input: "apply_contact_input rv db c data user = Inr (db', c', d)"
  shows "register_ok db'"
proof -
  have c': "contact_id c' = contact_id c" "contact_row_ok db c'" 
    and db': "db' = (if d = [] then store_contact c' db else
      add_contact_logs (contact_id c) d (if get_by contact_id (contacts db) (contact_id c) = None then ''create'' else ''update'')
        (member_id user) (rv_now rv) (store_contact c' db))"
    using input unfolding apply_contact_input_def Let_def split_beta by (auto simp: bind_res_eq_Inr)
  have "contacts_ok (store_contact c' db)"
    by (rule store_contact_ok) (use ok c'(2) in \<open>auto simp: register_ok_def contact_row_ok_def\<close>)
  then show ?thesis
    by (rule stored_contact_ok [OF ok(1)]) (use ok(2) in \<open>simp_all add: c'(1) db' order_trans [OF _ add_contact_logs_frame(4)]\<close>)
qed

lemma contact_ops_ok:
  assumes ok: "register_ok db"
  shows "create_contact rv db data user = Inr (db', c, n) \<Longrightarrow> register_ok db'"
    and "update_contact rv db k data user = Inr (db', c, n') \<Longrightarrow> register_ok db'"
    and "delete_contact rv db k user = Inr db' \<Longrightarrow> register_ok db'"
proof -
  show "register_ok db'" if create: "create_contact rv db data user = Inr (db', c, n)"
  proof -
    obtain d where "apply_contact_input rv (db\<lparr>rg_next_id := Suc (rg_next_id db)\<rparr>) (new_contact (rg_next_id db)) data user = Inr (db', c, d)"
      using create unfolding create_contact_def Let_def by (auto simp: bind_res_eq_Inr split: prod.split_asm)
    then show ?thesis by (rule apply_contact_input_ok [OF register_ok_next [OF ok], rotated]) (simp add: new_contact_def)
  qed
  have stored: "contact_id x < rg_next_id db \<and> contact_id x = k" if "get_contact_or_404 db k = Inr x" for x
    using that ok get_by_SomeD [of contact_id "contacts db" k x]
    by (auto simp: get_contact_or_404_def register_ok_def ids_ok_def split: option.split_asm if_split_asm)
  show "register_ok db'" if update: "update_contact rv db k data user = Inr (db', c, n')"
  proof -
    obtain x d where "get_contact_or_404 db k = Inr x" "apply_contact_input rv db x data user = Inr (db', c, d)"
      using update by (auto simp: update_contact_def bind_res_eq_Inr)
    then show ?thesis using apply_contact_input_ok [OF ok] stored by blast
  qed
  show "register_ok db'" if delete: "delete_contact rv db k user = Inr db'"
  proof -
    obtain x where x: "get_contact_or_404 db k = Inr x" "db' = soft_delete_contact rv db x user"
      using delete by (auto simp: delete_contact_def bind_res_eq_Inr)
    let ?x = "x\<lparr>contact_deleted_at := Some (rv_now rv), contact_columns := (contact_columns x)(
        K_modified_at := PTime (rv_now rv), K_modified_by := PUuid (member_id user))\<rparr>"
    have "contacts_ok (store_contact ?x db)" by (rule store_contact_ok) (use ok in \<open>auto simp: register_ok_def\<close>)
    then show ?thesis
      by (rule stored_contact_ok [OF ok]) (use stored [OF x(1)] in \<open>simp_all add: x(2) soft_delete_contact_def Let_def\<close>)
  qed
qed

section \<open>The register as a state machine\<close>

inductive register_step :: "address_check \<Rightarrow> register_db \<Rightarrow> register_db \<Rightarrow> bool" for chk where
  create: "validate_save_request chk raw = Some data \<Longrightarrow> create_member rv db data user = Inr (db', m, n) \<Longrightarrow> register_step chk db db'"
| update: "validate_save_request chk raw = Some data \<Longrightarrow> update_member rv db k data user = Inr (db', m, n') \<Longrightarrow> register_step chk db db'"
| submit: "validate_self_service chk raw' = Some own \<Longrightarrow> get_member db (member_id user) = Some user \<Longrightarrow>
    submit_own_change_request rv db own user = Inr (db', res) \<Longrightarrow> register_step chk db db'"
| decide: "decide_change_request chk rv db k decisions t user = Inr (db', note) \<Longrightarrow> register_step chk db db'"
| add_contact: "validate_contact_request chk c = Some c' \<Longrightarrow> create_contact rv db c' user = Inr (db', x, n) \<Longrightarrow> register_step chk db db'"
| change_contact: "validate_contact_request chk c = Some c' \<Longrightarrow> update_contact rv db k c' user = Inr (db', x, n') \<Longrightarrow> register_step chk db db'"
| remove_contact: "delete_contact rv db k user = Inr db' \<Longrightarrow> register_step chk db db'"

inductive_cases register_stepE: "register_step chk db db'"

lemma register_step_ok: "register_step chk db db' \<Longrightarrow> register_ok db \<Longrightarrow> register_ok db'"
proof (erule register_stepE)
  fix raw' own user rv res
  assume ok: "register_ok db" and user: "get_member db (member_id user) = Some user"
    and "submit_own_change_request rv db own user = Inr (db', res)"
  then obtain r where "submit_change_request rv db user own = (db', r)"
    by (auto simp: submit_own_change_request_def split: if_split_asm prod.split_asm)
  moreover have "member_id user \<in> member_id ` set (rg_members db)" using get_member_D [OF user] by simp
  ultimately show "register_ok db'" using submit_change_request_ok [OF ok] by blast
qed (auto intro: create_member_ok update_member_ok decide_change_request_ok contact_ops_ok)

text \<open>A step saves one member, or leaves the members and the role history alone.\<close>

lemma register_step_members:
  assumes "register_step chk db db'"
  obtains (same) "rg_members db' = rg_members db" "role_events db' = role_events db"
  | (save) rv raw data user m d db0 db1 m' where "validate_save_request chk raw = Some data"
      "apply_member_input rv db0 m data user = Inr (db1, m', d)"
      "db0 = db \<or> db0 = db\<lparr>rg_next_id := Suc (rg_next_id db)\<rparr>" "m \<in> set (rg_members db) \<or> m = new_member (rg_next_id db)"
      "rg_members db' = rg_members db1" "role_events db' = role_events db1"
proof -
  have contact: "rg_members d' = rg_members d \<and> role_events d' = role_events d"
    if "apply_contact_input rv d x c user = Inr (d', c', e)" for rv d x c user d' c' e
    using that unfolding apply_contact_input_def Let_def split_beta
    by (auto simp: bind_res_eq_Inr add_contact_logs_def store_contact_def Let_def)
  from assms show thesis
  proof cases
    case (create raw data rv user m n)
    then obtain d where "apply_member_input rv (db\<lparr>rg_next_id := Suc (rg_next_id db)\<rparr>) (new_member (rg_next_id db)) data user = Inr (db', m, d)"
      by (elim create_D)
    then show thesis by (rule save [OF create(1)]) simp_all
  next
    case (update raw data rv k user m n')
    then obtain x d where x: "get_member db k = Some x" and input: "apply_member_input rv db x data user = Inr (db', m, d)"
      by (elim update_D)
    show thesis by (rule save [OF update(1) input]) (simp_all add: get_member_D [OF x])
  next
    case (submit raw' own user rv res)
    have "rg_members d = rg_members db \<and> role_events d = role_events db" if "submit_change_request rv db user own = (d, r)" for d r
      using that by (auto simp: submit_change_request_def update_request_def Let_def split: option.split_asm if_split_asm)
    moreover obtain r where "submit_change_request rv db user own = (db', r)"
      using submit(3) by (auto simp: submit_own_change_request_def split: if_split_asm prod.split_asm)
    ultimately show thesis by (intro same) auto
  next
    case (decide rv k decisions t user n)
    from decide obtain r m merged db1 m' d where m: "get_member db (cr_member_id r) = Some m"
      and valid: "validate_save_request chk (merged_request r m decisions) = Some merged"
      and input: "apply_member_input rv db m merged user = Inr (db1, m', d)"
      and db': "db' = update_request (cr_id r) (\<lambda>r. r\<lparr>cr_status := Resolved, cr_field_decisions := Some decisions,
       cr_resolved_by := Some (member_id user), cr_resolved_at := Some (rv_now rv), cr_updated_at := rv_now rv\<rparr>) db1"
      by (rule decide_D)
    then have "rg_members db' = rg_members db1" "role_events db' = role_events db1" by (simp_all add: update_request_def)
    then show thesis by (intro save [OF valid input]) (simp_all add: get_member_D [OF m])
  next
    case (add_contact c c' rv user x n)
    then obtain e where "apply_contact_input rv (db\<lparr>rg_next_id := Suc (rg_next_id db)\<rparr>) (new_contact (rg_next_id db)) c' user = Inr (db', x, e)"
      by (auto simp: create_contact_def Let_def bind_res_eq_Inr)
    from contact [OF this] show thesis by (intro same) simp_all
  next
    case (change_contact c c' rv k user x n')
    then obtain y e where "apply_contact_input rv db y c' user = Inr (db', x, e)"
      by (auto simp: update_contact_def bind_res_eq_Inr)
    from contact [OF this] show thesis by (intro same) simp_all
  next
    case (remove_contact rv k user)
    then show thesis
      by (intro same) (auto simp: delete_contact_def soft_delete_contact_def store_contact_def Let_def bind_res_eq_Inr)
  qed
qed

end
