(* ===== verification/Register_History.thy ===== *)
theory Register_History
  imports Register_Steps
begin

text \<open>
  The role history as an event log: replaying the events of a member, recorded since some moment, from the
  roles held at that moment yields the roles the member has. The replay is strict: an event that does not fit the
  state it meets (a grant of what is held, the end of a period that is not there) makes it fail.
\<close>

section \<open>Replaying events\<close>

type_synonym role_periods = "role_key \<Rightarrow> date option option"

definition change_key :: "role_change \<Rightarrow> role_key" where
  "change_key c = (re_role_id (ch_entry c), re_startdate (ch_entry c))"

text \<open>What an event expects of its period, and what it makes of it.\<close>

definition change_before :: "role_change \<Rightarrow> date option option" where
  "change_before c = (case ch_action c of Granted \<Rightarrow> None | Revoked \<Rightarrow> Some (re_enddate (ch_entry c))
     | Period_changed \<Rightarrow> Some (ch_previous_enddate c))"

definition change_after :: "role_change \<Rightarrow> date option option" where
  "change_after c = (case ch_action c of Revoked \<Rightarrow> None | _ \<Rightarrow> Some (re_enddate (ch_entry c)))"

primrec replay_changes :: "role_change list \<Rightarrow> role_periods \<Rightarrow> role_periods option" where
  "replay_changes [] s = Some s"
| "replay_changes (c # cs) s =
     (if s (change_key c) = change_before c then replay_changes cs (s(change_key c := change_after c)) else None)"

definition event_change :: "role_event \<Rightarrow> role_change" where
  "event_change e = \<lparr>ch_action = ev_action e,
     ch_entry = \<lparr>re_role_id = ev_role_id e, re_startdate = ev_startdate e, re_enddate = ev_enddate e\<rparr>,
     ch_previous_enddate = ev_previous_enddate e\<rparr>"

definition replay_history :: "role_event list \<Rightarrow> uuid \<Rightarrow> role_periods \<Rightarrow> role_periods option" where
  "replay_history evs k = replay_changes (map event_change (filter (\<lambda>e. ev_member_id e = k) evs))"

definition held_periods :: "member \<Rightarrow> role_periods" where
  "held_periods m = map_of (map (\<lambda>mr. ((mr_role_id mr, mr_startdate mr), mr_enddate mr)) (member_roles m))"

text \<open>The roles of a member, none when there is no such member (yet).\<close>

definition roles_of :: "register_db \<Rightarrow> uuid \<Rightarrow> role_periods" where
  "roles_of db k = (case get_by member_id (rg_members db) k of None \<Rightarrow> (\<lambda>_. None) | Some m \<Rightarrow> held_periods m)"

text \<open>The events after \<open>past\<close> lead every member from the roles in \<open>base\<close> to those held now.\<close>

definition history_since :: "(uuid \<Rightarrow> role_periods) \<Rightarrow> role_event list \<Rightarrow> register_db \<Rightarrow> bool" where
  "history_since base past db \<longleftrightarrow> (\<exists>since. role_events db = past @ since \<and>
     ev_member_id ` set since \<subseteq> member_id ` set (rg_members db) \<and>
     (\<forall>k. k \<notin> member_id ` set (rg_members db) \<longrightarrow> base k = (\<lambda>_. None)) \<and>
     (\<forall>m \<in> set (rg_members db). replay_history since (member_id m) (base (member_id m)) = Some (held_periods m)))"

lemma replay_changes_append:
  "replay_changes (cs @ ds) s = Option.bind (replay_changes cs s) (replay_changes ds)"
  by (induction cs arbitrary: s) auto

text \<open>Changes of different periods do not interfere.\<close>

lemma replay_changes_distinct:
  assumes "distinct (map change_key cs)" "\<And>c. c \<in> set cs \<Longrightarrow> s (change_key c) = change_before c"
  shows "\<exists>s'. replay_changes cs s = Some s' \<and> (\<forall>c \<in> set cs. s' (change_key c) = change_after c) \<and>
     (\<forall>k. k \<notin> change_key ` set cs \<longrightarrow> s' k = s k)"
  using assms
proof (induction cs arbitrary: s)
  case (Cons c cs)
  let ?s = "s(change_key c := change_after c)"
  have "\<And>d. d \<in> set cs \<Longrightarrow> ?s (change_key d) = change_before d"
    using Cons.prems by (force simp: image_iff)
  moreover have "distinct (map change_key cs)" using Cons.prems(1) by simp
  ultimately obtain s' where s': "replay_changes cs ?s = Some s'" "\<forall>d \<in> set cs. s' (change_key d) = change_after d"
      "\<forall>k. k \<notin> change_key ` set cs \<longrightarrow> s' k = ?s k"
    using Cons.IH [of ?s] by blast
  have "change_key c \<notin> change_key ` set cs" using Cons.prems(1) by simp
  then have "s' (change_key c) = ?s (change_key c)" using s'(3) by blast
  then have "s' (change_key c) = change_after c" by simp
  then show ?case using s' Cons.prems(2) [of c] by auto
qed simp

section \<open>The difference of two lists of roles\<close>

definition periods :: "role_entry list \<Rightarrow> role_periods" where
  "periods es = map_option re_enddate \<circ> map_of (entry_dict es)"

lemma entry_dict_distinct: "distinct (map fst (entry_dict es))"
proof -
  have "distinct (map fst (fold (\<lambda>e d. AList.update (re_role_id e, re_startdate e) e d) es d))"
    if "distinct (map fst d)" for d :: "(role_key \<times> role_entry) list"
    using that by (induction es arbitrary: d) (auto intro: distinct_update)
  then show ?thesis by (simp add: entry_dict_def)
qed

lemma entry_dict_key: "map_of (entry_dict es) k = Some e \<Longrightarrow> (re_role_id e, re_startdate e) = k \<and> e \<in> set es"
proof -
  have "map_of (fold (\<lambda>e d. AList.update (re_role_id e, re_startdate e) e d) es d) k = Some e \<Longrightarrow>
      (re_role_id e, re_startdate e) = k \<and> e \<in> set es \<or> map_of d k = Some e" for d
    by (induction es arbitrary: d) (force simp: update_conv' split: if_split_asm)+
  from this [of "[]"] show "map_of (entry_dict es) k = Some e \<Longrightarrow> ?thesis" by (simp add: entry_dict_def)
qed

lemma entry_dict_mem: "(k, e) \<in> set (entry_dict es) \<longleftrightarrow> map_of (entry_dict es) k = Some e"
  using entry_dict_distinct map_of_eq_Some_iff by metis

lemma entry_dict_keys: "(k, e) \<in> set (entry_dict es) \<Longrightarrow> (re_role_id e, re_startdate e) = k"
  by (simp add: entry_dict_mem entry_dict_key)

definition revoked_in :: "(role_key \<times> role_entry) list \<Rightarrow> (role_key \<times> role_entry) list \<Rightarrow> (role_key \<times> role_entry) list" where
  "revoked_in old new = filter (\<lambda>(k, e). map_of new k = None) old"

definition changed_in :: "(role_key \<times> role_entry) list \<Rightarrow> (role_key \<times> role_entry) list \<Rightarrow> (role_key \<times> role_entry) list" where
  "changed_in old new = filter (\<lambda>(k, e). case map_of new k of None \<Rightarrow> False | Some e' \<Rightarrow> re_enddate e \<noteq> re_enddate e') old"

lemma changed_in_eq:
  "concat (map (\<lambda>(k, e). case map_of new k of None \<Rightarrow> []
     | Some e' \<Rightarrow> if re_enddate e \<noteq> re_enddate e'
         then [\<lparr>ch_action = Period_changed, ch_entry = e', ch_previous_enddate = re_enddate e\<rparr>] else []) old) =
   map (\<lambda>(k, e). \<lparr>ch_action = Period_changed, ch_entry = the (map_of new k), ch_previous_enddate = re_enddate e\<rparr>)
     (changed_in old new)"
proof (induction old)
  case (Cons ke old)
  obtain k e where ke: "ke = (k, e)" by (cases ke)
  show ?case using Cons by (cases "map_of new k") (simp_all add: changed_in_def ke)
qed (simp add: changed_in_def)

lemma diff_mset:
  fixes before after
  defines "old \<equiv> entry_dict before" and "new \<equiv> entry_dict after"
  shows "mset (diff_role_entries before after) = mset (
     map (\<lambda>(k, e). \<lparr>ch_action = Revoked, ch_entry = e, ch_previous_enddate = None\<rparr>) (revoked_in old new) @
     map (\<lambda>(k, e). \<lparr>ch_action = Granted, ch_entry = e, ch_previous_enddate = None\<rparr>) (revoked_in new old) @
     map (\<lambda>(k, e). \<lparr>ch_action = Period_changed, ch_entry = the (map_of new k), ch_previous_enddate = re_enddate e\<rparr>)
       (changed_in old new))"
  unfolding diff_role_entries_def Let_def changed_in_eq old_def new_def revoked_in_def by simp

lemma diff_keys_distinct: "distinct (map change_key (diff_role_entries before after))"
proof -
  let ?old = "entry_dict before" and ?new = "entry_dict after"
  have old: "change_key \<lparr>ch_action = x, ch_entry = e, ch_previous_enddate = y\<rparr> = k" if "(k, e) \<in> set (entry_dict es)" for k e es x y
    using entry_dict_keys [OF that] by (simp add: change_key_def)
  have new: "change_key \<lparr>ch_action = x, ch_entry = the (map_of ?new k), ch_previous_enddate = y\<rparr> = k"
    if "(k, e) \<in> set (changed_in ?old ?new)" for k e x y
    using that entry_dict_key [of after k] by (auto simp: changed_in_def change_key_def split: option.split_asm)
  have "mset (map change_key (diff_role_entries before after)) =
      mset (map fst (revoked_in ?old ?new @ revoked_in ?new ?old @ changed_in ?old ?new))"
    unfolding mset_map diff_mset map_append mset_append image_mset_union map_map comp_def
    by (intro arg_cong2 [where f = "(+)"] image_mset_cong)
      (auto simp: multiset.map_comp revoked_in_def intro!: image_mset_cong dest: old new)
  then have "distinct (map change_key (diff_role_entries before after)) =
      distinct (map fst (revoked_in ?old ?new @ revoked_in ?new ?old @ changed_in ?old ?new))"
    by (rule mset_eq_imp_distinct_iff)
  moreover have "distinct (map fst (revoked_in a b))" "distinct (map fst (changed_in a b))" if "distinct (map fst a)" for a b
    using that by (simp_all add: revoked_in_def changed_in_def distinct_map_filter)
  moreover have "fst ` set (revoked_in ?old ?new) \<inter> fst ` set (revoked_in ?new ?old) = {}"
    "fst ` set (revoked_in ?old ?new) \<inter> fst ` set (changed_in ?old ?new) = {}"
    "fst ` set (revoked_in ?new ?old) \<inter> fst ` set (changed_in ?old ?new) = {}"
    by (auto simp: revoked_in_def changed_in_def entry_dict_mem split: option.split_asm)
  ultimately show ?thesis using entry_dict_distinct by (simp add: Int_Un_distrib)
qed

lemma diff_change:
  assumes "c \<in> set (diff_role_entries before after)"
  shows "periods before (change_key c) = change_before c" "periods after (change_key c) = change_after c"
proof -
  let ?old = "entry_dict before" and ?new = "entry_dict after"
  have "c \<in># mset (diff_role_entries before after)" using assms by simp
  then consider (revoked) k e where "(k, e) \<in> set (revoked_in ?old ?new)" "c = \<lparr>ch_action = Revoked, ch_entry = e, ch_previous_enddate = None\<rparr>"
    | (granted) k e where "(k, e) \<in> set (revoked_in ?new ?old)" "c = \<lparr>ch_action = Granted, ch_entry = e, ch_previous_enddate = None\<rparr>"
    | (changed) k e where "(k, e) \<in> set (changed_in ?old ?new)"
        "c = \<lparr>ch_action = Period_changed, ch_entry = the (map_of ?new k), ch_previous_enddate = re_enddate e\<rparr>"
    unfolding diff_mset set_mset_mset by auto
  then show "periods before (change_key c) = change_before c" "periods after (change_key c) = change_after c"
    by (cases; auto simp: revoked_in_def changed_in_def entry_dict_mem change_key_def change_before_def change_after_def
        periods_def split: option.split_asm dest: entry_dict_key)+
qed

lemma diff_complete:
  assumes "k \<notin> change_key ` set (diff_role_entries before after)"
  shows "periods after k = periods before k"
proof -
  let ?old = "entry_dict before" and ?new = "entry_dict after"
  have in_diff: "c \<in> set (diff_role_entries before after) \<longleftrightarrow> c \<in># mset (diff_role_entries before after)" for c by simp
  have no: "change_key c \<noteq> k" if "c \<in> set (diff_role_entries before after)" for c
    using assms that by auto
  show ?thesis
  proof (cases "map_of ?old k")
    case None
    show ?thesis
    proof (cases "map_of ?new k")
      case (Some e)
      let ?c = "\<lparr>ch_action = Granted, ch_entry = e, ch_previous_enddate = None\<rparr>"
      have "(k, e) \<in> set (revoked_in ?new ?old)" using Some None by (simp add: revoked_in_def entry_dict_mem)
      then have "?c \<in> set (diff_role_entries before after)" unfolding in_diff diff_mset set_mset_mset by force
      then show ?thesis using no entry_dict_key [OF Some] by (force simp: change_key_def)
    qed (simp add: periods_def None)
  next
    case (Some e)
    show ?thesis
    proof (cases "map_of ?new k")
      case None
      let ?c = "\<lparr>ch_action = Revoked, ch_entry = e, ch_previous_enddate = None\<rparr>"
      have "(k, e) \<in> set (revoked_in ?old ?new)" using Some None by (simp add: revoked_in_def entry_dict_mem)
      then have "?c \<in> set (diff_role_entries before after)" unfolding in_diff diff_mset set_mset_mset by force
      then show ?thesis using no entry_dict_key [OF Some] by (force simp: change_key_def)
    next
      case new: (Some e')
      have "re_enddate e = re_enddate e'"
      proof (rule ccontr)
        let ?c = "\<lparr>ch_action = Period_changed, ch_entry = the (map_of ?new k), ch_previous_enddate = re_enddate e\<rparr>"
        assume "re_enddate e \<noteq> re_enddate e'"
        then have "(k, e) \<in> set (changed_in ?old ?new)" using Some new by (simp add: changed_in_def entry_dict_mem)
        then have "?c \<in> set (diff_role_entries before after)" unfolding in_diff diff_mset set_mset_mset by force
        from no [OF this] show False using entry_dict_key [OF new] by (simp add: change_key_def new)
      qed
      then show ?thesis by (simp add: periods_def Some new)
    qed
  qed
qed

lemma replay_diff: "replay_changes (diff_role_entries before after) (periods before) = Some (periods after)"
proof -
  let ?cs = "diff_role_entries before after"
  obtain s' where s': "replay_changes ?cs (periods before) = Some s'" "\<forall>c \<in> set ?cs. s' (change_key c) = change_after c"
      "\<forall>k. k \<notin> change_key ` set ?cs \<longrightarrow> s' k = periods before k"
    using replay_changes_distinct [OF diff_keys_distinct, of before after "periods before"] diff_change(1) by blast
  have "s' k = periods after k" for k
  proof (cases "k \<in> change_key ` set ?cs")
    case True
    then obtain c where "c \<in> set ?cs" "k = change_key c" by blast
    then show ?thesis using s'(2) diff_change(2) by metis
  next
    case False
    then show ?thesis using s'(3) diff_complete by metis
  qed
  then have "s' = periods after" by (rule ext)
  then show ?thesis using s'(1) by simp
qed

section \<open>Saving a member extends its history\<close>

lemma periods_distinct:
  assumes "distinct (map (\<lambda>e. (re_role_id e, re_startdate e)) es)"
  shows "periods es = map_of (map (\<lambda>e. ((re_role_id e, re_startdate e), re_enddate e)) es)"
proof -
  have "map_of (entry_dict es) k = map_of (map (\<lambda>e. ((re_role_id e, re_startdate e), e)) es) k" for k
  proof -
    have "map_of (fold (\<lambda>e d. AList.update (re_role_id e, re_startdate e) e d) es d) k =
        (case map_of (map (\<lambda>e. ((re_role_id e, re_startdate e), e)) es) k of None \<Rightarrow> map_of d k | Some e \<Rightarrow> Some e)" for d
      using assms
    proof (induction es arbitrary: d)
      case (Cons a es)
      have "k \<noteq> (re_role_id a, re_startdate a) \<or> map_of (map (\<lambda>e. ((re_role_id e, re_startdate e), e)) es) k = None"
        using Cons.prems by (auto simp: map_of_eq_None_iff image_iff)
      then show ?case using Cons by (auto simp: update_conv' split: option.split)
    qed simp
    from this [of "[]"] show ?thesis by (simp add: entry_dict_def split: option.split)
  qed
  moreover have "map_option re_enddate (map_of (map (\<lambda>e. ((re_role_id e, re_startdate e), e)) xs) k) =
      map_of (map (\<lambda>e. ((re_role_id e, re_startdate e), re_enddate e)) xs) k" for xs k
    by (induction xs) auto
  ultimately show ?thesis by (intro ext) (simp add: periods_def)
qed

definition entry_valid :: "role_entry \<Rightarrow> bool" where
  "entry_valid e \<longleftrightarrow> valid_date (re_startdate e) \<and> (\<forall>d. re_enddate e = Some d \<longrightarrow> valid_date d)"

definition entry_text :: "role_entry \<Rightarrow> string \<times> string \<times> string option" where
  "entry_text e = (re_role_id e, isoformat (re_startdate e), map_option isoformat (re_enddate e))"

lemma entry_text_inject:
  assumes "entry_valid a" "entry_valid b" "entry_text a = entry_text b"
  shows "a = b"
proof (rule role_entry.equality)
  show "re_startdate a = re_startdate b"
    by (rule isoformat_inject [THEN iffD1]) (use assms in \<open>simp_all add: entry_valid_def entry_text_def\<close>)
  show "re_enddate a = re_enddate b"
  proof (cases "re_enddate a"; cases "re_enddate b")
    fix x y
    assume "re_enddate a = Some x" "re_enddate b = Some y"
    moreover from this have "x = y"
      by (intro isoformat_inject [THEN iffD1]) (use assms in \<open>simp_all add: entry_valid_def entry_text_def\<close>)
    ultimately show ?thesis by simp
  qed (use assms(3) in \<open>simp_all add: entry_text_def\<close>)
qed (use assms(3) in \<open>simp_all add: entry_text_def\<close>)

lemma same_view_same_periods:
  assumes "role_view a = role_view b" "list_all entry_valid a" "list_all entry_valid b"
    and "distinct (map (\<lambda>e. (re_role_id e, re_startdate e)) a)" "distinct (map (\<lambda>e. (re_role_id e, re_startdate e)) b)"
  shows "periods a = periods b"
proof -
  have "set (role_view es) = entry_text ` set es" for es by (auto simp: role_view_def entry_text_def)
  then have "entry_text ` set a = entry_text ` set b" using assms(1) by metis
  moreover have "inj_on entry_text (set a \<union> set b)"
    using assms(2,3) by (auto simp: inj_on_def list_all_iff intro: entry_text_inject)
  ultimately have "set a = set b" by (metis Un_upper1 Un_upper2 inj_on_image_eq_iff)
  then show ?thesis
    unfolding periods_distinct [OF assms(4)] periods_distinct [OF assms(5)]
    using assms(4,5) by (subst map_of_inject_set) (simp_all add: comp_def)
qed

lemma held_periods_eq:
  "distinct (map (\<lambda>r. (mr_role_id r, mr_startdate r)) (member_roles m)) \<Longrightarrow> held_periods m = periods (held_entries m)"
  by (subst periods_distinct) (simp_all add: held_periods_def held_entries_def comp_def)

lemma synced_events_history:
  assumes "list_all entry_valid (held_entries m)" "distinct (map (\<lambda>e. (re_role_id e, re_startdate e)) (held_entries m))"
    and "list_all entry_valid (wanted_entries es)" "distinct (map (\<lambda>e. (re_role_id e, re_startdate e)) (wanted_entries es))"
    and es: "es = sr_roles_history data"
  shows "\<exists>added. role_events (synced_events rv m data user db) = role_events db @ added \<and>
    (\<forall>e \<in> set added. ev_member_id e = member_id m) \<and>
    replay_changes (map event_change added) (periods (held_entries m)) = Some (periods (wanted_entries es))"
proof -
  let ?a = "held_entries m" and ?b = "wanted_entries es"
  have event: "event_change \<lparr>ev_id = j, ev_member_id = k, ev_role_id = re_role_id (ch_entry c), ev_action = ch_action c,
      ev_startdate = re_startdate (ch_entry c), ev_enddate = re_enddate (ch_entry c),
      ev_previous_enddate = ch_previous_enddate c, ev_actor_id = u, ev_created_at = t\<rparr> = c" for j k c u t
    by (simp add: event_change_def)
  have zip: "map (\<lambda>(j, c). c) (zip [i..<i + length cs] cs) = cs" for i and cs :: "role_change list"
    by (simp add: map_snd_zip [unfolded snd_def] case_prod_unfold)
  define new where "new = map (\<lambda>(j, c). \<lparr>ev_id = j, ev_member_id = member_id m, ev_role_id = re_role_id (ch_entry c),
      ev_action = ch_action c, ev_startdate = re_startdate (ch_entry c), ev_enddate = re_enddate (ch_entry c),
      ev_previous_enddate = ch_previous_enddate c, ev_actor_id = Some (member_id user), ev_created_at = rv_now rv\<rparr>)
        (zip [rg_next_id db..<rg_next_id db + length (diff_role_entries ?a ?b)] (diff_role_entries ?a ?b))"
  have new: "map event_change new = diff_role_entries ?a ?b" "\<forall>e \<in> set new. ev_member_id e = member_id m"
    using zip by (auto simp: new_def event comp_def case_prod_unfold)
  define added where "added = (if role_view ?a \<noteq> role_view ?b then new else [])"
  have "role_events (synced_events rv m data user db) = role_events db @ added"
    by (simp add: synced_events_def record_role_changes_def Let_def new_def added_def es)
  moreover have "\<forall>e \<in> set added. ev_member_id e = member_id m" using new(2) by (simp add: added_def)
  moreover have "replay_changes (map event_change added) (periods ?a) = Some (periods ?b)"
    using replay_diff [of ?a ?b] same_view_same_periods [OF _ assms(1,3,2,4)] new(1) by (auto simp: added_def)
  ultimately show ?thesis by blast
qed

lemma save_history:
  assumes ok: "history_since base past db" "register_ok db"
    and m: "m \<in> set (rg_members db) \<or> member_id m \<notin> member_id ` set (rg_members db) \<and> member_roles m = [] \<and> typed_columns (columns m)"
    and data: "typed_columns (sr_values data)" "list_all entry_dates_ok (sr_roles_history data)"
    and save: "apply_member_input rv db m data user = Inr (db', m', d)"
  shows "history_since base past db'"
proof -
  obtain since where since: "role_events db = past @ since" "ev_member_id ` set since \<subseteq> member_id ` set (rg_members db)"
      "\<And>k. k \<notin> member_id ` set (rg_members db) \<Longrightarrow> base k = (\<lambda>_. None)"
      "\<And>x. x \<in> set (rg_members db) \<Longrightarrow> replay_history since (member_id x) (base (member_id x)) = Some (held_periods x)"
    using ok(1) by (auto simp: history_since_def)
  have row: "row_ok m" if "m \<in> set (rg_members db)" using that ok(2) by (simp add: register_ok_def members_ok_def)
  then have typed: "typed_columns (columns m)" using m by (auto simp: row_ok_def)
  note eq = apply_member_input_eq [OF typed data(1) save] and tables = apply_member_input_tables [OF typed data(1) save]
  note sr = saved_row [OF eq(1)]
  let ?es = "sr_roles_history data"
  have es: "distinct (map (\<lambda>e. (rhe_id e, rhe_startdate e)) ?es)"
    using eq(4) by (simp add: save_accepted_def role_rows_ok_def)
  have held: "list_all entry_valid (held_entries m)" "distinct (map (\<lambda>r. (mr_role_id r, mr_startdate r)) (member_roles m))"
    using row m by (auto simp: held_entries_def list_all_iff entry_valid_def row_ok_def)
  have wanted: "list_all entry_valid (wanted_entries ?es)"
    using data(2) by (auto simp: wanted_entries_def list_all_iff entry_valid_def entry_dates_ok_def)
  have past: "replay_history since (member_id m) (base (member_id m)) = Some (periods (held_entries m))"
  proof (cases "m \<in> set (rg_members db)")
    case True
    then show ?thesis using since(4) held_periods_eq [OF held(2)] by simp
  next
    case False
    then have new: "member_id m \<notin> member_id ` set (rg_members db)" "member_roles m = []" using m by auto
    have "filter (\<lambda>e. ev_member_id e = member_id m) since = []"
      using new(1) since(2) unfolding filter_empty_conv by (metis imageI subsetD)
    then show ?thesis using new(2) since(3) [OF new(1)]
      by (simp add: replay_history_def held_entries_def periods_def entry_dict_def comp_def)
  qed
  have dist: "distinct (map (\<lambda>e. (re_role_id e, re_startdate e)) (held_entries m))"
    "distinct (map (\<lambda>e. (re_role_id e, re_startdate e)) (wanted_entries ?es))"
    using held(2) es by (simp_all add: held_entries_def wanted_entries_def comp_def)
  obtain added where added: "role_events db' = role_events db @ added" "\<forall>e \<in> set added. ev_member_id e = member_id m"
      "replay_changes (map event_change added) (periods (held_entries m)) = Some (periods (wanted_entries ?es))"
    using synced_events_history [OF held(1) dist(1) wanted dist(2) refl] unfolding tables(3) by blast
  have members: "set (rg_members db') = insert m' {x \<in> set (rg_members db). member_id x \<noteq> member_id m'}"
    by (simp add: tables(1) set_store_member)
  have ids: "member_id ` set (rg_members db') = insert (member_id m) (member_id ` set (rg_members db))"
    using ids_store_member [of m' db] sr(1) by (simp add: tables(1))
  have "held_periods m' = periods (wanted_entries ?es)"
    unfolding periods_distinct [OF dist(2)] by (simp add: held_periods_def sr(6) roles_of_request_def wanted_entries_def comp_def)
  moreover have "filter (\<lambda>e. ev_member_id e = member_id m) added = added" using added(2) by (simp add: filter_id_conv)
  ultimately have own: "replay_history (since @ added) (member_id m') (base (member_id m')) = Some (held_periods m')"
    using past added(3) sr(1) by (simp add: replay_history_def replay_changes_append)
  have other: "replay_history (since @ added) (member_id x) (base (member_id x)) = Some (held_periods x)"
    if "x \<in> set (rg_members db)" "member_id x \<noteq> member_id m'" for x
  proof -
    have "filter (\<lambda>e. ev_member_id e = member_id x) added = []" using added(2) that(2) sr(1) by (auto simp: filter_empty_conv)
    then show ?thesis using since(4) [OF that(1)] by (simp add: replay_history_def)
  qed
  have "ev_member_id ` set (since @ added) \<subseteq> member_id ` set (rg_members db')"
    using since(2) added(2) unfolding ids by auto
  moreover have "base k = (\<lambda>_. None)" if "k \<notin> member_id ` set (rg_members db')" for k using that since(3) unfolding ids by blast
  ultimately show ?thesis
    unfolding history_since_def using own other added(1) since(1) by (intro exI [of _ "since @ added"]) (auto simp: members)
qed

lemma history_cong:
  "rg_members db' = rg_members db \<Longrightarrow> role_events db' = role_events db \<Longrightarrow> history_since base past db' = history_since base past db"
  by (simp add: history_since_def)

lemma register_step_history:
  assumes "register_step chk db db'" and ok: "register_ok db" "history_since base past db"
  shows "history_since base past db'"
  using assms(1)
proof (cases rule: register_step_members)
  case same
  show ?thesis using history_cong [OF same] ok(2) by simp
next
  case (save rv raw data user m d db0 db1 m')
  have "rg_next_id db \<notin> member_id ` set (rg_members db)" using ok(1) by (auto simp: register_ok_def ids_ok_def)
  then have m: "m \<in> set (rg_members db0) \<or> member_id m \<notin> member_id ` set (rg_members db0) \<and> member_roles m = [] \<and> typed_columns (columns m)"
  proof (cases "m \<in> set (rg_members db)")
    case True
    then show ?thesis using save(3) by auto
  next
    case False
    then have new: "m = new_member (rg_next_id db)" using save(4) by simp
    have "rg_members db0 = rg_members db" using save(3) by auto
    then show ?thesis using \<open>rg_next_id db \<notin> member_id ` set (rg_members db)\<close> by (simp add: new new_member_def typed_columns_def)
  qed
  have "register_ok db0" "history_since base past db0"
    using save(3) ok register_ok_next history_cong [of db0 db] by auto
  then have "history_since base past db1"
    using save_history [OF _ _ m validated_request_typed [OF save(1)] validated_request_dates [OF save(1)] save(2)] by blast
  then show ?thesis by (simp add: history_cong [OF save(5,6)])
qed

text \<open>Every register is where its own history from now on begins.\<close>

lemma history_starts: "register_ok db \<Longrightarrow> history_since (roles_of db) (role_events db) db"
proof -
  assume "register_ok db"
  then have d: "distinct (map member_id (rg_members db))" by (simp add: register_ok_def members_ok_def)
  have "get_by member_id (rg_members db) (member_id m) = Some m" if "m \<in> set (rg_members db)" for m
    by (rule get_by_distinct) (use d that in auto)
  moreover have "get_by member_id (rg_members db) k = None" if "k \<notin> member_id ` set (rg_members db)" for k
    using that by (simp add: get_by_None_iff)
  ultimately show ?thesis
    unfolding history_since_def by (intro exI [of _ "[]"]) (auto simp: roles_of_def replay_history_def)
qed

end
