(* ===== verification/Register_Views.thy ===== *)
theory Register_Views
  imports Register_Entries
begin

text \<open>
  Reading the register: the detail page with the family tree, the statistics, the searches, the
  lists of roles and keys and the change history of \<open>app/services/standesdb_service.py\<close>.

  PostgreSQL's text search is a parameter: a function from rows to their rank, \<open>None\<close> for a row
  that does not match. The recursion of \<open>_build_tree_node\<close> takes the number of free stack frames.
\<close>

section \<open>Statistics\<close>

record org_stats =
  st_present :: nat
  st_dismissed :: nat
  st_dead :: nat
  st_dismissed_dead :: nat

definition count_members :: "register_db \<Rightarrow> string \<Rightarrow> bool \<Rightarrow> bool \<Rightarrow> nat" where
  "count_members db org dismissed dead = length (filter (\<lambda>m. columns m F_org_id = PStr org \<and>
     columns m F_entlassen = PBool dismissed \<and> columns m F_verstorben = PBool dead) (rg_members db))"

definition get_member_stats :: "register_db \<Rightarrow> (string \<times> org_stats) list" where
  "get_member_stats db = map (\<lambda>org. (lr_id org,
     \<lparr>st_present = count_members db (lr_id org) False False, st_dismissed = count_members db (lr_id org) True False,
      st_dead = count_members db (lr_id org) False True, st_dismissed_dead = count_members db (lr_id org) True True\<rparr>))
     (rg_orgs db)"

definition live_contacts :: "register_db \<Rightarrow> contact list" where
  "live_contacts db = filter (\<lambda>c. contact_deleted_at c = None) (contacts db)"

text \<open>The counts for both organisations, for \<open>vbw\<close> and for \<open>vbn\<close>.\<close>

definition get_contact_stats :: "register_db \<Rightarrow> nat \<times> nat \<times> nat" where
  "get_contact_stats db =
     (let total = length (live_contacts db);
          vbw = length (filter (\<lambda>c. contact_columns c K_org_id = PStr ''vbw'') (live_contacts db));
          vbn = length (filter (\<lambda>c. contact_columns c K_org_id = PStr ''vbn'') (live_contacts db))
      in (total - vbw - vbn, vbw, vbn))"

section \<open>Search\<close>

record directory_search =
  rank_member :: "member \<Rightarrow> rat option"
  rank_contact :: "contact \<Rightarrow> rat option"

datatype directory_hit = Member_hit uuid string | Contact_hit uuid string

definition member_search_result :: "member \<Rightarrow> directory_hit" where
  "member_search_result m =
     (let org = value_or_empty (columns m F_org_id)
      in Member_hit (member_id m) (''Mitglied ('' @ (if org = [] then ''?'' else upper org) @ ''): '' @ cn m))"

definition contact_search_result :: "contact \<Rightarrow> directory_hit" where
  "contact_search_result c = Contact_hit (contact_id c) (''Kontakt: '' @ contact_cn c)"

definition ranked_rows :: "('r \<Rightarrow> rat option) \<Rightarrow> 'r list \<Rightarrow> ('r \<times> rat) list" where
  "ranked_rows rank rows = sort_desc snd (concat (map (\<lambda>r. case rank r of None \<Rightarrow> [] | Some x \<Rightarrow> [(r, x)]) rows))"

definition search_rows :: "register_db \<Rightarrow> directory_search \<Rightarrow> (directory_hit \<times> rat) list" where
  "search_rows db ds =
     map (\<lambda>(m, x). (member_search_result m, x)) (ranked_rows (rank_member ds) (rg_members db)) @
     map (\<lambda>(c, x). (contact_search_result c, x)) (ranked_rows (rank_contact ds) (live_contacts db))"

text \<open>\<open>exact\<close> is \<open>None\<close> when the query has no lexeme.\<close>

definition search_members_and_contacts ::
  "register_db \<Rightarrow> directory_search option \<Rightarrow> directory_search \<Rightarrow> directory_hit list" where
  "search_members_and_contacts db exact fuzzy =
     (let ranked = (case exact of None \<Rightarrow> [] | Some ds \<Rightarrow> search_rows db ds);
          ranked = (if ranked = [] then search_rows db fuzzy else ranked)
      in map fst (sort_desc snd ranked))"

definition parent_candidates :: "register_db \<Rightarrow> member \<Rightarrow> (member \<Rightarrow> rat option) \<Rightarrow> (member \<times> rat) list" where
  "parent_candidates db m rank = ranked_rows rank (filter (\<lambda>x. columns m F_org_id \<noteq> PNone \<and>
     columns x F_org_id = columns m F_org_id \<and> member_id x \<noteq> member_id m \<and>
     uuid_col x F_parent_id \<noteq> Some (member_id m)) (rg_members db))"

definition search_parent ::
  "register_db \<Rightarrow> uuid \<Rightarrow> (member \<Rightarrow> rat option) option \<Rightarrow> (member \<Rightarrow> rat option) \<Rightarrow> exc + (uuid \<times> string) list" where
  "search_parent db k exact fuzzy =
     bind_res (get_member_or_404 db k) (\<lambda>m.
       let ranked = (case exact of None \<Rightarrow> [] | Some r \<Rightarrow> parent_candidates db m r);
           ranked = (if ranked = [] then parent_candidates db m fuzzy else ranked)
       in Inr (map (\<lambda>(m, _). (member_id m, cn m)) (sort_desc snd ranked)))"

section \<open>The family tree\<close>

definition MAX_TREE_DEPTH :: nat where "MAX_TREE_DEPTH = 100"

text \<open>One generation: the children found, ordered by id; each member is taken once.\<close>

fun take_children :: "member list \<Rightarrow> uuid set \<Rightarrow> (uuid \<Rightarrow> member list) \<Rightarrow> uuid list \<Rightarrow>
    uuid set \<times> (uuid \<Rightarrow> member list) \<times> uuid list" where
  "take_children [] seen by_parent gen = (seen, by_parent, gen)"
| "take_children (c # cs) seen by_parent gen =
     (case uuid_col c F_parent_id of None \<Rightarrow> take_children cs seen by_parent gen
      | Some p \<Rightarrow>
          if member_id c \<in> seen then take_children cs seen by_parent gen
          else take_children cs (insert (member_id c) seen) (by_parent(p := by_parent p @ [c])) (gen @ [member_id c]))"

definition children_of :: "register_db \<Rightarrow> uuid list \<Rightarrow> member list" where
  "children_of db gen = sort_key member_id (filter (\<lambda>m. case uuid_col m F_parent_id of None \<Rightarrow> False
     | Some p \<Rightarrow> p \<in> set gen) (rg_members db))"

fun descendants_loop :: "nat \<Rightarrow> register_db \<Rightarrow> uuid list \<Rightarrow> uuid set \<Rightarrow> (uuid \<Rightarrow> member list) \<Rightarrow> (uuid \<Rightarrow> member list)" where
  "descendants_loop 0 db gen seen by_parent = by_parent"
| "descendants_loop (Suc n) db gen seen by_parent =
     (if gen = [] then by_parent
      else case take_children (children_of db gen) seen by_parent [] of
        (seen', by_parent', gen') \<Rightarrow> descendants_loop n db gen' seen' by_parent')"

definition descendants_by_parent :: "register_db \<Rightarrow> uuid \<Rightarrow> (uuid \<Rightarrow> member list)" where
  "descendants_by_parent db top_id = descendants_loop MAX_TREE_DEPTH db [top_id] {top_id} (\<lambda>_. [])"

record node_data =
  nd_id :: uuid
  nd_cn :: string
  nd_gruender :: pyval
  nd_org_id :: pyval
  nd_state_id :: pyval
  nd_entlassen :: pyval
  nd_verstorben :: pyval

datatype tree_node = Tree_node (node_data: node_data) (node_children: "tree_node list")

definition node_of :: "member \<Rightarrow> node_data" where
  "node_of m = \<lparr>nd_id = member_id m, nd_cn = cn m, nd_gruender = columns m F_gruender, nd_org_id = columns m F_org_id,
     nd_state_id = columns m F_state_id, nd_entlassen = columns m F_entlassen, nd_verstorben = columns m F_verstorben\<rparr>"

primrec build_tree_node :: "nat \<Rightarrow> (uuid \<Rightarrow> member list) \<Rightarrow> member \<Rightarrow> exc + tree_node" where
  "build_tree_node 0 by_parent m = Inl RecursionError"
| "build_tree_node (Suc n) by_parent m =
     bind_res (map_res (build_tree_node n by_parent) (by_parent (member_id m))) (\<lambda>cs. Inr (Tree_node (node_of m) cs))"

text \<open>The loop up the chain; \<open>n\<close> counts what is left of the depth.\<close>

primrec ancestry_loop :: "nat \<Rightarrow> register_db \<Rightarrow> uuid set \<Rightarrow> member option \<Rightarrow> node_data list" where
  "ancestry_loop 0 db seen current = []"
| "ancestry_loop (Suc n) db seen current =
     (case current of None \<Rightarrow> []
      | Some m \<Rightarrow> if member_id m \<in> seen then []
                 else node_of m # ancestry_loop n db (insert (member_id m) seen) (parent_member db m))"

section \<open>The detail page\<close>

definition get_visible_member_or_404 :: "register_db \<Rightarrow> uuid \<Rightarrow> exc + member" where
  "get_visible_member_or_404 db k = (case get_member db k of None \<Rightarrow> Inl member_missing
     | Some m \<Rightarrow> if flag_col m F_entlassen then Inl member_missing else Inr m)"

definition may_see_account_status :: "environment \<Rightarrow> member \<Rightarrow> member \<Rightarrow> bool" where
  "may_see_account_status rv viewer m =
     (if member_id viewer = member_id m then True
      else let org = value_or_empty (columns m F_org_id) in
           if org = [] then False else org_admin_permission org \<in> permissions_of rv viewer)"

record role_view_row =
  rv_role_id :: string
  rv_label :: "string option"
  rv_group :: "string option"
  rv_order :: int
  rv_startdate :: date
  rv_enddate :: "date option"

definition build_roles_list :: "member \<Rightarrow> role_view_row list" where
  "build_roles_list m = map (\<lambda>mr. \<lparr>rv_role_id = mr_role_id mr, rv_label = Option.bind (mr_role mr) role_label,
     rv_group = Option.bind (mr_role mr) role_group,
     rv_order = (case Option.bind (mr_role mr) role_sort_order of None \<Rightarrow> 0 | Some i \<Rightarrow> i),
     rv_startdate = mr_startdate mr, rv_enddate = mr_enddate mr\<rparr>) (member_roles m)"

text \<open>The foreign keys guarantee the badge and the key of a row.\<close>

definition build_badges_list :: "register_db \<Rightarrow> member \<Rightarrow> (badge \<times> presented_item) list" where
  "build_badges_list db m = concat (map (\<lambda>b. case get_by badge_id (rg_badges db) (item_id b) of None \<Rightarrow> []
     | Some x \<Rightarrow> [(x, b)]) (member_badges m))"

definition build_keys_list :: "register_db \<Rightarrow> member \<Rightarrow> (key_row \<times> presented_item) list" where
  "build_keys_list db m = concat (map (\<lambda>b. case get_by key_id (rg_keys db) (item_id b) of None \<Rightarrow> []
     | Some x \<Rightarrow> [(x, b)]) (member_keys m))"

record member_detail =
  md_id :: uuid
  md_cn :: string
  md_columns :: "member_field \<Rightarrow> pyval"
  md_org_label :: "string option"
  md_state_label :: "string option"
  md_parent_cn :: string
  md_roles_history :: "role_view_row list"
  md_badges :: "(badge \<times> presented_item) list"
  md_keys :: "(key_row \<times> presented_item) list"
  md_children :: "tree_node list"
  md_ancestry :: "node_data list"

datatype member_response = Dismissed uuid string pyval | Detail member_detail

text \<open>The columns the response has, the account status only if it may be seen.\<close>

definition DETAIL_FIELDS :: "member_field list" where
  "DETAIL_FIELDS = SAVE_FIELDS @ [F_email_verified_at]"

definition detail_value :: "member \<Rightarrow> bool \<Rightarrow> member_field \<Rightarrow> pyval" where
  "detail_value m show_status f =
     (if f \<notin> set DETAIL_FIELDS then PNone
      else if f \<in> {F_chroniclemail, F_auth_locked, F_email_verified_at} \<and> \<not> show_status then PNone
      else case live_value m f of
        PDate d \<Rightarrow> PStr (isoformat d) | PTime t \<Rightarrow> PStr (time_text t) | v \<Rightarrow> v)"

definition label_of :: "lookup_row list \<Rightarrow> pyval \<Rightarrow> string option" where
  "label_of rows v = (case v of PStr k \<Rightarrow> Option.bind (get_by lr_id rows k) lr_label | _ \<Rightarrow> None)"

definition get_member_detail :: "environment \<Rightarrow> nat \<Rightarrow> register_db \<Rightarrow> uuid \<Rightarrow> member \<Rightarrow> exc + member_response" where
  "get_member_detail rv frames db k viewer =
     bind_res (get_member_or_404 db k) (\<lambda>m.
     if flag_col m F_entlassen then Inr (Dismissed (member_id m) (cn m) (columns m F_org_id))
     else let by_parent = descendants_by_parent db (member_id m) in
       bind_res (map_res (build_tree_node frames by_parent) (by_parent (member_id m))) (\<lambda>children.
       Inr (Detail \<lparr>md_id = member_id m, md_cn = cn m, md_columns = detail_value m (may_see_account_status rv viewer m),
         md_org_label = label_of (rg_orgs db) (columns m F_org_id), md_state_label = label_of (rg_states db) (columns m F_state_id),
         md_parent_cn = (case parent_member db m of None \<Rightarrow> [] | Some p \<Rightarrow> cn p),
         md_roles_history = build_roles_list m, md_badges = build_badges_list db m, md_keys = build_keys_list db m,
         md_children = children, md_ancestry = rev (ancestry_loop MAX_TREE_DEPTH db {} (Some m))\<rparr>)))"

section \<open>Contacts, reference data and lists\<close>

definition get_contact_detail :: "register_db \<Rightarrow> uuid \<Rightarrow> exc + uuid \<times> string \<times> (contact_field \<Rightarrow> pyval) \<times> string option" where
  "get_contact_detail db k =
     bind_res (get_contact_or_404 db k) (\<lambda>c.
     Inr (contact_id c, contact_cn c,
       \<lambda>f. if f = K_zustellungen \<and> contact_columns c f = PNone then PBool False
           else if f = K_datum_accuracy \<and> contact_columns c f = PNone then PInt 0
           else case contact_columns c f of PDate d \<Rightarrow> PStr (isoformat d) | v \<Rightarrow> v,
       label_of (rg_orgs db) (contact_columns c K_org_id)))"

definition order_of :: "int option \<Rightarrow> bool \<times> int" where
  "order_of i = (case i of None \<Rightarrow> (True, 0) | Some x \<Rightarrow> (False, x))"

text \<open>PostgreSQL sorts NULL last.\<close>

definition roles_in_order :: "register_db \<Rightarrow> role list" where
  "roles_in_order db = sort_key (\<lambda>r. order_of (role_sort_order r)) (rg_roles db)"

definition get_reference_data :: "register_db \<Rightarrow> lookup_row list \<times> lookup_row list \<times> role list \<times> badge list \<times> key_row list" where
  "get_reference_data db =
     (sort_key (\<lambda>r. order_of (lr_sort_order r)) (rg_orgs db), sort_key (\<lambda>r. order_of (lr_sort_order r)) (rg_states db),
      roles_in_order db, sort_key (\<lambda>b. order_of (badge_sort_order b)) (rg_badges db), rg_keys db)"

definition semester_bounds :: "date \<Rightarrow> int option \<Rightarrow> string option \<Rightarrow> exc + string \<times> int \<times> (date \<times> date) option" where
  "semester_bounds today year_arg semester =
     (case (year_arg, semester) of
        (Some y, Some (c # cs)) \<Rightarrow>
          if y = 0 then Inr (if 2 \<le> month today \<and> month today \<le> 7 then ''ss'' else ''ws'', year today, None)
          else bind_res (if c # cs = ''ws'' then mk_date y 8 1 else mk_date y 2 1) (\<lambda>s.
               bind_res (if c # cs = ''ws'' then mk_date (y + 1) 1 31 else mk_date y 7 31) (\<lambda>e.
               Inr (c # cs, y, Some (s, e))))
      | _ \<Rightarrow> Inr (if 2 \<le> month today \<and> month today \<le> 7 then ''ss'' else ''ws'', year today, None))"

record roles_list_entry =
  rl_label :: "string option"
  rl_group :: "string option"
  rl_vbw :: "(uuid \<times> string \<times> date \<times> date option) option"
  rl_vbn :: "(uuid \<times> string \<times> date \<times> date option) option"

definition assignments_in :: "register_db \<Rightarrow> date \<Rightarrow> (date \<times> date) option \<Rightarrow> (member \<times> member_role) list" where
  "assignments_in db today bounds =
     (let (s, e) = (case bounds of None \<Rightarrow> (today, today) | Some b \<Rightarrow> b)
      in sort_key (\<lambda>(m, mr). mr_startdate mr) (concat (map (\<lambda>m. map (Pair m) (filter (\<lambda>mr.
           mr_role_id mr \<in> role_id ` set (rg_roles db) \<and> mr_startdate mr < e \<and>
           (case mr_enddate mr of None \<Rightarrow> True | Some d \<Rightarrow> s < d)) (member_roles m))) (rg_members db))))"

definition first_of_org :: "string \<Rightarrow> string \<Rightarrow> (member \<times> member_role) list \<Rightarrow> (uuid \<times> string \<times> date \<times> date option) option" where
  "first_of_org role org xs =
     map_option (\<lambda>(m, mr). (member_id m, cn m, mr_startdate mr, mr_enddate mr))
       (List.find (\<lambda>(m, mr). mr_role_id mr = role \<and> columns m F_org_id = PStr org) xs)"

definition get_roles_list ::
  "register_db \<Rightarrow> date \<Rightarrow> int option \<Rightarrow> string option \<Rightarrow> exc + string \<times> int \<times> roles_list_entry list" where
  "get_roles_list db today year_arg semester =
     bind_res (semester_bounds today year_arg semester) (\<lambda>(sem, y, bounds).
       let xs = assignments_in db today bounds
       in Inr (sem, y, map (\<lambda>r. \<lparr>rl_label = role_label r, rl_group = role_group r,
            rl_vbw = first_of_org (role_id r) ''vbw'' xs, rl_vbn = first_of_org (role_id r) ''vbn'' xs\<rparr>) (roles_in_order db)))"

text \<open>The list of key holders; \<open>collate\<close> is the database's order of texts.\<close>

definition build_keys_data ::
  "(string \<Rightarrow> 'o::linorder) \<Rightarrow> register_db \<Rightarrow> string option list \<times> (uuid \<times> pyval \<times> pyval \<times> (string option \<times> bool) list) list" where
  "build_keys_data collate db =
     (let names = map key_name (rg_keys db);
          holders = sort_key (\<lambda>m. (columns m F_nachname = PNone, collate (value_or_empty (columns m F_nachname))))
            (filter (\<lambda>m. member_keys m \<noteq> []) (rg_members db))
      in (names, map (\<lambda>m.
           let held = {key_name k | k. k \<in> set (rg_keys db) \<and> key_id k \<in> item_id ` set (member_keys m)}
           in (member_id m, columns m F_nachname, columns m F_vorname, map (\<lambda>n. (n, n \<in> held)) (remdups names))) holders))"

definition none_text :: "pyval \<Rightarrow> string" where
  "none_text v = (case value_text v of None \<Rightarrow> ''None'' | Some s \<Rightarrow> s)"

definition generate_keys_download :: "(string \<Rightarrow> 'o::linorder) \<Rightarrow> register_db \<Rightarrow> string" where
  "generate_keys_download collate db =
     (case build_keys_data collate db of (names, rows) \<Rightarrow>
        join [char_of (10 :: nat)] (map (\<lambda>(i, nach, vor, flags).
          none_text nach @ '', '' @ none_text vor @ '': '' @
          join '', '' (map (\<lambda>n. case n of None \<Rightarrow> ''None'' | Some s \<Rightarrow> s) (filter (\<lambda>n. map_of flags n = Some True) names))) rows))"

section \<open>The change history\<close>

definition changelog_name_map :: "register_db \<Rightarrow> change_log list \<Rightarrow> uuid \<Rightarrow> string option" where
  "changelog_name_map db logs k =
     (if Some k \<in> log_modified_by ` set logs
      then map_option (\<lambda>m. strip (value_or_empty (columns m F_vorname) @ '' '' @ value_or_empty (columns m F_nachname))) (get_member db k)
      else None)"

record changelog_page =
  cp_items :: "(change_log \<times> string option) list"
  cp_total :: nat
  cp_page :: nat
  cp_page_size :: nat

definition changelog_page_of :: "register_db \<Rightarrow> change_log list \<Rightarrow> uuid \<Rightarrow> nat \<Rightarrow> nat \<Rightarrow> changelog_page" where
  "changelog_page_of db logs k page size_arg =
     (let rows = filter (\<lambda>l. log_entity l = Some k \<and> log_key l \<notin> set CHANGELOG_EXCLUDED_KEYS) logs;
          shown = page_of size_arg page (sort_desc log_modified_at rows)
      in \<lparr>cp_items = map (\<lambda>l. (l, Option.bind (log_modified_by l) (changelog_name_map db shown))) shown,
          cp_total = length rows, cp_page = page, cp_page_size = size_arg\<rparr>)"

definition get_member_changelog :: "register_db \<Rightarrow> uuid \<Rightarrow> nat \<Rightarrow> nat \<Rightarrow> changelog_page" where
  "get_member_changelog db = changelog_page_of db (member_logs db)"

definition get_contact_changelog :: "register_db \<Rightarrow> uuid \<Rightarrow> nat \<Rightarrow> nat \<Rightarrow> changelog_page" where
  "get_contact_changelog db = changelog_page_of db (contact_logs db)"

end
