(* ===== verification/Register_Tree.thy ===== *)
theory Register_Tree
  imports Register_Views Register_Steps
begin

text \<open>
  The family tree of the detail page in a register without cycles: the breadth-first collection of
  \<open>_descendants_by_parent\<close> finds the children of everybody within the depth, and the recursion of
  \<open>_build_tree_node\<close> turns them into trees in which each descendant occurs once.
\<close>

section \<open>Steps up the chain\<close>

primrec climb :: "('k \<Rightarrow> 'k option) \<Rightarrow> nat \<Rightarrow> 'k \<Rightarrow> 'k option" where
  "climb par 0 x = Some x"
| "climb par (Suc n) x = Option.bind (climb par n x) par"

lemma climb_add: "climb par (a + b) x = Option.bind (climb par a x) (climb par b)"
  by (induction b) simp_all

lemma climb_Suc: "climb par (Suc n) x = Option.bind (par x) (climb par n)"
  using climb_add [of par 1 n x] by simp

lemma climb_above: "climb par (Suc n) x = Some y \<Longrightarrow> (x, y) \<in> (parent_rel par)\<^sup>+"
proof (induction n arbitrary: y)
  case (Suc n)
  then obtain z where "climb par (Suc n) x = Some z" "par z = Some y" by (auto simp: bind_eq_Some_conv)
  then show ?case using Suc.IH [of z] by (auto intro: trancl_into_trancl)
qed (auto simp: bind_eq_Some_conv)

lemma climb_unique:
  assumes "no_cycle par" "climb par i x = Some k" "climb par j x = Some k"
  shows "i = j"
proof -
  have "\<not> a < b" if "climb par a x = Some k" "climb par b x = Some k" for a b
  proof
    assume "a < b"
    then obtain n where "b = a + Suc n" using less_iff_Suc_add by auto
    then have "climb par (Suc n) k = Some k" using that climb_add [of par a "Suc n" x] by simp
    then show False using climb_above assms(1) by (fastforce simp: no_cycle_def acyclic_def)
  qed
  then show ?thesis using assms(2,3) by (meson linorder_neqE_nat)
qed

section \<open>Collecting the generations\<close>

definition kids :: "register_db \<Rightarrow> uuid \<Rightarrow> member list" where
  "kids db p = sort_key member_id (filter (\<lambda>m. uuid_col m F_parent_id = Some p) (rg_members db))"

text \<open>The children of everybody in fewer than \<open>n\<close> steps below \<open>k\<close>.\<close>

definition kids_within :: "register_db \<Rightarrow> uuid \<Rightarrow> nat \<Rightarrow> uuid \<Rightarrow> member list" where
  "kids_within db k n p = (if \<exists>i < n. climb (member_par db) i p = Some k then kids db p else [])"

lemma take_children_eq:
  "distinct (map member_id cs) \<Longrightarrow> member_id ` set cs \<inter> seen = {} \<Longrightarrow> \<forall>c \<in> set cs. uuid_col c F_parent_id \<noteq> None \<Longrightarrow>
   take_children cs seen by_parent gen = (seen \<union> member_id ` set cs,
     \<lambda>p. by_parent p @ filter (\<lambda>c. uuid_col c F_parent_id = Some p) cs, gen @ map member_id cs)"
  by (induction cs seen by_parent gen rule: take_children.induct) (auto simp: fun_eq_iff)

lemma member_par_id:
  "distinct (map member_id (rg_members db)) \<Longrightarrow> m \<in> set (rg_members db) \<Longrightarrow> member_par db (member_id m) = uuid_col m F_parent_id"
  by (simp add: member_par_def get_member_self)

lemma member_par_D: "member_par db x = Some p \<Longrightarrow> \<exists>m \<in> set (rg_members db). member_id m = x \<and> uuid_col m F_parent_id = Some p"
  by (auto simp: member_par_def bind_eq_Some_conv dest!: get_member_D)

lemma generation_step:
  fixes j k
  assumes d: "distinct (map member_id (rg_members db))" and nc: "no_cycle (member_par db)"
    and gen: "set gen = {x. climb (member_par db) j x = Some k}"
  shows "take_children (children_of db gen) {x. \<exists>i \<le> j. climb (member_par db) i x = Some k} (kids_within db k j) [] =
     ({x. \<exists>i \<le> Suc j. climb (member_par db) i x = Some k}, kids_within db k (Suc j), map member_id (children_of db gen))"
    and "set (map member_id (children_of db gen)) = {x. climb (member_par db) (Suc j) x = Some k}"
proof -
  let ?up = "climb (member_par db)"
  let ?cs = "children_of db gen"
  have cs: "set ?cs = {m \<in> set (rg_members db). \<exists>p. uuid_col m F_parent_id = Some p \<and> ?up j p = Some k}"
    using gen by (auto simp: children_of_def split: option.split_asm)
  show ids: "set (map member_id ?cs) = {x. ?up (Suc j) x = Some k}"
  proof
    show "set (map member_id ?cs) \<subseteq> {x. ?up (Suc j) x = Some k}"
      using member_par_id [OF d] by (auto simp: cs climb_Suc simp del: climb.simps)
    show "{x. ?up (Suc j) x = Some k} \<subseteq> set (map member_id ?cs)"
    proof
      fix x assume "x \<in> {x. ?up (Suc j) x = Some k}"
      then obtain p where p: "member_par db x = Some p" "?up j p = Some k"
        by (auto simp: climb_Suc bind_eq_Some_conv simp del: climb.simps)
      then show "x \<in> set (map member_id ?cs)" using member_par_D [OF p(1)] by (auto simp: cs)
    qed
  qed
  have "mset (map member_id ?cs) = mset (map member_id (filter (\<lambda>m. case uuid_col m F_parent_id of None \<Rightarrow> False
     | Some p \<Rightarrow> p \<in> set gen) (rg_members db)))"
    by (simp add: children_of_def)
  then have "distinct (map member_id ?cs)"
    using d mset_eq_imp_distinct_iff by (metis distinct_map_filter)
  moreover have "member_id ` set ?cs \<inter> {x. \<exists>i \<le> j. ?up i x = Some k} = {}"
    using ids climb_unique [OF nc, of "Suc j"] by fastforce
  moreover have "kids_within db k j p @ filter (\<lambda>c. uuid_col c F_parent_id = Some p) ?cs = kids_within db k (Suc j) p" for p
  proof -
    have "filter (\<lambda>c. uuid_col c F_parent_id = Some p) ?cs = (if ?up j p = Some k then kids db p else [])"
    proof (cases "?up j p = Some k")
      case True
      then have "filter (\<lambda>x. (case uuid_col x F_parent_id of None \<Rightarrow> False | Some q \<Rightarrow> q \<in> set gen) \<and> uuid_col x F_parent_id = Some p) ms =
          filter (\<lambda>x. uuid_col x F_parent_id = Some p) ms" for ms
        using gen by (intro filter_cong) auto
      then show ?thesis using True by (simp add: children_of_def kids_def filter_sort conj_commute)
    next
      case False
      then show ?thesis by (auto simp: cs filter_empty_conv)
    qed
    then show ?thesis
      using climb_unique [OF nc, of j p k] by (auto simp: kids_within_def less_Suc_eq)
  qed
  moreover have "{x. \<exists>i \<le> j. ?up i x = Some k} \<union> member_id ` set ?cs = {x. \<exists>i \<le> Suc j. ?up i x = Some k}"
    using ids by (auto simp: le_Suc_eq simp del: climb.simps)
  ultimately show "take_children ?cs {x. \<exists>i \<le> j. ?up i x = Some k} (kids_within db k j) [] =
     ({x. \<exists>i \<le> Suc j. ?up i x = Some k}, kids_within db k (Suc j), map member_id ?cs)"
    by (subst take_children_eq) (auto simp: cs fun_eq_iff)
qed

lemma descendants_loop_eq:
  assumes d: "distinct (map member_id (rg_members db))" and nc: "no_cycle (member_par db)"
    and "set gen = {x. climb (member_par db) j x = Some k}"
  shows "descendants_loop n db gen {x. \<exists>i \<le> j. climb (member_par db) i x = Some k} (kids_within db k j) = kids_within db k (j + n)"
  using assms(3)
proof (induction n arbitrary: j gen)
  case (Suc n)
  let ?up = "climb (member_par db)"
  show ?case
  proof (cases "gen = []")
    case True
    have "\<not> ?up i p = Some k" if "j \<le> i" for i p
    proof
      assume "?up i p = Some k"
      moreover have "i - j + j = i" using that by simp
      ultimately have "Option.bind (?up (i - j) p) (?up j) = Some k" using climb_add [of "member_par db" "i - j" j p] by simp
      then obtain y where "?up j y = Some k" by (auto simp: bind_eq_Some_conv)
      then show False using Suc.prems True by simp
    qed
    then have "(\<exists>i < j + Suc n. ?up i p = Some k) = (\<exists>i < j. ?up i p = Some k)" for p
      by (meson not_le trans_less_add1)
    then show ?thesis using True by (simp add: kids_within_def fun_eq_iff)
  next
    case False
    note step = generation_step [OF d nc Suc.prems]
    show ?thesis using False Suc.IH [OF step(2)] by (simp add: step(1))
  qed
qed simp

lemma descendants_eq:
  assumes "distinct (map member_id (rg_members db))" "no_cycle (member_par db)"
  shows "descendants_by_parent db k = kids_within db k MAX_TREE_DEPTH"
proof -
  have "kids_within db k 0 = (\<lambda>_. [])" by (rule ext) (simp add: kids_within_def)
  then show ?thesis
    using descendants_loop_eq [OF assms, of "[k]" 0 k MAX_TREE_DEPTH] by (simp add: descendants_by_parent_def)
qed

section \<open>Building the trees\<close>

primrec tree_ids :: "tree_node \<Rightarrow> uuid list" where
  "tree_ids (Tree_node nd cs) = nd_id nd # concat (map tree_ids cs)"

text \<open>Who stands at most \<open>n\<close> steps below \<open>x\<close>.\<close>

definition below :: "register_db \<Rightarrow> nat \<Rightarrow> uuid \<Rightarrow> uuid set" where
  "below db n x = {y. \<exists>i \<le> n. climb (member_par db) i y = Some x}"

lemma map_res_total:
  assumes "\<And>x. x \<in> set xs \<Longrightarrow> \<exists>y. f x = Inr y \<and> P x y"
  shows "\<exists>ys. map_res f xs = Inr ys \<and> list_all2 P xs ys"
  using assms
proof (induction xs)
  case (Cons x xs)
  then obtain y ys where "f x = Inr y" "P x y" "map_res f xs = Inr ys" "list_all2 P xs ys" by fastforce
  then show ?case by simp
qed simp

lemma forest_ids:
  assumes "list_all2 (\<lambda>c t. set (tree_ids t) = S (member_id c) \<and> distinct (tree_ids t)) cs ts" "distinct (map member_id cs)"
    and "\<And>a b. a \<in> set cs \<Longrightarrow> b \<in> set cs \<Longrightarrow> member_id a \<noteq> member_id b \<Longrightarrow> S (member_id a) \<inter> S (member_id b) = {}"
  shows "distinct (concat (map tree_ids ts)) \<and> set (concat (map tree_ids ts)) = (\<Union>c \<in> set cs. S (member_id c))"
  using assms
proof (induction rule: list_all2_induct)
  case (Cons c cs t ts)
  have IH: "distinct (concat (map tree_ids ts))" "set (concat (map tree_ids ts)) = (\<Union>c \<in> set cs. S (member_id c))"
    using Cons.IH Cons.prems by auto
  have "S (member_id c) \<inter> S (member_id b) = {}" if "b \<in> set cs" for b
    using that Cons.prems by (intro Cons.prems(2)) auto
  then have "set (tree_ids t) \<inter> set (concat (map tree_ids ts)) = {}" unfolding IH(2) using Cons.hyps(1) by blast
  then show ?case using IH Cons.hyps(1) by simp
qed simp

lemma kids_facts:
  assumes d: "distinct (map member_id (rg_members db))"
  shows "distinct (map member_id (kids db x))" "set (kids db x) \<subseteq> set (rg_members db)"
    "member_id ` set (kids db x) = {y. member_par db y = Some x}"
proof -
  have "mset (map member_id (kids db x)) = mset (map member_id (filter (\<lambda>m. uuid_col m F_parent_id = Some x) (rg_members db)))"
    by (simp add: kids_def)
  then show "distinct (map member_id (kids db x))"
    using d mset_eq_imp_distinct_iff by (metis distinct_map_filter)
  show "set (kids db x) \<subseteq> set (rg_members db)" by (auto simp: kids_def)
  show "member_id ` set (kids db x) = {y. member_par db y = Some x}"
    using member_par_id [OF d] by (auto simp: kids_def dest!: member_par_D)
qed

lemma below_step: "below db (Suc n) x = insert x (\<Union>c \<in> {y. member_par db y = Some x}. below db n c)"
proof -
  have "(\<exists>i \<le> Suc n. climb (member_par db) i y = Some x) \<longleftrightarrow>
      y = x \<or> (\<exists>i \<le> n. climb (member_par db) (Suc i) y = Some x)" for y
  proof
    assume "\<exists>i \<le> Suc n. climb (member_par db) i y = Some x"
    then obtain i where "i \<le> Suc n" "climb (member_par db) i y = Some x" by blast
    then show "y = x \<or> (\<exists>i \<le> n. climb (member_par db) (Suc i) y = Some x)"
    proof (cases i)
      case (Suc l)
      then have "l \<le> n" "climb (member_par db) (Suc l) y = Some x" using \<open>i \<le> Suc n\<close> \<open>climb (member_par db) i y = Some x\<close> by simp_all
      then show ?thesis by blast
    qed (use \<open>climb (member_par db) i y = Some x\<close> in simp)
  next
    assume "y = x \<or> (\<exists>i \<le> n. climb (member_par db) (Suc i) y = Some x)"
    then show "\<exists>i \<le> Suc n. climb (member_par db) i y = Some x"
    proof
      show ?thesis if "y = x" using that by (intro exI [of _ 0]) simp
      show ?thesis if "\<exists>i \<le> n. climb (member_par db) (Suc i) y = Some x" using that Suc_le_mono by blast
    qed
  qed
  then show ?thesis by (auto simp: below_def bind_eq_Some_conv)
qed

lemma build_tree:
  assumes d: "distinct (map member_id (rg_members db))" and nc: "no_cycle (member_par db)"
  shows "m \<in> set (rg_members db) \<Longrightarrow> climb (member_par db) j (member_id m) = Some k \<Longrightarrow> j \<le> N \<Longrightarrow> N - j < n \<Longrightarrow>
    \<exists>t. build_tree_node n (kids_within db k N) m = Inr t \<and> set (tree_ids t) = below db (N - j) (member_id m) \<and> distinct (tree_ids t)"
proof (induction n arbitrary: m j)
  case (Suc n)
  let ?up = "climb (member_par db)" and ?x = "member_id m"
  have none: "kids_within db k N ?x = (if j < N then kids db ?x else [])"
  proof -
    have "?up i ?x = Some k \<longleftrightarrow> i = j" for i using climb_unique [OF nc, of i ?x k j] Suc.prems(2) by blast
    then show ?thesis by (simp add: kids_within_def)
  qed
  show ?case
  proof (cases "j < N")
    case False
    then have "below db (N - j) ?x = {?x}" by (auto simp: below_def)
    then show ?thesis using none False by (simp add: node_of_def)
  next
    case True
    then obtain r where r: "N - j = Suc r" "r = N - Suc j" by (metis Suc_diff_Suc)
    let ?build = "build_tree_node n (kids_within db k N)"
    have child: "\<exists>t. ?build c = Inr t \<and> set (tree_ids t) = below db r (member_id c) \<and> distinct (tree_ids t)" if "c \<in> set (kids db ?x)" for c
    proof -
      have "member_par db (member_id c) = Some ?x" using that kids_facts(3) [OF d, of ?x] by blast
      then have "?up (Suc j) (member_id c) = Some k" using Suc.prems(2) by (simp add: climb_Suc del: climb.simps)
      moreover have "c \<in> set (rg_members db)" using that kids_facts(2) [OF d] by blast
      ultimately show ?thesis using Suc.IH [of c "Suc j"] True Suc.prems(4) r by simp
    qed
    have "\<exists>ts. map_res ?build (kids db ?x) = Inr ts \<and>
        list_all2 (\<lambda>c t. set (tree_ids t) = below db r (member_id c) \<and> distinct (tree_ids t)) (kids db ?x) ts"
      by (rule map_res_total) (rule child)
    then obtain ts where ts: "map_res ?build (kids db ?x) = Inr ts"
        "list_all2 (\<lambda>c t. set (tree_ids t) = below db r (member_id c) \<and> distinct (tree_ids t)) (kids db ?x) ts"
      by (elim exE conjE)
    have apart: "below db r a \<inter> below db r b = {}"
      if ab: "member_par db a = Some ?x" "member_par db b = Some ?x" "a \<noteq> b" for a b
    proof -
      have "a = b" if y: "?up i y = Some a" "?up l y = Some b" for i l y
      proof -
        have "?up (Suc i) y = Some ?x" "?up (Suc l) y = Some ?x" using y ab by simp_all
        then have "i = l" using climb_unique [OF nc] by blast
        then show ?thesis using y by simp
      qed
      then show ?thesis using ab(3) by (auto simp: below_def)
    qed
    have forest: "distinct (concat (map tree_ids ts)) \<and> set (concat (map tree_ids ts)) = (\<Union>c \<in> set (kids db ?x). below db r (member_id c))"
      by (rule forest_ids [OF ts(2) kids_facts(1) [OF d]]) (use apart kids_facts(3) [OF d, of ?x] in blast)
    have "?x \<notin> below db r c" if "member_par db c = Some ?x" for c
    proof
      assume "?x \<in> below db r c"
      then obtain i where "?up i ?x = Some c" by (auto simp: below_def)
      then have "?up (Suc i) ?x = Some ?x" using that by simp
      then show False using climb_unique [OF nc, of "Suc i" ?x ?x 0] by simp
    qed
    then have "?x \<notin> set (concat (map tree_ids ts))" using forest kids_facts(3) [OF d, of ?x] by blast
    moreover have "below db (N - j) ?x = insert ?x (set (concat (map tree_ids ts)))"
      unfolding r(1) below_step kids_facts(3) [OF d, symmetric] using forest by simp
    moreover have "build_tree_node (Suc n) (kids_within db k N) m = Inr (Tree_node (node_of m) ts)" using none True ts(1) by simp
    moreover have "tree_ids (Tree_node (node_of m) ts) = ?x # concat (map tree_ids ts)" by (simp add: node_of_def)
    ultimately show ?thesis using forest by (metis distinct.simps(2) list.simps(15))
  qed
qed simp

section \<open>The ancestry\<close>

lemma ancestry_loop_eq:
  assumes nc: "no_cycle (member_par db)" and stored: "\<forall>x p. member_par db x = Some p \<longrightarrow> get_member db p \<noteq> None"
  shows "get_member db (member_id m) = Some m \<Longrightarrow> climb (member_par db) j k = Some (member_id m) \<Longrightarrow>
    \<exists>l \<le> n. map nd_id (ancestry_loop n db {x. \<exists>i < j. climb (member_par db) i k = Some x} (Some m)) =
      map (\<lambda>i. the (climb (member_par db) i k)) [j..<j + l] \<and> (\<forall>i < j + l. climb (member_par db) i k \<noteq> None) \<and>
      (l = n \<or> climb (member_par db) (j + l) k = None)"
proof (induction n arbitrary: m j)
  case 0
  have "climb (member_par db) i k \<noteq> None" if "i \<le> j" for i
    using 0(2) climb_add [of "member_par db" i "j - i" k] that by (cases "climb (member_par db) i k") simp_all
  then show ?case by auto
next
  case (Suc n)
  let ?up = "climb (member_par db)"
  have new: "member_id m \<notin> {x. \<exists>i < j. ?up i k = Some x}"
  proof
    assume "member_id m \<in> {x. \<exists>i < j. ?up i k = Some x}"
    then obtain i where i: "i < j" "?up i k = Some (member_id m)" by blast
    then have "?up (j - i) (member_id m) = Some (member_id m)" using Suc.prems(2) climb_add [of "member_par db" i "j - i" k] by simp
    then show False using climb_unique [OF nc, of "j - i" "member_id m" "member_id m" 0] i(1) by simp
  qed
  have seen: "insert (member_id m) {x. \<exists>i < j. ?up i k = Some x} = {x. \<exists>i < Suc j. ?up i k = Some x}"
    using Suc.prems(2) by (auto simp: less_Suc_eq)
  have up: "parent_member db m = Option.bind (?up (Suc j) k) (get_member db)"
    using parent_member_eq [OF Suc.prems(1)] Suc.prems(2) by simp
  have held: "?up i k \<noteq> None" if "i \<le> j" for i
    using Suc.prems(2) climb_add [of "member_par db" i "j - i" k] that by (cases "?up i k") simp_all
  show ?case
  proof (cases "parent_member db m")
    case None
    have "?up (Suc j) k = None"
    proof (cases "?up (Suc j) k")
      case (Some p)
      then have "member_par db (member_id m) = Some p" using Suc.prems(2) by simp
      moreover have "parent_member db m = get_member db p" by (simp add: up Some del: climb.simps)
      ultimately show ?thesis using stored None by metis
    qed simp
    moreover have "ancestry_loop n db S None = []" for S by (cases n) simp_all
    ultimately show ?thesis
      using held new None Suc.prems(2) by (intro exI [of _ 1]) (simp add: node_of_def seen del: climb.simps)
  next
    case (Some p)
    then obtain q where q: "?up (Suc j) k = Some q" "get_member db q = Some p" unfolding up by (auto simp: bind_eq_Some_conv)
    then have p: "member_id p = q" "get_member db (member_id p) = Some p" using get_member_D [OF q(2)] by simp_all
    obtain l where l: "l \<le> n" "map nd_id (ancestry_loop n db {x. \<exists>i < Suc j. ?up i k = Some x} (Some p)) =
        map (\<lambda>i. the (?up i k)) [Suc j..<Suc j + l]" "\<forall>i < Suc j + l. ?up i k \<noteq> None" "l = n \<or> ?up (Suc j + l) k = None"
      using Suc.IH [OF p(2), of "Suc j"] q(1) p(1) by blast
    have "[j..<j + Suc l] = j # [Suc j..<Suc j + l]" by (simp add: upt_rec)
    then show ?thesis
      using l new Suc.prems(2) unfolding Some by (intro exI [of _ "Suc l"]) (simp add: seen Some node_of_def del: climb.simps)
  qed
qed

end
