(* ===== verification/Register_Valid.thy ===== *)
theory Register_Valid
  imports Register_Steps
begin

text \<open>
  Stored rows are valid requests: what a validated save leaves behind passes the request model
  again, unchanged. Deciding a change request relies on it, because it validates the whole live
  row together with the approved values.

  \<open>address_ok\<close> is what email-validator promises for \<open>EmailStr\<close>: the address it returns has no
  white space around it and is returned unchanged when it is checked again.
\<close>

section \<open>Normal values\<close>

definition address_ok :: "address_check \<Rightarrow> bool" where
  "address_ok chk \<longleftrightarrow> (\<forall>s e. chk s = Some e \<longrightarrow> trim e = e \<and> chk e = Some e)"

definition normal :: "address_check \<Rightarrow> value_kind \<Rightarrow> pyval \<Rightarrow> bool" where
  "normal chk k v \<longleftrightarrow> validate_value chk k v = Some v"

lemma validated_normal: "address_ok chk \<Longrightarrow> validate_value chk k v = Some w \<Longrightarrow> normal chk k w"
  by (cases k; cases v) (auto simp: normal_def address_ok_def Let_def split: if_split_asm option.split_asm)

lemma normal_simps:
  "normal chk (Text n) (PStr s) \<longleftrightarrow> trim s = s \<and> length s \<le> n"
  "normal chk Flag (PBool b)" "normal chk Accuracy (PInt i) \<longleftrightarrow> 0 \<le> i \<and> i \<le> 3"
  "normal chk Day PNone" "normal chk (Text n) PNone" "normal chk (Choice xs) (PStr s) \<longleftrightarrow> s \<in> set xs"
  by (auto simp: normal_def)

definition named :: "(member_field \<Rightarrow> pyval) \<Rightarrow> bool" where
  "named vs \<longleftrightarrow> value_or_empty (vs F_nachname) \<noteq> [] \<or> value_or_empty (vs F_couleurname) \<noteq> []"

lemma validate_columns_normal:
  assumes "\<And>f. f \<in> set names \<Longrightarrow> normal chk (field_kind f) (vs f)" "\<And>f. f \<notin> set names \<Longrightarrow> vs f = PNone" "named vs"
  shows "validate_columns chk names vs = Some vs"
proof -
  have given: "(case if f \<in> set names then validate_value chk (field_kind f) (vs f) else Some PNone of None \<Rightarrow> PNone | Some w \<Rightarrow> w) = vs f" for f
    using assms(1,2) by (simp add: normal_def)
  have "list_all (\<lambda>f. (if f \<in> set names then validate_value chk (field_kind f) (vs f) else Some PNone) \<noteq> None) names"
    using assms(1) by (simp add: list_all_iff normal_def)
  then show ?thesis using assms(3) unfolding validate_columns_def Let_def given by (simp add: named_def)
qed

lemma validate_columns_D:
  assumes "validate_columns chk names raw = Some vs" "address_ok chk"
  shows "f \<in> set names \<Longrightarrow> normal chk (field_kind f) (vs f)" "f \<notin> set names \<Longrightarrow> vs f = PNone" "named vs"
proof -
  show "normal chk (field_kind f) (vs f)" if "f \<in> set names"
  proof -
    have "validate_value chk (field_kind f) (raw f) \<noteq> None"
      "vs f = (case validate_value chk (field_kind f) (raw f) of None \<Rightarrow> PNone | Some w \<Rightarrow> w)"
      using assms(1) that by (auto simp: validate_columns_def Let_def list_all_iff split: if_split_asm)
    then have "validate_value chk (field_kind f) (raw f) = Some (vs f)" by auto
    then show ?thesis by (rule validated_normal [OF assms(2)])
  qed
  show "f \<notin> set names \<Longrightarrow> vs f = PNone" "named vs"
    using assms(1) by (auto simp: validate_columns_def Let_def named_def split: if_split_asm)
qed

section \<open>Stored rows\<close>

definition row_valid :: "address_check \<Rightarrow> member \<Rightarrow> bool" where
  "row_valid chk m \<longleftrightarrow> validate_save_request chk (build_current_full_request m) = Some (build_current_full_request m)"

lemma input_normal:
  assumes "\<And>f. f \<in> set SAVE_FIELDS \<Longrightarrow> normal chk (field_kind f) (vs f)"
  shows "f \<in> set SAVE_FIELDS \<Longrightarrow> normal chk (field_kind f) (input_columns vs f)"
  using assms [of f]
  by (auto simp: input_columns_def lock_departed_def lock_without_address_def clear_dismissal_def clear_death_def normal_simps)

lemma live_value_normal:
  assumes "f \<in> set SAVE_FIELDS" "normal chk (field_kind f) (columns m f)"
  shows "live_value m f = columns m f"
proof -
  have "\<exists>i. columns m f = PInt i" if "f \<in> set ACCURACY_COLUMNS"
  proof -
    have "field_kind f = Accuracy" using that by (auto simp: ACCURACY_COLUMNS_def)
    then show ?thesis using assms(2) by (cases "columns m f") (auto simp: normal_def)
  qed
  moreover have "columns m F_zustellungen = PStr ''deaktiviert''" if "f = F_zustellungen" "empty_value (columns m F_zustellungen)"
    using assms(2) that by (cases "columns m F_zustellungen") (auto simp: normal_def empty_value_def py_eq_def)
  ultimately show ?thesis by (auto simp: live_value_def)
qed

lemma row_valid_iff:
  assumes "\<And>f. f \<in> set SAVE_FIELDS \<Longrightarrow> normal chk (field_kind f) (columns m f)" "named (columns m)" "row_ok m"
  shows "row_valid chk m"
proof -
  let ?r = "build_current_full_request m"
  have vs: "sr_values ?r f = (if f \<in> set SAVE_FIELDS then columns m f else PNone)" for f
    using live_value_normal [OF _ assms(1)] by (simp add: build_current_full_request_def)
  have "validate_columns chk SAVE_FIELDS (sr_values ?r) = Some (sr_values ?r)"
    by (rule validate_columns_normal) (use assms(1,2) in \<open>simp_all add: vs named_def saved\<close>)
  moreover have "list_all entry_dates_ok (sr_roles_history ?r)"
    using assms(3) by (auto simp: build_current_full_request_def entry_dates_ok_def row_ok_def list_all_iff split: option.split)
  ultimately show ?thesis by (simp add: row_valid_def validate_save_request_def)
qed

lemma saved_row_valid:
  assumes chk: "address_ok chk" and data: "validate_save_request chk raw = Some data"
    and row: "m' = row_of_request rv db user m data" "role_rows_ok db (sr_roles_history data)"
  shows "row_valid chk m'"
proof (rule row_valid_iff)
  obtain vs where vs: "validate_columns chk SAVE_FIELDS (sr_values raw) = Some vs" "sr_values data = vs"
    using data by (auto simp: validate_save_request_def split: if_split_asm)
  note valid = validate_columns_D [OF vs(1) chk] and sr = saved_row [OF row(1)]
  show "normal chk (field_kind f) (columns m' f)" if "f \<in> set SAVE_FIELDS" for f
    using input_normal [OF valid(1) that] by (simp add: sr(2) [OF that] vs(2))
  have "input_columns vs F_nachname = vs F_nachname" "input_columns vs F_couleurname = vs F_couleurname"
    by (simp_all add: input_columns_def lock_departed_def lock_without_address_def clear_dismissal_def clear_death_def)
  then show "named (columns m')" using valid(3) by (simp add: named_def sr(2) saved vs(2))
  show "row_ok m'"
    by (rule saved_row_ok [OF row(1) validated_request_typed [OF data] row(2) validated_request_dates [OF data]])
qed

lemma register_step_valid:
  assumes step: "register_step chk db db'" and chk: "address_ok chk" and ok: "register_ok db" "\<forall>m \<in> set (rg_members db). row_valid chk m"
  shows "\<forall>m \<in> set (rg_members db'). row_valid chk m"
  using step
proof (cases rule: register_step_members)
  case same
  show ?thesis using ok(2) unfolding same(1) .
next
  case (save rv raw data user m d db0 db1 m')
  have typed: "typed_columns (columns m)"
    using save(4) ok(1) by (auto simp: new_member_def typed_columns_def register_ok_def members_ok_def row_ok_def)
  note eq = apply_member_input_eq [OF typed validated_request_typed [OF save(1)] save(2)]
    and tables = apply_member_input_tables [OF typed validated_request_typed [OF save(1)] save(2)]
  have "row_valid chk m'"
    using saved_row_valid [OF chk save(1) eq(1)] eq(4) by (simp add: save_accepted_def)
  moreover have "rg_members db0 = rg_members db" using save(3) by auto
  ultimately show ?thesis using ok(2) by (simp add: save(5) tables(1) set_store_member)
qed

section \<open>Proposals\<close>

definition proposals_normal :: "address_check \<Rightarrow> (member_field \<times> pyval \<times> pyval) list \<Rightarrow> bool" where
  "proposals_normal chk ps \<longleftrightarrow> list_all (\<lambda>(f, old, new). normal chk (field_kind f) new) ps"

definition proposals_valid :: "address_check \<Rightarrow> register_db \<Rightarrow> bool" where
  "proposals_valid chk db \<longleftrightarrow> (\<forall>ps \<in> cr_proposed_data ` set (change_requests db). proposals_normal chk ps)"

lemma proposals_valid_sub:
  "proposals_valid chk db \<Longrightarrow> cr_proposed_data ` set (change_requests db') \<subseteq> cr_proposed_data ` set (change_requests db) \<Longrightarrow>
   proposals_valid chk db'"
  unfolding proposals_valid_def by blast

lemma submitted_proposals:
  assumes "submit_change_request rv db user own = (db', r)"
  shows "cr_proposed_data ` set (change_requests db') \<subseteq> insert (proposed_diff user own) (cr_proposed_data ` set (change_requests db))"
  using assms by (auto simp: submit_change_request_def update_request_def set_update_where Let_def split: option.split_asm if_split_asm)

lemma register_step_proposals:
  assumes step: "register_step chk db db'" and chk: "address_ok chk" and valid: "proposals_valid chk db" and ok: "register_ok db"
  shows "proposals_valid chk db'"
proof -
  have contact: "change_requests d' = change_requests d"
    if "apply_contact_input rv d x c user = Inr (d', c', e)" for rv d x c user d' c' e
    using that unfolding apply_contact_input_def Let_def split_beta
    by (auto simp: bind_res_eq_Inr add_contact_logs_def store_contact_def Let_def)
  have same: "proposals_valid chk db'" if "change_requests db' = change_requests db"
    using that valid by (simp add: proposals_valid_def)
  have saved: "change_requests db' = change_requests db0"
    if "apply_member_input rv db0 m data user = Inr (db', m', d)" "typed_columns (columns m)" "validate_save_request chk raw = Some data"
    for rv db0 db' m data user m' d raw
    using apply_member_input_tables(2) [OF that(2) validated_request_typed [OF that(3)] that(1)] by (simp add: same_register_tables_def)
  have typed: "typed_columns (columns m)" if "get_member db k = Some m" for k m
    using get_member_D [OF that] ok by (auto simp: register_ok_def members_ok_def row_ok_def)
  from step show ?thesis
  proof cases
    case (create raw data rv user m n)
    then obtain d where input: "apply_member_input rv (db\<lparr>rg_next_id := Suc (rg_next_id db)\<rparr>) (new_member (rg_next_id db)) data user = Inr (db', m, d)"
      by (elim create_D)
    have "typed_columns (columns (new_member (rg_next_id db)))" by (simp add: typed_columns_def new_member_def)
    from saved [OF input this create(1)] show ?thesis by (intro same) simp
  next
    case (update raw data rv k user m n')
    from update(2) obtain x d where x: "get_member db k = Some x" and input: "apply_member_input rv db x data user = Inr (db', m, d)"
      by (rule update_D)
    show ?thesis by (rule same, rule saved [OF input typed [OF x] update(1)])
  next
    case (submit raw' own user rv res)
    obtain r where submit': "submit_change_request rv db user own = (db', r)"
      using submit(3) by (auto simp: submit_own_change_request_def split: if_split_asm prod.split_asm)
    have "normal chk (field_kind f) (own f)" if "f \<in> set SELF_SERVICE_FIELDS" for f
      using validate_columns_D(1) [OF submit(1) [unfolded validate_self_service_def] chk that] .
    then have "proposals_normal chk (proposed_diff user own)"
      by (auto simp: proposed_diff_def proposals_normal_def list_all_iff)
    moreover have "cr_proposed_data ` set (change_requests db') \<subseteq> insert (proposed_diff user own) (cr_proposed_data ` set (change_requests db))"
      by (rule submitted_proposals [OF submit'])
    ultimately show ?thesis
      using valid unfolding proposals_valid_def by (metis (no_types, opaque_lifting) insertE subsetD)
  next
    case (decide rv k decisions t user n)
    from decide obtain r m merged db1 m' d where m: "get_member db (cr_member_id r) = Some m"
      and data: "validate_save_request chk (merged_request r m decisions) = Some merged"
      and input: "apply_member_input rv db m merged user = Inr (db1, m', d)"
      and db': "db' = update_request (cr_id r) (\<lambda>r. r\<lparr>cr_status := Resolved, cr_field_decisions := Some decisions,
       cr_resolved_by := Some (member_id user), cr_resolved_at := Some (rv_now rv), cr_updated_at := rv_now rv\<rparr>) db1"
      by (rule decide_D)
    have "change_requests db1 = change_requests db" by (rule saved [OF input typed [OF m] data])
    then show ?thesis
      by (intro proposals_valid_sub [OF valid]) (auto simp: db' update_request_def set_update_where image_image)
  next
    case (add_contact c c' rv user x n)
    then obtain e where "apply_contact_input rv (db\<lparr>rg_next_id := Suc (rg_next_id db)\<rparr>) (new_contact (rg_next_id db)) c' user = Inr (db', x, e)"
      by (auto simp: create_contact_def Let_def bind_res_eq_Inr)
    from contact [OF this] show ?thesis by (intro same) simp
  next
    case (change_contact c c' rv k user x n')
    then obtain y e where "apply_contact_input rv db y c' user = Inr (db', x, e)"
      by (auto simp: update_contact_def bind_res_eq_Inr)
    from contact [OF this] show ?thesis by (rule same)
  next
    case (remove_contact rv k user)
    then show ?thesis
      by (intro same) (auto simp: delete_contact_def soft_delete_contact_def store_contact_def Let_def bind_res_eq_Inr)
  qed
qed

lemma approve_eq:
  "approve decisions proposed vs f = (if (f, ''approved'') \<in> set decisions
     then (case map_of proposed f of None \<Rightarrow> vs f | Some (_, new) \<Rightarrow> new) else vs f)"
proof (induction decisions arbitrary: vs)
  case (Cons d decisions)
  obtain g x where d: "d = (g, x)" by (cases d)
  show ?case
  proof (cases "x = ''approved''")
    case False
    then show ?thesis using Cons [of vs] by (simp add: approve_def d)
  next
    case True
    let ?vs = "case map_of proposed g of None \<Rightarrow> vs | Some (_, new) \<Rightarrow> vs(g := new)"
    have "approve (d # decisions) proposed vs = approve decisions proposed ?vs" by (simp add: approve_def d True)
    moreover have "?vs f = (if f = g then (case map_of proposed f of None \<Rightarrow> vs f | Some (_, new) \<Rightarrow> new) else vs f)"
      by (simp split: option.split)
    ultimately show ?thesis using Cons [of ?vs] by (auto simp: d True split: option.split)
  qed
qed (simp add: approve_def)

text \<open>The whole row with the approved proposals passes the request model as it is, if it passes at all.\<close>

lemma merged_request_kept:
  assumes row: "row_valid chk m" and r: "proposals_normal chk (cr_proposed_data r)"
    and merged: "validate_save_request chk (merged_request r m decisions) = Some data"
    and f: "f \<in> set SAVE_FIELDS"
  shows "sr_values data f = sr_values (merged_request r m decisions) f"
proof -
  let ?vs = "sr_values (build_current_full_request m)"
  have full: "validate_columns chk SAVE_FIELDS ?vs = Some ?vs"
    using row by (auto simp: row_valid_def validate_save_request_def split: if_split_asm dest!: arg_cong [of _ _ sr_values])
  have live: "normal chk (field_kind g) (?vs g)" if "g \<in> set SAVE_FIELDS" for g
  proof -
    have "validate_value chk (field_kind g) (?vs g) \<noteq> None \<and>
        ?vs g = (case validate_value chk (field_kind g) (?vs g) of None \<Rightarrow> PNone | Some w \<Rightarrow> w)"
      using full that by (auto simp: validate_columns_def Let_def list_all_iff fun_eq_iff split: if_split_asm)
    then show ?thesis by (auto simp: normal_def)
  qed
  have "normal chk (field_kind f) (sr_values (merged_request r m decisions) f)"
    using live [OF f] r
    by (auto simp: merged_request_def approve_eq proposals_normal_def list_all_iff split: option.split dest!: map_of_SomeD)
  then show ?thesis
    using merged f by (auto simp: validate_save_request_def validate_columns_def Let_def normal_def split: if_split_asm)
qed

end
