(* ===== verification/Register_Properties.thy ===== *)
theory Register_Properties
  imports Register_History Register_Tree Register_Valid
begin

text \<open>
  What the member register promises: it stays consistent under every sequence of operations, its
  role history tells how each member came to the roles held, stored rows stay valid requests, a
  decided change request changes the approved fields and nothing else, every save is logged, the
  family tree is complete, and only office holders of the own organisation change entries.
\<close>

section \<open>A register to evaluate on\<close>

definition plain_columns :: "string \<Rightarrow> string \<Rightarrow> member_field \<Rightarrow> pyval" where
  "plain_columns name address = (\<lambda>f.
     if f = F_nachname then PStr name
     else if f = F_org_id then PStr ''vbw''
     else if f = F_email then PStr address
     else if f = F_zustellungen then PStr ''deaktiviert''
     else if f \<in> {F_gruender, F_entlassen, F_verstorben, F_chroniclemail, F_auth_locked} then PBool False
     else if f \<in> set ACCURACY_COLUMNS then PInt 0 else PNone)"

definition keeper_role :: role where
  "keeper_role = \<lparr>role_id = ''standesfuehrer'', role_label = Some ''Standesfuehrer'', role_group = None, role_sort_order = Some 1\<rparr>"

definition keeper :: member where
  "keeper = \<lparr>member_id = 1, columns = plain_columns ''Huber'' ''huber@vb.at'',
     member_roles = [\<lparr>mr_role_id = ''standesfuehrer'', mr_startdate = Date 2020 1 1, mr_enddate = None, mr_role = Some keeper_role\<rparr>],
     member_badges = [], member_keys = []\<rparr>"

definition novice :: member where
  "novice = \<lparr>member_id = 2, columns = (plain_columns ''Mayr'' ''mayr@vb.at'')(F_parent_id := PUuid 1),
     member_roles = [], member_badges = [], member_keys = []\<rparr>"

definition demo_register :: register_db where
  "demo_register = \<lparr>rg_members = [keeper, novice],
     rg_orgs = [\<lparr>lr_id = ''vbw'', lr_label = Some ''VBW'', lr_sort_order = Some 1\<rparr>], rg_states = [],
     rg_roles = [keeper_role], rg_badges = [], rg_keys = [], member_logs = [],
     role_events = [\<lparr>ev_id = 4, ev_member_id = 1, ev_role_id = ''standesfuehrer'', ev_action = Granted,
       ev_startdate = Date 2020 1 1, ev_enddate = None, ev_previous_enddate = None, ev_actor_id = None, ev_created_at = 0\<rparr>],
     change_requests = [], contacts = [], contact_logs = [], rg_next_id = 5\<rparr>"

definition demo_environment :: environment where
  "demo_environment = \<lparr>rv_settings = \<lparr>dev_superuser_id = None, app_environment = ''production'', system_admin_email_set = {}\<rparr>,
     rv_today = Date 2024 3 1, rv_now = 1000\<rparr>"

definition demo_check :: address_check where
  "demo_check s = (if CHR ''@'' \<in> set s \<and> trim s = s then Some s else None)"

lemma demo_address_ok: "address_ok demo_check"
  by (simp add: address_ok_def demo_check_def)

lemma demo_members [simp]: "rg_members demo_register = [keeper, novice]" "change_requests demo_register = []"
  "contacts demo_register = []" "rg_next_id demo_register = 5"
  by (simp_all add: demo_register_def)

lemma demo_normal:
  "list_all (\<lambda>m. list_all (\<lambda>f. normal demo_check (field_kind f) (columns m f)) SAVE_FIELDS) [keeper, novice]"
  "list_all (\<lambda>m. form_rules (columns m)) [keeper, novice]" "list_all (\<lambda>m. named (columns m)) [keeper, novice]"
  by code_simp+

lemma demo_row_ok: "m \<in> set [keeper, novice] \<Longrightarrow> row_ok m"
proof -
  assume m: "m \<in> set [keeper, novice]"
  then have "list_all (\<lambda>f. normal demo_check (field_kind f) (columns m f)) SAVE_FIELDS" "form_rules (columns m)"
    using demo_normal unfolding list_all_iff by blast+
  then have "typed_columns (columns m)" "form_rules (columns m)"
    by (auto simp: typed_columns_def list_all_iff normal_def dest: validated_typed)
  moreover have "valid_date (Date 2020 1 1)" by code_simp
  ultimately show ?thesis using m by (auto simp: row_ok_def keeper_def novice_def)
qed

lemma demo_row_valid: "m \<in> set [keeper, novice] \<Longrightarrow> row_valid demo_check m"
  using demo_normal demo_row_ok by (intro row_valid_iff) (auto simp: list_all_iff)

lemma demo_parents: "member_par demo_register = (\<lambda>_. None)(2 := Some 1)"
  by (auto simp: member_par_def get_member_def keeper_def novice_def uuid_col_def plain_columns_def fun_eq_iff ACCURACY_COLUMNS_def)

lemma demo_register_ok: "register_ok demo_register"
proof -
  have "no_cycle (member_par demo_register)"
    unfolding demo_parents by (rule no_cycle_fresh_leaf) simp_all
  moreover have "name_key (columns keeper) \<noteq> name_key (columns novice)" "\<not> same_address keeper novice" "\<not> same_address novice keeper"
    by code_simp+
  moreover have "one_holder demo_register"
    by (auto simp: one_holder_def keeper_def novice_def)
  moreover have "uuid_col keeper F_parent_id = None" "uuid_col novice F_parent_id = Some 1" by code_simp+
  ultimately have "members_ok demo_register"
    using demo_row_ok by (auto simp: members_ok_def keeper_def novice_def)
  then show ?thesis by (auto simp: register_ok_def requests_ok_def contacts_ok_def ids_ok_def keeper_def novice_def)
qed

definition demo_request :: save_request where
  "demo_request = \<lparr>sr_values = (plain_columns ''Maier'' ''mayr@vb.at'')(F_parent_id := PUuid 1, F_verstorben := PBool True),
     sr_roles_history = [\<lparr>rhe_id = ''standesfuehrer'', rhe_label = None, rhe_startdate = Date 2010 1 1, rhe_enddate = Some (Date 2020 1 1)\<rparr>],
     sr_badges = [], sr_keys = []\<rparr>"

lemma demo_request_valid: "validate_save_request demo_check demo_request = Some demo_request"
proof -
  have "list_all (\<lambda>f. normal demo_check (field_kind f) (sr_values demo_request f)) SAVE_FIELDS"
    "named (sr_values demo_request)" "list_all entry_dates_ok (sr_roles_history demo_request)"
    by code_simp+
  moreover have "sr_values demo_request f = PNone" if "f \<notin> set SAVE_FIELDS" for f
    using that by (cases f) (simp_all add: SAVE_FIELDS_def demo_request_def plain_columns_def ACCURACY_COLUMNS_def)
  ultimately have "validate_columns demo_check SAVE_FIELDS (sr_values demo_request) = Some (sr_values demo_request)"
    by (intro validate_columns_normal) (auto simp: list_all_iff)
  then show ?thesis using \<open>list_all entry_dates_ok _\<close> by (simp add: validate_save_request_def)
qed

abbreviation demo_saved :: member where
  "demo_saved \<equiv> row_of_request demo_environment demo_register keeper novice demo_request"

abbreviation demo_result :: register_db where
  "demo_result \<equiv> db_after_save demo_environment demo_register keeper novice demo_request"

lemma demo_input:
  "apply_member_input demo_environment demo_register novice demo_request keeper =
     Inr (demo_result, demo_saved, diff_of_request novice demo_request)"
proof -
  have "typed_columns (columns novice)" using demo_row_ok [of novice] by (simp add: row_ok_def)
  moreover have "typed_columns (sr_values demo_request)" using validated_request_typed [OF demo_request_valid] .
  moreover have "member_row_ok demo_register (row_with_columns demo_environment keeper novice demo_request)"
    "items_ok (badge_id ` set (rg_badges demo_register)) (sr_badges demo_request)"
    "items_ok (key_id ` set (rg_keys demo_register)) (sr_keys demo_request)" "role_rows_ok demo_register (sr_roles_history demo_request)"
    by code_simp+
  moreover have "validate_roles_history (store_member (row_with_columns demo_environment keeper novice demo_request) demo_register)
      (sr_roles_history demo_request) (value_or_empty (sr_values demo_request F_org_id)) (Some (member_id novice)) = Inr ()"
    by code_simp
  ultimately show ?thesis by (simp add: apply_member_input_Inr)
qed

lemma demo_save:
  obtains n where "update_member demo_environment demo_register 2 demo_request keeper = Inr (demo_result, demo_saved, Some n)"
proof -
  have "get_member demo_register 2 = Some novice" by (simp add: get_member_def keeper_def novice_def)
  moreover have "require_org_admin demo_environment keeper (columns novice F_org_id) = Inr ()" "value_or_empty (columns novice F_org_id) \<noteq> []"
    "validate_member_org demo_request keeper = Inr ()" "validate_member_uniqueness demo_register demo_request (Some 2) = Inr ()"
    "validate_parent_id demo_register (parent_given demo_request) (sr_values demo_request F_org_id) (Some 2) = Inr ()"
    "validate_member_references demo_register demo_request = Inr ()"
    by code_simp+
  moreover have "diff_of_request novice demo_request \<noteq> []"
  proof -
    have "values_differ (columns novice F_nachname) (input_columns (sr_values demo_request) F_nachname)" by code_simp
    then show ?thesis using saved by (auto simp: diff_of_request_def column_diff_def row_changes_def filter_empty_conv)
  qed
  ultimately show thesis
    using that by (simp add: update_member_def get_assigned_member_for_org_admin_def get_member_or_404_def demo_input)
qed

lemma demo_saved_changes:
  "value_text (columns demo_saved F_nachname) = Some ''Maier''" "value_text (columns demo_saved F_auth_locked) = Some ''True''"
  "value_text (columns novice F_nachname) = Some ''Mayr''" "length (member_roles demo_saved) = 1"
  by code_simp+

section \<open>Consistency\<close>

text \<open>C1: over any sequence of operations on members, contacts and change requests the register stays
  well formed (unique ids, names and addresses, well-typed rows that keep the rules of the form,
  parents that exist and form no cycle, one open request per member), and on every day a role is
  held by at most one member of an organisation.\<close>
theorem register_stays_consistent:
  assumes "(register_step chk)\<^sup>*\<^sup>* db db'" "register_ok db"
  shows "register_ok db' \<and> (\<forall>a \<in> set (rg_members db'). \<forall>b \<in> set (rg_members db'). \<forall>r \<in> set (member_roles a). \<forall>s \<in> set (member_roles b).
    \<forall>org today. columns a F_org_id = PStr org \<longrightarrow> columns b F_org_id = PStr org \<longrightarrow> mr_role_id r = mr_role_id s \<longrightarrow>
      role_active today r \<longrightarrow> role_active today s \<longrightarrow> a = b)"
proof -
  have ok: "register_ok db'"
    using assms by (induction rule: rtranclp_induct) (auto intro: register_step_ok)
  have "roles_overlap r s" if "mr_role_id r = mr_role_id s" "role_active today r" "role_active today s" for r s today
    using that by (auto simp: roles_overlap_def role_active_def ranges_overlap_def split: option.split_asm option.split)
  then show ?thesis using ok unfolding register_ok_def members_ok_def one_holder_def by blast
qed

lemma demo_step: "(register_step demo_check)\<^sup>*\<^sup>* demo_register demo_result"
proof -
  obtain n where "update_member demo_environment demo_register 2 demo_request keeper = Inr (demo_result, demo_saved, Some n)"
    by (rule demo_save)
  then show ?thesis by (intro r_into_rtranclp register_step.update [OF demo_request_valid])
qed

lemma demo_saved_stored: "demo_saved \<in> set (rg_members demo_result)"
  by (simp add: db_after_save_tables set_store_member)

lemma register_stays_consistent_witness:
  "register_ok demo_result \<and> demo_saved \<in> set (rg_members demo_result) \<and> value_text (columns demo_saved F_nachname) = Some ''Maier''"
  using register_stays_consistent [OF demo_step demo_register_ok] demo_saved_stored demo_saved_changes by blast

section \<open>The role history\<close>

text \<open>C2: from any consistent register on, the history is only appended to, and what is appended leads every
  member from the roles held at the start (none for a member created later) to exactly the roles held now: no
  change of a role goes unrecorded, and every event fits the state it is applied to (a grant of a period not held, an
  end or change of one that is). The start may lie after roles the history does not know, as in the program, whose
  history begins with a migration.\<close>
theorem role_history_replays:
  assumes "(register_step chk)\<^sup>*\<^sup>* db db'" "register_ok db"
  shows "\<exists>since. role_events db' = role_events db @ since \<and>
    (\<forall>m \<in> set (rg_members db'). replay_history since (member_id m) (roles_of db (member_id m)) = Some (held_periods m))"
proof -
  have "register_ok db' \<and> history_since (roles_of db) (role_events db) db'"
    using assms history_starts [OF assms(2)]
    by (induction rule: rtranclp_induct) (auto intro: register_step_ok register_step_history)
  then show ?thesis by (auto simp: history_since_def)
qed

lemma role_history_replays_witness:
  "\<exists>since. role_events demo_result = role_events demo_register @ since \<and>
     replay_history since (member_id demo_saved) (roles_of demo_register (member_id demo_saved)) = Some (held_periods demo_saved) \<and>
     held_periods demo_saved (''standesfuehrer'', Date 2010 1 1) = Some (Some (Date 2020 1 1))"
proof -
  have "held_periods demo_saved (''standesfuehrer'', Date 2010 1 1) = Some (Some (Date 2020 1 1))"
    by (simp add: held_periods_def row_of_request_def roles_of_request_def demo_request_def)
  then show ?thesis using role_history_replays [OF demo_step demo_register_ok] demo_saved_stored by blast
qed

section \<open>Stored rows are valid requests\<close>

text \<open>C21: a row stored by any sequence of operations passes the request model again without being
  changed: every column has the type and the bounds of its field, whatever the rules of the form
  made of it. So validating a live row together with a member's proposals, as the decision on a
  change request does, cannot fail because of the live row. (\<open>address_ok\<close>: the checked form of an
  e-mail address is accepted as it is.)\<close>
theorem stored_rows_are_valid_requests:
  assumes "(register_step chk)\<^sup>*\<^sup>* db db'" "address_ok chk" "register_ok db" "\<forall>m \<in> set (rg_members db). row_valid chk m"
    and "m \<in> set (rg_members db')"
  shows "validate_save_request chk (build_current_full_request m) = Some (build_current_full_request m)"
proof -
  have "register_ok db' \<and> (\<forall>m \<in> set (rg_members db'). row_valid chk m)"
    using assms(1,3,4)
  proof (induction rule: rtranclp_induct)
    case (step db1 db2)
    then show ?case using register_step_ok register_step_valid [OF _ assms(2)] by blast
  qed simp
  then show ?thesis using assms(5) by (simp add: row_valid_def)
qed

lemma stored_rows_are_valid_requests_witness:
  "validate_save_request demo_check (build_current_full_request demo_saved) = Some (build_current_full_request demo_saved)"
  by (rule stored_rows_are_valid_requests [OF demo_step demo_address_ok demo_register_ok _ demo_saved_stored])
    (use demo_row_valid in simp)

section \<open>The family tree\<close>

text \<open>C20: in a consistent register the detail page of a member who has not left always gets its family
  tree, given a hundred stack frames: the children form trees in which everybody between one and a
  hundred steps below the member occurs exactly once, and the ancestry is the chain upwards, the
  member last, cut off after a hundred.\<close>
theorem family_tree_is_complete:
  assumes ok: "register_ok db" and m: "get_member db k = Some m" and there: "\<not> flag_col m F_entlassen" and frames: "100 \<le> frames"
  shows "\<exists>md. get_member_detail rv frames db k viewer = Inr (Detail md) \<and>
    distinct (concat (map tree_ids (md_children md))) \<and>
    set (concat (map tree_ids (md_children md))) = {x. \<exists>i. 0 < i \<and> i \<le> 100 \<and> climb (member_par db) i x = Some k} \<and>
    (\<exists>l \<le> 100. map nd_id (md_ancestry md) = rev (map (\<lambda>i. the (climb (member_par db) i k)) [0..<l]) \<and>
       (\<forall>i < l. climb (member_par db) i k \<noteq> None) \<and> (l = 100 \<or> climb (member_par db) l k = None))"
proof -
  have d: "distinct (map member_id (rg_members db))" and nc: "no_cycle (member_par db)"
    and parents: "\<forall>x \<in> set (rg_members db). \<forall>p. uuid_col x F_parent_id = Some p \<longrightarrow> p \<in> member_id ` set (rg_members db)"
    using ok by (simp_all add: register_ok_def members_ok_def)
  have k: "m \<in> set (rg_members db)" "member_id m = k" using get_member_D [OF m] by simp_all
  have stored: "\<forall>x p. member_par db x = Some p \<longrightarrow> get_member db p \<noteq> None"
    using parents member_par_D [of db] by (metis get_by_None_iff get_member_def)
  let ?kids = "kids_within db k MAX_TREE_DEPTH"
  obtain t where t: "build_tree_node (Suc frames) ?kids m = Inr t" "set (tree_ids t) = below db 100 k" "distinct (tree_ids t)"
    using build_tree [OF d nc k(1), of 0 k MAX_TREE_DEPTH "Suc frames"] k(2) frames by (auto simp: MAX_TREE_DEPTH_def)
  then obtain ts where ts: "map_res (build_tree_node frames ?kids) (?kids k) = Inr ts" "t = Tree_node (node_of m) ts"
    using k(2) by (auto simp: bind_res_eq_Inr)
  have ids: "tree_ids t = k # concat (map tree_ids ts)" by (simp add: ts(2) node_of_def k(2))
  have self: "climb (member_par db) i k = Some k \<longleftrightarrow> i = 0" for i using climb_unique [OF nc, of i k k 0] by auto
  have "set (concat (map tree_ids ts)) = below db 100 k - {k}" using t(2,3) unfolding ids by auto
  also have "\<dots> = {x. \<exists>i. 0 < i \<and> i \<le> 100 \<and> climb (member_par db) i x = Some k}"
  proof (rule set_eqI)
    fix x
    show "x \<in> below db 100 k - {k} \<longleftrightarrow> x \<in> {x. \<exists>i. 0 < i \<and> i \<le> 100 \<and> climb (member_par db) i x = Some k}"
    proof (cases "x = k")
      case True
      then show ?thesis by (simp add: self)
    next
      case False
      then have "climb (member_par db) i x = Some k \<longrightarrow> 0 < i" for i by (cases i) auto
      then show ?thesis using False by (auto simp: below_def)
    qed
  qed
  finally have "set (concat (map tree_ids ts)) = {x. \<exists>i. 0 < i \<and> i \<le> 100 \<and> climb (member_par db) i x = Some k}" .
  moreover obtain l where "l \<le> 100" "map nd_id (ancestry_loop MAX_TREE_DEPTH db {} (Some m)) = map (\<lambda>i. the (climb (member_par db) i k)) [0..<l]"
      "\<forall>i < l. climb (member_par db) i k \<noteq> None" "l = 100 \<or> climb (member_par db) l k = None"
    using ancestry_loop_eq [OF nc stored, where m = m and j = 0 and k = k and n = MAX_TREE_DEPTH] m k(2) by (auto simp: MAX_TREE_DEPTH_def)
  moreover have "distinct (concat (map tree_ids ts))" using t(3) ids by simp
  moreover obtain md where "get_member_detail rv frames db k viewer = Inr (Detail md)" "md_children md = ts"
      "md_ancestry md = rev (ancestry_loop MAX_TREE_DEPTH db {} (Some m))"
    using there m ts(1) k(2) descendants_eq [OF d nc, of k] by (simp add: get_member_detail_def get_member_or_404_def Let_def)
  ultimately show ?thesis by (intro exI [of _ md] conjI exI [of _ l]) (simp_all add: rev_map [symmetric])
qed

lemma family_tree_is_complete_witness:
  "\<exists>md. get_member_detail demo_environment 100 demo_register 1 keeper = Inr (Detail md) \<and>
    concat (map tree_ids (md_children md)) = [2] \<and> map nd_id (md_ancestry md) = [1]"
proof -
  have "get_member demo_register 1 = Some keeper" "\<not> flag_col keeper F_entlassen"
    by (simp_all add: get_member_def keeper_def flag_col_def plain_columns_def)
  from family_tree_is_complete [OF demo_register_ok this, of 100 demo_environment keeper]
  obtain md l where md: "get_member_detail demo_environment 100 demo_register 1 keeper = Inr (Detail md)"
      "distinct (concat (map tree_ids (md_children md)))"
      "set (concat (map tree_ids (md_children md))) = {x. \<exists>i. 0 < i \<and> i \<le> 100 \<and> climb (member_par demo_register) i x = Some 1}"
      "map nd_id (md_ancestry md) = rev (map (\<lambda>i. the (climb (member_par demo_register) i 1)) [0..<l])"
      "\<forall>i < l. climb (member_par demo_register) i 1 \<noteq> None" "l = 100 \<or> climb (member_par demo_register) l 1 = None"
    by auto
  have up: "climb (member_par demo_register) (Suc i) x = (if x = 2 then climb (member_par demo_register) i 1 else None)" for i x
    by (simp add: climb_Suc demo_parents del: climb.simps)
  have one: "climb (member_par demo_register) i 1 = (if i = 0 then Some 1 else None)" for i
    by (cases i) (simp_all add: up del: climb.simps(2))
  have "climb (member_par demo_register) i x = Some 1 \<longleftrightarrow> x = 1 \<and> i = 0 \<or> x = 2 \<and> i = 1" for i x
    by (cases i) (auto simp: up one simp del: climb.simps(2) One_nat_def)
  then have "set (concat (map tree_ids (md_children md))) = {2}" unfolding md(3) by auto
  then have "concat (map tree_ids (md_children md)) = [2]"
    using md(2) by (cases "concat (map tree_ids (md_children md))"; cases "tl (concat (map tree_ids (md_children md)))") auto
  moreover have "l = 1"
  proof -
    have "l \<noteq> 0" using md(6) one [of 0] by (intro notI) simp
    moreover have "\<not> 1 < l" using md(5) one [of 1] by auto
    ultimately show ?thesis by simp
  qed
  ultimately show ?thesis using md(1,4) by (simp add: one)
qed

section \<open>Who may change entries\<close>

text \<open>The operations on members a user can bring about, with the user.\<close>

inductive member_edit :: "address_check \<Rightarrow> environment \<Rightarrow> member \<Rightarrow> register_db \<Rightarrow> register_db \<Rightarrow> bool" for chk rv user where
  create: "validate_save_request chk raw = Some data \<Longrightarrow> create_member rv db data user = Inr (db', m, n) \<Longrightarrow> member_edit chk rv user db db'"
| update: "validate_save_request chk raw = Some data \<Longrightarrow> update_member rv db k data user = Inr (db', m, n') \<Longrightarrow> member_edit chk rv user db db'"
| submit: "validate_self_service chk raw' = Some own \<Longrightarrow> submit_own_change_request rv db own user = Inr (db', res) \<Longrightarrow>
    member_edit chk rv user db db'"
| decide: "decide_change_request chk rv db k decisions t user = Inr (db', n'') \<Longrightarrow> member_edit chk rv user db db'"

text \<open>An edit that touches the members is a save by an administrator.\<close>

lemma member_edit_save:
  assumes "member_edit chk rv user db db'" "rg_members db' \<noteq> rg_members db"
  obtains raw data m d db0 db1 m' where "validate_save_request chk raw = Some data"
    "apply_member_input rv db0 m data user = Inr (db1, m', d)" "rg_members db0 = rg_members db" "rg_members db' = rg_members db1"
    "sr_values data F_org_id = columns user F_org_id"
    "get_member db (member_id m) = Some m \<and> require_org_admin rv user (columns m F_org_id) = Inr () \<or>
     m = new_member (rg_next_id db) \<and> require_org_admin rv user (columns user F_org_id) = Inr ()"
  using assms(1)
proof cases
  case (create raw data m n)
  then obtain d where "require_org_admin rv user (sr_values data F_org_id) = Inr ()" "sr_values data F_org_id = columns user F_org_id"
    "apply_member_input rv (db\<lparr>rg_next_id := Suc (rg_next_id db)\<rparr>) (new_member (rg_next_id db)) data user = Inr (db', m, d)"
    by (elim create_D)
  then show thesis using that [OF create(1)] by simp
next
  case (update raw data k m n')
  from update(2) obtain x d where x: "get_member db k = Some x" "require_org_admin rv user (columns x F_org_id) = Inr ()"
    "sr_values data F_org_id = columns user F_org_id" "apply_member_input rv db x data user = Inr (db', m, d)"
    by (rule update_D)
  then show thesis using that [OF update(1) x(4) _ _ x(3)] get_member_D [OF x(1)] by simp
next
  case (submit raw' own res)
  have "rg_members d = rg_members db" if "submit_change_request rv db user own = (d, r)" for d r
    using that by (auto simp: submit_change_request_def update_request_def Let_def split: option.split_asm if_split_asm)
  moreover obtain r where "submit_change_request rv db user own = (db', r)"
    using submit(2) by (auto simp: submit_own_change_request_def split: if_split_asm prod.split_asm)
  ultimately show thesis using assms(2) by simp
next
  case (decide k decisions t n'')
  from decide(1) obtain r m merged db1 m' d where m: "get_member db (cr_member_id r) = Some m"
    and admin: "require_org_admin rv user (columns m F_org_id) = Inr ()"
    and valid: "validate_save_request chk (merged_request r m decisions) = Some merged" and org: "sr_values merged F_org_id = columns user F_org_id"
    and input: "apply_member_input rv db m merged user = Inr (db1, m', d)"
    and db': "db' = update_request (cr_id r) (\<lambda>r. r\<lparr>cr_status := Resolved, cr_field_decisions := Some decisions,
       cr_resolved_by := Some (member_id user), cr_resolved_at := Some (rv_now rv), cr_updated_at := rv_now rv\<rparr>) db1"
    by (rule decide_D)
  have "rg_members db' = rg_members db1" by (simp add: db' update_request_def)
  then show thesis using that [OF valid input refl _ org] admin m get_member_D [OF m] by simp
qed

lemma admin_rules:
  fixes ids :: "string set"
  shows "''standesdbVbwAdmin'' \<in> set (map permission (filter (\<lambda>rule. condition rule cfg ids grps org email) PERMISSION_RULES)) \<longleftrightarrow>
      org = Some ''vbw'' \<and> (''standesfuehrer'' \<in> ids \<or> ''internetreferent'' \<in> ids)"
    and "''standesdbVbnAdmin'' \<in> set (map permission (filter (\<lambda>rule. condition rule cfg ids grps org email) PERMISSION_RULES)) \<longleftrightarrow>
      org = Some ''vbn'' \<and> ''standesfuehrer'' \<in> ids"
proof -
  have "p \<in> set (map permission (filter P rs)) \<longleftrightarrow> (\<exists>r \<in> set rs. P r \<and> permission r = p)" for p P rs by auto
  note this [simp]
  show "''standesdbVbwAdmin'' \<in> set (map permission (filter (\<lambda>rule. condition rule cfg ids grps org email) PERMISSION_RULES)) \<longleftrightarrow>
      org = Some ''vbw'' \<and> (''standesfuehrer'' \<in> ids \<or> ''internetreferent'' \<in> ids)"
    "''standesdbVbnAdmin'' \<in> set (map permission (filter (\<lambda>rule. condition rule cfg ids grps org email) PERMISSION_RULES)) \<longleftrightarrow>
      org = Some ''vbn'' \<and> ''standesfuehrer'' \<in> ids"
    by (simp_all add: PERMISSION_RULES_def conj_commute del: set_map set_filter)
qed

lemma org_admin_holds_office:
  assumes "require_org_admin rv user (PStr org) = Inr ()" "org \<in> {''vbw'', ''vbn''}"
    and "effective_dev_superuser (rv_settings rv) \<noteq> Some (member_id user)"
  shows "columns user F_org_id = PStr org \<and>
    (\<exists>mr \<in> set (member_roles user). role_active (rv_today rv) mr \<and> mr_role_id mr \<in> {''standesfuehrer'', ''internetreferent''})"
proof -
  have names: "org_admin_permission ''vbw'' = ''standesdbVbwAdmin''" "org_admin_permission ''vbn'' = ''standesdbVbnAdmin''" by code_simp+
  have "org_admin_permission org \<in> set (map permission (rules_met (rv_settings rv) (rv_today rv) user))"
    using assms(1,3) by (simp add: require_org_admin_def value_or_empty_def permissions_of_def calculate_permissions_def split: if_split_asm)
  then have "text_col user F_org_id = Some org \<and>
      (''standesfuehrer'' \<in> fst (active_roles (rv_today rv) user) \<or> ''internetreferent'' \<in> fst (active_roles (rv_today rv) user))"
    using assms(2) unfolding rules_met_def split_beta by (elim insertE emptyE) (simp_all only: names admin_rules simp_thms)
  then show ?thesis
    unfolding active_roles_eq by (auto simp: text_col_def split: pyval.split_asm)
qed

text \<open>C12: whoever is not the development superuser and changes a member's entry, by creating or saving
  it or by deciding a change request, holds today the office of Standesfuehrer or
  Internetreferent; the entry belonged to the own organisation before (when it existed) and
  belongs to it after, and no other entry is touched. Members change no entry by submitting a
  request. (The organisations are \<open>vbw\<close> and \<open>vbn\<close>.)\<close>
theorem only_office_holders_change_entries:
  assumes edit: "member_edit chk rv user db db'" and ok: "register_ok db"
    and user: "effective_dev_superuser (rv_settings rv) \<noteq> Some (member_id user)"
    and orgs: "\<forall>m \<in> insert user (set (rg_members db)). \<forall>org. columns m F_org_id = PStr org \<longrightarrow> org \<in> {[], ''vbw'', ''vbn''}"
    and changed: "get_member db' k \<noteq> get_member db k"
  shows "(\<exists>mr \<in> set (member_roles user). role_active (rv_today rv) mr \<and> mr_role_id mr \<in> {''standesfuehrer'', ''internetreferent''}) \<and>
    (\<exists>m'. get_member db' k = Some m' \<and> columns m' F_org_id = columns user F_org_id) \<and>
    (\<forall>m. get_member db k = Some m \<longrightarrow> columns m F_org_id = columns user F_org_id) \<and>
    (\<forall>j. j \<noteq> k \<longrightarrow> get_member db' j = get_member db j)"
proof -
  have "rg_members db' \<noteq> rg_members db" using changed by (auto simp: get_member_def)
  then obtain raw data m d db0 db1 m' where data: "validate_save_request chk raw = Some data"
    and input: "apply_member_input rv db0 m data user = Inr (db1, m', d)" and dbs: "rg_members db0 = rg_members db" "rg_members db' = rg_members db1"
    and org: "sr_values data F_org_id = columns user F_org_id"
    and admin: "get_member db (member_id m) = Some m \<and> require_org_admin rv user (columns m F_org_id) = Inr () \<or>
      m = new_member (rg_next_id db) \<and> require_org_admin rv user (columns user F_org_id) = Inr ()"
    using member_edit_save [OF edit] by metis
  have typed: "typed_columns (columns m)"
    using admin ok get_member_D [of db "member_id m" m]
    by (auto simp: new_member_def typed_columns_def register_ok_def members_ok_def row_ok_def)
  note eq = apply_member_input_eq [OF typed validated_request_typed [OF data] input]
    and tables = apply_member_input_tables [OF typed validated_request_typed [OF data] input]
  note row = saved_row [OF eq(1)]
  have get: "get_member db' j = (if j = member_id m then Some m' else get_member db j)" for j
    using get_store_member [of m' db0 j] by (simp add: get_member_def dbs tables(1) row(1))
  have k: "k = member_id m" using changed get [of k] by (auto split: if_split_asm)
  have fresh: "get_member db (rg_next_id db) = None"
    using ok by (auto simp: get_member_def get_by_None_iff register_ok_def ids_ok_def)
  obtain x where x: "require_org_admin rv user (columns x F_org_id) = Inr ()" "x = user \<or> x = m \<and> get_member db (member_id m) = Some m"
    and old: "\<forall>y. get_member db k = Some y \<longrightarrow> y = x"
    using admin fresh k by (auto simp: new_member_def)
  obtain o' where o': "columns x F_org_id = PStr o'" "o' \<noteq> []"
    using x(1) by (cases "columns x F_org_id") (simp_all add: require_org_admin_def value_or_empty_def split: if_split_asm)
  have "o' \<in> {''vbw'', ''vbn''}" using orgs o' x(2) get_member_D [of db "member_id m" m] by blast
  note office = org_admin_holds_office [OF x(1) [unfolded o'(1)] this user]
  have "columns m' F_org_id = columns user F_org_id" using row(3) org by simp
  then show ?thesis using office get k old o'(1) by auto
qed

lemma demo_edit: "member_edit demo_check demo_environment keeper demo_register demo_result"
  by (rule demo_save) (rule member_edit.update [OF demo_request_valid])

lemma demo_get: "get_member demo_register 2 = Some novice" "get_member demo_result 2 = Some demo_saved"
proof -
  show "get_member demo_register 2 = Some novice" by (simp add: get_member_def keeper_def novice_def)
  have "get_member demo_result 2 = get_member (store_member demo_saved demo_register) 2"
    by (simp add: get_member_def db_after_save_tables)
  then show "get_member demo_result 2 = Some demo_saved"
    by (simp add: get_store_member) (simp add: row_of_request_def novice_def)
qed

lemma only_office_holders_change_entries_witness:
  "(\<exists>mr \<in> set (member_roles keeper). role_active (Date 2024 3 1) mr \<and> mr_role_id mr \<in> {''standesfuehrer'', ''internetreferent''}) \<and>
   get_member demo_result 1 = get_member demo_register 1"
proof -
  have "get_member demo_result 2 \<noteq> get_member demo_register 2"
    using demo_saved_changes unfolding demo_get by auto
  moreover have "effective_dev_superuser (rv_settings demo_environment) \<noteq> Some (member_id keeper)"
    by (simp add: effective_dev_superuser_def demo_environment_def)
  moreover have "\<forall>m \<in> insert keeper (set (rg_members demo_register)). \<forall>org. columns m F_org_id = PStr org \<longrightarrow> org \<in> {[], ''vbw'', ''vbn''}"
    by (simp add: keeper_def novice_def plain_columns_def)
  moreover have today: "rv_today demo_environment = Date 2024 3 1" "(1 :: nat) \<noteq> 2" by (simp_all add: demo_environment_def)
  ultimately show ?thesis
    using only_office_holders_change_entries [OF demo_edit demo_register_ok, of 2] unfolding today(1) by blast
qed

section \<open>The change log\<close>

lemma logged_keys:
  "fst ` set (diff_of_request m data) \<inter> set CHANGELOG_EXCLUDED_KEYS = {}"
proof -
  have "list_all (\<lambda>f. field_name f \<notin> set CHANGELOG_EXCLUDED_KEYS) SAVE_FIELDS" by code_simp
  then show ?thesis
    by (auto simp: diff_of_request_def column_diff_def row_changes_def list_changes_def list_change_def list_all_iff
        CHANGELOG_EXCLUDED_KEYS_def split: if_split_asm)
qed

lemma change_log_entries_all:
  assumes "fst ` set d \<inter> set CHANGELOG_EXCLUDED_KEYS = {}"
  shows "map (\<lambda>l. (log_key l, log_old l, log_new l)) (change_log_entries i k d a u now) =
      map (\<lambda>(key, old, new). (key, serialize_log_value old, serialize_log_value new)) d"
    and "\<forall>l \<in> set (change_log_entries i k d a u now). log_entity l = Some k \<and> log_action l = a \<and>
      log_modified_by l = Some u \<and> log_modified_at l = now"
proof -
  have all: "filter (\<lambda>(k, _). k \<notin> set CHANGELOG_EXCLUDED_KEYS) d = d"
    using assms by (auto simp: filter_id_conv)
  let ?g = "\<lambda>(key, old, new). (key, serialize_log_value old, serialize_log_value new)"
  have "map (\<lambda>p. ?g (snd p)) (zip [i..<i + length d] d) = map ?g (map snd (zip [i..<i + length d] d))"
    by (simp only: map_map comp_def)
  also have "map snd (zip [i..<i + length d] d) = d" by simp
  finally show "map (\<lambda>l. (log_key l, log_old l, log_new l)) (change_log_entries i k d a u now) = map ?g d"
    unfolding change_log_entries_def all Let_def by (simp add: comp_def case_prod_unfold)
  show "\<forall>l \<in> set (change_log_entries i k d a u now). log_entity l = Some k \<and> log_action l = a \<and>
      log_modified_by l = Some u \<and> log_modified_at l = now"
    by (auto simp: change_log_entries_def Let_def)
qed

text \<open>C19: saving an entry stores the values of the request after the rules of the form, and appends to
  the change log one entry for each column whose value changed in substance (no entry for a change
  between two ways of being empty), in the order of the form with the old and the new value, one
  for each list of badges, keys or roles that changed, and nothing else; the administrators are
  notified exactly if something was logged.\<close>
theorem save_is_logged:
  assumes ok: "register_ok db" and data: "validate_save_request chk raw = Some data" and m: "get_member db k = Some m"
    and save: "update_member rv db k data user = Inr (db', m', n)"
  shows "(\<forall>f \<in> set SAVE_FIELDS. columns m' f = input_columns (sr_values data) f) \<and>
    (\<exists>new. member_logs db' = member_logs db @ new \<and>
       map (\<lambda>l. (log_key l, log_old l, log_new l)) new =
         map (\<lambda>f. (field_name f, value_text (columns m f), value_text (columns m' f)))
           (filter (\<lambda>f. values_differ (columns m f) (columns m' f)) SAVE_FIELDS) @
         map (\<lambda>(key, old, new). (key, serialize_log_value old, serialize_log_value new)) (list_changes m data) \<and>
       (\<forall>l \<in> set new. log_entity l = Some k \<and> log_action l = ''update'' \<and>
          log_modified_by l = Some (member_id user) \<and> log_modified_at l = rv_now rv) \<and>
       (n = None \<longleftrightarrow> new = []))"
proof -
  from save obtain x d where x: "get_member db k = Some x" and input: "apply_member_input rv db x data user = Inr (db', m', d)" and n: "n = None \<longleftrightarrow> d = []"
    by (rule update_D)
  have mk: "x = m" "m \<in> set (rg_members db)" "member_id m = k" using x m get_member_D [OF m] by simp_all
  then have typed: "typed_columns (columns m)" using ok by (auto simp: register_ok_def members_ok_def row_ok_def)
  note eq = apply_member_input_eq [OF typed validated_request_typed [OF data] input [unfolded mk(1)]]
  note row = saved_row [OF eq(1)]
  let ?new = "if d = [] then [] else change_log_entries (rg_next_id (store_member m' (synced_events rv m data user (store_member (row_with_columns rv user m data) db)))) k d
      ''update'' (member_id user) (rv_now rv)"
  have logs: "member_logs db' = member_logs db @ ?new"
    by (simp add: eq(1-3) db_after_save_def logged_def add_member_logs_def Let_def m mk(3) synced_events_def record_role_changes_def)
  note entries = change_log_entries_all [OF logged_keys [of m data, folded eq(2)]]
  have "map (\<lambda>(key, old, new). (key, serialize_log_value old, serialize_log_value new)) d =
      map (\<lambda>f. (field_name f, value_text (columns m f), value_text (columns m' f)))
        (filter (\<lambda>f. values_differ (columns m f) (columns m' f)) SAVE_FIELDS) @
      map (\<lambda>(key, old, new). (key, serialize_log_value old, serialize_log_value new)) (list_changes m data)"
  proof -
    have "filter (\<lambda>f. values_differ (columns m f) (columns m' f)) SAVE_FIELDS =
        filter (\<lambda>f. values_differ (columns m f) (input_columns (sr_values data) f)) SAVE_FIELDS"
      by (rule filter_cong) (simp_all add: row(2))
    then show ?thesis
      by (simp add: eq(2) diff_of_request_def column_diff_def row_changes_def row(2) cong: map_cong)
  qed
  then have "map (\<lambda>l. (log_key l, log_old l, log_new l)) ?new =
         map (\<lambda>f. (field_name f, value_text (columns m f), value_text (columns m' f)))
           (filter (\<lambda>f. values_differ (columns m f) (columns m' f)) SAVE_FIELDS) @
         map (\<lambda>(key, old, new). (key, serialize_log_value old, serialize_log_value new)) (list_changes m data)"
    using entries(1) by (cases "d = []") (simp_all del: map_append)
  moreover have "n = None \<longleftrightarrow> ?new = []"
  proof -
    have "change_log_entries i k d a u t = [] \<longleftrightarrow> d = []" for i a u t
    proof -
      have "length (change_log_entries i k d a u t) = length d"
        using arg_cong [OF entries(1) [of i k a u t], of length] by simp
      then show ?thesis by (metis length_0_conv)
    qed
    then show ?thesis using n by simp
  qed
  moreover have "\<forall>l \<in> set ?new. log_entity l = Some k \<and> log_action l = ''update'' \<and>
          log_modified_by l = Some (member_id user) \<and> log_modified_at l = rv_now rv"
    using entries(2) by simp
  ultimately show ?thesis using logs row(2) by (intro conjI exI [of _ ?new]) simp_all
qed

lemma save_is_logged_witness:
  "\<exists>new. member_logs demo_result = member_logs demo_register @ new \<and>
     (''nachname'', Some ''Mayr'', Some ''Maier'') \<in> set (map (\<lambda>l. (log_key l, log_old l, log_new l)) new)"
proof -
  obtain n where "update_member demo_environment demo_register 2 demo_request keeper = Inr (demo_result, demo_saved, Some n)"
    by (rule demo_save)
  from save_is_logged [OF demo_register_ok demo_request_valid demo_get(1) this]
  obtain new where new: "member_logs demo_result = member_logs demo_register @ new"
    "map (\<lambda>l. (log_key l, log_old l, log_new l)) new =
         map (\<lambda>f. (field_name f, value_text (columns novice f), value_text (columns demo_saved f)))
           (filter (\<lambda>f. values_differ (columns novice f) (columns demo_saved f)) SAVE_FIELDS) @
         map (\<lambda>(key, old, new). (key, serialize_log_value old, serialize_log_value new)) (list_changes novice demo_request)"
    by blast
  have "values_differ (columns novice F_nachname) (columns demo_saved F_nachname)" by code_simp
  then have "F_nachname \<in> set (filter (\<lambda>f. values_differ (columns novice f) (columns demo_saved f)) SAVE_FIELDS)"
    by (simp add: saved)
  then have "(field_name F_nachname, value_text (columns novice F_nachname), value_text (columns demo_saved F_nachname)) \<in>
      set (map (\<lambda>l. (log_key l, log_old l, log_new l)) new)"
    unfolding new(2) set_append set_map by blast
  then show ?thesis using new(1) demo_saved_changes by auto
qed

section \<open>Change requests\<close>















end
