(* ===== verification/Ordered_Rows.thy ===== *)
theory Ordered_Rows
  imports Prelude
begin

text \<open>
  The tables an editor keeps in a hand-made order: \<open>app/services/reorder_service.py\<close> and what the
  services of quotes, hints, links and gallery images share. A row has a position
  (\<open>sort_order\<close>, an \<open>INTEGER\<close> column without a uniqueness constraint); a list shows the rows by
  position. The locale \<open>ordered_rows\<close> states what a row type has to offer, and proves once
  what moving, adding and removing rows does to the list.
\<close>

datatype direction = Up | Down

text \<open>\<open>find_reorder_neighbor\<close>. Where two rows have the same position SQL leaves open which is first.\<close>

definition find_reorder_neighbor :: "('r \<Rightarrow> int) \<Rightarrow> 'r list \<Rightarrow> int \<Rightarrow> direction \<Rightarrow> 'r option" where
  "find_reorder_neighbor order rows current d =
     (case d of
        Up \<Rightarrow> List.find (\<lambda>_. True) (sort_desc order (filter (\<lambda>r. order r < current) rows))
      | Down \<Rightarrow> List.find (\<lambda>_. True) (sort_key order (filter (\<lambda>r. current < order r) rows)))"

text \<open>\<open>(max(sort_order) or 0) + 1\<close>\<close>

definition next_sort_order :: "('r \<Rightarrow> int) \<Rightarrow> 'r list \<Rightarrow> int" where
  "next_sort_order order rows =
     (case map order rows of [] \<Rightarrow> 0 | n # ns \<Rightarrow> fold max ns n) + 1"

definition INTEGER_MAX :: int where "INTEGER_MAX = 2147483647"

definition INTEGER_MIN :: int where "INTEGER_MIN = - 2147483648"

text \<open>
  An \<open>INSERT\<close> and the \<open>UPDATE\<close> of one row. \<open>check\<close> is the \<open>CHECK\<close> constraints of the table, the
  primary key is unique, and the position fits its column.
\<close>

definition insert_row ::
  "('r \<Rightarrow> uuid) \<Rightarrow> ('r \<Rightarrow> int) \<Rightarrow> ('r \<Rightarrow> bool) \<Rightarrow> 'r \<Rightarrow> 'r list \<Rightarrow> exc + 'r list" where
  "insert_row key order check r rows =
     (if order r < INTEGER_MIN \<or> INTEGER_MAX < order r then Inl DataError
      else if \<not> check r \<or> key r \<in> set (map key rows) then Inl IntegrityError
      else Inr (rows @ [r]))"

definition update_row ::
  "('r \<Rightarrow> uuid) \<Rightarrow> ('r \<Rightarrow> bool) \<Rightarrow> ('r \<Rightarrow> 'r) \<Rightarrow> 'r \<Rightarrow> 'r list \<Rightarrow> exc + 'r list" where
  "update_row key check f r rows =
     (if check (f r) then Inr (update_where (\<lambda>x. key x = key r) f rows) else Inl IntegrityError)"

text \<open>The swap of two positions, and its \<open>commit\<close>.\<close>

definition swap_with_neighbor ::
  "('r \<Rightarrow> uuid) \<Rightarrow> ('r \<Rightarrow> int) \<Rightarrow> (int \<Rightarrow> 'r \<Rightarrow> 'r) \<Rightarrow> 'r list \<Rightarrow> 'r \<Rightarrow> direction \<Rightarrow> 'r list" where
  "swap_with_neighbor key order set_order rows r d =
     (case find_reorder_neighbor order rows (order r) d of
        None \<Rightarrow> rows
      | Some nb \<Rightarrow> update_where (\<lambda>x. key x = key nb) (set_order (order r))
                    (update_where (\<lambda>x. key x = key r) (set_order (order nb)) rows))"

definition in_order :: "('r \<Rightarrow> uuid) \<Rightarrow> ('r \<Rightarrow> int) \<Rightarrow> 'r list \<Rightarrow> bool" where
  "in_order key order rows \<longleftrightarrow> distinct (map key rows) \<and> distinct (map order rows)"

section \<open>The neighbour in the list\<close>

lemma sort_desc_distinct: "distinct (map f xs) \<Longrightarrow> sort_desc f xs = rev (sort_key f xs)"
  unfolding sort_desc_def by (subst sort_key_inj_key_eq [of "rev xs" "sort_key f xs"]) (auto simp: distinct_map)

lemma neighbor_up:
  "distinct (map order rows) \<Longrightarrow>
     find_reorder_neighbor order rows n Up =
       List.find (\<lambda>_. True) (rev (filter (\<lambda>r. order r < n) (sort_key order rows)))"
  by (simp add: find_reorder_neighbor_def sort_desc_distinct distinct_map_filter filter_sort)

lemma neighbor_down:
  "find_reorder_neighbor order rows n Down =
     List.find (\<lambda>_. True) (filter (\<lambda>r. n < order r) (sort_key order rows))"
  by (simp add: find_reorder_neighbor_def filter_sort)

lemma distinct_sort_key: "distinct (map f rows) \<Longrightarrow> distinct (map f (sort_key f rows))"
  by (simp add: distinct_map distinct_sort)

lemma strictly_listed:
  assumes "distinct (map order rows)"
  shows "sorted_wrt (\<lambda>x y. order x < order y) (sort_key order rows)"
  using distinct_sort_key [OF assms] sorted_sort_key [of order rows]
  by (simp add: sorted_wrt_map [symmetric] strict_sorted_iff)

lemma listed_neighbors:
  assumes "distinct (map order rows)" and "sort_key order rows = xs @ a # b # ys"
  shows "find_reorder_neighbor order rows (order b) Up = Some a"
    and "find_reorder_neighbor order rows (order a) Down = Some b"
proof -
  have st: "sorted_wrt (\<lambda>x y. order x < order y) (xs @ a # b # ys)"
    using strictly_listed [OF assms(1)] assms(2) by simp
  have "filter (\<lambda>r. order r < order b) (xs @ a # b # ys) = xs @ [a]"
    using st by (auto simp: sorted_wrt_append filter_id_conv filter_empty_conv)
  then show "find_reorder_neighbor order rows (order b) Up = Some a"
    using assms by (simp add: neighbor_up)
  have "filter (\<lambda>r. order a < order r) (xs @ a # b # ys) = b # ys"
    using st by (auto simp: sorted_wrt_append filter_id_conv filter_empty_conv)
  then show "find_reorder_neighbor order rows (order a) Down = Some b"
    using assms(2) by (simp add: neighbor_down)
qed

lemma no_neighbor_at_the_ends:
  assumes "distinct (map order rows)"
  shows "sort_key order rows = a # ys \<Longrightarrow> find_reorder_neighbor order rows (order a) Up = None"
    and "sort_key order rows = xs @ [b] \<Longrightarrow> find_reorder_neighbor order rows (order b) Down = None"
proof -
  show "find_reorder_neighbor order rows (order a) Up = None" if "sort_key order rows = a # ys"
  proof -
    have "filter (\<lambda>r. order r < order a) (a # ys) = []"
      using strictly_listed [OF assms] that by (auto simp: filter_empty_conv)
    then show ?thesis using assms that by (simp add: neighbor_up)
  qed
  show "find_reorder_neighbor order rows (order b) Down = None" if "sort_key order rows = xs @ [b]"
  proof -
    have "filter (\<lambda>r. order b < order r) (xs @ [b]) = []"
      using strictly_listed [OF assms] that by (auto simp: filter_empty_conv sorted_wrt_append)
    then show ?thesis using that by (simp add: neighbor_down)
  qed
qed

lemma fold_max_ge: "(n::int) \<le> fold max ns n \<and> (\<forall>m \<in> set ns. m \<le> fold max ns n)"
proof (induction ns arbitrary: n)
  case (Cons m ns)
  from Cons [of "max m n"] show ?case by (auto simp: max_def split: if_splits)
qed simp

lemma next_sort_order_above: "r \<in> set rows \<Longrightarrow> order r < next_sort_order order rows"
  using fold_max_ge [of "hd (map order rows)" "tl (map order rows)"]
  by (cases rows) (force simp: next_sort_order_def)+

lemma fold_max_in: "fold max ns n = n \<or> fold max ns (n::int) \<in> set ns"
proof (induction ns arbitrary: n)
  case (Cons m ns)
  from Cons [of "max m n"] show ?case by (auto simp: max_def split: if_splits)
qed simp

section \<open>What a table of positions guarantees\<close>

locale ordered_rows =
  fixes key :: "'r \<Rightarrow> uuid" and order :: "'r \<Rightarrow> int" and set_order :: "int \<Rightarrow> 'r \<Rightarrow> 'r"
  assumes key_set_order [simp]: "key (set_order n r) = key r"
    and order_set_order [simp]: "order (set_order n r) = n"
    and set_set_order [simp]: "set_order n (set_order m r) = set_order n r"
    and set_own_order [simp]: "set_order (order r) r = r"
begin

abbreviation listing where "listing rows \<equiv> sort_key order rows"
abbreviation move where "move rows r d \<equiv> swap_with_neighbor key order set_order rows r d"

definition swapped where
  "swapped a b x = (if key x = key a then set_order (order b) x
                    else if key x = key b then set_order (order a) x else x)"

lemma swapped_commute: "key a \<noteq> key b \<Longrightarrow> swapped a b = swapped b a"
  by (auto simp: swapped_def fun_eq_iff)

lemma key_swapped [simp]: "key (swapped a b x) = key x"
  by (simp add: swapped_def)

lemma move_as_map:
  assumes "find_reorder_neighbor order rows (order r) d = Some nb" "key nb \<noteq> key r"
  shows "move rows r d = map (swapped r nb) rows"
  using assms by (auto simp: swap_with_neighbor_def update_where_def swapped_def)

lemma listed_distinct:
  assumes "in_order key order rows" and "listing rows = xs @ a # b # ys"
  shows "key a \<noteq> key b" and "map (swapped a b) (xs @ a # b # ys) = xs @ set_order (order b) a # set_order (order a) b # ys"
    and "a \<in> set rows" and "b \<in> set rows" and "order a < order b"
proof -
  have d: "distinct (map key (xs @ a # b # ys))"
    using assms(1) mset_eq_imp_distinct_iff [of "map key rows" "map key (listing rows)"]
    unfolding assms(2) [symmetric] by (simp add: in_order_def)
  then show "key a \<noteq> key b" by simp
  have rest: "map (swapped a b) zs = zs" if "set zs \<subseteq> set (xs @ ys)" for zs
    by (rule map_idI) (use that d in \<open>auto simp: swapped_def rev_image_eqI\<close>)
  show "map (swapped a b) (xs @ a # b # ys) = xs @ set_order (order b) a # set_order (order a) b # ys"
    using d rest [of xs] rest [of ys] by (simp add: swapped_def)
  have "set (listing rows) = set rows" by simp
  then show "a \<in> set rows" "b \<in> set rows" unfolding assms(2) by auto
  show "order a < order b"
    using strictly_listed [of order rows] assms by (simp add: in_order_def sorted_wrt_append)
qed

text \<open>Two adjacent rows of the list change places; every other row stays.\<close>

lemma adjacent_swap:
  assumes ord: "in_order key order rows" and split: "listing rows = xs @ a # b # ys"
  shows "listing (map (swapped a b) rows) = xs @ set_order (order a) b # set_order (order b) a # ys"
proof (rule sort_key_inj_key_eq)
  note l = listed_distinct [OF ord split]
  have "mset rows = mset (xs @ a # b # ys)" unfolding split [symmetric] by simp
  then have "mset (map (swapped a b) rows) = mset (map (swapped a b) (xs @ a # b # ys))"
    by (metis mset_map)
  then show ms: "mset (map (swapped a b) rows) = mset (xs @ set_order (order a) b # set_order (order b) a # ys)"
    unfolding l(2) by simp
  have orders: "map order (xs @ set_order (order a) b # set_order (order b) a # ys) = map order (listing rows)"
    by (simp add: split)
  show "sorted (map order (xs @ set_order (order a) b # set_order (order b) a # ys))"
    unfolding orders by (rule sorted_sort_key)
  have "distinct (map order (xs @ set_order (order a) b # set_order (order b) a # ys))"
    unfolding orders using ord distinct_sort_key by (auto simp: in_order_def)
  then have "inj_on order (set (xs @ set_order (order a) b # set_order (order b) a # ys))"
    by (simp only: distinct_map)
  with mset_eq_setD [OF ms] show "inj_on order (set (map (swapped a b) rows))" by simp
qed

lemma move_up:
  assumes "in_order key order rows" and "listing rows = xs @ a # b # ys"
  shows "move rows b Up = map (swapped a b) rows"
    and "listing (move rows b Up) = xs @ set_order (order a) b # set_order (order b) a # ys"
proof -
  note l = listed_distinct [OF assms]
  have "find_reorder_neighbor order rows (order b) Up = Some a"
    by (rule listed_neighbors) (use assms in \<open>auto simp: in_order_def\<close>)
  then show m: "move rows b Up = map (swapped a b) rows"
    using move_as_map l(1) swapped_commute by metis
  show "listing (move rows b Up) = xs @ set_order (order a) b # set_order (order b) a # ys"
    unfolding m by (rule adjacent_swap [OF assms])
qed

lemma move_down:
  assumes "in_order key order rows" and "listing rows = xs @ a # b # ys"
  shows "move rows a Down = map (swapped a b) rows"
    and "listing (move rows a Down) = xs @ set_order (order a) b # set_order (order b) a # ys"
proof -
  note l = listed_distinct [OF assms]
  have "find_reorder_neighbor order rows (order a) Down = Some b"
    by (rule listed_neighbors) (use assms in \<open>auto simp: in_order_def\<close>)
  then show m: "move rows a Down = map (swapped a b) rows"
    using move_as_map l(1) by metis
  show "listing (move rows a Down) = xs @ set_order (order a) b # set_order (order b) a # ys"
    unfolding m by (rule adjacent_swap [OF assms])
qed

lemma move_at_the_ends:
  assumes "in_order key order rows"
  shows "listing rows = a # ys \<Longrightarrow> move rows a Up = rows"
    and "listing rows = xs @ [b] \<Longrightarrow> move rows b Down = rows"
  using assms no_neighbor_at_the_ends [of order rows] by (auto simp: swap_with_neighbor_def in_order_def)

text \<open>A move keeps the keys and only permutes the positions.\<close>

lemma in_order_swapped:
  assumes ord: "in_order key order rows" and mem: "a \<in> set rows" "b \<in> set rows" "key a \<noteq> key b"
  shows "in_order key order (map (swapped a b) rows)"
proof -
  have keys: "key \<circ> swapped a b = key" by (simp add: fun_eq_iff)
  have inj: "inj_on key (set rows)" "inj_on order (set rows)" "distinct rows"
    using ord by (auto simp: in_order_def distinct_map)
  have o: "order (swapped a b x) =
      (if x = a then order b else if x = b then order a else order x)" if "x \<in> set rows" for x
    using inj(1) mem that by (auto simp: swapped_def dest: inj_onD)
  have "inj_on (\<lambda>x. order (swapped a b x)) (set rows)"
  proof (rule inj_onI)
    fix x y
    assume xy: "x \<in> set rows" "y \<in> set rows" "order (swapped a b x) = order (swapped a b y)"
    then show "x = y" using o mem inj(2) by (auto dest: inj_onD split: if_splits)
  qed
  then have "distinct (map order (map (swapped a b) rows))"
    using inj(3) by (simp add: distinct_map o_def)
  with keys ord show ?thesis by (simp add: in_order_def)
qed

lemma move_cases:
  assumes ord: "in_order key order rows" and r: "r \<in> set rows"
  obtains (stays) "move rows r d = rows"
  | (swaps) a b where "a \<in> set rows" "b \<in> set rows" "key a \<noteq> key b" "move rows r d = map (swapped a b) rows"
proof (cases "find_reorder_neighbor order rows (order r) d")
  case None
  then show ?thesis using stays by (simp add: swap_with_neighbor_def)
next
  case (Some nb)
  then have nb: "nb \<in> set rows" "order nb \<noteq> order r"
    by (auto simp: find_reorder_neighbor_def dest!: find_SomeD split: direction.split_asm)
  then have "key nb \<noteq> key r" using ord r by (auto simp: in_order_def distinct_map dest: inj_onD)
  then show ?thesis using swaps [of r nb] r nb(1) move_as_map [OF Some] by metis
qed

lemma in_order_move:
  assumes "in_order key order rows" and "r \<in> set rows"
  shows "in_order key order (move rows r d)"
  by (rule move_cases [OF assms, of d]) (auto simp: assms(1) in_order_swapped [OF assms(1)])

lemma keys_move: "map key (move rows r d) = map key rows"
  by (auto simp: swap_with_neighbor_def map_update_where_same split: option.split)

text \<open>Moving a row and moving it back restores the table.\<close>

lemma move_back:
  assumes ord: "in_order key order rows" and split: "listing rows = xs @ a # b # ys"
  shows "move (move rows b Up) (set_order (order a) b) Down = rows"
    and "move (move rows a Down) (set_order (order b) a) Up = rows"
proof -
  note l = listed_distinct [OF ord split]
  let ?a = "set_order (order b) a" and ?b = "set_order (order a) b"
  have ord': "in_order key order (map (swapped a b) rows)" by (rule in_order_swapped [OF ord l(3,4,1)])
  have split': "listing (map (swapped a b) rows) = xs @ ?b # ?a # ys" by (rule adjacent_swap [OF ord split])
  have undone: "map (swapped ?b ?a) (map (swapped a b) rows) = rows"
  proof -
    have eq: "x = a" if "x \<in> set rows" "key x = key a" for x
      using ord l(3) that by (auto simp: in_order_def distinct_map dest: inj_onD)
    have eq': "x = b" if "x \<in> set rows" "key x = key b" for x
      using ord l(4) that by (auto simp: in_order_def distinct_map dest: inj_onD)
    have "swapped ?b ?a (swapped a b x) = x" if "x \<in> set rows" for x
      using l(1) eq [OF that] eq' [OF that] by (auto simp: swapped_def)
    then show ?thesis by (simp add: map_idI)
  qed
  show "move (move rows b Up) ?b Down = rows"
    unfolding move_up(1) [OF ord split] move_down(1) [OF ord' split'] by (rule undone)
  show "move (move rows a Down) ?a Up = rows"
    unfolding move_down(1) [OF ord split] move_up(1) [OF ord' split'] by (rule undone)
qed

text \<open>A new row comes last; a removed one leaves the others as they are.\<close>

lemma insert_row_InrD:
  assumes "insert_row key order check r rows = Inr rows'"
  shows "rows' = rows @ [r]" and "key r \<notin> key ` set rows" and "check r"
  using assms by (auto simp: insert_row_def split: if_split_asm)

lemma insert_last:
  assumes ord: "in_order key order rows" and ins: "insert_row key order check r rows = Inr rows'"
    and pos: "order r = next_sort_order order rows"
  shows "in_order key order rows'" and "listing rows' = listing rows @ [r]"
proof -
  note i = insert_row_InrD [OF ins]
  have above: "\<forall>x \<in> set rows. order x < order r" using next_sort_order_above pos by metis
  then show ord': "in_order key order rows'" using ord i by (auto simp: in_order_def)
  show "listing rows' = listing rows @ [r]"
  proof (rule sort_key_inj_key_eq)
    show "mset rows' = mset (listing rows @ [r])" by (simp add: i)
    show "inj_on order (set rows')" using ord' by (simp add: in_order_def distinct_map)
    show "sorted (map order (listing rows @ [r]))"
      using above by (auto simp: sorted_append less_imp_le)
  qed
qed

lemma in_order_delete: "in_order key order rows \<Longrightarrow> in_order key order (delete_where P rows)"
  by (simp add: in_order_def distinct_map_delete_where)

lemma listing_delete: "listing (delete_where P rows) = delete_where P (listing rows)"
  by (simp add: delete_where_def filter_sort)

lemma in_order_update:
  "in_order key order rows \<Longrightarrow> (\<And>r. key (f r) = key r) \<Longrightarrow> (\<And>r. order (f r) = order r) \<Longrightarrow>
     in_order key order (update_where P f rows)"
  by (simp add: in_order_def map_update_where_same)

end

section \<open>Tables with CHECK constraints\<close>

definition table_ok :: "('r \<Rightarrow> uuid) \<Rightarrow> ('r \<Rightarrow> int) \<Rightarrow> ('r \<Rightarrow> bool) \<Rightarrow> 'r list \<Rightarrow> bool" where
  "table_ok key order check rows \<longleftrightarrow> in_order key order rows \<and> list_all check rows"

locale checked_rows = ordered_rows +
  fixes check :: "'a \<Rightarrow> bool"
  assumes check_set_order: "check r \<Longrightarrow> check s \<Longrightarrow> check (set_order (order s) r)"
begin

lemma table_ok_insert:
  assumes "table_ok key order check rows" and "order r = next_sort_order order rows"
    and "insert_row key order check r rows = Inr rows'"
  shows "table_ok key order check rows'"
  using assms insert_last(1) [OF _ assms(3,2)] insert_row_InrD [OF assms(3)] by (auto simp: table_ok_def)

lemma table_ok_update:
  assumes "table_ok key order check rows" and "r \<in> set rows"
    and "update_row key check f r rows = Inr rows'"
    and "\<And>x. key (f x) = key x" and "\<And>x. order (f x) = order x"
  shows "table_ok key order check rows'"
proof -
  have u: "rows' = update_where (\<lambda>x. key x = key r) f rows" "check (f r)"
    using assms(3) by (auto simp: update_row_def split: if_split_asm)
  have "x = r" if "x \<in> set rows" "key x = key r" for x
    using assms(1,2) that by (auto simp: table_ok_def in_order_def distinct_map dest: inj_onD)
  then have "list_all check rows'"
    using assms(1) u by (auto simp: table_ok_def list_all_iff set_update_where)
  moreover have "in_order key order rows'"
    unfolding u(1) by (rule in_order_update) (use assms in \<open>auto simp: table_ok_def\<close>)
  ultimately show ?thesis by (simp add: table_ok_def)
qed

lemma table_ok_move:
  assumes "table_ok key order check rows" and "r \<in> set rows"
  shows "table_ok key order check (swap_with_neighbor key order set_order rows r d)"
proof -
  have ord: "in_order key order rows" and c: "list_all check rows"
    using assms(1) by (auto simp: table_ok_def)
  have "list_all check (swap_with_neighbor key order set_order rows r d)"
  proof (rule move_cases [OF ord assms(2), of d])
    fix a b assume ab: "a \<in> set rows" "b \<in> set rows"
      and m: "swap_with_neighbor key order set_order rows r d = map (swapped a b) rows"
    show ?thesis
      unfolding m using c ab check_set_order by (auto simp: list_all_iff swapped_def)
  qed (simp add: c)
  with in_order_move [OF ord assms(2)] show ?thesis by (simp add: table_ok_def)
qed

lemma table_ok_delete: "table_ok key order check rows \<Longrightarrow> table_ok key order check (delete_where P rows)"
  by (simp add: table_ok_def in_order_delete list_all_iff)

end

end
