(* ===== verification/Link_Text.thy ===== *)
theory Link_Text
  imports Members Object_Store
begin

text \<open>
  Texts inside URLs: percent-encoding as \<open>urllib.parse.quote\<close> and \<open>unquote\<close> do it, query strings
  (\<open>urlparse\<close>, \<open>parse_qs\<close>), and the signed links of the object store
  (\<open>StorageClient.generate_presigned_url\<close> in \<open>app/core/storage.py\<close>). Characters are the first
  256 code points; what decodes to a code point beyond them, or to none, is written \<open>?\<close>.
\<close>

section \<open>Percent-encoding\<close>

definition upper_hex :: "nat \<Rightarrow> char" where
  "upper_hex n = ''0123456789ABCDEF'' ! n"

definition hex_number :: "char \<Rightarrow> nat option" where
  "hex_number c = (let n = of_char c in
     if 48 \<le> n \<and> n \<le> 57 then Some (n - 48)
     else if 65 \<le> n \<and> n \<le> 70 then Some (n - 55)
     else if 97 \<le> n \<and> n \<le> 102 then Some (n - 87) else None)"

definition unreserved :: "char \<Rightarrow> bool" where
  "unreserved c = (let n = of_char c in
     (48 \<le> n \<and> n \<le> 57) \<or> (65 \<le> n \<and> n \<le> 90) \<or> (97 \<le> n \<and> n \<le> 122) \<or> n = 45 \<or> n = 46 \<or> n = 95 \<or> n = (126 :: nat))"

definition percent :: "nat \<Rightarrow> string" where
  "percent n = [CHR ''%'', upper_hex (n div 16), upper_hex (n mod 16)]"

text \<open>The bytes of a character in UTF-8.\<close>

definition utf8 :: "char \<Rightarrow> nat list" where
  "utf8 c = (let n = of_char c in if n < 128 then [n] else [192 + n div 64, 128 + n mod 64])"

definition quote_char :: "string \<Rightarrow> char \<Rightarrow> string" where
  "quote_char safe c =
     (if unreserved c \<or> of_char c < (128 :: nat) \<and> c \<in> set safe then [c] else concat (map percent (utf8 c)))"

definition quote :: "string \<Rightarrow> string \<Rightarrow> string" where
  "quote safe s = concat (map (quote_char safe) s)"

definition escaped :: "string \<Rightarrow> (nat \<times> string) option" where
  "escaped s = (case s of
       p # a # b # t \<Rightarrow>
         if p = CHR ''%'' then (case (hex_number a, hex_number b) of
             (Some x, Some y) \<Rightarrow> Some (16 * x + y, t) | _ \<Rightarrow> None)
         else None
     | _ \<Rightarrow> None)"

lemma escaped_shorter: "escaped s = Some (n, t) \<Longrightarrow> length t < length s"
  by (auto simp: escaped_def split: list.split_asm if_split_asm option.split_asm)

function unquote :: "string \<Rightarrow> string" where
  "unquote [] = []"
| "unquote (c # s) =
     (case escaped (c # s) of
        None \<Rightarrow> c # unquote s
      | Some (n, t) \<Rightarrow>
          if n < 128 then char_of n # unquote t
          else (case escaped t of
              Some (m, u) \<Rightarrow>
                if (n = 194 \<or> n = 195) \<and> 128 \<le> m \<and> m < 192 then char_of ((n - 194) * 64 + m) # unquote u
                else CHR ''?'' # unquote t
            | None \<Rightarrow> CHR ''?'' # unquote t))"
  by pat_completeness auto

termination
proof (relation "measure length")
  show "wf (measure (length :: string \<Rightarrow> nat))" by simp
next
  fix c :: char and s :: string
  show "(s, c # s) \<in> measure length" by simp
next
  fix c s p n t assume "escaped (c # s) = Some p" "(n, t) = p"
  then show "(t, c # s) \<in> measure length" using escaped_shorter by force
next
  fix c s p n t q m u
  assume e: "escaped (c # s) = Some p" "(n, t) = p" "escaped t = Some q" "(m, u) = q"
  then have "length t < length (c # s)" "length u < length t" using escaped_shorter by blast+
  then show "(u, c # s) \<in> measure length" by simp
next
  fix c s p n t q m u
  assume e: "escaped (c # s) = Some p" "(n, t) = p"
  then show "(t, c # s) \<in> measure length" using escaped_shorter by force
next
  fix c s p n t q m u
  assume e: "escaped (c # s) = Some p" "(n, t) = p"
  then show "(t, c # s) \<in> measure length" using escaped_shorter by force
qed

lemma hex_number_upper: "n < 16 \<Longrightarrow> hex_number (upper_hex n) = Some n"
proof -
  have "\<forall>n \<in> set [0..<16]. hex_number (upper_hex n) = Some n" by code_simp
  then show "n < 16 \<Longrightarrow> hex_number (upper_hex n) = Some n" by simp
qed

lemma escaped_percent: "n < 256 \<Longrightarrow> escaped (percent n @ s) = Some (n, s)"
  by (simp add: escaped_def percent_def hex_number_upper mult.commute)

lemma escaped_plain: "c \<noteq> CHR ''%'' \<Longrightarrow> escaped (c # s) = None"
  by (auto simp: escaped_def split: list.split)

lemma unquote_escaped:
  "escaped s = Some (n, t) \<Longrightarrow> unquote s =
     (if n < 128 then char_of n # unquote t
      else (case escaped t of
          Some (m, u) \<Rightarrow>
            if (n = 194 \<or> n = 195) \<and> 128 \<le> m \<and> m < 192 then char_of ((n - 194) * 64 + m) # unquote u
            else CHR ''?'' # unquote t
        | None \<Rightarrow> CHR ''?'' # unquote t))"
  by (cases s) (auto simp: escaped_def)

lemma unquote_byte: "n < 128 \<Longrightarrow> unquote (percent n @ s) = char_of n # unquote s"
  using unquote_escaped [OF escaped_percent [of n s]] by simp

lemma unquote_two_bytes:
  assumes "n = 194 \<or> n = 195" "128 \<le> m" "m < 192"
  shows "unquote (percent n @ percent m @ s) = char_of ((n - 194) * 64 + m) # unquote s"
  using assms unquote_escaped [OF escaped_percent [of n "percent m @ s"]]
  by (auto simp: escaped_percent)

lemma of_char_less_256: "of_char c < (256 :: nat)"
  using of_char_mod_256 [of c, where 'a = nat] by (metis mod_less_divisor zero_less_numeral)

lemma high_bits: "128 \<le> n \<Longrightarrow> n < 256 \<Longrightarrow> n div 64 = 2 \<or> n div 64 = (3 :: nat)"
proof -
  assume n: "128 \<le> n" "n < 256"
  have "2 \<le> n div 64" using div_le_mono [OF n(1), of 64] by simp
  moreover have "n div 64 < 4" using n(2) by (simp add: less_mult_imp_div_less)
  ultimately show ?thesis by linarith
qed

lemma back_together:
  "n div 64 = 2 \<or> n div 64 = 3 \<Longrightarrow> (192 + n div 64 - 194) * 64 + (128 + n mod 64) = (n :: nat)"
proof -
  have e: "n div 64 * 64 + n mod 64 = n" by simp
  have "k = 2 \<or> k = 3 \<Longrightarrow> (192 + k - 194) * 64 + (128 + r) = k * 64 + r" for k r :: nat by auto
  from this [of "n div 64" "n mod 64"] show "n div 64 = 2 \<or> n div 64 = 3 \<Longrightarrow> ?thesis" unfolding e .
qed

lemma unquote_quote_char:
  assumes "CHR ''%'' \<notin> set safe"
  shows "unquote (quote_char safe c @ s) = c # unquote s"
proof (cases "unreserved c \<or> of_char c < (128 :: nat) \<and> c \<in> set safe")
  case True
  then have "c \<noteq> CHR ''%''" using assms by (auto simp: unreserved_def)
  with True show ?thesis by (simp add: quote_char_def escaped_plain)
next
  case False
  let ?n = "of_char c :: nat"
  have q: "quote_char safe c = concat (map percent (utf8 c))"
    unfolding quote_char_def by (simp only: False if_False)
  show ?thesis
  proof (cases "?n < 128")
    case True
    then show ?thesis using unquote_byte [of ?n s] by (simp add: q utf8_def)
  next
    case high: False
    have d: "?n div 64 = 2 \<or> ?n div 64 = 3"
      by (rule high_bits) (use high of_char_less_256 in simp_all)
    have m: "?n mod 64 < 64" by simp
    have whole: "(192 + ?n div 64 - 194) * 64 + (128 + ?n mod 64) = ?n"
      by (rule back_together [OF d])
    have "192 + ?n div 64 = 194 \<or> 192 + ?n div 64 = 195" using d by auto
    from unquote_two_bytes [OF this, of "128 + ?n mod 64" s] m
    have "unquote (percent (192 + ?n div 64) @ percent (128 + ?n mod 64) @ s) = char_of ?n # unquote s"
      unfolding whole by simp
    then show ?thesis using high by (simp add: q utf8_def Let_def)
  qed
qed

lemma unquote_quote: "CHR ''%'' \<notin> set safe \<Longrightarrow> unquote (quote safe s) = s"
  by (induction s) (simp_all add: quote_def unquote_quote_char)

lemma quote_alphabet: "c \<in> set (quote safe s) \<Longrightarrow> unreserved c \<or> c \<in> set safe \<or> c = CHR ''%''"
proof -
  have hex: "unreserved (upper_hex n)" if "n < 16" for n
  proof -
    have "\<forall>n \<in> set [0..<16]. unreserved (upper_hex n)" by code_simp
    then show ?thesis using that by simp
  qed
  have p: "c \<in> set (percent n) \<Longrightarrow> n < 256 \<Longrightarrow> unreserved c \<or> c = CHR ''%''" for n
    using hex [of "n div 16"] hex [of "n mod 16"] by (auto simp: percent_def)
  have u: "n \<in> set (utf8 d) \<Longrightarrow> n < 256" for n d
  proof -
    have "of_char d div 64 < (4 :: nat)" "of_char d mod 64 < (64 :: nat)"
      using of_char_less_256 [of d] by (simp_all add: less_mult_imp_div_less)
    then show "n \<in> set (utf8 d) \<Longrightarrow> n < 256" by (auto simp: utf8_def Let_def split: if_split_asm)
  qed
  show "c \<in> set (quote safe s) \<Longrightarrow> ?thesis"
    using p u by (auto simp: quote_def quote_char_def split: if_split_asm)
qed

section \<open>Query strings\<close>

fun split_on :: "char \<Rightarrow> string \<Rightarrow> string list" where
  "split_on sep [] = [[]]"
| "split_on sep (c # s) =
     (if c = sep then [] # split_on sep s
      else (case split_on sep s of [] \<Rightarrow> [[c]] | w # ws \<Rightarrow> (c # w) # ws))"

text \<open>\<open>s.split(c, 1)\<close>: what follows the first \<open>c\<close>.\<close>

definition after_first :: "char \<Rightarrow> string \<Rightarrow> string option" where
  "after_first c s = (case dropWhile (\<lambda>x. x \<noteq> c) s of [] \<Rightarrow> None | _ # t \<Rightarrow> Some t)"

text \<open>
  \<open>urlparse(url).query\<close> for a URL that begins with \<open>http://\<close> or \<open>https://\<close>; \<open>None\<close> is its
  \<open>ValueError\<close>. The address inside a bracketed host is checked by \<open>bracketed\<close>.
\<close>

definition url_query :: "(string \<Rightarrow> bool) \<Rightarrow> string \<Rightarrow> string option" where
  "url_query bracketed url =
     (let clean = filter (\<lambda>c. c \<notin> {CHR 0x09, CHR 0x0A, CHR 0x0D}) url;
          rest = drop 2 (dropWhile (\<lambda>c. c \<noteq> CHR ''/'') clean);
          delim = (\<lambda>c. c \<in> {CHR ''/'', CHR ''?'', CHR ''#''});
          netloc = takeWhile (\<lambda>c. \<not> delim c) rest;
          path = takeWhile (\<lambda>c. c \<noteq> CHR ''#'') (dropWhile (\<lambda>c. \<not> delim c) rest);
          opening = CHR ''['' \<in> set netloc; closing = CHR '']'' \<in> set netloc
      in if opening \<noteq> closing \<or> opening \<and> \<not> bracketed netloc then None
         else Some (case after_first CHR ''?'' path of None \<Rightarrow> [] | Some q \<Rightarrow> q))"

definition plus_as_space :: "string \<Rightarrow> string" where
  "plus_as_space s = map (\<lambda>c. if c = CHR ''+'' then CHR '' '' else c) s"

text \<open>\<open>parse_qs(query)\<close> as the list of its pairs; a pair without a value is left out.\<close>

fun query_pairs :: "string list \<Rightarrow> (string \<times> string) list" where
  "query_pairs [] = []"
| "query_pairs (f # fs) =
     (case after_first CHR ''='' f of
        None \<Rightarrow> query_pairs fs
      | Some v \<Rightarrow>
          if v = [] then query_pairs fs
          else (unquote (plus_as_space (takeWhile (\<lambda>c. c \<noteq> CHR ''='') f)), unquote (plus_as_space v)) # query_pairs fs)"

definition parse_qs :: "string \<Rightarrow> (string \<times> string) list" where
  "parse_qs query = query_pairs (split_on CHR ''&'' query)"

section \<open>Signed links\<close>

definition MAX_PRESIGNED_EXPIRY :: nat where "MAX_PRESIGNED_EXPIRY = 86400"
definition MIN_PRESIGNED_EXPIRY :: nat where "MIN_PRESIGNED_EXPIRY = 60"

record presigned_request =
  pr_key :: string
  pr_expires :: nat
  pr_disposition :: "string option"
  pr_content_type :: "string option"

definition presigned_ttl :: "nat \<Rightarrow> nat option \<Rightarrow> nat" where
  "presigned_ttl expiry expires_in =
     (let ttl = (case expires_in of None \<Rightarrow> expiry | Some n \<Rightarrow> if n = 0 then expiry else n)
      in max MIN_PRESIGNED_EXPIRY (min ttl MAX_PRESIGNED_EXPIRY))"

text \<open>The request that the client library then signs; \<open>expiry\<close> is the setting \<open>presigned_expiry\<close>.\<close>

definition presigned_params ::
  "nat \<Rightarrow> string \<Rightarrow> nat option \<Rightarrow> string option \<Rightarrow> string option \<Rightarrow> presigned_request" where
  "presigned_params expiry key expires_in filename content_type =
     \<lparr>pr_key = key, pr_expires = presigned_ttl expiry expires_in,
      pr_disposition =
        (case filename of
           None \<Rightarrow> None
         | Some f \<Rightarrow> if f = [] then None
                    else Some (''attachment; filename*=UTF-8'' @ [CHR 0x27, CHR 0x27] @ quote ''.-_'' f)),
      pr_content_type =
        (case content_type of None \<Rightarrow> None | Some t \<Rightarrow> if t = [] then None else Some t)\<rparr>"

lemma presigned_ttl_bounds:
  "MIN_PRESIGNED_EXPIRY \<le> presigned_ttl expiry e \<and> presigned_ttl expiry e \<le> MAX_PRESIGNED_EXPIRY"
  by (simp add: presigned_ttl_def Let_def MAX_PRESIGNED_EXPIRY_def MIN_PRESIGNED_EXPIRY_def)

end
