(* ===== verification/Public_Site.thy ===== *)
theory Public_Site
  imports Ordered_Rows Link_Text Permissions
begin

text \<open>
  The editable content of the public site: the rows (\<open>app/models/public_site_*.py\<close>), the request
  models (\<open>app/schemas/public_content.py\<close>) and the services of quotes, hints, links, the three tabs
  and the settings. The gallery has its own theory. The columns \<open>created_at\<close> and \<open>updated_at\<close>
  are set by the database and read by none of these services. The class \<open>[:space:]\<close> of a
  \<open>CHECK\<close> constraint is taken to be white space as \<open>trim\<close> knows it.
\<close>

section \<open>Rows\<close>

record quote_row =
  quote_id :: uuid
  quote_quote :: string
  quote_author :: string
  quote_sort_order :: int

record hint_row =
  hint_id :: uuid
  hint_content :: string
  hint_sort_order :: int

record link_row =
  link_id :: uuid
  link_platform :: string
  link_label :: string
  link_url :: string
  link_is_enabled :: bool
  link_sort_order :: int

datatype about_slot = Anfang | Mkv | Heute

definition KNOWN_SLOTS :: "about_slot list" where
  "KNOWN_SLOTS = [Anfang, Mkv, Heute]"

record tab_row =
  tab_slot :: about_slot
  tab_title :: string
  tab_body :: string

record settings_row =
  set_about_video_heading :: string
  set_about_video_youtube_id :: string
  set_programm_calendar_id :: string
  set_gallery_heading :: string

text \<open>The settings table holds the one row its \<open>CHECK\<close> allows, or none.\<close>

record site =
  site_quotes :: "quote_row list"
  site_hints :: "hint_row list"
  site_links :: "link_row list"
  site_tabs :: "tab_row list"
  site_settings :: "settings_row option"

section \<open>The CHECK constraints\<close>

definition not_blank :: "string \<Rightarrow> bool" where
  "not_blank s \<longleftrightarrow> (\<exists>c \<in> set s. \<not> is_white c)"

definition quote_check :: "quote_row \<Rightarrow> bool" where
  "quote_check q \<longleftrightarrow> not_blank (quote_quote q) \<and> length (quote_quote q) \<le> 500 \<and>
     not_blank (quote_author q) \<and> length (quote_author q) \<le> 100"

definition hint_check :: "hint_row \<Rightarrow> bool" where
  "hint_check h \<longleftrightarrow> not_blank (hint_content h) \<and> length (hint_content h) \<le> 300"

definition code_in :: "nat \<Rightarrow> nat \<Rightarrow> char \<Rightarrow> bool" where
  "code_in lo hi c \<longleftrightarrow> lo \<le> of_char c \<and> of_char c \<le> hi"

text \<open>\<open>^[a-z][a-z0-9_]*$\<close>, without a line break at the end.\<close>

definition platform_slug :: "string \<Rightarrow> bool" where
  "platform_slug s \<longleftrightarrow> (case s of [] \<Rightarrow> False
     | c # cs \<Rightarrow> code_in 97 122 c \<and> list_all (\<lambda>d. code_in 97 122 d \<or> code_in 48 57 d \<or> d = CHR ''_'') cs)"

definition http_prefix :: "string \<Rightarrow> bool" where
  "http_prefix s \<longleftrightarrow> has_prefix ''http://'' s \<or> has_prefix ''https://'' s"

definition link_check :: "link_row \<Rightarrow> bool" where
  "link_check l \<longleftrightarrow> platform_slug (link_platform l) \<and> not_blank (link_label l) \<and> http_prefix (lower (link_url l))"

definition tab_check :: "tab_row \<Rightarrow> bool" where
  "tab_check t \<longleftrightarrow> not_blank (tab_title t) \<and> length (tab_title t) \<le> 100 \<and>
     not_blank (tab_body t) \<and> length (tab_body t) \<le> 6000"

definition youtube_char :: "char \<Rightarrow> bool" where
  "youtube_char c \<longleftrightarrow> code_in 65 90 c \<or> code_in 97 122 c \<or> code_in 48 57 c \<or> c = CHR ''_'' \<or> c = CHR ''-''"

definition bare_youtube_id :: "string \<Rightarrow> bool" where
  "bare_youtube_id s \<longleftrightarrow> length s = 11 \<and> list_all youtube_char s"

text \<open>
  \<open>^[^@\s]+@[^@\s]+\.[^@\s]+$\<close>, where \<open>$\<close> is the very end, as in PostgreSQL: one \<open>@\<close>, and
  behind it a dot that is neither first nor last.
\<close>

definition calendar_id :: "string \<Rightarrow> bool" where
  "calendar_id s \<longleftrightarrow>
     (let rest = dropWhile (\<lambda>c. c \<noteq> CHR ''@'') s; domain = tl rest in
      takeWhile (\<lambda>c. c \<noteq> CHR ''@'') s \<noteq> [] \<and> rest \<noteq> [] \<and> CHR ''@'' \<notin> set domain \<and>
      list_all (\<lambda>c. \<not> is_space c) s \<and> domain \<noteq> [] \<and> CHR ''.'' \<in> set (butlast (tl domain)))"

definition settings_check :: "settings_row \<Rightarrow> bool" where
  "settings_check s \<longleftrightarrow> not_blank (set_about_video_heading s) \<and> bare_youtube_id (set_about_video_youtube_id s) \<and>
     calendar_id (set_programm_calendar_id s) \<and> not_blank (set_gallery_heading s)"

section \<open>Request models\<close>

text \<open>A field of a \<open>TrimmedInputModel\<close> with \<open>min_length=1\<close> and \<open>max_length=n\<close>.\<close>

definition trimmed :: "nat \<Rightarrow> string \<Rightarrow> string option" where
  "trimmed n s = (let t = trim s in if t \<noteq> [] \<and> length t \<le> n then Some t else None)"

definition require :: "bool \<Rightarrow> 'a option \<Rightarrow> 'a option" where
  "require ok x = (if ok then x else None)"

definition or_invalid :: "'a option \<Rightarrow> exc + 'a" where
  "or_invalid x = (case x of None \<Rightarrow> Inl RequestValidationError | Some v \<Rightarrow> Inr v)"

definition QuoteRequest :: "string \<Rightarrow> string \<Rightarrow> (string \<times> string) option" where
  "QuoteRequest q author =
     (case (trimmed 500 q, trimmed 100 author) of (Some x, Some y) \<Rightarrow> Some (x, y) | _ \<Rightarrow> None)"

definition ProgrammHintRequest :: "string \<Rightarrow> string option" where
  "ProgrammHintRequest content = trimmed 300 content"

definition require_http_url :: "string \<Rightarrow> string option" where
  "require_http_url v = (if http_prefix v then Some v else None)"

definition SocialLinkUpdateRequest :: "string \<Rightarrow> string \<Rightarrow> (string \<times> string) option" where
  "SocialLinkUpdateRequest label url =
     (case (trimmed 60 label, Option.bind (trimmed 500 url) require_http_url) of
        (Some l, Some u) \<Rightarrow> Some (l, u) | _ \<Rightarrow> None)"

definition SocialLinkCreateRequest :: "string \<Rightarrow> string \<Rightarrow> string \<Rightarrow> (string \<times> string \<times> string) option" where
  "SocialLinkCreateRequest platform label url =
     (case (trimmed 40 platform, trimmed 60 label, Option.bind (trimmed 500 url) require_http_url) of
        (Some p, Some l, Some u) \<Rightarrow> if platform_slug p then Some (p, l, u) else None | _ \<Rightarrow> None)"

text \<open>
  \<open>_LINK_PATTERN.finditer(body)\<close>: at an opening bracket, a non-empty text up to the first closing
  one, which has to be followed by a non-empty address in parentheses. The matches do not overlap.
\<close>

definition link_at :: "string \<Rightarrow> (string \<times> string) option" where
  "link_at s =
     (let label = takeWhile (\<lambda>c. c \<noteq> CHR '']'') (tl s);
          behind = drop 1 (dropWhile (\<lambda>c. c \<noteq> CHR '']'') (tl s));
          url = takeWhile (\<lambda>c. c \<noteq> CHR '')'') (tl behind);
          rest = dropWhile (\<lambda>c. c \<noteq> CHR '')'') (tl behind)
      in if s \<noteq> [] \<and> hd s = CHR ''['' \<and> label \<noteq> [] \<and> behind \<noteq> [] \<and> hd behind = CHR ''('' \<and> url \<noteq> [] \<and> rest \<noteq> []
         then Some (url, tl rest) else None)"

lemma link_at_shorter: "link_at s = Some (url, rest) \<Longrightarrow> length rest < length s"
proof -
  have d: "length (dropWhile P u) \<le> length u" for P :: "char \<Rightarrow> bool" and u by (rule length_dropWhile_le)
  assume "link_at s = Some (url, rest)"
  then have s: "s \<noteq> []"
    and r: "rest = tl (dropWhile (\<lambda>c. c \<noteq> CHR '')'') (tl (drop 1 (dropWhile (\<lambda>c. c \<noteq> CHR '']'') (tl s)))))"
    by (auto simp: link_at_def Let_def split: if_split_asm)
  let ?u = "dropWhile (\<lambda>c. c \<noteq> CHR '']'') (tl s)"
  have "length rest \<le> length (dropWhile (\<lambda>c. c \<noteq> CHR '')'') (tl (drop 1 ?u)))" unfolding r by simp
  also have "\<dots> \<le> length (tl (drop 1 ?u))" by (rule d)
  also have "\<dots> \<le> length ?u" by simp
  also have "\<dots> \<le> length (tl s)" by (rule d)
  finally have "length rest \<le> length (tl s)" .
  with s show ?thesis by (cases s) auto
qed

function find_links :: "string \<Rightarrow> string list" where
  "find_links [] = []"
| "find_links (c # s) =
     (case link_at (c # s) of None \<Rightarrow> find_links s | Some (url, rest) \<Rightarrow> url # find_links rest)"
  by pat_completeness auto

termination
proof (relation "measure length")
  fix c s p url rest
  assume "link_at (c # s) = Some p" "(url, rest) = p"
  then show "(rest, c # s) \<in> measure length" using link_at_shorter by force
qed simp_all

definition AboutTabUpdateRequest :: "string \<Rightarrow> string \<Rightarrow> (string \<times> string) option" where
  "AboutTabUpdateRequest title body =
     (case (trimmed 100 title, trimmed 6000 body) of
        (Some t, Some b) \<Rightarrow> if list_all http_prefix (find_links b) then Some (t, b) else None
      | _ \<Rightarrow> None)"

definition YOUTUBE_PREFIXES :: "string list" where
  "YOUTUBE_PREFIXES = ''youtu.be/'' #
     concat (map (\<lambda>host. map (\<lambda>p. host @ p) [''watch?v='', ''embed/'', ''shorts/'', ''v/''])
       [''youtube.com/'', ''youtube-nocookie.com/''])"

definition youtube_at :: "string \<Rightarrow> string option" where
  "youtube_at s =
     (case List.find (\<lambda>p. has_prefix p s) YOUTUBE_PREFIXES of
        None \<Rightarrow> None
      | Some p \<Rightarrow> let found = take 11 (drop (length p) s) in if bare_youtube_id found then Some found else None)"

text \<open>\<open>_YOUTUBE_ID_RE.search\<close>: the first place where the pattern fits.\<close>

fun youtube_search :: "string \<Rightarrow> string option" where
  "youtube_search [] = None"
| "youtube_search (c # s) = (case youtube_at (c # s) of Some i \<Rightarrow> Some i | None \<Rightarrow> youtube_search s)"

definition extract_youtube_id :: "string \<Rightarrow> string option" where
  "extract_youtube_id v =
     (case youtube_search v of
        Some i \<Rightarrow> Some i
      | None \<Rightarrow> if bare_youtube_id (strip v) then Some (strip v) else None)"

text \<open>\<open>_CALENDAR_ID_RE.match\<close>: Python's \<open>$\<close> also matches before a line break at the end.\<close>

definition calendar_match :: "string \<Rightarrow> bool" where
  "calendar_match s \<longleftrightarrow> calendar_id s \<or> (s \<noteq> [] \<and> last s = CHR 0x0A \<and> calendar_id (butlast s))"

definition extract_calendar_id :: "(string \<Rightarrow> bool) \<Rightarrow> string \<Rightarrow> string option" where
  "extract_calendar_id bracketed v =
     (let candidate = strip v;
          src = (if http_prefix candidate
                 then Option.bind (url_query bracketed candidate) (\<lambda>q. map_of (parse_qs q) ''src'')
                 else Some candidate)
      in Option.bind src (\<lambda>c. if calendar_match c then Some c else None))"

definition SiteSettingsUpdateRequest ::
  "(string \<Rightarrow> bool) \<Rightarrow> string \<Rightarrow> string \<Rightarrow> string \<Rightarrow> string \<Rightarrow> settings_row option" where
  "SiteSettingsUpdateRequest bracketed heading youtube calendar gallery =
     (case (trimmed 200 heading, Option.bind (trimmed 500 youtube) extract_youtube_id,
            Option.bind (trimmed 500 calendar) (extract_calendar_id bracketed), trimmed 200 gallery) of
        (Some h, Some y, Some c, Some g) \<Rightarrow>
          Some \<lparr>set_about_video_heading = h, set_about_video_youtube_id = y,
                set_programm_calendar_id = c, set_gallery_heading = g\<rparr>
      | _ \<Rightarrow> None)"

section \<open>Quotes (\<open>quotes_service.py\<close>)\<close>

definition missing :: "string \<Rightarrow> exc" where
  "missing detail = HTTPException 404 detail"

definition row_or_404 :: "string \<Rightarrow> 'r option \<Rightarrow> exc + 'r" where
  "row_or_404 detail r = (case r of None \<Rightarrow> Inl (missing detail) | Some x \<Rightarrow> Inr x)"

definition list_quotes :: "site \<Rightarrow> quote_row list" where
  "list_quotes db = sort_key quote_sort_order (site_quotes db)"

definition get_quote_or_404 :: "site \<Rightarrow> uuid \<Rightarrow> exc + quote_row" where
  "get_quote_or_404 db k = row_or_404 ''Zitat nicht gefunden.'' (get_by quote_id (site_quotes db) k)"

definition create_quote :: "site \<Rightarrow> uuid \<Rightarrow> string \<Rightarrow> string \<Rightarrow> exc + site \<times> quote_row" where
  "create_quote db new q author =
     (let row = \<lparr>quote_id = new, quote_quote = q, quote_author = author,
                 quote_sort_order = next_sort_order quote_sort_order (site_quotes db)\<rparr>
      in bind_res (insert_row quote_id quote_sort_order quote_check row (site_quotes db))
           (\<lambda>rows. Inr (db\<lparr>site_quotes := rows\<rparr>, row)))"

definition update_quote :: "site \<Rightarrow> quote_row \<Rightarrow> string \<Rightarrow> string \<Rightarrow> exc + site" where
  "update_quote db row q author =
     bind_res (update_row quote_id quote_check (\<lambda>r. r\<lparr>quote_quote := q, quote_author := author\<rparr>) row (site_quotes db))
       (\<lambda>rows. Inr (db\<lparr>site_quotes := rows\<rparr>))"

definition set_quote_order :: "int \<Rightarrow> quote_row \<Rightarrow> quote_row" where
  "set_quote_order n r = r\<lparr>quote_sort_order := n\<rparr>"

definition move_quote :: "site \<Rightarrow> quote_row \<Rightarrow> direction \<Rightarrow> site" where
  "move_quote db row d =
     db\<lparr>site_quotes := swap_with_neighbor quote_id quote_sort_order set_quote_order (site_quotes db) row d\<rparr>"

definition delete_quote :: "site \<Rightarrow> quote_row \<Rightarrow> site" where
  "delete_quote db row = db\<lparr>site_quotes := delete_where (\<lambda>r. quote_id r = quote_id row) (site_quotes db)\<rparr>"

section \<open>Programme hints (\<open>programm_hints_service.py\<close>)\<close>

definition list_hints :: "site \<Rightarrow> hint_row list" where
  "list_hints db = sort_key hint_sort_order (site_hints db)"

definition get_hint_or_404 :: "site \<Rightarrow> uuid \<Rightarrow> exc + hint_row" where
  "get_hint_or_404 db k = row_or_404 ''Hinweis nicht gefunden.'' (get_by hint_id (site_hints db) k)"

definition create_hint :: "site \<Rightarrow> uuid \<Rightarrow> string \<Rightarrow> exc + site \<times> hint_row" where
  "create_hint db new content =
     (let row = \<lparr>hint_id = new, hint_content = content,
                 hint_sort_order = next_sort_order hint_sort_order (site_hints db)\<rparr>
      in bind_res (insert_row hint_id hint_sort_order hint_check row (site_hints db))
           (\<lambda>rows. Inr (db\<lparr>site_hints := rows\<rparr>, row)))"

definition update_hint :: "site \<Rightarrow> hint_row \<Rightarrow> string \<Rightarrow> exc + site" where
  "update_hint db row content =
     bind_res (update_row hint_id hint_check (\<lambda>r. r\<lparr>hint_content := content\<rparr>) row (site_hints db))
       (\<lambda>rows. Inr (db\<lparr>site_hints := rows\<rparr>))"

definition set_hint_order :: "int \<Rightarrow> hint_row \<Rightarrow> hint_row" where
  "set_hint_order n r = r\<lparr>hint_sort_order := n\<rparr>"

definition move_hint :: "site \<Rightarrow> hint_row \<Rightarrow> direction \<Rightarrow> site" where
  "move_hint db row d =
     db\<lparr>site_hints := swap_with_neighbor hint_id hint_sort_order set_hint_order (site_hints db) row d\<rparr>"

definition delete_hint :: "site \<Rightarrow> hint_row \<Rightarrow> site" where
  "delete_hint db row = db\<lparr>site_hints := delete_where (\<lambda>r. hint_id r = hint_id row) (site_hints db)\<rparr>"

section \<open>Social links (\<open>social_links_service.py\<close>)\<close>

definition list_admin_links :: "site \<Rightarrow> link_row list" where
  "list_admin_links db = sort_key link_sort_order (site_links db)"

definition list_enabled_links :: "site \<Rightarrow> link_row list" where
  "list_enabled_links db = sort_key link_sort_order (filter link_is_enabled (site_links db))"

definition get_link_or_404 :: "site \<Rightarrow> uuid \<Rightarrow> exc + link_row" where
  "get_link_or_404 db k = row_or_404 ''Social-Media-Link nicht gefunden.'' (get_by link_id (site_links db) k)"

definition create_link ::
  "site \<Rightarrow> uuid \<Rightarrow> string \<Rightarrow> string \<Rightarrow> string \<Rightarrow> bool \<Rightarrow> exc + site \<times> link_row" where
  "create_link db new platform label url enabled =
     (let row = \<lparr>link_id = new, link_platform = platform, link_label = label, link_url = url,
                 link_is_enabled = enabled, link_sort_order = next_sort_order link_sort_order (site_links db)\<rparr>
      in bind_res (insert_row link_id link_sort_order link_check row (site_links db))
           (\<lambda>rows. Inr (db\<lparr>site_links := rows\<rparr>, row)))"

definition update_link :: "site \<Rightarrow> link_row \<Rightarrow> string \<Rightarrow> string \<Rightarrow> bool \<Rightarrow> exc + site" where
  "update_link db row label url enabled =
     bind_res (update_row link_id link_check
         (\<lambda>r. r\<lparr>link_label := label, link_url := url, link_is_enabled := enabled\<rparr>) row (site_links db))
       (\<lambda>rows. Inr (db\<lparr>site_links := rows\<rparr>))"

definition set_link_order :: "int \<Rightarrow> link_row \<Rightarrow> link_row" where
  "set_link_order n r = r\<lparr>link_sort_order := n\<rparr>"

definition move_link :: "site \<Rightarrow> link_row \<Rightarrow> direction \<Rightarrow> site" where
  "move_link db row d =
     db\<lparr>site_links := swap_with_neighbor link_id link_sort_order set_link_order (site_links db) row d\<rparr>"

definition delete_link :: "site \<Rightarrow> link_row \<Rightarrow> site" where
  "delete_link db row = db\<lparr>site_links := delete_where (\<lambda>r. link_id r = link_id row) (site_links db)\<rparr>"

section \<open>Tabs and settings (\<open>about_tabs_service.py\<close>, \<open>site_settings_service.py\<close>)\<close>

fun slot_order :: "about_slot \<Rightarrow> nat" where
  "slot_order Anfang = 0"
| "slot_order Mkv = 1"
| "slot_order Heute = 2"

definition list_tabs :: "site \<Rightarrow> tab_row list" where
  "list_tabs db = sort_key (\<lambda>t. slot_order (tab_slot t)) (site_tabs db)"

definition get_tabs_by_slot :: "site \<Rightarrow> about_slot \<Rightarrow> tab_row option" where
  "get_tabs_by_slot db slot = map_of (rev (map (\<lambda>t. (tab_slot t, t)) (site_tabs db))) slot"

definition slot_of :: "string \<Rightarrow> about_slot option" where
  "slot_of s = (if s = ''anfang'' then Some Anfang else if s = ''mkv'' then Some Mkv
                else if s = ''heute'' then Some Heute else None)"

definition get_tab_or_404 :: "site \<Rightarrow> string \<Rightarrow> exc + tab_row" where
  "get_tab_or_404 db s =
     row_or_404 ''Tab nicht gefunden.''
       (case slot_of s of None \<Rightarrow> None | Some slot \<Rightarrow> List.find (\<lambda>t. tab_slot t = slot) (site_tabs db))"

definition update_tab :: "site \<Rightarrow> tab_row \<Rightarrow> string \<Rightarrow> string \<Rightarrow> exc + site" where
  "update_tab db tab title body =
     (let f = (\<lambda>t. t\<lparr>tab_title := title, tab_body := body\<rparr>) in
      if tab_check (f tab) then Inr (db\<lparr>site_tabs := update_where (\<lambda>t. tab_slot t = tab_slot tab) f (site_tabs db)\<rparr>)
      else Inl IntegrityError)"

definition get_site_settings :: "site \<Rightarrow> exc + settings_row" where
  "get_site_settings db =
     (case site_settings db of None \<Rightarrow> Inl (HTTPException 500 ''Site-Settings fehlen.'') | Some s \<Rightarrow> Inr s)"

definition update_settings :: "site \<Rightarrow> settings_row \<Rightarrow> exc + site" where
  "update_settings db new =
     (if settings_check new then Inr (db\<lparr>site_settings := Some new\<rparr>) else Inl IntegrityError)"

end
