(* ===== verification/Public_Gallery.thy ===== *)
theory Public_Gallery
  imports Public_Site
begin

text \<open>
  The public gallery: \<open>app/models/public_gallery_image.py\<close>, \<open>app/core/upload_images.py\<close>,
  \<open>app/services/public_gallery_service.py\<close> and its request models. Reading an image (Pillow) and
  SHA-256 are parameters. The object store is changed outside the transaction, so an operation that
  writes to it returns it also when it fails. The account that uploaded an image is a reference
  the database clears by itself.
\<close>

record gallery_row =
  img_id :: uuid
  img_sha256_hash :: string
  img_extension :: string
  img_content_type :: string
  img_size :: nat
  img_width :: nat
  img_height :: nat
  img_caption :: "string option"
  img_sort_order :: int
  img_is_published :: bool
  img_created_by :: "uuid option"
  img_created_at :: instant

definition gallery_check :: "gallery_row \<Rightarrow> bool" where
  "gallery_check i \<longleftrightarrow> 0 < img_width i \<and> 0 < img_height i \<and> 0 \<le> img_sort_order i \<and>
     img_content_type i \<in> {''image/jpeg'', ''image/png''} \<and> img_extension i \<in> {''jpg'', ''png''}"

section \<open>Inspecting an upload (\<open>upload_images.py\<close>)\<close>

text \<open>What \<open>Image.open\<close> says of the bytes: format and size, or one of its exceptions.\<close>

datatype pil_result = Pil_Image string nat nat | Pil_OSError | Pil_Bomb

definition IMAGE_TYPE_BY_FORMAT :: "(string \<times> string) list" where
  "IMAGE_TYPE_BY_FORMAT = [(''JPEG'', ''image/jpeg''), (''PNG'', ''image/png'')]"

datatype inspect_error = Inspect_OSError | Inspect_ValueError

definition inspect_upload_image :: "(string \<Rightarrow> pil_result) \<Rightarrow> string \<Rightarrow> inspect_error + string \<times> nat \<times> nat" where
  "inspect_upload_image pil content =
     (case pil content of
        Pil_OSError \<Rightarrow> Inl Inspect_OSError
      | Pil_Bomb \<Rightarrow> Inl Inspect_ValueError
      | Pil_Image format w h \<Rightarrow>
          (case map_of IMAGE_TYPE_BY_FORMAT format of
             None \<Rightarrow> Inl Inspect_ValueError | Some t \<Rightarrow> Inr (t, w, h)))"

definition extension_of :: "string \<Rightarrow> string" where
  "extension_of content_type =
     (let ext = last (split_on CHR ''/'' content_type) in if ext = ''jpeg'' then ''jpg'' else ext)"

section \<open>The service\<close>

record gallery_env =
  ge_pil :: "string \<Rightarrow> pil_result"
  ge_sha256 :: "string \<Rightarrow> string"
  ge_sign :: "presigned_request \<Rightarrow> string"
  ge_expiry :: nat
  ge_path :: string
  ge_id_text :: "uuid \<Rightarrow> string"

definition ALLOWED_TYPES :: "string list" where
  "ALLOWED_TYPES = [''image/jpeg'', ''image/png'']"

definition MAX_FILE_SIZE :: nat where
  "MAX_FILE_SIZE = 8 * 1024 * 1024"

text \<open>\<open>file.file.read(MAX_FILE_SIZE + 1)\<close>\<close>

definition read_upload :: "string \<Rightarrow> string" where
  "read_upload file = take (MAX_FILE_SIZE + 1) file"

definition gallery_key :: "gallery_env \<Rightarrow> string \<Rightarrow> string" where
  "gallery_key ge h = ge_path ge @ ''/'' @ h"

definition list_public_images :: "gallery_row list \<Rightarrow> gallery_row list" where
  "list_public_images db = sort_key img_sort_order (filter img_is_published db)"

definition list_admin_images :: "gallery_row list \<Rightarrow> gallery_row list" where
  "list_admin_images db = sort_key img_sort_order db"

definition get_gallery_image_or_404 :: "gallery_row list \<Rightarrow> uuid \<Rightarrow> exc + gallery_row" where
  "get_gallery_image_or_404 db k = row_or_404 ''Bild nicht gefunden.'' (get_by img_id db k)"

definition gallery_presigned_url :: "gallery_env \<Rightarrow> gallery_row \<Rightarrow> string" where
  "gallery_presigned_url ge i =
     ge_sign ge (presigned_params (ge_expiry ge) (gallery_key ge (img_sha256_hash i)) (Some 3600)
       (Some (''vindobona2-galerie-'' @ ge_id_text ge (img_id i) @ ''.'' @ img_extension i))
       (Some (img_content_type i)))"

record gallery_admin_response =
  gar_id :: uuid
  gar_url :: string
  gar_caption :: "string option"
  gar_sort_order :: int
  gar_is_published :: bool
  gar_width :: nat
  gar_height :: nat
  gar_size :: nat
  gar_created_at :: instant

definition build_admin_response :: "gallery_env \<Rightarrow> gallery_row \<Rightarrow> gallery_admin_response" where
  "build_admin_response ge i =
     \<lparr>gar_id = img_id i, gar_url = gallery_presigned_url ge i, gar_caption = img_caption i,
      gar_sort_order = img_sort_order i, gar_is_published = img_is_published i,
      gar_width = img_width i, gar_height = img_height i, gar_size = img_size i,
      gar_created_at = img_created_at i\<rparr>"

record gallery_public_response =
  gpr_id :: uuid
  gpr_url :: string
  gpr_caption :: "string option"
  gpr_width :: nat
  gpr_height :: nat

definition build_public_response :: "gallery_env \<Rightarrow> gallery_row \<Rightarrow> gallery_public_response" where
  "build_public_response ge i =
     \<lparr>gpr_id = img_id i, gpr_url = gallery_presigned_url ge i, gpr_caption = img_caption i,
      gpr_width = img_width i, gpr_height = img_height i\<rparr>"

definition refused :: "string \<Rightarrow> exc" where
  "refused detail = HTTPException 422 detail"

text \<open>
  The checks of \<open>upload_image\<close>, in their order: size, declared type, real type, duplicate. They
  yield the content type, the width and the height found in the bytes.
\<close>

definition check_upload ::
  "gallery_env \<Rightarrow> gallery_row list \<Rightarrow> string \<Rightarrow> string option \<Rightarrow> exc + string \<times> nat \<times> nat" where
  "check_upload ge db file declared =
     (let content = read_upload file in
      if MAX_FILE_SIZE < length content then Inl (refused ''Datei zu gross (max. 8 MB).'')
      else if (case declared of None \<Rightarrow> [] | Some t \<Rightarrow> t) \<notin> set ALLOWED_TYPES
      then Inl (refused ''Nur JPEG- und PNG-Dateien erlaubt.'')
      else case inspect_upload_image (ge_pil ge) content of
          Inl _ \<Rightarrow> Inl (refused ''Datei ist kein gueltiges Bild.'')
        | Inr found \<Rightarrow>
            if ge_sha256 ge content \<in> set (map img_sha256_hash db)
            then Inl (refused ''Dieses Bild ist bereits in der Galerie vorhanden.'')
            else Inr found)"

definition upload_gallery_image ::
  "gallery_env \<Rightarrow> gallery_row list \<Rightarrow> storage \<Rightarrow> uuid \<Rightarrow> instant \<Rightarrow> string \<Rightarrow> string option \<Rightarrow> string option \<Rightarrow>
   uuid option \<Rightarrow> storage \<times> (exc + gallery_row list \<times> gallery_row)" where
  "upload_gallery_image ge db st new now file declared caption created_by =
     (case check_upload ge db file declared of Inl e \<Rightarrow> (st, Inl e)
      | Inr (content_type, w, h) \<Rightarrow>
        (let content = read_upload file;
             hash = ge_sha256 ge content; key = gallery_key ge hash in
         case bind_res (storage_exists st key)
                (\<lambda>there. if there then Inr st else storage_upload st key content) of
           Inl e \<Rightarrow> (st, Inl e)
         | Inr st' \<Rightarrow>
             (let row = \<lparr>img_id = new, img_sha256_hash = hash, img_extension = extension_of content_type,
                         img_content_type = content_type, img_size = length content, img_width = w,
                         img_height = h, img_caption = caption,
                         img_sort_order = next_sort_order img_sort_order db, img_is_published = True,
                         img_created_by = created_by, img_created_at = now\<rparr>
              in (st', bind_res (insert_row img_id img_sort_order gallery_check row db)
                         (\<lambda>rows. Inr (rows, row))))))"

definition update_gallery_image :: "gallery_row list \<Rightarrow> gallery_row \<Rightarrow> string option \<Rightarrow> bool \<Rightarrow> exc + gallery_row list" where
  "update_gallery_image db i caption published =
     update_row img_id gallery_check (\<lambda>r. r\<lparr>img_caption := caption, img_is_published := published\<rparr>) i db"

definition set_image_order :: "int \<Rightarrow> gallery_row \<Rightarrow> gallery_row" where
  "set_image_order n r = r\<lparr>img_sort_order := n\<rparr>"

definition move_gallery_image :: "gallery_row list \<Rightarrow> gallery_row \<Rightarrow> direction \<Rightarrow> gallery_row list" where
  "move_gallery_image db i d = swap_with_neighbor img_id img_sort_order set_image_order db i d"

text \<open>The row goes first; a failing object store leaves an object that nothing refers to.\<close>

definition delete_gallery_image ::
  "gallery_env \<Rightarrow> gallery_row list \<Rightarrow> storage \<Rightarrow> gallery_row \<Rightarrow> storage \<times> gallery_row list" where
  "delete_gallery_image ge db st i =
     (let rows = delete_where (\<lambda>r. img_id r = img_id i) db in
      case storage_delete st (gallery_key ge (img_sha256_hash i)) of
        Inl _ \<Rightarrow> (st, rows) | Inr st' \<Rightarrow> (st', rows))"

section \<open>Request models (\<open>app/schemas/public_gallery.py\<close>)\<close>

definition MAX_CAPTION_LENGTH :: nat where "MAX_CAPTION_LENGTH = 150"
definition MAX_CONTACT_MESSAGE_LENGTH :: nat where "MAX_CONTACT_MESSAGE_LENGTH = 4000"
definition MAX_CONTACT_NAME_LENGTH :: nat where "MAX_CONTACT_NAME_LENGTH = 100"

definition GalleryImageUpdateRequest :: "string option \<Rightarrow> string option option" where
  "GalleryImageUpdateRequest caption =
     (case caption of
        None \<Rightarrow> Some None
      | Some c \<Rightarrow> if length c > MAX_CAPTION_LENGTH then None else Some (Some c))"

definition control_character :: "char \<Rightarrow> bool" where
  "control_character c \<longleftrightarrow> of_char c < (32 :: nat) \<or> of_char c = (127 :: nat)"

text \<open>\<open>chk\<close> is the address check of \<open>EmailStr\<close>: the normal form of an address, or a refusal.\<close>

definition ContactFormRequest ::
  "(string \<Rightarrow> string option) \<Rightarrow> string \<Rightarrow> string \<Rightarrow> string \<Rightarrow> (string \<times> string \<times> string) option" where
  "ContactFormRequest chk name email message =
     (if name \<noteq> [] \<and> length name \<le> MAX_CONTACT_NAME_LENGTH \<and> \<not> list_ex control_character name \<and>
         message \<noteq> [] \<and> length message \<le> MAX_CONTACT_MESSAGE_LENGTH
      then map_option (\<lambda>e. (name, e, message)) (chk email) else None)"

end
