(* ===== verification/Public_Routes.thy ===== *)
theory Public_Routes
  imports Public_Gallery
begin

text \<open>
  The routes of the public site: \<open>app/api/router_includes/public_content_admin.py\<close>,
  \<open>public_gallery_admin.py\<close> and \<open>public_site.py\<close>, with the guard of \<open>app/api/auth_guards.py\<close>.
  A route of the editors first asks for the permission, then for a valid body, then calls the
  services. \<open>handle\<close> is the table of all routes of the editors. The rate limit of the contact form
  is not modelled.
\<close>

section \<open>Guards\<close>

definition require_permission :: "settings \<Rightarrow> date \<Rightarrow> string \<Rightarrow> member \<Rightarrow> exc + member" where
  "require_permission cfg today perm user =
     (if perm \<notin> set (calculate_permissions cfg today user)
      then Inl (HTTPException 403 (''missing permission: '' @ perm))
      else Inr user)"

text \<open>
  What a request finds around it: the settings, the day, the instant and the id a new row gets.
\<close>

record editor_env =
  ee_settings :: settings
  ee_today :: date
  ee_now :: instant
  ee_new :: uuid
  ee_gallery :: gallery_env
  ee_bracketed :: "string \<Rightarrow> bool"

definition content_editor :: "editor_env \<Rightarrow> member \<Rightarrow> exc + member" where
  "content_editor env user = require_permission (ee_settings env) (ee_today env) ''publicContentEditor'' user"

section \<open>Responses\<close>

type_synonym quote_response = "uuid \<times> string \<times> string"
type_synonym hint_response = "uuid \<times> string"
type_synonym link_response = "uuid \<times> string \<times> string \<times> string"
type_synonym link_admin_response = "uuid \<times> string \<times> string \<times> string \<times> bool"
type_synonym tab_response = "about_slot \<times> string \<times> string"

definition QuoteResponse :: "quote_row \<Rightarrow> quote_response" where
  "QuoteResponse r = (quote_id r, quote_quote r, quote_author r)"

definition ProgrammHintResponse :: "hint_row \<Rightarrow> hint_response" where
  "ProgrammHintResponse r = (hint_id r, hint_content r)"

definition SocialLinkResponse :: "link_row \<Rightarrow> link_response" where
  "SocialLinkResponse r = (link_id r, link_platform r, link_label r, link_url r)"

definition SocialLinkAdminResponse :: "link_row \<Rightarrow> link_admin_response" where
  "SocialLinkAdminResponse r = (link_id r, link_platform r, link_label r, link_url r, link_is_enabled r)"

definition AboutTabAdminResponse :: "tab_row \<Rightarrow> tab_response" where
  "AboutTabAdminResponse t = (tab_slot t, tab_title t, tab_body t)"

definition AboutTabContent :: "tab_row \<Rightarrow> string \<times> string" where
  "AboutTabContent t = (tab_title t, tab_body t)"

section \<open>Tabs and settings\<close>

definition admin_list_about_tabs :: "editor_env \<Rightarrow> member \<Rightarrow> site \<Rightarrow> exc + tab_response list" where
  "admin_list_about_tabs env user db =
     bind_res (content_editor env user) (\<lambda>_. Inr (map AboutTabAdminResponse (list_tabs db)))"

definition slot_value :: "about_slot \<Rightarrow> string" where
  "slot_value s = (case s of Anfang \<Rightarrow> ''anfang'' | Mkv \<Rightarrow> ''mkv'' | Heute \<Rightarrow> ''heute'')"

definition admin_update_about_tab ::
  "editor_env \<Rightarrow> member \<Rightarrow> site \<Rightarrow> string \<Rightarrow> string \<Rightarrow> string \<Rightarrow> exc + site \<times> tab_response" where
  "admin_update_about_tab env user db slot title body =
     bind_res (content_editor env user) (\<lambda>_.
     bind_res (or_invalid (slot_of slot)) (\<lambda>s.
     bind_res (or_invalid (AboutTabUpdateRequest title body)) (\<lambda>(title, body).
     bind_res (get_tab_or_404 db (slot_value s)) (\<lambda>tab.
     bind_res (update_tab db tab title body) (\<lambda>db'.
     Inr (db', AboutTabAdminResponse (tab\<lparr>tab_title := title, tab_body := body\<rparr>)))))))"

definition admin_get_settings :: "editor_env \<Rightarrow> member \<Rightarrow> site \<Rightarrow> exc + settings_row" where
  "admin_get_settings env user db = bind_res (content_editor env user) (\<lambda>_. get_site_settings db)"

definition admin_update_settings ::
  "editor_env \<Rightarrow> member \<Rightarrow> site \<Rightarrow> string \<Rightarrow> string \<Rightarrow> string \<Rightarrow> string \<Rightarrow> exc + site \<times> settings_row" where
  "admin_update_settings env user db heading youtube calendar gallery =
     bind_res (content_editor env user) (\<lambda>_.
     bind_res (or_invalid (SiteSettingsUpdateRequest (ee_bracketed env) heading youtube calendar gallery)) (\<lambda>new.
     bind_res (get_site_settings db) (\<lambda>_.
     bind_res (update_settings db new) (\<lambda>db'. Inr (db', new)))))"

section \<open>Programme hints\<close>

definition admin_list_programm_hints :: "editor_env \<Rightarrow> member \<Rightarrow> site \<Rightarrow> exc + hint_response list" where
  "admin_list_programm_hints env user db =
     bind_res (content_editor env user) (\<lambda>_. Inr (map ProgrammHintResponse (list_hints db)))"

definition admin_create_programm_hint ::
  "editor_env \<Rightarrow> member \<Rightarrow> site \<Rightarrow> string \<Rightarrow> exc + site \<times> hint_response" where
  "admin_create_programm_hint env user db content =
     bind_res (content_editor env user) (\<lambda>_.
     bind_res (or_invalid (ProgrammHintRequest content)) (\<lambda>content.
     bind_res (create_hint db (ee_new env) content) (\<lambda>(db', r). Inr (db', ProgrammHintResponse r))))"

definition admin_update_programm_hint ::
  "editor_env \<Rightarrow> member \<Rightarrow> site \<Rightarrow> uuid \<Rightarrow> string \<Rightarrow> exc + site" where
  "admin_update_programm_hint env user db k content =
     bind_res (content_editor env user) (\<lambda>_.
     bind_res (or_invalid (ProgrammHintRequest content)) (\<lambda>content.
     bind_res (get_hint_or_404 db k) (\<lambda>r. update_hint db r content)))"

definition admin_move_programm_hint :: "editor_env \<Rightarrow> member \<Rightarrow> site \<Rightarrow> uuid \<Rightarrow> direction \<Rightarrow> exc + site" where
  "admin_move_programm_hint env user db k d =
     bind_res (content_editor env user) (\<lambda>_. bind_res (get_hint_or_404 db k) (\<lambda>r. Inr (move_hint db r d)))"

definition admin_delete_programm_hint :: "editor_env \<Rightarrow> member \<Rightarrow> site \<Rightarrow> uuid \<Rightarrow> exc + site" where
  "admin_delete_programm_hint env user db k =
     bind_res (content_editor env user) (\<lambda>_. bind_res (get_hint_or_404 db k) (\<lambda>r. Inr (delete_hint db r)))"

section \<open>Quotes\<close>

definition admin_list_quotes :: "editor_env \<Rightarrow> member \<Rightarrow> site \<Rightarrow> exc + quote_response list" where
  "admin_list_quotes env user db =
     bind_res (content_editor env user) (\<lambda>_. Inr (map QuoteResponse (list_quotes db)))"

definition admin_create_quote ::
  "editor_env \<Rightarrow> member \<Rightarrow> site \<Rightarrow> string \<Rightarrow> string \<Rightarrow> exc + site \<times> quote_response" where
  "admin_create_quote env user db q author =
     bind_res (content_editor env user) (\<lambda>_.
     bind_res (or_invalid (QuoteRequest q author)) (\<lambda>(q, author).
     bind_res (create_quote db (ee_new env) q author) (\<lambda>(db', r). Inr (db', QuoteResponse r))))"

definition admin_update_quote ::
  "editor_env \<Rightarrow> member \<Rightarrow> site \<Rightarrow> uuid \<Rightarrow> string \<Rightarrow> string \<Rightarrow> exc + site" where
  "admin_update_quote env user db k q author =
     bind_res (content_editor env user) (\<lambda>_.
     bind_res (or_invalid (QuoteRequest q author)) (\<lambda>(q, author).
     bind_res (get_quote_or_404 db k) (\<lambda>r. update_quote db r q author)))"

definition admin_move_quote :: "editor_env \<Rightarrow> member \<Rightarrow> site \<Rightarrow> uuid \<Rightarrow> direction \<Rightarrow> exc + site" where
  "admin_move_quote env user db k d =
     bind_res (content_editor env user) (\<lambda>_. bind_res (get_quote_or_404 db k) (\<lambda>r. Inr (move_quote db r d)))"

definition admin_delete_quote :: "editor_env \<Rightarrow> member \<Rightarrow> site \<Rightarrow> uuid \<Rightarrow> exc + site" where
  "admin_delete_quote env user db k =
     bind_res (content_editor env user) (\<lambda>_. bind_res (get_quote_or_404 db k) (\<lambda>r. Inr (delete_quote db r)))"

section \<open>Social links\<close>

definition admin_list_social_links :: "editor_env \<Rightarrow> member \<Rightarrow> site \<Rightarrow> exc + link_admin_response list" where
  "admin_list_social_links env user db =
     bind_res (content_editor env user) (\<lambda>_. Inr (map SocialLinkAdminResponse (list_admin_links db)))"

definition admin_create_social_link ::
  "editor_env \<Rightarrow> member \<Rightarrow> site \<Rightarrow> string \<Rightarrow> string \<Rightarrow> string \<Rightarrow> bool \<Rightarrow> exc + site \<times> link_admin_response" where
  "admin_create_social_link env user db platform label url enabled =
     bind_res (content_editor env user) (\<lambda>_.
     bind_res (or_invalid (SocialLinkCreateRequest platform label url)) (\<lambda>(platform, label, url).
     bind_res (create_link db (ee_new env) platform label url enabled) (\<lambda>(db', r). Inr (db', SocialLinkAdminResponse r))))"

definition admin_update_social_link ::
  "editor_env \<Rightarrow> member \<Rightarrow> site \<Rightarrow> uuid \<Rightarrow> string \<Rightarrow> string \<Rightarrow> bool \<Rightarrow> exc + site" where
  "admin_update_social_link env user db k label url enabled =
     bind_res (content_editor env user) (\<lambda>_.
     bind_res (or_invalid (SocialLinkUpdateRequest label url)) (\<lambda>(label, url).
     bind_res (get_link_or_404 db k) (\<lambda>r. update_link db r label url enabled)))"

definition admin_move_social_link :: "editor_env \<Rightarrow> member \<Rightarrow> site \<Rightarrow> uuid \<Rightarrow> direction \<Rightarrow> exc + site" where
  "admin_move_social_link env user db k d =
     bind_res (content_editor env user) (\<lambda>_. bind_res (get_link_or_404 db k) (\<lambda>r. Inr (move_link db r d)))"

definition admin_delete_social_link :: "editor_env \<Rightarrow> member \<Rightarrow> site \<Rightarrow> uuid \<Rightarrow> exc + site" where
  "admin_delete_social_link env user db k =
     bind_res (content_editor env user) (\<lambda>_. bind_res (get_link_or_404 db k) (\<lambda>r. Inr (delete_link db r)))"

section \<open>Gallery\<close>

definition admin_list_images :: "editor_env \<Rightarrow> member \<Rightarrow> gallery_row list \<Rightarrow> exc + gallery_admin_response list" where
  "admin_list_images env user db =
     bind_res (content_editor env user)
       (\<lambda>_. Inr (map (build_admin_response (ee_gallery env)) (list_admin_images db)))"

definition admin_upload_image ::
  "editor_env \<Rightarrow> member \<Rightarrow> gallery_row list \<Rightarrow> storage \<Rightarrow> string \<Rightarrow> string option \<Rightarrow> string option \<Rightarrow>
   storage \<times> (exc + gallery_row list \<times> gallery_admin_response)" where
  "admin_upload_image env user db st file declared caption =
     (case content_editor env user of
        Inl e \<Rightarrow> (st, Inl e)
      | Inr u \<Rightarrow>
          (case upload_gallery_image (ee_gallery env) db st (ee_new env) (ee_now env) file declared caption
                  (Some (member_id u)) of
             (st', result) \<Rightarrow>
               (st', bind_res result (\<lambda>(rows, r). Inr (rows, build_admin_response (ee_gallery env) r)))))"

definition admin_update_image ::
  "editor_env \<Rightarrow> member \<Rightarrow> gallery_row list \<Rightarrow> uuid \<Rightarrow> string option \<Rightarrow> bool \<Rightarrow> exc + gallery_row list" where
  "admin_update_image env user db k caption published =
     bind_res (content_editor env user) (\<lambda>_.
     bind_res (or_invalid (GalleryImageUpdateRequest caption)) (\<lambda>caption.
     bind_res (get_gallery_image_or_404 db k) (\<lambda>i. update_gallery_image db i caption published)))"

definition admin_move_image ::
  "editor_env \<Rightarrow> member \<Rightarrow> gallery_row list \<Rightarrow> uuid \<Rightarrow> direction \<Rightarrow> exc + gallery_row list" where
  "admin_move_image env user db k d =
     bind_res (content_editor env user)
       (\<lambda>_. bind_res (get_gallery_image_or_404 db k) (\<lambda>i. Inr (move_gallery_image db i d)))"

definition admin_delete_image ::
  "editor_env \<Rightarrow> member \<Rightarrow> gallery_row list \<Rightarrow> storage \<Rightarrow> uuid \<Rightarrow> exc + storage \<times> gallery_row list" where
  "admin_delete_image env user db st k =
     bind_res (content_editor env user)
       (\<lambda>_. bind_res (get_gallery_image_or_404 db k) (\<lambda>i. Inr (delete_gallery_image (ee_gallery env) db st i)))"

section \<open>The routes without a guard\<close>

definition list_gallery :: "gallery_env \<Rightarrow> gallery_row list \<Rightarrow> gallery_public_response list" where
  "list_gallery ge db = map (build_public_response ge) (list_public_images db)"

record site_content =
  sc_anfang :: "string \<times> string"
  sc_mkv :: "string \<times> string"
  sc_heute :: "string \<times> string"
  sc_settings :: settings_row
  sc_programm_hints :: "hint_response list"
  sc_quotes :: "quote_response list"
  sc_social_links :: "link_response list"

text \<open>A missing tab is a \<open>KeyError\<close> of the dictionary.\<close>

definition tab_or_error :: "site \<Rightarrow> about_slot \<Rightarrow> exc + tab_row" where
  "tab_or_error db slot = (case get_tabs_by_slot db slot of None \<Rightarrow> Inl KeyError | Some t \<Rightarrow> Inr t)"

definition get_site_content :: "site \<Rightarrow> exc + site_content" where
  "get_site_content db =
     bind_res (tab_or_error db Anfang) (\<lambda>anfang.
     bind_res (tab_or_error db Mkv) (\<lambda>mkv.
     bind_res (tab_or_error db Heute) (\<lambda>heute.
     bind_res (get_site_settings db) (\<lambda>settings.
     Inr \<lparr>sc_anfang = AboutTabContent anfang, sc_mkv = AboutTabContent mkv, sc_heute = AboutTabContent heute,
          sc_settings = settings,
          sc_programm_hints = map ProgrammHintResponse (list_hints db),
          sc_quotes = map QuoteResponse (list_quotes db),
          sc_social_links = map SocialLinkResponse (list_enabled_links db)\<rparr>))))"

text \<open>The mails waiting for the worker: name, address, message.\<close>

definition submit_contact_form ::
  "(string \<Rightarrow> string option) \<Rightarrow> (string \<times> string \<times> string) list \<Rightarrow> string \<Rightarrow> string \<Rightarrow> string \<Rightarrow> string \<Rightarrow>
   exc + (string \<times> string \<times> string) list" where
  "submit_contact_form chk queue name email message website =
     bind_res (or_invalid (ContactFormRequest chk name email message)) (\<lambda>mail.
       if website \<noteq> [] then Inr queue else Inr (queue @ [mail]))"

section \<open>The table of routes\<close>

datatype editor_request =
    List_About_Tabs | Update_About_Tab string string string
  | Get_Settings | Update_Settings string string string string
  | List_Hints | Create_Hint string | Update_Hint uuid string | Move_Hint uuid direction | Delete_Hint uuid
  | List_Quotes | Create_Quote string string | Update_Quote uuid string string
  | Move_Quote uuid direction | Delete_Quote uuid
  | List_Links | Create_Link string string string bool | Update_Link uuid string string bool
  | Move_Link uuid direction | Delete_Link uuid
  | List_Images | Upload_Image string "string option" "string option"
  | Update_Image uuid "string option" bool | Move_Image uuid direction | Delete_Image uuid

record public_state =
  ps_site :: site
  ps_gallery :: "gallery_row list"
  ps_storage :: storage

definition reading :: "public_state \<Rightarrow> exc + 'a \<Rightarrow> public_state \<times> (exc + unit)" where
  "reading s r = (s, map_sum (\<lambda>e. e) (\<lambda>_. ()) r)"

definition writing :: "public_state \<Rightarrow> exc + site \<Rightarrow> public_state \<times> (exc + unit)" where
  "writing s r = (case r of Inl e \<Rightarrow> (s, Inl e) | Inr db \<Rightarrow> (s\<lparr>ps_site := db\<rparr>, Inr ()))"

definition creating :: "public_state \<Rightarrow> exc + site \<times> 'a \<Rightarrow> public_state \<times> (exc + unit)" where
  "creating s r = writing s (map_sum (\<lambda>e. e) fst r)"

definition imaging :: "public_state \<Rightarrow> exc + gallery_row list \<Rightarrow> public_state \<times> (exc + unit)" where
  "imaging s r = (case r of Inl e \<Rightarrow> (s, Inl e) | Inr rows \<Rightarrow> (s\<lparr>ps_gallery := rows\<rparr>, Inr ()))"

text \<open>What each request does to the state, and whether it raises; the answers are above.\<close>

fun handle :: "editor_env \<Rightarrow> member \<Rightarrow> editor_request \<Rightarrow> public_state \<Rightarrow> public_state \<times> (exc + unit)" where
  "handle env u List_About_Tabs s = reading s (admin_list_about_tabs env u (ps_site s))"
| "handle env u (Update_About_Tab slot t b) s = creating s (admin_update_about_tab env u (ps_site s) slot t b)"
| "handle env u Get_Settings s = reading s (admin_get_settings env u (ps_site s))"
| "handle env u (Update_Settings h y c g) s = creating s (admin_update_settings env u (ps_site s) h y c g)"
| "handle env u List_Hints s = reading s (admin_list_programm_hints env u (ps_site s))"
| "handle env u (Create_Hint t) s = creating s (admin_create_programm_hint env u (ps_site s) t)"
| "handle env u (Update_Hint k t) s = writing s (admin_update_programm_hint env u (ps_site s) k t)"
| "handle env u (Move_Hint k d) s = writing s (admin_move_programm_hint env u (ps_site s) k d)"
| "handle env u (Delete_Hint k) s = writing s (admin_delete_programm_hint env u (ps_site s) k)"
| "handle env u List_Quotes s = reading s (admin_list_quotes env u (ps_site s))"
| "handle env u (Create_Quote q a) s = creating s (admin_create_quote env u (ps_site s) q a)"
| "handle env u (Update_Quote k q a) s = writing s (admin_update_quote env u (ps_site s) k q a)"
| "handle env u (Move_Quote k d) s = writing s (admin_move_quote env u (ps_site s) k d)"
| "handle env u (Delete_Quote k) s = writing s (admin_delete_quote env u (ps_site s) k)"
| "handle env u List_Links s = reading s (admin_list_social_links env u (ps_site s))"
| "handle env u (Create_Link p l v e) s = creating s (admin_create_social_link env u (ps_site s) p l v e)"
| "handle env u (Update_Link k l v e) s = writing s (admin_update_social_link env u (ps_site s) k l v e)"
| "handle env u (Move_Link k d) s = writing s (admin_move_social_link env u (ps_site s) k d)"
| "handle env u (Delete_Link k) s = writing s (admin_delete_social_link env u (ps_site s) k)"
| "handle env u List_Images s = reading s (admin_list_images env u (ps_gallery s))"
| "handle env u (Upload_Image file declared caption) s =
     (case admin_upload_image env u (ps_gallery s) (ps_storage s) file declared caption of
        (st, r) \<Rightarrow> imaging (s\<lparr>ps_storage := st\<rparr>) (map_sum (\<lambda>e. e) fst r))"
| "handle env u (Update_Image k caption p) s = imaging s (admin_update_image env u (ps_gallery s) k caption p)"
| "handle env u (Move_Image k d) s = imaging s (admin_move_image env u (ps_gallery s) k d)"
| "handle env u (Delete_Image k) s =
     (case admin_delete_image env u (ps_gallery s) (ps_storage s) k of
        Inl e \<Rightarrow> (s, Inl e)
      | Inr (st, rows) \<Rightarrow> (s\<lparr>ps_gallery := rows, ps_storage := st\<rparr>, Inr ()))"

end
