(* ===== verification/Public_Properties.thy ===== *)
theory Public_Properties
  imports Public_Routes
begin

text \<open>
  The public site as its editors change it: what the tables keep over any sequence of requests,
  who may change them, what a move does, and that a valid request satisfies the constraints of the
  database.
\<close>

section \<open>The ordered tables\<close>

interpretation quotes: checked_rows quote_id quote_sort_order set_quote_order quote_check
  by unfold_locales (auto simp: set_quote_order_def quote_check_def)

interpretation hints: checked_rows hint_id hint_sort_order set_hint_order hint_check
  by unfold_locales (auto simp: set_hint_order_def hint_check_def)

interpretation links: checked_rows link_id link_sort_order set_link_order link_check
  by unfold_locales (auto simp: set_link_order_def link_check_def)

interpretation images: checked_rows img_id img_sort_order set_image_order gallery_check
  by unfold_locales (auto simp: set_image_order_def gallery_check_def)

definition tabs_ok :: "tab_row list \<Rightarrow> bool" where
  "tabs_ok tabs \<longleftrightarrow> distinct (map tab_slot tabs) \<and> set (map tab_slot tabs) = set KNOWN_SLOTS \<and> list_all tab_check tabs"

definition site_ok :: "site \<Rightarrow> bool" where
  "site_ok db \<longleftrightarrow>
     table_ok quote_id quote_sort_order quote_check (site_quotes db) \<and>
     table_ok hint_id hint_sort_order hint_check (site_hints db) \<and>
     table_ok link_id link_sort_order link_check (site_links db) \<and>
     tabs_ok (site_tabs db) \<and>
     (case site_settings db of None \<Rightarrow> False | Some s \<Rightarrow> settings_check s)"

text \<open>The rows of the gallery, and the objects they point to.\<close>

definition gallery_ok :: "gallery_env \<Rightarrow> gallery_row list \<Rightarrow> storage \<Rightarrow> bool" where
  "gallery_ok ge rows st \<longleftrightarrow>
     table_ok img_id img_sort_order gallery_check rows \<and>
     distinct (map img_sha256_hash rows) \<and>
     list_all (\<lambda>i. has_object st (gallery_key ge (img_sha256_hash i))) rows"

definition public_ok :: "gallery_env \<Rightarrow> public_state \<Rightarrow> bool" where
  "public_ok ge s \<longleftrightarrow> site_ok (ps_site s) \<and> gallery_ok ge (ps_gallery s) (ps_storage s)"

lemma row_or_404_Inr [simp]: "row_or_404 d x = Inr r \<longleftrightarrow> x = Some r"
  by (simp add: row_or_404_def split: option.split)

lemma or_invalid_Inr [simp]: "or_invalid x = Inr r \<longleftrightarrow> x = Some r"
  by (simp add: or_invalid_def split: option.split)

section \<open>One operation\<close>

lemma site_ok_quotes:
  "site_ok db \<Longrightarrow> table_ok quote_id quote_sort_order quote_check rows \<Longrightarrow> site_ok (db\<lparr>site_quotes := rows\<rparr>)"
  "site_ok db \<Longrightarrow> table_ok quote_id quote_sort_order quote_check (site_quotes db)"
  by (simp_all add: site_ok_def)

lemma site_ok_hints:
  "site_ok db \<Longrightarrow> table_ok hint_id hint_sort_order hint_check rows \<Longrightarrow> site_ok (db\<lparr>site_hints := rows\<rparr>)"
  "site_ok db \<Longrightarrow> table_ok hint_id hint_sort_order hint_check (site_hints db)"
  by (simp_all add: site_ok_def)

lemma site_ok_links:
  "site_ok db \<Longrightarrow> table_ok link_id link_sort_order link_check rows \<Longrightarrow> site_ok (db\<lparr>site_links := rows\<rparr>)"
  "site_ok db \<Longrightarrow> table_ok link_id link_sort_order link_check (site_links db)"
  by (simp_all add: site_ok_def)

lemma quotes_kept:
  assumes ok: "site_ok db"
  shows "create_quote db new q a = Inr (db', row) \<Longrightarrow> site_ok db'"
    and "get_by quote_id (site_quotes db) k = Some r \<Longrightarrow> update_quote db r q a = Inr db' \<Longrightarrow> site_ok db'"
    and "get_by quote_id (site_quotes db) k = Some r \<Longrightarrow> site_ok (move_quote db r d)"
    and "site_ok (delete_quote db r)"
proof -
  note t = site_ok_quotes(2) [OF ok]
  show "create_quote db new q a = Inr (db', row) \<Longrightarrow> site_ok db'"
    by (auto simp: create_quote_def Let_def bind_res_eq_Inr intro!: site_ok_quotes(1) [OF ok]
        dest: quotes.table_ok_insert [OF t, rotated])
  show "get_by quote_id (site_quotes db) k = Some r \<Longrightarrow> update_quote db r q a = Inr db' \<Longrightarrow> site_ok db'"
    by (auto simp: update_quote_def bind_res_eq_Inr dest!: get_by_SomeD intro!: site_ok_quotes(1) [OF ok]
        intro: quotes.table_ok_update [OF t])
  show "get_by quote_id (site_quotes db) k = Some r \<Longrightarrow> site_ok (move_quote db r d)"
    by (auto simp: move_quote_def dest!: get_by_SomeD intro!: site_ok_quotes(1) [OF ok] quotes.table_ok_move [OF t])
  show "site_ok (delete_quote db r)"
    by (auto simp: delete_quote_def intro!: site_ok_quotes(1) [OF ok] quotes.table_ok_delete [OF t])
qed

lemma hints_kept:
  assumes ok: "site_ok db"
  shows "create_hint db new q = Inr (db', row) \<Longrightarrow> site_ok db'"
    and "get_by hint_id (site_hints db) k = Some r \<Longrightarrow> update_hint db r q = Inr db' \<Longrightarrow> site_ok db'"
    and "get_by hint_id (site_hints db) k = Some r \<Longrightarrow> site_ok (move_hint db r d)"
    and "site_ok (delete_hint db r)"
proof -
  note t = site_ok_hints(2) [OF ok]
  show "create_hint db new q = Inr (db', row) \<Longrightarrow> site_ok db'"
    by (auto simp: create_hint_def Let_def bind_res_eq_Inr intro!: site_ok_hints(1) [OF ok]
        dest: hints.table_ok_insert [OF t, rotated])
  show "get_by hint_id (site_hints db) k = Some r \<Longrightarrow> update_hint db r q = Inr db' \<Longrightarrow> site_ok db'"
    by (auto simp: update_hint_def bind_res_eq_Inr dest!: get_by_SomeD intro!: site_ok_hints(1) [OF ok]
        intro: hints.table_ok_update [OF t])
  show "get_by hint_id (site_hints db) k = Some r \<Longrightarrow> site_ok (move_hint db r d)"
    by (auto simp: move_hint_def dest!: get_by_SomeD intro!: site_ok_hints(1) [OF ok] hints.table_ok_move [OF t])
  show "site_ok (delete_hint db r)"
    by (auto simp: delete_hint_def intro!: site_ok_hints(1) [OF ok] hints.table_ok_delete [OF t])
qed

lemma links_kept:
  assumes ok: "site_ok db"
  shows "create_link db new p l u e = Inr (db', row) \<Longrightarrow> site_ok db'"
    and "get_by link_id (site_links db) k = Some r \<Longrightarrow> update_link db r l u e = Inr db' \<Longrightarrow> site_ok db'"
    and "get_by link_id (site_links db) k = Some r \<Longrightarrow> site_ok (move_link db r d)"
    and "site_ok (delete_link db r)"
proof -
  note t = site_ok_links(2) [OF ok]
  show "create_link db new p l u e = Inr (db', row) \<Longrightarrow> site_ok db'"
    by (auto simp: create_link_def Let_def bind_res_eq_Inr intro!: site_ok_links(1) [OF ok]
        dest: links.table_ok_insert [OF t, rotated])
  show "get_by link_id (site_links db) k = Some r \<Longrightarrow> update_link db r l u e = Inr db' \<Longrightarrow> site_ok db'"
    by (auto simp: update_link_def bind_res_eq_Inr dest!: get_by_SomeD intro!: site_ok_links(1) [OF ok]
        intro: links.table_ok_update [OF t])
  show "get_by link_id (site_links db) k = Some r \<Longrightarrow> site_ok (move_link db r d)"
    by (auto simp: move_link_def dest!: get_by_SomeD intro!: site_ok_links(1) [OF ok] links.table_ok_move [OF t])
  show "site_ok (delete_link db r)"
    by (auto simp: delete_link_def intro!: site_ok_links(1) [OF ok] links.table_ok_delete [OF t])
qed

lemma tab_kept:
  assumes ok: "site_ok db" and upd: "update_tab db tab title body = Inr db'"
    and tab: "tab \<in> set (site_tabs db)"
  shows "site_ok db'"
proof -
  let ?f = "\<lambda>t. t\<lparr>tab_title := title, tab_body := body\<rparr>"
  have u: "db' = db\<lparr>site_tabs := update_where (\<lambda>t. tab_slot t = tab_slot tab) ?f (site_tabs db)\<rparr>"
    and c: "tab_check (?f tab)"
    using upd by (auto simp: update_tab_def Let_def split: if_split_asm)
  have "map tab_slot (update_where (\<lambda>t. tab_slot t = tab_slot tab) ?f (site_tabs db)) = map tab_slot (site_tabs db)"
    by (rule map_update_where_same) simp
  moreover have "list_all tab_check (update_where (\<lambda>t. tab_slot t = tab_slot tab) ?f (site_tabs db))"
    using ok c by (auto simp: site_ok_def tabs_ok_def list_all_iff set_update_where tab_check_def)
  ultimately show ?thesis using ok unfolding u by (simp add: site_ok_def tabs_ok_def del: set_map)
qed

lemma settings_kept: "site_ok db \<Longrightarrow> update_settings db new = Inr db' \<Longrightarrow> site_ok db'"
  by (auto simp: update_settings_def site_ok_def split: if_split_asm)

lemma gallery_key_inject [simp]: "gallery_key ge h = gallery_key ge h' \<longleftrightarrow> h = h'"
  by (simp add: gallery_key_def)

lemma gallery_ok_more_objects:
  "gallery_ok ge rows st \<Longrightarrow> (\<And>k. has_object st k \<Longrightarrow> has_object st' k) \<Longrightarrow> gallery_ok ge rows st'"
  by (auto simp: gallery_ok_def list_all_iff)

text \<open>Making sure that an object is there adds it, or nothing.\<close>

lemma object_ensured:
  assumes "bind_res (storage_exists st key) (\<lambda>there. if there then Inr st else storage_upload st key data) = Inr st'"
  shows "has_object st' key" and "has_object st k \<Longrightarrow> has_object st' k"
  using assms storage_upload_object [of st key data st']
  by (auto simp: bind_res_eq_Inr storage_exists_def split: if_split_asm)

lemma upload_kept:
  assumes ok: "gallery_ok ge db st"
    and up: "upload_gallery_image ge db st new now file declared caption created_by = (st', r)"
  shows "gallery_ok ge db st'" and "r = Inr (rows, row) \<Longrightarrow> gallery_ok ge rows st'"
proof -
  let ?content = "read_upload file"
  let ?hash = "ge_sha256 ge ?content"
  let ?ensured = "bind_res (storage_exists st (gallery_key ge ?hash))
     (\<lambda>there. if there then Inr st else storage_upload st (gallery_key ge ?hash) ?content)"
  have "gallery_ok ge db st' \<and> (r = Inr (rows, row) \<longrightarrow> gallery_ok ge rows st')"
  proof (cases "check_upload ge db file declared")
    case (Inl e)
    then have "st' = st" "r = Inl e" using up by (simp_all add: upload_gallery_image_def)
    then show ?thesis using ok by simp
  next
    case checked: (Inr found)
    obtain ct w h where found: "found = (ct, w, h)" by (cases found)
    have new_hash: "?hash \<notin> set (map img_sha256_hash db)"
      using checked by (auto simp: check_upload_def Let_def split: if_split_asm sum.split_asm)
    show ?thesis
    proof (cases ?ensured)
      case (Inl e)
      then have "st' = st" "r = Inl e" using up checked found by (simp_all add: upload_gallery_image_def Let_def)
      then show ?thesis using ok by simp
    next
      case ens: (Inr st1)
      note o = object_ensured [OF ens]
      let ?x = "\<lparr>img_id = new, img_sha256_hash = ?hash, img_extension = extension_of ct, img_content_type = ct,
        img_size = length ?content, img_width = w, img_height = h, img_caption = caption,
        img_sort_order = next_sort_order img_sort_order db, img_is_published = True,
        img_created_by = created_by, img_created_at = now\<rparr>"
      obtain x where x: "img_sha256_hash x = ?hash" "img_sort_order x = next_sort_order img_sort_order db"
        and st: "st' = st1"
        and r: "r = bind_res (insert_row img_id img_sort_order gallery_check x db) (\<lambda>rows. Inr (rows, x))"
        by (rule that [of ?x]) (use up checked found ens in \<open>simp_all add: upload_gallery_image_def Let_def\<close>)
      have grown: "gallery_ok ge db st'" unfolding st by (rule gallery_ok_more_objects [OF ok o(2)])
      have "gallery_ok ge rows st'" if "r = Inr (rows, row)"
      proof -
        have ins: "insert_row img_id img_sort_order gallery_check x db = Inr rows"
          using that r by (auto simp: bind_res_eq_Inr)
        have "table_ok img_id img_sort_order gallery_check rows"
          by (rule images.table_ok_insert [OF _ x(2) ins]) (use ok in \<open>simp add: gallery_ok_def\<close>)
        then show ?thesis
          using grown new_hash images.insert_row_InrD(1) [OF ins] x(1) o(1) st by (simp add: gallery_ok_def)
      qed
      with grown show ?thesis by simp
    qed
  qed
  then show "gallery_ok ge db st'" and "r = Inr (rows, row) \<Longrightarrow> gallery_ok ge rows st'" by simp_all
qed

lemma gallery_ok_same_images:
  "gallery_ok ge db st \<Longrightarrow> table_ok img_id img_sort_order gallery_check rows \<Longrightarrow>
     map img_sha256_hash rows = map img_sha256_hash db \<Longrightarrow> gallery_ok ge rows st"
proof -
  assume g: "gallery_ok ge db st" "table_ok img_id img_sort_order gallery_check rows"
    and h: "map img_sha256_hash rows = map img_sha256_hash db"
  then have "img_sha256_hash ` set rows = img_sha256_hash ` set db" by (metis list.set_map)
  moreover have "\<forall>x \<in> img_sha256_hash ` set db. has_object st (gallery_key ge x)"
    using g(1) by (auto simp: gallery_ok_def list_all_iff)
  ultimately have "\<forall>i \<in> set rows. has_object st (gallery_key ge (img_sha256_hash i))" by blast
  then show ?thesis using g h by (simp add: gallery_ok_def list_all_iff)
qed

lemma image_rows_kept:
  assumes ok: "gallery_ok ge db st" and i: "get_by img_id db k = Some i"
  shows "update_gallery_image db i caption p = Inr rows \<Longrightarrow> gallery_ok ge rows st"
    and "gallery_ok ge (move_gallery_image db i d) st"
proof -
  have t: "table_ok img_id img_sort_order gallery_check db" and mem: "i \<in> set db"
    using ok i by (auto simp: gallery_ok_def dest: get_by_SomeD)
  show "gallery_ok ge rows st" if u: "update_gallery_image db i caption p = Inr rows"
  proof (rule gallery_ok_same_images [OF ok])
    show "table_ok img_id img_sort_order gallery_check rows"
      by (rule images.table_ok_update [OF t mem u [unfolded update_gallery_image_def]]) auto
    show "map img_sha256_hash rows = map img_sha256_hash db"
      using u by (auto simp: update_gallery_image_def update_row_def map_update_where_same split: if_split_asm)
  qed
  show "gallery_ok ge (move_gallery_image db i d) st"
  proof (rule gallery_ok_same_images [OF ok])
    show "table_ok img_id img_sort_order gallery_check (move_gallery_image db i d)"
      unfolding move_gallery_image_def by (rule images.table_ok_move [OF t mem])
    show "map img_sha256_hash (move_gallery_image db i d) = map img_sha256_hash db"
      by (auto simp: move_gallery_image_def swap_with_neighbor_def map_update_where_same set_image_order_def split: option.split)
  qed
qed

lemma delete_image_kept:
  assumes ok: "gallery_ok ge db st" and i: "get_by img_id db k = Some i"
    and del: "delete_gallery_image ge db st i = (st', rows)"
  shows "gallery_ok ge rows st'"
proof -
  have rows: "rows = delete_where (\<lambda>r. img_id r = img_id i) db"
    using del by (auto simp: delete_gallery_image_def Let_def split: sum.split_asm)
  have mem: "i \<in> set db" using i by (auto dest: get_by_SomeD)
  have other: "img_sha256_hash r \<noteq> img_sha256_hash i" if "r \<in> set rows" for r
    using ok mem that unfolding rows by (auto simp: gallery_ok_def distinct_map dest: inj_onD)
  have "has_object st' (gallery_key ge (img_sha256_hash r))" if r: "r \<in> set rows" for r
  proof -
    have "r \<in> set db" using r unfolding rows by simp
    then have "has_object st (gallery_key ge (img_sha256_hash r))"
      using ok by (simp add: gallery_ok_def list_all_iff)
    then show ?thesis
      using del other [OF r] storage_delete_object [of st "gallery_key ge (img_sha256_hash i)" st']
      by (auto simp: delete_gallery_image_def Let_def split: sum.split_asm)
  qed
  moreover have "table_ok img_id img_sort_order gallery_check rows"
    unfolding rows by (rule images.table_ok_delete) (use ok in \<open>simp add: gallery_ok_def\<close>)
  ultimately show ?thesis
    using ok unfolding rows by (simp add: gallery_ok_def list_all_iff distinct_map_delete_where)
qed

section \<open>Any request\<close>

lemma writing_kept:
  "public_ok ge s \<Longrightarrow> (\<And>db. r = Inr db \<Longrightarrow> site_ok db) \<Longrightarrow> public_ok ge (fst (writing s r))"
  by (cases r) (simp_all add: writing_def public_ok_def)

lemma creating_kept:
  "public_ok ge s \<Longrightarrow> (\<And>db x. r = Inr (db, x) \<Longrightarrow> site_ok db) \<Longrightarrow> public_ok ge (fst (creating s r))"
  by (cases r) (auto simp: creating_def writing_def public_ok_def)

lemma imaging_kept:
  "public_ok ge s \<Longrightarrow> (\<And>rows. r = Inr rows \<Longrightarrow> gallery_ok ge rows (ps_storage s)) \<Longrightarrow> public_ok ge (fst (imaging s r))"
  by (cases r) (simp_all add: imaging_def public_ok_def)

lemma reading_kept: "public_ok ge s \<Longrightarrow> public_ok ge (fst (reading s r))"
  by (simp add: reading_def)

lemmas admin_defs =
  admin_update_about_tab_def admin_update_settings_def
  admin_create_programm_hint_def admin_update_programm_hint_def admin_move_programm_hint_def admin_delete_programm_hint_def
  admin_create_quote_def admin_update_quote_def admin_move_quote_def admin_delete_quote_def
  admin_create_social_link_def admin_update_social_link_def admin_move_social_link_def admin_delete_social_link_def
  admin_update_image_def admin_move_image_def

lemmas lookup_defs = get_quote_or_404_def get_hint_or_404_def get_link_or_404_def get_gallery_image_or_404_def

lemma get_tab_or_404_mem: "get_tab_or_404 db slot = Inr tab \<Longrightarrow> tab \<in> set (site_tabs db)"
  by (auto simp: get_tab_or_404_def dest: find_SomeD split: option.split_asm)

lemma upload_handled:
  assumes ok: "public_ok (ee_gallery env) s"
  shows "public_ok (ee_gallery env) (fst (handle env u (Upload_Image file declared caption) s))"
proof -
  obtain st r where up: "admin_upload_image env u (ps_gallery s) (ps_storage s) file declared caption = (st, r)"
    by (cases "admin_upload_image env u (ps_gallery s) (ps_storage s) file declared caption")
  have "gallery_ok (ee_gallery env) (ps_gallery s) st \<and>
        (\<forall>rows x. r = Inr (rows, x) \<longrightarrow> gallery_ok (ee_gallery env) rows st)"
  proof (cases "content_editor env u")
    case (Inl e)
    then show ?thesis using ok up by (auto simp: admin_upload_image_def public_ok_def)
  next
    case (Inr m)
    obtain st1 r1 where u1: "upload_gallery_image (ee_gallery env) (ps_gallery s) (ps_storage s) (ee_new env)
        (ee_now env) file declared caption (Some (member_id m)) = (st1, r1)"
      by (metis surj_pair)
    have "st = st1" "r = bind_res r1 (\<lambda>(rows, r). Inr (rows, build_admin_response (ee_gallery env) r))"
      using up Inr u1 by (auto simp: admin_upload_image_def)
    then show ?thesis
      using upload_kept [OF _ u1] ok by (auto simp: public_ok_def bind_res_eq_Inr)
  qed
  then show ?thesis using ok up
    by (cases r) (auto simp: public_ok_def imaging_def)
qed

lemma delete_image_handled:
  assumes ok: "public_ok (ee_gallery env) s"
  shows "public_ok (ee_gallery env) (fst (handle env u (Delete_Image k) s))"
  using ok delete_image_kept [of "ee_gallery env" "ps_gallery s" "ps_storage s" k]
  by (auto simp: admin_delete_image_def lookup_defs public_ok_def bind_res_eq_Inr split: sum.split)

lemma handle_kept:
  assumes ok: "public_ok (ee_gallery env) s"
  shows "public_ok (ee_gallery env) (fst (handle env u req s))"
proof -
  have site: "site_ok (ps_site s)" and gal: "gallery_ok (ee_gallery env) (ps_gallery s) (ps_storage s)"
    using ok by (simp_all add: public_ok_def)
  note changed = quotes_kept(1,2) [OF site] hints_kept(1,2) [OF site] links_kept(1,2) [OF site] image_rows_kept(1) [OF gal]
  note kept = quotes_kept(3,4) [OF site] hints_kept(3,4) [OF site] links_kept(3,4) [OF site] image_rows_kept(2) [OF gal]
  show ?thesis
  proof (cases req)
    case (Update_About_Tab slot t b)
    then show ?thesis
      by (auto simp: admin_defs bind_res_eq_Inr intro!: creating_kept [OF ok] dest!: get_tab_or_404_mem
          intro: tab_kept [OF site])
  next
    case (Update_Settings h y c g)
    then show ?thesis
      by (auto simp: admin_defs bind_res_eq_Inr intro!: creating_kept [OF ok] dest: settings_kept [OF site])
  next
    case (Upload_Image f d c)
    then show ?thesis using upload_handled [OF ok] by simp
  next
    case (Delete_Image k)
    then show ?thesis using delete_image_handled [OF ok] by simp
  qed (auto simp: admin_defs lookup_defs bind_res_eq_Inr intro!: reading_kept [OF ok] creating_kept [OF ok] writing_kept [OF ok]
      imaging_kept [OF ok] intro: kept dest: changed)
qed

section \<open>A valid request meets the constraints\<close>

lemma trimmed_SomeD: "trimmed n s = Some t \<Longrightarrow> not_blank t \<and> length t \<le> n"
proof -
  assume "trimmed n s = Some t"
  then have t: "t = trim s" "t \<noteq> []" "length t \<le> n" by (auto simp: trimmed_def Let_def split: if_split_asm)
  then have "\<not> is_white (hd t)" "hd t \<in> set t" using trim_ends [of s] by auto
  with t show ?thesis by (auto simp: not_blank_def)
qed

lemma has_prefix_lower: "has_prefix p s \<Longrightarrow> has_prefix (lower p) (lower s)"
  by (auto simp: has_prefix_def lower_def take_map)

lemma http_prefix_lower: "http_prefix s \<Longrightarrow> http_prefix (lower s)"
proof -
  have "lower ''http://'' = ''http://''" "lower ''https://'' = ''https://''" by code_simp+
  then show "http_prefix s \<Longrightarrow> http_prefix (lower s)"
    using has_prefix_lower by (metis http_prefix_def)
qed

lemma QuoteRequest_SomeD:
  "QuoteRequest x y = Some (q, a) \<Longrightarrow> quote_check (r\<lparr>quote_quote := q, quote_author := a\<rparr>)"
  using trimmed_SomeD by (auto simp: QuoteRequest_def quote_check_def split: option.split_asm)

lemma ProgrammHintRequest_SomeD: "ProgrammHintRequest x = Some t \<Longrightarrow> hint_check (r\<lparr>hint_content := t\<rparr>)"
  using trimmed_SomeD by (auto simp: ProgrammHintRequest_def hint_check_def)

lemma bind_require_http: "Option.bind x require_http_url = Some u \<Longrightarrow> http_prefix u"
  by (auto simp: require_http_url_def bind_eq_Some_conv split: if_split_asm)

lemma SocialLinkUpdateRequest_SomeD:
  assumes "SocialLinkUpdateRequest x y = Some (l, u)" and "platform_slug (link_platform r)"
  shows "link_check (r\<lparr>link_label := l, link_url := u, link_is_enabled := e\<rparr>)"
proof -
  from assms(1) have "trimmed 60 x = Some l" "Option.bind (trimmed 500 y) require_http_url = Some u"
    by (auto simp: SocialLinkUpdateRequest_def split: option.split_asm)
  then show ?thesis
    using assms(2) trimmed_SomeD bind_require_http http_prefix_lower by (simp add: link_check_def)
qed

lemma SocialLinkCreateRequest_SomeD:
  assumes "SocialLinkCreateRequest w x y = Some (p, l, u)"
  shows "platform_slug p" and "not_blank l" and "http_prefix (lower u)"
proof -
  from assms have "platform_slug p" "trimmed 60 x = Some l" "Option.bind (trimmed 500 y) require_http_url = Some u"
    by (auto simp: SocialLinkCreateRequest_def split: option.split_asm if_split_asm)
  then show "platform_slug p" "not_blank l" "http_prefix (lower u)"
    using trimmed_SomeD bind_require_http http_prefix_lower by blast+
qed

lemma AboutTabUpdateRequest_SomeD:
  assumes "AboutTabUpdateRequest x y = Some (t, b)"
  shows "tab_check (r\<lparr>tab_title := t, tab_body := b\<rparr>)" and "list_all http_prefix (find_links b)"
  using assms trimmed_SomeD
  by (auto simp: AboutTabUpdateRequest_def tab_check_def split: option.split_asm if_split_asm)

text \<open>A new row gets an id that no table holds; an image has a positive width and height.\<close>

definition fresh_id :: "editor_env \<Rightarrow> public_state \<Rightarrow> bool" where
  "fresh_id env s \<longleftrightarrow>
     ee_new env \<notin> quote_id ` set (site_quotes (ps_site s)) \<and> ee_new env \<notin> hint_id ` set (site_hints (ps_site s)) \<and>
     ee_new env \<notin> link_id ` set (site_links (ps_site s)) \<and> ee_new env \<notin> img_id ` set (ps_gallery s)"

definition images_have_a_size :: "gallery_env \<Rightarrow> bool" where
  "images_have_a_size ge \<longleftrightarrow> (\<forall>c f w h. ge_pil ge c = Pil_Image f w h \<longrightarrow> 0 < w \<and> 0 < h)"

lemma raised_simps [simp]:
  "snd (reading s r) = Inl e \<longleftrightarrow> r = Inl e"
  "snd (writing s w) = Inl e \<longleftrightarrow> w = Inl e"
  "snd (creating s c) = Inl e \<longleftrightarrow> c = Inl e"
  "snd (imaging s i) = Inl e \<longleftrightarrow> i = Inl e"
  by (cases r; cases w; cases c; cases i; simp add: reading_def writing_def creating_def imaging_def)+

lemma insert_row_no_violation:
  "check r \<Longrightarrow> key r \<notin> key ` set rows \<Longrightarrow> insert_row key order check r rows \<noteq> Inl IntegrityError"
  by (auto simp: insert_row_def)

lemma update_row_no_violation: "check (f r) \<Longrightarrow> update_row key check f r rows \<noteq> Inl IntegrityError"
  by (auto simp: update_row_def)

lemma not_a_violation [simp]:
  "content_editor env u \<noteq> Inl IntegrityError"
  "or_invalid x \<noteq> Inl IntegrityError"
  "row_or_404 d y \<noteq> Inl IntegrityError"
  "get_site_settings db \<noteq> Inl IntegrityError"
  "get_tab_or_404 db slot \<noteq> Inl IntegrityError"
  by (auto simp: content_editor_def require_permission_def or_invalid_def row_or_404_def missing_def get_site_settings_def
      get_tab_or_404_def split: option.split)

lemma create_no_violation:
  "QuoteRequest x y = Some (q, a) \<Longrightarrow> new \<notin> quote_id ` set (site_quotes db) \<Longrightarrow> create_quote db new q a \<noteq> Inl IntegrityError"
  "ProgrammHintRequest x = Some t \<Longrightarrow> new \<notin> hint_id ` set (site_hints db) \<Longrightarrow> create_hint db new t \<noteq> Inl IntegrityError"
  "SocialLinkCreateRequest v x y = Some (p, l, w) \<Longrightarrow> new \<notin> link_id ` set (site_links db) \<Longrightarrow>
     create_link db new p l w e \<noteq> Inl IntegrityError"
proof -
  show "create_quote db new q a \<noteq> Inl IntegrityError"
    if "QuoteRequest x y = Some (q, a)" "new \<notin> quote_id ` set (site_quotes db)"
    using QuoteRequest_SomeD [OF that(1), of "\<lparr>quote_id = new, quote_quote = q, quote_author = a,
        quote_sort_order = next_sort_order quote_sort_order (site_quotes db)\<rparr>"] that(2)
    by (auto simp: create_quote_def Let_def bind_res_eq_Inl insert_row_no_violation)
  show "create_hint db new t \<noteq> Inl IntegrityError"
    if "ProgrammHintRequest x = Some t" "new \<notin> hint_id ` set (site_hints db)"
    using ProgrammHintRequest_SomeD [OF that(1), of "\<lparr>hint_id = new, hint_content = t,
        hint_sort_order = next_sort_order hint_sort_order (site_hints db)\<rparr>"] that(2)
    by (auto simp: create_hint_def Let_def bind_res_eq_Inl insert_row_no_violation)
  show "create_link db new p l w e \<noteq> Inl IntegrityError"
    if "SocialLinkCreateRequest v x y = Some (p, l, w)" "new \<notin> link_id ` set (site_links db)"
    using SocialLinkCreateRequest_SomeD [OF that(1)] that(2)
    by (auto simp: create_link_def link_check_def Let_def bind_res_eq_Inl insert_row_no_violation)
qed

lemma update_no_violation:
  "QuoteRequest x y = Some (q, a) \<Longrightarrow> update_quote db r q a \<noteq> Inl IntegrityError"
  "ProgrammHintRequest x = Some t \<Longrightarrow> update_hint db h t \<noteq> Inl IntegrityError"
  "SocialLinkUpdateRequest x y = Some (l, w) \<Longrightarrow> platform_slug (link_platform k) \<Longrightarrow>
     update_link db k l w e \<noteq> Inl IntegrityError"
  "AboutTabUpdateRequest x y = Some (t, b) \<Longrightarrow> update_tab db tab t b \<noteq> Inl IntegrityError"
  by (auto simp: update_quote_def update_hint_def update_link_def update_tab_def Let_def bind_res_eq_Inl update_row_no_violation
      QuoteRequest_SomeD ProgrammHintRequest_SomeD SocialLinkUpdateRequest_SomeD AboutTabUpdateRequest_SomeD)

lemma checked_upload_type:
  "check_upload ge db file declared = Inr (ct, w, h) \<Longrightarrow>
     (\<exists>f. ge_pil ge (read_upload file) = Pil_Image f w h) \<and> ct \<in> {''image/jpeg'', ''image/png''}"
  by (auto simp: check_upload_def inspect_upload_image_def IMAGE_TYPE_BY_FORMAT_def Let_def
      split: if_split_asm sum.split_asm pil_result.split_asm option.split_asm)

lemma extension_of_type: "ct \<in> {''image/jpeg'', ''image/png''} \<Longrightarrow> extension_of ct \<in> {''jpg'', ''png''}"
proof -
  have "extension_of ''image/jpeg'' = ''jpg''" "extension_of ''image/png'' = ''png''" by code_simp+
  then show "ct \<in> {''image/jpeg'', ''image/png''} \<Longrightarrow> ?thesis" by auto
qed

lemma next_position_not_negative: "list_all gallery_check db \<Longrightarrow> 0 \<le> next_sort_order img_sort_order db"
proof (cases db)
  case Nil
  then show ?thesis by (simp add: next_sort_order_def)
next
  case (Cons i js)
  assume "list_all gallery_check db"
  then have "0 \<le> img_sort_order i" using Cons by (simp add: gallery_check_def)
  moreover have "img_sort_order i < next_sort_order img_sort_order db"
    by (rule next_sort_order_above) (simp add: Cons)
  ultimately show ?thesis by simp
qed

lemma upload_no_violation:
  assumes "images_have_a_size ge" and "list_all gallery_check db" and "new \<notin> img_id ` set db"
  shows "snd (upload_gallery_image ge db st new now file declared caption cb) \<noteq> Inl IntegrityError"
proof (cases "check_upload ge db file declared")
  case (Inl e)
  then have "e \<noteq> IntegrityError"
    by (auto simp: check_upload_def refused_def Let_def split: if_split_asm sum.split_asm)
  with Inl show ?thesis by (simp add: upload_gallery_image_def)
next
  case (Inr found)
  obtain ct w h where found: "found = (ct, w, h)" by (cases found)
  have c: "gallery_check \<lparr>img_id = new, img_sha256_hash = hash, img_extension = extension_of ct, img_content_type = ct,
      img_size = n, img_width = w, img_height = h, img_caption = caption,
      img_sort_order = next_sort_order img_sort_order db, img_is_published = True, img_created_by = cb,
      img_created_at = now\<rparr>" for hash n
    using checked_upload_type [OF Inr [unfolded found]] extension_of_type [of ct] next_position_not_negative [OF assms(2)] assms(1)
    by (auto simp: gallery_check_def images_have_a_size_def)
  have s: "storage_exists st key \<noteq> Inl IntegrityError" "storage_upload st key data \<noteq> Inl IntegrityError" for key data
    by (auto simp: storage_exists_def storage_upload_def)
  show ?thesis
    using Inr found c s assms(3)
    by (auto simp: upload_gallery_image_def Let_def bind_res_eq_Inl insert_row_no_violation split: sum.split)
qed

section \<open>The properties\<close>

text \<open>C30: Whatever requests the editors send, in whatever order and with whatever outcome, the tables
  of the public site stay consistent: ids and positions are unique in each table, all rows satisfy
  the constraints of the database, there is one tab per slot and one row of settings, no image is
  twice in the gallery, and every row of the gallery has its object in the store.\<close>
theorem public_site_stays_consistent:
  assumes "public_ok ge s" and "list_all (\<lambda>(env, u, req). ee_gallery env = ge) reqs"
  shows "public_ok ge (fold (\<lambda>(env, u, req) s. fst (handle env u req s)) reqs s)"
  using assms
proof (induction reqs arbitrary: s)
  case (Cons r reqs)
  obtain env u req where r: "r = (env, u, req)" by (metis prod_cases3)
  with Cons.prems have "ee_gallery env = ge" by simp
  then have "public_ok ge (fst (handle env u req s))" using handle_kept [of env s u req] Cons.prems(1) by simp
  then show ?case using Cons r by simp
qed simp

text \<open>C31: Without the permission of the editors every route that manages the public site answers 403,
  and neither the tables nor the object store change.\<close>
theorem only_editors_change_the_site:
  assumes "''publicContentEditor'' \<notin> set (calculate_permissions (ee_settings env) (ee_today env) u)"
  shows "handle env u req s = (s, Inl (HTTPException 403 ''missing permission: publicContentEditor''))"
proof -
  have c: "content_editor env u = Inl (HTTPException 403 ''missing permission: publicContentEditor'')"
    using assms by (simp add: content_editor_def require_permission_def)
  show ?thesis
    by (cases req) (simp_all add: c admin_defs admin_list_about_tabs_def admin_get_settings_def admin_list_programm_hints_def
        admin_list_quotes_def admin_list_social_links_def admin_list_images_def admin_upload_image_def admin_delete_image_def
        reading_def creating_def writing_def imaging_def)
qed

text \<open>Moving a quote up exchanges it with the one shown right above it and touches nothing else in
  the list; moving it down again restores the whole state.\<close>
theorem moving_back_restores_the_order:
  assumes ok: "public_ok ge s" and listed: "list_quotes (ps_site s) = xs @ a # b # ys"
    and editor: "''publicContentEditor'' \<in> set (calculate_permissions (ee_settings env) (ee_today env) u)"
  shows "let moved = fst (handle env u (Move_Quote (quote_id b) Up) s) in
     map QuoteResponse (list_quotes (ps_site moved)) = map QuoteResponse (xs @ b # a # ys) \<and>
     handle env u (Move_Quote (quote_id b) Down) moved = (s, Inr ())"
proof -
  let ?rows = "site_quotes (ps_site s)" and ?a = "set_quote_order (quote_sort_order b) a"
  let ?b = "set_quote_order (quote_sort_order a) b"
  let ?moved = "swap_with_neighbor quote_id quote_sort_order set_quote_order ?rows b Up"
  have ord: "in_order quote_id quote_sort_order ?rows"
    using ok by (simp add: public_ok_def site_ok_def table_ok_def)
  have split: "sort_key quote_sort_order ?rows = xs @ a # b # ys" using listed by (simp add: list_quotes_def)
  have ed: "content_editor env u = Inr u" using editor by (simp add: content_editor_def require_permission_def)
  have b: "get_by quote_id ?rows (quote_id b) = Some b"
    by (rule get_by_distinct) (use ord quotes.listed_distinct(4) [OF ord split] in \<open>simp_all add: in_order_def\<close>)
  have up: "handle env u (Move_Quote (quote_id b) Up) s = (s\<lparr>ps_site := (ps_site s)\<lparr>site_quotes := ?moved\<rparr>\<rparr>, Inr ())"
    by (simp add: admin_move_quote_def ed get_quote_or_404_def b row_or_404_def move_quote_def writing_def)
  have list: "sort_key quote_sort_order ?moved = xs @ ?b # ?a # ys" by (rule quotes.move_up(2) [OF ord split])
  have ord': "in_order quote_id quote_sort_order ?moved"
    by (rule quotes.in_order_move [OF ord quotes.listed_distinct(4) [OF ord split]])
  have b': "get_by quote_id ?moved (quote_id b) = Some ?b"
    using get_by_distinct [of quote_id ?moved ?b] quotes.listed_distinct(3) [OF ord' list] ord' by (simp add: in_order_def)
  have down: "swap_with_neighbor quote_id quote_sort_order set_quote_order ?moved ?b Down = ?rows"
    by (rule quotes.move_back(1) [OF ord split])
  have "handle env u (Move_Quote (quote_id b) Down) (s\<lparr>ps_site := (ps_site s)\<lparr>site_quotes := ?moved\<rparr>\<rparr>) = (s, Inr ())"
    by (simp add: admin_move_quote_def ed get_quote_or_404_def b' row_or_404_def move_quote_def writing_def down)
  moreover have "map QuoteResponse (xs @ ?b # ?a # ys) = map QuoteResponse (xs @ b # a # ys)"
    by (simp add: QuoteResponse_def set_quote_order_def)
  ultimately show ?thesis by (simp add: up list_quotes_def list del: handle.simps)
qed

text \<open>C32: The request models are strict enough for the database: a request with a new id never violates a
  constraint, whatever it carries. The settings are left out: there the address of a calendar may
  end in a line break.\<close>
theorem valid_requests_meet_the_constraints:
  assumes ok: "public_ok (ee_gallery env) s" and fresh: "fresh_id env s"
    and size: "images_have_a_size (ee_gallery env)"
    and other: "\<forall>h y c g. req \<noteq> Update_Settings h y c g"
  shows "snd (handle env u req s) \<noteq> Inl IntegrityError"
proof -
  have slug: "platform_slug (link_platform r)" if "get_by link_id (site_links (ps_site s)) k = Some r" for k r
    using ok get_by_SomeD [OF that] by (auto simp: public_ok_def site_ok_def table_ok_def list_all_iff link_check_def)
  note f = fresh [unfolded fresh_id_def]
  have img: "gallery_check (i\<lparr>img_caption := c, img_is_published := p\<rparr>)"
    if "get_by img_id (ps_gallery s) k = Some i" for i c p k
    using ok get_by_SomeD [OF that] by (auto simp: public_ok_def gallery_ok_def table_ok_def list_all_iff gallery_check_def)
  show ?thesis
  proof (cases req)
    case (Upload_Image content declared caption)
    have g: "list_all gallery_check (ps_gallery s)" using ok by (simp add: public_ok_def gallery_ok_def table_ok_def)
    note up = upload_no_violation [OF size g, of "ee_new env" "ps_storage s" "ee_now env" content declared caption]
    show ?thesis
    proof (cases "content_editor env u")
      case (Inl e)
      then show ?thesis using not_a_violation(1) [of env u] by (auto simp: Upload_Image admin_upload_image_def imaging_def)
    next
      case (Inr m)
      obtain st r where r: "upload_gallery_image (ee_gallery env) (ps_gallery s) (ps_storage s) (ee_new env) (ee_now env)
          content declared caption (Some (member_id m)) = (st, r)" by (metis surj_pair)
      then have "r \<noteq> Inl IntegrityError" using up [of "Some (member_id m)"] f by simp
      then show ?thesis by (cases r) (auto simp: Upload_Image Inr r admin_upload_image_def imaging_def)
    qed
  qed (use other f in \<open>auto simp: admin_defs admin_list_about_tabs_def admin_get_settings_def admin_list_programm_hints_def
      admin_list_quotes_def admin_list_social_links_def admin_list_images_def admin_delete_image_def
      lookup_defs bind_res_eq_Inl
      create_no_violation update_no_violation slug update_gallery_image_def update_row_no_violation img split: sum.split_asm\<close>)
qed

section \<open>A calendar address with a line break\<close>

text \<open>\<open>_CALENDAR_ID_RE\<close> lets a line break at the end pass, the \<open>CHECK\<close> of the column does not: this valid
  request ends in an \<open>IntegrityError\<close>.\<close>

lemma calendar_line_break_reaches_the_database:
  "extract_calendar_id (\<lambda>_. True) ''https://calendar.google.com/embed?src=a%40b.at%0A'' = Some (''a@b.at'' @ [CHR 0x0A])"
  "\<not> calendar_id (''a@b.at'' @ [CHR 0x0A])"
  by code_simp+

text \<open>Every other address that passes satisfies the column.\<close>

lemma calendar_accepted: "extract_calendar_id br v = Some c \<Longrightarrow> calendar_id c \<or> (last c = CHR 0x0A \<and> calendar_id (butlast c))"
  by (auto simp: extract_calendar_id_def calendar_match_def Let_def bind_eq_Some_conv split: if_split_asm)

section \<open>Demonstration\<close>

definition demo_editor :: member where
  "demo_editor = \<lparr>member_id = 7, columns = (\<lambda>_. PNone)(F_org_id := PStr ''vbw''),
     member_roles = [\<lparr>mr_role_id = ''socialmediareferent'', mr_startdate = Date 2020 1 1, mr_enddate = None, mr_role = None\<rparr>],
     member_badges = [], member_keys = []\<rparr>"

definition demo_gallery_env :: gallery_env where
  "demo_gallery_env = \<lparr>ge_pil = (\<lambda>_. Pil_Image ''PNG'' 4 3), ge_sha256 = (\<lambda>c. c), ge_sign = pr_key, ge_expiry = 900,
     ge_path = ''gallery'', ge_id_text = (\<lambda>_. ''id'')\<rparr>"

definition demo_editor_env :: editor_env where
  "demo_editor_env = \<lparr>ee_settings = \<lparr>dev_superuser_id = None, app_environment = ''production'', system_admin_email_set = {}\<rparr>,
     ee_today = Date 2024 4 1, ee_now = 0, ee_new = 50, ee_gallery = demo_gallery_env, ee_bracketed = (\<lambda>_. False)\<rparr>"

definition demo_site :: site where
  "demo_site = \<lparr>site_quotes = [\<lparr>quote_id = 2, quote_quote = ''b'', quote_author = ''y'', quote_sort_order = 5\<rparr>,
       \<lparr>quote_id = 1, quote_quote = ''a'', quote_author = ''x'', quote_sort_order = 3\<rparr>],
     site_hints = [], site_links = [],
     site_tabs = [\<lparr>tab_slot = Mkv, tab_title = ''m'', tab_body = ''m''\<rparr>, \<lparr>tab_slot = Anfang, tab_title = ''a'', tab_body = ''a''\<rparr>,
       \<lparr>tab_slot = Heute, tab_title = ''h'', tab_body = ''h''\<rparr>],
     site_settings = Some \<lparr>set_about_video_heading = ''v'', set_about_video_youtube_id = ''abcdefghijk'',
       set_programm_calendar_id = ''a@b.at'', set_gallery_heading = ''g''\<rparr>\<rparr>"

definition demo_public :: public_state where
  "demo_public = \<lparr>ps_site = demo_site, ps_gallery = [], ps_storage = \<lparr>objects = [], s3_fails = (\<lambda>_ _. False)\<rparr>\<rparr>"

lemma demo_public_ok: "public_ok demo_gallery_env demo_public"
proof -
  have "table_ok quote_id quote_sort_order quote_check (site_quotes demo_site)" by code_simp
  moreover have "list_all tab_check (site_tabs demo_site)" "distinct (map tab_slot (site_tabs demo_site))" by code_simp+
  moreover have "set (map tab_slot (site_tabs demo_site)) = set KNOWN_SLOTS"
    by (auto simp: demo_site_def KNOWN_SLOTS_def)
  moreover have "settings_check (the (site_settings demo_site))" "site_settings demo_site \<noteq> None" by code_simp+
  ultimately show ?thesis
    by (auto simp: public_ok_def site_ok_def tabs_ok_def gallery_ok_def table_ok_def in_order_def demo_public_def demo_site_def)
qed

lemma demo_editor_may: "''publicContentEditor'' \<in> set (calculate_permissions (ee_settings demo_editor_env) (ee_today demo_editor_env) demo_editor)"
  by code_simp

lemma public_site_stays_consistent_witness:
  "public_ok demo_gallery_env (fold (\<lambda>(env, u, req) s. fst (handle env u req s))
     [(demo_editor_env, demo_editor, Create_Quote ''c'' ''z''), (demo_editor_env, demo_editor, Move_Quote 2 Up),
      (demo_editor_env, demo_editor, Upload_Image ''png'' (Some ''image/png'') None)] demo_public)"
  by (rule public_site_stays_consistent [OF demo_public_ok]) (simp add: demo_editor_env_def)

lemma only_editors_change_the_site_witness:
  "handle demo_editor_env (demo_editor\<lparr>member_roles := []\<rparr>) (Delete_Quote 1) demo_public =
     (demo_public, Inl (HTTPException 403 ''missing permission: publicContentEditor''))"
  by (rule only_editors_change_the_site) code_simp

lemma demo_list_quotes:
  "list_quotes (ps_site demo_public) = [] @ \<lparr>quote_id = 1, quote_quote = ''a'', quote_author = ''x'', quote_sort_order = 3\<rparr> #
     \<lparr>quote_id = 2, quote_quote = ''b'', quote_author = ''y'', quote_sort_order = 5\<rparr> # []"
  by code_simp

lemma moving_back_restores_the_order_witness:
  "let moved = fst (handle demo_editor_env demo_editor (Move_Quote 2 Up) demo_public) in
     map QuoteResponse (list_quotes (ps_site moved)) = [(2, ''b'', ''y''), (1, ''a'', ''x'')] \<and>
     handle demo_editor_env demo_editor (Move_Quote 2 Down) moved = (demo_public, Inr ())"
  using moving_back_restores_the_order [OF demo_public_ok demo_list_quotes demo_editor_may]
  by (simp add: QuoteResponse_def del: handle.simps)

lemma valid_requests_meet_the_constraints_witness:
  "snd (handle demo_editor_env demo_editor (Create_Quote ''c'' ''z'') demo_public) \<noteq> Inl IntegrityError"
proof (rule valid_requests_meet_the_constraints)
  show "public_ok (ee_gallery demo_editor_env) demo_public" using demo_public_ok by (simp add: demo_editor_env_def)
  show "fresh_id demo_editor_env demo_public"
    by (simp add: fresh_id_def demo_editor_env_def demo_public_def demo_site_def)
  show "images_have_a_size (ee_gallery demo_editor_env)"
    by (simp add: images_have_a_size_def demo_editor_env_def demo_gallery_env_def)
qed simp

end
