(* ===== verification/Anniversaries.thy ===== *)
theory Anniversaries
  imports Members Calendar
begin

text \<open>
  The weekly chronicle: \<open>app/services/anniversary_service.py\<close>. Dates are counted by
  \<open>toordinal\<close>; the nested dictionaries of the result are association lists in the order of
  insertion, filled by \<open>setdefault\<close>.
\<close>

section \<open>Counting days\<close>

definition days_before_month :: "int \<Rightarrow> int \<Rightarrow> int" where
  "days_before_month y m = sum_list (map (days_in_month y) [1 .. m - 1])"

definition toordinal :: "date \<Rightarrow> int" where
  "toordinal d = days_before_year (year d) + days_before_month (year d) (month d) + day d"

definition isoweekday :: "date \<Rightarrow> int" where
  "isoweekday d = (toordinal d - 1) mod 7 + 1"

text \<open>\<open>d + timedelta(days=n)\<close>\<close>

fun plus_days :: "date \<Rightarrow> nat \<Rightarrow> exc + date" where
  "plus_days d 0 = Inr d"
| "plus_days d (Suc n) = bind_res (next_day d) (\<lambda>e. plus_days e n)"

lemma plus_days_valid: "valid_date d \<Longrightarrow> plus_days d n = Inr e \<Longrightarrow> valid_date e"
  by (induction n arbitrary: d) (auto simp: bind_res_eq_Inr dest: next_day_valid)

lemma div_pred: "0 < n \<Longrightarrow> y div n = (y - 1) div n + (if y mod n = 0 then 1 else 0)" for n y :: int
proof -
  assume n: "0 < n"
  obtain q r where y: "y = q * n + r" "0 \<le> r" "r < n" using n by (metis div_mult_mod_eq pos_mod_bound pos_mod_sign)
  have q: "y div n = q" by (rule int_div_pos_eq [of _ n q r]) (use y in \<open>simp_all add: mult.commute\<close>)
  have m: "y mod n = r" using q y(1) by (metis add_diff_cancel_left' minus_mult_div_eq_mod mult.commute)
  show ?thesis
  proof (cases "r = 0")
    case True
    have "(y - 1) div n = q - 1"
      by (rule int_div_pos_eq [of _ n "q - 1" "n - 1"]) (use True n in \<open>simp_all add: y(1) algebra_simps\<close>)
    then show ?thesis by (simp add: q m True)
  next
    case False
    have "(y - 1) div n = q"
      by (rule int_div_pos_eq [of _ n q "r - 1"]) (use False y in \<open>simp_all add: mult.commute\<close>)
    then show ?thesis by (simp add: q m False)
  qed
qed

lemma days_before_next_year: "days_before_year (y + 1) = days_before_year y + year_length y"
proof -
  have m: "y mod 400 = 0 \<Longrightarrow> y mod 100 = 0" "y mod 100 = 0 \<Longrightarrow> y mod 4 = 0" by presburger+
  have d: "days_before_year (y + 1) = y * 365 + y div 4 - y div 100 + y div 400"
    "days_before_year y = (y - 1) * 365 + (y - 1) div 4 - (y - 1) div 100 + (y - 1) div 400"
    by (simp_all add: days_before_year_def Let_def)
  have e: "y * 365 = (y - 1) * 365 + (365 :: int)" by simp
  have "(if y mod 4 = 0 then 1 else 0) - (if y mod 100 = 0 then 1 else 0) + (if y mod 400 = 0 then 1 else 0) =
      (if is_leap y then 1 else (0 :: int))"
    using m by (cases "y mod 4 = 0"; cases "y mod 100 = 0"; cases "y mod 400 = 0"; simp only: is_leap_def; simp)
  then show ?thesis
    unfolding d div_pred [of 4 y, simplified] div_pred [of 100 y, simplified] div_pred [of 400 y, simplified] year_length_def
    using e by (simp split: if_splits)
qed

lemma days_before_next_month: "1 \<le> m \<Longrightarrow> days_before_month y (m + 1) = days_before_month y m + days_in_month y m"
proof -
  assume "1 \<le> m"
  then have "[1 .. m] = [1 .. m - 1] @ [m]" using upto_rec2 [of 1 m] by simp
  then show ?thesis by (simp add: days_before_month_def)
qed

lemma days_before_first_month [simp]: "days_before_month y 1 = 0"
  by (simp add: days_before_month_def)

lemma days_of_year: "days_before_month y 12 + days_in_month y 12 = year_length y"
  by (simp add: days_before_month_def days_in_month_def year_length_def upto.simps)

lemma next_day_ordinal: "valid_date d \<Longrightarrow> next_day d = Inr e \<Longrightarrow> toordinal e = toordinal d + 1"
proof (cases d)
  case (Date y m k)
  assume v: "valid_date d" and n: "next_day d = Inr e"
  then have k: "k \<le> days_in_month y m" and m: "1 \<le> m" "m \<le> 12" by (auto simp: Date)
  consider "k < days_in_month y m" "e = Date y m (k + 1)"
    | "k = days_in_month y m" "m < 12" "e = Date y (m + 1) 1"
    | "k = days_in_month y m" "m = 12" "e = Date (y + 1) 1 1"
    using n k m by (auto simp: Date next_day_def split: if_split_asm)
  then show ?thesis
  proof cases
    case 2
    then show ?thesis using m days_before_next_month [of m y] by (simp add: Date toordinal_def)
  next
    case 3
    then show ?thesis using days_before_next_year [of y] days_of_year [of y] by (simp add: Date toordinal_def)
  qed (simp add: Date toordinal_def)
qed

lemma plus_days_ordinal: "valid_date d \<Longrightarrow> plus_days d n = Inr e \<Longrightarrow> toordinal e = toordinal d + int n"
proof (induction n arbitrary: d)
  case (Suc n)
  then obtain f where "next_day d = Inr f" "plus_days f n = Inr e" by (auto simp: bind_res_eq_Inr)
  then show ?case using Suc.IH [of f] next_day_valid [of d f] next_day_ordinal [of d f] Suc.prems(1) by simp
qed simp

text \<open>Later days have greater numbers.\<close>

lemma days_before_month_nonneg: "0 \<le> days_before_month y m"
  unfolding days_before_month_def
proof (rule sum_list_nonneg)
  fix x assume "x \<in> set (map (days_in_month y) [1..m - 1])"
  then obtain k where "x = days_in_month y k" by auto
  then show "0 \<le> x" using days_in_month_bounds(1) [of y k] by simp
qed

lemma days_before_month_less:
  assumes "1 \<le> m" "m < n"
  shows "days_before_month y m + days_in_month y m \<le> days_before_month y n"
proof -
  have "\<forall>k. n = m + 1 + int k \<longrightarrow> days_before_month y m + days_in_month y m \<le> days_before_month y n"
  proof (intro allI impI)
    fix k show "n = m + 1 + int k \<Longrightarrow> days_before_month y m + days_in_month y m \<le> days_before_month y n"
    proof (induction k arbitrary: n)
      case 0
      then show ?case using assms(1) days_before_next_month [of m y] by simp
    next
      case (Suc k)
      have "days_before_month y m + days_in_month y m \<le> days_before_month y (n - 1)"
        by (rule Suc.IH) (use Suc.prems in simp)
      moreover have "days_before_month y n = days_before_month y (n - 1) + days_in_month y (n - 1)"
        using days_before_next_month [of "n - 1" y] assms(1) Suc.prems by simp
      ultimately show ?case using days_in_month_bounds(1) [of y "n - 1"] by simp
    qed
  qed
  moreover have "n = m + 1 + int (nat (n - m - 1))" using assms(2) by simp
  ultimately show ?thesis by blast
qed

lemma day_of_year:
  assumes "valid_date (Date y m k)"
  shows "1 \<le> days_before_month y m + k" and "days_before_month y m + k \<le> year_length y"
proof -
  show "1 \<le> days_before_month y m + k" using assms days_before_month_nonneg [of y m] by simp
  have "days_before_month y m + days_in_month y m \<le> year_length y"
    using assms days_before_month_less [of m 12 y] days_of_year [of y] days_in_month_bounds(1) [of y 12]
    by (cases "m = 12") auto
  then show "days_before_month y m + k \<le> year_length y" using assms by simp
qed

lemma days_before_year_less:
  assumes "y < z"
  shows "days_before_year y + year_length y \<le> days_before_year z"
proof -
  have "n = nat (z - y - 1) \<Longrightarrow> y < z \<Longrightarrow> ?thesis" for n
  proof (induction n arbitrary: z)
    case 0
    then have "z = y + 1" by simp
    then show ?case using days_before_next_year [of y] by simp
  next
    case (Suc n)
    have "days_before_year y + year_length y \<le> days_before_year (z - 1)" by (rule Suc.IH) (use Suc.prems in auto)
    moreover have "days_before_year z = days_before_year (z - 1) + year_length (z - 1)"
      using days_before_next_year [of "z - 1"] by simp
    ultimately show ?case by (simp add: year_length_def split: if_splits)
  qed
  then show ?thesis using assms by blast
qed

lemma toordinal_less:
  assumes "valid_date a" "valid_date b" "a < b"
  shows "toordinal a < toordinal b"
proof -
  obtain y m k where a: "a = Date y m k" by (cases a)
  obtain y' m' k' where b: "b = Date y' m' k'" by (cases b)
  have "y < y' \<or> y = y' \<and> (m < m' \<or> m = m' \<and> k < k')" using assms(3) by (auto simp: a b)
  then consider "y < y'" | "y = y'" "m < m'" | "y = y'" "m = m'" "k < k'" by blast
  then show ?thesis
  proof cases
    case 1
    then show ?thesis
      using days_before_year_less [OF 1] day_of_year [of y m k] day_of_year [of y' m' k'] assms(1,2)
      by (simp add: a b toordinal_def)
  next
    case 2
    then show ?thesis
      using days_before_month_less [of m m' y] assms(1,2) by (simp add: a b toordinal_def)
  qed (simp add: a b toordinal_def)
qed

lemma toordinal_le_iff: "valid_date a \<Longrightarrow> valid_date b \<Longrightarrow> toordinal a \<le> toordinal b \<longleftrightarrow> a \<le> b"
  using toordinal_less [of a b] toordinal_less [of b a] by (metis less_le_not_le linorder_not_le order_le_less)

section \<open>The window\<close>

datatype anniversary_status = Lebend | Verstorben

definition ANNIVERSARY_FIELDS :: "(member_field \<times> member_field) list" where
  "ANNIVERSARY_FIELDS =
     [(F_geburtsdatum, F_geburtsdatum_accuracy), (F_aufnahmedatum, F_aufnahmedatum_accuracy),
      (F_burschungsdatum, F_burschungsdatum_accuracy), (F_philistrierungsdatum, F_philistrierungsdatum_accuracy)]"

definition LEAP_DAY_NOTE :: string where
  "LEAP_DAY_NOTE = ''Jahrestag faellt eigentlich auf den 29. Februar''"

record anniversary_entry =
  ae_cn :: string
  ae_date :: string
  ae_years :: int
  ae_days_to :: int
  ae_leap_day_note :: "string option"

definition format_date_de :: "date \<Rightarrow> string" where
  "format_date_de d = text_of_int (day d) @ ''. '' @ text_of_int (month d) @ ''. '' @ text_of_int (year d)"

definition week_window :: "date \<Rightarrow> exc + date \<times> date" where
  "week_window given =
     bind_res (plus_days given (nat ((8 - isoweekday given) mod 7))) (\<lambda>week_start.
     bind_res (plus_days week_start 6) (\<lambda>week_end. Inr (week_start, week_end)))"

definition get_opted_in_recipients :: "member list \<Rightarrow> string list" where
  "get_opted_in_recipients db =
     map (\<lambda>m. text_or_empty m F_email)
       (filter (\<lambda>m. \<not> flag_col m F_entlassen \<and> \<not> flag_col m F_verstorben \<and> flag_col m F_chroniclemail \<and>
                   text_col m F_email \<noteq> None \<and> text_col m F_email \<noteq> Some []) db)"

definition safe_anniversary_date :: "int \<Rightarrow> int \<Rightarrow> int \<Rightarrow> (date \<times> bool) option" where
  "safe_anniversary_date y m d =
     (if valid_date (Date y m d) then Some (Date y m d, False)
      else if m = 2 \<and> d = 29 then Some (Date y 2 28, True)
      else None)"

text \<open>The first of the years of the window, in order, whose anniversary falls inside.\<close>

fun first_in_window :: "int list \<Rightarrow> date \<Rightarrow> date \<Rightarrow> date \<Rightarrow> (date \<times> bool) option" where
  "first_in_window [] value week_start week_end = None"
| "first_in_window (y # ys) value week_start week_end =
     (case safe_anniversary_date y (month value) (day value) of
        Some (d, shifted) \<Rightarrow>
          if week_start \<le> d \<and> d \<le> week_end then Some (d, shifted) else first_in_window ys value week_start week_end
      | None \<Rightarrow> first_in_window ys value week_start week_end)"

definition anniversary_in_window :: "date \<Rightarrow> date \<Rightarrow> date \<Rightarrow> (date \<times> bool) option" where
  "anniversary_in_window value week_start week_end =
     first_in_window (if year week_start = year week_end then [year week_start] else sort [year week_start, year week_end])
       value week_start week_end"

section \<open>The chronicle\<close>

text \<open>\<open>d.setdefault(k, default)\<close>, followed by a change of the value there.\<close>

fun at_default :: "'k \<Rightarrow> 'v \<Rightarrow> ('v \<Rightarrow> 'v) \<Rightarrow> ('k \<times> 'v) list \<Rightarrow> ('k \<times> 'v) list" where
  "at_default k default_value f [] = [(k, f default_value)]"
| "at_default k default_value f ((k', v) # kvs) =
     (if k' = k then (k', f v) # kvs else (k', v) # at_default k default_value f kvs)"

type_synonym anniversaries =
  "(string \<times> (anniversary_status \<times> (member_field \<times> anniversary_entry list) list) list) list"

definition append_entry ::
  "string \<Rightarrow> anniversary_status \<Rightarrow> member_field \<Rightarrow> anniversary_entry \<Rightarrow> anniversaries \<Rightarrow> anniversaries" where
  "append_entry org status field e =
     at_default org [] (at_default status [] (at_default field [] (\<lambda>es. es @ [e])))"

definition member_anniversary ::
  "member_field \<Rightarrow> date \<Rightarrow> date \<times> date \<Rightarrow> member \<Rightarrow> (string \<times> anniversary_status \<times> anniversary_entry) option" where
  "member_anniversary field given window m =
     (case date_col m field of
        None \<Rightarrow> None
      | Some value \<Rightarrow>
          (case anniversary_in_window value (fst window) (snd window) of
             None \<Rightarrow> None
           | Some (next_date, leap_shifted) \<Rightarrow>
               Some (case text_col m F_org_id of None \<Rightarrow> ''vbw'' | Some org \<Rightarrow> if org = [] then ''vbw'' else org,
                 if flag_col m F_verstorben then Verstorben else Lebend,
                 \<lparr>ae_cn = cn m, ae_date = format_date_de next_date, ae_years = year next_date - year value,
                  ae_days_to = toordinal next_date - toordinal given,
                  ae_leap_day_note = (if leap_shifted then Some LEAP_DAY_NOTE else None)\<rparr>)))"

definition exact_date :: "member_field \<Rightarrow> member_field \<Rightarrow> member \<Rightarrow> bool" where
  "exact_date field accuracy m \<longleftrightarrow> date_col m field \<noteq> None \<and>
     (case columns m accuracy of PInt i \<Rightarrow> 3 \<le> i | _ \<Rightarrow> False) \<and> \<not> flag_col m F_entlassen"

definition collect_field_anniversaries ::
  "member list \<Rightarrow> member_field \<times> member_field \<Rightarrow> date \<Rightarrow> date \<times> date \<Rightarrow> anniversaries \<Rightarrow> anniversaries" where
  "collect_field_anniversaries db names given window result =
     fold (\<lambda>m r. case member_anniversary (fst names) given window m of
             None \<Rightarrow> r | Some (org, status, e) \<Rightarrow> append_entry org status (fst names) e r)
       (filter (exact_date (fst names) (snd names)) db) result"

definition sort_entries :: "anniversaries \<Rightarrow> anniversaries" where
  "sort_entries = map (\<lambda>(org, ss). (org, map (\<lambda>(s, fs). (s, map (\<lambda>(f, es). (f, sort_key ae_days_to es)) fs)) ss))"

definition compute_anniversaries :: "member list \<Rightarrow> date \<Rightarrow> exc + anniversaries" where
  "compute_anniversaries db given =
     bind_res (week_window given) (\<lambda>window.
       Inr (sort_entries (fold (\<lambda>names. collect_field_anniversaries db names given window) ANNIVERSARY_FIELDS [])))"

end
