(* ===== verification/Anniversary_Properties.thy ===== *)
theory Anniversary_Properties
  imports Anniversaries
begin

text \<open>
  The chronicle is complete: the weeks of consecutive runs follow each other without a gap, and in
  each week exactly the members are listed who have an anniversary in it.
\<close>

section \<open>The weeks\<close>

lemma week_window_InrD:
  assumes "valid_date given" and "week_window given = Inr (ws, we)"
  shows "valid_date ws" and "valid_date we"
    and "toordinal ws = toordinal given + (8 - isoweekday given) mod 7"
    and "toordinal we = toordinal ws + 6" and "isoweekday ws = 1"
proof -
  obtain s e where s: "plus_days given (nat ((8 - isoweekday given) mod 7)) = Inr s" "plus_days s 6 = Inr e"
    and "ws = s" "we = e" using assms(2) by (auto simp: week_window_def bind_res_eq_Inr)
  then show v: "valid_date ws" "valid_date we" using assms(1) plus_days_valid by blast+
  have "0 \<le> (8 - isoweekday given) mod 7" by simp
  then show o: "toordinal ws = toordinal given + (8 - isoweekday given) mod 7"
    using plus_days_ordinal [OF assms(1) s(1)] \<open>ws = s\<close> by simp
  show "toordinal we = toordinal ws + 6"
    using plus_days_ordinal [of s 6 e] s(2) v \<open>ws = s\<close> \<open>we = e\<close> by simp
  have "(g + (8 - (g mod 7 + 1)) mod 7) mod 7 = 0" for g :: int by presburger
  from this [of "toordinal given - 1"] show "isoweekday ws = 1"
    unfolding isoweekday_def o by (simp add: algebra_simps)
qed

lemma toordinal_inject: "valid_date a \<Longrightarrow> valid_date b \<Longrightarrow> toordinal a = toordinal b \<Longrightarrow> a = b"
  using toordinal_le_iff [of a b] toordinal_le_iff [of b a] by auto

lemma next_day_defined: "valid_date a \<Longrightarrow> valid_date b \<Longrightarrow> a < b \<Longrightarrow> \<exists>e. next_day a = Inr e"
proof (cases a; cases b)
  fix y m k z n l assume a: "a = Date y m k" "b = Date z n l" "valid_date a" "valid_date b" "a < b"
  have "k \<le> days_in_month y m" "m \<le> 12" "z \<le> 9999" "n \<le> 12" "l \<le> days_in_month z n" using a by auto
  moreover have "y < z \<or> y = z \<and> (m < n \<or> m = n \<and> k < l)" using a(5) by (auto simp: a)
  ultimately show ?thesis by (auto simp: a next_day_def)
qed

text \<open>Runs seven days apart announce each day once: every week begins on a Monday, at the day of the run
  or in the six days after it, ends on the Sunday, and the next run's week begins the day after.\<close>
theorem weekly_runs_leave_no_day_out:
  assumes given: "valid_date given" "week_window given = Inr (ws, we)"
    and later: "plus_days given 7 = Inr later" "week_window later = Inr (ws', we')"
  shows "isoweekday ws = 1 \<and> given \<le> ws \<and> toordinal ws - toordinal given < 7 \<and>
         toordinal we = toordinal ws + 6 \<and> next_day we = Inr ws'"
proof -
  note w = week_window_InrD [OF given]
  have v: "valid_date later" by (rule plus_days_valid [OF given(1) later(1)])
  note w' = week_window_InrD [OF v later(2)]
  have same: "isoweekday later = isoweekday given"
    using plus_days_ordinal [OF given(1) later(1)] unfolding isoweekday_def by simp presburger
  have m: "0 \<le> (8 - isoweekday given) mod 7" "(8 - isoweekday given) mod 7 < 7" by simp_all
  have succ: "toordinal ws' = toordinal we + 1"
    using w(3,4) w'(3) plus_days_ordinal [OF given(1) later(1)] unfolding same by simp
  then have "we < ws'" using toordinal_le_iff [OF w'(1) w(2)] by (simp add: not_le)
  then obtain e where e: "next_day we = Inr e" using next_day_defined [OF w(2) w'(1)] by blast
  have "e = ws'"
    by (rule toordinal_inject) (use next_day_valid [OF w(2) e] next_day_ordinal [OF w(2) e] w'(1) succ in auto)
  with e m w toordinal_le_iff [OF given(1) w(1)] show ?thesis by auto
qed

lemma weekly_runs_leave_no_day_out_witness:
  "isoweekday (Date 2024 12 30) = 1 \<and> Date 2024 12 24 \<le> Date 2024 12 30 \<and>
   toordinal (Date 2024 12 30) - toordinal (Date 2024 12 24) < 7 \<and>
   toordinal (Date 2025 1 5) = toordinal (Date 2024 12 30) + 6 \<and> next_day (Date 2025 1 5) = Inr (Date 2025 1 6)"
proof (rule weekly_runs_leave_no_day_out)
  show "valid_date (Date 2024 12 24)" by code_simp
  show "week_window (Date 2024 12 24) = Inr (Date 2024 12 30, Date 2025 1 5)" by code_simp
  show "plus_days (Date 2024 12 24) 7 = Inr (Date 2024 12 31)" by code_simp
  show "week_window (Date 2024 12 31) = Inr (Date 2025 1 6, Date 2025 1 12)" by code_simp
qed

text \<open>On a Monday the week is the one that begins that day, not the following one.\<close>

lemma run_on_a_monday: "week_window (Date 2024 12 30) = Inr (Date 2024 12 30, Date 2025 1 5)" "isoweekday (Date 2024 12 30) = 1"
  by code_simp+

section \<open>The anniversary of a day\<close>

lemma days_before_month_leap: "1 \<le> m \<Longrightarrow> m \<le> 12 \<Longrightarrow> days_before_month y m \<le> days_before_month z m + 1"
proof -
  assume "1 \<le> m" "m \<le> 12"
  then have "m = 1 \<or> m = 2 \<or> m = 3 \<or> m = 4 \<or> m = 5 \<or> m = 6 \<or> m = 7 \<or> m = 8 \<or> m = 9 \<or> m = 10 \<or> m = 11 \<or> m = 12"
    by presburger
  then show ?thesis
    by (elim disjE) (simp_all add: days_before_month_def days_in_month_def upto.simps)
qed

lemma safe_anniversary_date_SomeD:
  assumes "safe_anniversary_date y m k = Some (d, s)"
  shows "\<exists>l. d = Date y m l \<and> k - 1 \<le> l \<and> l \<le> k"
  using assms by (auto simp: safe_anniversary_date_def split: if_split_asm)

text \<open>A week holds the anniversary of one year only.\<close>

lemma anniversary_year_unique:
  assumes w: "valid_date ws" "valid_date we" "toordinal we = toordinal ws + 6"
    and a: "safe_anniversary_date y m k = Some (d, s)" "ws \<le> d" "d \<le> we" "valid_date d"
    and b: "safe_anniversary_date z m k = Some (e, t)" "ws \<le> e" "e \<le> we" "valid_date e"
  shows "y = z"
proof (rule ccontr)
  assume ne: "y \<noteq> z"
  have far: False
    if "y < z" "d = Date y m l" "e = Date z m n" "l \<le> n + 1" "toordinal e - toordinal d \<le> 6" "valid_date d" "valid_date e"
    for y z l n and d e :: date
  proof -
    have "days_before_month y m \<le> days_before_month z m + 1"
      by (rule days_before_month_leap) (use that in auto)
    moreover have "days_before_year y + 365 \<le> days_before_year z"
      using days_before_year_less [OF that(1)] by (simp add: year_length_def split: if_splits)
    ultimately show False using that by (simp add: toordinal_def)
  qed
  obtain l where l: "d = Date y m l" "k - 1 \<le> l" "l \<le> k" using safe_anniversary_date_SomeD [OF a(1)] by blast
  obtain n where n: "e = Date z m n" "k - 1 \<le> n" "n \<le> k" using safe_anniversary_date_SomeD [OF b(1)] by blast
  have o: "toordinal ws \<le> toordinal d" "toordinal d \<le> toordinal we" "toordinal ws \<le> toordinal e" "toordinal e \<le> toordinal we"
    using toordinal_le_iff w a b by blast+
  show False
  proof (cases "y < z")
    case True
    show False by (rule far [OF True l(1) n(1)]) (use l n o w a b in auto)
  next
    case False
    then have "z < y" using ne by simp
    show False by (rule far [OF \<open>z < y\<close> n(1) l(1)]) (use l n o w a b in auto)
  qed
qed

lemma anniversary_valid:
  assumes "valid_date ws" "valid_date we" "safe_anniversary_date y m k = Some (d, s)" "ws \<le> d" "d \<le> we"
  shows "valid_date d"
proof -
  obtain wy wm wd where ws: "ws = Date wy wm wd" by (cases ws)
  obtain ey em ed where we: "we = Date ey em ed" by (cases we)
  obtain l where l: "d = Date y m l" using safe_anniversary_date_SomeD [OF assms(3)] by blast
  have "wy \<le> y" "y \<le> ey" using assms(4,5) by (auto simp: ws we l)
  then have "1 \<le> y" "y \<le> 9999" using assms(1,2) by (auto simp: ws we)
  then show ?thesis using assms(3) l by (auto simp: safe_anniversary_date_def days_in_month_def split: if_split_asm)
qed

lemma first_in_window_SomeD:
  "first_in_window ys v ws we = Some (d, s) \<Longrightarrow>
     \<exists>y. safe_anniversary_date y (month v) (day v) = Some (d, s) \<and> ws \<le> d \<and> d \<le> we"
  by (induction ys) (auto split: option.split_asm if_split_asm)

lemma first_in_window_None:
  "first_in_window ys v ws we = None \<Longrightarrow> y \<in> set ys \<Longrightarrow>
     safe_anniversary_date y (month v) (day v) = Some (d, s) \<Longrightarrow> \<not> (ws \<le> d \<and> d \<le> we)"
  by (induction ys) (auto split: option.split_asm if_split_asm)

lemma anniversary_in_window_iff:
  assumes w: "valid_date ws" "valid_date we" "toordinal we = toordinal ws + 6"
  shows "anniversary_in_window v ws we = Some (d, s) \<longleftrightarrow>
    (\<exists>y. safe_anniversary_date y (month v) (day v) = Some (d, s) \<and> ws \<le> d \<and> d \<le> we)"
proof
  assume "anniversary_in_window v ws we = Some (d, s)"
  then show "\<exists>y. safe_anniversary_date y (month v) (day v) = Some (d, s) \<and> ws \<le> d \<and> d \<le> we"
    unfolding anniversary_in_window_def by (rule first_in_window_SomeD)
next
  assume "\<exists>y. safe_anniversary_date y (month v) (day v) = Some (d, s) \<and> ws \<le> d \<and> d \<le> we"
  then obtain y where y: "safe_anniversary_date y (month v) (day v) = Some (d, s)" "ws \<le> d" "d \<le> we" by blast
  let ?ys = "if year ws = year we then [year ws] else sort [year ws, year we]"
  have vd: "valid_date d" by (rule anniversary_valid [OF w(1,2) y])
  have "year ws \<le> y" "y \<le> year we"
    using safe_anniversary_date_SomeD [OF y(1)] y(2,3) by (cases ws; cases we; auto)+
  moreover have "year we \<le> year ws + 1"
  proof (rule ccontr)
    assume "\<not> year we \<le> year ws + 1"
    then have "year ws + 1 < year we" by simp
    obtain wy wm wd ey em ed where c: "ws = Date wy wm wd" "we = Date ey em ed" by (metis date.exhaust)
    have "days_before_year wy + year_length wy \<le> days_before_year (wy + 1)" by (rule days_before_year_less) simp
    moreover have "days_before_year (wy + 1) + year_length (wy + 1) \<le> days_before_year ey"
      by (rule days_before_year_less) (use \<open>year ws + 1 < year we\<close> c in simp)
    moreover have "365 \<le> year_length (wy + 1)" by (simp add: year_length_def)
    ultimately show False
      using w(3) day_of_year [of wy wm wd] day_of_year [of ey em ed] w(1,2) by (simp add: c toordinal_def)
  qed
  ultimately have mem: "y \<in> set ?ys" by auto
  have some: "first_in_window ?ys v ws we \<noteq> None" using first_in_window_None [OF _ mem y(1)] y(2,3) by blast
  then obtain d' s' where f: "first_in_window ?ys v ws we = Some (d', s')" by (metis option.exhaust surj_pair)
  obtain z where z: "safe_anniversary_date z (month v) (day v) = Some (d', s')" "ws \<le> d'" "d' \<le> we"
    using first_in_window_SomeD [OF f] by blast
  have "z = y"
    by (rule anniversary_year_unique [OF w z anniversary_valid [OF w(1,2) z] y vd])
  with y(1) z(1) f show "anniversary_in_window v ws we = Some (d, s)" by (simp add: anniversary_in_window_def)
qed

section \<open>What the dictionaries hold\<close>

definition chronicle_entries :: "anniversaries \<Rightarrow> string \<Rightarrow> anniversary_status \<Rightarrow> member_field \<Rightarrow> anniversary_entry list" where
  "chronicle_entries r org status field =
     (case map_of r org of None \<Rightarrow> []
      | Some ss \<Rightarrow> (case map_of ss status of None \<Rightarrow> []
         | Some fs \<Rightarrow> (case map_of fs field of None \<Rightarrow> [] | Some es \<Rightarrow> es)))"

lemma map_of_at_default:
  "map_of (at_default k d f kvs) k' =
     (if k' = k then Some (f (case map_of kvs k of None \<Rightarrow> d | Some v \<Rightarrow> v)) else map_of kvs k')"
  by (induction kvs) auto

lemma chronicle_append:
  "chronicle_entries (append_entry org status field e r) org' status' field' =
     chronicle_entries r org' status' field' @ (if org' = org \<and> status' = status \<and> field' = field then [e] else [])"
  by (auto simp: chronicle_entries_def append_entry_def map_of_at_default split: option.split)

lemma map_of_map_values: "map_of (map (\<lambda>(k, v). (k, g k v)) kvs) k' = map_option (g k') (map_of kvs k')"
  by (induction kvs) auto

lemma chronicle_sorted:
  "chronicle_entries (sort_entries r) org status field = sort_key ae_days_to (chronicle_entries r org status field)"
  unfolding sort_entries_def chronicle_entries_def
  by (simp add: map_of_map_values [where g = "\<lambda>k v. map (\<lambda>(s, fs). (s, map (\<lambda>(f, es). (f, sort_key ae_days_to es)) fs)) v"]
      map_of_map_values [where g = "\<lambda>k v. map (\<lambda>(f, es). (f, sort_key ae_days_to es)) v"]
      map_of_map_values [where g = "\<lambda>k v. sort_key ae_days_to v"] split: option.split)

text \<open>The entries of a field, in the order of the query.\<close>

definition field_entries ::
  "member list \<Rightarrow> member_field \<times> member_field \<Rightarrow> date \<Rightarrow> date \<times> date \<Rightarrow> string \<Rightarrow> anniversary_status \<Rightarrow> anniversary_entry list" where
  "field_entries db names given window org status =
     concat (map (\<lambda>m. case member_anniversary (fst names) given window m of
         None \<Rightarrow> [] | Some (o', s', e) \<Rightarrow> if o' = org \<and> s' = status then [e] else [])
       (filter (exact_date (fst names) (snd names)) db))"

lemma chronicle_collect:
  "chronicle_entries (collect_field_anniversaries db names given window r) org status field =
     chronicle_entries r org status field @ (if field = fst names then field_entries db names given window org status else [])"
proof -
  let ?f = "\<lambda>m r. case member_anniversary (fst names) given window m of
             None \<Rightarrow> r | Some (org, status, e) \<Rightarrow> append_entry org status (fst names) e r"
  have "chronicle_entries (fold ?f ms r) org status field = chronicle_entries r org status field @
      (if field = fst names then concat (map (\<lambda>m. case member_anniversary (fst names) given window m of
         None \<Rightarrow> [] | Some (o', s', e) \<Rightarrow> if o' = org \<and> s' = status then [e] else []) ms) else [])" for ms
    by (induction ms arbitrary: r) (auto simp: chronicle_append split: option.split)
  then show ?thesis by (simp add: collect_field_anniversaries_def field_entries_def)
qed

lemma chronicle_fold:
  assumes "distinct (map fst fs)" and "names \<in> set fs"
  shows "chronicle_entries (fold (\<lambda>n. collect_field_anniversaries db n given window) fs r) org status (fst names) =
     chronicle_entries r org status (fst names) @ field_entries db names given window org status"
  using assms
proof (induction fs arbitrary: r)
  case (Cons g gs)
  have skip: "chronicle_entries (fold (\<lambda>n. collect_field_anniversaries db n given window) hs q) org status f =
      chronicle_entries q org status f" if "f \<notin> fst ` set hs" for hs q f
    using that by (induction hs arbitrary: q) (auto simp: chronicle_collect)
  show ?case
  proof (cases "names = g")
    case True
    then have "fst names \<notin> fst ` set gs" using Cons.prems(1) by simp
    then show ?thesis by (simp add: skip chronicle_collect True)
  next
    case False
    then have "names \<in> set gs" using Cons.prems(2) by simp
    then have "names \<in> set gs" "fst names \<in> fst ` set gs" by simp_all
    moreover have "fst g \<notin> fst ` set gs" using Cons.prems(1) by simp
    ultimately have "names \<in> set gs" "fst names \<noteq> fst g" by metis+
    then show ?thesis using Cons by (simp add: chronicle_collect)
  qed
qed simp

lemma chronicle_of_field:
  assumes "compute_anniversaries db given = Inr r" and "week_window given = Inr window"
    and "names \<in> set ANNIVERSARY_FIELDS"
  shows "chronicle_entries r org status (fst names) = sort_key ae_days_to (field_entries db names given window org status)"
proof -
  have d: "distinct (map fst ANNIVERSARY_FIELDS)" by (simp add: ANNIVERSARY_FIELDS_def)
  have "r = sort_entries (fold (\<lambda>n. collect_field_anniversaries db n given window) ANNIVERSARY_FIELDS [])"
    using assms(1,2) by (simp add: compute_anniversaries_def)
  then show ?thesis
    by (simp add: chronicle_sorted chronicle_fold [OF d assms(3)]) (simp add: chronicle_entries_def)
qed

text \<open>Organisation and state under which a member is listed.\<close>

definition listed_under :: "member \<Rightarrow> string \<times> anniversary_status" where
  "listed_under m =
     (if text_or_empty m F_org_id = [] then ''vbw'' else text_or_empty m F_org_id,
      if flag_col m F_verstorben then Verstorben else Lebend)"

definition entry_for :: "date \<Rightarrow> member \<Rightarrow> date \<Rightarrow> date \<Rightarrow> bool \<Rightarrow> anniversary_entry" where
  "entry_for given m value d shifted =
     \<lparr>ae_cn = cn m, ae_date = format_date_de d, ae_years = year d - year value,
      ae_days_to = toordinal d - toordinal given, ae_leap_day_note = (if shifted then Some LEAP_DAY_NOTE else None)\<rparr>"

lemma member_anniversary_iff:
  assumes w: "valid_date ws" "valid_date we" "toordinal we = toordinal ws + 6"
  shows "member_anniversary field given (ws, we) m = Some (org, status, e) \<longleftrightarrow> listed_under m = (org, status) \<and>
    (\<exists>v y d s. date_col m field = Some v \<and> safe_anniversary_date y (month v) (day v) = Some (d, s) \<and>
       ws \<le> d \<and> d \<le> we \<and> e = entry_for given m v d s)"
proof -
  have org: "(case text_col m F_org_id of None \<Rightarrow> ''vbw'' | Some org \<Rightarrow> if org = [] then ''vbw'' else org) = fst (listed_under m)"
    by (simp add: listed_under_def text_or_empty_def split: option.split)
  show ?thesis
  proof (cases "date_col m field")
    case None
    then show ?thesis by (simp add: member_anniversary_def)
  next
    case (Some v)
    show ?thesis
    proof (cases "anniversary_in_window v ws we")
      case None
      then have "\<not> (\<exists>y d s. safe_anniversary_date y (month v) (day v) = Some (d, s) \<and> ws \<le> d \<and> d \<le> we)"
        using anniversary_in_window_iff [OF w, of v] by (metis option.distinct(1))
      then show ?thesis using Some None by (auto simp: member_anniversary_def)
    next
      case found: (Some a)
      obtain d s where a: "a = (d, s)" by (cases a)
      then have u: "(\<exists>y. safe_anniversary_date y (month v) (day v) = Some (d', s') \<and> ws \<le> d' \<and> d' \<le> we) \<longleftrightarrow> d' = d \<and> s' = s" for d' s'
        using anniversary_in_window_iff [OF w, of v d' s'] found by auto
      have "member_anniversary field given (ws, we) m = Some (org, status, e) \<longleftrightarrow>
          fst (listed_under m) = org \<and> snd (listed_under m) = status \<and> entry_for given m v d s = e"
        using Some found a unfolding member_anniversary_def entry_for_def org by (simp add: listed_under_def)
      also have "\<dots> \<longleftrightarrow> listed_under m = (org, status) \<and> (\<exists>d' s'. (\<exists>y. safe_anniversary_date y (month v) (day v) = Some (d', s') \<and>
          ws \<le> d' \<and> d' \<le> we) \<and> e = entry_for given m v d' s')"
        unfolding u by (auto simp: prod_eq_iff)
      also have "\<dots> \<longleftrightarrow> listed_under m = (org, status) \<and> (\<exists>va y d s. Some v = Some va \<and>
          safe_anniversary_date y (month va) (day va) = Some (d, s) \<and> ws \<le> d \<and> d \<le> we \<and> e = entry_for given m va d s)"
        by (simp only: option.inject simp_thms) blast
      finally show ?thesis unfolding Some .
    qed
  qed
qed

text \<open>C33: The chronicle of a week lists, under organisation, state and kind, exactly the members with an exact
  date who have an anniversary in some year that falls in the week, a leap day counting as the 28th of
  February in a year without one, the nearest first.\<close>
theorem chronicle_is_complete:
  assumes given: "valid_date given" and res: "compute_anniversaries db given = Inr r"
    and win: "week_window given = Inr (ws, we)" and names: "(field, accuracy) \<in> set ANNIVERSARY_FIELDS"
  shows "(e \<in> set (chronicle_entries r org status field) \<longleftrightarrow>
      (\<exists>m \<in> set db. exact_date field accuracy m \<and> listed_under m = (org, status) \<and>
        (\<exists>v y d s. date_col m field = Some v \<and> safe_anniversary_date y (month v) (day v) = Some (d, s) \<and>
           ws \<le> d \<and> d \<le> we \<and> e = entry_for given m v d s))) \<and>
    sorted (map ae_days_to (chronicle_entries r org status field))"
proof -
  note w = week_window_InrD [OF given win]
  have c: "chronicle_entries r org status field = sort_key ae_days_to (field_entries db (field, accuracy) given (ws, we) org status)"
    using chronicle_of_field [OF res win names] by simp
  have "e \<in> set (field_entries db (field, accuracy) given (ws, we) org status) \<longleftrightarrow>
      (\<exists>m \<in> set db. exact_date field accuracy m \<and> member_anniversary field given (ws, we) m = Some (org, status, e))"
    by (auto simp: field_entries_def split: option.splits if_split_asm)
  then show ?thesis unfolding c member_anniversary_iff [OF w(1,2,4)] by auto
qed

definition jubilarian :: member where
  "jubilarian = \<lparr>member_id = 1, columns = (\<lambda>_. PNone)(F_vorname := PStr ''Max'', F_nachname := PStr ''Huber'',
       F_geburtsdatum := PDate (Date 1984 2 29), F_geburtsdatum_accuracy := PInt 3),
     member_roles = [], member_badges = [], member_keys = []\<rparr>"

lemma chronicle_is_complete_witness:
  "entry_for (Date 2025 2 18) jubilarian (Date 1984 2 29) (Date 2025 2 28) True \<in>
     set (chronicle_entries (sort_entries (append_entry ''vbw'' Lebend F_geburtsdatum
       (entry_for (Date 2025 2 18) jubilarian (Date 1984 2 29) (Date 2025 2 28) True) [])) ''vbw'' Lebend F_geburtsdatum)"
proof -
  let ?e = "entry_for (Date 2025 2 18) jubilarian (Date 1984 2 29) (Date 2025 2 28) True"
  have win: "week_window (Date 2025 2 18) = Inr (Date 2025 2 24, Date 2025 3 2)" by code_simp
  have given: "valid_date (Date 2025 2 18)" by code_simp
  have res: "compute_anniversaries [jubilarian] (Date 2025 2 18) =
      Inr (sort_entries (append_entry ''vbw'' Lebend F_geburtsdatum ?e []))"
    by code_simp
  have names: "(F_geburtsdatum, F_geburtsdatum_accuracy) \<in> set ANNIVERSARY_FIELDS" by (simp add: ANNIVERSARY_FIELDS_def)
  have m: "exact_date F_geburtsdatum F_geburtsdatum_accuracy jubilarian" "listed_under jubilarian = (''vbw'', Lebend)"
    "date_col jubilarian F_geburtsdatum = Some (Date 1984 2 29)"
    "safe_anniversary_date 2025 (month (Date 1984 2 29)) (day (Date 1984 2 29)) = Some (Date 2025 2 28, True)"
    "Date 2025 2 24 \<le> Date 2025 2 28" "Date 2025 2 28 \<le> Date 2025 3 2"
    by code_simp+
  have "\<exists>v y d s. date_col jubilarian F_geburtsdatum = Some v \<and> safe_anniversary_date y (month v) (day v) = Some (d, s) \<and>
      Date 2025 2 24 \<le> d \<and> d \<le> Date 2025 3 2 \<and> ?e = entry_for (Date 2025 2 18) jubilarian v d s"
    by (intro exI conjI) (rule m(3), rule m(4), rule m(5), rule m(6), rule refl)
  then show ?thesis
    using m(1,2) unfolding chronicle_is_complete [OF given res win names, THEN conjunct1] by simp
qed

end
