(* ===== verification/Register_Images.thy ===== *)
theory Register_Images
  imports Register_Entries Public_Gallery
begin

text \<open>
  The images of members and contacts: \<open>app/models/standesdb_image.py\<close> and
  \<open>app/services/image_service.py\<close>. An upload checks against one state of the table and is committed
  to another, later one: between the two, other requests may have been committed. Image scaling,
  SHA-256 and the signing of links are parameters; the object store is returned also on failure,
  because nothing rolls it back.
\<close>

section \<open>Rows\<close>

record person_image =
  pi_id :: uuid
  pi_owner_member_id :: "uuid option"
  pi_owner_contact_id :: "uuid option"
  pi_extension :: "string option"
  pi_type :: "string option"
  pi_size :: "nat option"
  pi_height :: "nat option"
  pi_width :: "nat option"
  pi_sha256_hash :: string
  pi_description :: "string option"
  pi_is_default :: bool
  pi_created_by :: "uuid option"
  pi_created_at :: instant
  pi_updated_at :: "instant option"
  pi_deleted_at :: "instant option"

definition active :: "person_image \<Rightarrow> bool" where
  "active i \<longleftrightarrow> pi_deleted_at i = None"

definition person_image_check :: "person_image \<Rightarrow> bool" where
  "person_image_check i \<longleftrightarrow> pi_width i \<noteq> Some 0 \<and> pi_height i \<noteq> Some 0 \<and>
     (pi_owner_member_id i \<noteq> None \<and> pi_owner_contact_id i = None \<or>
      pi_owner_member_id i = None \<and> pi_owner_contact_id i \<noteq> None)"

text \<open>
  The partial unique indexes: no two active rows of one member, or of one contact, with the same
  hash, and no two that are the default.
\<close>

definition same_owner :: "person_image \<Rightarrow> person_image \<Rightarrow> bool" where
  "same_owner i j \<longleftrightarrow>
     pi_owner_member_id i \<noteq> None \<and> pi_owner_member_id i = pi_owner_member_id j \<or>
     pi_owner_contact_id i \<noteq> None \<and> pi_owner_contact_id i = pi_owner_contact_id j"

definition clash :: "person_image \<Rightarrow> person_image \<Rightarrow> bool" where
  "clash i j \<longleftrightarrow> active i \<and> active j \<and> same_owner i j \<and>
     (pi_sha256_hash i = pi_sha256_hash j \<or> pi_is_default i \<and> pi_is_default j)"

fun pairwise_apart :: "person_image list \<Rightarrow> bool" where
  "pairwise_apart [] = True"
| "pairwise_apart (i # js) = (list_all (\<lambda>j. \<not> clash i j) js \<and> pairwise_apart js)"

definition images_ok :: "person_image list \<Rightarrow> bool" where
  "images_ok db \<longleftrightarrow> distinct (map pi_id db) \<and> list_all person_image_check db \<and> pairwise_apart db"

text \<open>\<open>StandesdbImage.owner_type\<close> and \<open>owner_id\<close>\<close>

definition image_owner_type :: "person_image \<Rightarrow> string" where
  "image_owner_type i = (if pi_owner_member_id i \<noteq> None then ''member'' else ''contact'')"

definition image_owner_id :: "person_image \<Rightarrow> exc + uuid" where
  "image_owner_id i =
     (case pi_owner_member_id i of
        Some m \<Rightarrow> Inr m
      | None \<Rightarrow> (case pi_owner_contact_id i of Some c \<Rightarrow> Inr c | None \<Rightarrow> Inl ValueError))"

text \<open>\<open>default_image\<close> of a member or a contact: the default among the active images, or else the first.\<close>

definition default_image :: "person_image list \<Rightarrow> uuid option" where
  "default_image imgs =
     (case List.find (\<lambda>i. pi_is_default i \<and> active i) imgs of
        Some i \<Rightarrow> Some (pi_id i)
      | None \<Rightarrow> map_option pi_id (List.find active imgs))"

section \<open>Looking up\<close>

definition owner_filter :: "string \<Rightarrow> uuid \<Rightarrow> exc + (person_image \<Rightarrow> bool)" where
  "owner_filter owner_type k =
     (if owner_type = ''member'' then Inr (\<lambda>i. pi_owner_member_id i = Some k)
      else if owner_type = ''contact'' then Inr (\<lambda>i. pi_owner_contact_id i = Some k)
      else Inl ValueError)"

definition active_images :: "person_image list \<Rightarrow> string \<Rightarrow> uuid \<Rightarrow> exc + person_image list" where
  "active_images db owner_type k =
     bind_res (owner_filter owner_type k) (\<lambda>own. Inr (filter (\<lambda>i. own i \<and> active i) db))"

definition refuse_duplicate :: "person_image list \<Rightarrow> string \<Rightarrow> exc + unit" where
  "refuse_duplicate actives h =
     (if \<exists>i \<in> set actives. pi_sha256_hash i = h
      then Inl (refused ''Dieses Bild ist bereits vorhanden.'') else Inr ())"

definition get_image_record :: "person_image list \<Rightarrow> string \<Rightarrow> uuid \<Rightarrow> uuid \<Rightarrow> exc + person_image" where
  "get_image_record db owner_type k image_id =
     bind_res (owner_filter owner_type k) (\<lambda>own.
       row_or_404 ''Bild nicht gefunden.'' (List.find (\<lambda>i. pi_id i = image_id \<and> own i \<and> active i) db))"

text \<open>The same for a download; closing the session changes nothing here.\<close>

definition get_image_for_serving :: "person_image list \<Rightarrow> string \<Rightarrow> uuid \<Rightarrow> uuid \<Rightarrow> exc + person_image" where
  "get_image_for_serving = get_image_record"

definition get_images_for_owner :: "person_image list \<Rightarrow> string \<Rightarrow> uuid \<Rightarrow> exc + person_image list" where
  "get_images_for_owner db owner_type k =
     bind_res (owner_filter owner_type k) (\<lambda>own. Inr (sort_key pi_id (filter (\<lambda>i. own i \<and> active i) db)))"

record image_list_item =
  ili_id :: uuid
  ili_type :: "string option"
  ili_height :: "nat option"
  ili_width :: "nat option"
  ili_size :: "nat option"
  ili_description :: "string option"
  ili_default :: bool

definition ImageListItem :: "person_image \<Rightarrow> image_list_item" where
  "ImageListItem i =
     \<lparr>ili_id = pi_id i, ili_type = pi_type i, ili_height = pi_height i, ili_width = pi_width i,
      ili_size = pi_size i, ili_description = pi_description i, ili_default = pi_is_default i\<rparr>"

text \<open>
  The owner's part of the answer: type, id, name, organisation and default image; \<open>imgs\<close> are the
  rows the relationship \<open>owner.images\<close> loads.
\<close>

record image_owner_response =
  ior_type :: string
  ior_id :: uuid
  ior_cn :: string
  ior_org_id :: "string option"
  ior_default_image :: "uuid option"

definition build_image_list_response ::
  "person_image list \<Rightarrow> string \<Rightarrow> uuid \<Rightarrow> string \<Rightarrow> string option \<Rightarrow> exc + image_owner_response \<times> image_list_item list" where
  "build_image_list_response db owner_type k name org =
     bind_res (owner_filter owner_type k) (\<lambda>own.
     bind_res (get_images_for_owner db owner_type k) (\<lambda>imgs.
     Inr (\<lparr>ior_type = owner_type, ior_id = k, ior_cn = name, ior_org_id = org,
           ior_default_image = default_image (filter own db)\<rparr>, map ImageListItem imgs)))"

section \<open>Serving\<close>

record image_env =
  ie_pil :: "string \<Rightarrow> pil_result"
  ie_sha256 :: "string \<Rightarrow> string"
  ie_thumb :: "string \<Rightarrow> string option \<Rightarrow> string option"
  ie_sign :: "presigned_request \<Rightarrow> string"
  ie_expiry :: nat
  ie_path_images :: string
  ie_path_cache :: string
  ie_id_text :: "uuid \<Rightarrow> string"

definition image_key :: "image_env \<Rightarrow> string \<Rightarrow> string" where
  "image_key ie h = ie_path_images ie @ ''/'' @ h"

definition image_cache_key :: "image_env \<Rightarrow> person_image \<Rightarrow> string" where
  "image_cache_key ie i = ie_path_cache ie @ ''/'' @ pi_sha256_hash i @ ''.v2''"

text \<open>\<open>x or default\<close> for a text that may be missing\<close>

definition or_default :: "string option \<Rightarrow> string \<Rightarrow> string" where
  "or_default x d = (case x of None \<Rightarrow> d | Some s \<Rightarrow> if s = [] then d else s)"

definition image_filename :: "image_env \<Rightarrow> person_image \<Rightarrow> exc + string" where
  "image_filename ie i =
     bind_res (image_owner_id i) (\<lambda>k.
       Inr (image_owner_type i @ ''_'' @ ie_id_text ie k @ ''_'' @ ie_id_text ie (pi_id i) @ ''.'' @
            or_default (pi_extension i) ''jpg''))"

definition original_missing :: exc where
  "original_missing = HTTPException 404 ''Originaldatei nicht gefunden.''"

record image_response =
  ir_content :: string
  ir_media_type :: string
  ir_disposition :: string

definition serve_image_download :: "image_env \<Rightarrow> person_image \<Rightarrow> storage \<Rightarrow> exc + image_response" where
  "serve_image_download ie i st =
     (case storage_download st (image_key ie (pi_sha256_hash i)) of
        Inl _ \<Rightarrow> Inl original_missing
      | Inr content \<Rightarrow>
          bind_res (image_filename ie i) (\<lambda>name.
            Inr \<lparr>ir_content = content, ir_media_type = or_default (pi_type i) ''image/jpeg'',
                 ir_disposition = ''attachment; filename*=UTF-8'' @ [CHR 0x27, CHR 0x27] @ quote ''.-_'' name\<rparr>))"

text \<open>\<open>_ensure_cache\<close>: an image that cannot be scaled gets no thumbnail, and no error.\<close>

definition ensure_cache :: "image_env \<Rightarrow> person_image \<Rightarrow> storage \<Rightarrow> exc + storage" where
  "ensure_cache ie i st =
     bind_res (storage_exists st (image_cache_key ie i)) (\<lambda>cached.
       if cached then Inr st
       else case storage_download st (image_key ie (pi_sha256_hash i)) of
           Inl _ \<Rightarrow> Inl original_missing
         | Inr data \<Rightarrow> (case ie_thumb ie data (pi_type i) of
               None \<Rightarrow> Inr st
             | Some scaled \<Rightarrow> storage_upload st (image_cache_key ie i) scaled))"

definition image_presigned_url :: "image_env \<Rightarrow> person_image \<Rightarrow> storage \<Rightarrow> bool \<Rightarrow> exc + storage \<times> string" where
  "image_presigned_url ie i st thumb =
     bind_res (if thumb then ensure_cache ie i st else Inr st) (\<lambda>st'.
     bind_res (image_filename ie i) (\<lambda>name.
       Inr (st', ie_sign ie (presigned_params (ie_expiry ie)
         (if thumb then image_cache_key ie i else image_key ie (pi_sha256_hash i)) None
         (Some name) (Some (or_default (pi_type i) ''image/jpeg''))))))"

section \<open>Uploading\<close>

definition MAX_IMAGE_SIZE :: nat where
  "MAX_IMAGE_SIZE = 5 * 1024 * 1024"

definition read_image :: "string \<Rightarrow> string" where
  "read_image file = take (MAX_IMAGE_SIZE + 1) file"

definition check_image :: "image_env \<Rightarrow> string \<Rightarrow> string option \<Rightarrow> exc + string \<times> nat \<times> nat" where
  "check_image ie content declared =
     (if MAX_IMAGE_SIZE < length content then Inl (refused ''Datei zu gross (max. 5 MB).'')
      else if (case declared of None \<Rightarrow> [] | Some t \<Rightarrow> t) \<notin> set ALLOWED_TYPES
      then Inl (refused ''Nur JPEG- und PNG-Dateien erlaubt.'')
      else case inspect_upload_image (ie_pil ie) content of
          Inl _ \<Rightarrow> Inl (refused ''Datei ist kein gueltiges Bild.'') | Inr found \<Rightarrow> Inr found)"

text \<open>
  What an upload does before its commit, on the table \<open>db\<close> it sees: the new row, and the object
  store. The row gets its id from the database.
\<close>

definition prepare_image ::
  "image_env \<Rightarrow> person_image list \<Rightarrow> storage \<Rightarrow> string \<Rightarrow> uuid \<Rightarrow> uuid \<Rightarrow> instant \<Rightarrow> string \<Rightarrow> string option \<Rightarrow>
   string option \<Rightarrow> uuid option \<Rightarrow> storage \<times> (exc + person_image)" where
  "prepare_image ie db st owner_type k new now file declared description created_by =
     (let content = read_image file; h = ie_sha256 ie content in
      case bind_res (check_image ie content declared) (\<lambda>found.
           bind_res (active_images db owner_type k) (\<lambda>actives.
           bind_res (refuse_duplicate actives h) (\<lambda>_. Inr (found, actives)))) of
        Inl e \<Rightarrow> (st, Inl e)
      | Inr ((content_type, w, ht), actives) \<Rightarrow>
          (case bind_res (storage_exists st (image_key ie h))
                  (\<lambda>there. if there then Inr st else storage_upload st (image_key ie h) content) of
             Inl e \<Rightarrow> (st, Inl e)
           | Inr st' \<Rightarrow>
               (st', Inr \<lparr>pi_id = new,
                  pi_owner_member_id = (if owner_type = ''member'' then Some k else None),
                  pi_owner_contact_id = (if owner_type = ''contact'' then Some k else None),
                  pi_extension = Some (extension_of content_type), pi_type = Some content_type,
                  pi_size = Some (length content), pi_height = Some ht, pi_width = Some w,
                  pi_sha256_hash = h, pi_description = description, pi_is_default = (length actives = 0),
                  pi_created_by = created_by, pi_created_at = now, pi_updated_at = Some now,
                  pi_deleted_at = None\<rparr>)))"

text \<open>
  The commit, on the table as it is by then. A violated index is answered like the check if the
  same file is there now, and passed on otherwise.
\<close>

definition insert_image :: "person_image \<Rightarrow> person_image list \<Rightarrow> exc + person_image list" where
  "insert_image i db =
     (if images_ok (db @ [i]) then Inr (db @ [i]) else Inl IntegrityError)"

definition commit_new_image :: "person_image list \<Rightarrow> person_image \<Rightarrow> string \<Rightarrow> uuid \<Rightarrow> exc + person_image list" where
  "commit_new_image db i owner_type k =
     (case insert_image i db of
        Inr db' \<Rightarrow> Inr db'
      | Inl e \<Rightarrow> bind_res (active_images db owner_type k) (\<lambda>actives.
                 bind_res (refuse_duplicate actives (pi_sha256_hash i)) (\<lambda>_. Inl e)))"

text \<open>\<open>upload_image\<close>: \<open>db\<close> is the table at the checks, \<open>later\<close> the one at the commit.\<close>

definition upload_person_image ::
  "image_env \<Rightarrow> person_image list \<Rightarrow> person_image list \<Rightarrow> storage \<Rightarrow> string \<Rightarrow> uuid \<Rightarrow> uuid \<Rightarrow> instant \<Rightarrow> string \<Rightarrow>
   string option \<Rightarrow> string option \<Rightarrow> uuid option \<Rightarrow> storage \<times> (exc + person_image list \<times> person_image)" where
  "upload_person_image ie db later st owner_type k new now file declared description created_by =
     (case prepare_image ie db st owner_type k new now file declared description created_by of
        (st', Inl e) \<Rightarrow> (st', Inl e)
      | (st', Inr i) \<Rightarrow> (st', bind_res (commit_new_image later i owner_type k) (\<lambda>db'. Inr (db', i))))"

section \<open>Changing and removing\<close>

definition ImageUpdateRequest :: "string option \<Rightarrow> bool \<Rightarrow> (string option \<times> bool) option" where
  "ImageUpdateRequest description set_default =
     (case description of
        None \<Rightarrow> Some (None, set_default)
      | Some d \<Rightarrow> if 100 < length d then None else Some (Some d, set_default))"

text \<open>\<open>update_image\<close>: the other images of the owner lose the flag before this one gets it.\<close>

definition sibling :: "person_image \<Rightarrow> person_image \<Rightarrow> bool" where
  "sibling i j \<longleftrightarrow>
     (if pi_owner_member_id i \<noteq> None then pi_owner_member_id j = pi_owner_member_id i
      else pi_owner_contact_id i \<noteq> None \<and> pi_owner_contact_id j = pi_owner_contact_id i)"

definition update_person_image :: "person_image list \<Rightarrow> person_image \<Rightarrow> string option \<Rightarrow> bool \<Rightarrow> exc + person_image list" where
  "update_person_image db i description set_default =
     (let db = update_where (\<lambda>j. pi_id j = pi_id i) (\<lambda>j. j\<lparr>pi_description := description\<rparr>) db;
          db = (if set_default
                then update_where (\<lambda>j. pi_id j = pi_id i) (\<lambda>j. j\<lparr>pi_is_default := True\<rparr>)
                       (update_where (\<lambda>j. sibling i j \<and> active j) (\<lambda>j. j\<lparr>pi_is_default := False\<rparr>) db)
                else db)
      in if images_ok db then Inr db else Inl IntegrityError)"

definition delete_person_image :: "person_image list \<Rightarrow> person_image \<Rightarrow> instant \<Rightarrow> person_image list" where
  "delete_person_image db i now =
     update_where (\<lambda>j. pi_id j = pi_id i) (\<lambda>j. j\<lparr>pi_deleted_at := Some now\<rparr>) db"

section \<open>The routes (\<open>app/api/router_includes/standesdb.py\<close>)\<close>

text \<open>
  The images of the signed-in member: \<open>user\<close> is the owner. Each of the three writing routes then
  tells the administrators of the organisation; the mail itself is a list of recipients.
\<close>

definition list_own_member_images ::
  "person_image list \<Rightarrow> member \<Rightarrow> exc + image_owner_response \<times> image_list_item list" where
  "list_own_member_images imgs user =
     build_image_list_response imgs ''member'' (member_id user) (cn user) (text_col user F_org_id)"

definition upload_own_member_image ::
  "image_env \<Rightarrow> environment \<Rightarrow> register_db \<Rightarrow> person_image list \<Rightarrow> person_image list \<Rightarrow> storage \<Rightarrow> member \<Rightarrow> uuid \<Rightarrow> string \<Rightarrow>
   string option \<Rightarrow> string option \<Rightarrow> storage \<times> (exc + person_image list \<times> person_image \<times> string list option)" where
  "upload_own_member_image ie rv db imgs later st user new file declared description =
     (case upload_person_image ie imgs later st ''member'' (member_id user) new (rv_now rv) file declared
             description (Some (member_id user)) of
        (st', r) \<Rightarrow> (st', map_sum (\<lambda>e. e)
           (\<lambda>(imgs', i). (imgs', i, get_own_image_changed_recipients rv db user)) r))"

definition update_own_member_image ::
  "environment \<Rightarrow> register_db \<Rightarrow> person_image list \<Rightarrow> member \<Rightarrow> uuid \<Rightarrow> string option \<Rightarrow> bool \<Rightarrow>
   exc + person_image list \<times> string list option" where
  "update_own_member_image rv db imgs user image_id description set_default =
     bind_res (or_invalid (ImageUpdateRequest description set_default)) (\<lambda>(d, def).
     bind_res (get_image_record imgs ''member'' (member_id user) image_id) (\<lambda>i.
     bind_res (update_person_image imgs i d def) (\<lambda>imgs'.
     Inr (imgs', get_own_image_changed_recipients rv db user))))"

definition delete_own_member_image ::
  "environment \<Rightarrow> register_db \<Rightarrow> person_image list \<Rightarrow> member \<Rightarrow> uuid \<Rightarrow> exc + person_image list \<times> string list option" where
  "delete_own_member_image rv db imgs user image_id =
     bind_res (get_image_record imgs ''member'' (member_id user) image_id) (\<lambda>i.
     Inr (delete_person_image imgs i (rv_now rv), get_own_image_changed_recipients rv db user))"

text \<open>The images of another member, for an administrator of the organisation.\<close>

definition upload_member_image ::
  "image_env \<Rightarrow> environment \<Rightarrow> register_db \<Rightarrow> person_image list \<Rightarrow> person_image list \<Rightarrow> storage \<Rightarrow> member \<Rightarrow> uuid \<Rightarrow> uuid \<Rightarrow> string \<Rightarrow>
   string option \<Rightarrow> string option \<Rightarrow> storage \<times> (exc + person_image list \<times> person_image)" where
  "upload_member_image ie rv db imgs later st user k new file declared description =
     (case get_member_for_org_admin rv db k user of
        Inl e \<Rightarrow> (st, Inl e)
      | Inr _ \<Rightarrow> upload_person_image ie imgs later st ''member'' k new (rv_now rv) file declared description
                  (Some (member_id user)))"

definition update_member_image ::
  "environment \<Rightarrow> register_db \<Rightarrow> person_image list \<Rightarrow> member \<Rightarrow> uuid \<Rightarrow> uuid \<Rightarrow> string option \<Rightarrow> bool \<Rightarrow> exc + person_image list" where
  "update_member_image rv db imgs user k image_id description set_default =
     bind_res (or_invalid (ImageUpdateRequest description set_default)) (\<lambda>(d, def).
     bind_res (get_member_for_org_admin rv db k user) (\<lambda>_.
     bind_res (get_image_record imgs ''member'' k image_id) (\<lambda>i. update_person_image imgs i d def)))"

definition delete_member_image ::
  "environment \<Rightarrow> register_db \<Rightarrow> person_image list \<Rightarrow> member \<Rightarrow> uuid \<Rightarrow> uuid \<Rightarrow> exc + person_image list" where
  "delete_member_image rv db imgs user k image_id =
     bind_res (get_member_for_org_admin rv db k user) (\<lambda>_.
     bind_res (get_image_record imgs ''member'' k image_id) (\<lambda>i. Inr (delete_person_image imgs i (rv_now rv))))"

text \<open>
  The images of a contact, for who keeps the contacts. Only the list and the upload look whether the
  contact is still there.
\<close>

definition contact_admin :: "environment \<Rightarrow> member \<Rightarrow> exc + member" where
  "contact_admin rv user =
     (if ''standesdbContactAdmin'' \<notin> permissions_of rv user
      then Inl (HTTPException 403 ''missing permission: standesdbContactAdmin'') else Inr user)"

definition upload_contact_image ::
  "image_env \<Rightarrow> environment \<Rightarrow> register_db \<Rightarrow> person_image list \<Rightarrow> person_image list \<Rightarrow> storage \<Rightarrow> member \<Rightarrow> uuid \<Rightarrow> uuid \<Rightarrow> string \<Rightarrow>
   string option \<Rightarrow> string option \<Rightarrow> storage \<times> (exc + person_image list \<times> person_image)" where
  "upload_contact_image ie rv db imgs later st user k new file declared description =
     (case bind_res (contact_admin rv user) (\<lambda>_. get_contact_or_404 db k) of
        Inl e \<Rightarrow> (st, Inl e)
      | Inr _ \<Rightarrow> upload_person_image ie imgs later st ''contact'' k new (rv_now rv) file declared description
                  (Some (member_id user)))"

definition update_contact_image ::
  "environment \<Rightarrow> person_image list \<Rightarrow> member \<Rightarrow> uuid \<Rightarrow> uuid \<Rightarrow> string option \<Rightarrow> bool \<Rightarrow> exc + person_image list" where
  "update_contact_image rv imgs user k image_id description set_default =
     bind_res (contact_admin rv user) (\<lambda>_.
     bind_res (or_invalid (ImageUpdateRequest description set_default)) (\<lambda>(d, def).
     bind_res (get_image_record imgs ''contact'' k image_id) (\<lambda>i. update_person_image imgs i d def)))"

definition delete_contact_image ::
  "environment \<Rightarrow> person_image list \<Rightarrow> member \<Rightarrow> uuid \<Rightarrow> uuid \<Rightarrow> exc + person_image list" where
  "delete_contact_image rv imgs user k image_id =
     bind_res (contact_admin rv user) (\<lambda>_.
     bind_res (get_image_record imgs ''contact'' k image_id) (\<lambda>i. Inr (delete_person_image imgs i (rv_now rv))))"

definition download_contact_image :: "image_env \<Rightarrow> person_image list \<Rightarrow> storage \<Rightarrow> uuid \<Rightarrow> uuid \<Rightarrow> exc + image_response" where
  "download_contact_image ie imgs st k image_id =
     bind_res (get_image_for_serving imgs ''contact'' k image_id) (\<lambda>i. serve_image_download ie i st)"

definition contact_image_url ::
  "image_env \<Rightarrow> person_image list \<Rightarrow> storage \<Rightarrow> uuid \<Rightarrow> uuid \<Rightarrow> bool \<Rightarrow> exc + storage \<times> string" where
  "contact_image_url ie imgs st k image_id thumb =
     bind_res (get_image_for_serving imgs ''contact'' k image_id) (\<lambda>i. image_presigned_url ie i st thumb)"

end
