(* ===== verification/Register_Image_Properties.thy ===== *)
theory Register_Image_Properties
  imports Register_Images
begin

text \<open>
  The images of members and contacts: what the unique indexes demand is kept, an image becomes the
  only default, a double click is answered like the check, and what is served is what was sent.
\<close>

section \<open>The unique indexes\<close>

lemma same_owner_sym: "same_owner i j \<longleftrightarrow> same_owner j i"
  unfolding same_owner_def by metis

lemma clash_sym: "clash i j \<longleftrightarrow> clash j i"
  unfolding clash_def using same_owner_sym by metis

lemma pairwise_apart_iff:
  "distinct (map pi_id db) \<Longrightarrow>
     pairwise_apart db \<longleftrightarrow> (\<forall>x \<in> set db. \<forall>y \<in> set db. pi_id x \<noteq> pi_id y \<longrightarrow> \<not> clash x y)"
proof (induction db)
  case (Cons a db)
  have "pi_id a \<noteq> pi_id x" if "x \<in> set db" for x using Cons.prems that by (auto simp: rev_image_eqI)
  then show ?case using Cons clash_sym by (auto simp: list_all_iff)
qed simp

lemma images_okI:
  assumes "distinct (map pi_id db)" "\<And>x. x \<in> set db \<Longrightarrow> person_image_check x"
    and "\<And>x y. x \<in> set db \<Longrightarrow> y \<in> set db \<Longrightarrow> pi_id x \<noteq> pi_id y \<Longrightarrow> \<not> clash x y"
  shows "images_ok db"
  using assms by (simp add: images_ok_def list_all_iff pairwise_apart_iff)

lemma images_okD:
  assumes "images_ok db"
  shows "distinct (map pi_id db)" and "x \<in> set db \<Longrightarrow> person_image_check x"
    and "x \<in> set db \<Longrightarrow> y \<in> set db \<Longrightarrow> pi_id x \<noteq> pi_id y \<Longrightarrow> \<not> clash x y"
  using assms by (auto simp: images_ok_def list_all_iff pairwise_apart_iff)

text \<open>A change of the rows one by one keeps the indexes if it makes no two rows clash.\<close>

lemma images_ok_map:
  assumes ok: "images_ok db" and same: "\<And>x. pi_id (g x) = pi_id x" "\<And>x. person_image_check (g x) = person_image_check x"
    and apart: "\<And>x y. x \<in> set db \<Longrightarrow> y \<in> set db \<Longrightarrow> pi_id x \<noteq> pi_id y \<Longrightarrow> clash (g x) (g y) \<Longrightarrow> clash x y"
  shows "images_ok (map g db)"
proof (rule images_okI)
  have "pi_id \<circ> g = pi_id" by (simp add: fun_eq_iff same)
  then show "distinct (map pi_id (map g db))" using images_okD(1) [OF ok] by simp
  show "person_image_check x" if "x \<in> set (map g db)" for x using that images_okD(2) [OF ok] same(2) by auto
  show "\<not> clash x y" if "x \<in> set (map g db)" "y \<in> set (map g db)" "pi_id x \<noteq> pi_id y" for x y
    using that images_okD(3) [OF ok] apart same(1) by fastforce
qed

lemma get_image_record_InrD:
  assumes "get_image_record db t k iid = Inr i"
  shows "i \<in> set db" and "pi_id i = iid" and "active i"
    and "t = ''member'' \<and> pi_owner_member_id i = Some k \<or> t = ''contact'' \<and> pi_owner_contact_id i = Some k"
proof -
  obtain own where own: "owner_filter t k = Inr own"
    and f: "List.find (\<lambda>i. pi_id i = iid \<and> own i \<and> active i) db = Some i"
    using assms by (auto simp: get_image_record_def bind_res_eq_Inr row_or_404_def split: option.split_asm)
  note s = find_SomeD [OF f]
  show "i \<in> set db" "pi_id i = iid" "active i" using s by auto
  show "t = ''member'' \<and> pi_owner_member_id i = Some k \<or> t = ''contact'' \<and> pi_owner_contact_id i = Some k"
    using own s by (auto simp: owner_filter_def split: if_split_asm)
qed

definition updated :: "person_image \<Rightarrow> string option \<Rightarrow> bool \<Rightarrow> person_image \<Rightarrow> person_image" where
  "updated i d def j =
     (let j' = (if pi_id j = pi_id i then j\<lparr>pi_description := d\<rparr> else j)
      in if def then (if pi_id j = pi_id i then j'\<lparr>pi_is_default := True\<rparr>
                      else if sibling i j \<and> active j then j'\<lparr>pi_is_default := False\<rparr> else j') else j')"

lemma updated_same [simp]:
  "pi_id (updated i d def j) = pi_id j"
  "pi_owner_member_id (updated i d def j) = pi_owner_member_id j"
  "pi_owner_contact_id (updated i d def j) = pi_owner_contact_id j"
  "pi_sha256_hash (updated i d def j) = pi_sha256_hash j"
  "active (updated i d def j) = active j"
  "person_image_check (updated i d def j) = person_image_check j"
  by (auto simp: updated_def Let_def active_def person_image_check_def)

lemma updated_default:
  "pi_is_default (updated i d def j) \<longleftrightarrow>
     (if def then pi_id j = pi_id i \<or> pi_is_default j \<and> \<not> (sibling i j \<and> active j) else pi_is_default j)"
  by (auto simp: updated_def Let_def)

lemma update_as_map: "update_person_image db i d def = (let db' = map (updated i d def) db in if images_ok db' then Inr db' else Inl IntegrityError)"
proof -
  have "update_where (\<lambda>j. pi_id j = pi_id i) (\<lambda>j. j\<lparr>pi_is_default := True\<rparr>)
      (update_where (\<lambda>j. sibling i j \<and> active j) (\<lambda>j. j\<lparr>pi_is_default := False\<rparr>)
        (update_where (\<lambda>j. pi_id j = pi_id i) (\<lambda>j. j\<lparr>pi_description := d\<rparr>) db)) = map (updated i d True) db"
    unfolding update_where_def map_map
    by (rule map_cong) (auto simp: updated_def Let_def sibling_def active_def)
  moreover have "update_where (\<lambda>j. pi_id j = pi_id i) (\<lambda>j. j\<lparr>pi_description := d\<rparr>) db = map (updated i d False) db"
    unfolding update_where_def by (rule map_cong) (auto simp: updated_def Let_def)
  ultimately show ?thesis by (cases def) (simp_all add: update_person_image_def Let_def)
qed

lemma same_owner_sibling:
  "person_image_check i \<Longrightarrow> same_owner i j \<Longrightarrow> sibling i j"
  by (auto simp: person_image_check_def same_owner_def sibling_def)

lemma update_keeps_images_ok:
  assumes ok: "images_ok db" and i: "i \<in> set db" "active i"
  shows "update_person_image db i d def = Inr (map (updated i d def) db)" and "images_ok (map (updated i d def) db)"
proof -
  have single: "x = i" if "x \<in> set db" "pi_id x = pi_id i" for x
    using that i(1) images_okD(1) [OF ok] by (auto simp: distinct_map dest: inj_onD)
  have sib: "sibling i y" if "same_owner i y" for y
    using that images_okD(2) [OF ok i(1)] same_owner_sibling by blast
  have "clash x y" if xy: "x \<in> set db" "y \<in> set db" "pi_id x \<noteq> pi_id y" and c: "clash (updated i d def x) (updated i d def y)" for x y
  proof -
    have a: "active x" "active y" "same_owner x y" and h: "pi_sha256_hash x = pi_sha256_hash y \<or>
        pi_is_default (updated i d def x) \<and> pi_is_default (updated i d def y)"
      using c by (auto simp: clash_def same_owner_def)
    have apart: "pi_id x = pi_id i \<Longrightarrow> sibling i y" "pi_id y = pi_id i \<Longrightarrow> sibling i x"
      using single [OF xy(1)] single [OF xy(2)] sib a(3) same_owner_sym by blast+
    have "pi_sha256_hash x = pi_sha256_hash y \<or> pi_is_default x \<and> pi_is_default y"
      using h apart a(1,2) xy(3) unfolding updated_default by (metis (full_types))
    with a show ?thesis by (simp add: clash_def)
  qed
  then show "images_ok (map (updated i d def) db)" by (intro images_ok_map [OF ok]) auto
  then show "update_person_image db i d def = Inr (map (updated i d def) db)" by (simp add: update_as_map)
qed

lemma delete_keeps_images_ok: "images_ok db \<Longrightarrow> images_ok (delete_person_image db i now)"
  unfolding delete_person_image_def update_where_def
  by (rule images_ok_map) (auto simp: clash_def active_def same_owner_def person_image_check_def split: if_split_asm)

lemma commit_keeps_images_ok: "commit_new_image db i t k = Inr db' \<Longrightarrow> images_ok db' \<and> db' = db @ [i]"
  by (auto simp: commit_new_image_def insert_image_def bind_res_eq_Inr split: if_split_asm)

section \<open>What the requests do\<close>

text \<open>Anything that happens to the table: uploads that checked some earlier state, changes, removals.\<close>

inductive image_step :: "image_env \<Rightarrow> person_image list \<Rightarrow> person_image list \<Rightarrow> bool" for ie where
  upload: "upload_person_image ie earlier db st t k new now f declared descr creator = (st', Inr (db', i)) \<Longrightarrow> image_step ie db db'"
| update: "get_image_record db t k iid = Inr i \<Longrightarrow> update_person_image db i descr def = Inr db' \<Longrightarrow> image_step ie db db'"
| delete: "get_image_record db t k iid = Inr i \<Longrightarrow> image_step ie db (delete_person_image db i now)"

lemma upload_commits:
  "upload_person_image ie earlier db st t k new now f declared descr creator = (st', Inr (db', i)) \<Longrightarrow>
     prepare_image ie earlier st t k new now f declared descr creator = (st', Inr i) \<and> commit_new_image db i t k = Inr db'"
  by (simp add: upload_person_image_def bind_res_eq_Inr split: prod.split_asm sum.split_asm)

lemma image_step_keeps_ok: "image_step ie db db' \<Longrightarrow> images_ok db \<Longrightarrow> images_ok db'"
proof (induction rule: image_step.induct)
  case (upload earlier db st t k new now f declared descr creator st' db' i)
  then show ?case using upload_commits commit_keeps_images_ok by blast
next
  case (update db t k iid i descr def db')
  note u = update_keeps_images_ok [OF update(3) get_image_record_InrD(1,3) [OF update(1)]]
  show ?case using update(2) u(1) [of descr "def"] u(2) [of descr "def"] by simp
next
  case (delete db t k iid i now)
  then show ?case by (intro delete_keeps_images_ok)
qed

lemma image_steps_keep_ok: "rtranclp (image_step ie) db db' \<Longrightarrow> images_ok db \<Longrightarrow> images_ok db'"
  by (induction rule: rtranclp_induct) (auto intro: image_step_keeps_ok)

lemma updated_is_default:
  assumes ok: "images_ok db" and i: "get_image_record db t k iid = Inr i" and own: "owner_filter t k = Inr own"
  shows "default_image (filter own (map (updated i descr True) db)) = Some iid"
proof -
  note r = get_image_record_InrD [OF i]
  let ?db = "map (updated i descr True) db"
  have owns: "own (updated i descr True x) = own x" for x using own by (auto simp: owner_filter_def split: if_split_asm)
  have i: "own i" using own r(4) by (auto simp: owner_filter_def split: if_split_asm)
  have sib: "sibling i x" if "own x" for x
    using own r(4) that images_okD(2) [OF ok r(1)]
    by (auto simp: owner_filter_def sibling_def person_image_check_def split: if_split_asm)
  have only: "pi_id x = iid" if "x \<in> set (filter own ?db)" "pi_is_default x" "active x" for x
    using that r(2) sib by (auto simp: owns updated_default)
  have "updated i descr True i \<in> set (filter own ?db)" using r(1) i by (simp add: owns)
  moreover have "pi_is_default (updated i descr True i)" "active (updated i descr True i)"
    using r(3) by (simp_all add: updated_default)
  ultimately obtain x where x: "List.find (\<lambda>i. pi_is_default i \<and> active i) (filter own ?db) = Some x"
    by (cases "List.find (\<lambda>i. pi_is_default i \<and> active i) (filter own ?db)") (auto simp only: find_None_iff)
  then show ?thesis
    using only [of x] find_SomeD [OF x] unfolding default_image_def x by simp
qed

text \<open>C34: However uploads, changes and removals interleave, an owner never has two images with the same
  bytes or two default images, and every image belongs to a member or to a contact, never both;
  and making an image the default never fails and leaves it the owner's default image.\<close>
theorem images_keep_one_default:
  assumes "images_ok db" and "rtranclp (image_step ie) db db'"
    and "get_image_record db' t k iid = Inr i"
  shows "images_ok db' \<and> (\<exists>db'' own. update_person_image db' i descr True = Inr db'' \<and> images_ok db'' \<and>
      owner_filter t k = Inr own \<and> default_image (filter own db'') = Some iid)"
proof -
  have ok: "images_ok db'" using image_steps_keep_ok assms(1,2) by blast
  note r = get_image_record_InrD [OF assms(3)]
  obtain own where own: "owner_filter t k = Inr own"
    using r(4) by (auto simp: owner_filter_def)
  show ?thesis
    using ok own update_keeps_images_ok [OF ok r(1,3), of descr True] updated_is_default [OF ok assms(3) own, of descr]
    by blast
qed

text \<open>A member with two images and a contact with one.\<close>

definition demo_image :: "uuid \<Rightarrow> uuid option \<Rightarrow> uuid option \<Rightarrow> string \<Rightarrow> bool \<Rightarrow> person_image" where
  "demo_image k m c h d =
     \<lparr>pi_id = k, pi_owner_member_id = m, pi_owner_contact_id = c, pi_extension = Some ''jpg'',
      pi_type = Some ''image/jpeg'', pi_size = Some 1, pi_height = Some 1, pi_width = Some 1, pi_sha256_hash = h,
      pi_description = None, pi_is_default = d, pi_created_by = None, pi_created_at = 0, pi_updated_at = None,
      pi_deleted_at = None\<rparr>"

definition demo_images :: "person_image list" where
  "demo_images = [demo_image 1 (Some 7) None ''a'' True, demo_image 2 (Some 7) None ''b'' False,
     demo_image 3 None (Some 8) ''a'' True]"

definition demo_image_env :: image_env where
  "demo_image_env =
     \<lparr>ie_pil = (\<lambda>_. Pil_Image ''JPEG'' 4 3), ie_sha256 = (\<lambda>c. c), ie_thumb = (\<lambda>c _. Some c), ie_sign = (\<lambda>_. []),
      ie_expiry = 900, ie_path_images = ''images'', ie_path_cache = ''cache'', ie_id_text = (\<lambda>_. ''k'')\<rparr>"

lemma images_keep_one_default_witness:
  "let db' = delete_person_image demo_images (demo_images ! 0) 5 in
     images_ok db' \<and> (\<exists>db'' own. update_person_image db' (demo_images ! 1) None True = Inr db'' \<and> images_ok db'' \<and>
       owner_filter ''member'' 7 = Inr own \<and> default_image (filter own db'') = Some 2)"
proof -
  have "images_ok demo_images" by code_simp
  moreover have "get_image_record demo_images ''member'' 7 1 = Inr (demo_images ! 0)" by code_simp
  then have "rtranclp (image_step demo_image_env) demo_images (delete_person_image demo_images (demo_images ! 0) 5)"
    by (blast intro: image_step.delete)
  moreover have "get_image_record (delete_person_image demo_images (demo_images ! 0) 5) ''member'' 7 2 = Inr (demo_images ! 1)"
    by code_simp
  ultimately show ?thesis unfolding Let_def by (rule images_keep_one_default)
qed

section \<open>Two uploads at once\<close>

lemma prepare_image_InrD:
  assumes "prepare_image ie db st t k new now f declared descr creator = (st', Inr i)"
  shows "pi_sha256_hash i = ie_sha256 ie (read_image f)" and "pi_deleted_at i = None"
    and "pi_owner_member_id i = (if t = ''member'' then Some k else None)"
    and "pi_owner_contact_id i = (if t = ''contact'' then Some k else None)"
    and "\<exists>own. owner_filter t k = Inr own \<and> own i \<and> pi_is_default i = (filter (\<lambda>i. own i \<and> active i) db = [])"
  using assms
  by (auto simp: prepare_image_def active_images_def bind_res_eq_Inr owner_filter_def Let_def
      split: sum.split_asm if_split_asm)

lemma images_ok_append:
  "images_ok (db @ [i]) \<longleftrightarrow> images_ok db \<and> person_image_check i \<and> pi_id i \<notin> pi_id ` set db \<and> (\<forall>j \<in> set db. \<not> clash j i)"
proof -
  have "pairwise_apart (db @ [i]) \<longleftrightarrow> pairwise_apart db \<and> (\<forall>j \<in> set db. \<not> clash j i)"
    by (induction db) (auto simp: list_all_iff)
  then show ?thesis by (auto simp: images_ok_def)
qed

text \<open>A double click uploads the same file twice for one owner, and both requests check the same table. Once the
  first is committed, the second fails: in its own checks, in the object store, or with the answer that the image
  is there already; never with an error of the database, and the table holds the file once.\<close>
theorem double_click_answered_like_the_check:
  assumes first_click: "upload_person_image ie db db st t k new now f declared descr creator = (st1, Inr (db1, i))"
    and second: "prepare_image ie db st1 t k new' now' f declared descr creator = (st2, Inr j)"
  shows "upload_person_image ie db db1 st1 t k new' now' f declared descr creator =
      (st2, Inl (refused ''Dieses Bild ist bereits vorhanden.''))"
proof -
  note u = upload_commits [OF first_click]
  note i = prepare_image_InrD [OF u [THEN conjunct1]]
  note j = prepare_image_InrD [OF second]
  have db1: "db1 = db @ [i]" using u commit_keeps_images_ok by blast
  obtain own where own: "owner_filter t k = Inr own" "own i" using i(5) by blast
  then have tk: "t = ''member'' \<or> t = ''contact''" by (auto simp: owner_filter_def split: if_split_asm)
  have "clash i j"
    using tk i(1-4) j(1-4) by (auto simp: clash_def active_def same_owner_def)
  then have "\<not> images_ok (db1 @ [j])" by (auto simp: images_ok_append db1 simp del: append_assoc append_Cons)
  moreover have "\<exists>x \<in> set db1. own x \<and> active x \<and> pi_sha256_hash x = pi_sha256_hash j"
    using own(2) i(1,2) j(1) by (auto simp: db1 active_def)
  ultimately have "commit_new_image db1 j t k = Inl (refused ''Dieses Bild ist bereits vorhanden.'')"
    by (auto simp: commit_new_image_def insert_image_def active_images_def own(1) refuse_duplicate_def)
  then show ?thesis using second by (simp add: upload_person_image_def)
qed

definition demo_bucket :: storage where
  "demo_bucket = \<lparr>objects = [], s3_fails = (\<lambda>_ _. False)\<rparr>"

lemma demo_prepare:
  "prepare_image demo_image_env db st t k new now ''x'' (Some ''image/jpeg'') None creator =
     (case bind_res (active_images db t k) (\<lambda>actives. bind_res (refuse_duplicate actives ''x'') (\<lambda>_. Inr actives)) of
        Inl e \<Rightarrow> (st, Inl e)
      | Inr actives \<Rightarrow>
          (case bind_res (storage_exists st ''images/x'') (\<lambda>there. if there then Inr st else storage_upload st ''images/x'' ''x'') of
             Inl e \<Rightarrow> (st, Inl e)
           | Inr st' \<Rightarrow>
               (st', Inr \<lparr>pi_id = new,
                  pi_owner_member_id = (if t = ''member'' then Some k else None),
                  pi_owner_contact_id = (if t = ''contact'' then Some k else None),
                  pi_extension = Some ''jpg'', pi_type = Some ''image/jpeg'', pi_size = Some 1, pi_height = Some 3,
                  pi_width = Some 4, pi_sha256_hash = ''x'', pi_description = None, pi_is_default = (actives = []),
                  pi_created_by = creator, pi_created_at = now, pi_updated_at = Some now, pi_deleted_at = None\<rparr>)))"
proof -
  have r: "read_image ''x'' = ''x''" by (simp add: read_image_def MAX_IMAGE_SIZE_def)
  have "check_image demo_image_env ''x'' (Some ''image/jpeg'') = Inr (''image/jpeg'', 4, 3)"
    by (simp add: check_image_def MAX_IMAGE_SIZE_def ALLOWED_TYPES_def inspect_upload_image_def demo_image_env_def
        IMAGE_TYPE_BY_FORMAT_def)
  moreover have "extension_of ''image/jpeg'' = ''jpg''" by code_simp
  moreover have "ie_sha256 demo_image_env ''x'' = ''x''" "image_key demo_image_env ''x'' = ''images/x''"
    by (simp_all add: demo_image_env_def image_key_def)
  ultimately show ?thesis
    by (cases "active_images db t k") (auto simp: prepare_image_def r bind_res_def split: sum.split)
qed

definition demo_sent :: "storage \<times> (exc + person_image list \<times> person_image)" where
  "demo_sent = upload_person_image demo_image_env demo_images demo_images demo_bucket ''contact'' 8 4 9 ''x'' (Some ''image/jpeg'') None None"

definition demo_row :: person_image where
  "demo_row = (demo_image 4 None (Some 8) ''x'' False)\<lparr>pi_height := Some 3, pi_width := Some 4, pi_created_at := 9, pi_updated_at := Some 9\<rparr>"

lemma demo_sent_result: "snd demo_sent = Inr (demo_images @ [demo_row], demo_row)"
  unfolding demo_sent_def upload_person_image_def demo_prepare by code_simp

lemma demo_prepared_again:
  "snd (prepare_image demo_image_env demo_images (fst demo_sent) ''contact'' 8 5 10 ''x'' (Some ''image/jpeg'') None None) =
     Inr ((demo_image 5 None (Some 8) ''x'' False)\<lparr>pi_height := Some 3, pi_width := Some 4, pi_created_at := 10, pi_updated_at := Some 10\<rparr>)"
  unfolding demo_sent_def upload_person_image_def demo_prepare by code_simp

lemma double_click_answered_like_the_check_witness:
  "snd (upload_person_image demo_image_env demo_images (demo_images @ [demo_row]) (fst demo_sent) ''contact'' 8 5 10 ''x''
      (Some ''image/jpeg'') None None) = Inl (refused ''Dieses Bild ist bereits vorhanden.'')"
proof -
  have "upload_person_image demo_image_env demo_images demo_images demo_bucket ''contact'' 8 4 9 ''x'' (Some ''image/jpeg'') None None =
      (fst demo_sent, Inr (demo_images @ [demo_row], demo_row))"
    using demo_sent_result by (simp add: prod_eq_iff flip: demo_sent_def)
  from double_click_answered_like_the_check [OF this]
  show ?thesis using demo_prepared_again by (metis prod.collapse snd_conv)
qed

text \<open>
  Two different first images sent at once: each request finds no image yet and makes its own the
  default, so the second commit violates the index on the default image; the hash is not there, and
  the violation is passed on.
\<close>

lemma two_first_images_at_once_fail:
  "snd (upload_person_image demo_image_env [] [demo_image 4 (Some 7) None ''y'' True] demo_bucket ''member'' 7 5 10 ''x''
     (Some ''image/jpeg'') None None) = Inl IntegrityError"
  unfolding upload_person_image_def demo_prepare by code_simp

end
