(* ===== verification/P4x_Responses.thy ===== *)
theory P4x_Responses
  imports P4x_Import P4x_Fees P4x_Categories P4x_Partners Public_Routes
begin

text \<open>
  What the ledger takes and gives: the request models of \<open>app/schemas/p4x.py\<close> and
  \<open>app/services/p4x_response_builders.py\<close>. A body is a typed JSON value; a validated one is
  \<open>Some\<close>. Amounts stay exact decimals, the conversion to a float happens in the JSON writer. The
  identifier of a direct assignment is not part of the model of its row and so not of a response.
\<close>

section \<open>Request models\<close>

text \<open>\<open>\w\<close> on the first 256 code points\<close>

definition is_word :: "char \<Rightarrow> bool" where
  "is_word c \<longleftrightarrow> is_alnum_ascii c \<or> c = CHR ''_'' \<or>
     of_char c \<in> {170, 178, 179, 181, 185, 186, 188, 189, 190 :: nat} \<or>
     in_chars 192 214 c \<or> in_chars 216 246 c \<or> in_chars 248 255 c"

text \<open>\<open>IBAN_REGEX\<close>, \<open>BIC_REGEX\<close>, \<open>FILTER_IBAN_REGEX\<close> and \<open>HEX_COLOR_REGEX\<close>, each as a full match\<close>

definition iban_form :: "string \<Rightarrow> bool" where
  "iban_form s \<longleftrightarrow> 8 \<le> length s \<and> list_all is_upper_ascii (take 2 s) \<and>
     list_all is_digit (take 2 (drop 2 s)) \<and> list_all is_word (drop 4 s)"

definition bic_form :: "string \<Rightarrow> bool" where
  "bic_form s \<longleftrightarrow> 1 \<le> length s \<and> length s \<le> 11 \<and> list_all is_alnum_ascii s"

definition filter_iban_form :: "string \<Rightarrow> bool" where
  "filter_iban_form s \<longleftrightarrow> 20 \<le> length s \<and> length s \<le> 25 \<and>
     list_all (\<lambda>c. in_chars 65 90 c \<or> in_chars 97 122 c) (take 2 s) \<and>
     list_all (\<lambda>c. in_chars 48 57 c \<or> c = CHR '' '') (drop 2 s)"

definition hex_color_form :: "string \<Rightarrow> bool" where
  "hex_color_form s \<longleftrightarrow> (length s = 4 \<or> length s = 7) \<and> take 1 s = ''#'' \<and>
     list_all (\<lambda>c. in_chars 48 57 c \<or> in_chars 97 102 c \<or> in_chars 65 70 c) (drop 1 s)"

text \<open>A decimal of at most twelve digits, two of them after the point, within bounds.\<close>

definition money_field :: "decimal \<Rightarrow> decimal \<Rightarrow> decimal \<Rightarrow> bool" where
  "money_field lo hi x \<longleftrightarrow> lo \<le> x \<and> x \<le> hi \<and> \<lfloor>x * 100\<rfloor> = \<lceil>x * 100\<rceil> \<and> \<bar>x\<bar> < 10 ^ 10"

definition MAX_MONEY :: decimal where
  "MAX_MONEY = 999999999"

definition AccountSaveRequest :: "date \<Rightarrow> account_request \<Rightarrow> account_request option" where
  "AccountSaveRequest today r =
     (if length (req_iban r) \<le> 34 \<and> iban_form (normalized_iban (req_iban r)) \<and>
         length (req_bic r) \<le> 11 \<and> bic_form (req_bic r) \<and> length (req_label r) \<le> 32 \<and>
         Date 2015 1 1 \<le> req_init_date r \<and> req_init_date r \<le> today \<and> valid_date (req_init_date r) \<and>
         money_field (- MAX_MONEY) MAX_MONEY (req_init_balance r)
      then Some r else None)"

definition CategorySaveRequest :: "category_request \<Rightarrow> category_request option" where
  "CategorySaveRequest r =
     (if length (creq_name r) \<le> 64 \<and> length (creq_label r) \<le> 32 \<and>
         hex_color_form (creq_background_color r) \<and> hex_color_form (creq_text_color r)
      then Some r else None)"

definition opt_all :: "('a \<Rightarrow> bool) \<Rightarrow> 'a option \<Rightarrow> bool" where
  "opt_all P x \<longleftrightarrow> (case x of None \<Rightarrow> True | Some v \<Rightarrow> P v)"

definition CategoryFilterSaveRequest :: "filter_request \<Rightarrow> filter_request option" where
  "CategoryFilterSaveRequest r =
     (if length (freq_name r) \<le> 64 \<and> opt_all (\<lambda>s. s = [] \<or> filter_iban_form s) (freq_iban r) \<and>
         opt_all (money_field (- MAX_MONEY) MAX_MONEY) (freq_min_amount r) \<and>
         opt_all (money_field (- MAX_MONEY) MAX_MONEY) (freq_max_amount r) \<and>
         opt_all (\<lambda>s. length s \<le> 400) (freq_subject r)
      then Some r else None)"

definition FeeCreateRequest :: "int \<Rightarrow> int \<Rightarrow> decimal \<Rightarrow> (int \<times> int \<times> decimal) option" where
  "FeeCreateRequest y m fee =
     (if 2015 \<le> y \<and> y \<le> 2100 \<and> 1 \<le> m \<and> m \<le> 12 \<and> money_field 10 200 fee then Some (y, m, fee) else None)"

definition FeeMemberUpdateRequest ::
  "date \<Rightarrow> decimal \<Rightarrow> bool \<Rightarrow> string option \<Rightarrow> fee_member_update option" where
  "FeeMemberUpdateRequest init_date init_balance is_freed comment =
     (if Date 1900 1 1 \<le> init_date \<and> valid_date init_date \<and> money_field (- MAX_MONEY) MAX_MONEY init_balance \<and>
         opt_all (\<lambda>s. length s \<le> 250) comment
      then Some \<lparr>upd_init_date = PDate init_date, upd_init_balance = Some init_balance,
                 upd_freed = Some is_freed, upd_comment = comment\<rparr>
      else None)"

text \<open>\<open>PartnerRefInput\<close>: the name that is sent along is ignored.\<close>

definition PartnerRefInput :: "string \<Rightarrow> uuid \<Rightarrow> string option \<Rightarrow> (string \<times> uuid) option" where
  "PartnerRefInput t k name = (if partner_type_of_text t = None then None else Some (t, k))"

definition SummaryOrderRequest :: "date \<Rightarrow> date \<Rightarrow> date \<Rightarrow> (date \<times> date) option" where
  "SummaryOrderRequest today s e =
     (if Date 2015 1 1 \<le> s \<and> valid_date s \<and> e \<le> today \<and> valid_date e then Some (s, e) else None)"

section \<open>Rows by id\<close>

definition get_account_or_404 :: "p4x_db \<Rightarrow> uuid \<Rightarrow> exc + p4x_account" where
  "get_account_or_404 db k =
     row_or_404 ''Konto nicht gefunden.'' (List.find (\<lambda>a. acc_id a = k \<and> acc_active a) (accounts db))"

definition get_transaction_for_account :: "p4x_db \<Rightarrow> uuid \<Rightarrow> uuid \<Rightarrow> exc + p4x_transaction" where
  "get_transaction_for_account db account_id k =
     bind_res (get_account_or_404 db account_id) (\<lambda>account.
       row_or_404 ''Transaktion nicht gefunden.''
         (List.find (\<lambda>tx. tx_id tx = k \<and> tx_account_id tx = acc_id account \<and> tx_active tx) (transactions db)))"

definition get_transaction_or_404 :: "p4x_db \<Rightarrow> uuid \<Rightarrow> exc + p4x_transaction" where
  "get_transaction_or_404 db k =
     row_or_404 ''Transaktion nicht gefunden.'' (List.find (\<lambda>tx. tx_id tx = k \<and> tx_active tx) (transactions db))"

definition get_filter_or_404 :: "p4x_db \<Rightarrow> uuid \<Rightarrow> exc + p4x_category_filter" where
  "get_filter_or_404 db k = row_or_404 ''Filter nicht gefunden.'' (get_by cf_id (category_filters db) k)"

definition get_ledger_member_or_404 :: "p4x_db \<Rightarrow> uuid \<Rightarrow> exc + member" where
  "get_ledger_member_or_404 db k = row_or_404 ''Mitglied nicht gefunden.'' (get_by member_id (members db) k)"

definition get_category_or_404 :: "p4x_db \<Rightarrow> uuid \<Rightarrow> exc + p4x_category" where
  "get_category_or_404 db k = row_or_404 ''Kategorie nicht gefunden.'' (get_by cat_id (categories db) k)"

section \<open>Transactions\<close>

record partner_ref =
  pref_type :: string
  pref_id :: uuid
  pref_cn :: string

record filter_response =
  fr_filter :: p4x_category_filter
  fr_account_label :: "string option"
  fr_hitCount :: nat

record transaction_response =
  tr_id :: uuid
  tr_booking :: string
  tr_valuation :: string
  tr_iban :: string
  tr_amount :: decimal
  tr_subject :: string
  tr_account_id :: uuid
  tr_account_cn :: string
  tr_account_iban :: string
  tr_comment :: "string option"
  tr_has_attachment :: bool
  tr_partner :: "partner_ref option"
  tr_delegating_partner :: "partner_ref option"
  tr_category_directs :: "(uuid \<times> decimal) list"
  tr_category_filters :: "filter_response list"

text \<open>\<open>_filter_hit_counts\<close>: the filters without a hit have no entry.\<close>

definition filter_hit_counts :: "p4x_db \<Rightarrow> uuid set \<Rightarrow> (uuid \<times> nat) list" where
  "filter_hit_counts db ids =
     map (\<lambda>i. (i, length (filter (\<lambda>h. hit_filter_id h = i) (filter_hits db))))
       (remdups (filter (\<lambda>i. i \<in> ids) (map hit_filter_id (filter_hits db))))"

type_synonym entities = "((string \<times> uuid) \<times> partner_entity) list"

definition entity_cn :: "partner_entity \<Rightarrow> string" where
  "entity_cn e = (case e of EMember m \<Rightarrow> cn m | EContact c \<Rightarrow> contact_cn c
     | EAccount a \<Rightarrow> account_cn a | ESpecial s \<Rightarrow> special_cn s)"

text \<open>A dictionary with repeated keys holds the last value.\<close>

definition entity_of :: "entities \<Rightarrow> string \<Rightarrow> uuid \<Rightarrow> partner_entity option" where
  "entity_of es t k = map_of (rev es) (t, k)"

definition partner_ref_of :: "partner_type option \<Rightarrow> uuid option \<Rightarrow> entities \<Rightarrow> partner_ref option" where
  "partner_ref_of ptype pid es =
     (case (ptype, pid) of
        (Some t, Some k) \<Rightarrow>
          map_option (\<lambda>e. \<lparr>pref_type = partner_type_text t, pref_id = k, pref_cn = entity_cn e\<rparr>)
            (entity_of es (partner_type_text t) k)
      | _ \<Rightarrow> None)"

definition own_partner_ref :: "p4x_db \<Rightarrow> p4x_transaction \<Rightarrow> entities \<Rightarrow> exc + partner_ref option" where
  "own_partner_ref db tx es =
     (case tx_partner db tx of
        None \<Rightarrow> Inr None
      | Some p \<Rightarrow> if partner_active p
          then bind_res (partner_type_of p) (\<lambda>t. bind_res (partner_id_of p) (\<lambda>k. Inr (partner_ref_of (Some t) (Some k) es)))
          else Inr None)"

text \<open>The label of the account of a filter, and the account of a transaction; deleted ones included.\<close>

definition account_label :: "p4x_db \<Rightarrow> uuid \<Rightarrow> string option" where
  "account_label db k = Option.bind (get_by acc_id (accounts db) k) acc_label"

text \<open>The filters of the stored hits of a transaction; the foreign key keeps a hit without filter out.\<close>

definition hit_filters :: "p4x_db \<Rightarrow> p4x_transaction \<Rightarrow> p4x_category_filter list" where
  "hit_filters db tx =
     map (\<lambda>h. the (get_by cf_id (category_filters db) (hit_filter_id h)))
       (filter (\<lambda>h. hit_tx_id h = tx_id tx \<and> get_by cf_id (category_filters db) (hit_filter_id h) \<noteq> None) (filter_hits db))"

definition build_one_response ::
  "p4x_db \<Rightarrow> p4x_transaction \<Rightarrow> entities \<Rightarrow> (uuid \<times> nat) list \<Rightarrow> exc + transaction_response" where
  "build_one_response db tx es counts =
     bind_res (own_partner_ref db tx es) (\<lambda>partner.
     Inr \<lparr>tr_id = tx_id tx, tr_booking = isoformat (booking tx), tr_valuation = isoformat (valuation tx),
          tr_iban = tx_iban tx, tr_amount = amount tx, tr_subject = subject tx, tr_account_id = tx_account_id tx,
          tr_account_cn = (case get_by acc_id (accounts db) (tx_account_id tx) of None \<Rightarrow> [] | Some a \<Rightarrow> account_cn a),
          tr_account_iban = (case get_by acc_id (accounts db) (tx_account_id tx) of None \<Rightarrow> [] | Some a \<Rightarrow> acc_iban a),
          tr_comment = tx_comment tx, tr_has_attachment = has_attachment tx, tr_partner = partner,
          tr_delegating_partner = partner_ref_of (delegating_partner_type tx) (delegating_partner_id tx) es,
          tr_category_directs = map (\<lambda>d. (cd_category_id d, cd_amount d))
            (filter (\<lambda>d. cd_tx_id d = tx_id tx \<and> direct_active d) (category_directs db)),
          tr_category_filters = map (\<lambda>f. \<lparr>fr_filter = f, fr_account_label = account_label db (cf_account_id f),
              fr_hitCount = (case map_of counts (cf_id f) of None \<Rightarrow> 0 | Some n \<Rightarrow> n)\<rparr>) (hit_filters db tx)\<rparr>)"

definition build_transaction_responses :: "p4x_db \<Rightarrow> p4x_transaction list \<Rightarrow> exc + transaction_response list" where
  "build_transaction_responses db txs =
     bind_res (map_res (transaction_partner_refs db) txs) (\<lambda>refs.
     let es = find_partner_entities db (concat refs);
         counts = filter_hit_counts db
           (hit_filter_id ` set (filter (\<lambda>h. hit_tx_id h \<in> tx_id ` set txs) (filter_hits db)))
     in map_res (\<lambda>tx. build_one_response db tx es counts) txs)"

definition build_transaction_response :: "p4x_db \<Rightarrow> p4x_transaction \<Rightarrow> exc + transaction_response" where
  "build_transaction_response db tx =
     bind_res (build_transaction_responses db [tx]) (\<lambda>rs. Inr (hd rs))"

text \<open>A transaction a service just changed is read again first.\<close>

definition build_refreshed_transaction_response :: "p4x_db \<Rightarrow> p4x_transaction \<Rightarrow> exc + transaction_response" where
  "build_refreshed_transaction_response db tx =
     bind_res (row_or_404 [] (get_by tx_id (transactions db) (tx_id tx))) (build_transaction_response db)"

definition update_transaction_and_build_response ::
  "p4x_db \<Rightarrow> p4x_transaction \<Rightarrow> string option \<Rightarrow> nat list option \<Rightarrow> bool \<Rightarrow> p4x_db \<times> (exc + transaction_response)" where
  "update_transaction_and_build_response db tx comment file_bytes delete_attachment =
     (case update_transaction_meta db tx comment file_bytes delete_attachment of
        (db', tx') \<Rightarrow> (db', build_refreshed_transaction_response db' tx'))"

section \<open>Accounts, categories, filters, fees\<close>

record account_response =
  ar_id :: uuid
  ar_iban :: string
  ar_bic :: "string option"
  ar_label :: "string option"
  ar_init_date :: "string option"
  ar_init_balance :: decimal
  ar_balance :: decimal
  ar_transactions_count :: nat
  ar_transactions_latest :: "string option"

definition build_account_response :: "p4x_db \<Rightarrow> date \<Rightarrow> p4x_account \<Rightarrow> account_response" where
  "build_account_response db today a =
     \<lparr>ar_id = acc_id a, ar_iban = acc_iban a, ar_bic = acc_bic a, ar_label = acc_label a,
      ar_init_date = map_option isoformat (acc_init_date a), ar_init_balance = acc_init_balance a,
      ar_balance = get_account_balance db today a None, ar_transactions_count = length (account_txs db a),
      ar_transactions_latest =
        (case sort_desc booking (account_txs db a) of [] \<Rightarrow> None | tx # _ \<Rightarrow> Some (isoformat (booking tx)))\<rparr>"

definition build_category_response :: "p4x_db \<Rightarrow> p4x_category \<Rightarrow> p4x_category \<times> nat \<times> nat" where
  "build_category_response db c = (c, get_category_usage db c)"

definition build_filter_response :: "p4x_db \<Rightarrow> p4x_category_filter \<Rightarrow> filter_response" where
  "build_filter_response db f =
     \<lparr>fr_filter = f, fr_account_label = account_label db (cf_account_id f), fr_hitCount = get_filter_hit_count db f\<rparr>"

record fee_response =
  fee_r_start :: string
  fee_r_fee :: decimal
  fee_r_protected :: bool

definition build_fee_response :: "p4x_fee \<Rightarrow> fee_response" where
  "build_fee_response f =
     \<lparr>fee_r_start = isoformat (first_of_month (fee_start f)), fee_r_fee = fee_amount f, fee_r_protected = fee_protected f\<rparr>"

text \<open>
  \<open>FeeMemberSelfResponse\<close> is the part a member may see, \<open>FeeMemberResponse\<close> adds the comment. The
  balance is passed through field by field.
\<close>

record fee_member_self_response =
  fm_id :: uuid
  fm_cn :: string
  fm_init_date :: "string option"
  fm_init_balance :: "decimal option"
  fm_freed :: bool
  fm_balance :: "fee_balance_result option"

record fee_member_response = fee_member_self_response +
  fm_comment :: "string option"

definition build_fee_member_response :: "p4x_db \<Rightarrow> date \<Rightarrow> member \<Rightarrow> exc + fee_member_response" where
  "build_fee_member_response db today m =
     bind_res (calculate_fee_balance db today m None None) (\<lambda>balance.
     Inr \<lparr>fm_id = member_id m, fm_cn = cn m,
          fm_init_date = map_option (\<lambda>d. isoformat (first_of_month d)) (init_date_of m),
          fm_init_balance = dec_col m F_p4x_init_balance, fm_freed = freed m, fm_balance = balance,
          fm_comment = text_col m F_p4x_comment\<rparr>)"

definition build_refreshed_fee_member_response :: "p4x_db \<Rightarrow> date \<Rightarrow> member \<Rightarrow> exc + fee_member_response" where
  "build_refreshed_fee_member_response db today m =
     bind_res (row_or_404 [] (get_by member_id (members db) (member_id m))) (build_fee_member_response db today)"

text \<open>\<open>FeeMemberSelfResponse.model_validate(full)\<close>\<close>

definition FeeMemberSelfResponse :: "fee_member_response \<Rightarrow> fee_member_self_response" where
  "FeeMemberSelfResponse r =
     \<lparr>fm_id = fm_id r, fm_cn = fm_cn r, fm_init_date = fm_init_date r, fm_init_balance = fm_init_balance r,
      fm_freed = fm_freed r, fm_balance = fm_balance r\<rparr>"

end
