(* ===== verification/P4x_Summary.thy ===== *)
theory P4x_Summary
  imports P4x_Responses
begin

text \<open>
  \<open>app/services/p4x_summary_service.py\<close>: the balance of the card terminal, the values of the
  workbooks (the summary of a period and the statement of a member) and the attachments that go
  with them. Fonts, colours, number formats and widths of the cells are not part of the model;
  \<open>openpyxl\<close> writes the file.
\<close>

section \<open>Base64\<close>

definition b64_value :: "char \<Rightarrow> nat option" where
  "b64_value c =
     (let n = of_char c in
      if 65 \<le> n \<and> n \<le> 90 then Some (n - 65) else if 97 \<le> n \<and> n \<le> 122 then Some (n - 71)
      else if 48 \<le> n \<and> n \<le> 57 then Some (n + 4) else if n = 43 then Some 62 else if n = 47 then Some 63 else None)"

text \<open>
  \<open>base64.b64decode\<close>: other characters are skipped, the padding ends the text, and what is left of
  an incomplete group is an error (\<open>binascii.Error\<close>, a \<open>ValueError\<close>). \<open>quad\<close> counts the characters
  of the group, \<open>left\<close> holds the bits not yet written, \<open>pads\<close> the padding in a row.
\<close>

fun b64_loop :: "nat \<Rightarrow> nat \<Rightarrow> nat \<Rightarrow> string \<Rightarrow> exc + nat list" where
  "b64_loop quad left pads [] = (if quad = 0 then Inr [] else Inl ValueError)"
| "b64_loop quad left pads (c # s) =
     (if c = CHR ''=''
      then if 2 \<le> quad \<and> 4 \<le> quad + Suc pads then Inr [] else b64_loop quad left (if 2 \<le> quad then Suc pads else pads) s
      else case b64_value c of
        None \<Rightarrow> b64_loop quad left pads s
      | Some v \<Rightarrow>
          if quad = 0 then b64_loop 1 v 0 s
          else if quad = 1 then bind_res (b64_loop 2 (v mod 16) 0 s) (\<lambda>bs. Inr ((left * 4 + v div 16) # bs))
          else if quad = 2 then bind_res (b64_loop 3 (v mod 4) 0 s) (\<lambda>bs. Inr ((left * 16 + v div 4) # bs))
          else bind_res (b64_loop 0 0 0 s) (\<lambda>bs. Inr ((left * 64 + v) # bs)))"

definition b64decode :: "string \<Rightarrow> exc + nat list" where
  "b64decode s = b64_loop 0 0 0 s"

section \<open>The card terminal\<close>

definition SUMUP_CATEGORY_NAME :: string where
  "SUMUP_CATEGORY_NAME = ''projekt.bude.sumup''"

definition GIROKONTO_ACCOUNT_ID :: uuid where
  "GIROKONTO_ACCOUNT_ID = 0x01a0645ca89e72aeb12cd68913d686e4"

record sumup_response =
  in_count :: nat
  in_sum :: decimal
  out_count :: nat
  out_sum :: decimal
  latest :: "string option"

definition no_sumup :: sumup_response where
  "no_sumup = \<lparr>in_count = 0, in_sum = 0, out_count = 0, out_sum = 0, latest = None\<rparr>"

definition cents :: "decimal \<Rightarrow> decimal" where
  "cents x = of_int (round_half_even (x * 100)) / 100"

definition latest_booking :: "p4x_transaction list \<Rightarrow> date option" where
  "latest_booking txs = (if txs = [] then None else Some (foldr max (map booking (tl txs)) (booking (hd txs))))"

definition get_sumup_balance :: "p4x_db \<Rightarrow> sumup_response" where
  "get_sumup_balance db =
     (case (List.find (\<lambda>a. acc_id a = GIROKONTO_ACCOUNT_ID \<and> acc_active a) (accounts db),
            List.find (\<lambda>c. cat_name c = SUMUP_CATEGORY_NAME) (categories db)) of
        (Some account, Some category) \<Rightarrow>
          let all_tx_ids = category_tx_ids db (Some (cat_id category)) in
          if all_tx_ids = {} then no_sumup
          else
            let txs = filter (\<lambda>tx. tx_id tx \<in> all_tx_ids) (account_txs db account);
                in_txs = filter (\<lambda>t. 0 < amount t) txs;
                out_txs = filter (\<lambda>t. amount t < 0) txs
            in \<lparr>in_count = length in_txs, in_sum = cents (sum_list (map amount in_txs)),
                out_count = length out_txs, out_sum = cents (sum_list (map amount out_txs)),
                latest = map_option isoformat (latest_booking txs)\<rparr>
      | _ \<Rightarrow> no_sumup)"

section \<open>The summary of a period\<close>

definition sheet_title :: "string option \<Rightarrow> string" where
  "sheet_title label =
     (let s = take 31 (strip (map (\<lambda>c. if c \<in> set ''[]:*?/'' \<union> {char_of (92 :: nat)} then CHR '' '' else c)
                (case label of None \<Rightarrow> [] | Some l \<Rightarrow> l)))
      in if s = [] then ''Konto'' else s)"

definition type_label :: "partner_type \<Rightarrow> string" where
  "type_label t = (case t of PT_member \<Rightarrow> ''Mitglied'' | PT_contact \<Rightarrow> ''Kontakt'' | PT_account \<Rightarrow> ''Konto''
     | PT_special \<Rightarrow> ''Spezial'')"

definition partner_text :: "entities \<Rightarrow> partner_type \<Rightarrow> uuid \<Rightarrow> string" where
  "partner_text es t k =
     type_label t @ '': '' @ (case entity_of es (partner_type_text t) k of None \<Rightarrow> ''unknown'' | Some e \<Rightarrow> entity_cn e)"

definition format_partner_for_xlsx :: "p4x_db \<Rightarrow> p4x_transaction \<Rightarrow> entities \<Rightarrow> exc + string" where
  "format_partner_for_xlsx db tx es =
     (case (delegating_partner_type tx, delegating_partner_id tx) of
        (Some t, Some k) \<Rightarrow> Inr (partner_text es t k)
      | _ \<Rightarrow>
         (case tx_partner db tx of
            None \<Rightarrow> Inr ''unknown: unknown''
          | Some p \<Rightarrow> if partner_active p
              then bind_res (partner_type_of p) (\<lambda>t. bind_res (partner_id_of p) (\<lambda>k. Inr (partner_text es t k)))
              else Inr ''unknown: unknown''))"

text \<open>
  The category cells: up to three direct assignments, with their amounts when there are several, or
  the one filter that matches. \<open>str\<close> of an amount is a parameter, its text depends on the exponent.
\<close>

definition category_label :: "p4x_db \<Rightarrow> uuid \<Rightarrow> string option" where
  "category_label db k = map_option cat_label (get_by cat_id (categories db) k)"

definition category_cells :: "(decimal \<Rightarrow> string) \<Rightarrow> p4x_db \<Rightarrow> p4x_transaction \<Rightarrow> string list" where
  "category_cells dec_text db tx =
     (let directs = filter (\<lambda>d. cd_tx_id d = tx_id tx \<and> direct_active d) (category_directs db);
          cells = (if directs \<noteq> []
             then map (\<lambda>d. case category_label db (cd_category_id d) of
                      None \<Rightarrow> []
                    | Some l \<Rightarrow> if 1 < length directs then l @ '' ('' @ dec_text (cd_amount d) @ '')'' else l) (take 3 directs)
             else case hit_filters db tx of
                [f] \<Rightarrow> [case category_label db (cf_category_id f) of None \<Rightarrow> [] | Some l \<Rightarrow> l]
              | _ \<Rightarrow> [])
      in take 3 (cells @ [[], [], []]))"

record summary_row =
  sr_booking :: string
  sr_partner :: string
  sr_amount :: decimal
  sr_attachment :: string
  sr_categories :: "string list"
  sr_subject :: string
  sr_comment :: string

type_synonym named_file = "string \<times> nat list"

text \<open>
  One row; the counter of the attachments is passed on. An attachment that cannot be decoded keeps
  its name in the row and is left out of the archive.
\<close>

definition summary_row_of ::
  "(decimal \<Rightarrow> string) \<Rightarrow> p4x_db \<Rightarrow> entities \<Rightarrow> p4x_transaction \<Rightarrow> nat \<times> summary_row list \<times> named_file list \<Rightarrow>
   exc + nat \<times> summary_row list \<times> named_file list" where
  "summary_row_of dec_text db es tx acc =
     (case acc of (n, rows, files) \<Rightarrow>
     let name = (if has_attachment tx then ''Anhang_'' @ text_of_int (int n) @ ''.pdf'' else []);
         files' = (case attachment tx of
             None \<Rightarrow> files
           | Some a \<Rightarrow> if has_attachment tx
               then (case b64decode a of Inl _ \<Rightarrow> files | Inr bs \<Rightarrow> files @ [(name, bs)]) else files)
     in bind_res (format_partner_for_xlsx db tx es) (\<lambda>partner.
        Inr (if has_attachment tx then n + 1 else n,
             rows @ [\<lparr>sr_booking = isoformat (booking tx), sr_partner = partner, sr_amount = amount tx,
                      sr_attachment = name, sr_categories = category_cells dec_text db tx,
                      sr_subject = subject tx @ (if has_attachment tx then '' [ Anlage liegt vor ]'' else []),
                      sr_comment = (case tx_comment tx of None \<Rightarrow> [] | Some c \<Rightarrow> c)\<rparr>],
             files')))"

definition booked_between :: "p4x_db \<Rightarrow> p4x_account \<Rightarrow> date \<Rightarrow> date \<Rightarrow> p4x_transaction list" where
  "booked_between db a s e = filter (\<lambda>tx. s \<le> booking tx \<and> booking tx \<le> e) (account_txs db a)"

record account_sheet =
  as_title :: string
  as_rows :: "summary_row list"

definition account_sheet_of ::
  "(decimal \<Rightarrow> string) \<Rightarrow> p4x_db \<Rightarrow> date \<Rightarrow> date \<Rightarrow> p4x_account \<Rightarrow> nat \<times> account_sheet list \<times> named_file list \<Rightarrow>
   exc + nat \<times> account_sheet list \<times> named_file list" where
  "account_sheet_of dec_text db s e a acc =
     (case acc of (n, sheets, files) \<Rightarrow>
     let txs = sort_key booking (booked_between db a s e) in
     bind_res (map_res (transaction_partner_refs db) txs) (\<lambda>refs.
     bind_res (fold_res (summary_row_of dec_text db (find_partner_entities db (concat refs))) txs (n, [], files))
       (\<lambda>(n', rows, files'). Inr (n', sheets @ [\<lparr>as_title = sheet_title (acc_label a), as_rows = rows\<rparr>], files'))))"

record account_line =
  al_label :: "string option"
  al_iban_bic :: string
  al_start :: decimal
  al_end :: decimal

record fee_line =
  fl_name :: string
  fl_cn :: string
  fl_start_date :: string
  fl_start_balance :: decimal
  fl_fees :: decimal
  fl_payments :: decimal
  fl_end_date :: string
  fl_end_balance :: decimal
  fl_freed :: string
  fl_comment :: string

definition fee_line_of :: "member \<Rightarrow> fee_balance_result \<Rightarrow> fee_line" where
  "fee_line_of m b =
     \<lparr>fl_name = text_or_empty m F_nachname, fl_cn = cn m,
      fl_start_date = (if freed m then [] else r_start_date b),
      fl_start_balance = (if freed m then 0 else r_start_balance b),
      fl_fees = (if freed m then 0 else r_sum_fees b),
      fl_payments = (if freed m then 0 else r_sum_payments b),
      fl_end_date = (if freed m then [] else r_end_date b),
      fl_end_balance = (if freed m then 0 else r_end_balance b),
      fl_freed = (if freed m then ''x'' else []),
      fl_comment = text_or_empty m F_p4x_comment\<rparr>"

definition fee_lines :: "p4x_db \<Rightarrow> date \<Rightarrow> date \<Rightarrow> date \<Rightarrow> exc + fee_line list" where
  "fee_lines db today s e =
     bind_res (map_res (\<lambda>m.
       bind_res (calculate_fee_balance db today m (Some (isoformat s)) (Some (isoformat e))) (\<lambda>balance.
         case balance of None \<Rightarrow> Inr []
         | Some b \<Rightarrow>
             bind_res (fromisoformat (r_start_date b)) (\<lambda>bs.
             bind_res (fromisoformat (r_end_date b)) (\<lambda>be.
               Inr (if e < bs \<or> be < s then [] else [fee_line_of m b]))))) (get_fee_members db)) (\<lambda>ls.
     Inr (concat ls))"

record p4x_summary =
  su_header :: "string \<times> string"
  su_accounts :: "account_line list"
  su_sheets :: "account_sheet list"
  su_fees :: "fee_line list"

definition stand_per :: "date \<Rightarrow> string" where
  "stand_per d = ''Stand per '' @ text_of_int (day d) @ ''.'' @ text_of_int (month d) @ ''.'' @ text_of_int (year d)"

text \<open>A missing BIC is written as \<open>None\<close>.\<close>

definition account_line_of :: "p4x_db \<Rightarrow> date \<Rightarrow> date \<Rightarrow> date \<Rightarrow> p4x_account \<Rightarrow> account_line" where
  "account_line_of db today s e a =
     \<lparr>al_label = acc_label a,
      al_iban_bic = acc_iban a @ '' / '' @ (case acc_bic a of None \<Rightarrow> ''None'' | Some b \<Rightarrow> b),
      al_start = get_account_balance db today a (Some s), al_end = get_account_balance db today a (Some e)\<rparr>"

definition generate_summary ::
  "(decimal \<Rightarrow> string) \<Rightarrow> p4x_db \<Rightarrow> date \<Rightarrow> date \<Rightarrow> date \<Rightarrow> exc + p4x_summary \<times> named_file list" where
  "generate_summary dec_text db today start end_date =
     (let s = first_of_month start in
      bind_res (end_of_month end_date) (\<lambda>e.
      let accs = filter (\<lambda>a. booked_between db a s e \<noteq> []) (get_active_accounts db) in
      bind_res (fold_res (account_sheet_of dec_text db s e) accs (1, [], [])) (\<lambda>(n, sheets, files).
      bind_res (fee_lines db today s e) (\<lambda>fees.
      Inr (\<lparr>su_header = (stand_per s, stand_per e), su_accounts = map (account_line_of db today s e) accs,
            su_sheets = sheets, su_fees = fees\<rparr>, files)))))"

section \<open>The statement of a member\<close>

record fee_statement =
  st_cn :: string
  st_start_date :: date
  st_start_balance :: decimal
  st_fees :: "string \<times> decimal"
  st_payments :: "string \<times> decimal"
  st_end_date :: date
  st_end_balance :: decimal
  st_progress :: "(date \<times> string \<times> decimal \<times> decimal option) list"

definition progress_line :: "progress_entry \<Rightarrow> exc + date \<times> string \<times> decimal \<times> decimal option" where
  "progress_line p =
     bind_res (fromisoformat (e_booking p)) (\<lambda>d.
       Inr (d, (case e_type p of FeeEntry \<Rightarrow> ''Faelligkeit'' | PaymentEntry \<Rightarrow> ''Zahlung''), e_amount p, e_balance p))"

definition generate_fee_member_statement :: "string \<Rightarrow> fee_balance_result option \<Rightarrow> exc + fee_statement" where
  "generate_fee_member_statement name balance =
     (case balance of None \<Rightarrow> Inl ValueError
      | Some b \<Rightarrow>
          bind_res (fromisoformat (r_start_date b)) (\<lambda>s.
          bind_res (fromisoformat (r_end_date b)) (\<lambda>e.
          bind_res (map_res progress_line (r_progress b)) (\<lambda>progress.
          Inr \<lparr>st_cn = name, st_start_date = s, st_start_balance = r_start_balance b,
               st_fees = (text_of_int (int (r_count_fees b)) @ '' verrechnete Beitraege'', r_sum_fees b),
               st_payments = (text_of_int (int (r_count_payments b)) @ '' geleistete Zahlungen'', r_sum_payments b),
               st_end_date = e, st_end_balance = r_end_balance b, st_progress = progress\<rparr>))))"

end
