(* ===== verification/P4x_Routes.thy ===== *)
theory P4x_Routes
  imports P4x_Summary
begin

text \<open>
  The routes of the ledger, \<open>app/api/router_includes/p4x.py\<close>. A writing route gives the tables after
  the request beside its answer, because the answer is built after the commit and may still fail.
  \<open>handle_p4x\<close> is the table of all writing routes. The workbooks are the values of their cells, the
  archive of the summary a list of named files; the text search of PostgreSQL, SHA-256, the JSON
  reader and writer and the text of a decimal are parameters.
\<close>

section \<open>Around a request\<close>

record p4x_env =
  pe_settings :: settings
  pe_today :: date
  pe_now :: instant
  pe_sha256 :: "string \<Rightarrow> string"
  pe_loads :: "string \<Rightarrow> json option"
  pe_repr :: "json \<Rightarrow> string"
  pe_dumps :: "json \<Rightarrow> string"
  pe_dec_text :: "decimal \<Rightarrow> string"
  pe_tsquery :: "string \<Rightarrow> string"
  pe_exact :: "string \<Rightarrow> member \<Rightarrow> rat option"
  pe_fuzzy :: "string \<Rightarrow> member \<Rightarrow> rat option"

definition p4x_view :: "p4x_env \<Rightarrow> member \<Rightarrow> exc + member" where
  "p4x_view env user = require_permission (pe_settings env) (pe_today env) ''p4xView'' user"

definition p4x_admin :: "p4x_env \<Rightarrow> member \<Rightarrow> exc + member" where
  "p4x_admin env user = require_permission (pe_settings env) (pe_today env) ''p4xAdmin'' user"

text \<open>A writing route: what it checks first, the write, the answer from the tables then.\<close>

definition after_commit :: "p4x_db \<Rightarrow> exc + p4x_db \<Rightarrow> (p4x_db \<Rightarrow> exc + 'a) \<Rightarrow> p4x_db \<times> (exc + 'a)" where
  "after_commit db written answer = (case written of Inl e \<Rightarrow> (db, Inl e) | Inr db' \<Rightarrow> (db', answer db'))"

definition admin_write ::
  "p4x_env \<Rightarrow> member \<Rightarrow> p4x_db \<Rightarrow> exc + 'b \<Rightarrow> ('b \<Rightarrow> exc + p4x_db) \<Rightarrow> (p4x_db \<Rightarrow> exc + 'a) \<Rightarrow> p4x_db \<times> (exc + 'a)" where
  "admin_write env user db found write answer =
     after_commit db (bind_res (p4x_admin env user) (\<lambda>_. bind_res found write)) answer"

text \<open>A message of a service becomes an error.\<close>

definition or_message :: "nat \<Rightarrow> exc + p4x_db \<times> string option \<Rightarrow> exc + p4x_db" where
  "or_message code r =
     bind_res r (\<lambda>(db', msg). case msg of None \<Rightarrow> Inr db' | Some m \<Rightarrow> Inl (HTTPException code m))"

definition page_param :: "int \<Rightarrow> nat option" where
  "page_param page = (if 1 \<le> page \<and> page \<le> 100000 then Some (nat page) else None)"

definition PREVIEW_LIMIT :: nat where
  "PREVIEW_LIMIT = 10"

definition MAX_UPLOAD_BYTES :: nat where
  "MAX_UPLOAD_BYTES = 3 * 1024 * 1024"

definition too_large :: "'a list \<Rightarrow> bool" where
  "too_large file \<longleftrightarrow> MAX_UPLOAD_BYTES < length (take (MAX_UPLOAD_BYTES + 1) file)"

definition file_too_large :: exc where
  "file_too_large = HTTPException 422 ''Datei darf maximal 3 MB gross sein.''"

section \<open>Dashboard and warnings\<close>

record paginated =
  pg_items :: "transaction_response list"
  pg_total :: nat
  pg_page :: nat
  pg_per_page :: nat

definition paginated_of :: "p4x_db \<Rightarrow> nat \<Rightarrow> p4x_transaction list \<times> nat \<Rightarrow> exc + paginated" where
  "paginated_of db page found =
     bind_res (build_transaction_responses db (fst found)) (\<lambda>items.
       Inr \<lparr>pg_items = items, pg_total = snd found, pg_page = page, pg_per_page = PAGINATION_SIZE\<rparr>)"

record dashboard =
  da_accounts :: "account_response list"
  da_warnings_partner :: "nat \<times> transaction_response list"
  da_warnings_category :: "nat \<times> transaction_response list"
  da_categories :: "p4x_category list"

definition get_dashboard :: "p4x_env \<Rightarrow> member \<Rightarrow> p4x_db \<Rightarrow> exc + dashboard" where
  "get_dashboard env user db =
     bind_res (p4x_view env user) (\<lambda>_.
     let (partner_items, partner_count) = get_warnings_partner db (Some PREVIEW_LIMIT);
         (category_items, category_count) = get_warnings_category db (Some PREVIEW_LIMIT) in
     bind_res (build_transaction_responses db partner_items) (\<lambda>partner_preview.
     bind_res (build_transaction_responses db category_items) (\<lambda>category_preview.
     Inr \<lparr>da_accounts = map (build_account_response db (pe_today env)) (get_active_accounts db),
          da_warnings_partner = (partner_count, partner_preview),
          da_warnings_category = (category_count, category_preview), da_categories = categories db\<rparr>)))"

definition warnings_page :: "p4x_db \<Rightarrow> nat \<Rightarrow> p4x_transaction list \<times> nat \<Rightarrow> exc + paginated" where
  "warnings_page db page found = paginated_of db page (page_of PAGINATION_SIZE page (fst found), snd found)"

definition get_warnings_partner_list :: "p4x_env \<Rightarrow> member \<Rightarrow> p4x_db \<Rightarrow> int \<Rightarrow> exc + paginated" where
  "get_warnings_partner_list env user db page =
     bind_res (p4x_view env user) (\<lambda>_. bind_res (or_invalid (page_param page)) (\<lambda>p.
       warnings_page db p (get_warnings_partner db None)))"

definition get_warnings_category_list :: "p4x_env \<Rightarrow> member \<Rightarrow> p4x_db \<Rightarrow> int \<Rightarrow> exc + paginated" where
  "get_warnings_category_list env user db page =
     bind_res (p4x_view env user) (\<lambda>_. bind_res (or_invalid (page_param page)) (\<lambda>p.
       warnings_page db p (get_warnings_category db None)))"

section \<open>Accounts\<close>

definition route_create_account ::
  "p4x_env \<Rightarrow> member \<Rightarrow> p4x_db \<Rightarrow> account_request \<Rightarrow> p4x_db \<times> (exc + account_response)" where
  "route_create_account env user db body =
     admin_write env user db (or_invalid (AccountSaveRequest (pe_today env) body))
       (\<lambda>data. bind_res (create_account db data) (\<lambda>(a, db'). Inr db'))
       (\<lambda>db'. Inr (build_account_response db' (pe_today env) (last (accounts db'))))"

definition route_update_account ::
  "p4x_env \<Rightarrow> member \<Rightarrow> p4x_db \<Rightarrow> uuid \<Rightarrow> account_request \<Rightarrow> p4x_db \<times> (exc + account_response)" where
  "route_update_account env user db k body =
     admin_write env user db
       (bind_res (or_invalid (AccountSaveRequest (pe_today env) body)) (\<lambda>data.
        bind_res (get_account_or_404 db k) (\<lambda>a. Inr (a, data))))
       (\<lambda>(a, data). bind_res (update_account db a data) (\<lambda>(a', db'). Inr db'))
       (\<lambda>db'. bind_res (get_account_or_404 db' k) (\<lambda>a. Inr (build_account_response db' (pe_today env) a)))"

definition route_delete_account :: "p4x_env \<Rightarrow> member \<Rightarrow> p4x_db \<Rightarrow> uuid \<Rightarrow> p4x_db \<times> (exc + unit)" where
  "route_delete_account env user db k =
     admin_write env user db (get_account_or_404 db k) (delete_account db (pe_now env)) (\<lambda>_. Inr ())"

section \<open>Import\<close>

text \<open>
  \<open>content.decode("utf-8")\<close>: malformed bytes are an error; a code point beyond the 256 of the model
  is written \<open>?\<close>.
\<close>

definition utf8_tail :: "char \<Rightarrow> bool" where
  "utf8_tail = in_chars 128 191"

fun utf8_decode :: "string \<Rightarrow> string option" where
  "utf8_decode [] = Some []"
| "utf8_decode (a # s) =
     (if in_chars 0 127 a then map_option ((#) a) (utf8_decode s)
      else case s of
        [] \<Rightarrow> None
      | b # s2 \<Rightarrow>
          if in_chars 194 223 a
          then (if utf8_tail b
                then map_option ((#) (if in_chars 194 195 a then char_of ((of_char a - 192) * 64 + of_char b - 128 :: nat) else CHR ''?''))
                       (utf8_decode s2)
                else None)
          else case s2 of
            [] \<Rightarrow> None
          | c # s3 \<Rightarrow>
              if in_chars 224 239 a
              then (if utf8_tail b \<and> utf8_tail c \<and> (of_char a = (224 :: nat) \<longrightarrow> in_chars 160 191 b) \<and>
                       (of_char a = (237 :: nat) \<longrightarrow> in_chars 128 159 b)
                    then map_option ((#) CHR ''?'') (utf8_decode s3) else None)
              else case s3 of
                [] \<Rightarrow> None
              | d # s4 \<Rightarrow>
                  if in_chars 240 244 a \<and> utf8_tail b \<and> utf8_tail c \<and> utf8_tail d \<and>
                     (of_char a = (240 :: nat) \<longrightarrow> in_chars 144 191 b) \<and> (of_char a = (244 :: nat) \<longrightarrow> in_chars 128 143 b)
                  then map_option ((#) CHR ''?'') (utf8_decode s4) else None)"

definition is_infix :: "string \<Rightarrow> string \<Rightarrow> bool" where
  "is_infix needle s \<longleftrightarrow> (\<exists>i \<in> {0..length s}. take (length needle) (drop i s) = needle)"

record upload =
  up_filename :: "string option"
  up_content_type :: "string option"
  up_bytes :: string

record import_answer =
  ia_account :: uuid
  ia_message :: "string option"
  ia_summary :: "counters option"
  ia_after :: "account_response option"

text \<open>The checks of the file, up to its text.\<close>

definition import_text :: "p4x_account \<Rightarrow> upload \<Rightarrow> exc + string" where
  "import_text account file =
     (if \<not> is_infix (normalized_iban (acc_iban account))
             (normalized_iban (case up_filename file of None \<Rightarrow> [] | Some n \<Rightarrow> n))
      then Inl (HTTPException 422 ''Der Name des Upload-Files enthaelt nicht die IBAN des Kontos.'')
      else if too_large (up_bytes file) then Inl file_too_large
      else case utf8_decode (up_bytes file) of
          None \<Rightarrow> Inl (HTTPException 422 ''Die Datei ist nicht UTF-8-kodiert.'')
        | Some raw \<Rightarrow> Inr raw)"

definition route_import :: "p4x_env \<Rightarrow> member \<Rightarrow> p4x_db \<Rightarrow> uuid \<Rightarrow> upload \<Rightarrow> p4x_db \<times> (exc + import_answer)" where
  "route_import env user db k file =
     (case bind_res (p4x_admin env user) (\<lambda>_.
           bind_res (get_account_or_404 db k) (\<lambda>account.
           bind_res (import_text account file) (\<lambda>raw.
           bind_res (run_george_import (pe_sha256 env) (pe_loads env) (pe_repr env) (pe_dumps env) (pe_now env) db account raw)
             (\<lambda>(db', msg, summary). Inr (db', account, msg, summary))))) of
        Inl e \<Rightarrow> (db, Inl e)
      | Inr (db', account, msg, summary) \<Rightarrow>
          (db', Inr \<lparr>ia_account = acc_id account, ia_message = msg, ia_summary = summary,
             ia_after = (if summary = None then None else Some (build_account_response db' (pe_today env) account))\<rparr>))"

section \<open>Listings\<close>

record month_page =
  mp_page :: paginated
  mp_startbalance :: decimal
  mp_endbalance :: decimal

definition route_transactions_by_month ::
  "p4x_env \<Rightarrow> member \<Rightarrow> p4x_db \<Rightarrow> uuid \<Rightarrow> int \<Rightarrow> int \<Rightarrow> int \<Rightarrow> exc + month_page" where
  "route_transactions_by_month env user db k y m page =
     bind_res (p4x_view env user) (\<lambda>_.
     bind_res (or_invalid (if 2000 \<le> y \<and> y \<le> 2100 \<and> 1 \<le> m \<and> m \<le> 12 then page_param page else None)) (\<lambda>p.
     bind_res (get_account_or_404 db k) (\<lambda>account.
     bind_res (mk_date y m 10) (\<lambda>given.
     bind_res (prev_day (first_of_month given)) (\<lambda>last_of_prev.
     bind_res (end_of_month given) (\<lambda>last_of_month.
     bind_res (paginated_of db p (get_transactions_by_month db account y m p)) (\<lambda>items.
     Inr \<lparr>mp_page = items,
          mp_startbalance = get_account_balance db (pe_today env) account (Some last_of_prev),
          mp_endbalance = get_account_balance db (pe_today env) account (Some last_of_month)\<rparr>)))))))"

definition route_transactions_by_partner ::
  "p4x_env \<Rightarrow> member \<Rightarrow> p4x_db \<Rightarrow> uuid \<Rightarrow> string \<Rightarrow> uuid \<Rightarrow> int \<Rightarrow> exc + paginated" where
  "route_transactions_by_partner env user db k ptype pid page =
     bind_res (p4x_view env user) (\<lambda>_.
     bind_res (or_invalid (if partner_type_of_text ptype = None then None else page_param page)) (\<lambda>p.
     bind_res (get_account_or_404 db k) (\<lambda>account.
     bind_res (get_transactions_by_partner db account ptype pid p) (paginated_of db p))))"

definition route_transactions_by_category ::
  "p4x_env \<Rightarrow> member \<Rightarrow> p4x_db \<Rightarrow> uuid \<Rightarrow> uuid \<Rightarrow> int \<Rightarrow> exc + paginated" where
  "route_transactions_by_category env user db k category_id page =
     bind_res (p4x_view env user) (\<lambda>_.
     bind_res (or_invalid (page_param page)) (\<lambda>p.
     bind_res (get_account_or_404 db k) (\<lambda>account.
       paginated_of db p (get_transactions_by_category db account category_id p))))"

definition route_transactions_by_filter ::
  "p4x_env \<Rightarrow> member \<Rightarrow> p4x_db \<Rightarrow> uuid \<Rightarrow> uuid \<Rightarrow> int \<Rightarrow> exc + paginated" where
  "route_transactions_by_filter env user db k filter_id page =
     bind_res (p4x_admin env user) (\<lambda>_.
     bind_res (or_invalid (page_param page)) (\<lambda>p.
     bind_res (get_account_or_404 db k) (\<lambda>account.
       paginated_of db p (get_transactions_by_filter db account filter_id p))))"

definition get_transaction_raw :: "p4x_env \<Rightarrow> member \<Rightarrow> p4x_db \<Rightarrow> uuid \<Rightarrow> uuid \<Rightarrow> exc + string option" where
  "get_transaction_raw env user db k tid =
     bind_res (p4x_view env user) (\<lambda>_. bind_res (get_transaction_for_account db k tid) (\<lambda>tx. Inr (tx_raw tx)))"

definition get_transaction_attachment :: "p4x_env \<Rightarrow> member \<Rightarrow> p4x_db \<Rightarrow> uuid \<Rightarrow> uuid \<Rightarrow> exc + nat list" where
  "get_transaction_attachment env user db k tid =
     bind_res (p4x_view env user) (\<lambda>_.
     bind_res (get_transaction_for_account db k tid) (\<lambda>tx.
       case attachment tx of
         None \<Rightarrow> Inl (HTTPException 404 ''Kein Anhang vorhanden.'')
       | Some a \<Rightarrow> if a = [] then Inl (HTTPException 404 ''Kein Anhang vorhanden.'') else b64decode a))"

section \<open>Partners and transactions\<close>

definition search_term_too_short :: exc where
  "search_term_too_short = HTTPException 400 ''Suchbegriff muss mindestens 3 Zeichen lang sein.''"

definition route_search_partners :: "p4x_env \<Rightarrow> member \<Rightarrow> p4x_db \<Rightarrow> string \<Rightarrow> exc + partner_search_result list" where
  "route_search_partners env user db q =
     bind_res (p4x_view env user) (\<lambda>_. if length q < 3 then Inl search_term_too_short else Inr (search_partners db q))"

text \<open>A partner of the body: type, id and the name that is ignored.\<close>

type_synonym partner_body = "string \<times> uuid \<times> string option"

definition read_partner :: "partner_body option \<Rightarrow> exc + (string \<times> uuid) option" where
  "read_partner b =
     (case b of None \<Rightarrow> Inr None
      | Some (t, k, name) \<Rightarrow> bind_res (or_invalid (PartnerRefInput t k name)) (\<lambda>r. Inr (Some r)))"

definition route_set_partner ::
  "p4x_env \<Rightarrow> member \<Rightarrow> p4x_db \<Rightarrow> uuid \<Rightarrow> partner_body option \<Rightarrow> bool \<Rightarrow> partner_body option \<Rightarrow>
   p4x_db \<times> (exc + transaction_response)" where
  "route_set_partner env user db k partner has_delegating delegating =
     admin_write env user db
       (bind_res (read_partner partner) (\<lambda>p. bind_res (read_partner delegating) (\<lambda>d.
        bind_res (get_transaction_or_404 db k) (\<lambda>tx. Inr (p, d, tx)))))
       (\<lambda>(p, d, tx). bind_res (set_transaction_partner db (pe_now env) tx p has_delegating d) (\<lambda>(db', tx'). Inr db'))
       (\<lambda>db'. bind_res (get_transaction_or_404 db' k) (build_refreshed_transaction_response db'))"

definition read_pdf :: "upload option \<Rightarrow> exc + nat list option" where
  "read_pdf file =
     (case file of None \<Rightarrow> Inr None
      | Some f \<Rightarrow>
          if (case up_content_type f of None \<Rightarrow> True | Some t \<Rightarrow> \<not> is_infix ''pdf'' t)
          then Inl (HTTPException 422 ''Nur PDF-Dateien sind erlaubt.'')
          else if too_large (up_bytes f) then Inl file_too_large
          else Inr (Some (map of_char (up_bytes f))))"

definition route_update_transaction ::
  "p4x_env \<Rightarrow> member \<Rightarrow> p4x_db \<Rightarrow> uuid \<Rightarrow> string option \<Rightarrow> bool \<Rightarrow> upload option \<Rightarrow>
   p4x_db \<times> (exc + transaction_response)" where
  "route_update_transaction env user db k comment delete_attachment file =
     (case bind_res (p4x_admin env user) (\<lambda>_.
           bind_res (get_transaction_or_404 db k) (\<lambda>tx.
           bind_res (read_pdf file) (\<lambda>bytes. Inr (tx, bytes)))) of
        Inl e \<Rightarrow> (db, Inl e)
      | Inr (tx, bytes) \<Rightarrow> update_transaction_and_build_response db tx comment bytes delete_attachment)"

section \<open>Categories\<close>

definition list_categories :: "p4x_env \<Rightarrow> member \<Rightarrow> p4x_db \<Rightarrow> exc + (p4x_category \<times> nat \<times> nat) list" where
  "list_categories env user db =
     bind_res (p4x_admin env user) (\<lambda>_. Inr (map (build_category_response db) (categories db)))"

definition route_create_category ::
  "p4x_env \<Rightarrow> member \<Rightarrow> p4x_db \<Rightarrow> category_request \<Rightarrow> p4x_db \<times> (exc + p4x_category \<times> nat \<times> nat)" where
  "route_create_category env user db body =
     admin_write env user db (or_invalid (CategorySaveRequest body))
       (\<lambda>data. bind_res (create_category db data) (\<lambda>(c, db'). Inr db'))
       (\<lambda>db'. Inr (build_category_response db' (last (categories db'))))"

definition route_update_category ::
  "p4x_env \<Rightarrow> member \<Rightarrow> p4x_db \<Rightarrow> uuid \<Rightarrow> category_request \<Rightarrow> p4x_db \<times> (exc + p4x_category \<times> nat \<times> nat)" where
  "route_update_category env user db k body =
     admin_write env user db
       (bind_res (or_invalid (CategorySaveRequest body)) (\<lambda>data.
        bind_res (get_category_or_404 db k) (\<lambda>c. Inr (c, data))))
       (\<lambda>(c, data). bind_res (update_category db c data) (\<lambda>(c', db'). Inr db'))
       (\<lambda>db'. bind_res (get_category_or_404 db' k) (\<lambda>c. Inr (build_category_response db' c)))"

definition delete_category_endpoint :: "p4x_env \<Rightarrow> member \<Rightarrow> p4x_db \<Rightarrow> uuid \<Rightarrow> p4x_db \<times> (exc + unit)" where
  "delete_category_endpoint env user db k =
     admin_write env user db (get_category_or_404 db k) (\<lambda>c. or_message 409 (delete_category db c)) (\<lambda>_. Inr ())"

section \<open>Category filters\<close>

definition list_category_filters :: "p4x_env \<Rightarrow> member \<Rightarrow> p4x_db \<Rightarrow> exc + filter_response list" where
  "list_category_filters env user db =
     bind_res (p4x_admin env user) (\<lambda>_. Inr (map (build_filter_response db) (category_filters db)))"

definition route_create_filter ::
  "p4x_env \<Rightarrow> member \<Rightarrow> p4x_db \<Rightarrow> filter_request \<Rightarrow> p4x_db \<times> (exc + filter_response)" where
  "route_create_filter env user db body =
     admin_write env user db (or_invalid (CategoryFilterSaveRequest body))
       (\<lambda>data. bind_res (create_category_filter db data) (\<lambda>(f, db'). Inr db'))
       (\<lambda>db'. Inr (build_filter_response db' (last (category_filters db'))))"

definition route_update_filter ::
  "p4x_env \<Rightarrow> member \<Rightarrow> p4x_db \<Rightarrow> uuid \<Rightarrow> filter_request \<Rightarrow> p4x_db \<times> (exc + filter_response)" where
  "route_update_filter env user db k body =
     admin_write env user db
       (bind_res (or_invalid (CategoryFilterSaveRequest body)) (\<lambda>data.
        bind_res (get_filter_or_404 db k) (\<lambda>f. Inr (f, data))))
       (\<lambda>(f, data). bind_res (update_category_filter db f data) (\<lambda>(f', db'). Inr db'))
       (\<lambda>db'. bind_res (get_filter_or_404 db' k) (\<lambda>f. Inr (build_filter_response db' f)))"

definition delete_category_filter_endpoint :: "p4x_env \<Rightarrow> member \<Rightarrow> p4x_db \<Rightarrow> uuid \<Rightarrow> p4x_db \<times> (exc + unit)" where
  "delete_category_filter_endpoint env user db k =
     admin_write env user db (get_filter_or_404 db k) (\<lambda>f. Inr (delete_category_filter db f)) (\<lambda>_. Inr ())"

record filter_hit_response =
  fh_booking :: string
  fh_amount :: decimal
  fh_subject :: string
  fh_iban :: string

definition FilterHitResponse :: "p4x_transaction \<Rightarrow> filter_hit_response" where
  "FilterHitResponse tx =
     \<lparr>fh_booking = isoformat (booking tx), fh_amount = amount tx, fh_subject = subject tx, fh_iban = tx_iban tx\<rparr>"

record filter2direct_preview =
  pv_warningsCount :: nat
  pv_filter :: filter_response
  pv_category :: "p4x_category option"
  pv_hits :: "filter_hit_response list"

definition get_filter2direct_preview :: "p4x_env \<Rightarrow> member \<Rightarrow> p4x_db \<Rightarrow> uuid \<Rightarrow> exc + filter2direct_preview" where
  "get_filter2direct_preview env user db k =
     bind_res (p4x_admin env user) (\<lambda>_.
     bind_res (get_filter_or_404 db k) (\<lambda>f.
     Inr \<lparr>pv_warningsCount = snd (get_warnings_partner db None) + snd (get_warnings_category db None),
          pv_filter = build_filter_response db f, pv_category = get_by cat_id (categories db) (cf_category_id f),
          pv_hits = map FilterHitResponse (get_filter_hits db f)\<rparr>))"

definition process_filter2direct :: "p4x_env \<Rightarrow> member \<Rightarrow> p4x_db \<Rightarrow> uuid \<Rightarrow> p4x_db \<times> (exc + filter_hit_response list)" where
  "process_filter2direct env user db k =
     admin_write env user db (get_filter_or_404 db k) (\<lambda>f. or_message 422 (filter_to_direct db (pe_now env) f))
       (\<lambda>db'. bind_res (get_filter_or_404 db' k) (\<lambda>f. Inr (map FilterHitResponse (get_filter_hits db' f))))"

definition set_category_direct_endpoint ::
  "p4x_env \<Rightarrow> member \<Rightarrow> p4x_db \<Rightarrow> uuid \<Rightarrow> slot list \<Rightarrow> p4x_db \<times> (exc + transaction_response)" where
  "set_category_direct_endpoint env user db k slots =
     admin_write env user db (get_transaction_or_404 db k)
       (\<lambda>tx. or_message 422 (set_category_direct db (pe_now env) tx slots))
       (\<lambda>db'. bind_res (get_transaction_or_404 db' k) (build_refreshed_transaction_response db'))"

definition unset_category_direct_endpoint ::
  "p4x_env \<Rightarrow> member \<Rightarrow> p4x_db \<Rightarrow> uuid \<Rightarrow> p4x_db \<times> (exc + transaction_response)" where
  "unset_category_direct_endpoint env user db k =
     admin_write env user db (get_transaction_or_404 db k) (\<lambda>tx. Inr (unset_category_direct db (pe_now env) tx))
       (\<lambda>db'. bind_res (get_transaction_or_404 db' k) (build_refreshed_transaction_response db'))"

section \<open>Fees\<close>

definition fee_list :: "p4x_db \<Rightarrow> fee_response list" where
  "fee_list db = map build_fee_response (get_all_fees db)"

definition list_fee_config :: "p4x_env \<Rightarrow> member \<Rightarrow> p4x_db \<Rightarrow> exc + fee_response list" where
  "list_fee_config env user db = bind_res (p4x_admin env user) (\<lambda>_. Inr (fee_list db))"

definition route_create_fee ::
  "p4x_env \<Rightarrow> member \<Rightarrow> p4x_db \<Rightarrow> int \<Rightarrow> int \<Rightarrow> decimal \<Rightarrow> p4x_db \<times> (exc + fee_response list)" where
  "route_create_fee env user db y m fee =
     admin_write env user db (or_invalid (FeeCreateRequest y m fee))
       (\<lambda>(y, m, fee). or_message 422 (create_fee db (pe_today env) y m fee)) (\<lambda>db'. Inr (fee_list db'))"

definition route_delete_fee :: "p4x_env \<Rightarrow> member \<Rightarrow> p4x_db \<Rightarrow> string \<Rightarrow> p4x_db \<times> (exc + fee_response list)" where
  "route_delete_fee env user db start =
     admin_write env user db (Inr ()) (\<lambda>_. or_message 422 (delete_fee db start)) (\<lambda>db'. Inr (fee_list db'))"

text \<open>
  \<open>search_fee_members\<close>: the text search first, if the words of the term give a query, and the search
  for similar names only when it finds nothing.
\<close>

definition ranked :: "(member \<Rightarrow> rat option) \<Rightarrow> member list \<Rightarrow> member list" where
  "ranked rank ms = sort_desc (\<lambda>m. the (rank m)) (filter (\<lambda>m. rank m \<noteq> None) ms)"

definition search_fee_members :: "p4x_env \<Rightarrow> p4x_db \<Rightarrow> string \<Rightarrow> (uuid \<times> string) list" where
  "search_fee_members env db term =
     (if length term < 3 then []
      else
        let query = pe_tsquery env term;
            exact = (if query \<noteq> [] then ranked (pe_exact env query) (get_fee_members db) else []);
            found = (if exact = [] then ranked (pe_fuzzy env term) (get_fee_members db) else exact)
        in map (\<lambda>m. (member_id m, cn m)) found)"

definition route_search_fee_members :: "p4x_env \<Rightarrow> member \<Rightarrow> p4x_db \<Rightarrow> string \<Rightarrow> exc + (uuid \<times> string) list" where
  "route_search_fee_members env user db q =
     bind_res (p4x_view env user) (\<lambda>_.
       if length q < 3 then Inl search_term_too_short else Inr (search_fee_members env db q))"

definition no_fee_member :: exc where
  "no_fee_member = HTTPException 404 ''Kein Beitragsmitglied.''"

definition no_account_data :: exc where
  "no_account_data = HTTPException 404 ''Keine Kontodaten vorhanden.''"

definition get_own_fee_member :: "p4x_env \<Rightarrow> member \<Rightarrow> p4x_db \<Rightarrow> exc + fee_member_self_response" where
  "get_own_fee_member env user db =
     (if \<not> is_fee_member user then Inl no_fee_member
      else bind_res (build_fee_member_response db (pe_today env) user) (\<lambda>full. Inr (FeeMemberSelfResponse full)))"

definition export_statement :: "fee_member_response \<Rightarrow> exc + fee_statement" where
  "export_statement full =
     (if fm_balance full = None then Inl no_account_data
      else generate_fee_member_statement (fm_cn full) (fm_balance full))"

definition export_own_fee_member :: "p4x_env \<Rightarrow> member \<Rightarrow> p4x_db \<Rightarrow> exc + fee_statement" where
  "export_own_fee_member env user db =
     (if \<not> is_fee_member user then Inl no_fee_member
      else bind_res (build_fee_member_response db (pe_today env) user) export_statement)"

definition get_fee_member :: "p4x_env \<Rightarrow> member \<Rightarrow> p4x_db \<Rightarrow> uuid \<Rightarrow> exc + fee_member_response" where
  "get_fee_member env user db k =
     bind_res (p4x_view env user) (\<lambda>_.
     bind_res (get_ledger_member_or_404 db k) (\<lambda>m.
       if \<not> is_fee_member m then Inl no_fee_member else build_fee_member_response db (pe_today env) m))"

definition export_fee_member :: "p4x_env \<Rightarrow> member \<Rightarrow> p4x_db \<Rightarrow> uuid \<Rightarrow> exc + fee_statement" where
  "export_fee_member env user db k =
     bind_res (p4x_view env user) (\<lambda>_.
     bind_res (get_ledger_member_or_404 db k) (\<lambda>m.
     bind_res (build_fee_member_response db (pe_today env) m) export_statement))"

definition route_update_fee_member ::
  "p4x_env \<Rightarrow> member \<Rightarrow> p4x_db \<Rightarrow> uuid \<Rightarrow> date \<Rightarrow> decimal \<Rightarrow> bool \<Rightarrow> string option \<Rightarrow>
   p4x_db \<times> (exc + fee_member_response)" where
  "route_update_fee_member env user db k init_date init_balance is_freed comment =
     admin_write env user db
       (bind_res (or_invalid (FeeMemberUpdateRequest init_date init_balance is_freed comment)) (\<lambda>data.
        bind_res (get_ledger_member_or_404 db k) (\<lambda>m. Inr (m, data))))
       (\<lambda>(m, data). update_fee_member db (member_id m) data)
       (\<lambda>db'. bind_res (get_ledger_member_or_404 db' k) (build_refreshed_fee_member_response db' (pe_today env)))"

definition route_fee_balances ::
  "p4x_env \<Rightarrow> member \<Rightarrow> p4x_db \<Rightarrow> exc + (uuid \<times> string \<times> bool \<times> decimal) list" where
  "route_fee_balances env user db =
     bind_res (p4x_view env user) (\<lambda>_.
     bind_res (get_fee_balances db (pe_today env)) (\<lambda>bs.
       Inr (map (\<lambda>b. (l_id b, l_cn b, l_p4x_freed b, l_end_balance b)) bs)))"

definition route_sumup_balance :: "p4x_env \<Rightarrow> member \<Rightarrow> p4x_db \<Rightarrow> exc + sumup_response" where
  "route_sumup_balance env user db = bind_res (p4x_view env user) (\<lambda>_. Inr (get_sumup_balance db))"

text \<open>\<open>download_summary\<close>: the workbook and the attachments, as they go into the archive.\<close>

definition download_summary :: "p4x_env \<Rightarrow> member \<Rightarrow> p4x_db \<Rightarrow> date \<Rightarrow> date \<Rightarrow> exc + p4x_summary \<times> named_file list" where
  "download_summary env user db s e =
     bind_res (p4x_admin env user) (\<lambda>_.
     bind_res (or_invalid (SummaryOrderRequest (pe_today env) s e)) (\<lambda>(s, e).
       if e < s then Inl (HTTPException 422 ''Enddatum muss nach dem Startdatum liegen.'')
       else generate_summary (pe_dec_text env) db (pe_today env) s e))"

section \<open>The writing routes\<close>

datatype p4x_request =
    P_Create_Account account_request
  | P_Update_Account uuid account_request
  | P_Delete_Account uuid
  | P_Import uuid upload
  | P_Set_Partner uuid "partner_body option" bool "partner_body option"
  | P_Update_Transaction uuid "string option" bool "upload option"
  | P_Create_Category category_request
  | P_Update_Category uuid category_request
  | P_Delete_Category uuid
  | P_Create_Filter filter_request
  | P_Update_Filter uuid filter_request
  | P_Delete_Filter uuid
  | P_Filter_To_Direct uuid
  | P_Set_Direct uuid "slot list"
  | P_Unset_Direct uuid
  | P_Create_Fee int int decimal
  | P_Delete_Fee string
  | P_Update_Fee_Member uuid date decimal bool "string option"

definition answered :: "p4x_db \<times> (exc + 'a) \<Rightarrow> p4x_db \<times> (exc + unit)" where
  "answered r = (fst r, bind_res (snd r) (\<lambda>_. Inr ()))"

fun handle_p4x :: "p4x_env \<Rightarrow> member \<Rightarrow> p4x_request \<Rightarrow> p4x_db \<Rightarrow> p4x_db \<times> (exc + unit)" where
  "handle_p4x env u (P_Create_Account b) db = answered (route_create_account env u db b)"
| "handle_p4x env u (P_Update_Account k b) db = answered (route_update_account env u db k b)"
| "handle_p4x env u (P_Delete_Account k) db = answered (route_delete_account env u db k)"
| "handle_p4x env u (P_Import k f) db = answered (route_import env u db k f)"
| "handle_p4x env u (P_Set_Partner k p h d) db = answered (route_set_partner env u db k p h d)"
| "handle_p4x env u (P_Update_Transaction k c x f) db = answered (route_update_transaction env u db k c x f)"
| "handle_p4x env u (P_Create_Category b) db = answered (route_create_category env u db b)"
| "handle_p4x env u (P_Update_Category k b) db = answered (route_update_category env u db k b)"
| "handle_p4x env u (P_Delete_Category k) db = answered (delete_category_endpoint env u db k)"
| "handle_p4x env u (P_Create_Filter b) db = answered (route_create_filter env u db b)"
| "handle_p4x env u (P_Update_Filter k b) db = answered (route_update_filter env u db k b)"
| "handle_p4x env u (P_Delete_Filter k) db = answered (delete_category_filter_endpoint env u db k)"
| "handle_p4x env u (P_Filter_To_Direct k) db = answered (process_filter2direct env u db k)"
| "handle_p4x env u (P_Set_Direct k s) db = answered (set_category_direct_endpoint env u db k s)"
| "handle_p4x env u (P_Unset_Direct k) db = answered (unset_category_direct_endpoint env u db k)"
| "handle_p4x env u (P_Create_Fee y m f) db = answered (route_create_fee env u db y m f)"
| "handle_p4x env u (P_Delete_Fee s) db = answered (route_delete_fee env u db s)"
| "handle_p4x env u (P_Update_Fee_Member k d b x c) db = answered (route_update_fee_member env u db k d b x c)"

end
