(* ===== verification/P4x_Ledger.thy ===== *)
theory P4x_Ledger
  imports P4x_Routes P4x_Hits P4x_Account_Properties P4x_Partner_Properties P4x_Category_Properties
begin

text \<open>
  The consistency of the ledger as one invariant, table by table, and the lemmas that each operation
  keeps it: the constraints of the schema, identifiers never handed out twice, no assignment or
  filter whose category is gone, one active account per IBAN, and stored filter hits that are exactly
  the matches.
\<close>

section \<open>The invariant\<close>

definition ids_fresh :: "p4x_db \<Rightarrow> bool" where
  "ids_fresh db \<longleftrightarrow> (\<forall>t \<in> set (transactions db). tx_id t < next_id db) \<and>
     (\<forall>p \<in> set (partners db). partner_pk p < next_id db) \<and> (\<forall>c \<in> set (categories db). cat_id c < next_id db)"

definition categories_exist :: "p4x_db \<Rightarrow> bool" where
  "categories_exist db \<longleftrightarrow> cf_category_id ` set (category_filters db) \<subseteq> cat_id ` set (categories db) \<and>
     cd_category_id ` set (category_directs db) \<subseteq> cat_id ` set (categories db)"

definition no_zero_amount :: "p4x_db \<Rightarrow> bool" where
  "no_zero_amount db \<longleftrightarrow> (\<forall>t \<in> set (transactions db). amount t \<noteq> 0)"

definition ledger_ok :: "p4x_db \<Rightarrow> bool" where
  "ledger_ok db \<longleftrightarrow> p4x_ok db \<and> ids_fresh db \<and> no_zero_amount db \<and> categories_exist db \<and> one_account_per_iban db \<and> hits_current db"

text \<open>The same, table by table.\<close>

definition tx_row_ok :: "nat \<Rightarrow> p4x_transaction \<Rightarrow> bool" where
  "tx_row_ok n t \<longleftrightarrow> delegating_arc_ok t \<and> valid_date (booking t) \<and> amount t \<noteq> 0 \<and> tx_id t < n"

definition tx_table :: "nat \<Rightarrow> p4x_transaction list \<Rightarrow> bool" where
  "tx_table n txs \<longleftrightarrow> distinct (map tx_id txs) \<and> distinct (map sha256_hash txs) \<and> list_all (tx_row_ok n) txs"

definition partner_table :: "nat \<Rightarrow> p4x_partner list \<Rightarrow> bool" where
  "partner_table n ps \<longleftrightarrow> distinct (map partner_pk ps) \<and>
     distinct (map partner_iban (filter (\<lambda>p. partner_iban p \<noteq> None) ps)) \<and>
     list_all (\<lambda>p. partner_arc_ok p \<and> partner_pk p < n) ps"

definition category_table :: "nat \<Rightarrow> p4x_category list \<Rightarrow> bool" where
  "category_table n cs \<longleftrightarrow> distinct (map cat_id cs) \<and> distinct (map cat_name cs) \<and> list_all (\<lambda>c. cat_id c < n) cs"

definition filter_table :: "p4x_category list \<Rightarrow> p4x_category_filter list \<Rightarrow> bool" where
  "filter_table cs fs \<longleftrightarrow> distinct (map cf_id fs) \<and> distinct (map cf_name fs) \<and>
     cf_category_id ` set fs \<subseteq> cat_id ` set cs"

definition direct_table :: "p4x_category list \<Rightarrow> p4x_category_direct list \<Rightarrow> bool" where
  "direct_table cs ds \<longleftrightarrow> cd_category_id ` set ds \<subseteq> cat_id ` set cs"

definition fee_table :: "p4x_fee list \<Rightarrow> bool" where
  "fee_table fs \<longleftrightarrow> distinct (map fee_start fs) \<and> list_all fee_row_ok fs"

lemma ledger_ok_tables:
  "ledger_ok db \<longleftrightarrow> distinct (map member_id (members db)) \<and> one_account_per_iban db \<and>
     tx_table (next_id db) (transactions db) \<and> partner_table (next_id db) (partners db) \<and>
     category_table (next_id db) (categories db) \<and> filter_table (categories db) (category_filters db) \<and>
     direct_table (categories db) (category_directs db) \<and> fee_table (fees db) \<and> hits_current db"
  by (auto simp: ledger_ok_def p4x_ok_def ids_fresh_def no_zero_amount_def categories_exist_def one_account_per_iban_def hits_current_def
      tx_table_def tx_row_ok_def partner_table_def category_table_def filter_table_def direct_table_def fee_table_def
      list_all_iff)

lemma tables_mono:
  "n \<le> m \<Longrightarrow> tx_table n txs \<Longrightarrow> tx_table m txs"
  "n \<le> m \<Longrightarrow> partner_table n ps \<Longrightarrow> partner_table m ps"
  "n \<le> m \<Longrightarrow> category_table n cs \<Longrightarrow> category_table m cs"
  by (auto simp: tx_table_def tx_row_ok_def partner_table_def category_table_def list_all_iff)

lemma tx_table_map:
  assumes "tx_table n txs" "\<And>t. t \<in> set txs \<Longrightarrow> tx_id (g t) = tx_id t \<and> sha256_hash (g t) = sha256_hash t \<and> tx_row_ok n (g t)"
  shows "tx_table n (map g txs)"
proof -
  have "map tx_id (map g txs) = map tx_id txs" "map sha256_hash (map g txs) = map sha256_hash txs"
    using assms(2) by auto
  with assms show ?thesis by (auto simp: tx_table_def list_all_iff simp del: map_map)
qed

section \<open>The hits\<close>

lemma hits_current_frame:
  assumes "hits_current db" "transactions db' = transactions db" "category_filters db' = category_filters db"
    "category_directs db' = category_directs db" "filter_hits db' = filter_hits db" "next_id db \<le> next_id db'"
  shows "hits_current db'"
  using assms base_hits_cong [OF assms(2,3)] tx_with_directs_cong [OF assms(4)]
  by (auto simp: hits_current_def expected_hits_def)

lemma hits_current_map:
  assumes cur: "hits_current db"
    and t: "transactions db' = map g (transactions db)"
    and g: "\<And>f D t. category_filter_criteria f D (g t) = category_filter_criteria f D t" "\<And>t. tx_id (g t) = tx_id t" "\<And>t. tx_active (g t) = tx_active t"
    and same: "category_filters db' = category_filters db"
    "category_directs db' = category_directs db" "filter_hits db' = filter_hits db" "next_id db' = next_id db"
  shows "hits_current db'"
proof -
  have "matching_transactions db' f {} = matching_transactions db f {}" for f
    by (simp add: matching_transactions_def t filter_map comp_def g)
  then have "base_hits db' = base_hits db" by (simp add: base_hits_def same)
  moreover have "map tx_id (transactions db') = map tx_id (transactions db)" by (simp add: t g(2))
  ultimately show ?thesis
    using cur tx_with_directs_cong [OF same(2)] by (simp add: hits_current_def expected_hits_def same)
qed

text \<open>The filter run and the refresh of one transaction write nothing but hits.\<close>

lemma apply_filters_writes_hits:
  "\<exists>hs. fold (\<lambda>f. apply_filter_with_cache f D) fs db = db\<lparr>filter_hits := hs\<rparr>"
proof (induction fs arbitrary: db)
  case Nil
  have "db = db\<lparr>filter_hits := filter_hits db\<rparr>" by simp
  then show ?case unfolding fold_Nil id_apply by blast
next
  case (Cons f fs)
  obtain hs where hs: "fold (\<lambda>f. apply_filter_with_cache f D) fs (apply_filter_with_cache f D db) =
      (apply_filter_with_cache f D db)\<lparr>filter_hits := hs\<rparr>" using Cons by blast
  have "(apply_filter_with_cache f D db)\<lparr>filter_hits := hs\<rparr> = db\<lparr>filter_hits := hs\<rparr>"
    by (simp add: apply_filter_with_cache_def)
  with hs show ?case unfolding fold_Cons comp_apply by metis
qed

lemma apply_all_writes_hits: "\<exists>hs. apply_all_category_filters_core b db = db\<lparr>filter_hits := hs\<rparr>"
proof -
  let ?db = "if b then db\<lparr>filter_hits := []\<rparr> else db"
  obtain hs where "fold (\<lambda>f. apply_filter_with_cache f (tx_with_directs ?db)) (category_filters db) ?db = ?db\<lparr>filter_hits := hs\<rparr>"
    using apply_filters_writes_hits by blast
  then show ?thesis by (cases b) (auto simp: apply_all_category_filters_core_def Let_def)
qed

lemma refresh_writes_hits: "\<exists>hs. refresh_transaction_hits tx b db = db\<lparr>filter_hits := hs\<rparr>"
  by (cases b) (auto simp: refresh_transaction_hits_def Let_def)

section \<open>Accounts and fees\<close>

lemma create_account_ok:
  assumes ok: "ledger_ok db" and new: "create_account db data = Inr (a, db')"
  shows "ledger_ok db'"
proof -
  have db': "db' = db\<lparr>accounts := accounts db @ [a], next_id := Suc (next_id db)\<rparr>"
    using new by (auto simp: create_account_def fresh_id_def Let_def split: if_splits)
  have "hits_current db'" by (rule hits_current_frame) (use ok in \<open>auto simp: ledger_ok_tables db'\<close>)
  moreover have "one_account_per_iban db'" using create_account_keeps [OF _ new] ok by (simp add: ledger_ok_tables)
  ultimately show ?thesis using ok tables_mono [of "next_id db" "Suc (next_id db)"] by (simp add: ledger_ok_tables db')
qed

lemma ledger_ok_accounts:
  assumes ok: "ledger_ok db" and "one_account_per_iban (db\<lparr>accounts := as\<rparr>)"
  shows "ledger_ok (db\<lparr>accounts := as\<rparr>)"
proof -
  have "hits_current (db\<lparr>accounts := as\<rparr>)" by (rule hits_current_frame) (use ok in \<open>auto simp: ledger_ok_tables\<close>)
  with assms show ?thesis by (simp add: ledger_ok_tables)
qed

lemma update_account_ok:
  assumes "ledger_ok db" and upd: "update_account db account data = Inr (a, db')"
  shows "ledger_ok db'"
proof -
  obtain as where db': "db' = db\<lparr>accounts := as\<rparr>"
    using upd by (auto simp: update_account_def Let_def split: if_splits)
  have "one_account_per_iban db'" using update_account_keeps [OF _ upd] assms(1) by (simp add: ledger_ok_tables)
  then show ?thesis using ledger_ok_accounts [OF assms(1)] by (simp add: db')
qed

lemma delete_account_ok:
  assumes "ledger_ok db" and del: "delete_account db now account = Inr db'"
  shows "ledger_ok db'"
proof -
  obtain as where db': "db' = db\<lparr>accounts := as\<rparr>"
    using del by (auto simp: delete_account_def Let_def split: if_splits)
  have "one_account_per_iban db'" using delete_account_keeps [OF _ del] assms(1) by (simp add: ledger_ok_tables)
  then show ?thesis using ledger_ok_accounts [OF assms(1)] by (simp add: db')
qed

lemma one_account_frame:
  "one_account_per_iban db \<Longrightarrow> accounts db' = accounts db \<Longrightarrow> next_id db \<le> next_id db' \<Longrightarrow> one_account_per_iban db'"
  by (auto simp: one_account_per_iban_def list_all_iff)

lemma ledger_ok_fees:
  assumes ok: "ledger_ok db" and "fee_table fs"
  shows "ledger_ok (db\<lparr>fees := fs\<rparr>)"
proof -
  have "hits_current (db\<lparr>fees := fs\<rparr>)" by (rule hits_current_frame) (use ok in \<open>auto simp: ledger_ok_tables\<close>)
  moreover have "one_account_per_iban (db\<lparr>fees := fs\<rparr>)"
    by (rule one_account_frame) (use ok in \<open>auto simp: ledger_ok_tables\<close>)
  ultimately show ?thesis using assms by (simp add: ledger_ok_tables)
qed

lemma create_fee_ok:
  assumes ok: "ledger_ok db" and "0 \<le> fee" and "create_fee db today y m fee = Inr (db', msg)"
  shows "ledger_ok db'"
proof -
  consider "db' = db" | start where "mk_date y m 1 = Inr start" "\<forall>f \<in> set (fees db). fee_start f \<noteq> start"
      "db' = db\<lparr>fees := fees db @ [\<lparr>fee_start = start, fee_amount = fee, fee_protected = False\<rparr>]\<rparr>"
    using assms(3) by (auto simp: create_fee_def bind_res_eq_Inr split: if_splits)
  then show ?thesis
  proof cases
    case 2
    have "fee_table (fees db @ [\<lparr>fee_start = start, fee_amount = fee, fee_protected = False\<rparr>])"
      using ok 2(1,2) assms(2) by (auto simp: ledger_ok_tables fee_table_def fee_row_ok_def mk_date_def split: if_splits)
    then show ?thesis using ledger_ok_fees [OF ok] by (simp add: 2(3))
  qed (use ok in simp)
qed

lemma delete_fee_ok:
  assumes ok: "ledger_ok db" and "delete_fee db s = Inr (db', msg)"
  shows "ledger_ok db'"
proof -
  consider "db' = db" | P where "db' = db\<lparr>fees := delete_where P (fees db)\<rparr>"
    using assms(2) by (auto simp: delete_fee_def bind_res_eq_Inr split: if_splits)
  then show ?thesis
  proof cases
    case (2 P)
    have "fee_table (delete_where P (fees db))"
      using ok by (auto simp: ledger_ok_tables fee_table_def list_all_iff distinct_map_delete_where)
    then show ?thesis using ledger_ok_fees [OF ok] by (simp add: 2)
  qed (use ok in simp)
qed

lemma update_fee_member_ok:
  assumes ok: "ledger_ok db" and "update_fee_member db k data = Inr db'"
  shows "ledger_ok db'"
proof -
  obtain w where db': "db' = db\<lparr>members := update_where (\<lambda>m. member_id m = k) w (members db)\<rparr>"
    and w: "\<And>m. member_id (w m) = member_id m"
    using assms(2) by (auto simp: update_fee_member_def bind_res_eq_Inr Let_def set_col_def)
  have "hits_current db'" by (rule hits_current_frame) (use ok in \<open>auto simp: ledger_ok_tables db'\<close>)
  moreover have "one_account_per_iban db'" by (rule one_account_frame) (use ok in \<open>auto simp: ledger_ok_tables db'\<close>)
  ultimately show ?thesis using ok by (simp add: ledger_ok_tables db' map_update_where_same w)
qed

section \<open>Categories and filters\<close>

lemma ledger_ok_categories:
  assumes ok: "ledger_ok db" and n: "next_id db \<le> n" and "category_table n cs"
    and "filter_table cs (category_filters db)" "direct_table cs (category_directs db)"
  shows "ledger_ok (db\<lparr>categories := cs, next_id := n\<rparr>)"
proof -
  have "hits_current (db\<lparr>categories := cs, next_id := n\<rparr>)"
    by (rule hits_current_frame) (use ok n in \<open>auto simp: ledger_ok_tables\<close>)
  moreover have "one_account_per_iban (db\<lparr>categories := cs, next_id := n\<rparr>)"
    by (rule one_account_frame) (use ok n in \<open>auto simp: ledger_ok_tables\<close>)
  ultimately show ?thesis using assms tables_mono [OF n] by (simp add: ledger_ok_tables)
qed

lemma create_category_ok:
  assumes ok: "ledger_ok db" and new: "create_category db data = Inr (c, db')"
  shows "ledger_ok db'"
proof -
  have db': "db' = db\<lparr>categories := categories db @ [c], next_id := Suc (next_id db)\<rparr>"
    and c: "cat_id c = next_id db" "cat_name c \<notin> cat_name ` set (categories db)"
    using new by (auto simp: create_category_def fresh_id_def Let_def split: if_splits)
  show ?thesis unfolding db'
    by (rule ledger_ok_categories [OF ok])
      (use ok c in \<open>auto simp: ledger_ok_tables category_table_def filter_table_def direct_table_def list_all_iff\<close>)
qed

lemma set_update_key:
  "(\<And>r. key (f r) = key r) \<Longrightarrow> key ` set (update_where P f rows) = key ` set rows"
  unfolding set_update_where image_image by (rule image_cong) auto

lemma distinct_update_name:
  assumes "distinct (map key rows)" "distinct (map name rows)" "\<And>r. key (w r) = key r" "\<And>r. name (w r) = v"
    and "\<And>r. r \<in> set rows \<Longrightarrow> key r \<noteq> k \<Longrightarrow> name r \<noteq> v"
  shows "distinct (map name (update_where (\<lambda>r. key r = k) w rows))"
  using assms(1,2,5)
proof (induction rows)
  case (Cons a rows)
  have IH: "distinct (map name (update_where (\<lambda>r. key r = k) w rows))" using Cons by simp
  have names: "name x \<in> insert v (name ` set rows)" if "x \<in> set (update_where (\<lambda>r. key r = k) w rows)" for x
    using that assms(4) by (auto simp: set_update_where)
  show ?case
  proof (cases "key a = k")
    case True
    then have "update_where (\<lambda>r. key r = k) w rows = rows"
      using Cons.prems(1) by (intro update_where_id) (auto simp: rev_image_eqI)
    moreover have "v \<notin> name ` set rows" using Cons.prems True by (force simp: image_iff)
    ultimately show ?thesis using True Cons.prems assms(4) by simp
  next
    case False
    then have "name a \<noteq> v" "name a \<notin> name ` set rows" using Cons.prems by auto
    then have "name a \<noteq> name x" if "x \<in> set (update_where (\<lambda>r. key r = k) w rows)" for x
      using names [OF that] by auto
    then show ?thesis using IH False by (auto simp: image_iff)
  qed
qed simp

lemma update_category_ok:
  assumes ok: "ledger_ok db" and upd: "update_category db c data = Inr (c', db')"
  shows "ledger_ok db'"
proof -
  obtain w where db': "db' = db\<lparr>categories := update_where (\<lambda>d. cat_id d = cat_id c) w (categories db), next_id := next_id db\<rparr>"
    and w: "\<And>d. cat_id (w d) = cat_id d" "\<And>d. cat_name (w d) = creq_name data"
    and new: "\<And>d. d \<in> set (categories db) \<Longrightarrow> cat_id d \<noteq> cat_id c \<Longrightarrow> cat_name d \<noteq> creq_name data"
    using upd
    by (intro that [of "\<lambda>c. c\<lparr>cat_name := creq_name data, cat_label := creq_label data,
        background_color := creq_background_color data, text_color := creq_text_color data\<rparr>"])
      (auto simp: update_category_def Let_def split: if_splits)
  have ids: "cat_id ` set (update_where (\<lambda>d. cat_id d = cat_id c) w (categories db)) = cat_id ` set (categories db)"
    using w(1) by (rule set_update_key)
  have "distinct (map cat_name (update_where (\<lambda>d. cat_id d = cat_id c) w (categories db)))"
    by (rule distinct_update_name [where v = "creq_name data"]) (use ok w new in \<open>auto simp: ledger_ok_tables category_table_def\<close>)
  moreover have "list_all (\<lambda>d. cat_id d < next_id db) (update_where (\<lambda>d. cat_id d = cat_id c) w (categories db))"
    using ok w(1) by (auto simp: ledger_ok_tables category_table_def list_all_iff set_update_where)
  ultimately show ?thesis unfolding db' using ok ids w(1)
    by (intro ledger_ok_categories [OF ok])
      (auto simp: ledger_ok_tables category_table_def filter_table_def direct_table_def map_update_where_same)
qed

lemma delete_category_ok:
  assumes ok: "ledger_ok db" and del: "delete_category db c = Inr (db', msg)"
  shows "ledger_ok db'"
proof -
  consider "db' = db" | "db' = db\<lparr>categories := delete_where (\<lambda>d. cat_id d = cat_id c) (categories db), next_id := next_id db\<rparr>"
      "filter (\<lambda>f. cf_category_id f = cat_id c) (category_filters db) = []"
      "\<forall>d \<in> set (category_directs db). cd_category_id d \<noteq> cat_id c"
    using del by (auto simp: delete_category_def get_category_usage_def split: if_splits)
  then show ?thesis
  proof cases
    case 2
    show ?thesis unfolding 2(1)
      by (rule ledger_ok_categories [OF ok])
        (use ok 2(2,3) in \<open>force simp: ledger_ok_tables category_table_def filter_table_def direct_table_def list_all_iff
           distinct_map_delete_where filter_empty_conv\<close>)+
  qed (use ok in simp)
qed

text \<open>A write of the filters and the hits.\<close>

lemma ledger_ok_filters:
  assumes ok: "ledger_ok db" and n: "next_id db \<le> n" and "filter_table (categories db) fs"
    and db': "db' = db\<lparr>category_filters := fs, filter_hits := hs, next_id := n\<rparr>" and "hits_current db'"
  shows "ledger_ok db'"
proof -
  have "one_account_per_iban db'"
    by (rule one_account_frame) (use ok n in \<open>auto simp: ledger_ok_tables db'\<close>)
  then show ?thesis using assms(1,3,5) tables_mono [OF n] by (simp add: ledger_ok_tables db')
qed

lemma valid_filter_category:
  "validate_category_filter_input db data = Inr u \<Longrightarrow> freq_category_id data \<in> cat_id ` set (categories db)"
  by (auto simp: validate_category_filter_input_def get_by_None_iff split: if_splits)

lemma create_filter_ok:
  assumes ok: "ledger_ok db" and new: "create_category_filter db data = Inr (f, db')"
  shows "ledger_ok db'"
proof -
  have cat: "freq_category_id data \<in> cat_id ` set (categories db)"
    using new valid_filter_category by (auto simp: create_category_filter_def bind_res_eq_Inr)
  have f: "cf_id f = next_id db" "cf_name f \<notin> cf_name ` set (category_filters db)" "cf_category_id f = freq_category_id data"
    and db1: "db' = apply_all_category_filters_core False (db\<lparr>next_id := Suc (next_id db), category_filters := category_filters db @ [f]\<rparr>)"
    using new by (auto simp: create_category_filter_def bind_res_eq_Inr fresh_id_def Let_def split: if_splits)
  obtain hs where hs: "db' = (db\<lparr>next_id := Suc (next_id db), category_filters := category_filters db @ [f]\<rparr>)\<lparr>filter_hits := hs\<rparr>"
    using apply_all_writes_hits unfolding db1 by blast
  have db': "db' = db\<lparr>category_filters := category_filters db @ [f], filter_hits := hs, next_id := Suc (next_id db)\<rparr>"
    unfolding hs by simp
  have "hits_current db'" using create_filter_current [OF _ new] ok by (simp add: ledger_ok_tables)
  moreover have "filter_table (categories db) (category_filters db @ [f])"
    using ok f cat by (auto simp: ledger_ok_tables filter_table_def hits_current_def)
  ultimately show ?thesis using ledger_ok_filters [OF ok _ _ db'] by simp
qed

lemma update_filter_ok:
  assumes ok: "ledger_ok db" and upd: "update_category_filter db f data = Inr (g, db')"
  shows "ledger_ok db'"
proof -
  have cat: "freq_category_id data \<in> cat_id ` set (categories db)"
    using upd valid_filter_category by (auto simp: update_category_filter_def bind_res_eq_Inr)
  obtain w where db1: "db' = apply_all_category_filters_core False
        (db\<lparr>category_filters := update_where (\<lambda>g. cf_id g = cf_id f) w (category_filters db)\<rparr>)"
    and w: "\<And>g. cf_id (w g) = cf_id g" "\<And>g. cf_name (w g) = freq_name data" "\<And>g. cf_category_id (w g) = freq_category_id data"
    and new: "\<And>g. g \<in> set (category_filters db) \<Longrightarrow> cf_id g \<noteq> cf_id f \<Longrightarrow> cf_name g \<noteq> freq_name data"
    using upd
    by (intro that [of "\<lambda>f. f\<lparr>cf_name := freq_name data, cf_account_id := freq_account_id data,
               cf_iban := freq_iban data, min_amount := freq_min_amount data, max_amount := freq_max_amount data,
               cf_subject := freq_subject data, cf_subject_mode := freq_subject_mode data,
               cf_category_id := freq_category_id data\<rparr>"])
      (auto simp: update_category_filter_def bind_res_eq_Inr Let_def split: if_splits)
  let ?fs = "update_where (\<lambda>g. cf_id g = cf_id f) w (category_filters db)"
  obtain hs where hs: "db' = (db\<lparr>category_filters := ?fs\<rparr>)\<lparr>filter_hits := hs\<rparr>"
    using apply_all_writes_hits unfolding db1 by blast
  have db': "db' = db\<lparr>category_filters := ?fs, filter_hits := hs, next_id := next_id db\<rparr>" unfolding hs by simp
  have "distinct (map cf_name ?fs)"
    by (rule distinct_update_name [where v = "freq_name data"]) (use ok w new in \<open>auto simp: ledger_ok_tables filter_table_def\<close>)
  then have "filter_table (categories db) ?fs"
    using ok cat w by (auto simp: ledger_ok_tables filter_table_def map_update_where_same set_update_where)
  moreover have "hits_current db'" using update_filter_current [OF _ upd] ok by (simp add: ledger_ok_tables)
  ultimately show ?thesis using ledger_ok_filters [OF ok _ _ db'] by simp
qed

lemma delete_filter_ok: "ledger_ok db \<Longrightarrow> ledger_ok (delete_category_filter db f)"
proof -
  assume ok: "ledger_ok db"
  let ?fs = "delete_where (\<lambda>g. cf_id g = cf_id f) (category_filters db)"
  have "delete_category_filter db f = db\<lparr>category_filters := ?fs,
      filter_hits := delete_where (\<lambda>h. hit_filter_id h = cf_id f) (filter_hits db), next_id := next_id db\<rparr>"
    by (simp add: delete_category_filter_def)
  moreover have "hits_current (delete_category_filter db f)"
    using delete_filter_current ok by (simp add: ledger_ok_tables)
  moreover have "filter_table (categories db) ?fs"
    using ok by (auto simp: ledger_ok_tables filter_table_def distinct_map_delete_where)
  ultimately show ?thesis using ledger_ok_filters [OF ok] by blast
qed

section \<open>Direct assignments\<close>

text \<open>A write of the direct assignments and the hits.\<close>

lemma ledger_ok_directs:
  assumes ok: "ledger_ok db" and "direct_table (categories db) ds"
    and db': "db' = db\<lparr>category_directs := ds, filter_hits := hs\<rparr>" and "hits_current db'"
  shows "ledger_ok db'"
proof -
  have "one_account_per_iban db'" by (rule one_account_frame) (use ok in \<open>auto simp: ledger_ok_tables db'\<close>)
  then show ?thesis using assms(1,2,4) by (simp add: ledger_ok_tables db')
qed

definition directs_ok :: "p4x_db \<Rightarrow> p4x_db \<Rightarrow> bool" where
  "directs_ok db db' \<longleftrightarrow> direct_table (categories db) (category_directs db') \<and>
     (\<exists>ds hs. db' = db\<lparr>category_directs := ds, filter_hits := hs\<rparr>)"

lemma directs_okI:
  "direct_table (categories db) ds \<Longrightarrow> db' = db\<lparr>category_directs := ds, filter_hits := hs\<rparr> \<Longrightarrow> directs_ok db db'"
  by (auto simp: directs_ok_def)

lemma directs_okE:
  assumes "directs_ok db db1"
  obtains ds hs where "db1 = db\<lparr>category_directs := ds, filter_hits := hs\<rparr>" "direct_table (categories db) ds"
  using assms by (auto simp: directs_ok_def)

lemma directs_ok_hits: "directs_ok db db1 \<Longrightarrow> directs_ok db (db1\<lparr>filter_hits := hs\<rparr>)"
  by (erule directs_okE, rule directs_okI [where hs = hs]) auto

lemma directs_ok_refresh: "directs_ok db db1 \<Longrightarrow> directs_ok db (refresh_transaction_hits tx b db1)"
  using refresh_writes_hits [of tx b db1] directs_ok_hits by metis

lemma directs_ok_deactivate: "directs_ok db db1 \<Longrightarrow> directs_ok db (deactivate_directs tx now db1)"
proof (erule directs_okE)
  fix ds hs assume db1: "db1 = db\<lparr>category_directs := ds, filter_hits := hs\<rparr>" and ds: "direct_table (categories db) ds"
  let ?ds = "update_where (\<lambda>d. cd_tx_id d = tx_id tx \<and> direct_active d) (\<lambda>d. d\<lparr>cd_deleted_at := Some now\<rparr>) ds"
  show ?thesis
    by (rule directs_okI [where ds = ?ds and hs = hs])
      (use ds in \<open>simp_all add: direct_table_def db1 deactivate_directs_def set_update_key\<close>)
qed

lemma directs_ok_insert:
  assumes ok: "directs_ok db db1" and ins: "insert_direct i sv db1 = Inr db2"
  shows "directs_ok db db2"
proof -
  obtain c a where c: "c \<in> cat_id ` set (categories db1)" and db2: "db2 = db1\<lparr>category_directs := category_directs db1 @
      [\<lparr>cd_tx_id = i, cd_category_id = c, cd_amount = a, cd_deleted_at = None\<rparr>]\<rparr>"
    using insert_direct_Inr [OF ins] by (auto simp: get_by_None_iff)
  obtain ds hs where db1: "db1 = db\<lparr>category_directs := ds, filter_hits := hs\<rparr>"
    using ok by (auto simp: directs_ok_def)
  show ?thesis
    by (rule directs_okI [where ds = "ds @ [\<lparr>cd_tx_id = i, cd_category_id = c, cd_amount = a, cd_deleted_at = None\<rparr>]" and hs = hs])
      (use ok c in \<open>auto simp: directs_ok_def direct_table_def db1 db2\<close>)
qed

lemma set_direct_directs:
  assumes ok: "directs_ok db db1" and set: "set_category_direct_core db1 now tx slots = Inr (db2, msg)"
  shows "directs_ok db db2"
proof (cases "db2 = db1")
  case False
  then obtain vals db3 b where ins: "fold_res (insert_direct (tx_id tx)) (zip (valid_slots slots) vals) (deactivate_directs tx now db1) = Inr db3"
    and db2: "db2 = refresh_transaction_hits tx b db3"
    using set by (auto simp: set_category_direct_core_def Let_def bind_res_eq_Inr valid_slots_def split: if_splits)
  have "directs_ok db db3"
    by (rule fold_res_invariant [where P = "directs_ok db", OF ins directs_ok_deactivate [OF ok]])
      (rule directs_ok_insert)
  then show ?thesis by (simp add: db2 directs_ok_refresh)
qed (use ok in simp)

lemma directs_ok_ledger: "ledger_ok db \<Longrightarrow> directs_ok db db' \<Longrightarrow> hits_current db' \<Longrightarrow> ledger_ok db'"
  unfolding directs_ok_def using ledger_ok_directs by force

lemma directs_ok_self: "ledger_ok db \<Longrightarrow> directs_ok db db"
  by (rule directs_okI [where ds = "category_directs db" and hs = "filter_hits db"]) (auto simp: ledger_ok_tables)

lemma set_direct_ok:
  assumes ok: "ledger_ok db" and set: "set_category_direct db now tx slots = Inr (db', msg)"
  shows "ledger_ok db'"
proof (rule directs_ok_ledger [OF ok])
  show "directs_ok db db'" using set_direct_directs [OF directs_ok_self [OF ok] set_direct_committed [OF set]] .
  show "hits_current db'" using set_direct_current [OF _ set_direct_committed [OF set]] ok by (simp add: ledger_ok_tables)
qed

lemma unset_direct_ok: "ledger_ok db \<Longrightarrow> ledger_ok (unset_category_direct db now tx)"
  by (rule directs_ok_ledger)
    (auto simp: unset_category_direct_def [of db] directs_ok_refresh directs_ok_deactivate directs_ok_self
      unset_direct_current [unfolded unset_category_direct_def] ledger_ok_tables)

lemma filter_to_direct_ok:
  assumes ok: "ledger_ok db" and f: "f \<in> set (category_filters db)" and conv: "filter_to_direct db now f = Inr (db', msg)"
  shows "ledger_ok db'"
proof (cases msg)
  case None
  note done_ = conv [unfolded None]
  obtain db1 where run: "fold_res (convert now (cf_category_id f)) (get_filter_hits db f) db = Inr db1"
      "db' = db1\<lparr>filter_hits := delete_where (\<lambda>h. hit_filter_id h = cf_id f) (filter_hits db1)\<rparr>"
    using filter_to_direct_Inr(2) [OF done_] by blast
  have "directs_ok db db1"
    by (rule fold_res_invariant [where P = "directs_ok db", OF run(1) directs_ok_self [OF ok]])
      (auto simp: convert_def bind_res_eq_Inr dest: set_direct_directs)
  then have "directs_ok db db'" unfolding run(2) by (rule directs_ok_hits)
  moreover have "\<forall>tx \<in> set (transactions db). tx_active tx \<longrightarrow> amount tx \<noteq> 0"
    using ok by (simp add: ledger_ok_def no_zero_amount_def)
  then have "hits_current db'" using convert_filter [OF _ f _ done_] ok by (simp add: ledger_ok_tables)
  ultimately show ?thesis by (rule directs_ok_ledger [OF ok])
next
  case (Some m)
  then have "db' = db" using conv by (auto simp: filter_to_direct_def bind_res_eq_Inr split: if_splits)
  then show ?thesis using ok by simp
qed

section \<open>Transactions and partners\<close>

text \<open>A change of a transaction that no filter looks at.\<close>

definition same_for_filters :: "p4x_transaction \<Rightarrow> p4x_transaction \<Rightarrow> bool" where
  "same_for_filters t u \<longleftrightarrow> tx_id u = tx_id t \<and> sha256_hash u = sha256_hash t \<and> booking u = booking t \<and>
     tx_iban u = tx_iban t \<and> amount u = amount t \<and> subject u = subject t \<and> tx_account_id u = tx_account_id t \<and>
     tx_deleted_at u = tx_deleted_at t"

lemma same_for_filters_criteria:
  "same_for_filters t u \<Longrightarrow> tx_id u = tx_id t \<and> tx_active u = tx_active t \<and>
     category_filter_criteria f D u = category_filter_criteria f D t"
  by (simp add: same_for_filters_def category_filter_criteria_def tx_active_def cong: option.case_cong)

lemma matching_map:
  assumes "\<And>r. r \<in> set txs \<Longrightarrow> same_for_filters r (g r)"
  shows "map tx_id (filter (\<lambda>tx. tx_active tx \<and> category_filter_criteria f D tx) (map g txs)) =
    map tx_id (filter (\<lambda>tx. tx_active tx \<and> category_filter_criteria f D tx) txs)"
  using assms
proof (induction txs)
  case (Cons a txs)
  have "same_for_filters a (g a)" using Cons.prems by simp
  from same_for_filters_criteria [OF this] Cons show ?case by auto
qed simp

lemma update_tx_ok:
  assumes ok: "ledger_ok db" and t: "t \<in> set (transactions db)" and u: "same_for_filters t u" "delegating_arc_ok u"
  shows "ledger_ok (update_tx db u)"
proof -
  let ?g = "\<lambda>r. if tx_id r = tx_id u then u else r"
  have tx: "transactions (update_tx db u) = map ?g (transactions db)" by (simp add: update_tx_def update_where_def)
  have single: "r = t" if "r \<in> set (transactions db)" "tx_id r = tx_id u" for r
    using that t u(1) ok by (auto simp: ledger_ok_tables tx_table_def distinct_map same_for_filters_def dest: inj_onD)
  have row: "same_for_filters r (?g r)" if "r \<in> set (transactions db)" for r
    using single [OF that] u(1) by (auto simp: same_for_filters_def)
  have "tx_table (next_id db) (map ?g (transactions db))"
  proof (rule tx_table_map)
    show "tx_table (next_id db) (transactions db)" using ok by (simp add: ledger_ok_tables)
    show "tx_id (?g r) = tx_id r \<and> sha256_hash (?g r) = sha256_hash r \<and> tx_row_ok (next_id db) (?g r)"
      if "r \<in> set (transactions db)" for r
      using row [OF that] ok that u(2)
      by (auto simp: same_for_filters_def tx_row_ok_def ledger_ok_tables tx_table_def list_all_iff)
  qed
  moreover have "hits_current (update_tx db u)"
  proof -
    have m: "matching_transactions (update_tx db u) f {} = matching_transactions db f {}" for f
      unfolding matching_transactions_def tx by (rule matching_map [OF row])
    have same: "category_filters (update_tx db u) = category_filters db" "category_directs (update_tx db u) = category_directs db"
      "filter_hits (update_tx db u) = filter_hits db" "next_id (update_tx db u) = next_id db"
      by (simp_all add: update_tx_def)
    have "map tx_id (map ?g (transactions db)) = map tx_id (transactions db)"
      using row by (simp add: same_for_filters_def)
    then show ?thesis
      using ok tx_with_directs_cong [OF same(2)]
      by (simp add: ledger_ok_tables hits_current_def expected_hits_def base_hits_def m same tx del: map_map)
  qed
  moreover have "one_account_per_iban (update_tx db u)"
    by (rule one_account_frame) (use ok in \<open>auto simp: ledger_ok_tables update_tx_def\<close>)
  ultimately show ?thesis using ok unfolding ledger_ok_tables tx by (simp add: update_tx_def)
qed

lemma ledger_ok_partners:
  assumes ok: "ledger_ok db" and n: "next_id db \<le> n" and "partner_table n ps"
  shows "ledger_ok (db\<lparr>partners := ps, next_id := n\<rparr>)"
proof -
  have "hits_current (db\<lparr>partners := ps, next_id := n\<rparr>)"
    by (rule hits_current_frame) (use ok n in \<open>auto simp: ledger_ok_tables\<close>)
  moreover have "one_account_per_iban (db\<lparr>partners := ps, next_id := n\<rparr>)"
    by (rule one_account_frame) (use ok n in \<open>auto simp: ledger_ok_tables\<close>)
  ultimately show ?thesis using assms tables_mono [OF n] by (simp add: ledger_ok_tables)
qed

lemma partner_table_update:
  assumes "partner_table n ps" "\<And>p. partner_pk (w p) = partner_pk p" "\<And>p. partner_iban (w p) = partner_iban p"
    and "\<And>p. partner_arc_ok p \<Longrightarrow> partner_arc_ok (w p)"
  shows "partner_table n (update_where P w ps)"
proof -
  have "filter (\<lambda>p. partner_iban p \<noteq> None) (update_where P w ps) = update_where P w (filter (\<lambda>p. partner_iban p \<noteq> None) ps)"
    by (rule filter_update_where_same) (simp add: assms(3))
  then show ?thesis using assms
    by (auto simp: partner_table_def map_update_where_same list_all_iff set_update_where)
qed

lemma upsert_partner_ok:
  assumes ok: "ledger_ok db"
  shows "ledger_ok (upsert_partner db iban e)"
proof (cases "List.find (\<lambda>p. partner_iban p = Some iban) (partners db)")
  case None
  let ?p = "write_partner e \<lparr>partner_pk = next_id db, partner_iban = Some iban, partner_member_id = None,
      partner_contact_id = None, partner_account_id = None, partner_special_id = None, partner_deleted_at = None\<rparr>"
  have db': "upsert_partner db iban e = db\<lparr>partners := partners db @ [?p], next_id := Suc (next_id db)\<rparr>"
    using None by (simp add: upsert_partner_def fresh_id_def)
  have "partner_table (Suc (next_id db)) (partners db @ [?p])"
    using ok None by (auto simp: ledger_ok_tables partner_table_def list_all_iff find_None_iff)
  then show ?thesis unfolding db' using ledger_ok_partners [OF ok] by simp
next
  case (Some p)
  let ?ps = "update_where (\<lambda>q. partner_pk q = partner_pk p) (write_partner e) (partners db)"
  have db': "upsert_partner db iban e = db\<lparr>partners := ?ps, next_id := next_id db\<rparr>"
    using Some by (simp add: upsert_partner_def)
  have "partner_table (next_id db) ?ps"
    by (rule partner_table_update) (use ok in \<open>auto simp: ledger_ok_tables\<close>)
  then show ?thesis unfolding db' using ledger_ok_partners [OF ok] by blast
qed

lemma set_own_partner_ok:
  assumes ok: "ledger_ok db" and set: "set_own_partner db now tx partner_data = Inr db'"
  shows "ledger_ok db'"
proof (cases partner_data)
  case None
  let ?ps = "update_where (\<lambda>p. partner_iban p = Some (tx_iban tx) \<and> partner_active p) (\<lambda>p. p\<lparr>partner_deleted_at := Some now\<rparr>) (partners db)"
  have "db' = db\<lparr>partners := ?ps\<rparr>" using set None by (simp add: set_own_partner_def)
  then have "db' = db\<lparr>partners := ?ps, next_id := next_id db\<rparr>" by simp
  moreover have "partner_table (next_id db) ?ps"
    by (rule partner_table_update) (use ok in \<open>auto simp: ledger_ok_tables partner_arc_ok_def\<close>)
  ultimately show ?thesis using ledger_ok_partners [OF ok] by blast
next
  case (Some r)
  then show ?thesis using set upsert_partner_ok [OF ok] by (auto simp: set_own_partner_def split: prod.splits if_splits option.splits)
qed

lemma set_partner_ok:
  assumes ok: "ledger_ok db" and tx: "tx \<in> set (transactions db)"
    and set: "set_transaction_partner db now tx partner_data has_delegating delegating_data = Inr (db', tx')"
  shows "ledger_ok db'"
proof -
  obtain db1 where own: "set_own_partner db now tx partner_data = Inr db1" and db': "db' = update_tx db1 tx'"
    and tx': "tx' = clear_delegating tx \<or> (\<exists>e. tx' = write_delegating e (clear_delegating tx))"
    using set by (auto simp: set_transaction_partner_def bind_res_eq_Inr split: bool.splits option.splits) blast+
  have "tx \<in> set (transactions db1)"
    using own_partner_set(1) [OF _ own] ok tx by (simp add: ledger_ok_def)
  moreover have "same_for_filters tx (clear_delegating tx)" by (simp add: same_for_filters_def clear_delegating_def)
  moreover have "same_for_filters tx (write_delegating e (clear_delegating tx))" for e
    by (cases e) (simp_all add: same_for_filters_def clear_delegating_def write_delegating_def)
  moreover have "delegating_arc_ok tx'" using tx' by auto
  ultimately show ?thesis unfolding db' using update_tx_ok [OF set_own_partner_ok [OF ok own]] tx' by blast
qed

lemma update_meta_ok:
  assumes ok: "ledger_ok db" and tx: "tx \<in> set (transactions db)"
  shows "ledger_ok (fst (update_transaction_meta db tx comment bytes del))"
proof -
  have "delegating_arc_ok tx" using ok tx by (simp add: ledger_ok_def p4x_ok_def list_all_iff)
  then have "ledger_ok (update_tx db u)" if "same_for_filters tx u" "delegating_member_id u = delegating_member_id tx"
    "delegating_contact_id u = delegating_contact_id tx" "delegating_p4x_account_id u = delegating_p4x_account_id tx"
    "delegating_p4x_special_contact_id u = delegating_p4x_special_contact_id tx" for u
    using update_tx_ok [OF ok tx that(1)] that by (simp add: delegating_arc_ok_def)
  then show ?thesis
    by (simp add: update_transaction_meta_def Let_def same_for_filters_def)
qed

section \<open>The import\<close>

lemma booking_date_valid: "booking_date repr struct name = Inr d \<Longrightarrow> valid_date d"
proof -
  assume "booking_date repr struct name = Inr d"
  then obtain v where v: "(case fromisoformat (take 10 (strip (py_str repr v))) of
      Inr d \<Rightarrow> Inr d | Inl _ \<Rightarrow> Inl (''invalid field: '' @ name)) = Inr d"
    unfolding booking_date_def bind_res_eq_Inr by blast
  then show "valid_date d"
    by (cases "fromisoformat (take 10 (strip (py_str repr v)))") (auto simp: fromisoformat_valid)
qed

lemma parse_entry_valid: "parse_entry repr dumps struct = Inr p \<Longrightarrow> valid_date (p_booking p)"
  by (cases struct) (auto simp: parse_entry_def bind_res_eq_Inr Let_def booking_date_valid split: if_splits)

lemma map_res_InrD: "map_res f xs = Inr ys \<Longrightarrow> y \<in> set ys \<Longrightarrow> \<exists>x \<in> set xs. f x = Inr y"
  by (induction xs arbitrary: ys) (auto simp: bind_res_eq_Inr)

lemma parsed_entries_valid:
  assumes "p \<in> set (pr_entries (parse_george_json loads repr dumps bic raw))"
  shows "valid_date (p_booking p)"
proof -
  obtain structs where "map_res (parse_entry repr dumps) structs = Inr (pr_entries (parse_george_json loads repr dumps bic raw))"
    using assms by (auto simp: parse_george_json_def split: if_splits option.splits json.splits sum.splits)
  with assms show ?thesis using map_res_InrD parse_entry_valid by metis
qed

text \<open>What the loop of the import keeps: the rows of the table and the rows still to be added.\<close>

definition importing :: "p4x_db \<Rightarrow> import_state \<Rightarrow> bool" where
  "importing db st \<longleftrightarrow> (\<exists>txs n. i_db st = db\<lparr>transactions := txs, next_id := n\<rparr> \<and> next_id db \<le> n \<and>
     distinct (map tx_id (txs @ i_pending st)) \<and> list_all (tx_row_ok n) (txs @ i_pending st))"

lemma importingE:
  assumes "importing db st"
  obtains txs n where "i_db st = db\<lparr>transactions := txs, next_id := n\<rparr>" "next_id db \<le> n"
    "distinct (map tx_id (txs @ i_pending st))" "list_all (tx_row_ok n) (txs @ i_pending st)"
  using assms by (auto simp: importing_def)

lemma importingI:
  "i_db st = db\<lparr>transactions := txs, next_id := n\<rparr> \<Longrightarrow> next_id db \<le> n \<Longrightarrow>
     distinct (map tx_id (txs @ i_pending st)) \<Longrightarrow> list_all (tx_row_ok n) (txs @ i_pending st) \<Longrightarrow> importing db st"
  unfolding importing_def by blast

lemma write_entry_row:
  "tx_row_ok n t \<Longrightarrow> valid_date (p_booking p) \<Longrightarrow> a \<noteq> 0 \<Longrightarrow> tx_row_ok n (write_entry k p a t)"
  by (simp add: tx_row_ok_def write_entry_def delegating_arc_ok_def)

lemma write_entry_id: "tx_id (write_entry k p a t) = tx_id t"
  by (simp add: write_entry_def)

lemma import_hashed_importing:
  assumes st: "importing db st" and p: "valid_date (p_booking p)" "a \<noteq> 0"
  shows "importing db (import_hashed now account h p a st)"
proof -
  obtain txs n where d: "i_db st = db\<lparr>transactions := txs, next_id := n\<rparr>" "next_id db \<le> n"
    "distinct (map tx_id (txs @ i_pending st))" "list_all (tx_row_ok n) (txs @ i_pending st)"
    using st by (rule importingE)
  show ?thesis
  proof (cases "case acc_init_date account of None \<Rightarrow> False | Some d \<Rightarrow> p_booking p < d")
    case True
    let ?txs = "update_where (\<lambda>t. sha256_hash t = h) (\<lambda>t. t\<lparr>tx_deleted_at := Some now\<rparr>) txs"
    show ?thesis
      by (rule importingI [where txs = ?txs and n = n])
        (use True d in \<open>auto simp: import_hashed_def map_update_where_same set_update_key list_all_iff set_update_where
           tx_row_ok_def delegating_arc_ok_def\<close>)
  next
    case False
    show ?thesis
    proof (cases "List.find (\<lambda>t. sha256_hash t = h) txs")
      case None
      have "tx_row_ok (Suc n) (write_entry (acc_id account) p a (blank_tx n h))"
        using p by (simp add: tx_row_ok_def write_entry_def blank_tx_def delegating_arc_ok_def num_nonnulls_def)
      moreover have "tx_id t \<noteq> n" "tx_row_ok (Suc n) t" if "t \<in> set (txs @ i_pending st)" for t
      proof -
        have "tx_row_ok n t" using that d(4) by (auto simp: list_all_iff)
        then show "tx_id t \<noteq> n" "tx_row_ok (Suc n) t" by (auto simp: tx_row_ok_def)
      qed
      ultimately show ?thesis
        using False None d p
        by (intro importingI [where txs = txs and n = "Suc n"])
          (auto simp: import_hashed_def fresh_id_def write_entry_id blank_tx_def list_all_iff)
    next
      case (Some t)
      let ?txs = "update_where (\<lambda>u. tx_id u = tx_id t) (write_entry (acc_id account) p a) txs"
      show ?thesis
        by (rule importingI [where txs = ?txs and n = n])
          (use False Some d p in \<open>auto simp: import_hashed_def map_update_where_same set_update_key list_all_iff set_update_where
             write_entry_id write_entry_row\<close>)
    qed
  qed
qed

lemma importing_counters: "importing db st \<Longrightarrow> importing db (st\<lparr>i_seen := s, i_summary := c\<rparr>)"
  by (simp add: importing_def)

lemma importing_summary: "importing db st \<Longrightarrow> importing db (st\<lparr>i_summary := c\<rparr>)"
  by (simp add: importing_def)

lemma import_entry_importing:
  assumes "importing db st" "valid_date (p_booking (fst ps))" "import_entry sha repr now account ps st = Inr st'"
  shows "importing db st'"
proof -
  obtain a where a: "decimal_of_text (p_amount (fst ps)) = Inr a"
    using assms(3) by (auto simp: import_entry_def Let_def bind_res_eq_Inr)
  consider c where "st' = st\<lparr>i_summary := c\<rparr>"
    | h s c where "a \<noteq> 0" "st' = import_hashed now account h (fst ps) a (st\<lparr>i_seen := s, i_summary := c\<rparr>)"
  proof (cases "a = 0")
    case True
    then show ?thesis using assms(3) that(1) by (auto simp: import_entry_def Let_def a)
  next
    case False
    obtain b v where bv: "date_to_carbon_json (p_booking (fst ps)) (struct_text repr (snd ps) ''booking'') = Inr b"
        "date_to_carbon_json (p_valuation (fst ps)) (struct_text repr (snd ps) ''valuation'') = Inr v"
      using assms(3) False by (auto simp: import_entry_def Let_def a bind_res_eq_Inr)
    show ?thesis using assms(3) False that(2) by (auto simp: import_entry_def Let_def a bv split: prod.split_asm)
  qed
  then show ?thesis
    using assms(1,2) importing_counters importing_summary import_hashed_importing by cases simp_all
qed

lemma import_ok:
  assumes ok: "ledger_ok db" and valid: "\<And>p. p \<in> set entries \<Longrightarrow> valid_date (p_booking p)"
    and imp: "import_and_apply_filters sha repr now db account entries structs = Inr (db', summary)"
  shows "ledger_ok db'"
proof -
  let ?st = "\<lparr>i_db = db, i_pending = [], i_seen = (\<lambda>_. 0), i_summary = (\<lambda>_. 0)\<rparr>"
  obtain st db1 where loop: "fold_res (import_entry sha repr now account) (zip entries structs) ?st = Inr st"
    and flush: "flush_transactions (i_db st) (i_pending st) = Inr db1"
    and db': "db' = apply_all_category_filters_core False db1"
    using imp by (auto simp: import_and_apply_filters_def import_transactions_def bind_res_eq_Inr)
  have "importing db ?st"
    by (rule importingI [where txs = "transactions db" and n = "next_id db"])
      (use ok in \<open>auto simp: ledger_ok_tables tx_table_def\<close>)
  from loop this have "importing db st"
  proof (rule fold_res_invariant)
    fix x u v
    assume "x \<in> set (zip entries structs)" "importing db u" "import_entry sha repr now account x u = Inr v"
    moreover from this(1) have "valid_date (p_booking (fst x))" using valid set_zip_leftD by (metis prod.collapse)
    ultimately show "importing db v" using import_entry_importing by blast
  qed
  then obtain txs n where d: "i_db st = db\<lparr>transactions := txs, next_id := n\<rparr>" "next_id db \<le> n"
    "distinct (map tx_id (txs @ i_pending st))" "list_all (tx_row_ok n) (txs @ i_pending st)"
    by (rule importingE)
  have db1: "db1 = db\<lparr>transactions := txs @ i_pending st, next_id := n\<rparr>" "distinct (map sha256_hash (txs @ i_pending st))"
    using flush by (auto simp: flush_transactions_def d(1) split: if_splits)
  have cur: "hits_current db'" unfolding db'
    by (rule apply_all_current) (use ok d(2,3) hits_of_filters in \<open>auto simp: ledger_ok_tables hits_current_def db1(1)\<close>)
  obtain hs where hs: "db' = db1\<lparr>filter_hits := hs\<rparr>" using apply_all_writes_hits unfolding db' by blast
  have "one_account_per_iban db'"
    by (rule one_account_frame) (use ok d(2) in \<open>auto simp: ledger_ok_tables hs db1(1)\<close>)
  moreover have "tx_table n (txs @ i_pending st)" using d(3,4) db1(2) unfolding tx_table_def by blast
  ultimately show ?thesis using ok cur tables_mono [OF d(2)] by (simp add: ledger_ok_tables hs db1(1))
qed

end
