(* ===== verification/P4x_Route_Properties.thy ===== *)
theory P4x_Route_Properties
  imports P4x_Ledger P4x_Import_Properties Permission_Properties
begin

text \<open>
  The ledger as its routes show it: who may write, what every request keeps, that the answers of a
  list are those of its transactions one by one, what comes back of an attachment, what a member
  sees of the own account, and that the summary adds up.
\<close>

section \<open>Who may write\<close>

abbreviation no_p4x_admin :: exc where
  "no_p4x_admin \<equiv> HTTPException 403 ''missing permission: p4xAdmin''"

lemma p4x_admin_missing:
  "''p4xAdmin'' \<notin> set (calculate_permissions (pe_settings env) (pe_today env) u) \<Longrightarrow> p4x_admin env u = Inl no_p4x_admin"
  by (simp add: p4x_admin_def require_permission_def)

lemma admin_write_refused:
  "p4x_admin env u = Inl e \<Longrightarrow> admin_write env u db found write answer = (db, Inl e)"
  by (simp add: admin_write_def after_commit_def)

lemmas p4x_write_defs =
  route_create_account_def route_update_account_def route_delete_account_def route_set_partner_def
  route_create_category_def route_update_category_def delete_category_endpoint_def route_create_filter_def
  route_update_filter_def delete_category_filter_endpoint_def process_filter2direct_def
  set_category_direct_endpoint_def unset_category_direct_endpoint_def route_create_fee_def route_delete_fee_def
  route_update_fee_member_def

text \<open>C8: Without the permission p4xAdmin every writing route of the ledger answers 403 and changes nothing.\<close>
theorem only_p4x_admins_change_the_ledger:
  assumes "''p4xAdmin'' \<notin> set (calculate_permissions (pe_settings env) (pe_today env) u)"
  shows "handle_p4x env u req db = (db, Inl (HTTPException 403 ''missing permission: p4xAdmin''))"
  by (cases req) (simp_all add: p4x_write_defs admin_write_refused [OF p4x_admin_missing [OF assms]] answered_def
      route_import_def route_update_transaction_def p4x_admin_missing [OF assms])

section \<open>What every request keeps\<close>

lemma fst_answered [simp]: "fst (answered r) = fst r"
  by (simp add: answered_def)

lemma admin_write_keeps:
  assumes "P db" "\<And>x db'. found = Inr x \<Longrightarrow> write x = Inr db' \<Longrightarrow> P db'"
  shows "P (fst (admin_write env u db found write answer))"
proof (cases "bind_res (p4x_admin env u) (\<lambda>_. bind_res found write)")
  case (Inr db')
  then obtain x where "found = Inr x" "write x = Inr db'" by (auto simp: bind_res_eq_Inr)
  then have "P db'" by (rule assms(2))
  then show ?thesis unfolding admin_write_def after_commit_def Inr by simp
qed (use assms(1) in \<open>simp add: admin_write_def after_commit_def\<close>)

lemma or_message_Inr: "or_message code r = Inr db' \<longleftrightarrow> r = Inr (db', None)"
  by (cases r) (auto simp: or_message_def split: option.split_asm)

lemma row_or_404_find: "row_or_404 d (List.find P rows) = Inr r \<Longrightarrow> r \<in> set rows"
  by (auto simp: row_or_404_def dest: find_SomeD split: option.split_asm)

lemma found_transaction: "get_transaction_or_404 db k = Inr tx \<Longrightarrow> tx \<in> set (transactions db)"
  unfolding get_transaction_or_404_def by (rule row_or_404_find)

lemma found_filter: "get_filter_or_404 db k = Inr f \<Longrightarrow> f \<in> set (category_filters db)"
  unfolding get_filter_or_404_def get_by_def by (rule row_or_404_find)

lemma or_invalid_InrD: "or_invalid x = Inr r \<Longrightarrow> x = Some r"
  by (simp add: or_invalid_def split: option.split_asm)

lemma valid_fee: "FeeCreateRequest y m fee = Some (y', m', fee') \<Longrightarrow> 0 \<le> fee'"
  by (auto simp: FeeCreateRequest_def money_field_def split: if_split_asm)

lemma route_import_ok: "ledger_ok db \<Longrightarrow> ledger_ok (fst (route_import env u db k file))"
proof -
  assume ok: "ledger_ok db"
  have "ledger_ok db'" if run: "run_george_import sha loads repr dumps now db account raw = Inr (db', msg, summary)"
    for sha loads repr dumps now account raw db' msg summary
  proof -
    let ?r = "parse_george_json loads repr dumps (case acc_bic account of None \<Rightarrow> [] | Some b \<Rightarrow> b) raw"
    show ?thesis
    proof (cases "pr_success ?r")
      case True
      then obtain structs s where "import_and_apply_filters sha repr now db account (pr_entries ?r) structs = Inr (db', s)"
        using run by (auto simp: run_george_import_def Let_def bind_res_eq_Inr)
      then show ?thesis using import_ok [OF ok] parsed_entries_valid by blast
    qed (use run ok in \<open>simp add: run_george_import_def\<close>)
  qed
  then show ?thesis using ok
    by (auto simp: route_import_def bind_res_eq_Inr split: sum.split)
qed

lemma route_update_transaction_ok: "ledger_ok db \<Longrightarrow> ledger_ok (fst (route_update_transaction env u db k c x f))"
proof -
  assume ok: "ledger_ok db"
  have "ledger_ok (fst (update_transaction_and_build_response db tx c bytes x))" if "tx \<in> set (transactions db)" for tx bytes
    using update_meta_ok [OF ok that, of c bytes x] by (auto simp: update_transaction_and_build_response_def split: prod.split)
  then show ?thesis using ok found_transaction
    by (auto simp: route_update_transaction_def bind_res_eq_Inr split: sum.split)
qed

lemma handle_p4x_ok: "ledger_ok db \<Longrightarrow> ledger_ok (fst (handle_p4x env u req db))"
proof -
  assume ok: "ledger_ok db"
  show ?thesis
  proof (cases req)
    case (P_Import k f)
    then show ?thesis using route_import_ok [OF ok] by simp
  next
    case (P_Update_Transaction k c x f)
    then show ?thesis using route_update_transaction_ok [OF ok] by simp
  next
    case (P_Set_Partner k p h d)
    show ?thesis unfolding P_Set_Partner handle_p4x.simps fst_answered route_set_partner_def
      by (rule admin_write_keeps [where P = ledger_ok, OF ok])
        (auto simp: bind_res_eq_Inr intro: set_partner_ok [OF ok found_transaction])
  next
    case (P_Create_Fee y m f)
    show ?thesis unfolding P_Create_Fee handle_p4x.simps fst_answered route_create_fee_def
      by (rule admin_write_keeps [where P = ledger_ok, OF ok])
        (auto simp: or_message_Inr intro: create_fee_ok [OF ok] dest!: or_invalid_InrD valid_fee)
  next
    case (P_Filter_To_Direct k)
    show ?thesis unfolding P_Filter_To_Direct handle_p4x.simps fst_answered process_filter2direct_def
      by (rule admin_write_keeps [where P = ledger_ok, OF ok])
        (auto simp: or_message_Inr intro: filter_to_direct_ok [OF ok found_filter])
  qed (simp_all only: handle_p4x.simps fst_answered p4x_write_defs,
      (rule admin_write_keeps [where P = ledger_ok, OF ok], auto simp: bind_res_eq_Inr or_message_Inr
        intro: create_account_ok [OF ok] update_account_ok [OF ok] delete_account_ok [OF ok]
          create_category_ok [OF ok] update_category_ok [OF ok] delete_category_ok [OF ok]
          create_filter_ok [OF ok] update_filter_ok [OF ok] delete_filter_ok [OF ok]
          set_direct_ok [OF ok] unset_direct_ok [OF ok] delete_fee_ok [OF ok] update_fee_member_ok [OF ok])+)
qed

text \<open>C7: Whatever the administrators of the ledger send, in any order, at any time: the constraints of the schema hold,
  no identifier is given twice, no filter or assignment is left without its category, no IBAN has two active
  accounts, and the stored filter hits are exactly the matches.\<close>
theorem ledger_stays_consistent:
  assumes "ledger_ok db"
  shows "ledger_ok (fold (\<lambda>(env, u, req) db. fst (handle_p4x env u req db)) requests db)"
  using assms
proof (induction requests arbitrary: db)
  case (Cons r requests)
  obtain env u req where r: "r = (env, u, req)" by (cases r)
  show ?case using Cons.IH [OF handle_p4x_ok [OF Cons.prems]] by (simp add: r del: handle_p4x.simps)
qed simp

section \<open>The answers of a list\<close>

lemma map_of_filter_key:
  "map_of xs k = (case filter (\<lambda>p. fst p = k) xs of [] \<Rightarrow> None | p # _ \<Rightarrow> Some (snd p))"
  by (induction xs) auto

lemma filter_concat_one:
  assumes "distinct ts" "\<And>ty p. p \<in> set (f ty) \<Longrightarrow> fst (fst p) = ty"
  shows "filter (\<lambda>p. fst p = (t, k)) (concat (map f ts)) = (if t \<in> set ts then filter (\<lambda>p. fst p = (t, k)) (f t) else [])"
  using assms(1)
proof (induction ts)
  case (Cons a ts)
  have "filter (\<lambda>p. fst p = (t, k)) (f a) = []" if "a \<noteq> t" using assms(2) [of _ a] that by (force simp: filter_empty_conv)
  then show ?case using Cons by auto
qed simp

definition rows_with_id :: "p4x_db \<Rightarrow> string \<Rightarrow> uuid \<Rightarrow> entities" where
  "rows_with_id db t k = (case partner_type_of_text t of None \<Rightarrow> []
     | Some pt \<Rightarrow> map (\<lambda>e. ((t, k), e)) (filter (\<lambda>e. entity_id e = k) (partner_rows db pt)))"

lemma found_entities:
  "filter (\<lambda>p. fst p = (t, k)) (find_partner_entities db refs) = (if (t, k) \<in> set refs then rows_with_id db t k else [])"
proof -
  let ?f = "\<lambda>ptype. case partner_type_of_text ptype of None \<Rightarrow> []
      | Some pt \<Rightarrow> let ids = snd ` set (filter (\<lambda>r. fst r = ptype) refs)
                 in map (\<lambda>e. ((ptype, entity_id e), e)) (filter (\<lambda>e. entity_id e \<in> ids) (partner_rows db pt))"
  have "fst (fst p) = ty" if "p \<in> set (?f ty)" for ty p using that by (auto simp: Let_def split: option.splits)
  then have "filter (\<lambda>p. fst p = (t, k)) (find_partner_entities db refs) =
      (if t \<in> set (remdups (map fst refs)) then filter (\<lambda>p. fst p = (t, k)) (?f t) else [])"
    unfolding find_partner_entities_def by (intro filter_concat_one) auto
  also have "filter (\<lambda>p. fst p = (t, k)) (?f t) = (if (t, k) \<in> set refs then rows_with_id db t k else [])"
  proof (cases "partner_type_of_text t")
    case (Some pt)
    let ?ids = "snd ` set (filter (\<lambda>r. fst r = t) refs)"
    have k: "k \<in> ?ids \<longleftrightarrow> (t, k) \<in> set refs" by force
    have "filter (\<lambda>p. fst p = (t, k)) (map (\<lambda>e. ((t, entity_id e), e)) (filter (\<lambda>e. entity_id e \<in> ids) es)) =
        (if k \<in> ids then map (\<lambda>e. ((t, k), e)) (filter (\<lambda>e. entity_id e = k) es) else [])" for ids es
      by (induction es) auto
    then show ?thesis using k by (simp add: Some rows_with_id_def Let_def)
  qed (simp add: rows_with_id_def)
  finally show ?thesis by force
qed

lemma entity_of_found:
  assumes "(t, k) \<in> set refs" "(t, k) \<in> set refs'"
  shows "entity_of (find_partner_entities db refs) t k = entity_of (find_partner_entities db refs') t k"
  using assms by (simp add: entity_of_def map_of_filter_key [of "rev _"] rev_filter [symmetric] found_entities)

lemma hit_count_found:
  assumes "i \<in> ids" "i \<in> hit_filter_id ` set (filter_hits db)"
  shows "map_of (filter_hit_counts db ids) i = Some (length (filter (\<lambda>h. hit_filter_id h = i) (filter_hits db)))"
  using assms unfolding filter_hit_counts_def by (subst map_of_map_restrict) (auto simp: restrict_map_def)

text \<open>The references of one transaction, when the exclusive arc holds.\<close>

lemma partner_of_arc:
  "partner_arc_ok p \<Longrightarrow> \<exists>t k. partner_type_of p = Inr t \<and> partner_id_of p = Inr k"
  by (cases "partner_member_id p"; cases "partner_contact_id p"; cases "partner_account_id p"; cases "partner_special_id p")
    (auto simp: partner_arc_ok_def num_nonnulls_def partner_type_of_def partner_id_of_def)

definition reads_only :: "p4x_db \<Rightarrow> p4x_transaction \<Rightarrow> (string \<times> uuid) list \<Rightarrow> bool" where
  "reads_only db tx refs \<longleftrightarrow> (\<forall>es es'. (\<forall>(t, k) \<in> set refs. entity_of es t k = entity_of es' t k) \<longrightarrow>
     own_partner_ref db tx es = own_partner_ref db tx es' \<and>
     partner_ref_of (delegating_partner_type tx) (delegating_partner_id tx) es =
       partner_ref_of (delegating_partner_type tx) (delegating_partner_id tx) es')"

lemma refs_found:
  assumes "list_all partner_arc_ok (partners db)"
  shows "\<exists>refs. transaction_partner_refs db tx = Inr refs \<and> reads_only db tx refs"
proof -
  define dels where "dels = (case (delegating_partner_type tx, delegating_partner_id tx) of
      (Some t, Some i) \<Rightarrow> [(partner_type_text t, i)] | _ \<Rightarrow> [])"
  have d: "partner_ref_of (delegating_partner_type tx) (delegating_partner_id tx) es =
      partner_ref_of (delegating_partner_type tx) (delegating_partner_id tx) es'"
    if "\<forall>(t, k) \<in> set dels. entity_of es t k = entity_of es' t k" for es es'
    using that unfolding dels_def partner_ref_of_def
    by (cases "delegating_partner_type tx"; cases "delegating_partner_id tx") simp_all
  have only: "reads_only db tx (own @ dels)"
    if "\<And>es es'. (\<forall>(t, k) \<in> set own. entity_of es t k = entity_of es' t k) \<Longrightarrow> own_partner_ref db tx es = own_partner_ref db tx es'" for own
    unfolding reads_only_def set_append ball_Un using that d by blast
  show ?thesis
  proof (cases "\<exists>p. tx_partner db tx = Some p \<and> partner_active p")
    case False
    then have "\<And>es. own_partner_ref db tx es = Inr None" "transaction_partner_refs db tx = Inr ([] @ dels)"
      by (auto simp: own_partner_ref_def transaction_partner_refs_def dels_def split: option.split)
    then show ?thesis using only [of "[]"] by auto
  next
    case True
    then obtain p where p: "tx_partner db tx = Some p" "partner_active p" by blast
    have "p \<in> set (partners db)" using p(1) find_SomeD by (force simp: tx_partner_def)
    then obtain t k where tk: "partner_type_of p = Inr t" "partner_id_of p = Inr k"
      using assms(1) partner_of_arc unfolding list_all_iff by blast
    have "own_partner_ref db tx es = Inr (partner_ref_of (Some t) (Some k) es)" for es
      by (simp add: own_partner_ref_def p tk)
    then have "reads_only db tx ([(partner_type_text t, k)] @ dels)"
      by (intro only) (simp add: partner_ref_of_def)
    moreover have "transaction_partner_refs db tx = Inr ([(partner_type_text t, k)] @ dels)"
      by (simp add: transaction_partner_refs_def p tk dels_def)
    ultimately show ?thesis by blast
  qed
qed

definition hit_ids :: "p4x_db \<Rightarrow> p4x_transaction list \<Rightarrow> uuid set" where
  "hit_ids db txs = hit_filter_id ` set (filter (\<lambda>h. hit_tx_id h \<in> tx_id ` set txs) (filter_hits db))"

lemma hit_filters_counted:
  assumes "f \<in> set (hit_filters db tx)" "tx \<in> set txs"
  shows "map_of (filter_hit_counts db (hit_ids db txs)) (cf_id f) =
    Some (length (filter (\<lambda>h. hit_filter_id h = cf_id f) (filter_hits db)))"
proof -
  obtain h where h: "h \<in> set (filter_hits db)" "hit_tx_id h = tx_id tx" "get_by cf_id (category_filters db) (hit_filter_id h) = Some f"
    using assms(1) by (auto simp: hit_filters_def)
  then have "cf_id f = hit_filter_id h" using get_by_SomeD by metis
  then show ?thesis using h assms(2) by (intro hit_count_found) (auto simp: hit_ids_def)
qed

lemma build_one_cong:
  assumes "own_partner_ref db tx es = own_partner_ref db tx es'"
    and "partner_ref_of (delegating_partner_type tx) (delegating_partner_id tx) es =
      partner_ref_of (delegating_partner_type tx) (delegating_partner_id tx) es'"
    and "\<And>f. f \<in> set (hit_filters db tx) \<Longrightarrow> map_of counts (cf_id f) = map_of counts' (cf_id f)"
  shows "build_one_response db tx es counts = build_one_response db tx es' counts'"
proof -
  have "map (\<lambda>f. \<lparr>fr_filter = f, fr_account_label = account_label db (cf_account_id f),
        fr_hitCount = (case map_of counts (cf_id f) of None \<Rightarrow> 0 | Some n \<Rightarrow> n)\<rparr>) (hit_filters db tx) =
      map (\<lambda>f. \<lparr>fr_filter = f, fr_account_label = account_label db (cf_account_id f),
        fr_hitCount = (case map_of counts' (cf_id f) of None \<Rightarrow> 0 | Some n \<Rightarrow> n)\<rparr>) (hit_filters db tx)"
    using assms(3) by (intro map_cong) auto
  then show ?thesis unfolding build_one_response_def assms(1,2) by (simp only:)
qed

lemma map_res_Inr: "(\<And>x. x \<in> set xs \<Longrightarrow> f x = Inr (g x)) \<Longrightarrow> map_res f xs = Inr (map g xs)"
  by (induction xs) auto

lemma map_res_cong: "(\<And>x. x \<in> set xs \<Longrightarrow> f x = g x) \<Longrightarrow> map_res f xs = map_res g xs"
  by (induction xs) auto

text \<open>C10: The answers for a list of transactions, for which the partners are looked up once per kind and the hits counted in
  one query, are exactly the answers for the transactions one by one.\<close>
theorem list_answers_are_single_answers:
  assumes arcs: "list_all partner_arc_ok (partners db)"
  shows "build_transaction_responses db txs = map_res (build_transaction_response db) txs"
proof -
  obtain rs where rs: "\<And>tx. transaction_partner_refs db tx = Inr (rs tx)" and only: "\<And>tx. reads_only db tx (rs tx)"
    using refs_found [OF arcs] by metis
  have batch: "map_res (transaction_partner_refs db) l = Inr (map rs l)" for l by (rule map_res_Inr) (rule rs)
  let ?es = "\<lambda>l. find_partner_entities db (concat (map rs l))"
  let ?counts = "\<lambda>l. filter_hit_counts db (hit_ids db l)"
  have unfold: "build_transaction_responses db l = map_res (\<lambda>tx. build_one_response db tx (?es l) (?counts l)) l" for l
    by (simp add: build_transaction_responses_def batch hit_ids_def Let_def)
  have single: "build_one_response db tx (?es txs) (?counts txs) = build_transaction_response db tx" if tx: "tx \<in> set txs" for tx
  proof -
    have "entity_of (?es txs) t k = entity_of (?es [tx]) t k" if "(t, k) \<in> set (rs tx)" for t k
      by (rule entity_of_found) (use that tx in auto)
    then have "\<forall>(t, k) \<in> set (rs tx). entity_of (?es txs) t k = entity_of (?es [tx]) t k" by blast
    with only [of tx] have "own_partner_ref db tx (?es txs) = own_partner_ref db tx (?es [tx]) \<and>
        partner_ref_of (delegating_partner_type tx) (delegating_partner_id tx) (?es txs) =
          partner_ref_of (delegating_partner_type tx) (delegating_partner_id tx) (?es [tx])"
      unfolding reads_only_def by blast
    then have "build_one_response db tx (?es txs) (?counts txs) = build_one_response db tx (?es [tx]) (?counts [tx])"
      using hit_filters_counted tx by (intro build_one_cong) auto
    also have "\<dots> = build_transaction_response db tx"
      by (simp add: build_transaction_response_def unfold bind_res_def split: sum.split)
    finally show ?thesis .
  qed
  show ?thesis unfolding unfold by (rule map_res_cong) (rule single)
qed

section \<open>Attachments\<close>

lemma b64_code:
  "n < 64 \<Longrightarrow> of_char (b64_char n) = (if n < 26 then 65 + n else if n < 52 then 71 + n else if n < 62 then n - 4
     else if n = 62 then 43 else 47)"
  by (auto simp: b64_char_def)

lemma b64_alphabet: "n < 64 \<Longrightarrow> b64_value (b64_char n) = Some n \<and> b64_char n \<noteq> CHR ''=''"
proof
  assume n: "n < 64"
  have "of_char (b64_char n) \<noteq> (61 :: nat)" using b64_code [OF n] by (auto split: if_splits)
  then show "b64_char n \<noteq> CHR ''=''" by auto
  show "b64_value (b64_char n) = Some n" using n unfolding b64_value_def Let_def b64_code [OF n] by auto
qed

lemma b64_step:
  assumes "v < 64"
  shows "b64_loop 0 l p (b64_char v # s) = b64_loop 1 v 0 s"
    and "b64_loop 1 l p (b64_char v # s) = bind_res (b64_loop 2 (v mod 16) 0 s) (\<lambda>bs. Inr ((l * 4 + v div 16) # bs))"
    and "b64_loop 2 l p (b64_char v # s) = bind_res (b64_loop 3 (v mod 4) 0 s) (\<lambda>bs. Inr ((l * 16 + v div 4) # bs))"
    and "b64_loop 3 l p (b64_char v # s) = bind_res (b64_loop 0 0 0 s) (\<lambda>bs. Inr ((l * 64 + v) # bs))"
  using b64_alphabet [OF assms] by (simp_all only: b64_loop.simps option.case if_False) simp_all

lemma b64_padding: "b64_loop 2 l 0 ''=='' = Inr []" "b64_loop 3 l 0 ''='' = Inr []"
  by simp_all

lemma b64_decode_encode: "\<forall>b \<in> set bs. b < 256 \<Longrightarrow> b64_loop 0 0 0 (b64encode bs) = Inr bs"
proof (induction bs rule: b64encode.induct)
  case (2 a)
  then have "a div 4 < 64" "a mod 4 * 16 < 64" by auto
  then show ?case by (simp only: b64encode.simps b64_step b64_padding bind_res_simps) simp
next
  case (3 a b)
  then have v: "a div 4 < 64" "a mod 4 * 16 + b div 16 < 64" "b mod 16 * 4 < 64" by auto
  have d: "b div 16 < 16" using 3 by (simp add: less_mult_imp_div_less)
  have "a div 4 * 4 + (a mod 4 * 16 + b div 16) div 16 = a"
       "(a mod 4 * 16 + b div 16) mod 16 * 16 + (b mod 16 * 4) div 4 = b"
    using d by simp_all
  with v show ?case by (simp only: b64encode.simps b64_step b64_padding bind_res_simps)
next
  case (4 a b c r)
  then have v: "a div 4 < 64" "a mod 4 * 16 + b div 16 < 64" "b mod 16 * 4 + c div 64 < 64" "c mod 64 < 64" by auto
  have rest: "b64_loop 0 0 0 (b64encode r) = Inr r" using 4 by simp
  have d: "b div 16 < 16" "c div 64 < 4" using 4 by auto
  have "a div 4 * 4 + (a mod 4 * 16 + b div 16) div 16 = a"
       "(a mod 4 * 16 + b div 16) mod 16 * 16 + (b mod 16 * 4 + c div 64) div 4 = b"
       "(b mod 16 * 4 + c div 64) mod 4 * 64 + c mod 64 = c"
    using d by simp_all
  then show ?case using v rest by (simp only: b64encode.simps b64_step bind_res_simps)
qed simp

lemma find_update_tx:
  assumes "distinct (map tx_id (transactions db))" "tx \<in> set (transactions db)" "tx_id u = tx_id tx" "P u"
    and "\<And>t. P t \<Longrightarrow> tx_id t = tx_id tx"
  shows "List.find P (transactions (update_tx db u)) = Some u"
proof -
  have "List.find P (update_where (\<lambda>t. tx_id t = tx_id tx) (\<lambda>_. u) txs) = Some u"
    if "distinct (map tx_id txs)" "tx \<in> set txs" for txs
    using that assms(3-5) by (induction txs) auto
  then show ?thesis using assms by (simp add: update_tx_def)
qed

text \<open>C35: The file an administrator attaches to a transaction without attachment is what who may view the ledger
  downloads, byte for byte.\<close>
theorem attached_file_is_served:
  assumes ids: "distinct (map tx_id (transactions db))"
    and tx: "get_transaction_or_404 db k = Inr tx" "attachment tx = None"
    and account: "get_account_or_404 db (tx_account_id tx) = Inr a"
    and sent: "route_update_transaction env u db k comment del (Some file) = (db', Inr r)" "up_bytes file \<noteq> []"
    and view: "''p4xView'' \<in> set (calculate_permissions (pe_settings env') (pe_today env') v)"
  shows "get_transaction_attachment env' v db' (tx_account_id tx) k = Inr (map of_char (up_bytes file))"
proof -
  let ?bytes = "map of_char (up_bytes file) :: nat list"
  let ?tx = "tx\<lparr>tx_comment := comment, attachment := Some (b64encode ?bytes)\<rparr>"
  have "\<not> has_attachment tx" using tx(2) by (simp add: has_attachment_def)
  then have meta: "update_transaction_meta db tx comment (Some ?bytes) del = (update_tx db ?tx, ?tx)"
    using sent(2) by (simp add: update_transaction_meta_def Let_def)
  have db': "db' = update_tx db ?tx"
    using sent(1) tx(1) meta
    by (auto simp: route_update_transaction_def update_transaction_and_build_response_def bind_res_eq_Inr read_pdf_def
        split: sum.split_asm if_split_asm)
  have t: "tx \<in> set (transactions db)" "tx_id tx = k" "tx_active tx"
    using tx(1) by (auto simp: get_transaction_or_404_def row_or_404_def dest: find_SomeD split: option.split_asm)
  have a: "acc_id a = tx_account_id tx" using account by (auto simp: get_account_or_404_def row_or_404_def dest: find_SomeD split: option.split_asm)
  have "get_account_or_404 db' (tx_account_id tx) = Inr a" using account by (simp add: db' get_account_or_404_def update_tx_def)
  moreover have "List.find (\<lambda>x. tx_id x = k \<and> tx_account_id x = acc_id a \<and> tx_active x) (transactions db') = Some ?tx"
    unfolding db' by (rule find_update_tx [OF ids t(1)]) (use t a in \<open>simp_all add: tx_active_def\<close>)
  ultimately have "get_transaction_for_account db' (tx_account_id tx) k = Inr ?tx"
    by (simp add: get_transaction_for_account_def row_or_404_def)
  moreover have "b64encode ?bytes \<noteq> []" using sent(2) by (cases ?bytes rule: b64encode.cases) auto
  moreover have "b64decode (b64encode ?bytes) = Inr ?bytes"
    unfolding b64decode_def by (rule b64_decode_encode) auto
  ultimately show ?thesis
    using view by (simp add: get_transaction_attachment_def p4x_view_def require_permission_def)
qed

section \<open>The own account\<close>

lemma balance_other_members: "balance_between (db\<lparr>members := ms\<rparr>) u init s e = balance_between db u init s e"
proof -
  have "category_tx_ids (db\<lparr>members := ms\<rparr>) c = category_tx_ids db c" for c
    by (simp add: category_tx_ids_def direct_tx_ids_def filter_tx_ids_def tx_with_directs_def)
  then have ids: "fee_category_tx_ids (db\<lparr>members := ms\<rparr>) = fee_category_tx_ids db"
    by (simp add: fee_category_tx_ids_def fee_category_id_def)
  have "get_fee_payments_sum (db\<lparr>members := ms\<rparr>) = get_fee_payments_sum db"
      "get_fee_payments_list (db\<lparr>members := ms\<rparr>) = get_fee_payments_list db"
    by (intro ext; simp add: get_fee_payments_sum_def get_fee_payments_list_def partner_ibans_of_def is_fee_payment_def ids)+
  moreover have "fee_step_function (db\<lparr>members := ms\<rparr>) = fee_step_function db"
    by (simp add: fee_step_function_def get_all_fees_def)
  ultimately show ?thesis by (simp only: balance_between_def)
qed

lemma calculate_other_members: "calculate_fee_balance (db\<lparr>members := ms\<rparr>) today u s e = calculate_fee_balance db today u s e"
  by (simp only: calculate_fee_balance_def balance_other_members)

text \<open>What a member sees of the own fee account, on the page and in the workbook, depends neither on the
  administrators' comment nor on the row of any other member.\<close>
theorem own_account_shows_only_the_own_account:
  "get_own_fee_member env (set_col F_p4x_comment c u) (db\<lparr>members := ms\<rparr>) = get_own_fee_member env u db \<and>
   export_own_fee_member env (set_col F_p4x_comment c u) (db\<lparr>members := ms\<rparr>) = export_own_fee_member env u db"
proof -
  let ?u = "set_col F_p4x_comment c u"
  have col: "columns ?u f = columns u f" if "f \<noteq> F_p4x_comment" for f using that by (simp add: set_col_def)
  have fee: "is_fee_member ?u = is_fee_member u" by (simp add: is_fee_member_def FEE_MEMBER_FILTER_def col)
  have name: "cn ?u = cn u" by (simp add: cn_def with_couleurname_def text_or_empty_def text_col_def departed_def flag_col_def col)
  have k: "member_id ?u = member_id u" by (simp add: set_col_def)
  have cols: "date_col ?u f = date_col u f" "dec_col ?u f = dec_col u f" "flag_col ?u f = flag_col u f"
    if "f \<noteq> F_p4x_comment" for f
    using that by (simp_all add: date_col_def dec_col_def flag_col_def col)
  have own: "init_date_of ?u = init_date_of u" "init_balance_of ?u = init_balance_of u" "freed ?u = freed u"
      "dec_col ?u F_p4x_init_balance = dec_col u F_p4x_init_balance"
    by (simp_all add: init_date_of_def init_balance_of_def freed_def cols cong: option.case_cong)
  have pay: "get_fee_payments_sum db ?u = get_fee_payments_sum db u" "get_fee_payments_list db ?u = get_fee_payments_list db u" for db
    by (intro ext; simp only: get_fee_payments_sum_def get_fee_payments_list_def k)+
  have "balance_between db ?u = balance_between db u" for db
    by (intro ext) (simp only: balance_between_def own pay)
  then have "calculate_fee_balance (db\<lparr>members := ms\<rparr>) today ?u s e = calculate_fee_balance db today u s e" for today s e
    by (simp only: calculate_other_members) (simp only: calculate_fee_balance_def own fee)
  then have full: "build_fee_member_response (db\<lparr>members := ms\<rparr>) today ?u =
      map_sum id (\<lambda>r. r\<lparr>fm_comment := text_col ?u F_p4x_comment\<rparr>) (build_fee_member_response db today u)" for today
    by (cases "calculate_fee_balance db today u None None")
      (simp_all add: build_fee_member_response_def k name own)
  show ?thesis
    by (cases "build_fee_member_response db (pe_today env) u")
      (simp_all add: get_own_fee_member_def export_own_fee_member_def fee full FeeMemberSelfResponse_def export_statement_def)
qed

section \<open>The summary\<close>

lemma summary_row_result:
  assumes "summary_row_of dec_text db es tx (n, rows, files) = Inr (n', rows', files')"
  shows "\<exists>r. rows' = rows @ [r] \<and> sr_booking r = isoformat (booking tx) \<and> sr_amount r = amount tx"
    and "(n' = n \<and> files' = files) \<or> (n' = n + 1 \<and> (files' = files \<or>
       (\<exists>bs. files' = files @ [(''Anhang_'' @ text_of_int (int n) @ ''.pdf'', bs)])))"
proof -
  obtain partner where p: "format_partner_for_xlsx db tx es = Inr partner"
    using assms by (auto simp: summary_row_of_def Let_def bind_res_eq_Inr)
  show "\<exists>r. rows' = rows @ [r] \<and> sr_booking r = isoformat (booking tx) \<and> sr_amount r = amount tx"
    using assms by (auto simp: summary_row_of_def Let_def p)
  show "(n' = n \<and> files' = files) \<or> (n' = n + 1 \<and> (files' = files \<or>
       (\<exists>bs. files' = files @ [(''Anhang_'' @ text_of_int (int n) @ ''.pdf'', bs)])))"
    using assms by (cases "attachment tx"; cases "b64decode (the (attachment tx))")
      (auto simp: summary_row_of_def Let_def p has_attachment_def split: if_split_asm)
qed

abbreviation booked :: "summary_row \<Rightarrow> string \<times> decimal" where
  "booked r \<equiv> (sr_booking r, sr_amount r)"

lemma summary_rows_result:
  assumes "fold_res (summary_row_of dec_text db es) txs (n, rows, files) = Inr (n', rows', files')"
  shows "map booked rows' = map booked rows @ map (\<lambda>tx. (isoformat (booking tx), amount tx)) txs"
  using assms
proof (induction txs arbitrary: n rows files)
  case (Cons tx txs)
  obtain n1 rows1 files1 where s: "summary_row_of dec_text db es tx (n, rows, files) = Inr (n1, rows1, files1)"
    and r: "fold_res (summary_row_of dec_text db es) txs (n1, rows1, files1) = Inr (n', rows', files')"
    using Cons.prems by (auto simp: bind_res_eq_Inr)
  show ?case using Cons.IH [OF r] summary_row_result(1) [OF s] by auto
qed simp

definition sheet_matches :: "p4x_db \<Rightarrow> date \<Rightarrow> date \<Rightarrow> p4x_account \<Rightarrow> account_sheet \<Rightarrow> bool" where
  "sheet_matches db s e a sh \<longleftrightarrow>
     map booked (as_rows sh) = map (\<lambda>tx. (isoformat (booking tx), amount tx)) (sort_key booking (booked_between db a s e))"

lemma account_sheet_result:
  assumes "account_sheet_of dec_text db s e a (n, sheets, files) = Inr (n', sheets', files')"
  shows "\<exists>sh. sheets' = sheets @ [sh] \<and> sheet_matches db s e a sh"
proof -
  obtain refs rows where "fold_res (summary_row_of dec_text db (find_partner_entities db (concat refs)))
      (sort_key booking (booked_between db a s e)) (n, [], files) = Inr (n', rows, files')"
      "sheets' = sheets @ [\<lparr>as_title = sheet_title (acc_label a), as_rows = rows\<rparr>]"
    using assms by (auto simp: account_sheet_of_def Let_def bind_res_eq_Inr)
  then show ?thesis using summary_rows_result by (force simp: sheet_matches_def)
qed

lemma account_sheets_result:
  assumes "fold_res (account_sheet_of dec_text db s e) accs (n, sheets, files) = Inr (n', sheets', files')"
  shows "\<exists>more. sheets' = sheets @ more \<and> list_all2 (sheet_matches db s e) accs more"
  using assms
proof (induction accs arbitrary: n sheets files)
  case (Cons a accs)
  obtain n1 sheets1 files1 where s: "account_sheet_of dec_text db s e a (n, sheets, files) = Inr (n1, sheets1, files1)"
    and r: "fold_res (account_sheet_of dec_text db s e) accs (n1, sheets1, files1) = Inr (n', sheets', files')"
    using Cons.prems by (auto simp: bind_res_eq_Inr)
  obtain sh where sh: "sheets1 = sheets @ [sh]" "sheet_matches db s e a sh" using account_sheet_result [OF s] by blast
  obtain more where "sheets' = sheets1 @ more" "list_all2 (sheet_matches db s e) accs more" using Cons.IH [OF r] by blast
  with sh show ?case by (intro exI [of _ "sh # more"]) simp
qed simp

lemma sheet_sum:
  assumes m: "sheet_matches db s e a sh" and se: "s \<le> e" "valid_date s" and valid: "list_all (\<lambda>tx. valid_date (booking tx)) (transactions db)"
  shows "get_account_balance db today a (Some e) - get_account_balance db today a (Some s) =
    sum_list (map sr_amount (filter (\<lambda>r. sr_booking r \<noteq> isoformat s) (as_rows sh)))"
proof -
  let ?txs = "account_txs db a"
  have v: "valid_date (booking tx)" if "tx \<in> set ?txs" for tx using that valid by (auto simp: account_txs_def list_all_iff)
  have split: "sum_list (map amount (filter (\<lambda>tx. booking tx \<le> e) l)) =
      sum_list (map amount (filter (\<lambda>tx. booking tx \<le> s) l)) + sum_list (map amount (filter (\<lambda>tx. s < booking tx \<and> booking tx \<le> e) l))" for l
    using se(1) by (induction l) auto
  have snds: "sum_list (map sr_amount (filter (\<lambda>r. sr_booking r \<noteq> isoformat s) rows)) =
      sum_list (map snd (filter (\<lambda>p. fst p \<noteq> isoformat s) (map booked rows)))" for rows
    by (induction rows) auto
  have "sum_list (map sr_amount (filter (\<lambda>r. sr_booking r \<noteq> isoformat s) (as_rows sh))) =
      sum_list (map amount (filter (\<lambda>tx. isoformat (booking tx) \<noteq> isoformat s) (sort_key booking (booked_between db a s e))))"
    unfolding snds m [unfolded sheet_matches_def] by (simp add: filter_map comp_def)
  also have "\<dots> = sum_list (map amount (filter (\<lambda>tx. isoformat (booking tx) \<noteq> isoformat s) (booked_between db a s e)))"
    by (rule sum_list_mset_cong) (simp add: mset_filter)
  also have "filter (\<lambda>tx. isoformat (booking tx) \<noteq> isoformat s) (booked_between db a s e) = filter (\<lambda>tx. s < booking tx \<and> booking tx \<le> e) ?txs"
    unfolding booked_between_def filter_filter using v se(2) isoformat_inject by (intro filter_cong) auto
  also have "sum_list (map amount \<dots>) = get_account_balance db today a (Some e) - get_account_balance db today a (Some s)"
    using split [of ?txs] by (simp add: get_account_balance_def algebra_simps)
  finally show ?thesis by simp
qed

lemma month_covers: "valid_date t \<Longrightarrow> end_of_month t = Inr e \<Longrightarrow> t \<le> e"
proof -
  assume t: "valid_date t" "end_of_month t = Inr e"
  have "(year t, month t) \<noteq> (9999, 12)" using t by (cases t) (auto simp: end_of_month_overflow)
  then have "e = Date (year t) (month t) (days_in_month (year t) (month t))" using end_of_month_eq t by force
  then show "t \<le> e" using t(1) by (cases t) (auto simp: less_eq_date_def date_key_def)
qed

text \<open>C36: In the summary of a period every account with a sheet has its line and vice versa, and its two balances differ by exactly the
  rows of the sheet booked after the first day: those of the first day are listed, but the start balance has them.\<close>
theorem summary_adds_up:
  assumes ok: "p4x_ok db" and summary: "generate_summary dec_text db today start end_date = Inr (su, files)"
    and period: "start \<le> end_date" "valid_date start" "valid_date end_date"
  shows "list_all2 (\<lambda>l sh. al_end l - al_start l =
      sum_list (map sr_amount (filter (\<lambda>r. sr_booking r \<noteq> isoformat (first_of_month start)) (as_rows sh))))
    (su_accounts su) (su_sheets su)"
proof -
  let ?s = "first_of_month start"
  obtain e n sheets where e: "end_of_month end_date = Inr e"
    and run: "fold_res (account_sheet_of dec_text db ?s e) (filter (\<lambda>a. booked_between db a ?s e \<noteq> []) (get_active_accounts db)) (1, [], []) =
        Inr (n, sheets, files)"
    and su: "su_sheets su = sheets" "su_accounts su = map (account_line_of db today ?s e)
        (filter (\<lambda>a. booked_between db a ?s e \<noteq> []) (get_active_accounts db))"
    using summary by (auto simp: generate_summary_def Let_def bind_res_eq_Inr)
  have s: "valid_date ?s" "?s \<le> start" using period(2) by (cases start, auto simp: first_of_month_def less_eq_date_def date_key_def)+
  then have se: "?s \<le> e" using period month_covers [OF period(3) e] by order
  have valid: "list_all (\<lambda>tx. valid_date (booking tx)) (transactions db)" using ok by (simp add: p4x_ok_def)
  have "list_all2 (sheet_matches db ?s e) (filter (\<lambda>a. booked_between db a ?s e \<noteq> []) (get_active_accounts db)) sheets"
    using account_sheets_result [OF run] by auto
  then show ?thesis unfolding su list_all2_map1
    by (rule list_all2_mono) (simp add: account_line_of_def sheet_sum [OF _ se s(1) valid])
qed


section \<open>Evaluated\<close>

definition demo_env :: p4x_env where
  "demo_env = \<lparr>pe_settings = demo_settings, pe_today = Date 2024 4 1, pe_now = 0, pe_sha256 = (\<lambda>s. s), pe_loads = (\<lambda>_. None),
     pe_repr = (\<lambda>_. []), pe_dumps = (\<lambda>_. []), pe_dec_text = (\<lambda>_. []), pe_tsquery = (\<lambda>s. s),
     pe_exact = (\<lambda>_ _. None), pe_fuzzy = (\<lambda>_ _. None)\<rparr>"

theorem only_p4x_admins_change_the_ledger_witness:
  "handle_p4x demo_env outsider (P_Delete_Account 2) bank_db =
     (bank_db, Inl (HTTPException 403 ''missing permission: p4xAdmin''))"
proof (rule only_p4x_admins_change_the_ledger)
  show "''p4xAdmin'' \<notin> set (calculate_permissions (pe_settings demo_env) (pe_today demo_env) outsider)" by code_simp
qed

lemma cat_db_ok: "ledger_ok cat_db"
proof -
  have "p4x_ok cat_db"
    by (simp add: p4x_ok_def cat_db_def bank_db_def bank_tx_def giro_def partner_arc_ok_def delegating_arc_ok_def num_nonnulls_def
        days_in_month_def is_leap_def)
  moreover have "ids_fresh cat_db" "no_zero_amount cat_db" "categories_exist cat_db" "one_account_per_iban cat_db"
    by (simp_all add: ids_fresh_def no_zero_amount_def categories_exist_def one_account_per_iban_def cat_db_def bank_db_def
        bank_tx_def giro_def donation_filter_def)
  ultimately show ?thesis using cat_db_current by (simp add: ledger_ok_def)
qed

definition a_day_of_requests :: "(p4x_env \<times> member \<times> p4x_request) list" where
  "a_day_of_requests = [(demo_env, treasurer, P_Create_Fee 2024 5 20), (demo_env, treasurer, P_Delete_Filter 30),
     (demo_env, outsider, P_Delete_Account 2)]"

theorem ledger_stays_consistent_witness:
  "let db = fold (\<lambda>(env, u, req) db. fst (handle_p4x env u req db)) a_day_of_requests cat_db
   in ledger_ok db \<and> length (fees db) = 1 \<and> category_filters db = [] \<and> filter_hits db = [] \<and> length (get_active_accounts db) = 1"
proof -
  have "let db = fold (\<lambda>(env, u, req) db. fst (handle_p4x env u req db)) a_day_of_requests cat_db
     in length (fees db) = 1 \<and> length (category_filters db) = 0 \<and> length (filter_hits db) = 0 \<and> length (get_active_accounts db) = 1"
    by code_simp
  then show ?thesis using ledger_stays_consistent [OF cat_db_ok, of a_day_of_requests] by (simp add: Let_def)
qed

theorem list_answers_are_single_answers_witness:
  "build_transaction_responses cat_db (transactions cat_db) = map_res (build_transaction_response cat_db) (transactions cat_db) \<and>
   (case build_transaction_responses cat_db (transactions cat_db) of Inl _ \<Rightarrow> False | Inr rs \<Rightarrow> length rs = 1)"
proof
  show "build_transaction_responses cat_db (transactions cat_db) = map_res (build_transaction_response cat_db) (transactions cat_db)"
    by (rule list_answers_are_single_answers) (simp add: cat_db_def partner_arc_ok_def num_nonnulls_def)
  show "case build_transaction_responses cat_db (transactions cat_db) of Inl _ \<Rightarrow> False | Inr rs \<Rightarrow> length rs = 1" by code_simp
qed

definition a_pdf :: upload where
  "a_pdf = \<lparr>up_filename = Some ''a.pdf'', up_content_type = Some ''application/pdf'', up_bytes = ''%PDF''\<rparr>"

lemma a_pdf_read: "read_pdf (Some a_pdf) = Inr (Some [37, 80, 68, 70])"
proof -
  have "\<not> (case up_content_type a_pdf of None \<Rightarrow> True | Some t \<Rightarrow> \<not> is_infix ''pdf'' t)" by code_simp
  moreover have "map of_char (up_bytes a_pdf) = [37, 80, 68, 70 :: nat]" by code_simp
  moreover have "\<not> too_large (up_bytes a_pdf)" by (simp add: too_large_def MAX_UPLOAD_BYTES_def a_pdf_def)
  ultimately show ?thesis by (simp add: read_pdf_def)
qed

theorem attached_file_is_served_witness:
  "get_transaction_attachment demo_env treasurer
     (fst (route_update_transaction demo_env treasurer bank_db 6 None False (Some a_pdf))) 2 6 = Inr [37, 80, 68, 70]"
proof -
  let ?tx = "bank_tx 6 (Date 2024 2 1) 30"
  have tx: "get_transaction_or_404 bank_db 6 = Inr ?tx"
    by (simp add: get_transaction_or_404_def row_or_404_def bank_db_def bank_tx_def tx_active_def)
  have perms: "''p4xAdmin'' \<in> set (calculate_permissions (pe_settings demo_env) (pe_today demo_env) treasurer)"
    "''p4xView'' \<in> set (calculate_permissions (pe_settings demo_env) (pe_today demo_env) treasurer)" by code_simp+
  have run: "route_update_transaction demo_env treasurer bank_db 6 None False (Some a_pdf) =
      update_transaction_and_build_response bank_db ?tx None (Some [37, 80, 68, 70]) False"
    using perms(1) by (simp add: route_update_transaction_def tx a_pdf_read p4x_admin_def require_permission_def)
  have "case snd (update_transaction_and_build_response bank_db ?tx None (Some [37, 80, 68, 70]) False) of Inl _ \<Rightarrow> False | Inr _ \<Rightarrow> True"
    by code_simp
  then obtain db' r where sent: "route_update_transaction demo_env treasurer bank_db 6 None False (Some a_pdf) = (db', Inr r)"
    unfolding run by (cases "update_transaction_and_build_response bank_db ?tx None (Some [37, 80, 68, 70]) False") (auto split: sum.split_asm)
  have "get_transaction_attachment demo_env treasurer db' (tx_account_id ?tx) 6 = Inr (map of_char (up_bytes a_pdf))"
    by (rule attached_file_is_served [OF _ tx _ _ sent _ perms(2)])
      (simp_all add: bank_db_def bank_tx_def giro_def get_account_or_404_def row_or_404_def acc_active_def a_pdf_def)
  moreover have "map of_char (up_bytes a_pdf) = [37, 80, 68, 70 :: nat]" by code_simp
  ultimately show ?thesis by (simp add: sent bank_tx_def)
qed

lemma bank_db_ok: "p4x_ok bank_db"
  by (simp add: p4x_ok_def bank_db_def bank_tx_def giro_def delegating_arc_ok_def num_nonnulls_def days_in_month_def is_leap_def)

theorem summary_adds_up_witness:
  "\<exists>su files. generate_summary (\<lambda>_. []) bank_db (Date 2024 5 1) (Date 2024 2 1) (Date 2024 2 29) = Inr (su, files) \<and>
     list_all2 (\<lambda>l sh. al_end l - al_start l =
        sum_list (map sr_amount (filter (\<lambda>r. sr_booking r \<noteq> isoformat (first_of_month (Date 2024 2 1))) (as_rows sh))))
       (su_accounts su) (su_sheets su)"
proof -
  let ?g = "generate_summary (\<lambda>_. []) bank_db (Date 2024 5 1) (Date 2024 2 1) (Date 2024 2 29)"
  have "case ?g of Inl _ \<Rightarrow> False | Inr _ \<Rightarrow> True" by code_simp
  then obtain su files where g: "?g = Inr (su, files)" by (auto split: sum.split_asm)
  have d: "Date 2024 2 1 \<le> Date 2024 2 29" "valid_date (Date 2024 2 1)" "valid_date (Date 2024 2 29)" by code_simp+
  from summary_adds_up [OF bank_db_ok g d] g show ?thesis by blast
qed

text \<open>What that means for the reader of a sheet: the booking of 1 February is in the start balance and in the list.\<close>

lemma first_day_is_in_the_start_balance_and_listed:
  "case generate_summary (\<lambda>_. []) bank_db (Date 2024 5 1) (Date 2024 2 1) (Date 2024 2 29) of Inl _ \<Rightarrow> False
   | Inr (su, _) \<Rightarrow> map al_start (su_accounts su) = [137] \<and> map al_end (su_accounts su) = [125] \<and>
       map (map sr_amount \<circ> as_rows) (su_sheets su) = [[30, - 12]]"
  by code_simp

text \<open>A start that is no date, in the path of the deletion of a fee, is not answered 422: the conversion raises.\<close>

lemma delete_fee_raises_on_other_text:
  "snd (route_delete_fee demo_env treasurer bank_db ''gestern'') = Inl ValueError"
  by code_simp

text \<open>An IBAN with small letters passes the request model, the check of the table refuses it.\<close>

lemma small_letters_reach_the_database:
  "snd (route_create_account demo_env treasurer bank_db
     \<lparr>req_iban = ''AT12abcd'', req_bic = ''B'', req_label = [], req_init_date = Date 2024 1 1, req_init_balance = 0\<rparr>) = Inl IntegrityError"
  by code_simp

end
