(* ===== verification/Backups.thy ===== *)
theory Backups
  imports Object_Store Calendar
begin

text \<open>
  Backups and the mirror of a bucket: \<open>app/services/backup_service.py\<close> and
  \<open>app/services/s3_mirror_service.py\<close>. \<open>pg_dump\<close>, \<open>pg_restore\<close> and \<open>psql\<close> are parameters, as is the
  live database they work on. A time in the name of a backup is a wall time, its instant a parameter
  (the time zone). An object is its bytes, its content type is not part of the store. Where a store
  request may succeed on a second try, the store of each try is given.
\<close>

section \<open>Names of backups\<close>

text \<open>A wall time: date, hour, minute, second.\<close>

type_synonym stamp = "date \<times> int \<times> int \<times> int"

record backup_config =
  bc_database_url :: string
  bc_environment :: string
  bc_path :: string
  bc_light_paths :: "string list"

definition two_digits :: "int \<Rightarrow> string" where
  "two_digits n = [digit (n div 10), digit (n mod 10)]"

text \<open>\<open>strftime\<close> with \<open>_TIMESTAMP_FORMAT\<close>; years have four digits.\<close>

fun stamp_text :: "stamp \<Rightarrow> string" where
  "stamp_text (d, h, m, s) =
     isoformat d @ ''_'' @ two_digits h @ ''-'' @ two_digits m @ ''-'' @ two_digits s"

definition split_once :: "char \<Rightarrow> string \<Rightarrow> (string \<times> string) option" where
  "split_once sep s =
     (case dropWhile (\<lambda>c. c \<noteq> sep) s of [] \<Rightarrow> None | _ # rest \<Rightarrow> Some (takeWhile (\<lambda>c. c \<noteq> sep) s, rest))"

text \<open>A numeric directive of \<open>strptime\<close>: between \<open>n\<close> and \<open>k\<close> digits, the value within bounds.\<close>

definition number_between :: "nat \<Rightarrow> nat \<Rightarrow> int \<Rightarrow> int \<Rightarrow> string \<Rightarrow> int option" where
  "number_between n k lo hi s =
     (if n \<le> length s \<and> length s \<le> k
      then case parse_digits (length s) 0 s of
          None \<Rightarrow> None
        | Some (v, _) \<Rightarrow> if lo \<le> v \<and> v \<le> hi then Some v else None
      else None)"

text \<open>The day may also be a blank and one digit.\<close>

definition day_directive :: "string \<Rightarrow> int option" where
  "day_directive s =
     number_between 1 2 1 31 (if length s = 2 \<and> take 1 s = '' '' then drop 1 s else s)"

text \<open>
  \<open>datetime.strptime\<close> with \<open>_TIMESTAMP_FORMAT\<close>: the fields may have leading zeros or not; a
  second of 60 or 61 is read and then refused, like a day the month does not have.
\<close>

definition strptime :: "string \<Rightarrow> stamp option" where
  "strptime s =
     Option.bind (split_once CHR ''-'' s) (\<lambda>(ys, s).
     Option.bind (split_once CHR ''-'' s) (\<lambda>(ms, s).
     Option.bind (split_once CHR ''_'' s) (\<lambda>(ds, s).
     Option.bind (split_once CHR ''-'' s) (\<lambda>(hs, s).
     Option.bind (split_once CHR ''-'' s) (\<lambda>(mins, secs).
     Option.bind (number_between 4 4 0 9999 ys) (\<lambda>y.
     Option.bind (number_between 1 2 1 12 ms) (\<lambda>m.
     Option.bind (day_directive ds) (\<lambda>d.
     Option.bind (number_between 1 2 0 23 hs) (\<lambda>h.
     Option.bind (number_between 1 2 0 59 mins) (\<lambda>mi.
     Option.bind (number_between 1 2 0 61 secs) (\<lambda>sec.
       if valid_date (Date y m d) \<and> sec \<le> 59 then Some (Date y m d, h, mi, sec) else None)))))))))))"

definition remove_prefix :: "string \<Rightarrow> string \<Rightarrow> string" where
  "remove_prefix p s = (if has_prefix p s then drop (length p) s else s)"

definition has_suffix :: "string \<Rightarrow> string \<Rightarrow> bool" where
  "has_suffix e s \<longleftrightarrow> length e \<le> length s \<and> drop (length s - length e) s = e"

definition TIMESTAMP_LENGTH :: nat where
  "TIMESTAMP_LENGTH = 19"

definition parse_backup_timestamp :: "string \<Rightarrow> stamp option" where
  "parse_backup_timestamp backup_name =
     (if \<not> has_suffix ''.dump'' backup_name then None
      else case split_once CHR ''-'' (take (length backup_name - 5) backup_name) of
          None \<Rightarrow> None
        | Some (_, ts_part) \<Rightarrow> strptime (take TIMESTAMP_LENGTH ts_part))"

definition backups_prefix :: "backup_config \<Rightarrow> string" where
  "backups_prefix cfg = bc_path cfg @ ''/''"

text \<open>Sorted by wall time, as aware times of one zone compare, and then by key.\<close>

definition dated_backup_keys :: "backup_config \<Rightarrow> string list \<Rightarrow> (stamp \<times> string) list" where
  "dated_backup_keys cfg keys =
     sort (concat (map (\<lambda>key. case parse_backup_timestamp (remove_prefix (backups_prefix cfg) key) of
         None \<Rightarrow> [] | Some t \<Rightarrow> [(t, key)]) keys))"

definition latest_backup_key :: "backup_config \<Rightarrow> string list \<Rightarrow> string option" where
  "latest_backup_key cfg keys =
     (let dated = dated_backup_keys cfg keys in if dated = [] then None else Some (snd (last dated)))"

section \<open>Making and keeping backups\<close>

definition backup_name_of :: "backup_config \<Rightarrow> stamp \<Rightarrow> bool \<Rightarrow> string" where
  "backup_name_of cfg t manual =
     bc_environment cfg @ ''-'' @ stamp_text t @ (if manual then ''-manual'' else []) @ ''.dump''"

definition require_postgres :: "backup_config \<Rightarrow> exc + unit" where
  "require_postgres cfg = (if has_prefix ''postgresql'' (bc_database_url cfg) then Inr () else Inl RuntimeError)"

text \<open>The dump is what \<open>pg_dump\<close> prints, or its failure (a missing tool included).\<close>

definition run_backup :: "backup_config \<Rightarrow> stamp \<Rightarrow> exc + string \<Rightarrow> bool \<Rightarrow> storage \<Rightarrow> exc + string \<times> storage" where
  "run_backup cfg local_now dump manual st =
     bind_res (require_postgres cfg) (\<lambda>_.
     bind_res dump (\<lambda>bytes.
     let name = backup_name_of cfg local_now manual in
     bind_res (storage_upload st (backups_prefix cfg @ name) bytes) (\<lambda>st'. Inr (name, st'))))"

text \<open>The deletions, one by one; what was deleted before a failure stays deleted.\<close>

fun delete_keys :: "string list \<Rightarrow> storage \<Rightarrow> storage \<times> (exc + unit)" where
  "delete_keys [] st = (st, Inr ())"
| "delete_keys (k # ks) st =
     (case storage_delete st k of Inl e \<Rightarrow> (st, Inl e) | Inr st' \<Rightarrow> delete_keys ks st')"

definition DAY :: instant where
  "DAY = 86400000000"

definition expired_keys :: "backup_config \<Rightarrow> (stamp \<Rightarrow> instant) \<Rightarrow> instant \<Rightarrow> string list \<Rightarrow> string list" where
  "expired_keys cfg instant_of cutoff keys =
     map snd (filter (\<lambda>p. instant_of (fst p) < cutoff) (dated_backup_keys cfg keys))"

definition cleanup_old_backups ::
  "backup_config \<Rightarrow> (stamp \<Rightarrow> instant) \<Rightarrow> instant \<Rightarrow> int \<Rightarrow> storage \<Rightarrow> storage \<times> (exc + string list)" where
  "cleanup_old_backups cfg instant_of now retention_days st =
     (if retention_days < 1 then (st, Inl ValueError)
      else case storage_list_keys st (backups_prefix cfg) of
          Inl e \<Rightarrow> (st, Inl e)
        | Inr keys \<Rightarrow>
            let expired = expired_keys cfg instant_of (now - retention_days * DAY) keys
            in case delete_keys expired st of
                (st', r) \<Rightarrow> (st', bind_res r (\<lambda>_. Inr (map (remove_prefix (backups_prefix cfg)) expired))))"

section \<open>Restoring\<close>

text \<open>
  \<open>_retry_transient_s3\<close>: the operation on the \<open>i\<close>-th try. Only a \<open>ClientError\<close> is tried again, and the
  last try's is final.
\<close>

fun retry_from :: "nat \<Rightarrow> nat \<Rightarrow> (nat \<Rightarrow> exc + 'a) \<Rightarrow> exc + 'a" where
  "retry_from i 0 operation = operation i"
| "retry_from i (Suc n) operation =
     (if operation i = Inl ClientError then retry_from (Suc i) n operation else operation i)"

definition retry_transient_s3 :: "nat \<Rightarrow> (nat \<Rightarrow> exc + 'a) \<Rightarrow> exc + 'a" where
  "retry_transient_s3 attempts operation = retry_from 0 (attempts - 1) operation"

text \<open>
  The PostgreSQL tools on the live database \<open>'d\<close>: whether the run history exists, its dump, the wipe,
  the restore of a dump, the number of rows, the restore of the history. A tool that fails may leave
  the database half way.
\<close>

record 'd pg_tools =
  pg_history_exists :: "'d \<Rightarrow> exc + bool"
  pg_snapshot_history :: "'d \<Rightarrow> exc + string"
  pg_wipe :: "'d \<Rightarrow> 'd \<times> (exc + unit)"
  pg_restore :: "string \<Rightarrow> 'd \<Rightarrow> 'd \<times> (exc + unit)"
  pg_rows :: "'d \<Rightarrow> exc + nat"
  pg_restore_history :: "string \<Rightarrow> 'd \<Rightarrow> 'd \<times> (exc + unit)"

definition verify_restore_populated :: "'d pg_tools \<Rightarrow> 'd \<Rightarrow> exc + unit" where
  "verify_restore_populated pg d = bind_res (pg_rows pg d) (\<lambda>n. if n = 0 then Inl RuntimeError else Inr ())"

definition snapshot_local_job_history :: "'d pg_tools \<Rightarrow> 'd \<Rightarrow> exc + string option" where
  "snapshot_local_job_history pg d =
     bind_res (pg_history_exists pg d) (\<lambda>there.
       if there then bind_res (pg_snapshot_history pg d) (\<lambda>s. Inr (Some s)) else Inr None)"

text \<open>A history that cannot be restored is given up, but only when the tool says so.\<close>

definition restore_local_job_history :: "'d pg_tools \<Rightarrow> string option \<Rightarrow> 'd \<Rightarrow> 'd \<times> (exc + unit)" where
  "restore_local_job_history pg snapshot d =
     (case snapshot of
        None \<Rightarrow> (d, Inr ())
      | Some s \<Rightarrow>
          (case pg_restore_history pg s d of
             (d', r) \<Rightarrow> (d', if r = Inl RuntimeError then Inr () else r)))"

definition replace_database :: "'d pg_tools \<Rightarrow> string \<Rightarrow> 'd \<Rightarrow> 'd \<times> (exc + unit)" where
  "replace_database pg dump d =
     (case snapshot_local_job_history pg d of
        Inl e \<Rightarrow> (d, Inl e)
      | Inr history \<Rightarrow>
          (case pg_wipe pg d of
             (d1, Inl e) \<Rightarrow> (d1, Inl e)
           | (d1, Inr _) \<Rightarrow>
               (case pg_restore pg dump d1 of
                  (d2, Inl e) \<Rightarrow> (d2, Inl e)
                | (d2, Inr _) \<Rightarrow>
                    (case verify_restore_populated pg d2 of
                       Inl e \<Rightarrow> (d2, Inl e)
                     | Inr _ \<Rightarrow> restore_local_job_history pg history d2))))"

text \<open>Which backup is restored: the one asked for, or the newest one in the store.\<close>

definition chosen_backup :: "backup_config \<Rightarrow> (nat \<Rightarrow> storage) \<Rightarrow> string option \<Rightarrow> exc + string" where
  "chosen_backup cfg st backup_name =
     (case backup_name of
        Some name \<Rightarrow> Inr name
      | None \<Rightarrow>
          bind_res (retry_transient_s3 3 (\<lambda>i. storage_list_keys (st i) (backups_prefix cfg))) (\<lambda>keys.
            case latest_backup_key cfg keys of
              None \<Rightarrow> Inl RuntimeError
            | Some key \<Rightarrow> Inr (remove_prefix (backups_prefix cfg) key)))"

definition run_restore ::
  "backup_config \<Rightarrow> 'd pg_tools \<Rightarrow> (nat \<Rightarrow> storage) \<Rightarrow> (nat \<Rightarrow> storage) \<Rightarrow> string option \<Rightarrow> bool \<Rightarrow> 'd \<Rightarrow>
   'd \<times> (exc + string)" where
  "run_restore cfg pg listed got backup_name force d =
     (case bind_res (require_postgres cfg) (\<lambda>_.
           bind_res (if bc_environment cfg = ''production'' \<and> \<not> force then Inl RuntimeError else Inr ()) (\<lambda>_.
           bind_res (chosen_backup cfg listed backup_name) (\<lambda>name.
           bind_res (retry_transient_s3 3 (\<lambda>i. storage_download (got i) (backups_prefix cfg @ name))) (\<lambda>dump.
             Inr (name, dump))))) of
        Inl e \<Rightarrow> (d, Inl e)
      | Inr (name, dump) \<Rightarrow>
          (case replace_database pg dump d of (d', r) \<Rightarrow> (d', bind_res r (\<lambda>_. Inr name))))"

section \<open>The mirror\<close>

record mirror_result =
  mi_synced :: "string list"
  mi_skipped :: nat
  mi_deleted :: "string list"
  mi_errors :: "string list"

definition has_errors :: "mirror_result \<Rightarrow> bool" where
  "has_errors r \<longleftrightarrow> mi_errors r \<noteq> []"

definition copy_key :: "storage \<Rightarrow> string \<Rightarrow> storage \<Rightarrow> exc + storage" where
  "copy_key source key dest = bind_res (storage_download source key) (\<lambda>data. storage_upload dest key data)"

text \<open>One missing key: a copy that fails is noted and the rest goes on.\<close>

definition mirror_one :: "storage \<Rightarrow> bool \<Rightarrow> string \<Rightarrow> storage \<times> mirror_result \<Rightarrow> storage \<times> mirror_result" where
  "mirror_one source dry_run key x =
     (case x of (dest, r) \<Rightarrow>
        if dry_run then (dest, r\<lparr>mi_synced := mi_synced r @ [key]\<rparr>)
        else case copy_key source key dest of
            Inl _ \<Rightarrow> (dest, r\<lparr>mi_errors := mi_errors r @ [key]\<rparr>)
          | Inr dest' \<Rightarrow> (dest', r\<lparr>mi_synced := mi_synced r @ [key]\<rparr>))"

definition delete_orphans :: "bool \<Rightarrow> string list \<Rightarrow> storage \<Rightarrow> storage \<times> (exc + string list)" where
  "delete_orphans dry_run orphans dest =
     (if dry_run then (dest, Inr orphans)
      else case delete_keys orphans dest of (dest', r) \<Rightarrow> (dest', bind_res r (\<lambda>_. Inr orphans)))"

definition mirror_prefix ::
  "bool \<Rightarrow> bool \<Rightarrow> string \<Rightarrow> storage \<Rightarrow> storage \<Rightarrow> storage \<times> (exc + mirror_result)" where
  "mirror_prefix dry_run with_orphans prefix source dest =
     (case bind_res (storage_list_keys source prefix) (\<lambda>ks. bind_res (storage_list_keys dest prefix) (\<lambda>ls. Inr (ks, ls))) of
        Inl e \<Rightarrow> (dest, Inl e)
      | Inr (source_keys, dest_keys) \<Rightarrow>
          let missing = sort (remdups (filter (\<lambda>k. k \<notin> set dest_keys) source_keys));
              orphans = sort (remdups (filter (\<lambda>k. k \<notin> set source_keys) dest_keys))
          in if with_orphans \<and> orphans \<noteq> [] \<and> source_keys = [] then (dest, Inl RuntimeError)
             else case fold (mirror_one source dry_run) missing
                 (dest, \<lparr>mi_synced = [], mi_skipped = length (remdups source_keys) - length missing, mi_deleted = [],
                         mi_errors = []\<rparr>) of
               (dest1, r) \<Rightarrow>
                 if with_orphans
                 then (case delete_orphans dry_run orphans dest1 of
                         (dest2, deleted) \<Rightarrow> (dest2, bind_res deleted (\<lambda>ks. Inr (r\<lparr>mi_deleted := ks\<rparr>))))
                 else (dest1, Inr r))"

definition merge_into :: "mirror_result \<Rightarrow> mirror_result \<Rightarrow> mirror_result" where
  "merge_into sum_so_far part =
     \<lparr>mi_synced = mi_synced sum_so_far @ mi_synced part, mi_skipped = mi_skipped sum_so_far + mi_skipped part,
      mi_deleted = mi_deleted sum_so_far @ mi_deleted part, mi_errors = mi_errors sum_so_far @ mi_errors part\<rparr>"

fun mirror_prefixes ::
  "bool \<Rightarrow> bool \<Rightarrow> storage \<Rightarrow> string list \<Rightarrow> mirror_result \<Rightarrow> storage \<Rightarrow> storage \<times> (exc + mirror_result)" where
  "mirror_prefixes dry_run with_orphans source [] sum_so_far dest = (dest, Inr sum_so_far)"
| "mirror_prefixes dry_run with_orphans source (p # ps) sum_so_far dest =
     (case mirror_prefix dry_run with_orphans p source dest of
        (dest', Inl e) \<Rightarrow> (dest', Inl e)
      | (dest', Inr part) \<Rightarrow> mirror_prefixes dry_run with_orphans source ps (merge_into sum_so_far part) dest')"

definition mirror_light ::
  "backup_config \<Rightarrow> bool \<Rightarrow> bool \<Rightarrow> storage \<Rightarrow> storage \<Rightarrow> storage \<times> (exc + mirror_result)" where
  "mirror_light cfg dry_run with_orphans source dest =
     (case bind_res (storage_list_keys source (backups_prefix cfg)) (\<lambda>keys.
             case latest_backup_key cfg keys of None \<Rightarrow> Inl RuntimeError | Some k \<Rightarrow> Inr k) of
        Inl e \<Rightarrow> (dest, Inl e)
      | Inr newest \<Rightarrow>
          mirror_prefixes dry_run with_orphans source (map (\<lambda>p. p @ ''/'') (bc_light_paths cfg) @ [newest])
            \<lparr>mi_synced = [], mi_skipped = 0, mi_deleted = [], mi_errors = []\<rparr> dest)"

end
