(* ===== verification/Jobs.thy ===== *)
theory Jobs
  imports Backups Archive_Files Register_Images P4x_Summary Permissions Anniversaries
begin

text \<open>
  The jobs of the worker: \<open>app/core/scheduler.py\<close> with \<open>job_schedule_registry.py\<close>,
  \<open>scheduled_task_run_service.py\<close> and \<open>storage_integrity_service.py\<close>. A mail is the arguments of its
  template; what the mail server does with it, the text of an exception and \<open>alembic upgrade head\<close> are parameters. A
  job catches every exception of its body, so a body returns the mails that went out and either the exception
  or what the job records. Umlauts and dashes are
  written as two letters.
\<close>

section \<open>The registry\<close>

datatype job_id =
    CLEANUP | REFRESH_CATEGORY_FILTER_HITS | BIRTHDAY_MAILS | DEBTOR_REMINDER | STANDESDB_CHRONICLES
  | ARCHIVE_HEALTH_CHECK | STANDESDB_HEALTH_CHECK | DB_BACKUP | DOWNSYNC

fun job_text :: "job_id \<Rightarrow> string" where
  "job_text CLEANUP = ''cleanup''"
| "job_text REFRESH_CATEGORY_FILTER_HITS = ''refresh_category_filter_hits''"
| "job_text BIRTHDAY_MAILS = ''birthday_mails''"
| "job_text DEBTOR_REMINDER = ''debtor_reminder''"
| "job_text STANDESDB_CHRONICLES = ''standesdb_chronicles''"
| "job_text ARCHIVE_HEALTH_CHECK = ''archive_health_check''"
| "job_text STANDESDB_HEALTH_CHECK = ''standesdb_health_check''"
| "job_text DB_BACKUP = ''db_backup''"
| "job_text DOWNSYNC = ''downsync''"

datatype job_scope = Always | Production_Only | Non_Production_Only

record job_schedule_entry =
  js_id :: job_id
  js_scope :: job_scope
  js_day :: "int option"
  js_weekday :: "string option"
  js_hour :: "int option"
  js_minute :: int

definition JOB_REGISTRY :: "int \<Rightarrow> job_schedule_entry list" where
  "JOB_REGISTRY backup_hour =
     [\<lparr>js_id = CLEANUP, js_scope = Always, js_day = None, js_weekday = None, js_hour = None, js_minute = 0\<rparr>,
      \<lparr>js_id = REFRESH_CATEGORY_FILTER_HITS, js_scope = Production_Only, js_day = None, js_weekday = None, js_hour = Some 7, js_minute = 0\<rparr>,
      \<lparr>js_id = BIRTHDAY_MAILS, js_scope = Production_Only, js_day = None, js_weekday = None, js_hour = Some 15, js_minute = 53\<rparr>,
      \<lparr>js_id = DEBTOR_REMINDER, js_scope = Production_Only, js_day = Some 25, js_weekday = None, js_hour = Some 18, js_minute = 32\<rparr>,
      \<lparr>js_id = STANDESDB_CHRONICLES, js_scope = Production_Only, js_day = None, js_weekday = Some ''tues'', js_hour = Some 17, js_minute = 0\<rparr>,
      \<lparr>js_id = ARCHIVE_HEALTH_CHECK, js_scope = Production_Only, js_day = None, js_weekday = Some ''tues'', js_hour = Some 1, js_minute = 0\<rparr>,
      \<lparr>js_id = STANDESDB_HEALTH_CHECK, js_scope = Production_Only, js_day = None, js_weekday = Some ''tues'', js_hour = Some 3, js_minute = 0\<rparr>,
      \<lparr>js_id = DB_BACKUP, js_scope = Production_Only, js_day = None, js_weekday = None, js_hour = Some backup_hour, js_minute = 0\<rparr>,
      \<lparr>js_id = DOWNSYNC, js_scope = Non_Production_Only, js_day = None, js_weekday = None, js_hour = Some ((backup_hour + 1) mod 24), js_minute = 0\<rparr>]"

definition applicable_entries :: "string \<Rightarrow> bool \<Rightarrow> int \<Rightarrow> job_schedule_entry list" where
  "applicable_entries stage backup_enabled backup_hour =
     filter (\<lambda>e. (js_scope e = Production_Only \<longrightarrow> stage = ''production'') \<and>
                 (js_scope e = Non_Production_Only \<longrightarrow> stage \<noteq> ''production'') \<and>
                 (js_id e = DB_BACKUP \<longrightarrow> backup_enabled)) (JOB_REGISTRY backup_hour)"

definition describe_trigger :: "job_schedule_entry \<Rightarrow> string" where
  "describe_trigger e =
     (let quoted = (\<lambda>name v. name @ ''='' @ [CHR 0x27] @ v @ [CHR 0x27]);
          part = (\<lambda>name v. case v of None \<Rightarrow> [] | Some s \<Rightarrow> [quoted name s])
      in ''cron['' @ join '', '' (part ''day'' (map_option text_of_int (js_day e)) @ part ''day_of_week'' (js_weekday e) @
           part ''hour'' (map_option text_of_int (js_hour e)) @ [quoted ''minute'' (text_of_int (js_minute e))]) @ '']'')"

section \<open>The history\<close>

record scheduled_task_run =
  str_job_id :: job_id
  str_started_at :: instant
  str_finished_at :: instant
  str_exit_code :: nat
  str_output :: string

definition OUTPUT_MAX_LENGTH :: nat where
  "OUTPUT_MAX_LENGTH = 4000"

text \<open>What a job is given: the day, the mail server, the texts of exceptions, its beginning and end.\<close>

datatype mail_content =
    Birthday_Mail string "int option"
  | Debtor_Mail string decimal string int string string "string option"
  | Chronicles_Mail anniversaries string string
  | Archive_Health_Mail "string list" "string list" nat
  | Standesdb_Health_Mail "string list" "string list"

record mail =
  mail_to :: "string list"
  mail_subject :: string
  mail_content :: mail_content
  mail_template_key :: string
  mail_from_addr :: "string option"
  mail_from_name :: "string option"
  mail_reply_to :: "string option"
  mail_bcc :: "string list"

text \<open>The server takes a mail, fails to deliver it (an \<open>OSError\<close> with its text), or another error occurs.\<close>

datatype delivery = Delivered | Delivery_Failure string | Delivery_Error exc

record job_env =
  je_today :: date
  je_deliver :: "mail \<Rightarrow> delivery"
  je_exc_text :: "exc \<Rightarrow> string"
  je_started :: instant
  je_finished :: instant

text \<open>A row the table refuses (a clock that went back) is dropped.\<close>

definition record_job_run :: "job_env \<Rightarrow> job_id \<Rightarrow> nat \<Rightarrow> string \<Rightarrow> scheduled_task_run list \<Rightarrow> scheduled_task_run list" where
  "record_job_run env job code output runs =
     (if je_finished env < je_started env then runs
      else runs @ [\<lparr>str_job_id = job, str_started_at = je_started env, str_finished_at = je_finished env,
                    str_exit_code = code, str_output = take OUTPUT_MAX_LENGTH output\<rparr>])"

definition list_job_runs :: "scheduled_task_run list \<Rightarrow> string \<Rightarrow> nat \<Rightarrow> nat \<Rightarrow> scheduled_task_run list \<times> nat" where
  "list_job_runs runs job page page_size =
     (let found = filter (\<lambda>r. job_text (str_job_id r) = job) runs
      in (page_of page_size page (sort_desc str_started_at found), length found))"

definition get_latest_run_per_job :: "scheduled_task_run list \<Rightarrow> string \<Rightarrow> scheduled_task_run option" where
  "get_latest_run_per_job runs job =
     (case sort_desc str_started_at (filter (\<lambda>r. job_text (str_job_id r) = job) runs) of [] \<Rightarrow> None | r # _ \<Rightarrow> Some r)"

text \<open>What every job does with the outcome of its body; without an outcome the job ends silently.\<close>

definition finish_job ::
  "job_env \<Rightarrow> job_id \<Rightarrow> mail list \<times> (exc + (nat \<times> string) option) \<Rightarrow> scheduled_task_run list \<Rightarrow> mail list \<times> scheduled_task_run list" where
  "finish_job env job outcome runs =
     (case outcome of
        (sent, Inl e) \<Rightarrow> (sent, record_job_run env job 1 (je_exc_text env e) runs)
      | (sent, Inr None) \<Rightarrow> (sent, runs)
      | (sent, Inr (Some (code, output))) \<Rightarrow> (sent, record_job_run env job code output runs))"

section \<open>One mail per member\<close>

record mail_run =
  run_sent :: nat
  run_failed :: "string list"

definition mail_run_exit_code :: "mail_run \<Rightarrow> nat" where
  "mail_run_exit_code r = (if run_failed r = [] then 0 else 1)"

definition mail_run_summary :: "mail_run \<Rightarrow> string \<Rightarrow> string" where
  "mail_run_summary r what =
     digits_of_nat (run_sent r) @ '' '' @ what @ '' sent.'' @
     (if run_failed r = [] then [] else '' '' @ digits_of_nat (length (run_failed r)) @ '' failed: '' @ join '', '' (run_failed r) @ ''.'')"

text \<open>
  The loop of the two jobs: a member without a mail is passed over, a mail that cannot be delivered is
  noted, any other error ends the loop; the mails that went out stay out.
\<close>

fun send_each ::
  "(mail \<Rightarrow> delivery) \<Rightarrow> (member \<Rightarrow> exc + mail option) \<Rightarrow> member list \<Rightarrow> mail list \<Rightarrow> mail_run \<Rightarrow> mail list \<times> (exc + mail_run)" where
  "send_each deliver mail_for [] sent run = (sent, Inr run)"
| "send_each deliver mail_for (m # ms) sent run =
     (case mail_for m of
        Inl e \<Rightarrow> (sent, Inl e)
      | Inr None \<Rightarrow> send_each deliver mail_for ms sent run
      | Inr (Some x) \<Rightarrow>
          (case deliver x of
             Delivered \<Rightarrow> send_each deliver mail_for ms (sent @ [x]) (run\<lparr>run_sent := run_sent run + 1\<rparr>)
           | Delivery_Failure _ \<Rightarrow> send_each deliver mail_for ms sent (run\<lparr>run_failed := run_failed run @ [cn m]\<rparr>)
           | Delivery_Error e \<Rightarrow> (sent, Inl e)))"

definition no_mails_yet :: mail_run where
  "no_mails_yet = \<lparr>run_sent = 0, run_failed = []\<rparr>"

definition get_role_holder_emails :: "date \<Rightarrow> member list \<Rightarrow> string list \<Rightarrow> string \<Rightarrow> string list" where
  "get_role_holder_emails today ms role_ids org =
     map (\<lambda>m. text_or_empty m F_email)
       (filter (\<lambda>m. (\<exists>mr \<in> set (member_roles m). mr_role_id mr \<in> set role_ids \<and> role_active today mr) \<and>
                   text_col m F_org_id = Some org \<and> text_or_empty m F_email \<noteq> []) ms)"

definition greeting_name :: "member \<Rightarrow> string" where
  "greeting_name m = (if text_or_empty m F_couleurname \<noteq> [] then text_or_empty m F_couleurname else cn m)"

section \<open>Birthdays\<close>

definition wants_birthday_mail :: "member \<Rightarrow> bool" where
  "wants_birthday_mail m \<longleftrightarrow>
     text_col m F_org_id = Some ''vbw'' \<and> columns m F_entlassen = PBool False \<and> columns m F_verstorben = PBool False \<and>
     (case columns m F_geburtsdatum_accuracy of PInt a \<Rightarrow> 3 \<le> a | _ \<Rightarrow> False) \<and>
     (case text_col m F_zustellungen of None \<Rightarrow> False | Some z \<Rightarrow> z \<noteq> ''deaktiviert'') \<and>
     text_or_empty m F_email \<noteq> [] \<and> text_or_empty m F_couleurname \<noteq> []"

definition birthday_on :: "date \<Rightarrow> member \<Rightarrow> bool" where
  "birthday_on d m \<longleftrightarrow> (case date_col m F_geburtsdatum of None \<Rightarrow> False | Some b \<Rightarrow> month b = month d \<and> day b = day d)"

definition birthday_mail :: "date \<Rightarrow> string list \<Rightarrow> member \<Rightarrow> mail" where
  "birthday_mail tomorrow bcc m =
     \<lparr>mail_to = [text_or_empty m F_email], mail_subject = ''Geburtstagsgruss Deiner Bundesbrueder'',
      mail_content = Birthday_Mail (greeting_name m) (map_option (\<lambda>b. year tomorrow - year b) (date_col m F_geburtsdatum)),
      mail_template_key = ''birthday'', mail_from_addr = Some ''philchc@vindobona2.at'',
      mail_from_name = Some ''Philister-ChC Vindobona II'', mail_reply_to = Some ''philchc@vindobona2.at'', mail_bcc = bcc\<rparr>"

definition birthday_mails :: "job_env \<Rightarrow> member list \<Rightarrow> mail list \<times> (exc + (nat \<times> string) option)" where
  "birthday_mails env ms =
     (case plus_days (je_today env) 1 of
        Inl e \<Rightarrow> ([], Inl e)
      | Inr tomorrow \<Rightarrow>
          let birthday_members = filter (birthday_on tomorrow) (filter wants_birthday_mail ms);
              bcc = get_role_holder_emails (je_today env) ms [''phil-x'', ''phil-xxx''] ''vbw''
          in if birthday_members = [] then ([], Inr (Some (0, ''No birthdays tomorrow.'')))
             else (case send_each (je_deliver env) (\<lambda>m. Inr (if text_or_empty m F_email = [] then None else Some (birthday_mail tomorrow bcc m)))
                     birthday_members [] no_mails_yet of
                 (sent, r) \<Rightarrow> (sent, bind_res r (\<lambda>run. Inr (Some (mail_run_exit_code run, mail_run_summary run ''birthday mail(s)''))))))"

definition job_birthday_mails :: "job_env \<Rightarrow> member list \<Rightarrow> scheduled_task_run list \<Rightarrow> mail list \<times> scheduled_task_run list" where
  "job_birthday_mails env ms = finish_job env BIRTHDAY_MAILS (birthday_mails env ms)"

section \<open>Debtors\<close>

definition MONTHS_DE :: "string list" where
  "MONTHS_DE = [[], ''Jaenner'', ''Februar'', ''Maerz'', ''April'', ''Mai'', ''Juni'', ''Juli'', ''August'', ''September'',
     ''Oktober'', ''November'', ''Dezember'']"

definition validate_latest_booking :: "p4x_db \<Rightarrow> date \<Rightarrow> bool" where
  "validate_latest_booking db today \<longleftrightarrow>
     (case sort_desc booking (filter (\<lambda>t. tx_deleted_at t = None) (transactions db)) of
        [] \<Rightarrow> False
      | t # _ \<Rightarrow> take 7 (isoformat (booking t)) = take 7 (isoformat today))"

definition compute_target_date :: "date \<Rightarrow> exc + date" where
  "compute_target_date today =
     (if month today = 1 then mk_date (year today - 1) 12 31 else prev_day (Date (year today) (month today) 1))"

definition payment_account :: "p4x_db \<Rightarrow> exc + p4x_account" where
  "payment_account db = (case get_by acc_id (accounts db) GIROKONTO_ACCOUNT_ID of None \<Rightarrow> Inl RuntimeError | Some a \<Rightarrow> Inr a)"

definition get_phil_xxxx_name :: "date \<Rightarrow> member list \<Rightarrow> string" where
  "get_phil_xxxx_name today ms =
     (case get_role_holder_emails today ms [''phil-xxxx''] ''vbw'' of
        [] \<Rightarrow> ''Philisterkassier''
      | e # _ \<Rightarrow> (case List.find (\<lambda>m. text_col m F_email = Some e) ms of None \<Rightarrow> ''Philisterkassier'' | Some m \<Rightarrow> cn m))"

definition get_phil_xxxx_email :: "date \<Rightarrow> member list \<Rightarrow> string option" where
  "get_phil_xxxx_email today ms =
     (case get_role_holder_emails today ms [''phil-xxxx''] ''vbw'' of [] \<Rightarrow> None | e # _ \<Rightarrow> Some e)"

text \<open>\<open>int(-end_balance)\<close> of a negative balance.\<close>

definition debt_of :: "fee_balance_result \<Rightarrow> int" where
  "debt_of r = (if r_end_balance r < 0 then \<lfloor>- r_end_balance r\<rfloor> else 0)"

definition debtor_mail :: "p4x_db \<Rightarrow> date \<Rightarrow> date \<Rightarrow> p4x_account \<Rightarrow> int \<Rightarrow> member \<Rightarrow> mail" where
  "debtor_mail db today target a debt m =
     \<lparr>mail_to = [text_or_empty m F_email], mail_subject = ''Erinnerung an Deine Mitgliedsbeitraege'',
      mail_content = Debtor_Mail (greeting_name m) (fee_for_month db target)
        (text_of_int (day target) @ ''. '' @ MONTHS_DE ! nat (month target) @ '' '' @ text_of_int (year target)) debt
        (get_phil_xxxx_name today (members db)) (acc_iban a) (acc_bic a),
      mail_template_key = ''debtor_reminder'', mail_from_addr = Some ''philisterkassier@vindobona2.at'',
      mail_from_name = Some (get_phil_xxxx_name today (members db)), mail_reply_to = get_phil_xxxx_email today (members db),
      mail_bcc = get_role_holder_emails today (members db) [''phil-x'', ''phil-xxxx''] ''vbw''\<rparr>"

definition debtor_mail_for :: "p4x_db \<Rightarrow> date \<Rightarrow> date \<Rightarrow> member \<Rightarrow> exc + mail option" where
  "debtor_mail_for db today target m =
     bind_res (calculate_fee_balance db today m None (Some (isoformat target))) (\<lambda>b.
       case b of
         None \<Rightarrow> Inr None
       | Some r \<Rightarrow>
           if debt_of r \<le> 300 \<or> text_or_empty m F_email = [] then Inr None
           else bind_res (payment_account db) (\<lambda>a. Inr (Some (debtor_mail db today target a (debt_of r) m))))"

definition send_debtor_reminders :: "job_env \<Rightarrow> p4x_db \<Rightarrow> date \<Rightarrow> mail list \<times> (exc + mail_run)" where
  "send_debtor_reminders env db target =
     send_each (je_deliver env) (debtor_mail_for db (je_today env) target) (get_fee_members db) [] no_mails_yet"

definition debtor_reminder :: "job_env \<Rightarrow> p4x_db \<Rightarrow> mail list \<times> (exc + (nat \<times> string) option)" where
  "debtor_reminder env db =
     (if month (je_today env) mod 3 = 0 then ([], Inr None)
      else if \<not> validate_latest_booking db (je_today env)
      then ([], Inr (Some (1, ''Latest transaction booking is too old -- import missing.'')))
      else case compute_target_date (je_today env) of
          Inl e \<Rightarrow> ([], Inl e)
        | Inr target \<Rightarrow>
            (case send_debtor_reminders env db target of
               (sent, r) \<Rightarrow> (sent, bind_res r (\<lambda>run. Inr (Some (mail_run_exit_code run,
                 ''Target date '' @ isoformat target @ '': '' @ mail_run_summary run ''reminder(s)''))))))"

definition job_debtor_reminder :: "job_env \<Rightarrow> p4x_db \<Rightarrow> scheduled_task_run list \<Rightarrow> mail list \<times> scheduled_task_run list" where
  "job_debtor_reminder env db = finish_job env DEBTOR_REMINDER (debtor_reminder env db)"

section \<open>The chronicle\<close>

text \<open>A mail to all: a delivery that fails ends the job like any other error.\<close>

definition send_to_all :: "job_env \<Rightarrow> mail \<Rightarrow> nat \<times> string \<Rightarrow> mail list \<times> (exc + (nat \<times> string) option)" where
  "send_to_all env x outcome =
     (case je_deliver env x of
        Delivered \<Rightarrow> ([x], Inr (Some outcome))
      | Delivery_Failure s \<Rightarrow> ([], Inr (Some (1, s)))
      | Delivery_Error e \<Rightarrow> ([], Inl e))"

definition standesdb_chronicles :: "job_env \<Rightarrow> member list \<Rightarrow> mail list \<times> (exc + (nat \<times> string) option)" where
  "standesdb_chronicles env ms =
     (let bcc = get_opted_in_recipients ms
      in if bcc = [] then ([], Inr (Some (0, ''No opted-in recipients.'')))
         else case compute_anniversaries ms (je_today env) of
             Inl e \<Rightarrow> ([], Inl e)
           | Inr found \<Rightarrow>
               if found = [] then ([], Inr (Some (0, ''No anniversaries this week.'')))
               else (case week_window (je_today env) of
                   Inl e \<Rightarrow> ([], Inl e)
                 | Inr (week_start, week_end) \<Rightarrow>
                     send_to_all env
                       \<lparr>mail_to = [], mail_subject = ''Verbindungschroniken'',
                        mail_content = Chronicles_Mail found (format_date_de week_start) (format_date_de week_end),
                        mail_template_key = ''chronicles'', mail_from_addr = None, mail_from_name = None,
                        mail_reply_to = None, mail_bcc = bcc\<rparr>
                       (0, ''Chronicles sent to '' @ digits_of_nat (length bcc) @ '' recipient(s).'')))"

definition job_standesdb_chronicles :: "job_env \<Rightarrow> member list \<Rightarrow> scheduled_task_run list \<Rightarrow> mail list \<times> scheduled_task_run list" where
  "job_standesdb_chronicles env ms = finish_job env STANDESDB_CHRONICLES (standesdb_chronicles env ms)"

section \<open>Health checks\<close>

record integrity_report =
  ir_missing :: "string list"
  ir_orphans :: "string list"

definition is_healthy :: "integrity_report \<Rightarrow> bool" where
  "is_healthy r \<longleftrightarrow> ir_missing r = []"

definition check_integrity :: "string list \<Rightarrow> storage \<Rightarrow> string \<Rightarrow> exc + integrity_report" where
  "check_integrity hashes st prefix =
     bind_res (storage_list_keys st (prefix @ ''/'')) (\<lambda>s3_keys.
       let referenced = map (\<lambda>h. prefix @ ''/'' @ h) hashes
       in Inr \<lparr>ir_missing = sort (remdups (filter (\<lambda>k. k \<notin> set s3_keys) referenced)),
               ir_orphans = sort (remdups (filter (\<lambda>k. k \<notin> set referenced) s3_keys))\<rparr>)"

definition check_archive_integrity :: "string \<Rightarrow> archive_db \<Rightarrow> storage \<Rightarrow> exc + integrity_report" where
  "check_archive_integrity path db st = check_integrity (map si_sha256_hash (store_items db)) st path"

definition check_standesdb_integrity :: "string \<Rightarrow> person_image list \<Rightarrow> storage \<Rightarrow> exc + integrity_report" where
  "check_standesdb_integrity path images st = check_integrity (map pi_sha256_hash images) st path"

definition health_check_subject :: "string \<Rightarrow> bool \<Rightarrow> string" where
  "health_check_subject feature healthy =
     (if healthy then ''OK'' else ''FEHLER'') @ '': VB:'' @ feature @ '':Konsistenzpruefung''"

definition health_mail :: "string list \<Rightarrow> string \<Rightarrow> mail_content \<Rightarrow> string \<Rightarrow> mail" where
  "health_mail recipients title content key =
     \<lparr>mail_to = recipients, mail_subject = title, mail_content = content, mail_template_key = key, mail_from_addr = None,
      mail_from_name = None, mail_reply_to = None, mail_bcc = []\<rparr>"

definition archive_health_check ::
  "job_env \<Rightarrow> settings \<Rightarrow> string \<Rightarrow> archive_db \<Rightarrow> storage \<Rightarrow> mail list \<times> (exc + (nat \<times> string) option)" where
  "archive_health_check env cfg path db st =
     (let recipients = get_emails_with_permission cfg (je_today env) (a_members db) ''archiveAdmin''
      in if recipients = [] then ([], Inr (Some (1, ''No archiveAdmin recipients found.'')))
         else case check_archive_integrity path db st of
             Inl e \<Rightarrow> ([], Inl e)
           | Inr r \<Rightarrow>
               send_to_all env
                 (health_mail recipients (health_check_subject ''Archiv'' (is_healthy r))
                   (Archive_Health_Mail (ir_missing r) (ir_orphans r) (get_unsorted_upload_count db)) ''archive_health_check'')
                 (if is_healthy r then 0 else 1,
                  digits_of_nat (length (ir_missing r)) @ '' missing, '' @ digits_of_nat (length (ir_orphans r)) @ '' orphans, '' @
                  digits_of_nat (get_unsorted_upload_count db) @ '' unsorted.''))"

definition job_archive_health_check ::
  "job_env \<Rightarrow> settings \<Rightarrow> string \<Rightarrow> archive_db \<Rightarrow> storage \<Rightarrow> scheduled_task_run list \<Rightarrow> mail list \<times> scheduled_task_run list" where
  "job_archive_health_check env cfg path db st = finish_job env ARCHIVE_HEALTH_CHECK (archive_health_check env cfg path db st)"

definition standesdb_health_check ::
  "job_env \<Rightarrow> settings \<Rightarrow> string \<Rightarrow> member list \<Rightarrow> person_image list \<Rightarrow> storage \<Rightarrow> mail list \<times> (exc + (nat \<times> string) option)" where
  "standesdb_health_check env cfg path ms images st =
     (let recipients = get_emails_with_permission cfg (je_today env) ms ''standesdbVbwAdmin''
      in if recipients = [] then ([], Inr (Some (1, ''No standesdbVbwAdmin recipients found.'')))
         else case check_standesdb_integrity path images st of
             Inl e \<Rightarrow> ([], Inl e)
           | Inr r \<Rightarrow>
               send_to_all env
                 (health_mail recipients (health_check_subject ''Standesdb'' (is_healthy r))
                   (Standesdb_Health_Mail (ir_missing r) (ir_orphans r)) ''standesdb_health_check'')
                 (if is_healthy r then 0 else 1,
                  digits_of_nat (length (ir_missing r)) @ '' missing, '' @ digits_of_nat (length (ir_orphans r)) @ '' orphans.''))"

definition job_standesdb_health_check ::
  "job_env \<Rightarrow> settings \<Rightarrow> string \<Rightarrow> member list \<Rightarrow> person_image list \<Rightarrow> storage \<Rightarrow> scheduled_task_run list \<Rightarrow>
   mail list \<times> scheduled_task_run list" where
  "job_standesdb_health_check env cfg path ms images st =
     finish_job env STANDESDB_HEALTH_CHECK (standesdb_health_check env cfg path ms images st)"

section \<open>Ledger and backup\<close>

definition job_refresh_category_filter_hits :: "job_env \<Rightarrow> p4x_db \<Rightarrow> scheduled_task_run list \<Rightarrow> p4x_db \<times> scheduled_task_run list" where
  "job_refresh_category_filter_hits env db runs =
     (apply_all_category_filters_core True db,
      record_job_run env REFRESH_CATEGORY_FILTER_HITS 0 ''Category filter hits refreshed.'' runs)"

definition job_db_backup ::
  "job_env \<Rightarrow> backup_config \<Rightarrow> (stamp \<Rightarrow> instant) \<Rightarrow> stamp \<Rightarrow> instant \<Rightarrow> int \<Rightarrow> exc + string \<Rightarrow> storage \<Rightarrow>
   scheduled_task_run list \<Rightarrow> storage \<times> scheduled_task_run list" where
  "job_db_backup env cfg instant_of local_now now retention_days dump st runs =
     (case run_backup cfg local_now dump False st of
        Inl e \<Rightarrow> (st, record_job_run env DB_BACKUP 1 (''Backup failed: '' @ je_exc_text env e) runs)
      | Inr (name, st1) \<Rightarrow>
          (case cleanup_old_backups cfg instant_of now retention_days st1 of
             (st2, r) \<Rightarrow>
               (st2, record_job_run env DB_BACKUP 0
                  (''Backup succeeded: '' @ name @
                   (case r of
                      Inl e \<Rightarrow> ''; retention cleanup failed: '' @ je_exc_text env e
                    | Inr deleted \<Rightarrow>
                        if deleted = [] then []
                        else ''; '' @ digits_of_nat (length deleted) @ '' expired backup(s) cleaned up.'')) runs)))"

section \<open>Downsync\<close>

text \<open>
  The live database: its content, and the table of runs, which a restore replaces with the rest and which
  may be missing. A run is recorded in the table that is there when the job ends; without one the record
  is lost, as every error of recording is only logged.
\<close>

record 'c live_db =
  ld_content :: 'c
  ld_runs :: "scheduled_task_run list option"

definition record_run_in :: "job_env \<Rightarrow> job_id \<Rightarrow> nat \<Rightarrow> string \<Rightarrow> 'c live_db \<Rightarrow> 'c live_db" where
  "record_run_in env job code output d = d\<lparr>ld_runs := map_option (record_job_run env job code output) (ld_runs d)\<rparr>"

text \<open>
  The store of production is the store or the text of the error that its credentials are missing;
  what a request to the local store meets may differ from try to try.
\<close>

record 'c downsync_env =
  ds_light :: bool
  ds_tools :: "'c live_db pg_tools"
  ds_alembic_upgrade_head :: "'c live_db \<Rightarrow> 'c live_db \<times> (exc + unit)"
  ds_listed :: "nat \<Rightarrow> storage \<Rightarrow> storage"
  ds_got :: "nat \<Rightarrow> storage \<Rightarrow> storage"

definition downsync_output :: "bool \<Rightarrow> mirror_result \<Rightarrow> string \<Rightarrow> string" where
  "downsync_output light r name =
     ''S3-Files'' @ (if light then '' (light)'' else []) @ '': '' @ digits_of_nat (length (mi_synced r)) @ '' synced, '' @
     digits_of_nat (mi_skipped r) @ '' skipped, '' @ digits_of_nat (length (mi_deleted r)) @ '' deleted; DB: restored from '' @
     name @ ''.''"

definition restore_and_migrate :: "backup_config \<Rightarrow> 'c downsync_env \<Rightarrow> storage \<Rightarrow> 'c live_db \<Rightarrow> 'c live_db \<times> (exc + string)" where
  "restore_and_migrate cfg ds st d =
     (case run_restore cfg (ds_tools ds) (\<lambda>i. ds_listed ds i st) (\<lambda>i. ds_got ds i st) None False d of
        (d1, Inl e) \<Rightarrow> (d1, Inl e)
      | (d1, Inr name) \<Rightarrow> (case ds_alembic_upgrade_head ds d1 of (d2, r) \<Rightarrow> (d2, bind_res r (\<lambda>_. Inr name))))"

definition mirror_for :: "backup_config \<Rightarrow> 'c downsync_env \<Rightarrow> storage \<Rightarrow> storage \<Rightarrow> storage \<times> (exc + mirror_result)" where
  "mirror_for cfg ds remote st =
     (if ds_light ds then mirror_light cfg False True remote st else mirror_prefix False True [] remote st)"

definition job_downsync ::
  "job_env \<Rightarrow> backup_config \<Rightarrow> 'c downsync_env \<Rightarrow> string + storage \<Rightarrow> storage \<Rightarrow> 'c live_db \<Rightarrow> storage \<times> 'c live_db" where
  "job_downsync env cfg ds prod_storage st d =
     (if bc_environment cfg = ''production'' then (st, d)
      else case prod_storage of
          Inl s \<Rightarrow> (st, record_run_in env DOWNSYNC 1 (''Could not load prod AWS credentials: '' @ s) d)
        | Inr remote \<Rightarrow>
            (case mirror_for cfg ds remote st of
               (st1, Inl e) \<Rightarrow> (st1, record_run_in env DOWNSYNC 1 (''S3 mirror failed: '' @ je_exc_text env e) d)
             | (st1, Inr r) \<Rightarrow>
                 if has_errors r
                 then (st1, record_run_in env DOWNSYNC 1
                         (''S3 mirror had '' @ digits_of_nat (length (mi_errors r)) @ '' error(s), restore skipped.'') d)
                 else (case restore_and_migrate cfg ds st1 d of
                     (d1, Inl e) \<Rightarrow> (st1, record_run_in env DOWNSYNC 1 (''DB restore/migration failed: '' @ je_exc_text env e) d1)
                   | (d1, Inr name) \<Rightarrow> (st1, record_run_in env DOWNSYNC 0 (downsync_output (ds_light ds) r name) d1))))"

end
