(* ===== verification/Backup_Properties.thy ===== *)
theory Backup_Properties
  imports Backups
begin

text \<open>
  What backups promise: the name of a backup tells its time, the retention deletes the expired
  backups and nothing else, production is never overwritten by accident and no database by
  anything but a backup, and after a mirror without errors both buckets hold the same objects.
\<close>

section \<open>Names\<close>

lemma split_once_first:
  "sep \<notin> set a \<Longrightarrow> split_once sep (a @ sep # b) = Some (a, b)"
proof -
  assume a: "sep \<notin> set a"
  have "dropWhile (\<lambda>c. c \<noteq> sep) (a @ sep # b) = sep # b" "takeWhile (\<lambda>c. c \<noteq> sep) (a @ sep # b) = a"
    using a by (induction a) auto
  then show "split_once sep (a @ sep # b) = Some (a, b)" by (simp only: split_once_def list.case)
qed

lemma digits_no_sep:
  assumes "0 \<le> n" "n \<le> 99" "\<And>k. 0 \<le> k \<Longrightarrow> k \<le> 9 \<Longrightarrow> digit k \<noteq> sep"
  shows "sep \<notin> set (two_digits n)"
proof -
  have "0 \<le> n div 10 \<and> n div 10 \<le> 9" using assms(1,2) by presburger
  then show ?thesis using assms(3) [of "n div 10"] assms(3) [of "n mod 10"] by (auto simp: two_digits_def)
qed

lemma digit_neq_underscore [simp]: "0 \<le> a \<Longrightarrow> a \<le> 9 \<Longrightarrow> digit a \<noteq> CHR ''_''"
  by (rule digit_neq_of_char) simp_all

lemma two_digits_number:
  assumes "0 \<le> lo" "lo \<le> n" "n \<le> hi" "hi \<le> 99"
  shows "number_between 1 2 lo hi (two_digits n) = Some n"
proof -
  have "parse_digits 2 0 (digit (n div 10) # digit (n mod 10) # []) = Some (n, [])"
    by (rule parse_two) (use assms in auto)
  then show ?thesis using assms by (simp add: number_between_def two_digits_def)
qed

definition valid_stamp :: "stamp \<Rightarrow> bool" where
  "valid_stamp t = (case t of (d, h, m, s) \<Rightarrow>
     valid_date d \<and> 0 \<le> h \<and> h \<le> 23 \<and> 0 \<le> m \<and> m \<le> 59 \<and> 0 \<le> s \<and> s \<le> 59)"

lemma strptime_stamp_text:
  assumes "valid_stamp t"
  shows "strptime (stamp_text t) = Some t"
proof -
  obtain y mo dd h m s where t: "t = (Date y mo dd, h, m, s)" by (metis date.exhaust prod.exhaust)
  have v: "valid_date (Date y mo dd)" and b: "0 \<le> h" "h \<le> 23" "0 \<le> m" "m \<le> 59" "0 \<le> s" "s \<le> 59"
    using assms by (simp_all add: valid_stamp_def t)
  note dg = date_digits [OF v]
  have mo: "1 \<le> mo" "mo \<le> 12" "1 \<le> dd" "dd \<le> 31" "0 \<le> y" "y \<le> 9999"
    using v days_in_month_bounds(2) [of y mo] by auto
  let ?y = "[digit (y div 1000), digit (y div 100 mod 10), digit (y div 10 mod 10), digit (y mod 10)]"
  have "parse_digits 4 0 ?y = Some (y, [])"
    using dg year_digits_eq [of y] by (simp add: eval_nat_numeral)
  moreover have len: "length ?y = 4" by simp
  ultimately have ys: "number_between 4 4 0 9999 ?y = Some y"
    unfolding number_between_def len using mo by (simp del: parse_digits.simps)
  have spelled: "stamp_text t = ?y @ CHR ''-'' # two_digits mo @ CHR ''-'' # two_digits dd @ CHR ''_'' # two_digits h @
      CHR ''-'' # two_digits m @ CHR ''-'' # two_digits s"
    by (simp add: t isoformat_def two_digits_def Let_def)
  have sep: "CHR ''-'' \<notin> set ?y" "CHR ''-'' \<notin> set (two_digits mo)" "CHR ''_'' \<notin> set (two_digits dd)"
      "CHR ''-'' \<notin> set (two_digits h)" "CHR ''-'' \<notin> set (two_digits m)"
    using dg b by (auto intro!: digits_no_sep simp: eq_commute [of "CHR ''-''"] mo two_digits_def eq_commute [of "CHR ''_''"])
  have day: "day_directive (two_digits dd) = Some dd"
  proof -
    have "take 1 (two_digits dd) \<noteq> '' ''"
      using dg digit_neq_of_char [of "dd div 10" "CHR '' ''"] by (simp add: two_digits_def)
    then show ?thesis using two_digits_number [of 1 dd 31] mo unfolding day_directive_def by (simp del: One_nat_def)
  qed
  have n: "number_between 1 2 1 12 (two_digits mo) = Some mo" "number_between 1 2 0 23 (two_digits h) = Some h"
      "number_between 1 2 0 59 (two_digits m) = Some m" "number_between 1 2 0 61 (two_digits s) = Some s"
    by (rule two_digits_number; use mo b in simp)+
  show ?thesis
    unfolding strptime_def spelled split_once_first [OF sep(1)] bind.simps prod.case
      split_once_first [OF sep(2)] split_once_first [OF sep(3)] split_once_first [OF sep(4)] split_once_first [OF sep(5)]
      ys n day
    using v b by (simp add: t)
qed

lemma length_stamp_text [simp]: "length (stamp_text t) = 19"
  by (cases t) (simp add: two_digits_def)

lemma parse_dump_name:
  "parse_backup_timestamp (x @ ''.dump'') =
     (case split_once CHR ''-'' x of None \<Rightarrow> None | Some (_, ts) \<Rightarrow> strptime (take TIMESTAMP_LENGTH ts))"
  by (simp add: parse_backup_timestamp_def has_suffix_def)

text \<open>The name \<open>run_backup\<close> gives a backup, ad hoc or nightly, reads back as the time it was made.\<close>
theorem backup_name_tells_its_time:
  assumes "valid_stamp t" "CHR ''-'' \<notin> set (bc_environment cfg)"
  shows "parse_backup_timestamp (backup_name_of cfg t manual) = Some t"
proof -
  have "parse_backup_timestamp ((bc_environment cfg @ CHR ''-'' # stamp_text t @ m) @ ''.dump'') = Some t" for m
    unfolding parse_dump_name split_once_first [OF assms(2)]
    by (simp add: TIMESTAMP_LENGTH_def strptime_stamp_text [OF assms(1)])
  from this [of "if manual then ''-manual'' else []"] show ?thesis by (simp add: backup_name_of_def)
qed

section \<open>Retention\<close>

lemma set_dated:
  "set (dated_backup_keys cfg keys) = {(t, key). key \<in> set keys \<and> parse_backup_timestamp (remove_prefix (backups_prefix cfg) key) = Some t}"
  by (auto simp: dated_backup_keys_def split: option.splits)

lemma set_expired:
  "set (expired_keys cfg instant_of cutoff keys) = {key \<in> set keys. \<exists>t.
     parse_backup_timestamp (remove_prefix (backups_prefix cfg) key) = Some t \<and> instant_of t < cutoff}"
  by (auto simp: expired_keys_def set_dated image_iff)

lemma listed_keys: "storage_list_keys st p = Inr ks \<Longrightarrow> set ks = {k. has_object st k \<and> has_prefix p k}"
  by (force simp: storage_list_keys_def has_object_def split: if_split_asm)

lemma delete_keys_result:
  "delete_keys ks st = (st', r) \<Longrightarrow>
     s3_fails st' = s3_fails st \<and> (\<forall>k. k \<notin> set ks \<longrightarrow> map_of (objects st') k = map_of (objects st) k) \<and>
     (\<forall>k. has_object st' k \<longrightarrow> has_object st k) \<and> (r = Inr () \<longrightarrow> (\<forall>k \<in> set ks. \<not> has_object st' k))"
proof (induction ks arbitrary: st)
  case (Cons k ks)
  show ?case
  proof (cases "storage_delete st k")
    case (Inl e)
    then show ?thesis using Cons.prems by auto
  next
    case (Inr st1)
    note d = storage_delete_object [OF Inr]
    have "delete_keys ks st1 = (st', r)" using Cons.prems by (simp add: Inr)
    from Cons.IH [OF this] show ?thesis using d by auto
  qed
qed auto

lemma map_of_has: "has_object st k \<longleftrightarrow> map_of (objects st) k \<noteq> None"
  by (simp add: has_object_def map_of_eq_None_iff)

definition is_expired :: "backup_config \<Rightarrow> (stamp \<Rightarrow> instant) \<Rightarrow> instant \<Rightarrow> string \<Rightarrow> bool" where
  "is_expired cfg instant_of cutoff key \<longleftrightarrow> has_prefix (backups_prefix cfg) key \<and>
     (\<exists>t. parse_backup_timestamp (remove_prefix (backups_prefix cfg) key) = Some t \<and> instant_of t < cutoff)"

text \<open>However the retention run ends, no object but an expired backup is touched; when it succeeds, all
  expired backups are gone and they are what it reports.\<close>
theorem retention_deletes_the_expired:
  assumes run: "cleanup_old_backups cfg instant_of now retention_days st = (st', r)"
  defines "expired \<equiv> is_expired cfg instant_of (now - retention_days * DAY)"
  shows "(\<forall>key. \<not> expired key \<longrightarrow> map_of (objects st') key = map_of (objects st) key) \<and>
    (case r of Inl _ \<Rightarrow> True
     | Inr names \<Rightarrow> 1 \<le> retention_days \<and> (\<forall>key. has_object st' key \<longleftrightarrow> has_object st key \<and> \<not> expired key) \<and>
         set names = remove_prefix (backups_prefix cfg) ` {key. has_object st key \<and> expired key})"
proof -
  let ?ks = "\<lambda>keys. expired_keys cfg instant_of (now - retention_days * DAY) keys"
  consider (stop) e where "st' = st" "r = Inl e"
    | (del) keys q where "storage_list_keys st (backups_prefix cfg) = Inr keys" "delete_keys (?ks keys) st = (st', q)"
        "r = bind_res q (\<lambda>_. Inr (map (remove_prefix (backups_prefix cfg)) (?ks keys)))" "1 \<le> retention_days"
  proof (cases "retention_days < 1"; cases "storage_list_keys st (backups_prefix cfg)")
    fix keys
    assume k: "\<not> retention_days < 1" "storage_list_keys st (backups_prefix cfg) = Inr keys"
    obtain q where "delete_keys (?ks keys) st = (st', q)" "r = bind_res q (\<lambda>_. Inr (map (remove_prefix (backups_prefix cfg)) (?ks keys)))"
      using run k by (auto simp: cleanup_old_backups_def Let_def split: prod.split_asm)
    with k show ?thesis by (intro del) simp_all
  qed (use run in \<open>auto simp: cleanup_old_backups_def intro: stop [OF _ sym]\<close>)
  then show ?thesis
  proof cases
    case stop
    then show ?thesis by simp
  next
    case del
    have keys: "set keys = {k. has_object st k \<and> has_prefix (backups_prefix cfg) k}"
      using listed_keys [OF del(1)] by simp
    have ex: "set (?ks keys) = {key. has_object st key \<and> expired key}"
      unfolding set_expired keys expired_def is_expired_def by blast
    note d = delete_keys_result [OF del(2)]
    have same: "map_of (objects st') key = map_of (objects st) key" if "\<not> expired key" for key
      using d ex that by blast
    show ?thesis
    proof (cases q)
      case (Inl e)
      then show ?thesis using same del(3) by simp
    next
      case (Inr u)
      have "has_object st' key \<longleftrightarrow> has_object st key \<and> \<not> expired key" for key
        using d ex same [of key] Inr by (cases "expired key") (auto simp: map_of_has)
      then show ?thesis using same del(3,4) ex by (simp add: Inr)
    qed
  qed
qed

section \<open>The nightly run\<close>

text \<open>C38: The backup the nightly job has just written is still there, byte for byte, after its own
  retention run, whichever retention is configured and however that run ends.\<close>
theorem fresh_backup_survives_the_retention:
  assumes made: "run_backup cfg t (Inr bytes) manual st = Inr (name, st1)"
    and env: "CHR ''-'' \<notin> set (bc_environment cfg)" and t: "valid_stamp t" "now - DAY \<le> instant_of t"
  shows "map_of (objects (fst (cleanup_old_backups cfg instant_of now days st1))) (backups_prefix cfg @ name) = Some bytes"
proof -
  have name: "name = backup_name_of cfg t manual"
    and up: "storage_upload st (backups_prefix cfg @ name) bytes = Inr st1"
    using made by (auto simp: run_backup_def bind_res_eq_Inr Let_def)
  have there: "map_of (objects st1) (backups_prefix cfg @ name) = Some bytes" using storage_upload_object [OF up] by blast
  show ?thesis
  proof (cases "days < 1")
    case True
    then show ?thesis using there by (simp add: cleanup_old_backups_def)
  next
    case False
    then have "1 * DAY \<le> days * DAY" by (intro mult_right_mono) (simp_all add: DAY_def)
    then have "\<not> is_expired cfg instant_of (now - days * DAY) (backups_prefix cfg @ name)"
      using t(2) by (simp add: is_expired_def remove_prefix_def has_prefix_def name backup_name_tells_its_time [OF t(1) env])
    with there show ?thesis
      using retention_deletes_the_expired [OF surjective_pairing, of cfg instant_of now days st1] by auto
  qed
qed

section \<open>Restoring\<close>

lemma retry_from_result:
  "retry_from i n operation = r \<Longrightarrow> \<exists>j \<le> n. r = operation (i + j) \<and> (\<forall>k < j. operation (i + k) = Inl ClientError)"
proof (induction n arbitrary: i)
  case (Suc n)
  show ?case
  proof (cases "operation i = Inl ClientError")
    case True
    then have "retry_from (Suc i) n operation = r" using Suc.prems by simp
    from Suc.IH [OF this] obtain j where j: "j \<le> n" "r = operation (Suc i + j)" "\<forall>k < j. operation (Suc i + k) = Inl ClientError"
      by blast
    have "operation (i + k) = Inl ClientError" if "k < Suc j" for k using that True j(3) by (cases k) auto
    with j(1,2) show ?thesis by (intro exI [of _ "Suc j"]) simp
  qed (use Suc.prems in auto)
qed simp

text \<open>What is tried again is tried at most \<open>attempts\<close> times, and a success of any of these tries is the result.\<close>

lemma retry_succeeds:
  assumes "j < attempts" "operation j = Inr x" "\<forall>k < j. operation k = Inl ClientError"
  shows "retry_transient_s3 attempts operation = Inr x"
proof -
  obtain i where i: "i \<le> attempts - 1" "retry_transient_s3 attempts operation = operation i"
      "\<forall>k < i. operation k = Inl ClientError"
    using retry_from_result [of 0 "attempts - 1" operation] by (auto simp: retry_transient_s3_def)
  have "\<not> j < i" using i(3) assms(2) by force
  moreover have "\<not> i < j"
  proof
    assume "i < j"
    then have "i < attempts - 1" using assms(1) by simp
    moreover have "retry_from k n operation \<noteq> Inl ClientError \<or> k + n < j"
      if "k \<le> j" for k n
      using that
    proof (induction n arbitrary: k)
      case 0
      then show ?case using assms(2) by (cases "k = j") auto
    next
      case (Suc n)
      then show ?case using Suc.IH [of "Suc k"] assms(2) by (cases "k = j") auto
    qed
    from this [of 0 "attempts - 1"] have "retry_transient_s3 attempts operation \<noteq> Inl ClientError"
      using assms(1) by (auto simp: retry_transient_s3_def)
    ultimately show False using i(2) assms(3) \<open>i < j\<close> by simp
  qed
  ultimately show ?thesis using i(2) assms(2) by (simp add: nat_neq_iff)
qed

text \<open>The steps of a replacement, and what the database may be when one of them fails.\<close>

lemma replace_success:
  assumes "replace_database pg dump d = (d', Inr u)"
  shows "\<exists>history d1 d2 n. snapshot_local_job_history pg d = Inr history \<and> pg_wipe pg d = (d1, Inr ()) \<and>
    pg_restore pg dump d1 = (d2, Inr ()) \<and> pg_rows pg d2 = Inr n \<and> 0 < n \<and> d' = fst (restore_local_job_history pg history d2)"
  using assms
  by (auto simp: replace_database_def verify_restore_populated_def bind_res_eq_Inr split: sum.split_asm prod.split_asm if_split_asm)

lemma replace_states:
  assumes "replace_database pg dump d = (d', r)"
  shows "d' = d \<or> d' = fst (pg_wipe pg d) \<or> d' = fst (pg_restore pg dump (fst (pg_wipe pg d))) \<or>
    (\<exists>history. d' = fst (pg_restore_history pg history (fst (pg_restore pg dump (fst (pg_wipe pg d))))))"
  using assms
  by (auto simp: replace_database_def restore_local_job_history_def split: sum.split_asm prod.split_asm option.split_asm)
    (metis fst_conv)

lemma restore_steps:
  assumes run: "run_restore cfg pg listed got asked force d = (d', r)" and "d' \<noteq> d \<or> (\<exists>name. r = Inr name)"
  obtains name dump i q where "bc_environment cfg \<noteq> ''production'' \<or> force" "chosen_backup cfg listed asked = Inr name"
    "i < 3" "storage_download (got i) (backups_prefix cfg @ name) = Inr dump"
    "replace_database pg dump d = (d', q)" "r = bind_res q (\<lambda>_. Inr name)"
proof -
  obtain name dump where allowed: "bc_environment cfg \<noteq> ''production'' \<or> force"
    and name: "chosen_backup cfg listed asked = Inr name"
    and dump: "retry_transient_s3 3 (\<lambda>i. storage_download (got i) (backups_prefix cfg @ name)) = Inr dump"
    and rest: "(d', r) = (case replace_database pg dump d of (d', r) \<Rightarrow> (d', bind_res r (\<lambda>_. Inr name)))"
    using assms by (auto simp: run_restore_def bind_res_eq_Inr split: sum.split_asm if_split_asm)
  obtain q where q: "replace_database pg dump d = (d', q)" "r = bind_res q (\<lambda>_. Inr name)"
    using rest by (auto split: prod.split_asm)
  obtain i where "i \<le> 3 - 1" "Inr dump = storage_download (got (0 + i)) (backups_prefix cfg @ name)"
    using retry_from_result [OF dump [unfolded retry_transient_s3_def]] by blast
  then show ?thesis using allowed name q by (intro that [of name i dump q]) simp_all
qed

text \<open>What is chosen is the backup asked for, or the newest of one listing of the store.\<close>

text \<open>A key of the list with the latest time in its name, among those whose names tell a time.\<close>

definition newest_backup :: "backup_config \<Rightarrow> string list \<Rightarrow> string \<Rightarrow> bool" where
  "newest_backup cfg keys key \<longleftrightarrow> key \<in> set keys \<and>
     (\<exists>t. parse_backup_timestamp (remove_prefix (backups_prefix cfg) key) = Some t \<and>
        (\<forall>k \<in> set keys. \<forall>u. parse_backup_timestamp (remove_prefix (backups_prefix cfg) k) = Some u \<longrightarrow> u \<le> t))"

lemma sorted_last_max: "sorted xs \<Longrightarrow> x \<in> set xs \<Longrightarrow> x \<le> last xs"
  by (induction xs) auto

lemma fst_le: "((a :: 'a :: linorder), (b :: 'b :: linorder)) \<le> (c, d) \<Longrightarrow> a \<le> c"
  by (auto simp: less_eq_prod_def)

lemma latest_is_newest:
  assumes "latest_backup_key cfg keys = Some key" shows "newest_backup cfg keys key"
proof -
  let ?ds = "dated_backup_keys cfg keys"
  have ne: "?ds \<noteq> []" and key: "key = snd (last ?ds)"
    using assms by (auto simp: latest_backup_key_def Let_def split: if_split_asm)
  obtain t where t: "last ?ds = (t, key)" using key by (cases "last ?ds") simp
  have "(t, key) \<in> set ?ds" using last_in_set [OF ne] by (simp only: t)
  moreover have "u \<le> t" if "(u, k) \<in> set ?ds" for u k
  proof (rule fst_le)
    show "(u, k) \<le> (t, key)" using sorted_last_max [OF _ that] unfolding t by (simp add: dated_backup_keys_def)
  qed
  ultimately show ?thesis unfolding newest_backup_def set_dated by blast
qed

lemma chosen_name:
  assumes "chosen_backup cfg listed asked = Inr name"
  shows "asked = Some name \<or> asked = None \<and> (\<exists>i keys key. i < 3 \<and> storage_list_keys (listed i) (backups_prefix cfg) = Inr keys \<and>
    newest_backup cfg keys key \<and> name = remove_prefix (backups_prefix cfg) key)"
proof (cases asked)
  case None
  obtain keys key where l: "retry_transient_s3 3 (\<lambda>i. storage_list_keys (listed i) (backups_prefix cfg)) = Inr keys"
      "latest_backup_key cfg keys = Some key" "name = remove_prefix (backups_prefix cfg) key"
    using assms None by (auto simp: chosen_backup_def bind_res_eq_Inr split: option.split_asm)
  obtain i where "i \<le> 3 - 1" "Inr keys = storage_list_keys (listed (0 + i)) (backups_prefix cfg)"
    using retry_from_result [OF l(1) [unfolded retry_transient_s3_def]] by blast
  then show ?thesis using latest_is_newest [OF l(2)] l(3) None by (intro disjI2 conjI exI [of _ i] exI [of _ keys] exI [of _ key]) simp_all
qed (use assms in \<open>simp add: chosen_backup_def\<close>)

text \<open>C39: A restore touches the database only outside production or when forced, and only after it has read a
  backup: the one asked for, or the newest one of a listing. If it reports success, changed or not, the database
  was wiped, that backup was loaded and brought at least one row, and the run history was put back if it could be. If
  it fails half way, the database is what the steps up to there left.\<close>
theorem restore_is_deliberate:
  assumes run: "run_restore cfg pg listed got asked force d = (d', r)" and touched: "d' \<noteq> d \<or> (\<exists>name. r = Inr name)"
  shows "(bc_environment cfg \<noteq> ''production'' \<or> force) \<and>
    (\<exists>name dump i. i < 3 \<and> storage_download (got i) (backups_prefix cfg @ name) = Inr dump \<and>
      (asked = Some name \<or> asked = None \<and> (\<exists>i keys key. i < 3 \<and> storage_list_keys (listed i) (backups_prefix cfg) = Inr keys \<and>
         newest_backup cfg keys key \<and> name = remove_prefix (backups_prefix cfg) key)) \<and>
      (case r of
         Inl _ \<Rightarrow> d' = fst (pg_wipe pg d) \<or> d' = fst (pg_restore pg dump (fst (pg_wipe pg d))) \<or>
           (\<exists>history. d' = fst (pg_restore_history pg history (fst (pg_restore pg dump (fst (pg_wipe pg d))))))
       | Inr reported \<Rightarrow> reported = name \<and>
           (\<exists>history d1 d2 n. snapshot_local_job_history pg d = Inr history \<and> pg_wipe pg d = (d1, Inr ()) \<and>
              pg_restore pg dump d1 = (d2, Inr ()) \<and> pg_rows pg d2 = Inr n \<and> 0 < n \<and>
              d' = (case history of None \<Rightarrow> d2 | Some h \<Rightarrow> fst (pg_restore_history pg h d2)))))"
proof -
  obtain name dump i q where s: "bc_environment cfg \<noteq> ''production'' \<or> force" "chosen_backup cfg listed asked = Inr name"
    "i < 3" "storage_download (got i) (backups_prefix cfg @ name) = Inr dump"
    "replace_database pg dump d = (d', q)" "r = bind_res q (\<lambda>_. Inr name)"
    by (rule restore_steps [OF run touched])
  have "case r of
         Inl _ \<Rightarrow> d' = fst (pg_wipe pg d) \<or> d' = fst (pg_restore pg dump (fst (pg_wipe pg d))) \<or>
           (\<exists>history. d' = fst (pg_restore_history pg history (fst (pg_restore pg dump (fst (pg_wipe pg d))))))
       | Inr reported \<Rightarrow> reported = name \<and>
           (\<exists>history d1 d2 n. snapshot_local_job_history pg d = Inr history \<and> pg_wipe pg d = (d1, Inr ()) \<and>
              pg_restore pg dump d1 = (d2, Inr ()) \<and> pg_rows pg d2 = Inr n \<and> 0 < n \<and>
              d' = (case history of None \<Rightarrow> d2 | Some h \<Rightarrow> fst (pg_restore_history pg h d2)))"
  proof (cases q)
    case (Inl e)
    then show ?thesis using replace_states [OF s(5)] touched s(6) by auto
  next
    case (Inr u)
    have h: "fst (restore_local_job_history pg h x) = (case h of None \<Rightarrow> x | Some t \<Rightarrow> fst (pg_restore_history pg t x))" for h x
      by (simp add: restore_local_job_history_def split: option.split prod.split)
    show ?thesis using replace_success [OF s(5) [unfolded Inr]] s(6) Inr unfolding h by simp
  qed
  then show ?thesis using s(1,3,4) chosen_name [OF s(2)] by blast
qed

section \<open>The mirror\<close>

lemma mirror_copies:
  assumes "fold (mirror_one source False) ks (dest, r) = (dest', r')" "distinct ks" "mi_errors r' = []"
  shows "mi_errors r = [] \<and> s3_fails dest' = s3_fails dest \<and>
    (\<forall>k. map_of (objects dest') k = (if k \<in> set ks then map_of (objects source) k else map_of (objects dest) k)) \<and>
    (\<forall>k \<in> set ks. has_object source k)"
  using assms
proof (induction ks arbitrary: dest r)
  case (Cons k ks)
  show ?case
  proof (cases "copy_key source k dest")
    case (Inl e)
    have "mirror_one source False k (dest, r) = (dest, r\<lparr>mi_errors := mi_errors r @ [k]\<rparr>)" by (simp add: mirror_one_def Inl)
    then have "fold (mirror_one source False) ks (dest, r\<lparr>mi_errors := mi_errors r @ [k]\<rparr>) = (dest', r')"
      using Cons.prems(1) by simp
    from Cons.IH [OF this] Cons.prems(2,3) show ?thesis by simp
  next
    case (Inr dest1)
    obtain data where data: "storage_download source k = Inr data" "storage_upload dest k data = Inr dest1"
      using Inr by (auto simp: copy_key_def bind_res_eq_Inr)
    have src: "map_of (objects source) k = Some data"
      using data(1) by (auto simp: storage_download_def split: if_split_asm option.split_asm)
    note up = storage_upload_object [OF data(2)]
    have "mirror_one source False k (dest, r) = (dest1, r\<lparr>mi_synced := mi_synced r @ [k]\<rparr>)" by (simp add: mirror_one_def Inr)
    then have "fold (mirror_one source False) ks (dest1, r\<lparr>mi_synced := mi_synced r @ [k]\<rparr>) = (dest', r')"
      using Cons.prems(1) by simp
    moreover have "has_object source k" using src by (simp add: map_of_has)
    ultimately show ?thesis using Cons.IH [OF \<open>fold _ ks _ = _\<close>] Cons.prems(2,3) up src by auto
  qed
qed auto

text \<open>After a mirror without errors the two buckets hold the same objects under the prefix; what was missing is copied
  byte for byte, what was on both sides and what lies outside the prefix is as before.\<close>
theorem mirror_makes_equal:
  assumes run: "mirror_prefix False True prefix source dest = (dest', Inr r)" and fine: "\<not> has_errors r"
  shows "(\<forall>k. has_prefix prefix k \<longrightarrow> (has_object dest' k \<longleftrightarrow> has_object source k)) \<and>
    (\<forall>k. has_prefix prefix k \<and> has_object source k \<and> \<not> has_object dest k \<longrightarrow> map_of (objects dest') k = map_of (objects source) k) \<and>
    (\<forall>k. has_object dest k \<and> (has_object source k \<or> \<not> has_prefix prefix k) \<longrightarrow> map_of (objects dest') k = map_of (objects dest) k) \<and>
    (\<forall>k. \<not> has_prefix prefix k \<longrightarrow> map_of (objects dest') k = map_of (objects dest) k)"
proof -
  obtain ks ls where ks: "storage_list_keys source prefix = Inr ks" and ls: "storage_list_keys dest prefix = Inr ls"
    using run by (auto simp: mirror_prefix_def Let_def bind_res_eq_Inr split: sum.split_asm)
  define missing orphans where "missing = sort (remdups (filter (\<lambda>k. k \<notin> set ls) ks))"
    and "orphans = sort (remdups (filter (\<lambda>k. k \<notin> set ks) ls))"
  define r0 where "r0 = \<lparr>mi_synced = [], mi_skipped = length (remdups ks) - length missing, mi_deleted = [], mi_errors = []\<rparr>"
  have eq: "mirror_prefix False True prefix source dest =
      (if orphans \<noteq> [] \<and> ks = [] then (dest, Inl RuntimeError)
       else case fold (mirror_one source False) missing (dest, r0) of (dest1, r) \<Rightarrow>
         (case delete_orphans False orphans dest1 of (dest2, deleted) \<Rightarrow> (dest2, bind_res deleted (\<lambda>ks. Inr (r\<lparr>mi_deleted := ks\<rparr>)))))"
    by (simp only: mirror_prefix_def ks ls bind_res_simps sum.case prod.case Let_def missing_def orphans_def r0_def simp_thms if_True)
  obtain dest1 r1 where f: "fold (mirror_one source False) missing (dest, r0) = (dest1, r1)" by fastforce
  obtain d2 q where del0: "delete_keys orphans dest1 = (d2, q)" by fastforce
  have "d2 = dest'" and q: "bind_res q (\<lambda>_. Inr (r1\<lparr>mi_deleted := orphans\<rparr>)) = Inr r"
    using run by (auto simp: eq f del0 delete_orphans_def bind_res_eq_Inr split: if_split_asm)
  then have del: "delete_keys orphans dest1 = (dest', q)" using del0 by simp
  have ok: "mi_errors r1 = []" "q = Inr ()" using q fine by (auto simp: bind_res_eq_Inr has_errors_def)
  have d: "distinct missing" by (simp add: missing_def)
  note c = mirror_copies [OF f d ok(1)] and e = delete_keys_result [OF del]
  note keys = listed_keys [OF ks] listed_keys [OF ls]
  have missing: "k \<in> set missing \<longleftrightarrow> has_prefix prefix k \<and> has_object source k \<and> \<not> has_object dest k" for k
    using keys by (auto simp: missing_def)
  have orphan: "k \<in> set orphans \<longleftrightarrow> has_prefix prefix k \<and> \<not> has_object source k \<and> has_object dest k" for k
    using keys by (auto simp: orphans_def)
  have m: "map_of (objects dest') k = (if k \<in> set orphans then None else if k \<in> set missing then map_of (objects source) k
      else map_of (objects dest) k)" for k
  proof (cases "k \<in> set orphans")
    case True
    then have "\<not> has_object dest' k" using e ok(2) by blast
    then show ?thesis using True by (simp add: map_of_has)
  next
    case False
    then have "map_of (objects dest') k = map_of (objects dest1) k" using e by blast
    then show ?thesis using False c by presburger
  qed
  show ?thesis
    unfolding m missing orphan by (auto simp: map_of_has m missing orphan)
qed

text \<open>An empty source, a wrong bucket name for instance, erases nothing.\<close>

lemma mirror_of_nothing:
  assumes "\<not> (\<exists>k. has_object source k \<and> has_prefix prefix k)"
  shows "fst (mirror_prefix dry with_orphans prefix source dest) = dest"
proof (cases "bind_res (storage_list_keys source prefix) (\<lambda>ks. bind_res (storage_list_keys dest prefix) (\<lambda>ls. Inr (ks, ls)))")
  case (Inr x)
  obtain ks ls where x: "x = (ks, ls)" "storage_list_keys source prefix = Inr ks"
    using Inr by (auto simp: bind_res_eq_Inr)
  have "ks = []" using listed_keys [OF x(2)] assms by (cases ks) auto
  then show ?thesis using x Inr
    by (cases "ls = []") (simp_all add: mirror_prefix_def Let_def delete_orphans_def split: prod.split)
qed (simp add: mirror_prefix_def)

section \<open>Evaluated\<close>

definition demo_config :: backup_config where
  "demo_config = \<lparr>bc_database_url = ''postgresql://vb'', bc_environment = ''qa'', bc_path = ''db'', bc_light_paths = [''images'']\<rparr>"

text \<open>Days since 2026-01-01 of this demonstration's dates, in microseconds.\<close>

definition demo_instant :: "stamp \<Rightarrow> instant" where
  "demo_instant t = (case t of (d, h, m, s) \<Rightarrow> (month d * 31 + day d) * DAY + (h * 3600 + m * 60 + s) * 1000000)"

definition demo_bucket :: storage where
  "demo_bucket = \<lparr>objects = [(''db/qa-2026-01-02_03-00-00.dump'', ''old''), (''db/notes.txt'', ''n''), (''images/a'', ''A'')],
     s3_fails = (\<lambda>_ _. False)\<rparr>"

abbreviation demo_stamp :: stamp where
  "demo_stamp \<equiv> (Date 2026 7 15, 3, 0, 0)"

lemma demo_stamp_valid: "valid_stamp demo_stamp" "CHR ''-'' \<notin> set (bc_environment demo_config)"
  by code_simp+

theorem backup_name_tells_its_time_witness:
  "backup_name_of demo_config demo_stamp True = ''qa-2026-07-15_03-00-00-manual.dump'' \<and>
   parse_backup_timestamp ''qa-2026-07-15_03-00-00-manual.dump'' = Some demo_stamp"
proof -
  have "backup_name_of demo_config demo_stamp True = ''qa-2026-07-15_03-00-00-manual.dump''" by code_simp
  then show ?thesis using backup_name_tells_its_time [OF demo_stamp_valid, of True] by simp
qed

abbreviation demo_now :: instant where
  "demo_now \<equiv> (7 * 31 + 15) * DAY + 4 * 3600000000"

theorem retention_deletes_the_expired_witness:
  "case cleanup_old_backups demo_config demo_instant demo_now 29 demo_bucket of (st', r) \<Rightarrow>
     r = Inr [''qa-2026-01-02_03-00-00.dump''] \<and> map_of (objects st') ''db/notes.txt'' = Some ''n'' \<and>
     \<not> has_object st' ''db/qa-2026-01-02_03-00-00.dump''"
proof -
  obtain st' r where run: "cleanup_old_backups demo_config demo_instant demo_now 29 demo_bucket = (st', r)" by fastforce
  have "snd (cleanup_old_backups demo_config demo_instant demo_now 29 demo_bucket) = Inr [''qa-2026-01-02_03-00-00.dump'']"
    by code_simp
  then have r: "r = Inr [''qa-2026-01-02_03-00-00.dump'']" unfolding run snd_conv .
  let ?x = "is_expired demo_config demo_instant (demo_now - 29 * DAY)"
  have kept: "\<not> ?x ''db/notes.txt''"
  proof -
    have "parse_backup_timestamp (remove_prefix (backups_prefix demo_config) ''db/notes.txt'') = None" by code_simp
    then show ?thesis by (simp add: is_expired_def)
  qed
  have gone: "?x ''db/qa-2026-01-02_03-00-00.dump''"
  proof -
    have "has_prefix (backups_prefix demo_config) ''db/qa-2026-01-02_03-00-00.dump''"
      "parse_backup_timestamp (remove_prefix (backups_prefix demo_config) ''db/qa-2026-01-02_03-00-00.dump'') =
         Some (Date 2026 1 2, 3, 0, 0)"
      "demo_instant (Date 2026 1 2, 3, 0, 0) < demo_now - 29 * DAY" by code_simp+
    then show ?thesis unfolding is_expired_def by blast
  qed
  have "map_of (objects demo_bucket) ''db/notes.txt'' = Some ''n''" by (simp add: demo_bucket_def)
  then show ?thesis
    unfolding run r prod.case using retention_deletes_the_expired [OF run [unfolded r]] kept gone by auto
qed

theorem fresh_backup_survives_the_retention_witness:
  "\<exists>name st1. run_backup demo_config demo_stamp (Inr ''DATA'') False demo_bucket = Inr (name, st1) \<and>
     map_of (objects (fst (cleanup_old_backups demo_config demo_instant demo_now 1 st1))) (backups_prefix demo_config @ name) = Some ''DATA''"
proof -
  have "case run_backup demo_config demo_stamp (Inr ''DATA'') False demo_bucket of Inl _ \<Rightarrow> False | Inr _ \<Rightarrow> True" by code_simp
  then obtain name st1 where made: "run_backup demo_config demo_stamp (Inr ''DATA'') False demo_bucket = Inr (name, st1)"
    by (auto split: sum.split_asm)
  have "demo_now - DAY \<le> demo_instant demo_stamp" by code_simp
  from fresh_backup_survives_the_retention [where now = demo_now and instant_of = demo_instant and days = 1, OF made demo_stamp_valid(2,1) this] made show ?thesis by blast
qed

text \<open>A database that is the list of its rows; the dump is one row.\<close>

definition demo_tools :: "string list pg_tools" where
  "demo_tools = \<lparr>pg_history_exists = (\<lambda>d. Inr False), pg_snapshot_history = (\<lambda>d. Inr []), pg_wipe = (\<lambda>d. ([], Inr ())),
     pg_restore = (\<lambda>dump d. ([dump], Inr ())), pg_rows = (\<lambda>d. Inr (length d)), pg_restore_history = (\<lambda>s d. (d, Inr ()))\<rparr>"

theorem restore_is_deliberate_witness:
  "run_restore demo_config demo_tools (\<lambda>_. demo_bucket) (\<lambda>_. demo_bucket) None False [''x'', ''y''] =
     ([''old''], Inr ''qa-2026-01-02_03-00-00.dump'') \<and>
   (\<exists>dump d1. storage_download demo_bucket (backups_prefix demo_config @ ''qa-2026-01-02_03-00-00.dump'') = Inr dump \<and>
      pg_wipe demo_tools [''x'', ''y''] = (d1, Inr ()) \<and> pg_restore demo_tools dump d1 = ([''old''], Inr ()))"
proof -
  have run: "run_restore demo_config demo_tools (\<lambda>_. demo_bucket) (\<lambda>_. demo_bucket) None False [''x'', ''y''] =
     ([''old''], Inr ''qa-2026-01-02_03-00-00.dump'')" by code_simp
  have none: "snapshot_local_job_history demo_tools d = Inr h \<Longrightarrow> h = None" for d h
    by (simp add: snapshot_local_job_history_def demo_tools_def)
  have "[''old''] \<noteq> [''x'', ''y''] \<or> (\<exists>name :: string. Inr ''qa-2026-01-02_03-00-00.dump'' = (Inr name :: exc + string))" by simp
  from restore_is_deliberate [OF run this] obtain name dump history d1 d2 where
    "storage_download demo_bucket (backups_prefix demo_config @ name) = Inr dump" "name = ''qa-2026-01-02_03-00-00.dump''"
    "snapshot_local_job_history demo_tools [''x'', ''y''] = Inr history" "pg_wipe demo_tools [''x'', ''y''] = (d1, Inr ())"
    "pg_restore demo_tools dump d1 = (d2, Inr ())"
    "[''old''] = (case history of None \<Rightarrow> d2 | Some h \<Rightarrow> fst (pg_restore_history demo_tools h d2))"
    by auto
  moreover have "history = None" using none calculation(3) .
  ultimately show ?thesis using run by simp
qed

definition demo_copy :: storage where
  "demo_copy = \<lparr>objects = [(''images/b'', ''B''), (''db/x'', ''X'')], s3_fails = (\<lambda>_ _. False)\<rparr>"

theorem mirror_makes_equal_witness:
  "\<exists>dest' r. mirror_prefix False True ''images/'' demo_bucket demo_copy = (dest', Inr r) \<and>
     map_of (objects dest') ''images/a'' = Some ''A'' \<and> \<not> has_object dest' ''images/b'' \<and>
     map_of (objects dest') ''db/x'' = Some ''X''"
proof -
  let ?m = "mirror_prefix False True ''images/'' demo_bucket demo_copy"
  have "case snd ?m of Inl _ \<Rightarrow> False | Inr r \<Rightarrow> mi_errors r = []" by code_simp
  then obtain dest' r where m: "?m = (dest', Inr r)" and fine: "\<not> has_errors r"
    by (cases ?m) (auto simp: has_errors_def split: sum.split_asm)
  have h: "has_object demo_bucket ''images/a''" "\<not> has_object demo_copy ''images/a''" "\<not> has_object demo_bucket ''images/b''"
      "has_prefix ''images/'' ''images/a''" "has_prefix ''images/'' ''images/b''" "\<not> has_prefix ''images/'' ''db/x''"
    by code_simp+
  have o: "map_of (objects demo_bucket) ''images/a'' = Some ''A''" "map_of (objects demo_copy) ''db/x'' = Some ''X''" by code_simp+
  note t = mirror_makes_equal [OF m fine]
  have "map_of (objects dest') ''images/a'' = Some ''A''" using t h(1,2,4) o(1) by metis
  moreover have "\<not> has_object dest' ''images/b''" using t h(3,5) by blast
  moreover have "map_of (objects dest') ''db/x'' = Some ''X''" using t h(6) o(2) by metis
  ultimately show ?thesis using m by blast
qed

end
