(* ===== verification/Job_Properties.thy ===== *)
theory Job_Properties
  imports Jobs Backup_Properties
begin

text \<open>
  What the jobs promise: a downsync leaves production alone and otherwise restores the newest backup of
  production from a store mirrored without errors; reminders go to the debtors, every job leaves a record.
\<close>

section \<open>Downsync\<close>

lemma prefix_put_back: "has_prefix p k \<Longrightarrow> p @ remove_prefix p k = k"
  by (simp add: remove_prefix_def has_prefix_def) (metis append_take_drop_id)

definition backup_keys :: "backup_config \<Rightarrow> storage \<Rightarrow> string list" where
  "backup_keys cfg st = filter (has_prefix (backups_prefix cfg)) (map fst (objects st))"

lemma set_backup_keys: "set (backup_keys cfg st) = {k. has_object st k \<and> has_prefix (backups_prefix cfg) k}"
  by (auto simp: backup_keys_def has_object_def)

lemma restored_newest:
  assumes run: "run_restore cfg pg listed got None False d = (d', Inr name)"
    and same: "\<And>i. objects (listed i) = objects st" "\<And>i. objects (got i) = objects st"
  shows "\<exists>key dump u. newest_backup cfg (backup_keys cfg st) key \<and> map_of (objects st) key = Some dump \<and>
    replace_database pg dump d = (d', Inr u)"
proof -
  have "d' \<noteq> d \<or> (\<exists>n. (Inr name :: exc + string) = Inr n)" by simp
  then obtain name1 dump i q where c1: "chosen_backup cfg listed None = Inr name1"
      and g1: "storage_download (got i) (backups_prefix cfg @ name1) = Inr dump"
      and q: "replace_database pg dump d = (d', q)" "Inr name = bind_res q (\<lambda>_. Inr name1)"
    using run by (elim restore_steps [rotated]) (rule that)
  have "name1 = name" using q(2) by (cases q) simp_all
  note c = c1 [unfolded this] and g = g1 [unfolded this]
  obtain keys key where l: "retry_transient_s3 3 (\<lambda>i. storage_list_keys (listed i) (backups_prefix cfg)) = Inr keys"
      "latest_backup_key cfg keys = Some key" "name = remove_prefix (backups_prefix cfg) key"
    using c by (auto simp: chosen_backup_def bind_res_eq_Inr split: option.split_asm)
  obtain j where "storage_list_keys (listed j) (backups_prefix cfg) = Inr keys"
    using retry_from_result [OF l(1) [unfolded retry_transient_s3_def]] by auto
  then have keys: "keys = backup_keys cfg st" by (simp add: storage_list_keys_def backup_keys_def same split: if_split_asm)
  then have "has_prefix (backups_prefix cfg) key" using latest_is_newest [OF l(2)] by (simp add: newest_backup_def set_backup_keys)
  then have k: "backups_prefix cfg @ name = key" using l(3) prefix_put_back by simp
  have "map_of (objects st) key = Some dump"
    using g unfolding k by (simp add: storage_download_def same split: if_split_asm option.split_asm)
  moreover obtain u where "q = Inr u" using q(2) by (cases q) simp_all
  ultimately show ?thesis using latest_is_newest [OF l(2)] keys q(1) by blast
qed

text \<open>Every step of a restore and of the migration went well, and these are their results, one after the other.\<close>

definition replaced_and_migrated :: "'c downsync_env \<Rightarrow> string \<Rightarrow> 'c live_db \<Rightarrow> 'c live_db \<Rightarrow> bool" where
  "replaced_and_migrated ds dump d e \<longleftrightarrow>
     (\<exists>history d1 d2 d3 n. snapshot_local_job_history (ds_tools ds) d = Inr history \<and>
        pg_wipe (ds_tools ds) d = (d1, Inr ()) \<and> pg_restore (ds_tools ds) dump d1 = (d2, Inr ()) \<and>
        pg_rows (ds_tools ds) d2 = Inr n \<and> 0 < n \<and>
        d3 = (case history of None \<Rightarrow> d2 | Some h \<Rightarrow> fst (pg_restore_history (ds_tools ds) h d2)) \<and>
        ds_alembic_upgrade_head ds d3 = (e, Inr ()))"

lemma restored_and_migrated:
  assumes run: "restore_and_migrate cfg ds st d = (e, Inr name)"
    and same: "\<And>i s. objects (ds_listed ds i s) = objects s" "\<And>i s. objects (ds_got ds i s) = objects s"
  shows "\<exists>key dump. newest_backup cfg (backup_keys cfg st) key \<and> map_of (objects st) key = Some dump \<and>
    replaced_and_migrated ds dump d e"
proof -
  obtain d3 where r: "run_restore cfg (ds_tools ds) (\<lambda>i. ds_listed ds i st) (\<lambda>i. ds_got ds i st) None False d = (d3, Inr name)"
    and e: "ds_alembic_upgrade_head ds d3 = (e, Inr ())"
    using run by (auto simp: restore_and_migrate_def bind_res_eq_Inr split: prod.split_asm sum.split_asm)
  obtain key dump u where k: "newest_backup cfg (backup_keys cfg st) key" "map_of (objects st) key = Some dump"
      and rep: "replace_database (ds_tools ds) dump d = (d3, Inr u)"
    using restored_newest [OF r same] by blast
  have h: "fst (restore_local_job_history (ds_tools ds) h x) =
      (case h of None \<Rightarrow> x | Some t \<Rightarrow> fst (pg_restore_history (ds_tools ds) t x))" for h x
    by (simp add: restore_local_job_history_def split: option.split prod.split)
  have "replaced_and_migrated ds dump d e"
    unfolding replaced_and_migrated_def using replace_success [OF rep] e unfolding h by blast
  then show ?thesis using k by blast
qed

lemma recorded_run:
  assumes "je_started env \<le> je_finished env" "ld_runs (record_run_in env job c out d) = Some runs"
  shows "\<exists>earlier x. runs = earlier @ [x] \<and> str_job_id x = job \<and> str_started_at x = je_started env \<and> str_exit_code x = c"
  using assms by (auto simp: record_run_in_def record_job_run_def)

lemma content_recorded [simp]: "ld_content (record_run_in env job c out d) = ld_content d"
  by (simp add: record_run_in_def)

lemma no_prefix [simp]: "has_prefix [] k"
  by (simp add: has_prefix_def)

lemma downsync_cases:
  assumes "job_downsync env cfg ds remote st d = (st', d')"
  obtains (production) "bc_environment cfg = ''production''" "st' = st" "d' = d"
    | (stopped) out where "bc_environment cfg \<noteq> ''production''" "d' = record_run_in env DOWNSYNC 1 out d"
    | (failed) p m e q out where "bc_environment cfg \<noteq> ''production''" "remote = Inr p" "mirror_for cfg ds p st = (st', Inr m)"
        "\<not> has_errors m" "restore_and_migrate cfg ds st' d = (e, Inl q)" "d' = record_run_in env DOWNSYNC 1 out e"
    | (restored) p m e name where "bc_environment cfg \<noteq> ''production''" "remote = Inr p" "mirror_for cfg ds p st = (st', Inr m)"
        "\<not> has_errors m" "restore_and_migrate cfg ds st' d = (e, Inr name)"
        "d' = record_run_in env DOWNSYNC 0 (downsync_output (ds_light ds) m name) e"
proof (cases "bc_environment cfg = ''production''")
  case True
  then show ?thesis using assms by (intro production) (simp_all add: job_downsync_def)
next
  case env: False
  show ?thesis
  proof (cases remote)
    case (Inl s)
    show ?thesis using assms [unfolded job_downsync_def Inl sum.case if_not_P [OF env]]
      by (elim Pair_inject) (rule stopped [OF env sym])
  next
    case remote: (Inr p)
    obtain st1 x where m: "mirror_for cfg ds p st = (st1, x)" by fastforce
    show ?thesis
    proof (cases x)
      case (Inl e)
      show ?thesis using assms [unfolded job_downsync_def remote sum.case m Inl prod.case if_not_P [OF env]]
        by (elim Pair_inject) (rule stopped [OF env sym])
    next
      case (Inr y)
      show ?thesis
      proof (cases "has_errors y")
        case True
        show ?thesis using assms [unfolded job_downsync_def remote sum.case m Inr prod.case if_not_P [OF env] if_P [OF True]]
          by (elim Pair_inject) (rule stopped [OF env sym])
      next
        case False
        obtain e q where rm: "restore_and_migrate cfg ds st1 d = (e, q)" by fastforce
        note run = assms [unfolded job_downsync_def remote sum.case m Inr prod.case rm if_not_P [OF env] if_not_P [OF False]]
        show ?thesis
        proof (cases q)
          case (Inl q1)
          note q = run [unfolded this sum.case]
          then have "st' = st1" by simp
          show ?thesis using q rm m unfolding Inl Inr \<open>st' = st1\<close> [symmetric]
            by (elim Pair_inject) (rule failed [OF env remote _ False _ sym])
        next
          case name: (Inr name)
          note q = run [unfolded this sum.case]
          then have "st' = st1" by simp
          show ?thesis using q rm m unfolding name Inr \<open>st' = st1\<close> [symmetric]
            by (elim Pair_inject) (rule restored [OF env remote _ False _ sym])
        qed
      qed
    qed
  qed
qed

text \<open>C18: A downsync never touches a production stage, and changes the content of the database only after a mirror
  without errors. It leaves one record, in the table of runs the database then has. When that is a success, the newest backup of the
  local store was read, the database was wiped, filled from it with at least one row, given back its own history and migrated, each step without an
  error, and is the result; without the light mode the store holds exactly the objects of production, so that is the newest backup of production.\<close>
theorem downsync_clones_production:
  assumes run: "job_downsync env cfg ds remote st d = (st', d')"
    and tries: "\<And>i s. objects (ds_listed ds i s) = objects s" "\<And>i s. objects (ds_got ds i s) = objects s"
    and clock: "je_started env \<le> je_finished env"
  shows "(bc_environment cfg = ''production'' \<longrightarrow> st' = st \<and> d' = d) \<and>
    (ld_content d' \<noteq> ld_content d \<longrightarrow> (\<exists>p r. remote = Inr p \<and> mirror_for cfg ds p st = (st', Inr r) \<and> mi_errors r = [])) \<and>
    (bc_environment cfg \<noteq> ''production'' \<longrightarrow> (\<forall>runs. ld_runs d' = Some runs \<longrightarrow>
      (\<exists>earlier x. runs = earlier @ [x] \<and> str_job_id x = DOWNSYNC \<and> str_started_at x = je_started env \<and>
        (str_exit_code x = 1 \<or> str_exit_code x = 0 \<and>
          (\<exists>p r key dump e out. remote = Inr p \<and> mirror_for cfg ds p st = (st', Inr r) \<and> mi_errors r = [] \<and>
             newest_backup cfg (backup_keys cfg st') key \<and> map_of (objects st') key = Some dump \<and>
             replaced_and_migrated ds dump d e \<and> d' = record_run_in env DOWNSYNC 0 out e \<and>
             (\<not> ds_light ds \<longrightarrow> newest_backup cfg (backup_keys cfg p) key \<and> (\<forall>k. has_object st' k \<longleftrightarrow> has_object p k) \<and>
                (\<not> has_object st key \<longrightarrow> map_of (objects p) key = Some dump)))))))"
proof -
  have full: "newest_backup cfg (backup_keys cfg p) key \<and> (\<forall>k. has_object st' k \<longleftrightarrow> has_object p k) \<and>
      (\<not> has_object st key \<longrightarrow> map_of (objects p) key = Some dump)"
    if light: "\<not> ds_light ds" and m: "mirror_for cfg ds p st = (st', Inr r)" "\<not> has_errors r"
      and k: "newest_backup cfg (backup_keys cfg st') key" "map_of (objects st') key = Some dump" for p r key dump
  proof -
    have "mirror_prefix False True [] p st = (st', Inr r)" using m(1) light by (simp add: mirror_for_def)
    note eq = mirror_makes_equal [OF this m(2)]
    have same: "has_object st' k \<longleftrightarrow> has_object p k" for k using eq by simp
    have "set (backup_keys cfg st') = set (backup_keys cfg p)" by (simp add: set_backup_keys same)
    then have "newest_backup cfg (backup_keys cfg p) key" using k(1) by (simp add: newest_backup_def)
    moreover have "has_object p key" using k(2) same [of key] by (simp add: map_of_has)
    ultimately show ?thesis using same eq k(2) by auto
  qed
  from run show ?thesis
  proof (cases rule: downsync_cases)
    case (stopped out)
    then show ?thesis using recorded_run [OF clock] by simp blast
  next
    case (failed p m e q out)
    then show ?thesis using recorded_run [OF clock] by (simp add: has_errors_def) blast
  next
    case (restored p m e name)
    obtain key dump where k: "newest_backup cfg (backup_keys cfg st') key" "map_of (objects st') key = Some dump"
        "replaced_and_migrated ds dump d e"
      using restored_and_migrated [OF restored(5) tries] by blast
    have none: "mi_errors m = []" using restored(4) by (simp add: has_errors_def)
    show ?thesis
    proof (intro conjI impI allI)
      fix runs assume "ld_runs d' = Some runs"
      then obtain earlier x where x: "runs = earlier @ [x]" "str_job_id x = DOWNSYNC" "str_started_at x = je_started env" "str_exit_code x = 0"
        using recorded_run [OF clock] unfolding restored(6) by blast
      show "\<exists>earlier x. runs = earlier @ [x] \<and> str_job_id x = DOWNSYNC \<and> str_started_at x = je_started env \<and>
        (str_exit_code x = 1 \<or> str_exit_code x = 0 \<and>
          (\<exists>p r key dump e out. remote = Inr p \<and> mirror_for cfg ds p st = (st', Inr r) \<and> mi_errors r = [] \<and>
             newest_backup cfg (backup_keys cfg st') key \<and> map_of (objects st') key = Some dump \<and>
             replaced_and_migrated ds dump d e \<and> d' = record_run_in env DOWNSYNC 0 out e \<and>
             (\<not> ds_light ds \<longrightarrow> newest_backup cfg (backup_keys cfg p) key \<and> (\<forall>k. has_object st' k \<longleftrightarrow> has_object p k) \<and>
                (\<not> has_object st key \<longrightarrow> map_of (objects p) key = Some dump))))"
        using x restored(2,3,6) none k full [OF _ restored(3,4) k(1,2)] by blast
    qed (use restored none in simp_all)
  qed simp
qed

text \<open>A stage whose store only knows an older copy of production; the content is a list of texts, the migration adds one.\<close>

definition demo_env :: job_env where
  "demo_env = \<lparr>je_today = Date 2026 7 25, je_deliver = (\<lambda>_. Delivered), je_exc_text = (\<lambda>_. ''error''), je_started = 0,
     je_finished = 5\<rparr>"

text \<open>The dump carries the table of runs, empty; the stage's own history goes through a snapshot.\<close>

definition stage_tools :: "string list live_db pg_tools" where
  "stage_tools = \<lparr>pg_history_exists = (\<lambda>d. Inr (ld_runs d \<noteq> None)), pg_snapshot_history = (\<lambda>d. Inr ''history''),
     pg_wipe = (\<lambda>d. (\<lparr>ld_content = [], ld_runs = None\<rparr>, Inr ())),
     pg_restore = (\<lambda>dump d. (\<lparr>ld_content = [dump], ld_runs = Some []\<rparr>, Inr ())), pg_rows = (\<lambda>d. Inr (length (ld_content d))),
     pg_restore_history = (\<lambda>s d. (d, Inl RuntimeError))\<rparr>"

definition demo_downsync :: "bool \<Rightarrow> string list downsync_env" where
  "demo_downsync light = \<lparr>ds_light = light, ds_tools = stage_tools,
     ds_alembic_upgrade_head = (\<lambda>d. (d\<lparr>ld_content := ld_content d @ [''migrated'']\<rparr>, Inr ())),
     ds_listed = (\<lambda>i s. s), ds_got = (\<lambda>i s. s)\<rparr>"

definition demo_live :: "string list live_db" where
  "demo_live = \<lparr>ld_content = [''x''], ld_runs = Some []\<rparr>"

text \<open>The content read and migrated; the store equal to production.\<close>

lemma downsync_clones_production_witness:
  "\<exists>st' x. job_downsync demo_env demo_config (demo_downsync False) (Inr demo_bucket) demo_copy demo_live =
       (st', \<lparr>ld_content = [''old'', ''migrated''], ld_runs = Some [x]\<rparr>) \<and> str_exit_code x = 0 \<and>
     (\<forall>k. has_object st' k \<longleftrightarrow> has_object demo_bucket k)"
proof -
  let ?ds = "demo_downsync False"
  obtain st' d' where run: "job_downsync demo_env demo_config ?ds (Inr demo_bucket) demo_copy demo_live = (st', d')" by fastforce
  have "ld_content (snd (job_downsync demo_env demo_config ?ds (Inr demo_bucket) demo_copy demo_live)) = [''old'', ''migrated'']"
    "map_option (map str_exit_code) (ld_runs (snd (job_downsync demo_env demo_config ?ds (Inr demo_bucket) demo_copy demo_live))) = Some [0]"
    by code_simp+
  then have d': "ld_content d' = [''old'', ''migrated'']" "map_option (map str_exit_code) (ld_runs d') = Some [0]"
    unfolding run snd_conv .
  then obtain x where x: "ld_runs d' = Some [x]" "str_exit_code x = 0" by (cases "ld_runs d'") (auto simp: map_eq_Cons_conv)
  have clock: "je_started demo_env \<le> je_finished demo_env" and l: "\<not> ds_light ?ds" by (simp_all add: demo_env_def demo_downsync_def)
  have stage: "bc_environment demo_config \<noteq> ''production''" by code_simp
  have same: "objects (ds_listed ?ds i s) = objects s" "objects (ds_got ?ds i s) = objects s" for i s
    by (simp_all add: demo_downsync_def)
  have "\<forall>k. has_object st' k \<longleftrightarrow> has_object demo_bucket k"
    using downsync_clones_production [OF run same clock] stage l x by fastforce
  moreover have "d' = \<lparr>ld_content = [''old'', ''migrated''], ld_runs = Some [x]\<rparr>" using d' x by simp
  ultimately show ?thesis using run x(2) by blast
qed

text \<open>
  The light mode keeps the backups of the stage: one that is newer than all of production is what the
  downsync restores.
\<close>

definition stage_store :: storage where
  "stage_store = \<lparr>objects = [(''db/qa-2026-07-15_03-00-00-manual.dump'', ''local'')], s3_fails = (\<lambda>_ _. False)\<rparr>"

lemma light_downsync_restores_a_local_backup:
  "snd (restore_and_migrate demo_config (demo_downsync True)
     (fst (mirror_for demo_config (demo_downsync True) demo_bucket stage_store)) demo_live) =
   Inr ''qa-2026-07-15_03-00-00-manual.dump''"
  by code_simp

text \<open>Runs recorded before a restore whose history cannot be put back are lost, the record of the restore is kept.\<close>

lemma earlier_runs_may_be_lost:
  "map_option length (ld_runs (snd (job_downsync demo_env demo_config (demo_downsync False) (Inr demo_bucket) demo_copy
     (demo_live\<lparr>ld_runs := Some (record_job_run demo_env DOWNSYNC 1 [] [])\<rparr>)))) = Some 1"
  by code_simp

section \<open>Reminders\<close>

text \<open>
  What the loop does, member by member: up to where it stops, every member with a mail is tried once, in the
  order of the members, and the mails that went out are those the server took.
\<close>

definition loop_trace ::
  "(mail \<Rightarrow> delivery) \<Rightarrow> (member \<Rightarrow> exc + mail option) \<Rightarrow> member list \<Rightarrow> member list \<Rightarrow> mail list \<Rightarrow> exc + mail_run \<Rightarrow> bool" where
  "loop_trace deliver mail_for seen rest xs r \<longleftrightarrow>
     list_all2 (\<lambda>m x. mail_for m = Inr (Some x)) (filter (\<lambda>m. mail_for m \<noteq> Inr None) seen) xs \<and>
     (\<forall>x \<in> set xs. \<forall>e. deliver x = Delivery_Error e \<longrightarrow> r = Inl e) \<and>
     (case r of
        Inr _ \<Rightarrow> rest = []
      | Inl e \<Rightarrow> (\<exists>m \<in> set rest. mail_for m = Inl e) \<or> xs \<noteq> [] \<and> deliver (last xs) = Delivery_Error e)"

lemma loop_trace_step:
  assumes "loop_trace deliver mail_for seen rest xs r"
  shows "mail_for m = Inr None \<Longrightarrow> loop_trace deliver mail_for (m # seen) rest xs r"
    "mail_for m = Inr (Some x) \<Longrightarrow> (\<And>e. deliver x \<noteq> Delivery_Error e) \<Longrightarrow> loop_trace deliver mail_for (m # seen) rest (x # xs) r"
  using assms by (auto simp: loop_trace_def split: sum.splits)

lemma send_each_trace:
  "send_each deliver mail_for ms sent run = (sent', r) \<Longrightarrow>
     \<exists>seen rest xs. ms = seen @ rest \<and> loop_trace deliver mail_for seen rest xs r \<and>
       sent' = sent @ filter (\<lambda>x. deliver x = Delivered) xs \<and>
       (\<forall>run'. r = Inr run' \<longrightarrow>
          (run_failed run' = [] \<longleftrightarrow> run_failed run = [] \<and> (\<forall>x \<in> set xs. deliver x = Delivered)))"
proof (induction deliver mail_for ms sent run rule: send_each.induct)
  case (1 deliver mail_for sent run)
  then have "loop_trace deliver mail_for [] [] [] r" by (auto simp: loop_trace_def)
  then show ?case using 1 by (intro exI [of _ "[]"]) auto
next
  case (2 deliver mail_for m ms sent run)
  show ?case
  proof (cases "mail_for m")
    case (Inl e)
    then have "sent' = sent" "r = Inl e" using 2(4) by simp_all
    then show ?thesis using Inl
      by (intro exI [of _ "[]"] exI [of _ "m # ms"]) (simp add: loop_trace_def)
  next
    case (Inr y)
    show ?thesis
    proof (cases y)
      case None
      then obtain seen rest xs where t: "ms = seen @ rest" "loop_trace deliver mail_for seen rest xs r"
          "sent' = sent @ filter (\<lambda>x. deliver x = Delivered) xs"
          "\<forall>run'. r = Inr run' \<longrightarrow> (run_failed run' = [] \<longleftrightarrow> run_failed run = [] \<and> (\<forall>x \<in> set xs. deliver x = Delivered))"
        using 2(1) [OF Inr None] 2(4) Inr by auto
      from loop_trace_step(1) [OF t(2), of m] Inr None t show ?thesis
        by (intro exI [of _ "m # seen"] exI [of _ rest] exI [of _ xs]) simp
    next
      case (Some x)
      show ?thesis
      proof (cases "deliver x")
        case Delivered
        then obtain seen rest xs where t: "ms = seen @ rest" "loop_trace deliver mail_for seen rest xs r"
            "sent' = (sent @ [x]) @ filter (\<lambda>x. deliver x = Delivered) xs"
            "\<forall>run'. r = Inr run' \<longrightarrow> (run_failed run' = [] \<longleftrightarrow> run_failed run = [] \<and> (\<forall>x \<in> set xs. deliver x = Delivered))"
          using 2(2) [OF Inr Some Delivered] 2(4) Inr Some by auto
        from loop_trace_step(2) [OF t(2), of m x] Inr Some Delivered t show ?thesis
          by (intro exI [of _ "m # seen"] exI [of _ rest] exI [of _ "x # xs"]) simp
      next
        case (Delivery_Failure t0)
        then obtain seen rest xs where t: "ms = seen @ rest" "loop_trace deliver mail_for seen rest xs r"
            "sent' = sent @ filter (\<lambda>x. deliver x = Delivered) xs" "\<forall>run'. r = Inr run' \<longrightarrow> run_failed run' \<noteq> []"
          using 2(3) [OF Inr Some Delivery_Failure] 2(4) Inr Some by auto
        from loop_trace_step(2) [OF t(2), of m x] Inr Some Delivery_Failure t show ?thesis
          by (intro exI [of _ "m # seen"] exI [of _ rest] exI [of _ "x # xs"]) simp
      next
        case (Delivery_Error e)
        then have "sent' = sent" "r = Inl e" using 2(4) Inr Some by simp_all
        then show ?thesis using Inr Some Delivery_Error
          by (intro exI [of _ "[m]"] exI [of _ ms] exI [of _ "[x]"]) (simp add: loop_trace_def)
      qed
    qed
  qed
qed

definition owes_over_300 :: "p4x_db \<Rightarrow> date \<Rightarrow> date \<Rightarrow> member \<Rightarrow> bool" where
  "owes_over_300 db today target m \<longleftrightarrow> text_or_empty m F_email \<noteq> [] \<and>
     (\<exists>b. calculate_fee_balance db today m None (Some (isoformat target)) = Inr (Some b) \<and> r_end_balance b \<le> - 301)"

lemma debt_over_300: "300 < debt_of b \<longleftrightarrow> r_end_balance b \<le> - 301"
proof -
  have "300 < \<lfloor>- r_end_balance b\<rfloor> \<longleftrightarrow> 301 \<le> - r_end_balance b" by (simp add: less_floor_iff)
  then show ?thesis by (auto simp: debt_of_def)
qed

lemma mail_is_due:
  assumes "debtor_mail_for db today target m = Inr (Some x)"
  shows "owes_over_300 db today target m \<and> (\<exists>a b. payment_account db = Inr a \<and>
    calculate_fee_balance db today m None (Some (isoformat target)) = Inr (Some b) \<and>
    x = debtor_mail db today target a (debt_of b) m)"
  using assms debt_over_300
  by (auto simp: debtor_mail_for_def owes_over_300_def bind_res_eq_Inr not_le split: option.split_asm if_split_asm)

lemma due_is_mailed:
  assumes "owes_over_300 db today target m" "debtor_mail_for db today target m = Inr y"
  shows "y \<noteq> None"
proof -
  obtain b where b: "text_or_empty m F_email \<noteq> []" "r_end_balance b \<le> - 301"
      "calculate_fee_balance db today m None (Some (isoformat target)) = Inr (Some b)"
    using assms(1) by (auto simp: owes_over_300_def)
  then have "\<not> debt_of b \<le> 300" using debt_over_300 [of b] by simp
  then show ?thesis using assms(2) b by (auto simp: debtor_mail_for_def bind_res_eq_Inr)
qed

lemma due_iff_mailed:
  assumes "debtor_mail_for db today target m = Inr y"
  shows "y \<noteq> None \<longleftrightarrow> owes_over_300 db today target m"
  using assms due_is_mailed mail_is_due by (metis option.exhaust)

text \<open>The reminder a member is sent: to the member's address, with the debt in full Euros and the account of the association.\<close>

definition is_reminder :: "p4x_db \<Rightarrow> date \<Rightarrow> date \<Rightarrow> member \<Rightarrow> mail \<Rightarrow> bool" where
  "is_reminder db today target m x \<longleftrightarrow>
     (\<exists>a b. get_by acc_id (accounts db) GIROKONTO_ACCOUNT_ID = Some a \<and>
        calculate_fee_balance db today m None (Some (isoformat target)) = Inr (Some b) \<and>
        mail_to x = [text_or_empty m F_email] \<and> mail_template_key x = ''debtor_reminder'' \<and>
        (\<exists>until_text sender. mail_content x = Debtor_Mail (greeting_name m) (fee_for_month db target) until_text
           \<lfloor>- r_end_balance b\<rfloor> sender (acc_iban a) (acc_bic a)))"

lemma mail_is_reminder:
  assumes "debtor_mail_for db today target m = Inr (Some x)"
  shows "is_reminder db today target m x"
proof -
  obtain a b where b: "owes_over_300 db today target m" "payment_account db = Inr a"
      "calculate_fee_balance db today m None (Some (isoformat target)) = Inr (Some b)"
      "x = debtor_mail db today target a (debt_of b) m"
    using mail_is_due [OF assms] by blast
  have "debt_of b = \<lfloor>- r_end_balance b\<rfloor>" using b(1,3) by (auto simp: owes_over_300_def debt_of_def)
  moreover have "get_by acc_id (accounts db) GIROKONTO_ACCOUNT_ID = Some a"
    using b(2) by (simp add: payment_account_def split: option.split_asm)
  ultimately show ?thesis using b(3,4) by (simp add: is_reminder_def debtor_mail_def)
qed

lemma mail_error:
  assumes "debtor_mail_for db today target m = Inl e"
  shows "calculate_fee_balance db today m None (Some (isoformat target)) = Inl e \<or>
    get_by acc_id (accounts db) GIROKONTO_ACCOUNT_ID = None \<and> owes_over_300 db today target m"
proof (cases "calculate_fee_balance db today m None (Some (isoformat target))")
  case (Inr y)
  then obtain b where b: "y = Some b" "300 < debt_of b" "text_or_empty m F_email \<noteq> []" "payment_account db = Inl e"
    using assms by (cases "payment_account db") (auto simp: debtor_mail_for_def not_le split: option.split_asm if_split_asm)
  have "owes_over_300 db today target m" unfolding owes_over_300_def using b Inr debt_over_300 by blast
  then show ?thesis using b(4) by (simp add: payment_account_def split: option.split_asm)
qed (use assms in \<open>simp add: debtor_mail_for_def\<close>)

text \<open>The bookings reach into the month of today: the latest of them is of it.\<close>

definition booked_this_month :: "p4x_db \<Rightarrow> date \<Rightarrow> bool" where
  "booked_this_month db today \<longleftrightarrow>
     (\<exists>t \<in> set (transactions db). tx_deleted_at t = None \<and> take 7 (isoformat (booking t)) = take 7 (isoformat today) \<and>
        (\<forall>u \<in> set (transactions db). tx_deleted_at u = None \<longrightarrow> booking u \<le> booking t))"

lemma validated_booking: "validate_latest_booking db today \<longleftrightarrow> booked_this_month db today"
proof (cases "sort_desc booking (filter (\<lambda>t. tx_deleted_at t = None) (transactions db))")
  case Nil
  then have "set (filter (\<lambda>t. tx_deleted_at t = None) (transactions db)) = {}" by (metis list.set(1) set_sort_desc)
  then show ?thesis using Nil by (auto simp: validate_latest_booking_def booked_this_month_def)
next
  case (Cons t ts)
  have s: "set (t # ts) = {u \<in> set (transactions db). tx_deleted_at u = None}" by (simp flip: Cons)
  have top: "booking u \<le> booking t" if "u \<in> set (t # ts)" for u
    using sort_desc_sorted [of booking "filter (\<lambda>t. tx_deleted_at t = None) (transactions db)"] that unfolding Cons by auto
  have "t \<in> set (t # ts)" by simp
  then have t: "t \<in> set (transactions db)" "tx_deleted_at t = None" unfolding s by simp_all
  have max: "booking u \<le> booking t" if "u \<in> set (transactions db)" "tx_deleted_at u = None" for u using top that unfolding s by simp
  have "validate_latest_booking db today \<longleftrightarrow> take 7 (isoformat (booking t)) = take 7 (isoformat today)"
    by (simp add: validate_latest_booking_def Cons)
  also have "\<dots> \<longleftrightarrow> booked_this_month db today"
  proof
    assume "booked_this_month db today"
    then obtain u where u: "u \<in> set (transactions db)" "tx_deleted_at u = None" "take 7 (isoformat (booking u)) = take 7 (isoformat today)"
        "booking t \<le> booking u"
      using t by (auto simp: booked_this_month_def)
    then show "take 7 (isoformat (booking t)) = take 7 (isoformat today)" using max [OF u(1,2)] by (simp add: antisym)
  qed (use t max in \<open>auto simp: booked_this_month_def\<close>)
  finally show ?thesis .
qed

lemma target_is_last_of_month:
  assumes "valid_date today" "1 < year today"
  shows "\<exists>target. compute_target_date today = Inr target \<and> valid_date target \<and>
    next_day target = Inr (Date (year today) (month today) 1)"
proof (cases today)
  case (Date y m d)
  have m: "m \<in> {1, 2, 3, 4, 5, 6, 7, 8, 9, 10, 11, 12}" using assms(1) by (simp add: Date) arith
  show ?thesis using assms m
    by (auto simp: Date compute_target_date_def mk_date_def prev_day_def next_day_def days_in_month_def)
qed

lemma list_all2_member: "list_all2 P xs ys \<Longrightarrow> x \<in> set xs \<Longrightarrow> \<exists>y \<in> set ys. P x y"
  by (induction rule: list_all2_induct) auto

text \<open>C40: In a month not divisible by three in which bookings were imported, and only then, reminders go out as of the last day of the month before:
  to the fee members with an address who owe at least 301 Euro then, each tried once, in the order of the members, with the debt in
  full Euros and the account of the association; sent are those the server took. The job only stops early at a balance it
  cannot compute, at a missing account or at an error of the server other than a failed delivery, and is otherwise a success exactly when all went out.\<close>
theorem reminders_reach_the_debtors:
  assumes run: "debtor_reminder env db = (sent, r)" and today: "valid_date (je_today env)" "1 < year (je_today env)"
  shows "(month (je_today env) mod 3 = 0 \<or> \<not> booked_this_month db (je_today env) \<longrightarrow> sent = []) \<and>
    (month (je_today env) mod 3 \<noteq> 0 \<and> booked_this_month db (je_today env) \<longrightarrow>
      (\<exists>target tried rest xs. valid_date target \<and> next_day target = Inr (Date (year (je_today env)) (month (je_today env)) 1) \<and>
         filter (owes_over_300 db (je_today env) target) (get_fee_members db) = tried @ rest \<and>
         list_all2 (is_reminder db (je_today env) target) tried xs \<and>
         sent = filter (\<lambda>x. je_deliver env x = Delivered) xs \<and>
         (\<forall>x \<in> set xs. \<forall>e. je_deliver env x = Delivery_Error e \<longrightarrow> r = Inl e) \<and>
         (case r of
            Inr outcome \<Rightarrow> rest = [] \<and> (\<exists>out. outcome = Some (if \<forall>x \<in> set xs. je_deliver env x = Delivered then 0 else 1, out))
          | Inl e \<Rightarrow>
              (\<exists>m \<in> set (get_fee_members db). calculate_fee_balance db (je_today env) m None (Some (isoformat target)) = Inl e) \<or>
              (rest \<noteq> [] \<and> get_by acc_id (accounts db) GIROKONTO_ACCOUNT_ID = None) \<or>
              (xs \<noteq> [] \<and> je_deliver env (last xs) = Delivery_Error e))))"
proof (intro conjI impI)
  show "month (je_today env) mod 3 = 0 \<or> \<not> booked_this_month db (je_today env) \<Longrightarrow> sent = []"
    using run by (auto simp: debtor_reminder_def validated_booking split: if_split_asm)
next
  assume c: "month (je_today env) mod 3 \<noteq> 0 \<and> booked_this_month db (je_today env)"
  obtain target where t: "compute_target_date (je_today env) = Inr target" "valid_date target"
      "next_day target = Inr (Date (year (je_today env)) (month (je_today env)) 1)"
    using target_is_last_of_month [OF today] by blast
  obtain q where q: "send_debtor_reminders env db target = (sent, q)"
      "r = bind_res q (\<lambda>run. Inr (Some (mail_run_exit_code run,
         ''Target date '' @ isoformat target @ '': '' @ mail_run_summary run ''reminder(s)'')))"
    using run c t(1) by (auto simp: debtor_reminder_def validated_booking split: prod.split_asm)
  let ?mail = "debtor_mail_for db (je_today env) target" and ?owes = "owes_over_300 db (je_today env) target"
  obtain seen rest xs where tr: "get_fee_members db = seen @ rest" "loop_trace (je_deliver env) ?mail seen rest xs q"
      "sent = filter (\<lambda>x. je_deliver env x = Delivered) xs"
      "\<forall>run'. q = Inr run' \<longrightarrow> (run_failed run' = [] \<longleftrightarrow> (\<forall>x \<in> set xs. je_deliver env x = Delivered))"
    using send_each_trace [OF q(1) [unfolded send_debtor_reminders_def]] by (auto simp: no_mails_yet_def)
  note tr2 = tr(2) [unfolded loop_trace_def]
  have "?mail m \<noteq> Inr None \<longleftrightarrow> ?owes m" if seen: "m \<in> set seen" for m
  proof (cases "?mail m = Inr None")
    case False
    then have "m \<in> set (filter (\<lambda>m. ?mail m \<noteq> Inr None) seen)" using seen by simp
    from list_all2_member [OF conjunct1 [OF tr2] this] obtain x where "?mail m = Inr (Some x)" by blast
    then show ?thesis using due_iff_mailed by blast
  qed (use due_iff_mailed in blast)
  then have due: "filter (\<lambda>m. ?mail m \<noteq> Inr None) seen = filter ?owes seen" by (intro filter_cong refl)
  have "list_all2 (is_reminder db (je_today env) target) (filter ?owes seen) xs"
    using conjunct1 [OF tr2] unfolding due by (rule list_all2_mono) (rule mail_is_reminder)
  moreover have "\<forall>x \<in> set xs. \<forall>e. je_deliver env x = Delivery_Error e \<longrightarrow> r = Inl e" using tr2 by (auto simp: q(2))
  moreover have "case r of
      Inr outcome \<Rightarrow> filter ?owes rest = [] \<and> (\<exists>out. outcome = Some (if \<forall>x \<in> set xs. je_deliver env x = Delivered then 0 else 1, out))
    | Inl e \<Rightarrow> (\<exists>m \<in> set (get_fee_members db). calculate_fee_balance db (je_today env) m None (Some (isoformat target)) = Inl e) \<or>
        (filter ?owes rest \<noteq> [] \<and> get_by acc_id (accounts db) GIROKONTO_ACCOUNT_ID = None) \<or>
        (xs \<noteq> [] \<and> je_deliver env (last xs) = Delivery_Error e)"
  proof (cases q)
    case (Inr rn)
    then have "rest = []" using tr2 by simp
    then show ?thesis using tr(4) Inr by (simp add: q(2) mail_run_exit_code_def)
  next
    case (Inl e)
    then consider m where "m \<in> set rest" "?mail m = Inl e" | "xs \<noteq> []" "je_deliver env (last xs) = Delivery_Error e" using tr2 by auto
    then show ?thesis
    proof cases
      case (1 m)
      from mail_error [OF 1(2)] 1(1) tr(1) show ?thesis by (auto simp: q(2) Inl filter_empty_conv)
    qed (simp add: q(2) Inl)
  qed
  ultimately show "\<exists>target tried rest xs. valid_date target \<and> next_day target = Inr (Date (year (je_today env)) (month (je_today env)) 1) \<and>
         filter (owes_over_300 db (je_today env) target) (get_fee_members db) = tried @ rest \<and>
         list_all2 (is_reminder db (je_today env) target) tried xs \<and>
         sent = filter (\<lambda>x. je_deliver env x = Delivered) xs \<and>
         (\<forall>x \<in> set xs. \<forall>e. je_deliver env x = Delivery_Error e \<longrightarrow> r = Inl e) \<and>
         (case r of
            Inr outcome \<Rightarrow> rest = [] \<and> (\<exists>out. outcome = Some (if \<forall>x \<in> set xs. je_deliver env x = Delivered then 0 else 1, out))
          | Inl e \<Rightarrow>
              (\<exists>m \<in> set (get_fee_members db). calculate_fee_balance db (je_today env) m None (Some (isoformat target)) = Inl e) \<or>
              (rest \<noteq> [] \<and> get_by acc_id (accounts db) GIROKONTO_ACCOUNT_ID = None) \<or>
              (xs \<noteq> [] \<and> je_deliver env (last xs) = Delivery_Error e))"
    using t(2,3) tr(1,3) by (intro exI [of _ target] exI [of _ "filter ?owes seen"] exI [of _ "filter ?owes rest"] exI [of _ xs]) simp
qed

definition debtor :: member where
  "debtor = \<lparr>member_id = 7, columns = (\<lambda>_. PNone)(F_org_id := PStr ''vbw'', F_state_id := PStr ''up'',
     F_entlassen := PBool False, F_verstorben := PBool False, F_email := PStr ''a@b.at'',
     F_p4x_init_date := PDate (Date 2026 1 1), F_p4x_init_balance := PDec (- 350), F_p4x_freed := PBool False),
     member_roles = [], member_badges = [], member_keys = []\<rparr>"

definition girokonto :: p4x_account where
  "girokonto = \<lparr>acc_id = GIROKONTO_ACCOUNT_ID, acc_iban = ''AT00'', acc_bic = None, acc_label = None, acc_init_date = None,
     acc_init_balance = 0, acc_deleted_at = None\<rparr>"

text \<open>A ledger with one debtor and one booking of July.\<close>

definition july_booking :: p4x_transaction where
  "july_booking = \<lparr>tx_id = 1, sha256_hash = [], booking = Date 2026 7 20, valuation = Date 2026 7 20, tx_iban = [], amount = 5, subject = [],
     tx_account_id = 1, delegating_member_id = None, delegating_contact_id = None, delegating_p4x_account_id = None,
     delegating_p4x_special_contact_id = None, tx_comment = None, tx_raw = None, attachment = None, tx_deleted_at = None\<rparr>"

definition demo_ledger :: "p4x_account list \<Rightarrow> p4x_db" where
  "demo_ledger as = \<lparr>members = [debtor], contacts = [], special_contacts = [], accounts = as, transactions = [july_booking], partners = [],
     categories = [], category_filters = [], category_directs = [], filter_hits = [], fees = [], next_id = 1\<rparr>"

lemma reminders_reach_the_debtors_witness:
  "\<exists>r target x. debtor_reminder demo_env (demo_ledger [girokonto]) = ([x], r) \<and> mail_to x = [''a@b.at''] \<and>
     next_day target = Inr (Date 2026 7 1) \<and> is_reminder (demo_ledger [girokonto]) (Date 2026 7 25) target debtor x"
proof -
  let ?db = "demo_ledger [girokonto]"
  obtain sent r where run: "debtor_reminder demo_env ?db = (sent, r)" by fastforce
  have env: "je_today demo_env = Date 2026 7 25" "je_deliver demo_env x = Delivered" for x by (simp_all add: demo_env_def)
  have fm: "get_fee_members ?db = [debtor]" by (simp add: get_fee_members_def demo_ledger_def debtor_def)
  have mailed: "text_or_empty debtor F_email = ''a@b.at''" by code_simp
  have "map_option r_end_balance (case calculate_fee_balance (demo_ledger as) (Date 2026 7 25) debtor None (Some (isoformat (Date 2026 6 30)))
      of Inl _ \<Rightarrow> None | Inr b \<Rightarrow> b) = Some (- 350)" for as
    by code_simp
  from this [of "[girokonto]"] obtain b where b: "r_end_balance b = - 350"
      "calculate_fee_balance ?db (Date 2026 7 25) debtor None (Some (isoformat (Date 2026 6 30))) = Inr (Some b)"
    by (auto split: sum.split_asm)
  have "payment_account ?db = Inr girokonto"
    by (simp add: payment_account_def demo_ledger_def girokonto_def get_by_def)
  moreover have "debt_of b = 350" by (simp add: debt_of_def b(1))
  ultimately have "debtor_mail_for ?db (Date 2026 7 25) (Date 2026 6 30) debtor =
      Inr (Some (debtor_mail ?db (Date 2026 7 25) (Date 2026 6 30) girokonto 350 debtor))"
    by (simp add: debtor_mail_for_def b(2) mailed)
  moreover have july: "validate_latest_booking (demo_ledger as) (Date 2026 7 25)" "compute_target_date (Date 2026 7 25) = Inr (Date 2026 6 30)" for as
    by code_simp+
  ultimately have "sent = [debtor_mail ?db (Date 2026 7 25) (Date 2026 6 30) girokonto 350 debtor]"
    using run by (simp add: debtor_reminder_def send_debtor_reminders_def env fm)
  then obtain x where x: "sent = [x]" "mail_to x = [''a@b.at'']" by (simp add: debtor_mail_def mailed)
  have today: "valid_date (je_today demo_env)" "1 < year (je_today demo_env)" by (simp_all add: env days_in_month_def)
  have booked: "booked_this_month ?db (Date 2026 7 25)" using july(1) by (simp only: validated_booking)
  have "month (je_today demo_env) mod 3 \<noteq> 0 \<and> booked_this_month ?db (je_today demo_env)" using booked by (simp add: env)
  from mp [OF conjunct2 [OF reminders_reach_the_debtors [OF run today]] this]
  obtain target tried rest xs where t0: "next_day target = Inr (Date (year (je_today demo_env)) (month (je_today demo_env)) 1)"
      "filter (owes_over_300 ?db (je_today demo_env) target) (get_fee_members ?db) = tried @ rest"
      "list_all2 (is_reminder ?db (je_today demo_env) target) tried xs" "sent = filter (\<lambda>x. je_deliver demo_env x = Delivered) xs"
    by (elim exE conjE) (rule that)
  then have t: "next_day target = Inr (Date 2026 7 1)" "filter (owes_over_300 ?db (Date 2026 7 25) target) [debtor] = tried @ rest"
      "list_all2 (is_reminder ?db (Date 2026 7 25) target) tried xs" "sent = xs"
    by (simp_all only: env fm simp_thms filter_True date.sel) simp_all
  obtain m where m: "tried = [m]" "is_reminder ?db (Date 2026 7 25) target m x"
    using t(3) unfolding t(4) [symmetric] x(1) by (auto simp: list_all2_Cons2)
  then have "m = debtor" using t(2) by (simp split: if_split_asm)
  then show ?thesis using run x t(1) m(2) by blast
qed

text \<open>The job is silent in every third month only, not in the two between.\<close>

lemma debtor_reminder_months:
  "debtor_reminder env db = ([], Inr None) \<longleftrightarrow> month (je_today env) mod 3 = 0"
  by (auto simp: debtor_reminder_def bind_res_eq_Inr split: sum.split_asm prod.split_asm if_split_asm)

section \<open>The registry\<close>

lemma backups_are_made_and_restored_apart:
  "DB_BACKUP \<in> js_id ` set (applicable_entries stage enabled h) \<longleftrightarrow> stage = ''production'' \<and> enabled"
  "DOWNSYNC \<in> js_id ` set (applicable_entries stage enabled h) \<longleftrightarrow> stage \<noteq> ''production''"
  by (auto simp: applicable_entries_def JOB_REGISTRY_def image_iff)

end
