(* ===== verification/Request_Log.thy ===== *)
theory Request_Log
  imports Auth P4x_Import
begin

text \<open>
  What is kept about requests and mails: \<open>app/services/activity_log_service.py\<close>,
  \<open>app/core/activity_logger.py\<close>, \<open>app/services/tracking_service.py\<close>, their tables, and the hourly clean-up of
  \<open>app/core/scheduler.py\<close>. The length of a JSON text, the bounds of a local day and the local day of an
  instant are parameters, as is the decoding of access tokens. A JSON value that is missing is \<open>JNull\<close>.
\<close>

section \<open>Tables\<close>

record client_user_agent =
  ua_id :: uuid
  ua_string :: string

record request_log =
  rl_id :: uuid
  rl_client_ip :: string
  rl_client_ips :: "string list"
  rl_user_agent_id :: "uuid option"
  rl_member_id :: "uuid option"
  rl_method :: string
  rl_path :: string
  rl_input :: json
  rl_status :: int
  rl_content :: json
  rl_memory :: nat
  rl_created_at :: instant

record sent_email =
  se_id :: uuid
  se_from :: "string option"
  se_to :: "string option"
  se_bcc :: "string option"
  se_subject :: "string option"
  se_body :: "string option"
  se_headers :: "string option"
  se_created_at :: instant

record log_db =
  log_members :: "member list"
  user_agents :: "client_user_agent list"
  request_logs :: "request_log list"
  sent_emails :: "sent_email list"
  log_next_id :: uuid

definition MAX_USER_AGENT_LENGTH :: nat where
  "MAX_USER_AGENT_LENGTH = 512"

section \<open>What is stored of a body\<close>

definition REDACT_KEYS :: "string list" where
  "REDACT_KEYS = [''password'', ''password_confirmation'', ''current_password'', ''new_password'', ''access_token'',
     ''refresh_token'', ''token'', ''secret'', ''authorization'', ''credential'']"

definition REDACTED_VALUE :: string where
  "REDACTED_VALUE = ''***''"

definition contains_text :: "string \<Rightarrow> string \<Rightarrow> bool" where
  "contains_text needle s \<longleftrightarrow> list_ex (\<lambda>i. take (length needle) (drop i s) = needle) [0..<Suc (length s)]"

definition has_signature :: "string \<Rightarrow> bool" where
  "has_signature s \<longleftrightarrow> contains_text ''x-amz-signature='' (lower s)"

fun redact :: "json \<Rightarrow> json" and redact_list :: "json list \<Rightarrow> json list"
  and redact_items :: "(string \<times> json) list \<Rightarrow> (string \<times> json) list" where
  "redact (JDict items) = JDict (redact_items items)"
| "redact (JList vs) = JList (redact_list vs)"
| "redact (JStr s) = (if has_signature s then JStr REDACTED_VALUE else JStr s)"
| "redact v = v"
| "redact_list [] = []"
| "redact_list (v # vs) = redact v # redact_list vs"
| "redact_items [] = []"
| "redact_items ((k, v) # items) =
     (k, if lower k \<in> set REDACT_KEYS then JStr REDACTED_VALUE else redact v) # redact_items items"

definition MAX_STORED_JSON_CHARS :: nat where
  "MAX_STORED_JSON_CHARS = 65536"

definition cap_stored_size :: "(json \<Rightarrow> nat) \<Rightarrow> json \<Rightarrow> json" where
  "cap_stored_size dumps_length v =
     (if v = JNull then JNull else if MAX_STORED_JSON_CHARS < dumps_length v then JNull else v)"

definition should_skip :: "string \<Rightarrow> bool \<Rightarrow> bool" where
  "should_skip path skip_header_present \<longleftrightarrow> skip_header_present \<or> path \<in> {''/'', ''/docs'', ''/openapi.json''}"

section \<open>Recording a request\<close>

definition resolve_member_id :: "crypto \<Rightarrow> instant \<Rightarrow> log_db \<Rightarrow> string option \<Rightarrow> uuid option" where
  "resolve_member_id cr now db auth_header =
     (case auth_header of
        None \<Rightarrow> None
      | Some h \<Rightarrow>
          if take 7 (lower h) \<noteq> ''bearer '' then None
          else Option.bind (Option.bind (jwt_decode cr False now (drop 7 h)) cl_sub) (\<lambda>email.
            map_option member_id (List.find (\<lambda>m. text_col m F_email = Some email) (log_members db))))"

text \<open>
  The row of a user agent, made on first sight. The insertion that meets a conflict and the reading
  after it concern two requests at once and find the row of the other.
\<close>

definition get_or_create_client_user_agent :: "log_db \<Rightarrow> string \<Rightarrow> uuid \<times> log_db" where
  "get_or_create_client_user_agent db ua =
     (let bounded = take MAX_USER_AGENT_LENGTH ua
      in case get_by ua_string (user_agents db) bounded of
           Some row \<Rightarrow> (ua_id row, db)
         | None \<Rightarrow> (log_next_id db,
             db\<lparr>user_agents := user_agents db @ [\<lparr>ua_id = log_next_id db, ua_string = bounded\<rparr>],
                log_next_id := log_next_id db + 1\<rparr>))"

record logged_request =
  lr_client_ip :: string
  lr_client_ips :: "string list"
  lr_auth_header :: "string option"
  lr_user_agent :: "string option"
  lr_method :: string
  lr_path :: string
  lr_input :: json
  lr_status :: int
  lr_content :: json
  lr_memory :: nat

definition record_request :: "crypto \<Rightarrow> (json \<Rightarrow> nat) \<Rightarrow> instant \<Rightarrow> logged_request \<Rightarrow> log_db \<Rightarrow> log_db" where
  "record_request cr dumps_length now r db =
     (case (case lr_user_agent r of
              None \<Rightarrow> (None, db)
            | Some s \<Rightarrow> if s = [] then (None, db)
                else (case get_or_create_client_user_agent db s of (i, db') \<Rightarrow> (Some i, db'))) of
        (agent, db') \<Rightarrow>
          db'\<lparr>request_logs := request_logs db' @
                [\<lparr>rl_id = log_next_id db', rl_client_ip = lr_client_ip r, rl_client_ips = lr_client_ips r,
                  rl_user_agent_id = agent, rl_member_id = resolve_member_id cr now db (lr_auth_header r),
                  rl_method = lr_method r, rl_path = lr_path r,
                  rl_input = redact (cap_stored_size dumps_length (lr_input r)), rl_status = lr_status r,
                  rl_content = redact (cap_stored_size dumps_length (lr_content r)), rl_memory = lr_memory r,
                  rl_created_at = now\<rparr>],
              log_next_id := log_next_id db' + 1\<rparr>)"

section \<open>The middleware\<close>

definition MAX_CAPTURED_BODY_BYTES :: nat where
  "MAX_CAPTURED_BODY_BYTES = 256 * 1024"

text \<open>The chunks read, and the rest of the body when the limit was passed first.\<close>

fun capture_from :: "nat \<Rightarrow> nat \<Rightarrow> string list \<Rightarrow> string list \<times> string list option" where
  "capture_from limit n [] = ([], None)"
| "capture_from limit n (chunk # rest) =
     (let n' = n + length chunk
      in if limit < n' then ([chunk], Some rest)
         else (case capture_from limit n' rest of (chunks, further) \<Rightarrow> (chunk # chunks, further)))"

definition capture_body :: "string list \<Rightarrow> string list \<times> string list option" where
  "capture_body = capture_from MAX_CAPTURED_BODY_BYTES 0"

text \<open>What the client gets: one body, or the chunks replayed before the rest.\<close>

definition replay :: "string list \<times> string list option \<Rightarrow> string list" where
  "replay captured = (case captured of (chunks, None) \<Rightarrow> [concat chunks] | (chunks, Some rest) \<Rightarrow> chunks @ rest)"

definition split_commas :: "string \<Rightarrow> string list" where
  "split_commas s = foldr (\<lambda>c parts. if c = CHR '','' then [] # parts else (c # hd parts) # tl parts) s [[]]"

definition forwarded_ips :: "string option \<Rightarrow> string option \<Rightarrow> string list" where
  "forwarded_ips header client_host =
     (case header of
        Some h \<Rightarrow> if h = [] then (case client_host of None \<Rightarrow> [] | Some c \<Rightarrow> [c])
          else filter (\<lambda>p. p \<noteq> []) (map strip (split_commas h))
      | None \<Rightarrow> (case client_host of None \<Rightarrow> [] | Some c \<Rightarrow> [c]))"

text \<open>
  \<open>dispatch\<close> after the route has answered: what the client receives and the tables after it. The
  JSON value of a body is a parameter, a body that is not JSON is \<open>JNull\<close>.
\<close>

record exchange =
  ex_forwarded_for :: "string option"
  ex_client_host :: "string option"
  ex_auth_header :: "string option"
  ex_user_agent :: "string option"
  ex_method :: string
  ex_path :: string
  ex_input :: json
  ex_status :: int
  ex_chunks :: "string list"
  ex_skip_header :: bool
  ex_memory :: nat

definition log_exchange ::
  "crypto \<Rightarrow> (json \<Rightarrow> nat) \<Rightarrow> (string \<Rightarrow> json) \<Rightarrow> instant \<Rightarrow> exchange \<Rightarrow> log_db \<Rightarrow> string list \<times> log_db" where
  "log_exchange cr dumps_length try_parse_json now e db =
     (let captured = capture_body (ex_chunks e); ips = forwarded_ips (ex_forwarded_for e) (ex_client_host e)
      in (replay captured,
          if should_skip (ex_path e) (ex_skip_header e) then db
          else record_request cr dumps_length now
            \<lparr>lr_client_ip = (if ips = [] then ''unknown'' else hd ips), lr_client_ips = ips,
             lr_auth_header = ex_auth_header e, lr_user_agent = ex_user_agent e, lr_method = ex_method e,
             lr_path = ex_path e, lr_input = ex_input e, lr_status = ex_status e,
             lr_content = (case snd captured of Some _ \<Rightarrow> JNull | None \<Rightarrow> try_parse_json (concat (fst captured))),
             lr_memory = ex_memory e\<rparr> db))"

section \<open>Reading the log\<close>

definition member_label :: "member \<Rightarrow> string" where
  "member_label m = strip (text_or_empty m F_vorname @ '' '' @ text_or_empty m F_nachname)"

record activity_day =
  ad_day :: date
  ad_members :: "(uuid \<times> string) list"

definition month_bounds :: "(date \<Rightarrow> instant \<times> instant) \<Rightarrow> int \<Rightarrow> int \<Rightarrow> exc + instant \<times> instant" where
  "month_bounds day_bounds y m =
     bind_res (mk_date y m 1) (\<lambda>first.
     bind_res (if m = 12 then mk_date (y + 1) 1 1 else mk_date y (m + 1) 1) (\<lambda>next_first.
       Inr (fst (day_bounds first), fst (day_bounds next_first))))"

definition list_days_with_activity ::
  "(date \<Rightarrow> instant \<times> instant) \<Rightarrow> (instant \<Rightarrow> date) \<Rightarrow> log_db \<Rightarrow> int \<Rightarrow> int \<Rightarrow> exc + activity_day list" where
  "list_days_with_activity day_bounds local_day db y m =
     bind_res (month_bounds day_bounds y m) (\<lambda>(lo, hi).
       let rows = concat (map (\<lambda>l. case rl_member_id l of None \<Rightarrow> [] | Some k \<Rightarrow> [(local_day (rl_created_at l), k)])
             (filter (\<lambda>l. lo \<le> rl_created_at l \<and> rl_created_at l < hi) (request_logs db)));
           days_seen = rev (sort (remdups (map fst rows)))
       in Inr (map (\<lambda>d. \<lparr>ad_day = d, ad_members = map (\<lambda>m. (member_id m, member_label m))
             (sort_key (\<lambda>m. (text_or_empty m F_nachname, text_or_empty m F_vorname))
               (filter (\<lambda>m. (d, member_id m) \<in> set rows) (log_members db)))\<rparr>) days_seen))"

definition list_entries_for_member_day ::
  "(date \<Rightarrow> instant \<times> instant) \<Rightarrow> log_db \<Rightarrow> uuid \<Rightarrow> date \<Rightarrow> exc + string \<times> request_log list" where
  "list_entries_for_member_day day_bounds db k d =
     (case get_by member_id (log_members db) k of
        None \<Rightarrow> Inl (HTTPException 404 ''Mitglied nicht gefunden'')
      | Some m \<Rightarrow> Inr (member_label m, sort_key rl_created_at (filter (\<lambda>l. rl_member_id l = Some k \<and>
           fst (day_bounds d) \<le> rl_created_at l \<and> rl_created_at l < snd (day_bounds d)) (request_logs db))))"

definition get_log_entry :: "log_db \<Rightarrow> uuid \<Rightarrow> exc + request_log \<times> string option \<times> string option" where
  "get_log_entry db k =
     (case get_by rl_id (request_logs db) k of
        None \<Rightarrow> Inl (HTTPException 404 ''Log-Eintrag nicht gefunden'')
      | Some l \<Rightarrow> Inr (l,
          map_option member_label (Option.bind (rl_member_id l) (get_by member_id (log_members db))),
          map_option ua_string (Option.bind (rl_user_agent_id l) (get_by ua_id (user_agents db)))))"

section \<open>Sent mails\<close>

text \<open>The key and the name of each registered template, umlauts as two letters.\<close>

definition EMAIL_TEMPLATE_REGISTRY :: "(string \<times> string) list" where
  "EMAIL_TEMPLATE_REGISTRY =
     [(''password-reset'', ''Passwort zuruecksetzen''), (''entry-changed'', ''Datenbankaenderung''),
      (''member-change-request-submitted'', ''Neuer Aenderungsantrag (an Admin)''),
      (''member-change-request-resolved'', ''Aenderungsantrag entschieden (an Mitglied)''),
      (''own-image-changed'', ''Profilbild-Selbstverwaltung (an Org-Admin)''), (''birthday'', ''Geburtstagsgruesse''),
      (''debtor_reminder'', ''Schuldner-Erinnerung''), (''chronicles'', ''Standesdb-Chronik''),
      (''archive_health_check'', ''Archiv-Konsistenzpruefung''),
      (''standesdb_health_check'', ''Standesdb-Konsistenzpruefung''),
      (''public-contact-form'', ''Kontaktformular (www.vindobona2.at)'')]"

definition get_sent_email_detail :: "log_db \<Rightarrow> uuid \<Rightarrow> exc + sent_email" where
  "get_sent_email_detail db k =
     (case get_by se_id (sent_emails db) k of
        None \<Rightarrow> Inl (HTTPException 404 ''Email nicht gefunden'') | Some e \<Rightarrow> Inr e)"

definition period_bounds :: "(date \<Rightarrow> instant \<times> instant) \<Rightarrow> int \<Rightarrow> int option \<Rightarrow> exc + instant \<times> instant" where
  "period_bounds day_bounds y month_given =
     (case month_given of
        None \<Rightarrow> bind_res (mk_date y 1 1) (\<lambda>first. bind_res (mk_date (y + 1) 1 1) (\<lambda>next_first.
          Inr (fst (day_bounds first), fst (day_bounds next_first))))
      | Some m \<Rightarrow> month_bounds day_bounds y m)"

definition email_matches :: "string \<Rightarrow> sent_email \<Rightarrow> bool" where
  "email_matches search e \<longleftrightarrow>
     (case se_subject e of None \<Rightarrow> False | Some s \<Rightarrow> ilike s (''%'' @ escape_like search @ ''%'')) \<or>
     (case se_to e of None \<Rightarrow> False | Some s \<Rightarrow> ilike s (''%'' @ escape_like search @ ''%''))"

definition list_sent_emails ::
  "(date \<Rightarrow> instant \<times> instant) \<Rightarrow> log_db \<Rightarrow> nat \<Rightarrow> nat \<Rightarrow> int option \<Rightarrow> int option \<Rightarrow> string option \<Rightarrow> exc + sent_email list \<times> nat" where
  "list_sent_emails day_bounds db page page_size y m search =
     bind_res (case y of None \<Rightarrow> Inr (sent_emails db)
       | Some y \<Rightarrow> if y = 0 then Inr (sent_emails db)
           else bind_res (period_bounds day_bounds y m) (\<lambda>(lo, hi).
             Inr (filter (\<lambda>e. lo \<le> se_created_at e \<and> se_created_at e < hi) (sent_emails db)))) (\<lambda>mails.
     let found = (case search of None \<Rightarrow> mails | Some s \<Rightarrow> if s = [] then mails else filter (email_matches s) mails)
     in Inr (page_of page_size page (sort_desc se_created_at found), length found))"

definition get_email_templates :: "log_db \<Rightarrow> (string \<times> string \<times> nat \<times> instant option) list" where
  "get_email_templates db =
     map (\<lambda>(key, name). let mails = filter (\<lambda>e. se_headers e = Some key) (sent_emails db)
        in (key, name, length mails, if mails = [] then None else Some (Max (set (map se_created_at mails)))))
       EMAIL_TEMPLATE_REGISTRY"

section \<open>The clean-up\<close>

text \<open>The tables of signing in.\<close>

definition cleanup_auth :: "auth_settings \<Rightarrow> instant \<Rightarrow> auth_db \<Rightarrow> auth_db" where
  "cleanup_auth cfg now db =
     db\<lparr>sessions := delete_where (\<lambda>s. s_last_used_at s < now - minutes (session_idle_timeout_minutes cfg))
          (delete_where (\<lambda>s. s_created_at s < now - days (refresh_token_lifetime_days cfg)) (sessions db)),
        reset_tokens := delete_where (\<lambda>t. rt_created_at t < now - minutes 20) (reset_tokens db)\<rparr>"

text \<open>The log and the mails; the user agents only when something was removed.\<close>

definition cleanup_log :: "int \<Rightarrow> instant \<Rightarrow> log_db \<Rightarrow> log_db \<times> nat \<times> nat" where
  "cleanup_log retention_months now db =
     (let cutoff = now - days (retention_months * 30);
          logs = delete_where (\<lambda>l. rl_created_at l < cutoff) (request_logs db);
          mails = delete_where (\<lambda>e. se_created_at e < cutoff) (sent_emails db);
          deleted_logs = length (request_logs db) - length logs;
          deleted_emails = length (sent_emails db) - length mails;
          agents = (if deleted_logs \<noteq> 0 \<or> deleted_emails \<noteq> 0
             then delete_where (\<lambda>a. Some (ua_id a) \<notin> rl_user_agent_id ` set logs) (user_agents db) else user_agents db)
      in (db\<lparr>request_logs := logs, sent_emails := mails, user_agents := agents\<rparr>, deleted_logs, deleted_emails))"

end
