(* ===== verification/Request_Log_Properties.thy ===== *)
theory Request_Log_Properties
  imports Request_Log Auth_Properties
begin

text \<open>
  What the log promises: the fields that carry secrets and the signed links are masked in it, its rows and the
  user agents stay consistent, writing it does not change a response, and the clean-up ends no session that is
  still good. A secret under another key is stored: the answer to a refused password is the example.
\<close>

section \<open>The invariant\<close>

text \<open>
  What a stored body has to satisfy, written without the code's constants: under these names, in any
  capitalisation and at any depth, stands the mask, and no text holds the signature of a link.
\<close>

definition SECRET_NAMES :: "string list" where
  "SECRET_NAMES = [''password'', ''password_confirmation'', ''current_password'', ''new_password'', ''access_token'',
     ''refresh_token'', ''token'', ''secret'', ''authorization'', ''credential'']"

definition signed_link :: "string \<Rightarrow> bool" where
  "signed_link s \<longleftrightarrow> (\<exists>before after. lower s = before @ ''x-amz-signature='' @ after)"

fun masked :: "json \<Rightarrow> bool" and masked_list :: "json list \<Rightarrow> bool" and masked_items :: "(string \<times> json) list \<Rightarrow> bool" where
  "masked (JDict items) \<longleftrightarrow> masked_items items"
| "masked (JList vs) \<longleftrightarrow> masked_list vs"
| "masked (JStr s) \<longleftrightarrow> \<not> signed_link s"
| "masked v \<longleftrightarrow> True"
| "masked_list [] \<longleftrightarrow> True"
| "masked_list (v # vs) \<longleftrightarrow> masked v \<and> masked_list vs"
| "masked_items [] \<longleftrightarrow> True"
| "masked_items ((k, v) # items) \<longleftrightarrow> (lower k \<in> set SECRET_NAMES \<longrightarrow> v = JStr ''***'') \<and> masked v \<and> masked_items items"

lemma contains_text_iff: "contains_text needle s \<longleftrightarrow> (\<exists>a b. s = a @ needle @ b)"
proof
  assume "contains_text needle s"
  then obtain i where "take (length needle) (drop i s) = needle" by (auto simp: contains_text_def list_ex_iff)
  then have "s = take i s @ needle @ drop (length needle) (drop i s)"
    by (metis append_take_drop_id)
  then show "\<exists>a b. s = a @ needle @ b" by blast
next
  assume "\<exists>a b. s = a @ needle @ b"
  then obtain a b where s: "s = a @ needle @ b" by blast
  then have "take (length needle) (drop (length a) s) = needle" "length a \<le> length s" by simp_all
  then show "contains_text needle s" unfolding contains_text_def list_ex_iff by (intro bexI [of _ "length a"]) auto
qed

lemma has_signature_iff: "has_signature s \<longleftrightarrow> signed_link s"
  by (simp add: has_signature_def signed_link_def contains_text_iff)

lemma mask_unsigned: "REDACTED_VALUE = ''***''" "\<not> signed_link ''***''"
proof -
  show "REDACTED_VALUE = ''***''" by (simp add: REDACTED_VALUE_def)
  show "\<not> signed_link ''***''" unfolding has_signature_iff [symmetric] by code_simp
qed

lemma secret_names_covered: "set SECRET_NAMES \<subseteq> set REDACT_KEYS"
  by (simp add: SECRET_NAMES_def REDACT_KEYS_def)

lemma redact_masks: "masked (redact v)" "masked_list (redact_list vs)" "masked_items (redact_items items)"
  by (induction v and vs and items rule: redact_redact_list_redact_items.induct)
    (use secret_names_covered in \<open>auto simp: mask_unsigned has_signature_iff\<close>)

definition agents_ok :: "log_db \<Rightarrow> bool" where
  "agents_ok db \<longleftrightarrow> distinct (map ua_id (user_agents db)) \<and> distinct (map ua_string (user_agents db)) \<and>
     (\<forall>a \<in> set (user_agents db). ua_id a < log_next_id db \<and> length (ua_string a) \<le> MAX_USER_AGENT_LENGTH)"

definition log_row_ok :: "log_db \<Rightarrow> request_log \<Rightarrow> bool" where
  "log_row_ok db l \<longleftrightarrow> masked (rl_input l) \<and> masked (rl_content l) \<and> rl_id l < log_next_id db \<and>
     (case rl_user_agent_id l of None \<Rightarrow> True | Some i \<Rightarrow> i \<in> ua_id ` set (user_agents db))"

definition log_ok :: "log_db \<Rightarrow> bool" where
  "log_ok db \<longleftrightarrow> agents_ok db \<and> distinct (map rl_id (request_logs db)) \<and> (\<forall>l \<in> set (request_logs db). log_row_ok db l)"

inductive log_step :: "crypto \<Rightarrow> (json \<Rightarrow> nat) \<Rightarrow> (string \<Rightarrow> json) \<Rightarrow> log_db \<Rightarrow> log_db \<Rightarrow> bool"
  for cr dumps_length try_parse_json where
  exchange: "log_step cr dumps_length try_parse_json db (snd (log_exchange cr dumps_length try_parse_json now e db))"
| cleanup: "log_step cr dumps_length try_parse_json db (fst (cleanup_log retention_months now db))"

lemma get_by_None_key: "get_by key rows k = None \<Longrightarrow> k \<notin> key ` set rows"
  by (simp add: get_by_None_iff)

lemma agent_created:
  assumes "agents_ok db" "get_or_create_client_user_agent db s = (i, db')"
  shows "agents_ok db'" "i \<in> ua_id ` set (user_agents db')" "set (user_agents db) \<subseteq> set (user_agents db')"
    "request_logs db' = request_logs db" "log_next_id db \<le> log_next_id db'"
proof -
  have "agents_ok db' \<and> i \<in> ua_id ` set (user_agents db') \<and> set (user_agents db) \<subseteq> set (user_agents db') \<and>
      request_logs db' = request_logs db \<and> log_next_id db \<le> log_next_id db'"
  proof (cases "get_by ua_string (user_agents db) (take MAX_USER_AGENT_LENGTH s)")
    case None
    have "ua_id a < log_next_id db" if "a \<in> set (user_agents db)" for a using that assms(1) by (simp add: agents_ok_def)
    then have "log_next_id db \<notin> ua_id ` set (user_agents db)" by force
    then show ?thesis
      using assms get_by_None_key [OF None] None
      by (auto simp: get_or_create_client_user_agent_def Let_def agents_ok_def less_Suc_eq)
  next
    case (Some row)
    then show ?thesis using assms get_by_SomeD [OF Some] by (auto simp: get_or_create_client_user_agent_def Let_def)
  qed
  then show "agents_ok db'" "i \<in> ua_id ` set (user_agents db')" "set (user_agents db) \<subseteq> set (user_agents db')"
    "request_logs db' = request_logs db" "log_next_id db \<le> log_next_id db'" by blast+
qed

lemma add_log_ok:
  assumes db: "log_ok db" and db': "agents_ok db'" "set (user_agents db) \<subseteq> set (user_agents db')"
    "request_logs db' = request_logs db" "log_next_id db \<le> log_next_id db'"
    and l: "rl_id l = log_next_id db'" "masked (rl_input l)" "masked (rl_content l)"
    "case rl_user_agent_id l of None \<Rightarrow> True | Some i \<Rightarrow> i \<in> ua_id ` set (user_agents db')"
  shows "log_ok (db'\<lparr>request_logs := request_logs db' @ [l], log_next_id := log_next_id db' + 1\<rparr>)"
proof -
  let ?db = "db'\<lparr>request_logs := request_logs db' @ [l], log_next_id := log_next_id db' + 1\<rparr>"
  have "agents_ok ?db" using db'(1) by (auto simp: agents_ok_def less_Suc_eq)
  moreover have "log_row_ok ?db r" if "r \<in> set (request_logs db)" for r
  proof -
    have "log_row_ok db r" using db that by (simp add: log_ok_def)
    then show ?thesis using db'(2,4) by (auto simp: log_row_ok_def split: option.splits)
  qed
  moreover have "log_row_ok ?db l" using l by (auto simp: log_row_ok_def split: option.splits)
  moreover have "rl_id r < log_next_id db'" if "r \<in> set (request_logs db)" for r
    using db that db'(4) by (auto simp: log_ok_def log_row_ok_def)
  then have "log_next_id db' \<notin> rl_id ` set (request_logs db)" by force
  ultimately show ?thesis using db db'(3) l(1) by (auto simp: log_ok_def)
qed

lemma record_request_ok:
  assumes "log_ok db" shows "log_ok (record_request cr dumps_length now r db)"
proof -
  have ok: "agents_ok db" using assms by (simp add: log_ok_def)
  show ?thesis
  proof (cases "lr_user_agent r = None \<or> lr_user_agent r = Some []")
    case True
    then have "(case lr_user_agent r of None \<Rightarrow> (None, db) | Some s \<Rightarrow> if s = [] then (None, db)
        else (case get_or_create_client_user_agent db s of (i, db') \<Rightarrow> (Some i, db'))) = (None, db)" by auto
    then show ?thesis
      unfolding record_request_def prod.case
      by (simp only: prod.case) (rule add_log_ok [OF assms ok subset_refl refl le_refl], simp_all add: redact_masks)
  next
    case False
    then obtain s where s: "lr_user_agent r = Some s" "s \<noteq> []" by (cases "lr_user_agent r") auto
    obtain i db' where g: "get_or_create_client_user_agent db s = (i, db')" by fastforce
    note a = agent_created [OF ok g]
    have "(case lr_user_agent r of None \<Rightarrow> (None, db) | Some s \<Rightarrow> if s = [] then (None, db)
        else (case get_or_create_client_user_agent db s of (i, db') \<Rightarrow> (Some i, db'))) = (Some i, db')"
      using s g by simp
    then show ?thesis
      unfolding record_request_def
      by (simp only: prod.case) (rule add_log_ok [OF assms a(1,3,4,5)], simp_all add: redact_masks a(2))
  qed
qed

lemma cleanup_log_ok:
  assumes "log_ok db" shows "log_ok (fst (cleanup_log retention_months now db))"
proof -
  let ?logs = "delete_where (\<lambda>l. rl_created_at l < now - days (retention_months * 30)) (request_logs db)"
  let ?mails = "delete_where (\<lambda>e. se_created_at e < now - days (retention_months * 30)) (sent_emails db)"
  let ?used = "delete_where (\<lambda>a. Some (ua_id a) \<notin> rl_user_agent_id ` set ?logs) (user_agents db)"
  have ok: "log_ok (db\<lparr>request_logs := ?logs, sent_emails := ?mails, user_agents := agents\<rparr>)"
    if "agents = user_agents db \<or> agents = ?used" for agents
    using that
  proof
    assume "agents = user_agents db"
    then show ?thesis using assms
      by (auto simp: log_ok_def agents_ok_def log_row_ok_def distinct_map_delete_where split: option.splits)
  next
    assume a: "agents = ?used"
    have "i \<in> ua_id ` set ?used" if "l \<in> set ?logs" "rl_user_agent_id l = Some i" "i \<in> ua_id ` set (user_agents db)" for l i
      using that by (force simp: image_iff)
    then show ?thesis using assms unfolding a
      by (auto simp: log_ok_def agents_ok_def log_row_ok_def distinct_map_delete_where split: option.splits
          simp del: set_delete_where) (auto)
  qed
  show ?thesis unfolding cleanup_log_def Let_def fst_conv by (rule ok) simp
qed

text \<open>C17: Whatever requests are logged and however often the clean-up runs: in every stored body, at any depth and
  in any capitalisation, the ten fields named for passwords, tokens and credentials hold the mask, and no text is a
  signed link; every user agent is stored once and bounded, and every row's agent exists.\<close>
theorem secret_fields_are_masked:
  assumes "log_ok db" "(log_step cr dumps_length try_parse_json)\<^sup>*\<^sup>* db db'"
  shows "log_ok db'"
  using assms(2,1)
proof (induction rule: rtranclp_induct)
  case (step s t)
  from step.hyps(2) show ?case
  proof cases
    case (exchange now e)
    then show ?thesis using record_request_ok step.IH step.prems by (simp add: log_exchange_def Let_def)
  next
    case (cleanup retention_months now)
    then show ?thesis using cleanup_log_ok step.IH step.prems by simp
  qed
qed

text \<open>
  What the masking does not reach: a password that is refused as too short comes back under the key \<open>input\<close>
  in the answer of the framework, and that answer is stored as it is.
\<close>

definition refused_password :: json where
  "refused_password = JDict [(''detail'', JList [JDict [(''type'', JStr ''value_error''),
     (''loc'', JList [JStr ''body'', JStr ''password'']), (''input'', JStr ''geheim'')]])]"

lemma validation_answer_shows_the_password: "redact refused_password = refused_password"
  by code_simp

definition empty_log :: log_db where
  "empty_log = \<lparr>log_members = [], user_agents = [], request_logs = [], sent_emails = [], log_next_id = 0\<rparr>"

text \<open>A sign-in over a proxy, answered with a signed link.\<close>

definition sign_in :: exchange where
  "sign_in = \<lparr>ex_forwarded_for = Some ''10.0.0.1, 10.0.0.2'', ex_client_host = Some ''10.0.0.2'', ex_auth_header = None,
     ex_user_agent = Some ''Firefox'', ex_method = ''POST'', ex_path = ''/auth/login'',
     ex_input = JDict [(''email'', JStr ''a@b.at''), (''Password'', JStr ''old'')], ex_status = 200,
     ex_chunks = [''{}''], ex_skip_header = False, ex_memory = 1\<rparr>"

lemma secret_fields_are_masked_witness:
  "log_ok (snd (log_exchange toy (\<lambda>_. 10) (\<lambda>_. JList [JStr ''?X-Amz-Signature=1'']) 5 sign_in empty_log)) \<and>
   map (\<lambda>l. (rl_input l, rl_content l, rl_client_ip l))
     (request_logs (snd (log_exchange toy (\<lambda>_. 10) (\<lambda>_. JList [JStr ''?X-Amz-Signature=1'']) 5 sign_in empty_log))) =
     [(JDict [(''email'', JStr ''a@b.at''), (''Password'', JStr ''***'')], JList [JStr ''***''], ''10.0.0.1'')]"
proof
  show "log_ok (snd (log_exchange toy (\<lambda>_. 10) (\<lambda>_. JList [JStr ''?X-Amz-Signature=1'']) 5 sign_in empty_log))"
    by (rule secret_fields_are_masked [OF _ r_into_rtranclp, OF _ log_step.exchange])
      (simp add: log_ok_def agents_ok_def empty_log_def)
next
  have r: "redact (ex_input sign_in) = JDict [(''email'', JStr ''a@b.at''), (''Password'', JStr ''***'')]"
    "redact (JList [JStr ''?X-Amz-Signature=1'']) = JList [JStr ''***'']"
    "forwarded_ips (ex_forwarded_for sign_in) (ex_client_host sign_in) = [''10.0.0.1'', ''10.0.0.2'']"
    "should_skip (ex_path sign_in) (ex_skip_header sign_in) = False"
    "has_signature ''?X-Amz-Signature=1''"
    by code_simp+
  have e: "ex_chunks sign_in = [''{}'']" "ex_user_agent sign_in = Some ''Firefox''" "ex_input sign_in \<noteq> JNull"
    by (simp_all add: sign_in_def)
  have c: "capture_body (ex_chunks sign_in) = ([''{}''], None)"
    by (simp add: e(1) capture_body_def MAX_CAPTURED_BODY_BYTES_def)
  have g: "get_or_create_client_user_agent empty_log ''Firefox'' =
      (0, empty_log\<lparr>user_agents := [\<lparr>ua_id = 0, ua_string = ''Firefox''\<rparr>], log_next_id := 1\<rparr>)"
    by (simp add: get_or_create_client_user_agent_def empty_log_def get_by_def MAX_USER_AGENT_LENGTH_def)
  show "map (\<lambda>l. (rl_input l, rl_content l, rl_client_ip l))
     (request_logs (snd (log_exchange toy (\<lambda>_. 10) (\<lambda>_. JList [JStr ''?X-Amz-Signature=1'']) 5 sign_in empty_log))) =
     [(JDict [(''email'', JStr ''a@b.at''), (''Password'', JStr ''***'')], JList [JStr ''***''], ''10.0.0.1'')]"
    by (simp add: log_exchange_def record_request_def Let_def c g e(2,3) r cap_stored_size_def MAX_STORED_JSON_CHARS_def)
      (simp add: empty_log_def REDACTED_VALUE_def r(5))
qed

section \<open>The response\<close>

lemma replay_capture:
  "concat (replay (capture_from limit n chunks)) = concat chunks"
  "fst (capture_from limit n chunks) @ (case snd (capture_from limit n chunks) of None \<Rightarrow> [] | Some r \<Rightarrow> r) = chunks"
proof -
  show all: "fst (capture_from limit n chunks) @ (case snd (capture_from limit n chunks) of None \<Rightarrow> [] | Some r \<Rightarrow> r) = chunks"
    by (induction limit n chunks rule: capture_from.induct) (auto simp: Let_def split: prod.split)
  show "concat (replay (capture_from limit n chunks)) = concat chunks"
    using arg_cong [OF all, of concat] by (auto simp: replay_def split: prod.split option.splits)
qed

text \<open>The log never changes what the client receives: the bytes sent on are those of the response, of any length
  and cut into any chunks.\<close>
theorem logging_keeps_the_response:
  "concat (fst (log_exchange cr dumps_length try_parse_json now e db)) = concat (ex_chunks e)"
  by (simp add: log_exchange_def Let_def capture_body_def replay_capture)

section \<open>The clean-up\<close>

lemma find_key_absent:
  "k \<notin> key ` set rows \<Longrightarrow> List.find (\<lambda>r. key r = k \<and> Q r) (delete_where P rows) = None"
  "k \<notin> key ` set rows \<Longrightarrow> List.find (\<lambda>r. key r = k) (delete_where P rows) = None"
  by (induction rows) (auto simp: delete_where_def)

lemma find_delete_unique:
  "distinct (map key rows) \<Longrightarrow>
     List.find (\<lambda>r. key r = k) (delete_where P rows) = Option.bind (List.find (\<lambda>r. key r = k) rows) (\<lambda>r. if P r then None else Some r)"
proof (induction rows)
  case (Cons r rows)
  have "List.find (\<lambda>r. key r = k) (delete_where P rows) = None" if "key r = k"
    using Cons.prems that by (intro find_key_absent) simp
  then show ?case using Cons by auto
qed simp

definition session_over :: "auth_settings \<Rightarrow> instant \<Rightarrow> auth_session \<Rightarrow> bool" where
  "session_over cfg now s \<longleftrightarrow> is_idle cfg s now \<or> days (refresh_token_lifetime_days cfg) < now - s_created_at s"

lemma cleaned_session:
  assumes "distinct (map s_jti (sessions db))"
  shows "session_by_jti (cleanup_auth cfg now db) j =
    Option.bind (session_by_jti db j) (\<lambda>s. if session_over cfg now s then None else Some s)"
proof -
  have "sessions (cleanup_auth cfg now db) = delete_where (session_over cfg now) (sessions db)"
    by (auto simp: cleanup_auth_def delete_where_def session_over_def is_idle_def intro!: filter_cong)
  then show ?thesis by (simp add: session_by_jti_def find_delete_unique [OF assms])
qed

lemma au_members_cleaned [simp]: "au_members (cleanup_auth cfg now db) = au_members db"
  by (simp add: cleanup_auth_def)

lemma members_cleaned [simp]: "member_by_id (cleanup_auth cfg now db) k = member_by_id db k"
    "member_by_email (cleanup_auth cfg now db) e = member_by_email db e"
  by (simp_all add: member_by_id_def member_by_email_def)

lemma cleaned_refresh:
  assumes "distinct (map s_jti (sessions db))"
  shows "snd (refresh_session cr cfg (cleanup_auth cfg now db) now new_secret j secret) = Inr x \<longleftrightarrow>
    snd (refresh_session cr cfg db now new_secret j secret) = Inr x"
proof (cases "session_by_jti db j")
  case None
  then show ?thesis by (simp add: refresh_session_def cleaned_session [OF assms])
next
  case (Some s)
  show ?thesis
  proof (cases "session_over cfg now s")
    case True
    then show ?thesis using Some
      by (auto simp: refresh_session_def cleaned_session [OF assms] session_over_def rejected_refresh_def)
  next
    case False
    then show ?thesis using Some
      by (auto simp: refresh_session_def cleaned_session [OF assms] rejected_refresh_def split: option.split)
  qed
qed

lemma cleaned_reset:
  assumes "distinct (map rt_member_id (reset_tokens db))"
  shows "snd (execute_password_reset cr (cleanup_auth cfg now db) now email token pw) = Inr () \<longleftrightarrow>
    snd (execute_password_reset cr db now email token pw) = Inr ()"
proof -
  let ?old = "\<lambda>t. minutes 20 < now - rt_created_at t"
  have tokens: "reset_tokens (cleanup_auth cfg now db) = delete_where ?old (reset_tokens db)"
    by (auto simp: cleanup_auth_def delete_where_def intro!: filter_cong)
  have "List.find (\<lambda>t. rt_member_id t = k \<and> rt_token_hash t = h) (delete_where ?old (reset_tokens db)) =
      Option.bind (List.find (\<lambda>t. rt_member_id t = k \<and> rt_token_hash t = h) (reset_tokens db)) (\<lambda>t. if ?old t then None else Some t)" for k h
    using assms
  proof (induction "reset_tokens db" arbitrary: db)
    case (Cons t ts)
    have "List.find (\<lambda>t. rt_member_id t = k \<and> rt_token_hash t = h) (delete_where ?old ts) = None" if "rt_member_id t = k"
      using Cons.prems that Cons.hyps(2) [symmetric] by (intro find_key_absent) auto
    moreover have "List.find (\<lambda>t. rt_member_id t = k \<and> rt_token_hash t = h) (delete_where ?old ts) =
        Option.bind (List.find (\<lambda>t. rt_member_id t = k \<and> rt_token_hash t = h) ts) (\<lambda>t. if ?old t then None else Some t)"
      using Cons.hyps(1) [of "db\<lparr>reset_tokens := ts\<rparr>"] Cons.prems Cons.hyps(2) [symmetric] by simp
    ultimately show ?case using Cons.hyps(2) [symmetric] by auto
  qed simp
  then show ?thesis
    by (cases "member_by_email db email")
      (auto simp: execute_password_reset_def Let_def tokens split: option.split bind_splits)
qed

lemma touch_result:
  assumes "au_members db' = au_members db"
  shows "snd (touch_session cfg db' now s) = snd (touch_session cfg db now s)"
    "au_members (fst (touch_session cfg db' now s)) = au_members (fst (touch_session cfg db now s))"
  using assms by (auto simp: touch_session_def delete_session_def update_session_def update_member_row_def)

lemma authenticate_same_session:
  assumes "au_members db' = au_members db" and "\<And>e j. decode_access_token cr now token = Inr (e, j) \<Longrightarrow> session_by_jti db' j = session_by_jti db j"
  shows "snd (authenticate_access_token cr cfg db' now token) = snd (authenticate_access_token cr cfg db now token)"
proof (cases "decode_access_token cr now token")
  case (Inr x)
  obtain e j where x: "x = (e, j)" by (cases x)
  show ?thesis
  proof (cases "session_by_jti db j")
    case (Some s)
    obtain d r d' r' where t: "touch_session cfg db now s = (d, r)" "touch_session cfg db' now s = (d', r')" by fastforce
    have "r' = r" "au_members d' = au_members d" using touch_result [OF assms(1), of cfg now s] t by simp_all
    then show ?thesis using Inr x Some assms(2) t
      by (auto simp: authenticate_access_token_def split: sum.split option.split)
  qed (use Inr x assms(2) in \<open>simp add: authenticate_access_token_def\<close>)
qed (simp add: authenticate_access_token_def)

lemma idle_not_authenticated:
  assumes "decode_access_token cr now token = Inr (e, j)" "session_by_jti db j = Some s" "is_idle cfg s now"
  shows "snd (authenticate_access_token cr cfg db now token) \<noteq> Inr m"
  using assms by (simp add: authenticate_access_token_def touch_session_def)

lemma cleaned_authentication:
  assumes d: "distinct (map s_jti (sessions db))"
    and t: "decode_access_token cr now token = Inr (e, k)" "session_by_jti db k = Some s"
    "now - s_created_at s \<le> days (refresh_token_lifetime_days cfg)"
  shows "snd (authenticate_access_token cr cfg (cleanup_auth cfg now db) now token) = Inr m \<longleftrightarrow>
    snd (authenticate_access_token cr cfg db now token) = Inr m"
proof (cases "is_idle cfg s now")
  case True
  then have "session_by_jti (cleanup_auth cfg now db) k = None"
    by (simp add: cleaned_session [OF d] t(2) session_over_def)
  then have "snd (authenticate_access_token cr cfg (cleanup_auth cfg now db) now token) \<noteq> Inr m"
    using t(1) by (simp add: authenticate_access_token_def)
  then show ?thesis using idle_not_authenticated [OF t(1,2) True] by blast
next
  case False
  then have "session_by_jti (cleanup_auth cfg now db) k = session_by_jti db k"
    using t(3) by (simp add: cleaned_session [OF d] t(2) session_over_def)
  then show ?thesis using authenticate_same_session [of "cleanup_auth cfg now db" db cr now token cfg] t(1) by simp
qed

text \<open>C37: The hourly clean-up ends no session and no password reset that is still good: a refresh and a reset succeed
  after it exactly when they would have before it, and so does an access token whose session is within its lifetime.\<close>
theorem cleanup_signs_nobody_out:
  assumes ok: "auth_ok now db"
  shows "(snd (refresh_session cr cfg (cleanup_auth cfg now db) now new_secret j secret) = Inr x \<longleftrightarrow>
       snd (refresh_session cr cfg db now new_secret j secret) = Inr x) \<and>
     (snd (execute_password_reset cr (cleanup_auth cfg now db) now email reset pw) = Inr () \<longleftrightarrow>
       snd (execute_password_reset cr db now email reset pw) = Inr ()) \<and>
     (\<forall>e k s. decode_access_token cr now token = Inr (e, k) \<and> session_by_jti db k = Some s \<and>
       now - s_created_at s \<le> days (refresh_token_lifetime_days cfg) \<longrightarrow>
       (snd (authenticate_access_token cr cfg (cleanup_auth cfg now db) now token) = Inr m \<longleftrightarrow>
        snd (authenticate_access_token cr cfg db now token) = Inr m))"
proof -
  have d: "distinct (map s_jti (sessions db))" "distinct (map rt_member_id (reset_tokens db))"
    using ok by (simp_all add: auth_ok_def)
  show ?thesis
    by (intro conjI allI impI cleaned_refresh [OF d(1)] cleaned_reset [OF d(2)]) (metis cleaned_authentication [OF d(1)])
qed

lemma cleanup_signs_nobody_out_witness:
  "(snd (refresh_session toy defaults (cleanup_auth defaults 0 one_member) 0 ''new'' ''j1'' ''old'') =
      snd (refresh_session toy defaults one_member 0 ''new'' ''j1'' ''old'')) \<and>
   (case snd (refresh_session toy defaults one_member 0 ''new'' ''j1'' ''old'') of Inr _ \<Rightarrow> True | Inl _ \<Rightarrow> False) \<and>
   snd (execute_password_reset toy (cleanup_auth defaults 0 one_member) 0 ''a@b.at'' ''reset'' ''new'') = Inr ()"
proof (intro conjI)
  have r: "case snd (refresh_session toy defaults one_member 0 ''new'' ''j1'' ''old'') of Inr _ \<Rightarrow> True | Inl _ \<Rightarrow> False"
    by code_simp
  then show "case snd (refresh_session toy defaults one_member 0 ''new'' ''j1'' ''old'') of Inr _ \<Rightarrow> True | Inl _ \<Rightarrow> False" .
  obtain x where x: "snd (refresh_session toy defaults one_member 0 ''new'' ''j1'' ''old'') = Inr x"
    using r by (cases "snd (refresh_session toy defaults one_member 0 ''new'' ''j1'' ''old'')") auto
  then show "snd (refresh_session toy defaults (cleanup_auth defaults 0 one_member) 0 ''new'' ''j1'' ''old'') =
      snd (refresh_session toy defaults one_member 0 ''new'' ''j1'' ''old'')"
    using cleanup_signs_nobody_out [OF one_member_ok] by metis
  have e: "case snd (execute_password_reset toy one_member 0 ''a@b.at'' ''reset'' ''new'') of Inr u \<Rightarrow> True | Inl _ \<Rightarrow> False"
    by code_simp
  have "snd (execute_password_reset toy one_member 0 ''a@b.at'' ''reset'' ''new'') = Inr ()"
    using e by (cases "snd (execute_password_reset toy one_member 0 ''a@b.at'' ''reset'' ''new'')") auto
  then show "snd (execute_password_reset toy (cleanup_auth defaults 0 one_member) 0 ''a@b.at'' ''reset'' ''new'') = Inr ()"
    using cleanup_signs_nobody_out [OF one_member_ok] by metis
qed

end
