(* ===== verification/Spec2Isabelle.thy ===== *)
theory Spec2Isabelle
  imports Fee_Properties Permission_Properties Pointer_Forest P4x_Account_Properties P4x_Partner_Properties
    P4x_Category_Properties P4x_Import_Properties Archive_Properties
    Auth_Properties Register_Properties Public_Properties
    Anniversary_Properties Register_Image_Properties P4x_Route_Properties
    Job_Properties Request_Log_Properties
begin

text \<open>
  \<^bold>\<open>The program.\<close> vb-api is the back end of an association: a FastAPI application over PostgreSQL and an
  S3 store. Its parts are the member register ("Standesdatenbank"), the permissions its roles confer, signing
  in, the archive of documents, the ledger of the alumni association ("p4x"), the content of the public
  site, the log of requests, the backups, and the jobs that run at night. Requests come in through the routers (\<open>app/api\<close>), which check the
  permission and call the services (\<open>app/services\<close>); the services read and write the tables (\<open>app/models\<close>)
  and the object store (\<open>app/core/storage.py\<close>); the request models (\<open>app/schemas\<close>) say which bodies reach them.

  \<^bold>\<open>How it is modelled.\<close> A row is a record with the columns the code reads, a table a list of rows in the
  order the database returns them, the state of a subsystem a record of tables. An operation takes the state
  and returns the new one; what it raises is a value of the type exc in a sum, so that an operation that
  raises leaves the caller with the old state, as the rollback of its session does. What a request brings
  from outside is an argument: the day and the instant (one per request), the settings, the random bytes, the answers of
  code that is not in the repository. Identifiers are natural numbers handed out by a counter, amounts are exact rationals,
  texts are lists of the first 256 code points (the umlauts of messages are written in ASCII).

  \<^bold>\<open>The theories.\<close>

  \<^item> Prelude holds the errors, the result functions and the lemmas on lists, tables and maps every part
    uses; Calendar is \<open>datetime.date\<close> with its ISO texts and weeks; Members the row of
    \<open>app/models/member.py\<close>, its columns as a map from fields to Python values, and its names; Decimal_Text is
    \<open>Decimal(text)\<close>; Search_Text \<open>escape_like\<close> and a matcher of LIKE; Link_Text percent-encoding and the links to
    the object store; Object_Store the store as the services see it; Pointer_Forest parent pointers with the
    interfaces parent_store and guarded_parent_store (a checked change keeps the pointers free of cycles), which the
    directories of the archive and the Leibverhaeltnisse of the register instantiate; Ordered_Rows the rows
    an editor sorts by hand (\<open>reorder_service.py\<close>), with the interfaces ordered_rows and checked_rows, which
    quotes, hints, links and gallery images instantiate.

  \<^item> Permissions and Permission_Properties: \<open>permission_service.py\<close>. Who holds which permission, today.

  \<^item> Auth and Auth_Properties: \<open>auth_service.py\<close> and \<open>core/security.py\<close>. Sessions with rotating refresh secrets,
    password resets, Google bindings; the state machine of all requests, its invariant, and what a token
    or a secret is worth.

  \<^item> Register_Model, _Requests, _Save, _Entries, _Views: \<open>standesdb_service.py\<close>, \<open>standesdb_entry_service.py\<close>,
    \<open>member_change_request_service.py\<close>, \<open>role_history_service.py\<close> and \<open>schemas/standesdb.py\<close>. Register_Rows shows
    what one save does to a row, Register_Invariant and Register_Steps that every operation keeps the
    register consistent, Register_History that the role history, from any moment on, leads to the roles now held, Register_Tree that the family tree
    is complete, Register_Valid that stored rows are valid requests; Register_Properties has the properties.
    Register_Images and Register_Image_Properties add the images of members and contacts (\<open>image_service.py\<close>),
    Anniversaries and Anniversary_Properties the weekly chronicle (\<open>anniversary_service.py\<close>).

  \<^item> Archive_Model, _Dirs, _Files, _Browse, _Maintenance: \<open>archive_service.py\<close>, \<open>archive_store_cleanup.py\<close> and
    \<open>archive_maintenance_service.py\<close>. Archive_Access characterises permissions, trash and paths over the set of
    directories above; Archive_Invariant shows the tables and the forest kept by every operation,
    Archive_Content that every item keeps its content; Archive_Properties has the properties.

  \<^item> P4x_Model, P4x_Accounts, _Partners, _Categories, _Fees, _Import, _Responses, _Summary, _Routes: the
    services \<open>p4x_*.py\<close>, \<open>schemas/p4x.py\<close> and \<open>router_includes/p4x.py\<close>. P4x_Hits shows the stored filter hits to be
    a cache that is always current, Import_Text what the hash of a booking determines, Fee_Step, Fee_Balance
    and Fee_Bulk that the three ways to compute a fee balance agree, P4x_Ledger that every operation keeps
    the invariant of the ledger; the properties stand in P4x_Account_Properties, P4x_Category_Properties,
    P4x_Import_Properties, Fee_Properties and P4x_Route_Properties.

  \<^item> Public_Site, Public_Gallery, Public_Routes and Public_Properties: the services, schemas and routes
    of the public site and what its editors cannot break.

  \<^item> Backups and Backup_Properties: \<open>backup_service.py\<close> and \<open>s3_mirror_service.py\<close>. Names of backups and their times,
    retention, the choice and the steps of a restore with the PostgreSQL tools as a record of functions on the live
    database, the mirror of a bucket and what it leaves untouched.

  \<^item> Request_Log and Request_Log_Properties: \<open>activity_log_service.py\<close>, \<open>core/activity_logger.py\<close>,
    \<open>tracking_service.py\<close> and the deletions of \<open>job_cleanup\<close> in \<open>core/scheduler.py\<close>. What is stored of a request and
    which fields are masked (a password under another name is not), that logging does not change a response, and
    that the clean-up signs nobody out whose session is within its lifetime.

  \<^item> Jobs and Job_Properties: \<open>core/scheduler.py\<close>, \<open>job_schedule_registry.py\<close>, \<open>scheduled_task_run_service.py\<close> and
    \<open>storage_integrity_service.py\<close>. Each job as the mails it sends, the tables and stores it leaves and the record of its
    run; what a successful downsync has restored, and who is reminded of a debt. The downsync works on a live database
    whose table of runs is replaced with the rest: the record of the run goes to the table that is there at its end.

  \<^bold>\<open>Bounds.\<close> Loops over rows are structural. \<open>MAX_TREE_DEPTH\<close> (100) bounds the walks of the register as in the
    code; Python's own recursion in the archive (permissions, paths, trees) and in the family tree takes
    the number of free stack frames as an argument and raises RecursionError when none is left; the properties ask for
    as many frames as there are directories, or a hundred for the family tree. Numbers are Python's
    unbounded ones; where a column is narrower (NUMERIC(12,2), SMALLINT, VARCHAR) the bound is a check.

  \<^bold>\<open>Parameters.\<close> The PostgreSQL text and trigram searches with their ranks, the collation, SHA-256, bcrypt and the
    JWT library with its keys, Google's client, Pillow, the signing of links, the JSON reader and writer,
    \<open>str\<close> of a Decimal, \<open>pg_dump\<close>, \<open>pg_restore\<close> and \<open>psql\<close>, the time zone, the validation of an e-mail
    address, failures of the object store and of the mail server. Where a property needs something of them (a hash that is injective on the inputs compared, a token that decodes to what was encoded) it is a
    hypothesis with a witness.

  \<^bold>\<open>Not modelled.\<close> Middleware other than the request log, error handlers and the rate limits; log lines;
    models of responses that only copy columns; the cell formats of the workbooks; the rendering of
    e-mail templates and the delivery of mails; the ARQ worker's own queue and its computation of the next run; the exports of
    \<open>export_service.py\<close>; the Alembic migrations, whose resulting constraints are the checks of the models (the
    deferred check that direct categories add up is part of P4x_Categories, the checks of IBAN and BIC of P4x_Accounts; the
    other triggers maintain \<open>updated_at\<close>, repeat checks of the services, keep role events from being changed, and
    drop a reset token when the register changes an address, which no operation of Auth does); scripts. Concurrent requests are modelled where the code
    provides for them (uploads of images checked against the same table); elsewhere a request runs alone, as under the locks and the
    serialising constraints the code uses. Texts with NUL characters, which PostgreSQL refuses, are left out.
\<close>

end
